(* ===== verification/Prelude.thy ===== *)
theory Prelude
  imports Main "HOL-Library.Word" "HOL-Library.List_Lexorder"
begin

text \<open>
  Shared vocabulary of the development: Rust machine integers as words, the SDK's
  \<open>Result\<close> type with its error enum, UTF-8 strings and fixed-size byte arrays as types
  that carry their invariant, little-endian byte images, the reader and writer
  states that both binary formats use, and the calculus of round trips and of
  panic-freedom in which the codecs of the components are verified.
\<close>

unbundle bit_operations_syntax

named_theorems codec_simps \<open>definitions of readers and writers, unfolded in codec proofs\<close>
named_theorems safe_intros \<open>readers that never panic and never move backwards\<close>
named_theorems codec_intros \<open>writer and reader pairs that round-trip\<close>

section \<open>Machine integers and bytes\<close>

type_synonym u8 = "8 word"
type_synonym u16 = "16 word"
type_synonym u32 = "32 word"
type_synonym u64 = "64 word"
text \<open>Signed integers are the same words; \<open>sint\<close> reads their value.\<close>
type_synonym i8 = "8 word"
type_synonym i16 = "16 word"
type_synonym i32 = "32 word"
type_synonym i64 = "64 word"
type_synonym bytes = "8 word list"

lemma unat_ucast_small:
  fixes v :: "'a::len word"
  assumes "unat v < 2 ^ LENGTH('b::len)"
  shows "unat (ucast v :: 'b word) = unat v"
proof -
  have "unat (ucast v :: 'b word) = take_bit LENGTH('b) (unat v)" by (rule unsigned_ucast_eq)
  with assms show ?thesis by (simp only: take_bit_nat_eq_self)
qed

lemma ucast_ucast_small:
  fixes v :: "'a::len word"
  assumes "unat v < 2 ^ LENGTH('b::len)"
  shows "ucast (ucast v :: 'b word) = v"
proof -
  have "unat (ucast v :: 'b word) < 2 ^ LENGTH('a)"
    using unat_ucast_small [OF assms] unsigned_less [of v] by simp
  then have "unat (ucast (ucast v :: 'b word) :: 'a word) = unat (ucast v :: 'b word)"
    by (rule unat_ucast_small)
  then have "unat (ucast (ucast v :: 'b word) :: 'a word) = unat v"
    by (simp only: unat_ucast_small [OF assms])
  then show ?thesis by (simp only: word_unat_eq_iff)
qed

section \<open>Results\<close>

text \<open>
  The error enum of \<open>src/src/error.rs\<close>. A message is the literal text of the source up
  to the first interpolated value, which identifies the branch that failed.
\<close>

datatype phantasma_error =
    Encoding string
  | Serialization string
  | Crypto string
  | Builder string
  | Rpc "int option" string
  | Http string
  | Json string
  | Preflight string

text \<open>
  A Rust computation ends with a value, with an \<open>Err\<close>, or it panics. Panics are kept
  apart from errors because the SDK promises to answer malformed input with errors.
\<close>

datatype panic_reason =
    Arithmetic_Overflow | Stack_Overflow | Expect_Failed | Char_Boundary

datatype 'a result = Ok 'a | Err phantasma_error | Panic panic_reason

primrec bind_result :: "'a result \<Rightarrow> ('a \<Rightarrow> 'b result) \<Rightarrow> 'b result" where
  "bind_result (Ok x) f = f x"
| "bind_result (Err e) f = Err e"
| "bind_result (Panic p) f = Panic p"

primrec map_err :: "(phantasma_error \<Rightarrow> phantasma_error) \<Rightarrow> 'a result \<Rightarrow> 'a result" where
  "map_err f (Ok x) = Ok x"
| "map_err f (Err e) = Err (f e)"
| "map_err f (Panic p) = Panic p"

text \<open>\<open>iter().map(f).collect::<Result<Vec<_>>>()\<close>: the first failure wins.\<close>

primrec collect_result :: "('a \<Rightarrow> 'b result) \<Rightarrow> 'a list \<Rightarrow> 'b list result" where
  "collect_result f [] = Ok []"
| "collect_result f (x # xs) =
     bind_result (f x) (\<lambda>y. bind_result (collect_result f xs) (\<lambda>ys. Ok (y # ys)))"

definition panics :: "'a result \<Rightarrow> bool" where
  "panics r = (case r of Panic _ \<Rightarrow> True | _ \<Rightarrow> False)"

lemma panics_simps [simp]:
  "\<not> panics (Ok x)" "\<not> panics (Err e)" "panics (Panic p)"
  by (simp_all add: panics_def)

lemma bind_result_eq_Ok:
  "bind_result m f = Ok y \<longleftrightarrow> (\<exists>x. m = Ok x \<and> f x = Ok y)"
  by (cases m) auto

lemma bind_result_eq_Panic:
  "bind_result m f = Panic p \<longleftrightarrow> m = Panic p \<or> (\<exists>x. m = Ok x \<and> f x = Panic p)"
  by (cases m) auto

lemma panics_bind:
  "panics (bind_result m f) \<longleftrightarrow> panics m \<or> (\<exists>x. m = Ok x \<and> panics (f x))"
  by (cases m) auto

lemma bind_result_assoc:
  "bind_result (bind_result m f) g = bind_result m (\<lambda>x. bind_result (f x) g)"
  by (cases m) auto

lemma bind_result_cong [fundef_cong]:
  "m = m' \<Longrightarrow> (\<And>x. m' = Ok x \<Longrightarrow> f x = f' x) \<Longrightarrow> bind_result m f = bind_result m' f'"
  by (cases m') auto

lemma map_err_eq_Ok [simp]: "map_err f m = Ok y \<longleftrightarrow> m = Ok y"
  by (cases m) auto

lemma bind_result_Ok_right [simp]: "bind_result m Ok = m"
  by (cases m) auto

lemma panics_map_err [simp]: "panics (map_err f m) = panics m"
  by (cases m) auto

lemma collect_result_eq_Ok_length: "collect_result f xs = Ok ys \<Longrightarrow> length ys = length xs"
  by (induction xs arbitrary: ys) (auto simp: bind_result_eq_Ok)

lemma collect_result_Ok:
  "(\<And>x. x \<in> set xs \<Longrightarrow> f x = Ok (g x)) \<Longrightarrow> collect_result f xs = Ok (map g xs)"
  by (induction xs) auto

section \<open>Little-endian byte images\<close>

fun nat_to_le :: "nat \<Rightarrow> nat \<Rightarrow> bytes" where
  "nat_to_le 0 v = []"
| "nat_to_le (Suc n) v = word_of_nat v # nat_to_le n (v div 256)"

fun le_to_nat :: "bytes \<Rightarrow> nat" where
  "le_to_nat [] = 0"
| "le_to_nat (b # bs) = unat b + 256 * le_to_nat bs"

text \<open>The two's-complement value of a little-endian byte string.\<close>

definition le_to_int :: "bytes \<Rightarrow> int" where
  "le_to_int bs =
     (if bs \<noteq> [] \<and> 128 \<le> unat (last bs) then int (le_to_nat bs) - 256 ^ length bs
      else int (le_to_nat bs))"

lemma length_nat_to_le [simp]: "length (nat_to_le n v) = n"
  by (induction n arbitrary: v) auto

lemma unat_byte_of_nat [simp]: "unat (word_of_nat v :: 8 word) = v mod 256"
  by (simp add: unat_of_nat)

lemma unat_byte_less [simp]: "unat (b :: 8 word) < 256"
  using unsigned_less [of b] by simp

lemma le_digit_bound: "x < 256 \<Longrightarrow> m < N \<Longrightarrow> x + 256 * m < 256 * (N :: nat)"
  by linarith

lemma le_to_nat_bound: "le_to_nat bs < 256 ^ length bs"
  by (induction bs) (auto intro: le_digit_bound)

lemma le_to_nat_of_nat: "le_to_nat (nat_to_le n v) = v mod 256 ^ n"
proof (induction n arbitrary: v)
  case (Suc n)
  then show ?case by (simp add: mod_mult2_eq)
qed simp

lemma nat_to_le_of_le: "nat_to_le (length bs) (le_to_nat bs) = bs"
proof (induction bs)
  case (Cons b bs)
  have "(unat b + 256 * le_to_nat bs) div 256 = le_to_nat bs" by simp
  moreover have "(word_of_nat (unat b + 256 * le_to_nat bs) :: 8 word) = b"
    by (rule word_unat_eq_iff [THEN iffD2]) (simp add: unat_of_nat del: of_nat_add of_nat_mult)
  ultimately show ?case using Cons by simp
qed simp

lemma le_to_nat_append: "le_to_nat (xs @ ys) = le_to_nat xs + 256 ^ length xs * le_to_nat ys"
  by (induction xs) (auto simp: algebra_simps)

lemma le_to_nat_replicate0 [simp]: "le_to_nat (replicate n 0) = 0"
  by (induction n) auto

lemma le_to_nat_inject:
  "length xs = length ys \<Longrightarrow> le_to_nat xs = le_to_nat ys \<Longrightarrow> xs = ys"
  by (metis nat_to_le_of_le)

text \<open>\<open>to_le_bytes\<close> and \<open>from_le_bytes\<close> of the integer types.\<close>

definition to_le_bytes :: "'a::len word \<Rightarrow> bytes" where
  "to_le_bytes w = nat_to_le (LENGTH('a) div 8) (unat w)"

definition from_le_bytes :: "bytes \<Rightarrow> 'a::len word" where
  "from_le_bytes bs = word_of_nat (le_to_nat bs)"

text \<open>Binary evaluation: the images are computed on words and integers, never on unary naturals.\<close>

fun uint_to_le :: "nat \<Rightarrow> int \<Rightarrow> bytes" where
  "uint_to_le 0 v = []"
| "uint_to_le (Suc n) v = word_of_int v # uint_to_le n (v div 256)"

fun le_to_uint :: "bytes \<Rightarrow> int" where
  "le_to_uint [] = 0"
| "le_to_uint (b # bs) = uint b + 256 * le_to_uint bs"

lemma nat_to_le_uint: "nat_to_le n v = uint_to_le n (int v)"
  by (induction n arbitrary: v) (simp_all add: zdiv_int)

lemma int_le_to_nat: "int (le_to_nat bs) = le_to_uint bs"
  by (induction bs) simp_all

lemma to_le_bytes_code [code]:
  "to_le_bytes (w :: 'a::len word) = uint_to_le (LENGTH('a) div 8) (uint w)"
  by (simp add: to_le_bytes_def nat_to_le_uint)

lemma from_le_bytes_code [code]: "from_le_bytes bs = word_of_int (le_to_uint bs)"
  by (simp add: from_le_bytes_def flip: int_le_to_nat)

lemma le_to_int_code [code]:
  "le_to_int bs =
     (if bs \<noteq> [] \<and> 128 \<le> uint (last bs) then le_to_uint bs - 256 ^ length bs else le_to_uint bs)"
proof -
  have "128 \<le> unat b \<longleftrightarrow> 128 \<le> uint b" for b :: "8 word"
    using of_nat_le_iff [of 128 "unat b", where ?'a = int] by simp
  then show ?thesis by (simp add: le_to_int_def int_le_to_nat)
qed

lemma length_to_le_bytes [simp]: "length (to_le_bytes (w :: 'a::len word)) = LENGTH('a) div 8"
  by (simp add: to_le_bytes_def)

lemma from_to_le_bytes:
  assumes "LENGTH('a::len) = 8 * n"
  shows "from_le_bytes (to_le_bytes (w :: 'a word)) = w"
proof -
  have "unat w < 2 ^ (8 * n)"
    using unsigned_less [of w] assms by simp
  then have "unat w mod 256 ^ n = unat w"
    by (simp add: power_mult)
  then show ?thesis
    using assms by (simp add: from_le_bytes_def to_le_bytes_def le_to_nat_of_nat)
qed

lemma to_from_le_bytes:
  assumes "LENGTH('a::len) = 8 * length bs"
  shows "to_le_bytes (from_le_bytes bs :: 'a word) = bs"
proof -
  have "(256::nat) ^ length bs = 2 ^ LENGTH('a)"
    using assms by (simp add: power_mult)
  then have "le_to_nat bs mod 2 ^ LENGTH('a) = le_to_nat bs"
    using le_to_nat_bound [of bs] by simp
  then show ?thesis
    using assms by (simp add: from_le_bytes_def to_le_bytes_def unat_of_nat nat_to_le_of_le)
qed

lemma from_to_le_bytes_widths [simp]:
  "from_le_bytes (to_le_bytes (w16 :: u16)) = w16"
  "from_le_bytes (to_le_bytes (w32 :: u32)) = w32"
  "from_le_bytes (to_le_bytes (w64 :: u64)) = w64"
  by (rule from_to_le_bytes [where n = 2], simp)
     (rule from_to_le_bytes [where n = 4], simp, rule from_to_le_bytes [where n = 8], simp)


section \<open>Strings\<close>

text \<open>
  A Rust \<open>String\<close> is a byte vector that is valid UTF-8. \<open>utf8_valid\<close> is the check of
  \<open>String::from_utf8\<close>: no overlong forms, no surrogates, nothing above U+10FFFF.
\<close>

definition utf8_cont :: "u8 \<Rightarrow> bool" where
  "utf8_cont b = (0x80 \<le> b \<and> b \<le> 0xBF)"

text \<open>The number of bytes the lead byte announces (0 when it cannot lead).\<close>

definition utf8_lead :: "u8 \<Rightarrow> nat" where
  "utf8_lead a =
     (if a < 0x80 then 1
      else if 0xC2 \<le> a \<and> a \<le> 0xDF then 2
      else if 0xE0 \<le> a \<and> a \<le> 0xEF then 3
      else if 0xF0 \<le> a \<and> a \<le> 0xF4 then 4
      else 0)"

text \<open>The narrower ranges of the second byte behind E0, ED, F0 and F4.\<close>

definition utf8_second :: "u8 \<Rightarrow> u8 \<Rightarrow> bool" where
  "utf8_second a b =
     ((a = 0xE0 \<longrightarrow> 0xA0 \<le> b) \<and> (a = 0xED \<longrightarrow> b \<le> 0x9F)
      \<and> (a = 0xF0 \<longrightarrow> 0x90 \<le> b) \<and> (a = 0xF4 \<longrightarrow> b \<le> 0x8F))"

text \<open>The width of the code point at the front, 0 when there is none.\<close>

definition utf8_width :: "bytes \<Rightarrow> nat" where
  "utf8_width bs =
     (case bs of
        [] \<Rightarrow> 0
      | a # r \<Rightarrow>
          (let n = utf8_lead a
           in if n \<le> Suc (length r) \<and> list_all utf8_cont (take (n - 1) r)
                 \<and> (2 \<le> n \<longrightarrow> utf8_second a (r ! 0))
              then n else 0))"

function utf8_valid :: "bytes \<Rightarrow> bool" where
  "utf8_valid bs =
     (if bs = [] then True
      else if utf8_width bs = 0 then False
      else utf8_valid (drop (utf8_width bs) bs))"
  by pat_completeness auto
termination
  by (relation "measure length") auto

declare utf8_valid.simps [simp del]

lemma utf8_valid_Nil [simp]: "utf8_valid []"
  by (simp add: utf8_valid.simps)

lemma utf8_width_le: "utf8_width bs \<le> length bs"
  by (cases bs) (simp_all add: utf8_width_def Let_def)

lemma utf8_width_append: "0 < utf8_width xs \<Longrightarrow> utf8_width (xs @ ys) = utf8_width xs"
  by (cases xs) (auto simp: utf8_width_def Let_def nth_append split: if_split_asm)

lemma utf8_valid_append: "utf8_valid xs \<Longrightarrow> utf8_valid ys \<Longrightarrow> utf8_valid (xs @ ys)"
proof (induction xs rule: utf8_valid.induct)
  case (1 xs)
  show ?case
  proof (cases "xs = []")
    case True
    with 1 show ?thesis by simp
  next
    case False
    with "1.prems"(1) have w: "0 < utf8_width xs" "utf8_valid (drop (utf8_width xs) xs)"
      by (simp_all add: utf8_valid.simps [of xs] split: if_split_asm)
    with 1 False have "utf8_valid (drop (utf8_width xs) xs @ ys)" by blast
    with w(1) False show ?thesis
      by (simp add: utf8_valid.simps [of "xs @ ys"] utf8_width_append utf8_width_le)
  qed
qed

lemma utf8_valid_Cons_ascii [simp]: "a < 0x80 \<Longrightarrow> utf8_valid (a # bs) = utf8_valid bs"
  by (simp add: utf8_valid.simps [of "a # bs"] utf8_width_def utf8_lead_def)

typedef rstring = "{bs :: bytes. utf8_valid bs}"
  morphisms string_bytes Abs_rstring
  by (rule exI [of _ "[]"]) simp

declare string_bytes_inverse [simp, code abstype]

text \<open>The constructor used behind a successful check.\<close>

definition string_of :: "bytes \<Rightarrow> rstring" where
  "string_of bs = Abs_rstring (if utf8_valid bs then bs else [])"

definition from_utf8 :: "bytes \<Rightarrow> rstring option" where
  "from_utf8 bs = (if utf8_valid bs then Some (string_of bs) else None)"

text \<open>Source literals.\<close>

definition lit :: "string \<Rightarrow> rstring" where
  "lit s = string_of (map of_char s)"

lemma utf8_valid_string_bytes [simp]: "utf8_valid (string_bytes s)"
  using string_bytes by simp

lemma string_bytes_string_of [simp, code abstract]:
  "string_bytes (string_of bs) = (if utf8_valid bs then bs else [])"
  by (simp add: string_of_def Abs_rstring_inverse)

lemma string_of_string_bytes [simp]: "string_of (string_bytes s) = s"
  by (simp add: string_bytes_inject [symmetric])

lemma from_utf8_string_bytes [simp]: "from_utf8 (string_bytes s) = Some s"
  by (simp add: from_utf8_def)

lemma from_utf8_eq_Some: "from_utf8 bs = Some s \<longleftrightarrow> string_bytes s = bs"
  by (auto simp: from_utf8_def)

instantiation rstring :: equal
begin
definition equal_rstring :: "rstring \<Rightarrow> rstring \<Rightarrow> bool" where
  "equal_rstring a b = (string_bytes a = string_bytes b)"
instance
  by standard (simp add: equal_rstring_def string_bytes_inject)
end

text \<open>\<open>Ord\<close> of \<open>str\<close> compares the bytes lexicographically.\<close>

instantiation rstring :: linorder
begin
definition less_eq_rstring :: "rstring \<Rightarrow> rstring \<Rightarrow> bool" where
  "less_eq_rstring a b = (string_bytes a \<le> string_bytes b)"
definition less_rstring :: "rstring \<Rightarrow> rstring \<Rightarrow> bool" where
  "less_rstring a b = (string_bytes a < string_bytes b)"
instance
  by standard
    (auto simp: less_eq_rstring_def less_rstring_def string_bytes_inject order.strict_iff_order)
end

text \<open>\<open>to_ascii_lowercase\<close> and \<open>eq_ignore_ascii_case\<close> touch the letters A-Z only.\<close>

definition ascii_lower :: "u8 \<Rightarrow> u8" where
  "ascii_lower b = (if 0x41 \<le> b \<and> b \<le> 0x5A then b + 0x20 else b)"

lemma unat_ascii_lower:
  "unat (ascii_lower b) = (if 0x41 \<le> unat b \<and> unat b \<le> 0x5A then unat b + 32 else unat b)"
proof (cases "0x41 \<le> unat b \<and> unat b \<le> 0x5A")
  case True
  then have "unat (b + 0x20) = unat b + 32"
    by (subst unat_word_ariths) simp
  with True show ?thesis by (simp add: ascii_lower_def word_le_nat_alt)
next
  case False
  then have "\<not> (0x41 \<le> b \<and> b \<le> 0x5A)" by (simp add: word_le_nat_alt)
  with False show ?thesis unfolding ascii_lower_def by (simp only: if_False if_not_P)
qed

lemma ascii_lower_idem [simp]: "ascii_lower (ascii_lower b) = ascii_lower b"
  by (rule word_unat_eq_iff [THEN iffD2]) (simp add: unat_ascii_lower)

lemma ascii_lower_high [simp]: "0x80 \<le> b \<Longrightarrow> ascii_lower b = b"
  by (rule word_unat_eq_iff [THEN iffD2]) (simp add: unat_ascii_lower word_le_nat_alt)

lemma ascii_lower_less [simp]: "ascii_lower b < 0x80 \<longleftrightarrow> b < 0x80"
  by (simp add: unat_ascii_lower word_less_nat_alt)

lemma ascii_lower_cont: "utf8_cont b \<Longrightarrow> ascii_lower b = b"
  by (simp add: utf8_cont_def)

lemma map_lower_cont: "list_all utf8_cont bs \<Longrightarrow> map ascii_lower bs = bs"
  by (induction bs) (auto simp: ascii_lower_cont)

lemma utf8_width_map_lower:
  assumes "0 < utf8_width bs"
  shows "utf8_width (map ascii_lower bs) = utf8_width bs"
proof (cases bs)
  case (Cons a r)
  show ?thesis
  proof (cases "a < 0x80")
    case True
    then show ?thesis by (simp add: Cons utf8_width_def utf8_lead_def)
  next
    case False
    then have a: "ascii_lower a = a" by simp
    from assms have c: "list_all utf8_cont (take (utf8_lead a - 1) r)"
      by (auto simp: Cons utf8_width_def Let_def split: if_split_asm)
    have "utf8_second a (map ascii_lower r ! 0) = utf8_second a (r ! 0)"
      if "2 \<le> utf8_lead a" "utf8_lead a \<le> Suc (length r)"
      using c that by (cases r; cases "utf8_lead a - 1") (auto simp: ascii_lower_cont)
    with c show ?thesis
      by (auto simp: Cons a utf8_width_def Let_def take_map map_lower_cont)
  qed
qed (simp add: utf8_width_def)

lemma utf8_valid_ascii_lower: "utf8_valid bs \<Longrightarrow> utf8_valid (map ascii_lower bs)"
proof (induction bs rule: utf8_valid.induct)
  case (1 bs)
  then show ?case
    by (cases "bs = []")
      (auto simp: utf8_valid.simps [of bs] utf8_valid.simps [of "map ascii_lower bs"]
        utf8_width_map_lower drop_map split: if_split_asm)
qed

definition to_ascii_lowercase :: "rstring \<Rightarrow> rstring" where
  "to_ascii_lowercase s = string_of (map ascii_lower (string_bytes s))"

lemma string_bytes_lowercase [simp]:
  "string_bytes (to_ascii_lowercase s) = map ascii_lower (string_bytes s)"
  by (simp add: to_ascii_lowercase_def utf8_valid_ascii_lower)

definition eq_ignore_ascii_case :: "rstring \<Rightarrow> rstring \<Rightarrow> bool" where
  "eq_ignore_ascii_case a b =
     (map ascii_lower (string_bytes a) = map ascii_lower (string_bytes b))"

lemma to_ascii_lowercase_idem [simp]:
  "to_ascii_lowercase (to_ascii_lowercase s) = to_ascii_lowercase s"
  by (simp add: string_bytes_inject [symmetric])

lemma eq_ignore_ascii_case_iff:
  "eq_ignore_ascii_case a b \<longleftrightarrow> to_ascii_lowercase a = to_ascii_lowercase b"
  by (simp add: eq_ignore_ascii_case_def string_bytes_inject [symmetric])

section \<open>Fixed-size byte arrays\<close>

typedef (overloaded) 'n byte_array = "{bs :: bytes. length bs = LENGTH('n::len)}"
  morphisms array_bytes Abs_byte_array
  by (rule exI [of _ "replicate LENGTH('n) 0"]) simp

declare array_bytes_inverse [simp, code abstype]

definition array_of :: "bytes \<Rightarrow> 'n::len byte_array" where
  "array_of bs = Abs_byte_array (if length bs = LENGTH('n) then bs else replicate LENGTH('n) 0)"

type_synonym bytes16 = "16 byte_array"
type_synonym bytes32 = "32 byte_array"
type_synonym bytes64 = "64 byte_array"

lemma length_array_bytes [simp]: "length (array_bytes (a :: 'n::len byte_array)) = LENGTH('n)"
  using array_bytes [of a] by simp

lemma array_bytes_array_of [simp, code abstract]:
  "array_bytes (array_of bs :: 'n::len byte_array) =
     (if length bs = LENGTH('n) then bs else replicate LENGTH('n) 0)"
  by (simp add: array_of_def Abs_byte_array_inverse)

lemma array_of_array_bytes [simp]: "array_of (array_bytes a) = a"
  by (simp add: array_bytes_inject [symmetric])

instantiation byte_array :: (len) equal
begin
definition equal_byte_array :: "'a byte_array \<Rightarrow> 'a byte_array \<Rightarrow> bool" where
  "equal_byte_array a b = (array_bytes a = array_bytes b)"
instance
  by standard (simp add: equal_byte_array_def array_bytes_inject)
end

instantiation byte_array :: (len) linorder
begin
definition less_eq_byte_array :: "'a byte_array \<Rightarrow> 'a byte_array \<Rightarrow> bool" where
  "less_eq_byte_array a b = (array_bytes a \<le> array_bytes b)"
definition less_byte_array :: "'a byte_array \<Rightarrow> 'a byte_array \<Rightarrow> bool" where
  "less_byte_array a b = (array_bytes a < array_bytes b)"
instance
  by standard
    (auto simp: less_eq_byte_array_def less_byte_array_def array_bytes_inject order.strict_iff_order)
end

section \<open>Ordered maps\<close>

text \<open>A \<open>BTreeMap\<close> is the list of its entries in the order of the keys.\<close>

fun btree_insert :: "'k::linorder \<Rightarrow> 'v \<Rightarrow> ('k \<times> 'v) list \<Rightarrow> ('k \<times> 'v) list" where
  "btree_insert k v [] = [(k, v)]"
| "btree_insert k v ((k', v') # m) =
     (if k < k' then (k, v) # (k', v') # m
      else if k = k' then (k, v) # m
      else (k', v') # btree_insert k v m)"

lemma map_of_btree_insert: "sorted_wrt (<) (map fst m) \<Longrightarrow> map_of (btree_insert k v m) = (map_of m)(k \<mapsto> v)"
  by (induction k v m rule: btree_insert.induct) (auto simp: fun_eq_iff map_of_eq_None_iff)

lemma btree_insert_last: "(\<And>k' v'. (k', v') \<in> set m \<Longrightarrow> k' < k) \<Longrightarrow> btree_insert k v m = m @ [(k, v)]"
  by (induction k v m rule: btree_insert.induct) (auto simp: not_less_iff_gr_or_eq dest: order.asym)

lemma set_btree_insert: "set (btree_insert k v m) \<subseteq> insert (k, v) (set m)"
  by (induction k v m rule: btree_insert.induct) auto

lemma sorted_btree_insert: "sorted_wrt (<) (map fst m) \<Longrightarrow> sorted_wrt (<) (map fst (btree_insert k v m))"
proof (induction k v m rule: btree_insert.induct)
  case (2 k v k' v' m)
  then show ?case
    using set_btree_insert [of k v m] by (force simp: not_less_iff_gr_or_eq)
qed simp

end
