(* ===== verification/Codec.thy ===== *)
theory Codec
  imports Prelude
begin

text \<open>
  The calculus in which both binary formats are verified. A reader walks over a byte
  slice by an offset, a writer appends to a buffer; the structs \<open>BinaryReader\<close>,
  \<open>CarbonReader\<close>, \<open>BinaryWriter\<close> and \<open>CarbonWriter\<close> all have this shape.
  \<open>round_trip a p v\<close> says that what the write action \<open>a\<close> appends is read back by \<open>p\<close>
  as \<open>v\<close>, wherever it stands in a stream; \<open>safe_reader p\<close> says that \<open>p\<close> never panics,
  never moves backwards and never leaves the slice. Both compose along the
  sequencing of reads and writes, so a codec of a struct is verified field by field.
\<close>

section \<open>Readers\<close>

record byte_reader =
  rd_data :: bytes
  rd_offset :: nat

type_synonym 'a reader = "byte_reader \<Rightarrow> ('a \<times> byte_reader) result"

definition rd_return :: "'a \<Rightarrow> 'a reader" where
  "rd_return x r = Ok (x, r)"

definition rd_fail :: "phantasma_error \<Rightarrow> 'a reader" where
  "rd_fail e r = Err e"

definition rd_panic :: "panic_reason \<Rightarrow> 'a reader" where
  "rd_panic p r = Panic p"

text \<open>The \<open>?\<close> operator between two reads.\<close>

definition rd_bind :: "'a reader \<Rightarrow> ('a \<Rightarrow> 'b reader) \<Rightarrow> 'b reader" where
  "rd_bind p f r = bind_result (p r) (\<lambda>(x, r'). f x r')"

text \<open>\<open>(0..count).map(|_| p(reader)).collect()\<close>.\<close>

primrec rd_repeat :: "nat \<Rightarrow> 'a reader \<Rightarrow> 'a list reader" where
  "rd_repeat 0 p = rd_return []"
| "rd_repeat (Suc n) p = rd_bind p (\<lambda>x. rd_bind (rd_repeat n p) (\<lambda>xs. rd_return (x # xs)))"

text \<open>\<open>for item in items { p(item, reader)? }\<close>, collecting the results.\<close>

primrec rd_for :: "'b list \<Rightarrow> ('b \<Rightarrow> 'a reader) \<Rightarrow> 'a list reader" where
  "rd_for [] p = rd_return []"
| "rd_for (y # ys) p = rd_bind (p y) (\<lambda>x. rd_bind (rd_for ys p) (\<lambda>xs. rd_return (x # xs)))"

definition reader_at :: "bytes \<Rightarrow> bytes \<Rightarrow> byte_reader" where
  "reader_at done rest = \<lparr>rd_data = done @ rest, rd_offset = length done\<rparr>"

definition parses :: "'a reader \<Rightarrow> bytes \<Rightarrow> 'a \<Rightarrow> bool" where
  "parses p bs v \<longleftrightarrow>
     (\<forall>pre post. p (reader_at pre (bs @ post)) = Ok (v, reader_at (pre @ bs) post))"

lemma parses_return [intro]: "parses (rd_return v) [] v"
  by (simp add: parses_def rd_return_def)

lemma parses_bind:
  assumes "parses p b1 x" and "parses (f x) b2 y"
  shows "parses (rd_bind p f) (b1 @ b2) y"
  using assms by (simp add: parses_def rd_bind_def)

lemma parses_repeat:
  "(\<And>v. v \<in> set vs \<Longrightarrow> parses p (enc v) v) \<Longrightarrow>
     parses (rd_repeat (length vs) p) (concat (map enc vs)) vs"
proof (induction vs)
  case (Cons v vs)
  have "parses (rd_bind (rd_repeat (length vs) p) (\<lambda>xs. rd_return (v # xs)))
      (concat (map enc vs) @ []) (v # vs)"
    using Cons by (intro parses_bind) auto
  then show ?case
    using Cons.prems by (auto intro!: parses_bind [where x = v])
qed auto

lemma parses_reader_at: "parses p bs v \<Longrightarrow> p (reader_at pre (bs @ post)) = Ok (v, reader_at (pre @ bs) post)"
  by (simp add: parses_def)

lemma parses_start: "parses p bs v \<Longrightarrow> p (reader_at [] bs) = Ok (v, reader_at bs [])"
  using parses_reader_at [of p bs v "[]" "[]"] by simp

text \<open>A stream is read in one way only: no encoding continues another.\<close>

lemma parses_prefix_unique:
  assumes "parses p bs v" and "parses p cs w" and "bs @ xs = cs @ ys"
  shows "v = w \<and> bs = cs"
proof -
  have "p (reader_at [] (bs @ xs)) = Ok (v, reader_at bs xs)"
    using parses_reader_at [OF assms(1), of "[]" xs] by simp
  moreover have "p (reader_at [] (bs @ xs)) = Ok (w, reader_at cs ys)"
    using parses_reader_at [OF assms(2), of "[]" ys] assms(3) by simp
  ultimately have "v = w" "length bs = length cs"
    by (auto simp: reader_at_def)
  with assms(3) show ?thesis by simp
qed

section \<open>Writers\<close>

record byte_writer =
  wr_buffer :: bytes

type_synonym wr_action = "byte_writer \<Rightarrow> byte_writer result"

definition wr_bytes :: "bytes \<Rightarrow> wr_action" where
  "wr_bytes bs w = Ok (w\<lparr>wr_buffer := wr_buffer w @ bs\<rparr>)"

definition wr_fail :: "phantasma_error \<Rightarrow> wr_action" where
  "wr_fail e w = Err e"

text \<open>Statements run in order; the first error ends the block.\<close>

primrec wr_seq :: "wr_action list \<Rightarrow> wr_action" where
  "wr_seq [] w = Ok w"
| "wr_seq (a # as) w = bind_result (a w) (wr_seq as)"

text \<open>\<open>for value in values { f(value)? }\<close>\<close>

definition wr_for :: "'a list \<Rightarrow> ('a \<Rightarrow> wr_action) \<Rightarrow> wr_action" where
  "wr_for xs f = wr_seq (map f xs)"

definition writes :: "wr_action \<Rightarrow> bytes \<Rightarrow> bool" where
  "writes a bs \<longleftrightarrow> (\<forall>w. a w = Ok (w\<lparr>wr_buffer := wr_buffer w @ bs\<rparr>))"

lemma writes_bytes [intro, simp]: "writes (wr_bytes bs) bs"
  by (simp add: writes_def wr_bytes_def)

lemma writes_Nil [intro, simp]: "writes (wr_seq []) []"
  by (simp add: writes_def)

lemma writes_Cons: "writes a b1 \<Longrightarrow> writes (wr_seq as) b2 \<Longrightarrow> writes (wr_seq (a # as)) (b1 @ b2)"
  by (simp add: writes_def)

lemma writes_for:
  "(\<And>v. v \<in> set vs \<Longrightarrow> writes (f v) (enc v)) \<Longrightarrow> writes (wr_for vs f) (concat (map enc vs))"
  by (induction vs) (auto simp: wr_for_def intro!: writes_Cons)

lemma writes_unique: "writes a bs \<Longrightarrow> writes a cs \<Longrightarrow> bs = cs"
  unfolding writes_def by (drule spec [of _ "\<lparr>wr_buffer = []\<rparr>"])+ simp

section \<open>Round trips\<close>

definition round_trip :: "wr_action \<Rightarrow> 'a reader \<Rightarrow> 'a \<Rightarrow> bool" where
  "round_trip a p v \<longleftrightarrow> (\<exists>bs. writes a bs \<and> parses p bs v)"

text \<open>The same with at least one byte on the wire, which array readers rely on.\<close>

definition round_trip1 :: "wr_action \<Rightarrow> 'a reader \<Rightarrow> 'a \<Rightarrow> bool" where
  "round_trip1 a p v \<longleftrightarrow> (\<exists>bs. writes a bs \<and> parses p bs v \<and> bs \<noteq> [])"

lemma round_trip1_imp: "round_trip1 a p v \<Longrightarrow> round_trip a p v"
  by (auto simp: round_trip_def round_trip1_def)

lemma round_trip_nil: "u = v \<Longrightarrow> round_trip (wr_seq []) (rd_return u) v"
  by (auto simp: round_trip_def)

lemma round_trip_cons:
  assumes "round_trip1 a p x" and "round_trip (wr_seq as) (f x) v"
  shows "round_trip (wr_seq (a # as)) (rd_bind p f) v"
  using assms unfolding round_trip_def round_trip1_def by (blast intro: writes_Cons parses_bind)

lemma round_trip1_cons:
  assumes "round_trip1 a p x" and "round_trip (wr_seq as) (f x) v"
  shows "round_trip1 (wr_seq (a # as)) (rd_bind p f) v"
proof -
  from assms obtain b1 b2 where "writes a b1" "parses p b1 x" "b1 \<noteq> []"
    "writes (wr_seq as) b2" "parses (f x) b2 v"
    by (auto simp: round_trip_def round_trip1_def)
  then have "writes (wr_seq (a # as)) (b1 @ b2)" "parses (rd_bind p f) (b1 @ b2) v" "b1 @ b2 \<noteq> []"
    by (auto intro: writes_Cons parses_bind)
  then show ?thesis by (auto simp: round_trip1_def)
qed

text \<open>The last statement of a block, and one that may write nothing.\<close>

lemma round_trip_single: "round_trip a p v \<Longrightarrow> round_trip (wr_seq [a]) p v"
  unfolding round_trip_def using writes_Cons [OF _ writes_Nil] by (metis append_Nil2)

lemma round_trip1_single: "round_trip1 a p v \<Longrightarrow> round_trip1 (wr_seq [a]) p v"
  unfolding round_trip1_def using writes_Cons [OF _ writes_Nil] by (metis append_Nil2)

lemma round_trip_cons0:
  assumes "round_trip a p x" and "round_trip (wr_seq as) (f x) v"
  shows "round_trip (wr_seq (a # as)) (rd_bind p f) v"
  using assms unfolding round_trip_def by (blast intro: writes_Cons parses_bind)

text \<open>A block of several statements that together write one value.\<close>

lemma wr_seq_append: "wr_seq (as @ bs) w = bind_result (wr_seq as w) (wr_seq bs)"
  by (induction as arbitrary: w) (auto simp: bind_result_assoc intro: bind_result_cong)

lemma writes_append: "writes (wr_seq as) b1 \<Longrightarrow> writes (wr_seq bs) b2 \<Longrightarrow> writes (wr_seq (as @ bs)) (b1 @ b2)"
  by (simp add: writes_def wr_seq_append)

lemma rd_bind_assoc: "rd_bind (rd_bind p f) g = rd_bind p (\<lambda>x. rd_bind (f x) g)"
  by (auto simp: rd_bind_def fun_eq_iff bind_result_assoc intro: bind_result_cong)

lemma round_trip_block:
  assumes "round_trip (wr_seq as) p x" and "round_trip (wr_seq bs) (f x) v"
  shows "round_trip (wr_seq (as @ bs)) (rd_bind p f) v"
  using assms unfolding round_trip_def by (blast intro: writes_append parses_bind)

lemma round_trip1_block:
  assumes "round_trip1 (wr_seq as) p x" and "round_trip (wr_seq bs) (f x) v"
  shows "round_trip1 (wr_seq (as @ bs)) (rd_bind p f) v"
proof -
  from assms obtain b1 b2 where b: "writes (wr_seq as) b1" "parses p b1 x" "b1 \<noteq> []"
    "writes (wr_seq bs) b2" "parses (f x) b2 v"
    by (auto simp: round_trip_def round_trip1_def)
  then have "writes (wr_seq (as @ bs)) (b1 @ b2)" "parses (rd_bind p f) (b1 @ b2) v" "b1 @ b2 \<noteq> []"
    by (auto intro: writes_append parses_bind)
  then show ?thesis by (auto simp: round_trip1_def)
qed

text \<open>A struct with one field, written without a block of statements.\<close>

lemma round_trip1_map:
  assumes "round_trip1 a p x" and "f x = rd_return v"
  shows "round_trip1 a (rd_bind p f) v"
proof -
  from assms obtain bs where "writes a bs" "parses p bs x" "bs \<noteq> []"
    by (auto simp: round_trip1_def)
  moreover from this assms have "parses (rd_bind p f) (bs @ []) v"
    by (intro parses_bind) auto
  ultimately show ?thesis by (auto simp: round_trip1_def)
qed

lemma round_trip1_bytes:
  "parses p bs v \<Longrightarrow> bs \<noteq> [] \<Longrightarrow> round_trip1 (wr_bytes bs) p v"
  by (auto simp: round_trip1_def)

lemmas round_trip_struct = round_trip1_cons round_trip_cons round_trip_nil

section \<open>Readers that never panic\<close>

definition reader_wf :: "byte_reader \<Rightarrow> bool" where
  "reader_wf r \<longleftrightarrow> rd_offset r \<le> length (rd_data r)"

definition advances :: "byte_reader \<Rightarrow> byte_reader \<Rightarrow> bool" where
  "advances r r' \<longleftrightarrow>
     rd_data r' = rd_data r \<and> rd_offset r \<le> rd_offset r' \<and> rd_offset r' \<le> length (rd_data r)"

text \<open>The same cursor over a longer slice.\<close>

definition longer :: "bytes \<Rightarrow> byte_reader \<Rightarrow> byte_reader" where
  "longer ext r = r\<lparr>rd_data := rd_data r @ ext\<rparr>"

text \<open>
  A successful read stays inside the slice, and bytes behind it do not change it.
\<close>

definition settled :: "'a reader \<Rightarrow> byte_reader \<Rightarrow> 'a \<Rightarrow> byte_reader \<Rightarrow> bool" where
  "settled p r x r' \<longleftrightarrow> advances r r' \<and> (\<forall>ext. p (longer ext r) = Ok (x, longer ext r'))"

definition safe_reader :: "'a reader \<Rightarrow> bool" where
  "safe_reader p \<longleftrightarrow>
     (\<forall>r. reader_wf r \<longrightarrow>
        (case p r of Ok (x, r') \<Rightarrow> settled p r x r' | Err _ \<Rightarrow> True | Panic _ \<Rightarrow> False))"

lemma reader_wf_at [simp]: "reader_wf (reader_at pre post)"
  by (simp add: reader_wf_def reader_at_def)

lemma advances_wf: "advances r r' \<Longrightarrow> reader_wf r'"
  by (simp add: advances_def reader_wf_def)

lemma advances_trans: "advances r s \<Longrightarrow> advances s t \<Longrightarrow> advances r t"
  by (simp add: advances_def)

lemma advances_refl: "reader_wf r \<Longrightarrow> advances r r"
  by (simp add: advances_def reader_wf_def)

lemma settled_return: "reader_wf r \<Longrightarrow> settled (rd_return v) r v r"
  by (simp add: settled_def rd_return_def advances_refl)

lemma settled_bind:
  assumes "settled p r x s" and "settled (f x) s y t"
  shows "settled (rd_bind p f) r y t"
  using assms by (auto simp: settled_def rd_bind_def intro: advances_trans)

lemma safe_readerD:
  assumes "safe_reader p" "reader_wf r"
  shows "\<not> panics (p r)" and "p r = Ok (x, r') \<Longrightarrow> settled p r x r'"
    and "p r = Ok (x, r') \<Longrightarrow> advances r r'"
  using assms by (auto simp: safe_reader_def panics_def settled_def split: result.splits)

lemma safe_readerI:
  assumes "\<And>r x r'. reader_wf r \<Longrightarrow> p r = Ok (x, r') \<Longrightarrow> settled p r x r'"
    and "\<And>r. reader_wf r \<Longrightarrow> \<not> panics (p r)"
  shows "safe_reader p"
  unfolding safe_reader_def
proof (intro allI impI)
  fix r assume "reader_wf r"
  with assms [of r] show "case p r of Ok (x, r') \<Rightarrow> settled p r x r' | Err _ \<Rightarrow> True | Panic _ \<Rightarrow> False"
    by (auto split: result.splits)
qed

lemma safe_return [safe_intros]: "safe_reader (rd_return v)"
  by (rule safe_readerI) (auto simp: rd_return_def settled_def advances_refl)

lemma safe_fail [safe_intros]: "safe_reader (rd_fail e)"
  by (simp add: safe_reader_def rd_fail_def)

lemma safe_bind [safe_intros]:
  assumes "safe_reader p" and "\<And>x. safe_reader (f x)"
  shows "safe_reader (rd_bind p f)"
proof (rule safe_readerI)
  fix r y t assume r: "reader_wf r" and "rd_bind p f r = Ok (y, t)"
  then obtain x s where ps: "p r = Ok (x, s)" and ft: "f x s = Ok (y, t)"
    by (auto simp: rd_bind_def bind_result_eq_Ok)
  note settled = safe_readerD(2) [OF assms(1) r ps]
  then have "reader_wf s" by (auto simp: settled_def dest: advances_wf)
  from settled safe_readerD(2) [OF assms(2) this ft] show "settled (rd_bind p f) r y t"
    by (rule settled_bind)
next
  fix r assume r: "reader_wf r"
  have "\<not> panics (f x s)" if "p r = Ok (x, s)" for x s
    using safe_readerD(1) [OF assms(2)] safe_readerD(3) [OF assms(1) r that] by (auto dest: advances_wf)
  with safe_readerD(1) [OF assms(1) r] show "\<not> panics (rd_bind p f r)"
    by (auto simp: rd_bind_def panics_bind)
qed

lemma safe_repeat [safe_intros]: "safe_reader p \<Longrightarrow> safe_reader (rd_repeat n p)"
  by (induction n) (auto intro!: safe_intros)

lemma safe_for [safe_intros]: "(\<And>y. y \<in> set ys \<Longrightarrow> safe_reader (p y)) \<Longrightarrow> safe_reader (rd_for ys p)"
  by (induction ys) (auto intro!: safe_intros)

lemma safe_if [safe_intros]:
  "(b \<Longrightarrow> safe_reader p) \<Longrightarrow> (\<not> b \<Longrightarrow> safe_reader q) \<Longrightarrow> safe_reader (if b then p else q)"
  by simp

lemma safe_case_option [safe_intros]:
  "safe_reader p \<Longrightarrow> (\<And>x. safe_reader (f x)) \<Longrightarrow> safe_reader (case_option p f z)"
  by (cases z) auto

text \<open>
  An encoding cannot be cut short: no proper prefix of the bytes of a value is accepted.
\<close>

lemma truncation_detected:
  assumes "\<And>x r'. p (reader_at [] bs) = Ok (x, r') \<Longrightarrow> settled p (reader_at [] bs) x r'"
    and "parses p (bs @ rest) v" and "rest \<noteq> []"
  shows "\<not> (\<exists>x r'. p (reader_at [] bs) = Ok (x, r'))"
proof
  assume "\<exists>x r'. p (reader_at [] bs) = Ok (x, r')"
  then obtain x r' where ok: "p (reader_at [] bs) = Ok (x, r')" by blast
  from assms(1) [OF ok] have adv: "advances (reader_at [] bs) r'"
    and ext: "p (longer rest (reader_at [] bs)) = Ok (x, longer rest r')"
    by (auto simp: settled_def)
  have "p (longer rest (reader_at [] bs)) = Ok (v, reader_at (bs @ rest) [])"
    using parses_start [OF assms(2)] by (simp add: longer_def reader_at_def)
  with ext have "rd_offset (longer rest r') = length (bs @ rest)" by (simp add: reader_at_def)
  moreover have "rd_offset r' \<le> length bs" using adv by (simp add: advances_def reader_at_def)
  ultimately show False using assms(3) by (simp add: longer_def)
qed

section \<open>The byte source shared by both readers\<close>

text \<open>
  What the fixed-width reads of both formats need of the reader: reading \<open>n\<close> bytes
  yields exactly the next \<open>n\<close> bytes, and fails without a panic when fewer remain.
\<close>

locale byte_source =
  fixes read_bytes :: "nat \<Rightarrow> bytes reader"
  assumes read_exact: "parses (read_bytes (length bs)) bs bs"
    and read_short: "length rest < n \<Longrightarrow> \<exists>e. read_bytes n (reader_at pre rest) = Err e"
    and read_safe: "safe_reader (read_bytes n)"
    and read_length: "reader_wf r \<Longrightarrow> read_bytes n r = Ok (bs, r') \<Longrightarrow>
           length bs = n \<and> rd_offset r' = rd_offset r + n"
begin

lemma word_parses:
  assumes "LENGTH('a::len) = 8 * n"
  shows "parses (rd_bind (read_bytes n) (\<lambda>raw. rd_return (from_le_bytes raw)))
           (to_le_bytes (w :: 'a word)) w"
proof -
  have "parses (read_bytes n) (to_le_bytes w) (to_le_bytes w)"
    using read_exact [of "to_le_bytes w"] assms by simp
  moreover have "parses (rd_return (from_le_bytes (to_le_bytes w))) [] w"
    using from_to_le_bytes [OF assms, of w] by auto
  ultimately show ?thesis
    using parses_bind [where ?b2.0 = "[]"] by fastforce
qed

lemma word_short:
  "length rest < n \<Longrightarrow> \<exists>e. rd_bind (read_bytes n) f (reader_at pre rest) = Err e"
  using read_short [of rest n pre] by (auto simp: rd_bind_def)

end

text \<open>\<open>read_array::<N>\<close>: a read whose length is checked again by \<open>expect\<close>.\<close>

definition rd_array :: "(nat \<Rightarrow> bytes reader) \<Rightarrow> nat \<Rightarrow> bytes reader" where
  "rd_array rd n =
     rd_bind (rd n) (\<lambda>raw. if length raw = n then rd_return raw else rd_panic Expect_Failed)"

lemma rd_array_eq:
  assumes "byte_source rd" and "reader_wf r"
  shows "rd_array rd n r = rd n r"
proof (cases "rd n r")
  case (Ok xr)
  then show ?thesis
    using byte_source.read_length [OF assms, of n] 
    by (cases xr) (simp add: rd_array_def rd_bind_def rd_return_def)
qed (simp_all add: rd_array_def rd_bind_def)

lemma byte_source_array:
  assumes "byte_source rd"
  shows "byte_source (rd_array rd)"
proof
  note eq = rd_array_eq [OF assms]
  show "parses (rd_array rd (length bs)) bs bs" for bs
    using byte_source.read_exact [OF assms, of bs] by (simp add: parses_def eq)
  show "\<exists>e. rd_array rd n (reader_at pre rest) = Err e" if "length rest < n" for rest n pre
    using byte_source.read_short [OF assms that] by (simp add: eq)
  show "safe_reader (rd_array rd n)" for n
    unfolding rd_array_def
  proof (rule safe_readerI)
    fix r x r' assume r: "reader_wf r"
      and "rd_bind (rd n) (\<lambda>raw. if length raw = n then rd_return raw else rd_panic Expect_Failed) r = Ok (x, r')"
    then have "rd n r = Ok (x, r')" "length x = n"
      using eq [OF r, of n] byte_source.read_length [OF assms r, of n x r'] by (simp_all add: rd_array_def)
    with safe_readerD(2) [OF byte_source.read_safe [OF assms] r]
    show "settled (rd_bind (rd n) (\<lambda>raw. if length raw = n then rd_return raw else rd_panic Expect_Failed)) r x r'"
      by (auto simp: settled_def rd_bind_def rd_return_def)
  next
    fix r assume r: "reader_wf r"
    then show "\<not> panics (rd_bind (rd n) (\<lambda>raw. if length raw = n then rd_return raw else rd_panic Expect_Failed) r)"
      using eq [OF r, of n] safe_readerD(1) [OF byte_source.read_safe [OF assms] r, of n]
      by (simp add: rd_array_def)
  qed
  show "length bs = n \<and> rd_offset r' = rd_offset r + n"
    if "reader_wf r" "rd_array rd n r = Ok (bs, r')" for r n bs r'
    using byte_source.read_length [OF assms that(1), of n] that by (simp add: eq)
qed

section \<open>The slice primitives\<close>

definition remaining :: "byte_reader \<Rightarrow> nat" where
  "remaining r = length (rd_data r) - rd_offset r"

lemma remaining_at [simp]: "remaining (reader_at pre post) = length post"
  by (simp add: remaining_def reader_at_def)

text \<open>
  \<open>read(count)\<close>: both readers have this method, each with its own copy.
\<close>

definition slice_read :: "nat \<Rightarrow> bytes reader" where
  "slice_read count r =
     (if count > remaining r then Err (Serialization ''end of stream reached'')
      else Ok (take count (drop (rd_offset r) (rd_data r)),
               r\<lparr>rd_offset := rd_offset r + count\<rparr>))"

definition slice_assert_eof :: "byte_reader \<Rightarrow> unit result" where
  "slice_assert_eof r =
     (if remaining r \<noteq> 0 then Err (Serialization ''unexpected trailing bytes: '') else Ok ())"

lemma slice_read_source: "byte_source slice_read"
proof
  show "parses (slice_read (length bs)) bs bs" for bs
    by (simp add: parses_def slice_read_def remaining_def reader_at_def)
  show "\<exists>e. slice_read n (reader_at pre rest) = Err e" if "length rest < n" for rest n pre
    using that by (simp add: slice_read_def)
  show "safe_reader (slice_read n)" for n
    by (rule safe_readerI)
       (auto simp: slice_read_def remaining_def settled_def longer_def advances_def reader_wf_def
         split: if_split_asm)
  show "length bs = n \<and> rd_offset r' = rd_offset r + n"
    if "reader_wf r" "slice_read n r = Ok (bs, r')" for r n bs r'
    using that by (auto simp: slice_read_def remaining_def reader_wf_def split: if_split_asm)
qed

text \<open>A fallible conversion of a value just read, as in \<open>VMType::try_from(reader.read1()?)?\<close>.\<close>

definition rd_lift :: "'a result \<Rightarrow> 'a reader" where
  "rd_lift m r = bind_result m (\<lambda>x. Ok (x, r))"

lemma rd_lift_Ok [simp]: "rd_lift (Ok x) = rd_return x"
  by (simp add: rd_lift_def rd_return_def fun_eq_iff)

lemma rd_lift_safe [safe_intros]: "\<not> panics m \<Longrightarrow> safe_reader (rd_lift m)"
  by (cases m) (simp_all add: safe_return, simp add: rd_lift_def safe_reader_def)

end
