(* ===== verification/BigIntApi.thy ===== *)
theory BigIntApi
  imports Prelude
begin

text \<open>
  The byte conversions of the \<open>num-bigint\<close> crate, which is not part of the repository.
  A \<open>BigInt\<close> is a mathematical integer; its conversions to and from bytes are a
  parameter \<open>num_bigint\<close> of every definition that calls them, and the locale states
  what the crate documents: \<open>to_signed_bytes_le\<close> is the shortest little-endian
  two's-complement form, \<open>from_signed_bytes_le\<close> reads such a form of any length, and
  \<open>to_bytes_le\<close> is the shortest little-endian form of the magnitude. The locale is
  interpreted on a computable implementation, so statements under it can be run.
\<close>

record num_bigint =
  to_signed_bytes_le :: "int \<Rightarrow> bytes"
  from_signed_bytes_le :: "bytes \<Rightarrow> int"
  to_bytes_le :: "int \<Rightarrow> bytes"

locale num_bigint_api =
  fixes nb :: num_bigint
  assumes from_signed: "bs \<noteq> [] \<Longrightarrow> from_signed_bytes_le nb bs = le_to_int bs"
    and to_signed_nonempty: "to_signed_bytes_le nb v \<noteq> []"
    and to_signed_value: "le_to_int (to_signed_bytes_le nb v) = v"
    and to_signed_shortest:
      "bs \<noteq> [] \<Longrightarrow> le_to_int bs = v \<Longrightarrow> length (to_signed_bytes_le nb v) \<le> length bs"
    and to_bytes_value: "int (le_to_nat (to_bytes_le nb v)) = \<bar>v\<bar>"
    and to_bytes_shortest:
      "bs \<noteq> [] \<Longrightarrow> int (le_to_nat bs) = \<bar>v\<bar> \<Longrightarrow> length (to_bytes_le nb v) \<le> length bs"

section \<open>Two's-complement arithmetic of byte strings\<close>

lemma le_to_nat_snoc: "le_to_nat (bs @ [b]) = le_to_nat bs + 256 ^ length bs * unat b"
  by (simp add: le_to_nat_append)

lemma le_to_int_snoc:
  "le_to_int (bs @ [b]) =
     int (le_to_nat bs) + 256 ^ length bs * (if 128 \<le> unat b then int (unat b) - 256 else int (unat b))"
  by (simp add: le_to_int_def le_to_nat_snoc algebra_simps)

lemma le_to_int_extend_zero:
  "bs \<noteq> [] \<Longrightarrow> unat (last bs) < 128 \<Longrightarrow> le_to_int (bs @ [0]) = le_to_int bs"
  by (simp add: le_to_int_snoc) (simp add: le_to_int_def)

lemma le_to_int_extend_ff:
  "bs \<noteq> [] \<Longrightarrow> 128 \<le> unat (last bs) \<Longrightarrow> le_to_int (bs @ [0xFF]) = le_to_int bs"
  by (simp add: le_to_int_snoc) (simp add: le_to_int_def)

lemma le_to_nat_last_bounds:
  assumes "bs \<noteq> []"
  shows "256 ^ (length bs - 1) * unat (last bs) \<le> le_to_nat bs"
    and "le_to_nat bs < 256 ^ (length bs - 1) * (unat (last bs) + 1)"
proof -
  obtain xs b where bs: "bs = xs @ [b]" using assms by (cases bs rule: rev_cases) auto
  show "256 ^ (length bs - 1) * unat (last bs) \<le> le_to_nat bs"
    by (simp add: bs le_to_nat_snoc)
  show "le_to_nat bs < 256 ^ (length bs - 1) * (unat (last bs) + 1)"
    using le_to_nat_bound [of xs] by (simp add: bs le_to_nat_snoc)
qed

lemma le_to_int_sign:
  assumes "bs \<noteq> []"
  shows "le_to_int bs < 0 \<longleftrightarrow> 128 \<le> unat (last bs)"
proof -
  have "int (le_to_nat bs) < 256 ^ length bs"
    using le_to_nat_bound [of bs] by (metis of_nat_less_iff of_nat_numeral of_nat_power)
  with assms show ?thesis by (simp add: le_to_int_def)
qed

lemma power_half_byte: "n \<noteq> 0 \<Longrightarrow> (256::int) ^ (n - 1) * 128 * 2 = 256 ^ n"
  by (cases n) simp_all

lemma le_to_int_range:
  assumes "bs \<noteq> []"
  shows "- (256 ^ length bs) \<le> 2 * le_to_int bs" and "2 * le_to_int bs < 256 ^ length bs"
proof -
  let ?h = "(256::int) ^ (length bs - 1) * 128"
  have pow: "2 * ?h = 256 ^ length bs"
    using assms power_half_byte [of "length bs"] by simp
  have below: "int (le_to_nat bs) < 256 ^ length bs"
    using le_to_nat_bound [of bs] by (metis of_nat_less_iff of_nat_numeral of_nat_power)
  have lo: "?h \<le> int (le_to_nat bs)" if "128 \<le> unat (last bs)"
  proof -
    have "256 ^ (length bs - 1) * 128 \<le> 256 ^ (length bs - 1) * unat (last bs)"
      using that by (intro mult_le_mono) auto
    with le_to_nat_last_bounds(1) [OF assms]
    have "256 ^ (length bs - 1) * 128 \<le> le_to_nat bs" by linarith
    then have "int (256 ^ (length bs - 1) * 128) \<le> int (le_to_nat bs)" by (rule zle_int [THEN iffD2])
    then show ?thesis by simp
  qed
  have hi: "int (le_to_nat bs) < ?h" if "unat (last bs) < 128"
  proof -
    have "256 ^ (length bs - 1) * (unat (last bs) + 1) \<le> 256 ^ (length bs - 1) * 128"
      using that by (intro mult_le_mono) auto
    with le_to_nat_last_bounds(2) [OF assms]
    have "le_to_nat bs < 256 ^ (length bs - 1) * 128" by linarith
    then have "int (le_to_nat bs) < int (256 ^ (length bs - 1) * 128)" by (rule of_nat_less_iff [THEN iffD2])
    then show ?thesis by simp
  qed
  show "- (256 ^ length bs) \<le> 2 * le_to_int bs"
  proof (cases "128 \<le> unat (last bs)")
    case True
    with lo pow show ?thesis by (simp add: le_to_int_def assms)
  next
    case False
    have "0 \<le> (256::int) ^ length bs" by simp
    moreover from False have "le_to_int bs = int (le_to_nat bs)" by (simp add: le_to_int_def)
    ultimately show ?thesis by linarith
  qed
  show "2 * le_to_int bs < 256 ^ length bs"
  proof (cases "128 \<le> unat (last bs)")
    case True
    then have "le_to_int bs = int (le_to_nat bs) - 256 ^ length bs"
      using assms by (simp add: le_to_int_def)
    moreover have "0 < (256::int) ^ length bs" by simp
    ultimately show ?thesis using below by linarith
  next
    case False
    then have "le_to_int bs = int (le_to_nat bs)" by (simp add: le_to_int_def)
    with hi False pow show ?thesis by linarith
  qed
qed

lemma le_to_int_mod: "le_to_int bs mod 256 ^ length bs = int (le_to_nat bs)"
proof -
  have "int (le_to_nat bs) < 256 ^ length bs"
    using le_to_nat_bound [of bs] by (metis of_nat_less_iff of_nat_numeral of_nat_power)
  then have m: "int (le_to_nat bs) mod 256 ^ length bs = int (le_to_nat bs)" by simp
  show ?thesis by (simp add: le_to_int_def m)
qed

lemma mod_signed_cases:
  assumes "- N \<le> 2 * v" "2 * v < (N :: int)"
  shows "v mod N = (if 0 \<le> v then v else v + N)"
proof (cases "0 \<le> v")
  case True
  with assms show ?thesis by simp
next
  case False
  with assms have "(v + N) mod N = v + N" by (intro mod_pos_pos_trivial) linarith+
  with False show ?thesis by simp
qed

text \<open>A byte string has the value \<open>v\<close> when it is \<open>v\<close> modulo its width and \<open>v\<close> fits.\<close>

lemma le_to_int_eqI:
  assumes "bs \<noteq> []" and "int (le_to_nat bs) = v mod 256 ^ length bs"
    and "- (256 ^ length bs) \<le> 2 * v" and "2 * v < 256 ^ length bs"
  shows "le_to_int bs = v"
proof -
  let ?N = "(256::int) ^ length bs"
  have "le_to_int bs = int (le_to_nat bs) \<or> le_to_int bs = int (le_to_nat bs) - ?N"
    by (simp add: le_to_int_def)
  moreover have "int (le_to_nat bs) = v \<or> int (le_to_nat bs) = v + ?N"
    using assms(2) mod_signed_cases [OF assms(3,4)] by (simp split: if_splits)
  ultimately show ?thesis
    using le_to_int_range [OF assms(1)] assms(3,4) by linarith
qed

section \<open>A computable implementation\<close>

fun magnitude_width :: "nat \<Rightarrow> nat" where
  "magnitude_width n = (if n < 256 then 1 else Suc (magnitude_width (n div 256)))"

declare magnitude_width.simps [simp del]

definition signed_width :: "int \<Rightarrow> nat" where
  "signed_width v = magnitude_width (nat (if 0 \<le> v then 2 * v else 2 * (- v - 1)))"

definition num_bigint_std :: num_bigint where
  "num_bigint_std =
     \<lparr>to_signed_bytes_le = (\<lambda>v. nat_to_le (signed_width v) (nat (v mod 256 ^ signed_width v))),
      from_signed_bytes_le = le_to_int,
      to_bytes_le = (\<lambda>v. nat_to_le (magnitude_width (nat \<bar>v\<bar>)) (nat \<bar>v\<bar>))\<rparr>"

lemma magnitude_width_pos: "0 < magnitude_width n"
  by (subst magnitude_width.simps) simp

lemma magnitude_width_upper: "n < 256 ^ magnitude_width n"
proof (induction n rule: magnitude_width.induct)
  case (1 n)
  show ?case
  proof (cases "n < 256")
    case True
    then show ?thesis by (subst magnitude_width.simps) simp
  next
    case False
    with 1 have "n div 256 < 256 ^ magnitude_width (n div 256)" by simp
    then have "n < 256 * 256 ^ magnitude_width (n div 256)" by linarith
    with False show ?thesis by (subst magnitude_width.simps) simp
  qed
qed

lemma magnitude_width_least: "n < 256 ^ k \<Longrightarrow> 0 < k \<Longrightarrow> magnitude_width n \<le> k"
proof (induction n arbitrary: k rule: magnitude_width.induct)
  case (1 n)
  show ?case
  proof (cases "n < 256")
    case True
    with 1 show ?thesis by (subst magnitude_width.simps) simp
  next
    case False
    with 1 obtain j where k: "k = Suc j" "0 < j"
      by (cases k; cases "k - 1") auto
    with "1.prems" have "n div 256 < 256 ^ j" by (simp add: less_mult_imp_div_less mult.commute)
    with 1 False k have "magnitude_width (n div 256) \<le> j" by blast
    with False k show ?thesis by (subst magnitude_width.simps) simp
  qed
qed

lemma even_signed_bound:
  "(if 0 \<le> v then 2 * v else 2 * (- v - 1)) < (N :: int) \<Longrightarrow> even N \<Longrightarrow> 0 < N \<Longrightarrow>
     - N \<le> 2 * v \<and> 2 * v < N"
  by presburger

lemma signed_width_fits:
  "- (256 ^ signed_width v) \<le> 2 * v" "2 * v < 256 ^ signed_width v"
proof -
  let ?m = "if 0 \<le> v then 2 * v else 2 * (- v - 1)"
  have "nat ?m < 256 ^ signed_width v"
    unfolding signed_width_def by (rule magnitude_width_upper)
  then have "?m < 256 ^ signed_width v"
    by (simp add: nat_less_iff split: if_splits)
  moreover have "even ((256::int) ^ signed_width v)" "0 < (256::int) ^ signed_width v"
    by (simp_all add: signed_width_def magnitude_width_pos)
  ultimately have "- (256 ^ signed_width v) \<le> 2 * v \<and> 2 * v < 256 ^ signed_width v"
    using even_signed_bound [of v "256 ^ signed_width v"] by blast
  then show "- (256 ^ signed_width v) \<le> 2 * v" "2 * v < 256 ^ signed_width v" by simp_all
qed

lemma signed_width_least:
  assumes "0 < k" "- (256 ^ k) \<le> 2 * v" "2 * v < 256 ^ k"
  shows "signed_width v \<le> k"
proof -
  have "even ((256::int) ^ k)" using assms(1) by simp
  with assms(2) have "v < 0 \<Longrightarrow> 2 * (- v - 1) < 256 ^ k" by presburger
  with assms(3) have "nat (if 0 \<le> v then 2 * v else 2 * (- v - 1)) < 256 ^ k"
    by (simp add: nat_less_iff)
  then show ?thesis
    unfolding signed_width_def using assms(1) by (rule magnitude_width_least)
qed

lemma int_of_pow256: "int (256 ^ n) = 256 ^ n"
  by simp

interpretation num_bigint_std: num_bigint_api num_bigint_std
proof
  fix bs :: bytes and v :: int
  have sw: "0 < signed_width v" by (simp add: signed_width_def magnitude_width_pos)
  have value_mod: "int (le_to_nat (nat_to_le (signed_width v) (nat (v mod 256 ^ signed_width v))))
      = v mod 256 ^ signed_width v"
    by (simp add: le_to_nat_of_nat nat_mod_distrib zmod_int)
  show "from_signed_bytes_le num_bigint_std bs = le_to_int bs" if "bs \<noteq> []"
    by (simp add: num_bigint_std_def)
  show ne: "to_signed_bytes_le num_bigint_std v \<noteq> []"
    using sw by (simp add: num_bigint_std_def flip: length_0_conv)
  show "le_to_int (to_signed_bytes_le num_bigint_std v) = v"
    using ne value_mod signed_width_fits [of v]
    by (intro le_to_int_eqI) (simp_all add: num_bigint_std_def)
  show "length (to_signed_bytes_le num_bigint_std v) \<le> length bs" if "bs \<noteq> []" "le_to_int bs = v"
    using signed_width_least [of "length bs" v] le_to_int_range [OF that(1)] that
    by (simp add: num_bigint_std_def)
  show "int (le_to_nat (to_bytes_le num_bigint_std v)) = \<bar>v\<bar>"
    using magnitude_width_upper [of "nat \<bar>v\<bar>"]
    by (simp add: num_bigint_std_def le_to_nat_of_nat)
  show "length (to_bytes_le num_bigint_std v) \<le> length bs"
    if "bs \<noteq> []" "int (le_to_nat bs) = \<bar>v\<bar>"
  proof -
    have "nat \<bar>v\<bar> = le_to_nat bs" using that(2) by linarith
    with le_to_nat_bound [of bs] magnitude_width_least [of "nat \<bar>v\<bar>" "length bs"] that(1)
    show ?thesis by (simp add: num_bigint_std_def)
  qed
qed

end
