(* ===== verification/BinaryIO.thy ===== *)
theory BinaryIO
  imports Codec BigIntApi
begin

text \<open>
  The VM byte format of \<open>src/src/binary.rs\<close>: \<open>BinaryWriter\<close> and \<open>BinaryReader\<close> with their
  variable-length integers, byte arrays, strings and big integers, and the two
  conversions of a big integer that the Carbon format shares.
\<close>

section \<open>BinaryWriter\<close>

definition MAX_ARRAY_SIZE :: nat where
  "MAX_ARRAY_SIZE = 0x01000000"

definition write_u8 :: "u8 \<Rightarrow> wr_action" where
  "write_u8 v = wr_bytes [v]"

definition write_u16_le :: "u16 \<Rightarrow> wr_action" where
  "write_u16_le v = wr_bytes (to_le_bytes v)"

definition write_u32_le :: "u32 \<Rightarrow> wr_action" where
  "write_u32_le v = wr_bytes (to_le_bytes v)"

definition write_u64_le :: "u64 \<Rightarrow> wr_action" where
  "write_u64_le v = wr_bytes (to_le_bytes v)"

definition write_i64_le :: "i64 \<Rightarrow> wr_action" where
  "write_i64_le v = wr_bytes (to_le_bytes v)"

definition write_bool :: "bool \<Rightarrow> wr_action" where
  "write_bool v = write_u8 (of_bool v)"

definition vm_write :: "bytes \<Rightarrow> wr_action" where
  "vm_write data = wr_bytes data"

definition write_var_uint :: "u64 \<Rightarrow> wr_action" where
  "write_var_uint v =
     (if v < 0xFD then write_u8 (ucast v)
      else if v \<le> 0xFFFF then wr_seq [write_u8 0xFD, write_u16_le (ucast v)]
      else if v \<le> 0xFFFFFFFF then wr_seq [write_u8 0xFE, write_u32_le (ucast v)]
      else wr_seq [write_u8 0xFF, write_u64_le v])"

definition write_var_bytes :: "bytes \<Rightarrow> wr_action" where
  "write_var_bytes raw = wr_seq [write_var_uint (word_of_nat (length raw)), vm_write raw]"

definition write_string :: "rstring \<Rightarrow> wr_action" where
  "write_string v = write_var_bytes (string_bytes v)"

section \<open>Big integers\<close>

definition big_int_to_csharp_bytes :: "num_bigint \<Rightarrow> int \<Rightarrow> bytes" where
  "big_int_to_csharp_bytes nb v = (if v = 0 then [0] else to_signed_bytes_le nb v)"

definition big_int_to_vm_bytes :: "num_bigint \<Rightarrow> int \<Rightarrow> bytes" where
  "big_int_to_vm_bytes nb v =
     (let raw = big_int_to_csharp_bytes nb v
      in if v < 0 then
           (if length raw = 1 then raw @ [0xFF, 0xFF]
            else if raw \<noteq> [] \<and> last raw = 0xFF then raw @ [0xFF]
            else raw)
         else if raw = [] \<or> last raw \<noteq> 0 then raw @ [0]
         else raw)"

definition vm_bytes_to_big_int :: "num_bigint \<Rightarrow> bytes \<Rightarrow> int" where
  "vm_bytes_to_big_int nb data = (if data = [] then 0 else from_signed_bytes_le nb data)"

text \<open>\<open>Vec::resize\<close>.\<close>

definition vec_resize :: "nat \<Rightarrow> 'a \<Rightarrow> 'a list \<Rightarrow> 'a list" where
  "vec_resize n x xs = take n xs @ replicate (n - length xs) x"

definition signed_word_256 :: "num_bigint \<Rightarrow> int \<Rightarrow> bytes32 result" where
  "signed_word_256 nb v =
     (if v < - (2 ^ 255) \<or> v > 2 ^ 256 - 1 then Err (Serialization ''BigInt overflow'')
      else let unsigned = (if v < 0 then v + 2 ^ 256 else v)
           in Ok (array_of (vec_resize 32 0 (to_bytes_le nb unsigned))))"

definition signed_word_to_big_int :: "num_bigint \<Rightarrow> bytes32 \<Rightarrow> int" where
  "signed_word_to_big_int nb word = from_signed_bytes_le nb (array_bytes word)"

definition ensure_u32_len :: "nat \<Rightarrow> u32 result" where
  "ensure_u32_len len =
     (if len < 2 ^ 32 then Ok (word_of_nat len)
      else Err (Serialization ''array length exceeds u32''))"

lemma ensure_u32_len_code [code]:
  "ensure_u32_len len =
     (if int len < 2 ^ 32 then Ok (word_of_nat len)
      else Err (Serialization ''array length exceeds u32''))"
  by (auto simp: ensure_u32_len_def)

definition write_big_integer :: "num_bigint \<Rightarrow> int \<Rightarrow> wr_action" where
  "write_big_integer nb v = write_var_bytes (big_int_to_vm_bytes nb v)"

section \<open>BinaryReader\<close>

definition vm_read :: "nat \<Rightarrow> bytes reader" where
  "vm_read count = slice_read count"

definition vm_assert_eof :: "byte_reader \<Rightarrow> unit result" where
  "vm_assert_eof r = slice_assert_eof r"

definition vm_read_array :: "nat \<Rightarrow> bytes reader" where
  "vm_read_array n = rd_array vm_read n"

definition read_u8 :: "u8 reader" where
  "read_u8 = rd_bind (vm_read_array 1) (\<lambda>raw. rd_return (raw ! 0))"

definition read_u16_le :: "u16 reader" where
  "read_u16_le = rd_bind (vm_read_array 2) (\<lambda>raw. rd_return (from_le_bytes raw))"

definition read_u32_le :: "u32 reader" where
  "read_u32_le = rd_bind (vm_read_array 4) (\<lambda>raw. rd_return (from_le_bytes raw))"

definition read_u64_le :: "u64 reader" where
  "read_u64_le = rd_bind (vm_read_array 8) (\<lambda>raw. rd_return (from_le_bytes raw))"

definition read_i64_le :: "i64 reader" where
  "read_i64_le = rd_bind (vm_read_array 8) (\<lambda>raw. rd_return (from_le_bytes raw))"

definition read_bool :: "bool reader" where
  "read_bool = rd_bind read_u8 (\<lambda>v. rd_return (v \<noteq> 0))"

definition read_var_uint :: "u64 reader" where
  "read_var_uint =
     rd_bind read_u8 (\<lambda>v.
       if v = 0xFD then rd_bind read_u16_le (\<lambda>x. rd_return (ucast x))
       else if v = 0xFE then rd_bind read_u32_le (\<lambda>x. rd_return (ucast x))
       else if v = 0xFF then read_u64_le
       else rd_return (ucast v))"

definition read_var_bytes :: "nat \<Rightarrow> bytes reader" where
  "read_var_bytes max_size =
     rd_bind read_var_uint (\<lambda>size.
       if unat size > max_size then rd_fail (Serialization ''byte array too large: '')
       else vm_read (unat size))"

text \<open>The message of a failed \<open>from_utf8\<close> is the library's own; it is kept abstract.\<close>

definition utf8_error :: phantasma_error where
  "utf8_error = Serialization ''invalid utf-8''"

definition read_string :: "rstring reader" where
  "read_string =
     rd_bind (read_var_bytes MAX_ARRAY_SIZE) (\<lambda>raw.
       case from_utf8 raw of None \<Rightarrow> rd_fail utf8_error | Some s \<Rightarrow> rd_return s)"

definition read_big_integer :: "num_bigint \<Rightarrow> int reader" where
  "read_big_integer nb =
     rd_bind (read_var_bytes MAX_ARRAY_SIZE) (\<lambda>raw. rd_return (vm_bytes_to_big_int nb raw))"

section \<open>The reader is a byte source\<close>

interpretation vm_source: byte_source vm_read
  unfolding vm_read_def using slice_read_source by (simp add: fun_eq_iff)

lemma vm_read_array_alt: "vm_read_array = rd_array vm_read"
  by (simp add: vm_read_array_def fun_eq_iff)

interpretation vm_array: byte_source vm_read_array
  unfolding vm_read_array_alt by (rule byte_source_array) (rule vm_source.byte_source_axioms)

lemma parses_u8 [intro]: "parses read_u8 [v] v"
  using parses_bind [OF vm_array.read_exact [of "[v]"], of "\<lambda>raw. rd_return (raw ! 0)" "[]" v]
  by (auto simp: read_u8_def)

lemma parses_u16_le: "parses read_u16_le (to_le_bytes v) v"
  unfolding read_u16_le_def by (rule vm_array.word_parses) simp

lemma parses_u32_le: "parses read_u32_le (to_le_bytes v) v"
  unfolding read_u32_le_def by (rule vm_array.word_parses) simp

lemma parses_u64_le: "parses read_u64_le (to_le_bytes v) v"
  unfolding read_u64_le_def by (rule vm_array.word_parses) simp

lemma parses_i64_le: "parses read_i64_le (to_le_bytes v) v"
  unfolding read_i64_le_def by (rule vm_array.word_parses) simp

lemma to_le_bytes_nonempty: "8 \<le> LENGTH('a) \<Longrightarrow> to_le_bytes (v :: 'a::len word) \<noteq> []"
  by (simp flip: length_0_conv)

lemma u8_round_trip [codec_intros]: "round_trip1 (write_u8 v) read_u8 v"
  unfolding write_u8_def by (rule round_trip1_bytes) auto

lemma u16_le_round_trip [codec_intros]: "round_trip1 (write_u16_le v) read_u16_le v"
  unfolding write_u16_le_def by (rule round_trip1_bytes) (simp_all add: parses_u16_le to_le_bytes_nonempty)

lemma u32_le_round_trip [codec_intros]: "round_trip1 (write_u32_le v) read_u32_le v"
  unfolding write_u32_le_def by (rule round_trip1_bytes) (simp_all add: parses_u32_le to_le_bytes_nonempty)

lemma u64_le_round_trip [codec_intros]: "round_trip1 (write_u64_le v) read_u64_le v"
  unfolding write_u64_le_def by (rule round_trip1_bytes) (simp_all add: parses_u64_le to_le_bytes_nonempty)

lemma i64_le_round_trip [codec_intros]: "round_trip1 (write_i64_le v) read_i64_le v"
  unfolding write_i64_le_def by (rule round_trip1_bytes) (simp_all add: parses_i64_le to_le_bytes_nonempty)

lemma bool_round_trip [codec_intros]: "round_trip1 (write_bool v) read_bool v"
  unfolding write_bool_def read_bool_def by (rule round_trip1_map [OF u8_round_trip]) simp

lemma vm_bytes_round_trip: "round_trip (vm_write raw) (vm_read (length raw)) raw"
  unfolding vm_write_def round_trip_def using vm_source.read_exact by blast

section \<open>Variable-length encodings\<close>

lemma unat_less_of_word: "v < 0xFD \<Longrightarrow> unat v < 253" "v \<le> 0xFFFF \<Longrightarrow> unat v < 2 ^ 16"
    "v \<le> 0xFFFFFFFF \<Longrightarrow> unat v < 2 ^ 32"
  for v :: u64
  by (simp_all add: word_less_nat_alt word_le_nat_alt)

lemma ucast_byte_below: 
  fixes v :: u64
  assumes "unat v < 253"
  shows "(ucast v :: u8) \<noteq> 0xFD" "(ucast v :: u8) \<noteq> 0xFE" "(ucast v :: u8) \<noteq> 0xFF"
proof -
  have "unat (ucast v :: u8) < 253"
    using assms by (simp add: unat_ucast_small)
  then show "(ucast v :: u8) \<noteq> 0xFD" "(ucast v :: u8) \<noteq> 0xFE" "(ucast v :: u8) \<noteq> 0xFF"
    by auto
qed

lemma var_uint_round_trip [codec_intros]: "round_trip1 (write_var_uint v) read_var_uint v"
proof -
  have long: "round_trip1 (wr_seq [write_u8 h, a]) read_var_uint v"
    if "round_trip1 a p x"
      "(if h = 0xFD then rd_bind read_u16_le (\<lambda>x. rd_return (ucast x))
        else if h = 0xFE then rd_bind read_u32_le (\<lambda>x. rd_return (ucast x))
        else if h = 0xFF then read_u64_le
        else rd_return (ucast h)) = rd_bind p g" "g x = rd_return v" for a h and p :: "'b reader" and x g
    unfolding read_var_uint_def
    by (rule round_trip1_cons [OF u8_round_trip], subst that(2),
        rule round_trip_cons [OF that(1)], subst that(3), rule round_trip_nil, rule refl)
  consider "v < 0xFD" | "\<not> v < 0xFD" "v \<le> 0xFFFF" | "\<not> v < 0xFD" "\<not> v \<le> 0xFFFF" "v \<le> 0xFFFFFFFF"
    | "\<not> v < 0xFD" "\<not> v \<le> 0xFFFF" "\<not> v \<le> 0xFFFFFFFF" by blast
  then show ?thesis
  proof cases
    case 1
    then have "unat v < 253" by (rule unat_less_of_word)
    then have "round_trip1 (write_u8 (ucast v)) read_var_uint v"
      unfolding read_var_uint_def
      by (intro round_trip1_map [OF u8_round_trip]) (simp add: ucast_byte_below ucast_ucast_small)
    with 1 show ?thesis by (simp add: write_var_uint_def)
  next
    case 2
    then have "ucast (ucast v :: u16) = v"
      using unat_less_of_word(2,3) [of v] by (intro ucast_ucast_small) simp
    with 2 show ?thesis
      using long [OF u16_le_round_trip [of "ucast v"], of "0xFD" "\<lambda>x. rd_return (ucast x)"]
      by (simp add: write_var_uint_def)
  next
    case 3
    then have "ucast (ucast v :: u32) = v"
      using unat_less_of_word(2,3) [of v] by (intro ucast_ucast_small) simp
    with 3 show ?thesis
      using long [OF u32_le_round_trip [of "ucast v"], of "0xFE" "\<lambda>x. rd_return (ucast x)"]
      by (simp add: write_var_uint_def)
  next
    case 4
    have "round_trip1 (wr_seq [write_u8 0xFF, write_u64_le v]) read_var_uint v"
      unfolding read_var_uint_def
      by (rule round_trip1_cons [OF u8_round_trip])
         (simp add: round_trip_single [OF round_trip1_imp [OF u64_le_round_trip]])
    with 4 show ?thesis by (simp add: write_var_uint_def)
  qed
qed

lemma unat_word_of_length: "n < 2 ^ 64 \<Longrightarrow> unat (word_of_nat n :: u64) = n"
  by (simp add: unat_of_nat)

lemma var_bytes_round_trip [codec_intros]:
  assumes "length raw \<le> max_size" and "length raw < 2 ^ 64"
  shows "round_trip1 (write_var_bytes raw) (read_var_bytes max_size) raw"
proof -
  have "round_trip (wr_seq [vm_write raw])
      (if max_size < unat (word_of_nat (length raw) :: u64)
       then rd_fail (Serialization ''byte array too large: '')
       else vm_read (unat (word_of_nat (length raw) :: u64))) raw"
    using assms round_trip_single [OF vm_bytes_round_trip] by (simp add: unat_word_of_length)
  then show ?thesis
    unfolding write_var_bytes_def read_var_bytes_def
    by (rule round_trip1_cons [OF var_uint_round_trip])
qed

lemma string_round_trip [codec_intros]:
  assumes "length (string_bytes s) \<le> MAX_ARRAY_SIZE"
  shows "round_trip1 (write_string s) read_string s"
proof -
  have "length (string_bytes s) < 2 ^ 64" using assms by (simp add: MAX_ARRAY_SIZE_def)
  with assms show ?thesis
    unfolding write_string_def read_string_def
    by (intro round_trip1_map [OF var_bytes_round_trip]) simp_all
qed

section \<open>Two's-complement conversions\<close>

context num_bigint_api begin

lemma csharp_value: "le_to_int (big_int_to_csharp_bytes nb v) = v"
  by (simp add: big_int_to_csharp_bytes_def to_signed_value) (simp add: le_to_int_def)

lemma csharp_nonempty: "big_int_to_csharp_bytes nb v \<noteq> []"
  by (simp add: big_int_to_csharp_bytes_def to_signed_nonempty)

lemma csharp_sign: "v < 0 \<longleftrightarrow> 128 \<le> unat (last (big_int_to_csharp_bytes nb v))"
  using le_to_int_sign [OF csharp_nonempty] by (simp add: csharp_value)

text \<open>The sign padding of the VM form never changes the value.\<close>

lemma vm_bytes_value: "le_to_int (big_int_to_vm_bytes nb v) = v"
proof -
  let ?raw = "big_int_to_csharp_bytes nb v"
  note ext = le_to_int_extend_ff [of ?raw] le_to_int_extend_zero [of ?raw]
    le_to_int_extend_ff [of "?raw @ [0xFF]"]
  show ?thesis
    using ext csharp_sign [of v] csharp_nonempty [of v] csharp_value [of v]
    by (auto simp: big_int_to_vm_bytes_def Let_def)
qed

lemma vm_bytes_nonempty: "big_int_to_vm_bytes nb v \<noteq> []"
  using csharp_nonempty [of v] by (simp add: big_int_to_vm_bytes_def Let_def)

lemma vm_bytes_inverse: "vm_bytes_to_big_int nb (big_int_to_vm_bytes nb v) = v"
  by (simp add: vm_bytes_to_big_int_def vm_bytes_nonempty from_signed vm_bytes_value)

lemma big_integer_round_trip:
  assumes "length (big_int_to_vm_bytes nb v) \<le> MAX_ARRAY_SIZE"
  shows "round_trip1 (write_big_integer nb v) (read_big_integer nb) v"
proof -
  have "length (big_int_to_vm_bytes nb v) < 2 ^ 64" using assms by (simp add: MAX_ARRAY_SIZE_def)
  with assms show ?thesis
    unfolding write_big_integer_def read_big_integer_def
    by (intro round_trip1_map [OF var_bytes_round_trip]) (simp_all add: vm_bytes_inverse)
qed

text \<open>The 256-bit word is the value modulo \<open>2 ^ 256\<close>.\<close>

lemma to_bytes_length_le_32:
  assumes "0 \<le> v" and "v < 2 ^ 256"
  shows "length (to_bytes_le nb v) \<le> 32"
proof -
  have "int (le_to_nat (nat_to_le 32 (nat v))) = \<bar>v\<bar>"
    using assms by (simp add: le_to_nat_of_nat nat_less_iff)
  then show ?thesis
    using to_bytes_shortest [of "nat_to_le 32 (nat v)" v] by (simp flip: length_0_conv)
qed

lemma signed_word_value:
  assumes "- (2 ^ 255) \<le> v" and "v < 2 ^ 256"
  obtains w where "signed_word_256 nb v = Ok w"
    and "int (le_to_nat (array_bytes w)) = v mod 2 ^ 256"
proof -
  let ?u = "if v < 0 then v + 2 ^ 256 else v"
  have u: "0 \<le> ?u" "?u < 2 ^ 256" "?u = v mod 2 ^ 256"
    using assms mod_add_self2 [of v "2 ^ 256"] by (auto simp del: mod_add_self2)
  have len: "length (to_bytes_le nb ?u) \<le> 32" using to_bytes_length_le_32 u(1,2) by simp
  have "le_to_nat (vec_resize 32 0 (to_bytes_le nb ?u)) = le_to_nat (to_bytes_le nb ?u)"
    using len by (simp add: vec_resize_def le_to_nat_append)
  moreover have "length (vec_resize 32 (0::u8) (to_bytes_le nb ?u)) = 32"
    using len by (simp add: vec_resize_def)
  moreover have "signed_word_256 nb v = Ok (array_of (vec_resize 32 0 (to_bytes_le nb ?u)))"
    using assms by (simp add: signed_word_256_def Let_def)
  ultimately show thesis
    using that to_bytes_value [of ?u] u by simp
qed

lemma signed_word_wraps:
  assumes "- (2 ^ 255) \<le> v" and "v < 2 ^ 256"
  shows "\<exists>w. signed_word_256 nb v = Ok w
    \<and> signed_word_to_big_int nb w = (if v < 2 ^ 255 then v else v - 2 ^ 256)"
proof -
  obtain w where w: "signed_word_256 nb v = Ok w" "int (le_to_nat (array_bytes w)) = v mod 2 ^ 256"
    using signed_word_value [OF assms] by auto
  have "v mod 2 ^ 256 = (if v < 2 ^ 255 then v else v - 2 ^ 256) mod 2 ^ 256"
    by (simp add: mod_diff_eq [symmetric, of v "2 ^ 256" "2 ^ 256"])
  then have "le_to_int (array_bytes w) = (if v < 2 ^ 255 then v else v - 2 ^ 256)"
    using assms w(2) by (intro le_to_int_eqI) (simp_all flip: length_0_conv)
  with w(1) show ?thesis
    by (auto simp: signed_word_to_big_int_def from_signed simp flip: length_0_conv)
qed

lemma signed_word_inverse:
  assumes "- (2 ^ 255) \<le> v" and "v < 2 ^ 255"
  shows "\<exists>w. signed_word_256 nb v = Ok w \<and> signed_word_to_big_int nb w = v"
  using signed_word_wraps [of v] assms by simp

end

section \<open>Readers never panic\<close>

lemma vm_reads_safe [safe_intros]:
  "safe_reader (vm_read n)" "safe_reader (vm_read_array n)"
  by (rule vm_source.read_safe vm_array.read_safe)+

lemma fixed_reads_safe [safe_intros]:
  "safe_reader read_u8" "safe_reader read_u16_le" "safe_reader read_u32_le"
  "safe_reader read_u64_le" "safe_reader read_i64_le" "safe_reader read_bool"
  unfolding read_u8_def read_u16_le_def read_u32_le_def read_u64_le_def read_i64_le_def read_bool_def
  by (intro safe_intros)+

lemma var_reads_safe [safe_intros]:
  "safe_reader read_var_uint" "safe_reader (read_var_bytes n)" "safe_reader read_string"
  "safe_reader (read_big_integer nb)"
  unfolding read_var_uint_def read_var_bytes_def read_string_def read_big_integer_def
  by (intro safe_intros)+

section \<open>Properties\<close>

text \<open>The VM bytes of an integer of any size hold its two's-complement value and read back as the
  integer, the sign padding of the legacy format included.\<close>

theorem vm_integer_bytes:
  assumes "num_bigint_api nb"
  shows "le_to_int (big_int_to_vm_bytes nb v) = v
    \<and> vm_bytes_to_big_int nb (big_int_to_vm_bytes nb v) = v"
  using num_bigint_api.vm_bytes_value [OF assms] num_bigint_api.vm_bytes_inverse [OF assms] by simp

theorem vm_integer_bytes_witness:
  "vm_bytes_to_big_int num_bigint_std (big_int_to_vm_bytes num_bigint_std (- (2 ^ 300))) = - (2 ^ 300)"
  using vm_integer_bytes [OF num_bigint_std.num_bigint_api_axioms, of "- (2 ^ 300)"] by simp

text \<open>The 256-bit word of an integer exists exactly for the values from \<open>-2\<^sup>2\<^sup>5\<^sup>5\<close> up to
  \<open>2\<^sup>2\<^sup>5\<^sup>6 - 1\<close>; read back as a signed word, the upper unsigned half wraps around by \<open>2\<^sup>2\<^sup>5\<^sup>6\<close>.\<close>

theorem signed_word_exact:
  assumes "num_bigint_api nb"
  shows "(case signed_word_256 nb v of
      Ok w \<Rightarrow> - (2 ^ 255) \<le> v \<and> v < 2 ^ 256
              \<and> signed_word_to_big_int nb w = (if v < 2 ^ 255 then v else v - 2 ^ 256)
    | Err e \<Rightarrow> e = Serialization ''BigInt overflow'' \<and> (v < - (2 ^ 255) \<or> 2 ^ 256 \<le> v)
    | Panic p \<Rightarrow> False)"
proof (cases "- (2 ^ 255) \<le> v \<and> v < 2 ^ 256")
  case True
  then show ?thesis using num_bigint_api.signed_word_wraps [OF assms, of v] by auto
next
  case False
  then show ?thesis by (auto simp: signed_word_256_def)
qed

theorem signed_word_exact_witness:
  "case signed_word_256 num_bigint_std (2 ^ 256 - 1) of
     Ok w \<Rightarrow> signed_word_to_big_int num_bigint_std w = - 1 | _ \<Rightarrow> False"
  using signed_word_exact [OF num_bigint_std.num_bigint_api_axioms, of "2 ^ 256 - 1"]
  by (auto split: result.splits)

end
