(* ===== verification/CarbonIO.thy ===== *)
theory CarbonIO
  imports BinaryIO
begin

text \<open>
  The Carbon wire format of \<open>src/src/carbon.rs\<close>: \<open>CarbonWriter\<close>, \<open>CarbonReader\<close>, the
  fixed-size arrays, \<open>SmallString\<close>, \<open>IntX\<close>, and the two entry points \<open>serialize\<close> and
  \<open>deserialize\<close>. The trait \<open>CarbonSerializable\<close> is the locale \<open>carbon_codec\<close>: what a type
  promises when it implements the trait, and what every such type then enjoys.
\<close>

section \<open>Entry points\<close>

definition serialize :: "('a \<Rightarrow> wr_action) \<Rightarrow> 'a \<Rightarrow> bytes result" where
  "serialize write_carbon v =
     bind_result (write_carbon v \<lparr>wr_buffer = []\<rparr>) (\<lambda>w. Ok (wr_buffer w))"

definition carbon_assert_eof :: "byte_reader \<Rightarrow> unit result" where
  "carbon_assert_eof r = slice_assert_eof r"

definition deserialize :: "'a reader \<Rightarrow> bytes \<Rightarrow> 'a result" where
  "deserialize read_carbon data =
     bind_result (read_carbon \<lparr>rd_data = data, rd_offset = 0\<rparr>) (\<lambda>(v, r).
     bind_result (carbon_assert_eof r) (\<lambda>_. Ok v))"

section \<open>CarbonWriter\<close>

text \<open>A fallible argument of a write, as in \<open>writer.write1(x.try_into()?)\<close>.\<close>

definition wr_try :: "'a result \<Rightarrow> ('a \<Rightarrow> wr_action) \<Rightarrow> wr_action" where
  "wr_try m f w = bind_result m (\<lambda>x. f x w)"

definition carbon_write :: "bytes \<Rightarrow> wr_action" where
  "carbon_write data = wr_bytes data"

definition write1 :: "u8 \<Rightarrow> wr_action" where
  "write1 v = wr_bytes [v]"

definition write2 :: "i16 \<Rightarrow> wr_action" where
  "write2 v = carbon_write (to_le_bytes v)"

definition write4 :: "i32 \<Rightarrow> wr_action" where
  "write4 v = carbon_write (to_le_bytes v)"

definition write4u :: "u32 \<Rightarrow> wr_action" where
  "write4u v = carbon_write (to_le_bytes v)"

definition write8 :: "i64 \<Rightarrow> wr_action" where
  "write8 v = carbon_write (to_le_bytes v)"

definition write8u :: "u64 \<Rightarrow> wr_action" where
  "write8u v = carbon_write (to_le_bytes v)"

definition write16 :: "bytes16 \<Rightarrow> wr_action" where
  "write16 v = carbon_write (array_bytes v)"

definition write32 :: "bytes32 \<Rightarrow> wr_action" where
  "write32 v = carbon_write (array_bytes v)"

definition write64 :: "bytes64 \<Rightarrow> wr_action" where
  "write64 v = carbon_write (array_bytes v)"

text \<open>\<open>writer.write4(ensure_u32_len(len)? as i32)\<close>, the length prefix of every array.\<close>

definition write_length :: "nat \<Rightarrow> wr_action" where
  "write_length len = wr_try (ensure_u32_len len) write4"

text \<open>The loop \<open>while len > 0 && word[len - 1] == fill { len -= 1 }\<close>.\<close>

fun trim_fill :: "u8 \<Rightarrow> bytes \<Rightarrow> nat \<Rightarrow> nat" where
  "trim_fill fill word 0 = 0"
| "trim_fill fill word (Suc n) = (if word ! n = fill then trim_fill fill word n else Suc n)"

definition write_big_int :: "num_bigint \<Rightarrow> int \<Rightarrow> wr_action" where
  "write_big_int nb v =
     (if v = 0 then write1 0
      else wr_try (signed_word_256 nb v) (\<lambda>arr.
        let word = array_bytes arr;
            fill = (if word ! 31 AND 0x80 \<noteq> 0 then 0xFF else 0);
            len = trim_fill fill word (length word);
            header = word_of_nat len AND 0x3F;
            header = (if fill = 0xFF then header OR 0x80 else header)
        in wr_seq [write1 header, carbon_write (take len word)]))"

definition write_big_int_array :: "num_bigint \<Rightarrow> int list \<Rightarrow> wr_action" where
  "write_big_int_array nb vs = wr_seq [write_length (length vs), wr_for vs (write_big_int nb)]"

definition write_string_z :: "rstring \<Rightarrow> wr_action" where
  "write_string_z v =
     (if 0 \<in> set (string_bytes v)
      then wr_fail (Serialization ''zero-terminated string contains a zero byte'')
      else wr_seq [carbon_write (string_bytes v), write1 0])"

definition write_string_z_array :: "rstring list \<Rightarrow> wr_action" where
  "write_string_z_array vs = wr_seq [write_length (length vs), wr_for vs write_string_z]"

definition write_byte_array :: "bytes \<Rightarrow> wr_action" where
  "write_byte_array raw = wr_seq [write_length (length raw), carbon_write raw]"

definition write_byte_arrays :: "bytes list \<Rightarrow> wr_action" where
  "write_byte_arrays vs = wr_seq [write_length (length vs), wr_for vs write_byte_array]"

definition write_i8_array :: "i8 list \<Rightarrow> wr_action" where
  "write_i8_array vs = wr_seq [write_length (length vs), wr_for vs write1]"

definition write_i16_array :: "i16 list \<Rightarrow> wr_action" where
  "write_i16_array vs = wr_seq [write_length (length vs), wr_for vs write2]"

definition write_i32_array :: "i32 list \<Rightarrow> wr_action" where
  "write_i32_array vs = wr_seq [write_length (length vs), wr_for vs write4]"

definition write_i64_array :: "i64 list \<Rightarrow> wr_action" where
  "write_i64_array vs = wr_seq [write_length (length vs), wr_for vs write8]"

definition write_u64_array :: "u64 list \<Rightarrow> wr_action" where
  "write_u64_array vs = wr_seq [write_length (length vs), wr_for vs write8u]"

definition ensure_i128_range :: "int \<Rightarrow> int \<Rightarrow> int \<Rightarrow> string \<Rightarrow> unit result" where
  "ensure_i128_range v lo hi label =
     (if v < lo \<or> v > hi then Err (Serialization (label @ '' value out of range: '')) else Ok ())"

text \<open>The body of the loop of \<open>write_int_array\<close>; an \<open>i128\<close> is an integer here.\<close>

definition write_int_element :: "u8 \<Rightarrow> bool \<Rightarrow> int \<Rightarrow> wr_action" where
  "write_int_element width is_signed v =
     (if width = 1 then
        wr_try (ensure_i128_range v (- 128) 255 ''i8'') (\<lambda>_. write1 (word_of_int v))
      else if width = 2 \<and> is_signed then
        wr_try (ensure_i128_range v (- (2 ^ 15)) (2 ^ 15 - 1) ''i16'') (\<lambda>_. write2 (word_of_int v))
      else if width = 2 then
        wr_try (ensure_i128_range v 0 (2 ^ 16 - 1) ''u16'')
          (\<lambda>_. carbon_write (to_le_bytes (word_of_int v :: u16)))
      else if width = 4 \<and> is_signed then
        wr_try (ensure_i128_range v (- (2 ^ 31)) (2 ^ 31 - 1) ''i32'') (\<lambda>_. write4 (word_of_int v))
      else if width = 4 then
        wr_try (ensure_i128_range v 0 (2 ^ 32 - 1) ''u32'') (\<lambda>_. write4u (word_of_int v))
      else if width = 8 \<and> is_signed then
        wr_try (ensure_i128_range v (- (2 ^ 63)) (2 ^ 63 - 1) ''i64'') (\<lambda>_. write8 (word_of_int v))
      else if width = 8 then
        wr_try (ensure_i128_range v 0 (2 ^ 64 - 1) ''u64'') (\<lambda>_. write8u (word_of_int v))
      else wr_fail (Serialization ''unsupported integer width: ''))"

definition write_int_array :: "int list \<Rightarrow> u8 \<Rightarrow> bool \<Rightarrow> wr_action" where
  "write_int_array vs width is_signed =
     wr_seq [write_length (length vs), wr_for vs (write_int_element width is_signed)]"

section \<open>CarbonReader\<close>

definition carbon_read :: "nat \<Rightarrow> bytes reader" where
  "carbon_read count = slice_read count"

definition carbon_read_array :: "nat \<Rightarrow> bytes reader" where
  "carbon_read_array n = rd_array carbon_read n"

definition read1 :: "u8 reader" where
  "read1 = rd_bind (carbon_read_array 1) (\<lambda>raw. rd_return (raw ! 0))"

definition read2 :: "i16 reader" where
  "read2 = rd_bind (carbon_read_array 2) (\<lambda>raw. rd_return (from_le_bytes raw))"

definition read4 :: "i32 reader" where
  "read4 = rd_bind (carbon_read_array 4) (\<lambda>raw. rd_return (from_le_bytes raw))"

definition read4u :: "u32 reader" where
  "read4u = rd_bind (carbon_read_array 4) (\<lambda>raw. rd_return (from_le_bytes raw))"

definition read8 :: "i64 reader" where
  "read8 = rd_bind (carbon_read_array 8) (\<lambda>raw. rd_return (from_le_bytes raw))"

definition read8u :: "u64 reader" where
  "read8u = rd_bind (carbon_read_array 8) (\<lambda>raw. rd_return (from_le_bytes raw))"

definition read16 :: "bytes16 reader" where
  "read16 = rd_bind (carbon_read_array 16) (\<lambda>raw. rd_return (array_of raw))"

definition read32 :: "bytes32 reader" where
  "read32 = rd_bind (carbon_read_array 32) (\<lambda>raw. rd_return (array_of raw))"

definition read64 :: "bytes64 reader" where
  "read64 = rd_bind (carbon_read_array 64) (\<lambda>raw. rd_return (array_of raw))"

text \<open>The check \<open>if required > self.remaining()\<close> inside a reader method.\<close>

definition rd_require :: "nat \<Rightarrow> phantasma_error \<Rightarrow> unit reader" where
  "rd_require required e r = (if required > remaining r then Err e else Ok ((), r))"

definition read_length_for :: "nat \<Rightarrow> nat reader" where
  "read_length_for element_size =
     (if element_size = 0 then rd_fail (Serialization ''invalid array element size'')
      else rd_bind read4 (\<lambda>length.
        if length <s 0 then rd_fail (Serialization ''negative array length'')
        else let length = unat length; required = length * element_size
          in if required \<ge> 2 ^ 64 then rd_fail (Serialization ''array length overflows byte count'')
             else rd_bind (rd_require required (Serialization ''array length ''))
               (\<lambda>_. rd_return length)))"

definition read_length :: "nat reader" where
  "read_length = read_length_for 1"

definition read_big_int_with_header :: "num_bigint \<Rightarrow> u8 \<Rightarrow> int reader" where
  "read_big_int_with_header nb header =
     (if header = 0 then rd_return 0
      else let len = unat (header AND 0x3F)
        in if header AND 0x40 \<noteq> 0 \<or> len > 32 then rd_fail (Serialization ''BigInt too big'')
           else let fill = (if header AND 0x80 \<noteq> 0 then 0xFF else 0 :: u8)
             in rd_bind (if len > 0 then carbon_read len else rd_return []) (\<lambda>raw.
               let word = raw @ drop len (replicate 32 fill)
               in if (word ! 31 AND 0x80 \<noteq> 0) \<noteq> (header AND 0x80 \<noteq> 0)
                  then rd_fail (Serialization ''non-standard BigInt header'')
                  else rd_return (signed_word_to_big_int nb (array_of word))))"

definition read_big_int :: "num_bigint \<Rightarrow> int reader" where
  "read_big_int nb = rd_bind read1 (read_big_int_with_header nb)"

definition read_big_int_array :: "num_bigint \<Rightarrow> int list reader" where
  "read_big_int_array nb = rd_bind read_length (\<lambda>count. rd_repeat count (read_big_int nb))"

text \<open>
  The scan of \<open>read_string_z\<close> stops at the first zero byte; without one it fails with
  the offset at the end of the data, which no caller sees.
\<close>

definition read_string_z :: "rstring reader" where
  "read_string_z r =
     (let rest = drop (rd_offset r) (rd_data r);
          raw = takeWhile (\<lambda>b. b \<noteq> 0) rest
      in if length raw = length rest then Err (Serialization ''end of stream reached'')
         else case from_utf8 raw of
             None \<Rightarrow> Err utf8_error
           | Some s \<Rightarrow> Ok (s, r\<lparr>rd_offset := rd_offset r + length raw + 1\<rparr>))"

definition read_string_z_array :: "rstring list reader" where
  "read_string_z_array = rd_bind read_length (\<lambda>count. rd_repeat count read_string_z)"

definition read_byte_array :: "bytes reader" where
  "read_byte_array = rd_bind read_length carbon_read"

definition read_byte_arrays :: "bytes list reader" where
  "read_byte_arrays = rd_bind (read_length_for 4) (\<lambda>count. rd_repeat count read_byte_array)"

definition read_i8_array :: "i8 list reader" where
  "read_i8_array = rd_bind read_length (\<lambda>count. rd_repeat count read1)"

definition read_i16_array :: "i16 list reader" where
  "read_i16_array = rd_bind (read_length_for 2) (\<lambda>count. rd_repeat count read2)"

definition read_i32_array :: "i32 list reader" where
  "read_i32_array = rd_bind (read_length_for 4) (\<lambda>count. rd_repeat count read4)"

definition read_i64_array :: "i64 list reader" where
  "read_i64_array = rd_bind (read_length_for 8) (\<lambda>count. rd_repeat count read8)"

definition read_u64_array :: "u64 list reader" where
  "read_u64_array = rd_bind (read_length_for 8) (\<lambda>count. rd_repeat count read8u)"

definition read_int_element :: "u8 \<Rightarrow> bool \<Rightarrow> int reader" where
  "read_int_element width is_signed =
     (if width = 1 \<and> is_signed then rd_bind read1 (\<lambda>v. rd_return (sint v))
      else if width = 1 then rd_bind read1 (\<lambda>v. rd_return (uint v))
      else if width = 2 \<and> is_signed then rd_bind read2 (\<lambda>v. rd_return (sint v))
      else if width = 2 then
        rd_bind (carbon_read_array 2) (\<lambda>raw. rd_return (uint (from_le_bytes raw :: u16)))
      else if width = 4 \<and> is_signed then rd_bind read4 (\<lambda>v. rd_return (sint v))
      else if width = 4 then rd_bind read4u (\<lambda>v. rd_return (uint v))
      else if width = 8 \<and> is_signed then rd_bind read8 (\<lambda>v. rd_return (sint v))
      else if width = 8 then rd_bind read8u (\<lambda>v. rd_return (uint v))
      else rd_fail (Serialization ''unsupported integer width: ''))"

definition read_int_array :: "u8 \<Rightarrow> bool \<Rightarrow> int list reader" where
  "read_int_array width is_signed =
     rd_bind (read_length_for (unat width)) (\<lambda>count. rd_repeat count (read_int_element width is_signed))"

section \<open>SmallString, IntX and the generic array helpers\<close>

datatype SmallString = SmallString (as_str: rstring)

definition SmallString_new :: "rstring \<Rightarrow> SmallString result" where
  "SmallString_new v =
     (if length (string_bytes v) > 255
      then Err (Serialization ''SmallString exceeds 255 UTF-8 bytes'') else Ok (SmallString v))"

definition write_small_string :: "SmallString \<Rightarrow> wr_action" where
  "write_small_string s =
     (let raw = string_bytes (as_str s)
      in wr_seq [wr_try (if length raw < 256 then Ok (word_of_nat (length raw))
                   else Err (Serialization ''SmallString exceeds 255 UTF-8 bytes'')) write1,
                 carbon_write raw])"

definition read_small_string :: "SmallString reader" where
  "read_small_string =
     rd_bind read1 (\<lambda>len. rd_bind (carbon_read (unat len)) (\<lambda>raw.
       case from_utf8 raw of None \<Rightarrow> rd_fail utf8_error | Some s \<Rightarrow> rd_return (SmallString s)))"

datatype IntX = IntX (as_bigint: int)

definition is_8_byte_safe :: "IntX \<Rightarrow> bool" where
  "is_8_byte_safe x = (- (2 ^ 63) \<le> as_bigint x \<and> as_bigint x \<le> 2 ^ 63 - 1)"

definition write_intx :: "num_bigint \<Rightarrow> IntX \<Rightarrow> wr_action" where
  "write_intx nb x =
     (if is_8_byte_safe x then
        let v = word_of_int (as_bigint x) :: i64
        in wr_seq [write1 (if v <s 0 then 0x88 else 0x08), write8 v]
      else write_big_int nb (as_bigint x))"

text \<open>\<open>IntX::read_carbon\<close> behind the header byte.\<close>

definition read_intx_body :: "num_bigint \<Rightarrow> u8 \<Rightarrow> IntX reader" where
  "read_intx_body nb header =
     (let len = header AND 0x3F
      in if len < 8 then rd_fail (Serialization ''invalid IntX packing'')
         else if len = 8 then
           rd_bind (carbon_read_array 8) (\<lambda>raw.
             let v = from_le_bytes raw :: i64; header_negative = (header AND 0x80 \<noteq> 0)
             in if header_negative = (v <s 0) then rd_return (IntX (sint v))
                else let fill = (if header_negative then 0xFF else 0 :: u8);
                         word = raw @ drop 8 (replicate 32 fill)
                  in rd_return (IntX (signed_word_to_big_int nb (array_of word))))
         else rd_bind (read_big_int_with_header nb header) (\<lambda>v. rd_return (IntX v)))"

definition read_intx :: "num_bigint \<Rightarrow> IntX reader" where
  "read_intx nb = rd_bind read1 (read_intx_body nb)"

definition write_carbon_array :: "('a \<Rightarrow> wr_action) \<Rightarrow> 'a list \<Rightarrow> wr_action" where
  "write_carbon_array write_carbon vs = wr_seq [write_length (length vs), wr_for vs write_carbon]"

definition read_carbon_array :: "'a reader \<Rightarrow> 'a list reader" where
  "read_carbon_array read_carbon = rd_bind read_length (\<lambda>count. rd_repeat count read_carbon)"

text \<open>\<open>try_from_slice\<close> of the fixed-size types.\<close>

definition try_from_slice :: "bytes \<Rightarrow> 'n::len byte_array result" where
  "try_from_slice data =
     (if length data = LENGTH('n) then Ok (array_of data) else Err (Serialization '' length must be ''))"

definition EMPTY_BYTES16 :: bytes16 where
  "EMPTY_BYTES16 = array_of (replicate 16 0)"

definition EMPTY_BYTES32 :: bytes32 where
  "EMPTY_BYTES32 = array_of (replicate 32 0)"

definition EMPTY_BYTES64 :: bytes64 where
  "EMPTY_BYTES64 = array_of (replicate 64 0)"

section \<open>Fixed-width fields\<close>

interpretation carbon_source: byte_source carbon_read
  unfolding carbon_read_def using slice_read_source by (simp add: fun_eq_iff)

lemma carbon_read_array_alt: "carbon_read_array = rd_array carbon_read"
  by (simp add: carbon_read_array_def fun_eq_iff)

interpretation carbon_array: byte_source carbon_read_array
  unfolding carbon_read_array_alt by (rule byte_source_array) (rule carbon_source.byte_source_axioms)

lemma read_array_map:
  "length bs = n \<Longrightarrow> f bs = rd_return v \<Longrightarrow> parses (rd_bind (carbon_read_array n) f) bs v"
  using parses_bind [OF carbon_array.read_exact [of bs], of f "[]" v] by auto

lemma parses_read1 [simp, intro]: "parses read1 [v] v"
  unfolding read1_def by (rule read_array_map) simp_all

lemma parses_words [simp, intro]:
  "parses read2 (to_le_bytes v2) v2" "parses read4 (to_le_bytes v4) v4"
  "parses read4u (to_le_bytes u4) u4" "parses read8 (to_le_bytes v8) v8"
  "parses read8u (to_le_bytes u8) u8"
  unfolding read2_def read4_def read4u_def read8_def read8u_def
  by (rule carbon_array.word_parses; simp)+

lemma parses_arrays [simp, intro]:
  "parses read16 (array_bytes v16) v16" "parses read32 (array_bytes v32) v32"
  "parses read64 (array_bytes v64) v64"
  unfolding read16_def read32_def read64_def by (rule read_array_map; simp)+

lemma array_bytes_nonempty [simp]: "array_bytes (a :: 'n::len byte_array) \<noteq> []"
  by (metis length_array_bytes len_not_eq_0 list.size(3))

lemma fixed_round_trips [codec_intros]:
  "round_trip1 (write1 v1) read1 v1"
  "round_trip1 (write2 v2) read2 v2"
  "round_trip1 (write4 v4) read4 v4"
  "round_trip1 (write4u u4) read4u u4"
  "round_trip1 (write8 v8) read8 v8"
  "round_trip1 (write8u u8) read8u u8"
  "round_trip1 (write16 v16) read16 v16"
  "round_trip1 (write32 v32) read32 v32"
  "round_trip1 (write64 v64) read64 v64"
  unfolding write1_def write2_def write4_def write4u_def write8_def write8u_def write16_def
    write32_def write64_def carbon_write_def
  by (rule round_trip1_bytes; simp add: to_le_bytes_nonempty)+

lemma carbon_bytes_round_trip: "round_trip (carbon_write raw) (carbon_read (length raw)) raw"
  unfolding carbon_write_def round_trip_def using carbon_source.read_exact by blast

lemma wr_try_Ok [simp]: "wr_try (Ok x) f = f x"
  by (simp add: wr_try_def fun_eq_iff)

lemma wr_try_Err [simp]: "wr_try (Err e) f = wr_fail e"
  by (simp add: wr_try_def wr_fail_def fun_eq_iff)

section \<open>Arrays\<close>

text \<open>The largest length whose prefix is read back: the prefix is an \<open>i32\<close>.\<close>

definition fits_length :: "nat \<Rightarrow> bool" where
  "fits_length n = (n < 2 ^ 31)"

lemma fits_length_code [code]: "fits_length n = (int n < 2 ^ 31)"
  by (auto simp: fits_length_def)

lemma length_word:
  assumes "fits_length n"
  shows "ensure_u32_len n = Ok (word_of_nat n)" "unat (word_of_nat n :: i32) = n"
    "\<not> (word_of_nat n :: i32) <s 0"
proof -
  have n: "n < 2 ^ 31" using assms by (simp add: fits_length_def)
  then show "ensure_u32_len n = Ok (word_of_nat n)" by (simp add: ensure_u32_len_def)
  show "unat (word_of_nat n :: i32) = n" using n by (simp add: unat_of_nat)
  have "sint (word_of_nat n :: i32) = signed_take_bit 31 (int n)"
    by (simp add: signed_of_nat)
  also have "\<dots> = int n"
    using n by (intro signed_take_bit_int_eq_self) simp_all
  finally show "\<not> (word_of_nat n :: i32) <s 0" by (simp add: word_sless_alt)
qed

lemma writes_length: "fits_length n \<Longrightarrow> writes (write_length n) (to_le_bytes (word_of_nat n :: i32))"
  by (simp add: write_length_def length_word write4_def carbon_write_def)

lemma read_length_for_at:
  assumes "fits_length n" and "0 < k" and "k \<le> 2 ^ 32" and "n * k \<le> length rest"
  shows "read_length_for k (reader_at pre (to_le_bytes (word_of_nat n :: i32) @ rest)) =
           Ok (n, reader_at (pre @ to_le_bytes (word_of_nat n :: i32)) rest)"
proof -
  have "n * k \<le> 2 ^ 31 * 2 ^ 32"
    using assms(1,3) by (intro mult_le_mono) (simp_all add: fits_length_def)
  then have "n * k < 2 ^ 64" by simp
  with assms show ?thesis
    using parses_words(2) [of "word_of_nat n"] 
    by (simp add: read_length_for_def rd_bind_def parses_def length_word rd_require_def
        rd_return_def Let_def)
qed

lemma parses_deserialize: "parses p bs v \<Longrightarrow> deserialize p bs = Ok v"
  using parses_start [of p bs v]
  by (simp add: deserialize_def reader_at_def carbon_assert_eof_def slice_assert_eof_def remaining_def)

lemma round_trip1_deserialize:
  "round_trip1 (f v) p u \<Longrightarrow> bind_result (serialize f v) (deserialize p) = Ok u"
  by (auto simp: round_trip1_def serialize_def writes_def parses_deserialize)

text \<open>
  The common shape of every array: a length prefix and the elements. Each element
  occupies at least \<open>k\<close> bytes, which is what the reader's sanity check asks for.
\<close>

lemma array_round_trip:
  assumes len: "fits_length (length vs)" and k: "0 < k" "k \<le> 2 ^ 32"
    and elem: "\<And>v. v \<in> set vs \<Longrightarrow> \<exists>bs. writes (f v) bs \<and> parses p bs v \<and> k \<le> length bs"
  shows "round_trip1 (wr_seq [write_length (length vs), wr_for vs f])
           (rd_bind (read_length_for k) (\<lambda>count. rd_repeat count p)) vs"
proof -
  from elem obtain enc where enc:
    "\<And>v. v \<in> set vs \<Longrightarrow> writes (f v) (enc v) \<and> parses p (enc v) v \<and> k \<le> length (enc v)"
    by metis
  let ?hd = "to_le_bytes (word_of_nat (length vs) :: i32)"
  let ?body = "concat (map enc vs)"
  have body: "parses (rd_repeat (length vs) p) ?body vs" using enc by (intro parses_repeat) simp
  have "length vs * k \<le> length ?body"
    using enc by (induction vs) (auto simp: add_mono)
  then have "parses (rd_bind (read_length_for k) (\<lambda>count. rd_repeat count p)) (?hd @ ?body) vs"
    unfolding parses_def rd_bind_def
    using parses_reader_at [OF body] len k
    by (simp add: read_length_for_at [OF len k] append_assoc [symmetric] del: append_assoc)
       (simp add: read_length_for_at [OF len k])
  moreover have "writes (wr_seq [write_length (length vs), wr_for vs f]) (?hd @ ?body)"
    using writes_Cons [OF writes_length [OF len] writes_Cons [OF writes_for writes_Nil], of vs f enc] enc
    by simp
  moreover have "?hd @ ?body \<noteq> []" by (simp add: to_le_bytes_nonempty)
  ultimately show ?thesis by (auto simp: round_trip1_def)
qed

lemma round_trip1_sized:
  "round_trip1 a p v \<Longrightarrow> \<exists>bs. writes a bs \<and> parses p bs v \<and> 1 \<le> length bs"
  by (auto simp: round_trip1_def simp flip: length_greater_0_conv)

lemma byte_array_round_trip [codec_intros]:
  assumes "fits_length (length raw)"
  shows "round_trip1 (write_byte_array raw) read_byte_array raw"
proof -
  let ?hd = "to_le_bytes (word_of_nat (length raw) :: i32)"
  have "parses read_byte_array (?hd @ raw) raw"
    unfolding read_byte_array_def read_length_def parses_def rd_bind_def
    using parses_reader_at [OF carbon_source.read_exact [of raw]] 
    by (simp add: read_length_for_at [OF assms])
  moreover have "writes (write_byte_array raw) (?hd @ raw)"
    using writes_Cons [OF writes_length [OF assms] writes_Cons [OF writes_bytes writes_Nil], of raw]
    by (simp add: write_byte_array_def carbon_write_def)
  ultimately show ?thesis
    unfolding round_trip1_def by (intro exI [of _ "?hd @ raw"]) (simp add: to_le_bytes_nonempty)
qed

section \<open>What implementing CarbonSerializable gives\<close>

locale carbon_codec =
  fixes write_carbon :: "'a \<Rightarrow> wr_action"
    and read_carbon :: "'a reader"
    and ok :: "'a \<Rightarrow> bool"
  assumes codec_round_trip: "ok v \<Longrightarrow> round_trip1 (write_carbon v) read_carbon v"
begin

lemma serialize_Ok:
  assumes "ok v"
  obtains bs where "serialize write_carbon v = Ok bs" "parses read_carbon bs v" "bs \<noteq> []"
    "writes (write_carbon v) bs"
proof -
  from codec_round_trip [OF assms] obtain bs where
    bs: "writes (write_carbon v) bs" "parses read_carbon bs v" "bs \<noteq> []"
    by (auto simp: round_trip1_def)
  moreover from bs(1) have "serialize write_carbon v = Ok bs"
    by (simp add: serialize_def writes_def)
  ultimately show thesis using that by blast
qed

theorem deserialize_serialize:
  "ok v \<Longrightarrow> bind_result (serialize write_carbon v) (deserialize read_carbon) = Ok v"
  by (rule round_trip1_deserialize [OF codec_round_trip])

theorem serialize_injective:
  assumes "ok v" and "ok u" and "serialize write_carbon v = serialize write_carbon u"
  shows "v = u"
  using deserialize_serialize [OF assms(1)] deserialize_serialize [OF assms(2)]
  unfolding assms(3) by simp

text \<open>No encoding is a proper prefix of another, so values can be concatenated.\<close>

theorem prefix_free:
  assumes "ok v" and "ok u" and "serialize write_carbon v = Ok bs"
    and "serialize write_carbon u = Ok (bs @ extra)"
  shows "v = u \<and> extra = []"
proof -
  obtain b1 where "serialize write_carbon v = Ok b1" "parses read_carbon b1 v"
    using serialize_Ok [OF assms(1)] .
  moreover obtain b2 where "serialize write_carbon u = Ok b2" "parses read_carbon b2 u"
    using serialize_Ok [OF assms(2)] .
  ultimately show ?thesis
    using parses_prefix_unique [of read_carbon bs v "bs @ extra" u extra "[]"] assms(3,4) by simp
qed

theorem trailing_bytes_rejected:
  assumes "ok v" and "serialize write_carbon v = Ok bs" and "extra \<noteq> []"
  shows "deserialize read_carbon (bs @ extra) = Err (Serialization ''unexpected trailing bytes: '')"
proof -
  obtain b1 where "serialize write_carbon v = Ok b1" "parses read_carbon b1 v"
    using serialize_Ok [OF assms(1)] .
  with assms(2) have "read_carbon (reader_at [] (bs @ extra)) = Ok (v, reader_at bs extra)"
    using parses_reader_at [of read_carbon bs v "[]" extra] by simp
  with assms(3) show ?thesis
    by (simp add: deserialize_def reader_at_def carbon_assert_eof_def slice_assert_eof_def remaining_def)
qed

theorem carbon_array_round_trip:
  assumes "\<forall>v\<in>set vs. ok v" and "fits_length (length vs)"
  shows "round_trip1 (write_carbon_array write_carbon vs) (read_carbon_array read_carbon) vs"
  unfolding write_carbon_array_def read_carbon_array_def read_length_def
  using assms by (intro array_round_trip round_trip1_sized codec_round_trip) simp_all

end

text \<open>A list of values of such a type is again such a type.\<close>

locale carbon_list_codec = carbon_codec

sublocale carbon_list_codec \<subseteq> arr: carbon_codec "write_carbon_array write_carbon"
    "read_carbon_array read_carbon" "\<lambda>vs. list_all ok vs \<and> fits_length (length vs)"
proof unfold_locales
  fix vs assume "list_all ok vs \<and> fits_length (length vs)"
  then show "round_trip1 (write_carbon_array write_carbon vs) (read_carbon_array read_carbon) vs"
    by (intro carbon_array_round_trip) (auto simp: list_all_iff)
qed

section \<open>Compact big integers\<close>

lemma trim_fill_le: "trim_fill f w n \<le> n"
  by (induction n) auto

lemma trim_fill_last: "0 < trim_fill f w n \<Longrightarrow> w ! (trim_fill f w n - 1) \<noteq> f"
  by (induction n) (auto split: if_split_asm)

lemma trim_fill_split:
  "n \<le> length w \<Longrightarrow> take n w = take (trim_fill f w n) w @ replicate (n - trim_fill f w n) f"
proof (induction n)
  case (Suc n)
  show ?case
  proof (cases "w ! n = f")
    case True
    have "take (Suc n) w = take n w @ [f]"
      using Suc.prems True by (simp add: take_Suc_conv_app_nth)
    also have "\<dots> = take (trim_fill f w n) w @ replicate (n - trim_fill f w n) f @ [f]"
      using Suc by simp
    also have "replicate (n - trim_fill f w n) f @ [f] = replicate (Suc n - trim_fill f w n) f"
      using trim_fill_le [of f w n] by (simp add: Suc_diff_le replicate_append_same)
    finally show ?thesis using True by simp
  qed simp
qed simp

lemma byte_bit: "(b :: u8) AND 2 ^ n \<noteq> 0 \<longleftrightarrow> odd (unat b div 2 ^ n)"
proof -
  have "b AND 2 ^ n \<noteq> 0 \<longleftrightarrow> bit b n" by (simp add: and_exp_eq_0_iff_not_bit)
  also have "\<dots> \<longleftrightarrow> bit (unat b) n" by (auto simp: bit_unsigned_iff dest: bit_imp_le_length)
  finally show ?thesis by (simp add: bit_iff_odd)
qed

lemma byte_sign_bit: "(b :: u8) AND 0x80 \<noteq> 0 \<longleftrightarrow> 128 \<le> unat b"
proof -
  have bit: "b AND 0x80 \<noteq> 0 \<longleftrightarrow> odd (unat b div 128)" using byte_bit [of b 7] by simp
  show ?thesis
  proof (cases "128 \<le> unat b")
    case True
    then have "unat b div 128 = 1" using unat_byte_less [of b] by (intro div_nat_eqI) simp_all
    with bit True show ?thesis by simp
  qed (simp add: bit)
qed

text \<open>What the reader recovers from a header byte the writer can produce.\<close>

definition big_header :: "bool \<Rightarrow> nat \<Rightarrow> u8" where
  "big_header neg len = (if neg then (word_of_nat len AND 0x3F) OR 0x80 else word_of_nat len AND 0x3F)"

lemma big_header_bits:
  assumes "len \<le> 32"
  shows "unat (big_header neg len AND 0x3F) = len" "big_header neg len AND 0x40 = 0"
    "(big_header neg len AND 0x80 \<noteq> 0) = neg" "big_header neg len = 0 \<longleftrightarrow> len = 0 \<and> \<not> neg"
proof -
  have "\<forall>neg\<in>{True, False}. \<forall>len\<in>set [0..<33].
      unat (big_header neg len AND 0x3F) = len \<and> big_header neg len AND 0x40 = 0 \<and>
      (big_header neg len AND 0x80 \<noteq> 0) = neg \<and> (big_header neg len = 0 \<longleftrightarrow> len = 0 \<and> \<not> neg)"
    by code_simp
  moreover have "len \<in> set [0..<33]" "neg \<in> {True, False}" using assms by auto
  ultimately show "unat (big_header neg len AND 0x3F) = len" "big_header neg len AND 0x40 = 0"
    "(big_header neg len AND 0x80 \<noteq> 0) = neg" "big_header neg len = 0 \<longleftrightarrow> len = 0 \<and> \<not> neg"
    by blast+
qed

text \<open>The sign fill of a word and the number of significant bytes.\<close>

definition word_fill :: "bytes \<Rightarrow> u8" where
  "word_fill word = (if word ! 31 AND 0x80 \<noteq> 0 then 0xFF else 0)"

definition word_len :: "bytes \<Rightarrow> nat" where
  "word_len word = trim_fill (word_fill word) word 32"

lemma word_fill_simps: "word_fill word = 0xFF \<longleftrightarrow> word ! 31 AND 0x80 \<noteq> 0"
  by (simp add: word_fill_def)

lemma word_split:
  assumes "length word = 32"
  shows "take (word_len word) word @ replicate (32 - word_len word) (word_fill word) = word"
    and "word_len word \<le> 32"
  using trim_fill_split [of 32 word "word_fill word"] assms trim_fill_le [of "word_fill word" word 32]
  by (simp_all add: word_len_def)

lemma write_big_int_nonzero:
  assumes "v \<noteq> 0" and "signed_word_256 nb v = Ok w"
  shows "write_big_int nb v =
    (let word = array_bytes w
     in wr_seq [write1 (big_header (word_fill word = 0xFF) (word_len word)),
                carbon_write (take (word_len word) word)])"
  using assms
  by (simp add: write_big_int_def Let_def big_header_def word_fill_def word_len_def
      cong: if_cong split del: if_split del: wr_seq.simps)

lemma read_big_int_with_header_eq:
  assumes "h \<noteq> 0" "unat (h AND 0x3F) = n" "h AND 0x40 = 0" "n \<le> 32" "(h AND 0x80 \<noteq> 0) = neg"
  shows "read_big_int_with_header nb h =
    rd_bind (if n > 0 then carbon_read n else rd_return []) (\<lambda>raw.
      let word = raw @ drop n (replicate 32 (if neg then 0xFF else 0))
      in if (word ! 31 AND 0x80 \<noteq> 0) \<noteq> neg
         then rd_fail (Serialization ''non-standard BigInt header'')
         else rd_return (signed_word_to_big_int nb (array_of word)))"
  using assms(1,3,4) unfolding read_big_int_with_header_def Let_def assms(2,5)
  by (simp only: simp_thms if_False not_less [symmetric])

text \<open>Reading back the significant bytes of a word under its header gives the word.\<close>

lemma read_big_int_body:
  assumes len: "length word = 32" and nonzero: "le_to_nat word \<noteq> 0"
  shows "parses (read_big_int_with_header nb (big_header (word_fill word = 0xFF) (word_len word)))
           (take (word_len word) word) (signed_word_to_big_int nb (array_of word))"
proof -
  let ?n = "word_len word" and ?neg = "word_fill word = 0xFF"
  note split = word_split [OF len]
  note bits = big_header_bits [OF split(2), of ?neg]
  have fill: "(if ?neg then 0xFF else 0) = word_fill word" by (simp add: word_fill_def)
  have "\<not> (?n = 0 \<and> \<not> ?neg)"
  proof
    assume a: "?n = 0 \<and> \<not> ?neg"
    then have "word = replicate 32 0" using split(1) fill by simp
    with nonzero show False by simp
  qed
  then have header: "big_header ?neg ?n \<noteq> 0" using bits(4) by blast
  have raw: "parses (if ?n > 0 then carbon_read ?n else rd_return []) (take ?n word) (take ?n word)"
  proof (cases "?n = 0")
    case True
    then show ?thesis by (auto simp: parses_return)
  next
    case False
    then show ?thesis using carbon_source.read_exact [of "take ?n word"] split(2) len by simp
  qed
  have "take ?n word @ drop ?n (replicate 32 (word_fill word)) = word" using split by simp
  moreover have "(word ! 31 AND 0x80 \<noteq> 0) = ?neg" by (simp add: word_fill_simps)
  ultimately have body: "parses
    (let full = take ?n word @ drop ?n (replicate 32 (word_fill word))
     in if (full ! 31 AND 0x80 \<noteq> 0) \<noteq> ?neg
        then rd_fail (Serialization ''non-standard BigInt header'')
        else rd_return (signed_word_to_big_int nb (array_of full)))
     [] (signed_word_to_big_int nb (array_of word))"
    by (auto simp: Let_def parses_return)
  have eq: "read_big_int_with_header nb (big_header ?neg ?n) =
    rd_bind (if ?n > 0 then carbon_read ?n else rd_return []) (\<lambda>raw.
      let full = raw @ drop ?n (replicate 32 (word_fill word))
      in if (full ! 31 AND 0x80 \<noteq> 0) \<noteq> ?neg
         then rd_fail (Serialization ''non-standard BigInt header'')
         else rd_return (signed_word_to_big_int nb (array_of full)))"
    by (subst read_big_int_with_header_eq [of _ ?n ?neg])
       (rule header bits(1,2,3) split(2) refl | simp only: fill)+
  have "parses (read_big_int_with_header nb (big_header ?neg ?n)) (take ?n word @ [])
      (signed_word_to_big_int nb (array_of word))"
    unfolding eq by (rule parses_bind, rule raw, rule body)
  then show ?thesis by simp
qed

context num_bigint_api begin

lemma signed_word_nonzero:
  assumes "v \<noteq> 0" "- (2 ^ 255) \<le> v" "v < 2 ^ 256" "signed_word_256 nb v = Ok w"
  shows "le_to_nat (array_bytes w) \<noteq> 0"
proof
  assume "le_to_nat (array_bytes w) = 0"
  moreover obtain w' where "signed_word_256 nb v = Ok w'"
    "int (le_to_nat (array_bytes w')) = v mod 2 ^ 256"
    by (rule signed_word_value [OF assms(2,3)])
  ultimately have "v mod 2 ^ 256 = 0" using assms(4) by simp
  then have "2 ^ 256 dvd v" by (rule mod_0_imp_dvd)
  then obtain k where "v = 2 ^ 256 * k" by (rule dvdE)
  with assms(1-3) show False by (cases "k \<le> -1"; cases "k \<ge> 1") auto
qed

text \<open>
  A Carbon big integer is read back as the two's-complement value of its 256-bit word.
\<close>

lemma big_int_round_trip_word:
  assumes "v \<noteq> 0" "- (2 ^ 255) \<le> v" "v < 2 ^ 256" "signed_word_256 nb v = Ok w"
  shows "round_trip1 (write_big_int nb v) (read_big_int nb) (signed_word_to_big_int nb w)"
proof -
  let ?word = "array_bytes w"
  let ?h = "big_header (word_fill ?word = 0xFF) (word_len ?word)"
  have "parses (read_big_int_with_header nb ?h) (take (word_len ?word) ?word)
      (signed_word_to_big_int nb w)"
    using read_big_int_body [of ?word nb] signed_word_nonzero [OF assms] by simp
  then have "round_trip (wr_seq [carbon_write (take (word_len ?word) ?word)])
      (read_big_int_with_header nb ?h) (signed_word_to_big_int nb w)"
    by (intro round_trip_single) (auto simp: round_trip_def carbon_write_def)
  then have "round_trip1 (wr_seq [write1 ?h, carbon_write (take (word_len ?word) ?word)])
      (read_big_int nb) (signed_word_to_big_int nb w)"
    unfolding read_big_int_def by (rule round_trip1_cons [OF fixed_round_trips(1)])
  then show ?thesis using write_big_int_nonzero [OF assms(1,4)] by (simp add: Let_def)
qed

lemma big_int_wraps:
  assumes "- (2 ^ 255) \<le> v" "v < 2 ^ 256"
  shows "round_trip1 (write_big_int nb v) (read_big_int nb) (if v < 2 ^ 255 then v else v - 2 ^ 256)"
proof (cases "v = 0")
  case True
  have "parses (read_big_int nb) ([0] @ []) 0"
    unfolding read_big_int_def
    by (rule parses_bind [OF parses_read1]) (simp add: read_big_int_with_header_def parses_return)
  with True show ?thesis
    by (simp add: write_big_int_def write1_def round_trip1_bytes)
next
  case False
  obtain w where "signed_word_256 nb v = Ok w"
    "signed_word_to_big_int nb w = (if v < 2 ^ 255 then v else v - 2 ^ 256)"
    using signed_word_wraps [OF assms] by blast
  with big_int_round_trip_word [of v w] False assms show ?thesis by metis
qed

lemma big_int_round_trip:
  assumes "- (2 ^ 255) \<le> v" "v < 2 ^ 255"
  shows "round_trip1 (write_big_int nb v) (read_big_int nb) v"
  using big_int_wraps [of v] assms by simp

end

section \<open>IntX\<close>

text \<open>The values whose encoding reads back: those of a signed 256-bit word.\<close>

definition intx_ok :: "IntX \<Rightarrow> bool" where
  "intx_ok x = (- (2 ^ 255) \<le> as_bigint x \<and> as_bigint x < 2 ^ 255)"

lemma sint_from_le_bytes:
  assumes "length raw = 8"
  shows "sint (from_le_bytes raw :: i64) = le_to_int raw"
proof -
  let ?w = "from_le_bytes raw :: i64"
  have "uint ?w = sint ?w mod 2 ^ 64"
    using uint_sint [of ?w] by (simp add: take_bit_eq_mod)
  moreover have "uint ?w = int (le_to_nat raw)"
    using le_to_nat_bound [of raw] assms
    by (simp add: from_le_bytes_def unsigned_of_nat take_bit_nat_eq_self)
  moreover have "- (2 ^ 63) \<le> sint ?w" "sint ?w < 2 ^ 63"
    using sint_ge [of ?w] sint_lt [of ?w] by simp_all
  ultimately show ?thesis
    using assms by (intro le_to_int_eqI [symmetric]) auto
qed

lemma sint_of_i64_range: "- (2 ^ 63) \<le> v \<Longrightarrow> v < 2 ^ 63 \<Longrightarrow> sint (word_of_int v :: i64) = v"
  by (simp add: signed_of_int signed_take_bit_int_eq_self)

lemma le_to_int_sign_extend:
  "bs \<noteq> [] \<Longrightarrow> (if 128 \<le> unat (last bs) then 0xFF else 0) = f \<Longrightarrow>
     le_to_int (bs @ replicate k f) = le_to_int bs"
proof (induction k arbitrary: bs)
  case (Suc k)
  have "le_to_int (bs @ replicate (Suc k) f) = le_to_int ((bs @ [f]) @ replicate k f)" by simp
  also have "\<dots> = le_to_int (bs @ [f])"
    using Suc.prems by (intro Suc.IH) (auto split: if_splits)
  also have "\<dots> = le_to_int bs"
    using Suc.prems le_to_int_extend_zero [of bs] le_to_int_extend_ff [of bs]
    by (auto split: if_splits)
  finally show ?case .
qed simp

text \<open>A word with at most seven significant bytes is the sign extension of its first eight.\<close>

lemma word_first_eight:
  assumes "length word = 32" and "word_len word < 8"
  shows "le_to_int word = le_to_int (take 8 word)"
proof -
  let ?n = "word_len word" and ?f = "word_fill word"
  have w: "take ?n word @ replicate (32 - ?n) ?f = word" by (rule word_split(1) [OF assms(1)])
  have t8: "take 8 word = take ?n word @ replicate (8 - ?n) ?f"
  proof -
    have "min (8 - ?n) (32 - ?n) = 8 - ?n" by simp
    with arg_cong [OF w, of "take 8"] assms show ?thesis by simp
  qed
  have eq: "(32::nat) - ?n = (8 - ?n) + 24" using assms(2) by simp
  have "(take ?n word @ replicate (8 - ?n) ?f) @ replicate 24 ?f = word"
    using w unfolding eq replicate_add by (simp only: append_assoc)
  then have "take 8 word @ replicate 24 ?f = word" unfolding t8 .
  moreover have "last (take 8 word) = ?f" using t8 assms(2) by simp
  moreover have "(if 128 \<le> unat ?f then 0xFF else 0) = ?f" by (simp add: word_fill_def)
  moreover have "take 8 word \<noteq> []" using assms(1) by (simp flip: length_0_conv)
  ultimately show ?thesis using le_to_int_sign_extend [of "take 8 word" ?f 24] by metis
qed

lemma le_to_int_eight_range:
  assumes "length bs = 8"
  shows "- (2 ^ 63) \<le> le_to_int bs" "le_to_int bs < 2 ^ 63"
proof -
  have "bs \<noteq> []" using assms by auto
  then show "- (2 ^ 63) \<le> le_to_int bs" "le_to_int bs < 2 ^ 63"
    using le_to_int_range [of bs] assms by simp_all
qed

text \<open>The eight-byte branch of the reader, for any header that announces eight bytes.\<close>

lemma read_intx_body_eight:
  assumes "h AND 0x3F = 8" and "length raw = 8"
  shows "parses (read_intx_body nb h) raw
    (if (h AND 0x80 \<noteq> 0) = ((from_le_bytes raw :: i64) <s 0) then IntX (sint (from_le_bytes raw :: i64))
     else IntX (signed_word_to_big_int nb
       (array_of (raw @ drop 8 (replicate 32 (if h AND 0x80 \<noteq> 0 then 0xFF else 0))))))"
  unfolding read_intx_body_def Let_def assms(1)
  by (simp only: less_irrefl if_False if_True refl) (rule read_array_map [OF assms(2)], simp)

lemma intx_header_small: "(if b then 0x88 else 0x08) AND 0x3F = (8 :: u8)"
    "((if b then 0x88 else 0x08 :: u8) AND 0x80 \<noteq> 0) = b"
  by simp_all

lemma intx_narrow_round_trip:
  assumes "is_8_byte_safe x"
  shows "round_trip1 (write_intx nb x) (read_intx nb) x"
proof -
  let ?v = "word_of_int (as_bigint x) :: i64"
  let ?h = "if ?v <s 0 then 0x88 else 0x08 :: u8"
  have val: "IntX (sint ?v) = x"
    using assms by (cases x) (simp add: is_8_byte_safe_def sint_of_i64_range)
  have "parses (read_intx_body nb ?h) (to_le_bytes ?v) x"
    using read_intx_body_eight [OF intx_header_small(1), of "to_le_bytes ?v" nb "?v <s 0"]
    by (simp only: intx_header_small(2) from_to_le_bytes_widths if_True val refl) simp
  then have "round_trip (wr_seq [write8 ?v]) (read_intx_body nb ?h) x"
    by (intro round_trip_single) (auto simp: round_trip_def write8_def carbon_write_def)
  then have "round_trip1 (wr_seq [write1 ?h, write8 ?v]) (read_intx nb) x"
    unfolding read_intx_def by (rule round_trip1_cons [OF fixed_round_trips(1)])
  with assms show ?thesis by (simp add: write_intx_def Let_def del: wr_seq.simps)
qed

context num_bigint_api begin

lemma word_value: "le_to_int (array_bytes w) = signed_word_to_big_int nb w"
  by (simp add: signed_word_to_big_int_def from_signed)

lemma intx_wide_len:
  assumes "\<not> is_8_byte_safe (IntX (signed_word_to_big_int nb w))"
  shows "8 \<le> word_len (array_bytes w)"
proof (rule ccontr)
  assume "\<not> 8 \<le> word_len (array_bytes w)"
  then have "signed_word_to_big_int nb w = le_to_int (take 8 (array_bytes w))"
    using word_first_eight [of "array_bytes w"] by (simp add: word_value)
  with assms le_to_int_eight_range [of "take 8 (array_bytes w)"] show False
    by (simp add: is_8_byte_safe_def)
qed

text \<open>Eight significant bytes whose own sign disagrees with the fill.\<close>

lemma intx_eight_sign:
  assumes "\<not> is_8_byte_safe (IntX (signed_word_to_big_int nb w))" "word_len (array_bytes w) = 8"
  shows "(word_fill (array_bytes w) = 0xFF) \<noteq> ((from_le_bytes (take 8 (array_bytes w)) :: i64) <s 0)"
proof
  let ?word = "array_bytes w" and ?raw = "take 8 (array_bytes w)"
  assume a: "(word_fill ?word = 0xFF) = ((from_le_bytes ?raw :: i64) <s 0)"
  have ne: "?raw \<noteq> []" by (simp flip: length_0_conv)
  have "((from_le_bytes ?raw :: i64) <s 0) = (128 \<le> unat (last ?raw))"
    using le_to_int_sign [OF ne] by (simp add: word_sless_alt sint_from_le_bytes)
  with a have "(if 128 \<le> unat (last ?raw) then 0xFF else 0) = word_fill ?word"
    by (simp add: word_fill_def split: if_splits)
  then have "le_to_int (?raw @ replicate 24 (word_fill ?word)) = le_to_int ?raw"
    by (rule le_to_int_sign_extend [OF ne])
  moreover have "?raw @ replicate 24 (word_fill ?word) = ?word"
    using word_split(1) [of ?word] assms(2) by simp
  ultimately have "signed_word_to_big_int nb w = le_to_int ?raw" by (simp add: word_value)
  with assms(1) le_to_int_eight_range [of ?raw] show False
    by (simp add: is_8_byte_safe_def)
qed

lemma intx_wide_body:
  assumes "\<not> is_8_byte_safe (IntX (signed_word_to_big_int nb w))"
    and "le_to_nat (array_bytes w) \<noteq> 0"
  defines "word \<equiv> array_bytes w"
  defines "h \<equiv> big_header (word_fill word = 0xFF) (word_len word)"
  shows "parses (read_intx_body nb h)
      (take (word_len word) word) (IntX (signed_word_to_big_int nb w))"
proof -
  have len32: "length word = 32" by (simp add: word_def)
  have le: "word_len word \<le> 32" by (rule word_split(2) [OF len32])
  have ge: "8 \<le> word_len word" using intx_wide_len [OF assms(1)] by (simp add: word_def)
  have n: "unat (h AND 0x3F) = word_len word"
    and neg: "(h AND 0x80 \<noteq> 0) = (word_fill word = 0xFF)"
    unfolding h_def by (rule big_header_bits [OF le])+
  have not_less: "\<not> h AND 0x3F < 8" using n ge by (simp add: word_less_nat_alt)
  show ?thesis
  proof (cases "word_len word = 8")
    case True
    then have eq8: "h AND 0x3F = 8" using n by (simp add: word_unat_eq_iff)
    have sign: "(h AND 0x80 \<noteq> 0) \<noteq> ((from_le_bytes (take 8 word) :: i64) <s 0)"
      unfolding neg using intx_eight_sign [OF assms(1)] True by (simp add: word_def)
    have "take 8 word @ replicate 24 (if h AND 0x80 \<noteq> 0 then 0xFF else 0) = word"
      unfolding neg using word_split(1) [OF len32] True by (simp add: word_fill_def split: if_splits)
    then have full: "array_of (take 8 word @ drop 8 (replicate 32 (if h AND 0x80 \<noteq> 0 then 0xFF else 0))) = w"
      by (simp add: word_def)
    have "parses (read_intx_body nb h) (take 8 word) (IntX (signed_word_to_big_int nb w))"
      using read_intx_body_eight [OF eq8, of "take 8 word" nb] len32
      unfolding full if_not_P [OF sign] by simp
    with True show ?thesis by simp
  next
    case False
    then have neq8: "h AND 0x3F \<noteq> 8" using n by auto
    have "parses (read_big_int_with_header nb h) (take (word_len word) word)
        (signed_word_to_big_int nb w)"
      unfolding h_def using read_big_int_body [OF len32, of nb] assms(2) by (simp add: word_def)
    then have "parses (rd_bind (read_big_int_with_header nb h) (\<lambda>v. rd_return (IntX v)))
        (take (word_len word) word @ []) (IntX (signed_word_to_big_int nb w))"
      by (rule parses_bind) auto
    then show ?thesis by (simp add: read_intx_body_def Let_def not_less neq8)
  qed
qed

lemma intx_round_trip:
  assumes "intx_ok x"
  shows "round_trip1 (write_intx nb x) (read_intx nb) x"
proof (cases "is_8_byte_safe x")
  case True
  then show ?thesis by (rule intx_narrow_round_trip)
next
  case False
  let ?v = "as_bigint x"
  have range: "- (2 ^ 255) \<le> ?v" "?v < 2 ^ 255" using assms by (simp_all add: intx_ok_def)
  obtain w where w: "signed_word_256 nb ?v = Ok w" "signed_word_to_big_int nb w = ?v"
    using signed_word_inverse [OF range] by blast
  have nz: "?v \<noteq> 0" using False by (auto simp: is_8_byte_safe_def)
  have x: "IntX (signed_word_to_big_int nb w) = x" using w(2) by simp
  let ?word = "array_bytes w"
  let ?h = "big_header (word_fill ?word = 0xFF) (word_len ?word)"
  have nonzero: "le_to_nat ?word \<noteq> 0"
    using signed_word_nonzero [OF nz range(1) _ w(1)] range(2) by simp
  have "round_trip1 (wr_seq [write1 ?h, carbon_write (take (word_len ?word) ?word)]) (read_intx nb) x"
    unfolding read_intx_def
    using intx_wide_body [of w] False nonzero
    by (intro round_trip1_cons [OF fixed_round_trips(1)] round_trip_single)
       (auto simp: round_trip_def carbon_write_def x)
  with False show ?thesis
    by (simp add: write_intx_def write_big_int_nonzero [OF nz w(1)] Let_def del: wr_seq.simps)
qed

end

section \<open>Strings and the remaining arrays\<close>

lemma string_z_round_trip [codec_intros]:
  assumes "0 \<notin> set (string_bytes s)"
  shows "round_trip1 (write_string_z s) read_string_z s"
proof -
  let ?raw = "string_bytes s"
  have "takeWhile (\<lambda>b. b \<noteq> 0) (?raw @ 0 # post) = ?raw" for post
    using assms by (subst takeWhile_append2) auto
  then have "parses read_string_z (?raw @ [0]) s"
    by (simp add: parses_def read_string_z_def reader_at_def Let_def)
  moreover have "writes (write_string_z s) (?raw @ [0])"
    using writes_Cons [OF writes_bytes writes_Cons [OF writes_bytes writes_Nil], of ?raw "[0]"] assms
    by (simp add: write_string_z_def carbon_write_def write1_def del: wr_seq.simps)
  ultimately show ?thesis by (auto simp: round_trip1_def)
qed

lemma small_string_round_trip [codec_intros]:
  assumes "length (string_bytes (as_str s)) \<le> 255"
  shows "round_trip1 (write_small_string s) read_small_string s"
proof -
  let ?raw = "string_bytes (as_str s)"
  have len: "unat (word_of_nat (length ?raw) :: u8) = length ?raw" using assms by simp
  have "round_trip (wr_seq [carbon_write ?raw])
     (rd_bind (carbon_read (unat (word_of_nat (length ?raw) :: u8))) (\<lambda>raw.
        case from_utf8 raw of None \<Rightarrow> rd_fail utf8_error | Some s \<Rightarrow> rd_return (SmallString s))) s"
    unfolding len
    by (rule round_trip_cons0 [OF carbon_bytes_round_trip]) (simp add: round_trip_nil del: wr_seq.simps)
  then have "round_trip1 (wr_seq [write1 (word_of_nat (length ?raw)), carbon_write ?raw])
      read_small_string s"
    unfolding read_small_string_def by (rule round_trip1_cons [OF fixed_round_trips(1)])
  moreover have "write_small_string s =
      wr_seq [write1 (word_of_nat (length ?raw)), carbon_write ?raw]"
    using assms by (simp add: write_small_string_def Let_def del: wr_seq.simps)
  ultimately show ?thesis by simp
qed

lemma fixed_array_round_trips [codec_intros]:
  "fits_length (length b) \<Longrightarrow> round_trip1 (write_i8_array b) read_i8_array b"
  "fits_length (length h) \<Longrightarrow> round_trip1 (write_i16_array h) read_i16_array h"
  "fits_length (length w) \<Longrightarrow> round_trip1 (write_i32_array w) read_i32_array w"
  "fits_length (length d) \<Longrightarrow> round_trip1 (write_i64_array d) read_i64_array d"
  "fits_length (length u) \<Longrightarrow> round_trip1 (write_u64_array u) read_u64_array u"
  unfolding write_i8_array_def read_i8_array_def write_i16_array_def read_i16_array_def
    write_i32_array_def read_i32_array_def write_i64_array_def read_i64_array_def
    write_u64_array_def read_u64_array_def read_length_def write1_def write2_def write4_def
    write8_def write8u_def carbon_write_def
  by (rule array_round_trip; force)+

lemma string_z_array_round_trip [codec_intros]:
  assumes "fits_length (length vs)" and "\<forall>v\<in>set vs. 0 \<notin> set (string_bytes v)"
  shows "round_trip1 (write_string_z_array vs) read_string_z_array vs"
  unfolding write_string_z_array_def read_string_z_array_def read_length_def
  using assms by (intro array_round_trip round_trip1_sized codec_intros) auto

lemma writes_byte_array_sized:
  assumes "fits_length (length raw)"
  shows "\<exists>bs. writes (write_byte_array raw) bs \<and> parses read_byte_array bs raw \<and> 4 \<le> length bs"
proof -
  from byte_array_round_trip [OF assms] obtain bs where
    bs: "writes (write_byte_array raw) bs" "parses read_byte_array bs raw"
    by (auto simp: round_trip1_def)
  have "writes (write_byte_array raw) (to_le_bytes (word_of_nat (length raw) :: i32) @ raw)"
    using writes_Cons [OF writes_length [OF assms] writes_Cons [OF writes_bytes writes_Nil], of raw]
    by (simp add: write_byte_array_def carbon_write_def del: wr_seq.simps)
  with bs(1) have "bs = to_le_bytes (word_of_nat (length raw) :: i32) @ raw" by (rule writes_unique)
  with bs show ?thesis by auto
qed

lemma byte_arrays_round_trip [codec_intros]:
  assumes "fits_length (length vs)" and "\<forall>v\<in>set vs. fits_length (length v)"
  shows "round_trip1 (write_byte_arrays vs) read_byte_arrays vs"
  unfolding write_byte_arrays_def read_byte_arrays_def
  using assms by (intro array_round_trip writes_byte_array_sized) auto

lemma big_int_array_round_trip [codec_intros]:
  assumes "num_bigint_api nb" and "fits_length (length vs)"
    and "\<forall>v\<in>set vs. - (2 ^ 255) \<le> v \<and> v < 2 ^ 255"
  shows "round_trip1 (write_big_int_array nb vs) (read_big_int_array nb) vs"
  unfolding write_big_int_array_def read_big_int_array_def read_length_def
  using assms
  by (intro array_round_trip round_trip1_sized num_bigint_api.big_int_round_trip) auto

text \<open>Which integers an array of the given width holds without loss.\<close>

definition int_width_ok :: "u8 \<Rightarrow> bool \<Rightarrow> int \<Rightarrow> bool" where
  "int_width_ok width is_signed v =
     ((width = 1 \<or> width = 2 \<or> width = 4 \<or> width = 8) \<and>
      (let n = 8 * unat width
       in if is_signed then - (2 ^ (n - 1)) \<le> v \<and> v < 2 ^ (n - 1) else 0 \<le> v \<and> v < 2 ^ n))"

lemma word_int_values:
  "- (2 ^ 7) \<le> v \<Longrightarrow> v < 2 ^ 7 \<Longrightarrow> sint (word_of_int v :: i8) = v"
  "- (2 ^ 15) \<le> v \<Longrightarrow> v < 2 ^ 15 \<Longrightarrow> sint (word_of_int v :: i16) = v"
  "- (2 ^ 31) \<le> v \<Longrightarrow> v < 2 ^ 31 \<Longrightarrow> sint (word_of_int v :: i32) = v"
  "0 \<le> v \<Longrightarrow> v < 2 ^ 8 \<Longrightarrow> uint (word_of_int v :: u8) = v"
  "0 \<le> v \<Longrightarrow> v < 2 ^ 16 \<Longrightarrow> uint (word_of_int v :: u16) = v"
  "0 \<le> v \<Longrightarrow> v < 2 ^ 32 \<Longrightarrow> uint (word_of_int v :: u32) = v"
  "0 \<le> v \<Longrightarrow> v < 2 ^ 64 \<Longrightarrow> uint (word_of_int v :: u64) = v"
  by (simp_all add: signed_of_int unsigned_of_int signed_take_bit_int_eq_self take_bit_int_eq_self)

lemma int_element_round_trip:
  assumes "int_width_ok width is_signed v"
  shows "\<exists>bs. writes (write_int_element width is_signed v) bs
           \<and> parses (read_int_element width is_signed) bs v \<and> unat width \<le> length bs"
proof -
  have step: "\<exists>bs. writes (carbon_write (to_le_bytes w)) bs \<and> parses (rd_bind p (\<lambda>x. rd_return (g x))) bs v
      \<and> unat width \<le> length bs"
    if "parses p (to_le_bytes w) w'" "g w' = v" "unat width \<le> LENGTH('a) div 8"
    for w :: "'a::len word" and p :: "'b reader" and g w'
    using parses_bind [OF that(1), of "\<lambda>x. rd_return (g x)" "[]" v] that(2,3)
    by (intro exI [of _ "to_le_bytes w"]) (auto simp: carbon_write_def parses_return)
  have one: "\<exists>bs. writes (write1 w) bs \<and> parses (rd_bind read1 (\<lambda>x. rd_return (g x))) bs v \<and> 1 \<le> length bs"
    if "g w = v" for w g
    using parses_bind [OF parses_read1 [of w], of "\<lambda>x. rd_return (g x)" "[]" v] that
    by (intro exI [of _ "[w]"]) (auto simp: write1_def parses_return)
  have arr2: "parses (carbon_read_array 2) (to_le_bytes w) (to_le_bytes w)" for w :: u16
    using carbon_array.read_exact [of "to_le_bytes w"] by simp
  from assms consider
      "width = 1" is_signed | "width = 1" "\<not> is_signed" | "width = 2" is_signed
    | "width = 2" "\<not> is_signed" | "width = 4" is_signed | "width = 4" "\<not> is_signed"
    | "width = 8" is_signed | "width = 8" "\<not> is_signed"
    by (auto simp: int_width_ok_def)
  then show ?thesis
  proof cases
    case 1
    with assms show ?thesis
      using one [of sint "word_of_int v"]
      by (simp add: int_width_ok_def write_int_element_def read_int_element_def ensure_i128_range_def
          word_int_values)
  next
    case 2
    with assms show ?thesis
      using one [of uint "word_of_int v"]
      by (simp add: int_width_ok_def write_int_element_def read_int_element_def ensure_i128_range_def
          word_int_values)
  next
    case 3
    with assms show ?thesis
      using step [OF parses_words(1), of sint "word_of_int v"]
      by (simp add: int_width_ok_def write_int_element_def read_int_element_def ensure_i128_range_def
          word_int_values write2_def)
  next
    case 4
    with assms show ?thesis
      using step [OF arr2, of "\<lambda>raw. uint (from_le_bytes raw :: u16)" "word_of_int v"]
      by (simp add: int_width_ok_def write_int_element_def read_int_element_def ensure_i128_range_def
          word_int_values)
  next
    case 5
    with assms show ?thesis
      using step [OF parses_words(2), of sint "word_of_int v"]
      by (simp add: int_width_ok_def write_int_element_def read_int_element_def ensure_i128_range_def
          word_int_values write4_def)
  next
    case 6
    with assms show ?thesis
      using step [OF parses_words(3), of uint "word_of_int v"]
      by (simp add: int_width_ok_def write_int_element_def read_int_element_def ensure_i128_range_def
          word_int_values write4u_def)
  next
    case 7
    with assms show ?thesis
      using step [OF parses_words(4), of sint "word_of_int v"]
      by (simp add: int_width_ok_def write_int_element_def read_int_element_def ensure_i128_range_def
          sint_of_i64_range write8_def)
  next
    case 8
    with assms show ?thesis
      using step [OF parses_words(5), of uint "word_of_int v"]
      by (simp add: int_width_ok_def write_int_element_def read_int_element_def ensure_i128_range_def
          word_int_values write8u_def)
  qed
qed

lemma int_array_round_trip [codec_intros]:
  assumes "fits_length (length vs)" and "\<forall>v\<in>set vs. int_width_ok width is_signed v"
    and "width = 1 \<or> width = 2 \<or> width = 4 \<or> width = 8"
  shows "round_trip1 (write_int_array vs width is_signed) (read_int_array width is_signed) vs"
  unfolding write_int_array_def read_int_array_def
  using assms by (intro array_round_trip int_element_round_trip) auto

section \<open>Carbon readers never panic\<close>

lemma carbon_reads_safe [safe_intros]:
  "safe_reader (carbon_read n)" "safe_reader (carbon_read_array n)"
  by (rule carbon_source.read_safe carbon_array.read_safe)+

lemma carbon_fixed_safe [safe_intros]:
  "safe_reader read1" "safe_reader read2" "safe_reader read4" "safe_reader read4u"
  "safe_reader read8" "safe_reader read8u" "safe_reader read16" "safe_reader read32"
  "safe_reader read64"
  unfolding read1_def read2_def read4_def read4u_def read8_def read8u_def read16_def read32_def read64_def
  by (intro safe_intros)+

lemma rd_require_safe [safe_intros]: "safe_reader (rd_require n e)"
  by (rule safe_readerI)
     (auto simp: rd_require_def settled_def longer_def remaining_def advances_refl split: if_split_asm)

lemma read_length_safe [safe_intros]: "safe_reader (read_length_for k)" "safe_reader read_length"
  unfolding read_length_def read_length_for_def Let_def by (intro safe_intros)+

lemma takeWhile_stops:
  "length (takeWhile P xs) \<noteq> length xs \<Longrightarrow> takeWhile P (xs @ ys) = takeWhile P xs"
  by (metis takeWhile_append takeWhile_eq_all_conv)

lemma read_string_z_safe [safe_intros]: "safe_reader read_string_z"
proof (rule safe_readerI)
  fix r x r' assume r: "reader_wf r" and ok: "read_string_z r = Ok (x, r')"
  let ?rest = "drop (rd_offset r) (rd_data r)"
  let ?raw = "takeWhile (\<lambda>b. b \<noteq> 0) ?rest"
  from ok have ne: "length ?raw \<noteq> length ?rest" and x: "from_utf8 ?raw = Some x"
    and r': "r' = r\<lparr>rd_offset := rd_offset r + length ?raw + 1\<rparr>"
    by (auto simp: read_string_z_def Let_def split: option.splits if_split_asm)
  have lt: "length ?raw < length ?rest" using ne length_takeWhile_le [of "\<lambda>b. b \<noteq> 0" ?rest] by simp
  then have "advances r r'" using r by (simp add: advances_def reader_wf_def r')
  moreover have "read_string_z (longer ext r) = Ok (x, longer ext r')" for ext
  proof -
    have "drop (rd_offset (longer ext r)) (rd_data (longer ext r)) = ?rest @ ext"
      using r by (simp add: longer_def reader_wf_def)
    then show ?thesis
      using lt x by (simp add: read_string_z_def Let_def takeWhile_stops [OF ne] longer_def r')
  qed
  ultimately show "settled read_string_z r x r'" by (simp add: settled_def)
next
  fix r show "\<not> panics (read_string_z r)"
    by (simp add: read_string_z_def Let_def split: option.splits)
qed

lemma read_big_safe [safe_intros]:
  "safe_reader (read_big_int_with_header nb h)" "safe_reader (read_big_int nb)"
  "safe_reader (read_intx_body nb h)" "safe_reader (read_intx nb)"
  unfolding read_big_int_def read_intx_def read_intx_body_def read_big_int_with_header_def Let_def
  by (intro safe_intros)+

lemma read_small_string_safe [safe_intros]: "safe_reader read_small_string"
  unfolding read_small_string_def by (intro safe_intros)

lemma read_int_element_safe [safe_intros]: "safe_reader (read_int_element width is_signed)"
  unfolding read_int_element_def by (intro safe_intros)

lemma carbon_arrays_safe [safe_intros]:
  "safe_reader (read_big_int_array nb)" "safe_reader read_string_z_array"
  "safe_reader read_byte_array" "safe_reader read_byte_arrays" "safe_reader read_i8_array"
  "safe_reader read_i16_array" "safe_reader read_i32_array" "safe_reader read_i64_array"
  "safe_reader read_u64_array" "safe_reader (read_int_array width is_signed)"
  unfolding read_big_int_array_def read_string_z_array_def read_byte_array_def read_byte_arrays_def
    read_i8_array_def read_i16_array_def read_i32_array_def read_i64_array_def read_u64_array_def
    read_int_array_def
  by (intro safe_intros)+

lemma read_carbon_array_safe [safe_intros]: "safe_reader p \<Longrightarrow> safe_reader (read_carbon_array p)"
  unfolding read_carbon_array_def by (intro safe_intros)

text \<open>
  The reading half of the trait: malformed bytes are answered with an error, and so is
  an encoding that was cut short.
\<close>

locale carbon_decoder =
  fixes read_carbon :: "'a reader"
  assumes reader_safe: "safe_reader read_carbon"
begin

theorem deserialize_never_panics: "\<not> panics (deserialize read_carbon data)"
proof -
  have "reader_wf \<lparr>rd_data = data, rd_offset = 0\<rparr>" by (simp add: reader_wf_def)
  with reader_safe have "\<not> panics (read_carbon \<lparr>rd_data = data, rd_offset = 0\<rparr>)"
    by (rule safe_readerD)
  then show ?thesis
    by (auto simp: deserialize_def panics_bind carbon_assert_eof_def slice_assert_eof_def)
qed

theorem truncated_rejected:
  assumes "parses read_carbon (bs @ rest) v" and "rest \<noteq> []"
  shows "\<exists>e. deserialize read_carbon bs = Err e"
proof -
  have "\<not> (\<exists>x r'. read_carbon (reader_at [] bs) = Ok (x, r'))"
    by (rule truncation_detected [OF _ assms]) (rule safe_readerD [OF reader_safe reader_wf_at])
  then have "\<not> (\<exists>x. deserialize read_carbon bs = Ok x)"
    by (auto simp: deserialize_def bind_result_eq_Ok reader_at_def)
  with deserialize_never_panics [of bs] show ?thesis
    by (cases "deserialize read_carbon bs") auto
qed

end

text \<open>Both halves together, for the types whose reader neither panics nor recurses.\<close>

locale carbon_type = carbon_codec write_carbon read_carbon ok + carbon_decoder read_carbon
  for write_carbon :: "'a \<Rightarrow> wr_action" and read_carbon :: "'a reader" and ok :: "'a \<Rightarrow> bool"
begin

theorem truncated_encoding_rejected:
  assumes "ok v" and "serialize write_carbon v = Ok (bs @ rest)" and "rest \<noteq> []"
  shows "\<exists>e. deserialize read_carbon bs = Err e"
proof -
  obtain cs where "serialize write_carbon v = Ok cs" "parses read_carbon cs v"
    using serialize_Ok [OF assms(1)] .
  with assms(2) have "parses read_carbon (bs @ rest) v" by simp
  then show ?thesis using assms(3) by (rule truncated_rejected)
qed

end

section \<open>Instances\<close>

definition small_string_ok :: "SmallString \<Rightarrow> bool" where
  "small_string_ok s = (length (string_bytes (as_str s)) \<le> 255)"

interpretation small_string_codec: carbon_list_codec write_small_string read_small_string small_string_ok
  by unfold_locales (simp add: small_string_ok_def small_string_round_trip)

interpretation intx_codec: carbon_type "write_intx nb" "read_intx nb"
    "\<lambda>x. num_bigint_api nb \<and> intx_ok x" for nb
  by unfold_locales (simp_all add: num_bigint_api.intx_round_trip read_big_safe)

interpretation big_int_codec: carbon_codec "write_big_int nb" "read_big_int nb"
    "\<lambda>v. num_bigint_api nb \<and> - (2 ^ 255) \<le> v \<and> v < 2 ^ 255" for nb
  by unfold_locales (simp add: num_bigint_api.big_int_round_trip)

lemmas intx_intro [codec_intros] = num_bigint_api.intx_round_trip
lemmas big_int_intro [codec_intros] = num_bigint_api.big_int_round_trip

section \<open>Properties\<close>

text \<open>\<open>IntX\<close> values of a signed 256-bit word survive serialization and
  deserialization, through the eight-byte form and through the compact form alike.\<close>

theorem intx_serialize_round_trip:
  assumes "num_bigint_api nb" and "- (2 ^ 255) \<le> v" and "v < 2 ^ 255"
  shows "bind_result (serialize (write_intx nb) (IntX v)) (deserialize (read_intx nb)) = Ok (IntX v)"
  using assms by (intro intx_codec.deserialize_serialize) (simp add: intx_ok_def)

theorem intx_serialize_round_trip_witness:
  "bind_result (serialize (write_intx num_bigint_std) (IntX (2 ^ 64)))
     (deserialize (read_intx num_bigint_std)) = Ok (IntX (2 ^ 64))"
  by (rule intx_serialize_round_trip) (simp_all add: num_bigint_std.num_bigint_api_axioms)

text \<open>C29: Writing a big integer and reading it back returns the integer when it fits a signed
  256-bit word, the integer less \<open>2\<^sup>2\<^sup>5\<^sup>6\<close> in the upper unsigned half, and the overflow error outside.\<close>

theorem big_int_serialize_exact:
  assumes "num_bigint_api nb"
  shows "bind_result (serialize (write_big_int nb) v) (deserialize (read_big_int nb)) =
    (if v < - (2 ^ 255) \<or> 2 ^ 256 \<le> v then Err (Serialization ''BigInt overflow'')
     else Ok (if v < 2 ^ 255 then v else v - 2 ^ 256))"
proof (cases "v < - (2 ^ 255) \<or> 2 ^ 256 \<le> v")
  case True
  then have "v \<noteq> 0" "signed_word_256 nb v = Err (Serialization ''BigInt overflow'')"
    by (auto simp: signed_word_256_def)
  then show ?thesis using True by (simp add: serialize_def write_big_int_def wr_fail_def)
next
  case False
  then have "round_trip1 (write_big_int nb v) (read_big_int nb) (if v < 2 ^ 255 then v else v - 2 ^ 256)"
    using num_bigint_api.big_int_wraps [OF assms, of v] by simp
  then show ?thesis using False by (simp only: round_trip1_deserialize if_False)
qed

theorem big_int_serialize_exact_witness:
  "bind_result (serialize (write_big_int num_bigint_std) (2 ^ 255))
     (deserialize (read_big_int num_bigint_std)) = Ok (- (2 ^ 255))"
  using big_int_serialize_exact [OF num_bigint_std.num_bigint_api_axioms, of "2 ^ 255"] by simp

text \<open>The eight-byte form of \<open>IntX\<close> is accepted with the reserved bit 6 of the header set, and
  gives the same value as without it; the big-integer reader refuses the same bytes.\<close>

theorem intx_reserved_bit_accepted:
  fixes w :: i64
  assumes "\<not> w <s 0"
  shows "deserialize (read_intx nb) (0x48 # to_le_bytes w) = Ok (IntX (sint w))
    \<and> deserialize (read_intx nb) (0x08 # to_le_bytes w) = Ok (IntX (sint w))
    \<and> deserialize (read_big_int nb) (0x48 # to_le_bytes w) = Err (Serialization ''BigInt too big'')"
proof -
  have "parses (read_intx nb) ([h] @ to_le_bytes w) (IntX (sint w))"
    if "h = 0x48 \<or> h = 0x08" for h
  proof -
    have "parses (read_intx_body nb h) (to_le_bytes w) (IntX (sint w))"
      using that assms read_intx_body_eight [of h "to_le_bytes w" nb] by auto
    then show ?thesis unfolding read_intx_def by (rule parses_bind [OF parses_read1])
  qed
  moreover have "read_big_int nb \<lparr>rd_data = 0x48 # to_le_bytes w, rd_offset = 0\<rparr> =
      Err (Serialization ''BigInt too big'')"
    using parses_reader_at [OF parses_read1 [of "0x48"], of "[]" "to_le_bytes w"]
    by (simp add: read_big_int_def rd_bind_def reader_at_def read_big_int_with_header_def rd_fail_def)
  ultimately show ?thesis
    using parses_deserialize [of "read_intx nb" "0x48 # to_le_bytes w"]
      parses_deserialize [of "read_intx nb" "0x08 # to_le_bytes w"]
    by (simp add: deserialize_def)
qed

theorem intx_reserved_bit_accepted_witness:
  "deserialize (read_intx num_bigint_std) (0x48 # to_le_bytes (5 :: i64)) = Ok (IntX 5)"
proof -
  have "\<not> (5 :: i64) <s 0" by code_simp
  from intx_reserved_bit_accepted [OF this, of num_bigint_std] show ?thesis by simp
qed

end
