(* ===== verification/CarbonSchema.thy ===== *)
theory CarbonSchema
  imports CarbonIO
begin

text \<open>
  The VM types and schemas of the Carbon format (\<open>src/src/carbon.rs\<close>): \<open>VMType\<close> with its wire
  codes, and the mutually recursive \<open>VMVariableSchema\<close>, \<open>VMNamedVariableSchema\<close> and
  \<open>VMStructSchema\<close>. The readers recurse as deeply as the bytes ask for, so they take
  the depth the call stack admits as an argument: below it they panic.
\<close>

section \<open>VMType\<close>

datatype VMType =
    VT_Dynamic | VT_Array | VT_Bytes | VT_Struct | VT_Int8
  | VT_Int16 | VT_Int32 | VT_Int64 | VT_Int256 | VT_Bytes16
  | VT_Bytes32 | VT_Bytes64 | VT_String | VT_ArrayDynamic | VT_ArrayBytes
  | VT_ArrayStruct | VT_ArrayInt8 | VT_ArrayInt16 | VT_ArrayInt32 | VT_ArrayInt64
  | VT_ArrayInt256 | VT_ArrayBytes16 | VT_ArrayBytes32 | VT_ArrayBytes64 | VT_ArrayString

primrec VMType_code :: "VMType \<Rightarrow> u8" where
  "VMType_code VT_Dynamic = 0"
| "VMType_code VT_Array = 1"
| "VMType_code VT_Bytes = 2"
| "VMType_code VT_Struct = 4"
| "VMType_code VT_Int8 = 6"
| "VMType_code VT_Int16 = 8"
| "VMType_code VT_Int32 = 10"
| "VMType_code VT_Int64 = 12"
| "VMType_code VT_Int256 = 14"
| "VMType_code VT_Bytes16 = 16"
| "VMType_code VT_Bytes32 = 18"
| "VMType_code VT_Bytes64 = 20"
| "VMType_code VT_String = 22"
| "VMType_code VT_ArrayDynamic = 1"
| "VMType_code VT_ArrayBytes = 3"
| "VMType_code VT_ArrayStruct = 5"
| "VMType_code VT_ArrayInt8 = 7"
| "VMType_code VT_ArrayInt16 = 9"
| "VMType_code VT_ArrayInt32 = 11"
| "VMType_code VT_ArrayInt64 = 13"
| "VMType_code VT_ArrayInt256 = 15"
| "VMType_code VT_ArrayBytes16 = 17"
| "VMType_code VT_ArrayBytes32 = 19"
| "VMType_code VT_ArrayBytes64 = 21"
| "VMType_code VT_ArrayString = 23"

definition VMType_try_from :: "u8 \<Rightarrow> VMType result" where
  "VMType_try_from v =
     (if v = 0 then Ok VT_Dynamic
      else if v = 1 then Ok VT_ArrayDynamic
      else if v = 2 then Ok VT_Bytes
      else if v = 4 then Ok VT_Struct
      else if v = 6 then Ok VT_Int8
      else if v = 8 then Ok VT_Int16
      else if v = 10 then Ok VT_Int32
      else if v = 12 then Ok VT_Int64
      else if v = 14 then Ok VT_Int256
      else if v = 16 then Ok VT_Bytes16
      else if v = 18 then Ok VT_Bytes32
      else if v = 20 then Ok VT_Bytes64
      else if v = 22 then Ok VT_String
      else if v = 3 then Ok VT_ArrayBytes
      else if v = 5 then Ok VT_ArrayStruct
      else if v = 7 then Ok VT_ArrayInt8
      else if v = 9 then Ok VT_ArrayInt16
      else if v = 11 then Ok VT_ArrayInt32
      else if v = 13 then Ok VT_ArrayInt64
      else if v = 15 then Ok VT_ArrayInt256
      else if v = 17 then Ok VT_ArrayBytes16
      else if v = 19 then Ok VT_ArrayBytes32
      else if v = 21 then Ok VT_ArrayBytes64
      else if v = 23 then Ok VT_ArrayString
      else Err (Serialization ''unsupported VM dynamic type: ''))"

text \<open>The codes are distinct but for \<open>Array\<close>, which shares the code of \<open>ArrayDynamic\<close>.\<close>

lemma VMType_try_from_code:
  "VMType_try_from (VMType_code t) = Ok (if t = VT_Array then VT_ArrayDynamic else t)"
  by (cases t) (simp_all add: VMType_try_from_def)

lemma VMType_try_from_Ok: "VMType_try_from v = Ok t \<Longrightarrow> VMType_code t = v"
  by (auto simp: VMType_try_from_def split: if_split_asm)

lemma VMType_try_from_no_panic [simp]: "\<not> panics (VMType_try_from v)"
  unfolding VMType_try_from_def by (simp split: if_split)

definition read_vm_type :: "VMType reader" where
  "read_vm_type = rd_bind read1 (\<lambda>b. rd_lift (VMType_try_from b))"

definition write_vm_type :: "VMType \<Rightarrow> wr_action" where
  "write_vm_type t = write1 (VMType_code t)"

lemma vm_type_round_trip [codec_intros]:
  "t \<noteq> VT_Array \<Longrightarrow> round_trip1 (write_vm_type t) read_vm_type t"
  unfolding write_vm_type_def read_vm_type_def
  by (rule round_trip1_map [OF fixed_round_trips(1)]) (simp add: VMType_try_from_code)

lemma read_vm_type_safe [safe_intros]: "safe_reader read_vm_type"
  unfolding read_vm_type_def by (intro safe_intros) simp

section \<open>Schemas\<close>

datatype VMVariableSchema =
    VMVariableSchema (vs_type: VMType) (vs_struct: "VMStructSchema option")
and VMNamedVariableSchema =
    VMNamedVariableSchema (nv_name: SmallString) (nv_schema: VMVariableSchema)
and VMStructSchema =
    VMStructSchema (ss_fields: "VMNamedVariableSchema list") (ss_flags: u8)

definition has_struct :: "VMType \<Rightarrow> bool" where
  "has_struct t = (t = VT_Struct \<or> t = VT_ArrayStruct)"

lemma wr_for_cong [fundef_cong]:
  "xs = ys \<Longrightarrow> (\<And>x. x \<in> set ys \<Longrightarrow> f x = g x) \<Longrightarrow> wr_for xs f = wr_for ys g"
  by (auto simp: wr_for_def intro: arg_cong [of _ _ wr_seq])

definition empty_struct_schema :: VMStructSchema where
  "empty_struct_schema = VMStructSchema [] 0"

text \<open>An absent struct definition is written as the default one.\<close>

fun write_variable_schema :: "VMVariableSchema \<Rightarrow> wr_action"
  and write_named_schema :: "VMNamedVariableSchema \<Rightarrow> wr_action"
  and write_struct_schema :: "VMStructSchema \<Rightarrow> wr_action" where
  "write_variable_schema (VMVariableSchema t d) =
     wr_seq [write1 (VMType_code t),
       (if has_struct t then
          (case d of
             None \<Rightarrow> wr_seq [write_length 0, write1 0]
           | Some s \<Rightarrow> write_struct_schema s)
        else wr_seq [])]"
| "write_named_schema (VMNamedVariableSchema n s) =
     wr_seq [write_small_string n, write_variable_schema s]"
| "write_struct_schema (VMStructSchema fs fl) =
     wr_seq [write_length (length fs), wr_for fs write_named_schema, write1 fl]"

definition read_variable_schema_with :: "VMStructSchema reader \<Rightarrow> VMVariableSchema reader" where
  "read_variable_schema_with read_struct =
     rd_bind read_vm_type (\<lambda>t.
     rd_bind (if has_struct t then rd_bind read_struct (\<lambda>s. rd_return (Some s)) else rd_return None)
       (\<lambda>d. rd_return (VMVariableSchema t d)))"

definition read_named_schema_with :: "VMStructSchema reader \<Rightarrow> VMNamedVariableSchema reader" where
  "read_named_schema_with read_struct =
     rd_bind read_small_string (\<lambda>n.
     rd_bind (read_variable_schema_with read_struct) (\<lambda>s.
       rd_return (VMNamedVariableSchema n s)))"

primrec read_struct_schema :: "nat \<Rightarrow> VMStructSchema reader" where
  "read_struct_schema 0 = rd_panic Stack_Overflow"
| "read_struct_schema (Suc depth) =
     rd_bind read_length (\<lambda>count.
     rd_bind (rd_repeat count (read_named_schema_with (read_struct_schema depth))) (\<lambda>fs.
     rd_bind read1 (\<lambda>fl. rd_return (VMStructSchema fs fl))))"

section \<open>Round trip and depth\<close>

text \<open>How many nested struct schemas the reader enters.\<close>

fun variable_depth :: "VMVariableSchema \<Rightarrow> nat"
  and named_depth :: "VMNamedVariableSchema \<Rightarrow> nat"
  and schema_depth :: "VMStructSchema \<Rightarrow> nat" where
  "variable_depth (VMVariableSchema t d) = (case d of None \<Rightarrow> 0 | Some s \<Rightarrow> schema_depth s)"
| "named_depth (VMNamedVariableSchema n s) = variable_depth s"
| "schema_depth (VMStructSchema fs fl) = Suc (fold max (map named_depth fs) 0)"

text \<open>The schemas whose bytes read back to themselves.\<close>

fun variable_schema_ok :: "VMVariableSchema \<Rightarrow> bool"
  and named_schema_ok :: "VMNamedVariableSchema \<Rightarrow> bool"
  and struct_schema_ok :: "VMStructSchema \<Rightarrow> bool" where
  "variable_schema_ok (VMVariableSchema t d) =
     (t \<noteq> VT_Array \<and> has_struct t = (d \<noteq> None)
      \<and> (case d of None \<Rightarrow> True | Some s \<Rightarrow> struct_schema_ok s))"
| "named_schema_ok (VMNamedVariableSchema n s) = (small_string_ok n \<and> variable_schema_ok s)"
| "struct_schema_ok (VMStructSchema fs fl) =
     (fits_length (length fs) \<and> list_all named_schema_ok fs)"

lemma fold_max_ge_init: "a \<le> fold max xs (a :: nat)"
  by (induction xs arbitrary: a) (auto intro: order_trans [OF max.cobounded2])

lemma fold_max_ge: "x \<in> set xs \<Longrightarrow> x \<le> fold max xs (a :: nat)"
  by (induction xs arbitrary: a) (auto intro: order_trans [OF max.cobounded1 fold_max_ge_init])

lemma array_then:
  assumes "fits_length (length vs)" and "\<And>v. v \<in> set vs \<Longrightarrow> round_trip1 (f v) p v"
    and "round_trip (wr_seq rest) (g vs) v"
  shows "round_trip1 (wr_seq (write_length (length vs) # wr_for vs f # rest))
           (rd_bind read_length (\<lambda>count. rd_bind (rd_repeat count p) g)) v"
proof -
  have "round_trip1 (wr_seq [write_length (length vs), wr_for vs f])
      (rd_bind read_length (\<lambda>count. rd_repeat count p)) vs"
    unfolding read_length_def using assms(1,2)
    by (intro array_round_trip round_trip1_sized) simp_all
  from round_trip1_block [OF this, of rest g v] assms(3) show ?thesis by (simp only: rd_bind_assoc append.simps)
qed

lemma schema_round_trip_mutual:
  "variable_schema_ok v \<Longrightarrow> variable_depth v \<le> n \<Longrightarrow>
     round_trip1 (write_variable_schema v) (read_variable_schema_with (read_struct_schema n)) v"
  "named_schema_ok f \<Longrightarrow> named_depth f \<le> n \<Longrightarrow>
     round_trip1 (write_named_schema f) (read_named_schema_with (read_struct_schema n)) f"
  "struct_schema_ok s \<Longrightarrow> schema_depth s \<le> n \<Longrightarrow>
     round_trip1 (write_struct_schema s) (read_struct_schema n) s"
proof (induction v and f and s arbitrary: n and n and n
    rule: write_variable_schema_write_named_schema_write_struct_schema.induct)
  case (1 t d)
  have type: "round_trip1 (write1 (VMType_code t)) read_vm_type t"
    using vm_type_round_trip [of t] 1 by (simp add: write_vm_type_def)
  show ?case
  proof (cases d)
    case None
    with 1 have "\<not> has_struct t" by simp
    with None show ?thesis
      unfolding read_variable_schema_with_def
      by (simp only: write_variable_schema.simps if_False)
         (rule round_trip1_cons [OF type], simp only: if_False,
          rule round_trip_cons0 [OF round_trip_nil [OF refl]], rule round_trip_nil, simp)
  next
    case (Some s)
    with 1 have "has_struct t" "round_trip1 (write_struct_schema s) (read_struct_schema n) s"
      by simp_all
    then show ?thesis
      using Some unfolding read_variable_schema_with_def
      by (simp only: write_variable_schema.simps if_True option.case)
         (rule round_trip1_cons [OF type], simp only: if_True,
          rule round_trip_cons [OF round_trip1_map [OF _ refl]], assumption,
          rule round_trip_nil, rule refl)
  qed
next
  case (2 nm s)
  then have "length (string_bytes (as_str nm)) \<le> 255"
    "round_trip1 (write_variable_schema s) (read_variable_schema_with (read_struct_schema n)) s"
    by (simp_all add: small_string_ok_def)
  note parts = this
  show ?case
    unfolding read_named_schema_with_def write_named_schema.simps
    by (rule round_trip_struct codec_intros parts refl)+
next
  case (3 fs fl)
  from "3.prems"(2) obtain m where n: "n = Suc m" by (cases n) auto
  have "round_trip1 (write_named_schema f) (read_named_schema_with (read_struct_schema m)) f"
    if "f \<in> set fs" for f
    using "3.IH" [OF that, of m] "3.prems" that n fold_max_ge [of "named_depth f" "map named_depth fs" 0]
    by (auto simp: list_all_iff)
  then show ?case
    unfolding n read_struct_schema.simps write_struct_schema.simps
    using "3.prems"(1) by (intro array_then round_trip_cons [OF fixed_round_trips(1)] round_trip_nil) simp_all
qed

definition struct_schema_fits :: "nat \<Rightarrow> VMStructSchema \<Rightarrow> bool" where
  "struct_schema_fits depth s = (struct_schema_ok s \<and> schema_depth s \<le> depth)"

lemma struct_schema_round_trip [codec_intros]:
  "struct_schema_fits depth s \<Longrightarrow> round_trip1 (write_struct_schema s) (read_struct_schema depth) s"
  by (simp add: struct_schema_fits_def schema_round_trip_mutual(3))

interpretation struct_schema_codec: carbon_codec write_struct_schema "read_struct_schema depth"
    "struct_schema_fits depth" for depth
  by unfold_locales (rule struct_schema_round_trip)

section \<open>Panics of the schema readers\<close>

text \<open>
  A reader whose panics are among the given reasons. \<open>safe_reader\<close> implies it.
\<close>

definition panics_within :: "panic_reason set \<Rightarrow> 'a reader \<Rightarrow> bool" where
  "panics_within R p \<longleftrightarrow>
     (\<forall>r. reader_wf r \<longrightarrow>
        (case p r of Ok (x, r') \<Rightarrow> settled p r x r' | Err _ \<Rightarrow> True | Panic q \<Rightarrow> q \<in> R))"

named_theorems panic_intros \<open>readers with a bounded set of panics\<close>

lemma safe_imp_panics_within [panic_intros]: "safe_reader p \<Longrightarrow> panics_within R p"
  by (fastforce simp: safe_reader_def panics_within_def split: result.splits)

lemma panics_within_panic [panic_intros]: "q \<in> R \<Longrightarrow> panics_within R (rd_panic q)"
  by (simp add: panics_within_def rd_panic_def)

lemma panics_withinD:
  assumes "panics_within R p" and "reader_wf r"
  shows "p r = Ok (x, r') \<Longrightarrow> settled p r x r'" and "p r = Panic q \<Longrightarrow> q \<in> R"
  using assms by (auto simp: panics_within_def split: result.splits)

lemma panics_within_bind [panic_intros]:
  assumes "panics_within R p" and "\<And>x. panics_within R (f x)"
  shows "panics_within R (rd_bind p f)"
  unfolding panics_within_def
proof (intro allI impI)
  fix r assume r: "reader_wf r"
  have settled: "settled (rd_bind p f) r y t" if "p r = Ok (x, s)" "f x s = Ok (y, t)" for x s y t
  proof -
    note first = panics_withinD(1) [OF assms(1) r that(1)]
    then have "reader_wf s" by (auto simp: settled_def dest: advances_wf)
    from first panics_withinD(1) [OF assms(2) this that(2)] show ?thesis by (rule settled_bind)
  qed
  have panic: "q \<in> R" if "p r = Ok (x, s)" "f x s = Panic q" for x s q
    using panics_withinD(1) [OF assms(1) r that(1)] panics_withinD(2) [OF assms(2) _ that(2)]
    by (auto dest: advances_wf simp: settled_def)
  show "case rd_bind p f r of Ok (x, r') \<Rightarrow> settled (rd_bind p f) r x r' | Err _ \<Rightarrow> True
      | Panic q \<Rightarrow> q \<in> R"
    using settled panic panics_withinD(2) [OF assms(1) r]
    by (cases "p r") (auto simp: rd_bind_def [of p f r] split: result.splits)
qed

lemma panics_within_repeat [panic_intros]: "panics_within R p \<Longrightarrow> panics_within R (rd_repeat n p)"
  by (induction n) (auto intro!: panics_within_bind intro: safe_imp_panics_within safe_return)

lemma panics_within_if [panic_intros]:
  "(b \<Longrightarrow> panics_within R p) \<Longrightarrow> (\<not> b \<Longrightarrow> panics_within R q) \<Longrightarrow> panics_within R (if b then p else q)"
  by simp

lemma read_struct_schema_panics: "panics_within {Stack_Overflow} (read_struct_schema depth)"
proof (induction depth)
  case (Suc depth)
  then show ?case
    unfolding read_struct_schema.simps read_named_schema_with_def read_variable_schema_with_def
    by (intro panics_within_bind panics_within_repeat panics_within_if)
       (auto intro: safe_imp_panics_within safe_intros)
qed (simp add: panics_within_panic)

text \<open>The reading half of the trait for readers that recurse or may overflow.\<close>

locale carbon_partial_decoder =
  fixes read_carbon :: "'a reader" and reasons :: "panic_reason set"
  assumes reader_panics: "panics_within reasons read_carbon"
begin

theorem deserialize_panics_within: "deserialize read_carbon data = Panic q \<Longrightarrow> q \<in> reasons"
proof -
  have wf: "reader_wf \<lparr>rd_data = data, rd_offset = 0\<rparr>" by (simp add: reader_wf_def)
  assume "deserialize read_carbon data = Panic q"
  then have "read_carbon \<lparr>rd_data = data, rd_offset = 0\<rparr> = Panic q"
    by (auto simp: deserialize_def bind_result_eq_Panic carbon_assert_eof_def slice_assert_eof_def
        split: if_split_asm)
  with reader_panics wf show "q \<in> reasons" by (rule panics_withinD)
qed

theorem truncated_not_accepted:
  assumes "parses read_carbon (bs @ rest) v" and "rest \<noteq> []"
  shows "\<not> (\<exists>x. deserialize read_carbon bs = Ok x)"
proof -
  have "\<not> (\<exists>x r'. read_carbon (reader_at [] bs) = Ok (x, r'))"
    by (rule truncation_detected [OF _ assms]) (rule panics_withinD [OF reader_panics reader_wf_at])
  then show ?thesis by (auto simp: deserialize_def bind_result_eq_Ok reader_at_def)
qed

end

interpretation struct_schema_decoder: carbon_partial_decoder "read_struct_schema depth" "{Stack_Overflow}"
  for depth
  by unfold_locales (rule read_struct_schema_panics)

section \<open>Properties\<close>

text \<open>One level of nesting: a schema of one field without a name, whose type is again a struct.\<close>

definition schema_level :: bytes where
  "schema_level = [1, 0, 0, 0, 0, 4]"

lemma schema_level_parts:
  "parses read_small_string [0] (SmallString (lit ''''))" "parses read_vm_type [4] VT_Struct"
  "to_le_bytes (1 :: i32) = [1, 0, 0, 0]"
proof -
  have nil: "string_bytes (lit '''') = []" by code_simp
  then have "writes (write_small_string (SmallString (lit ''''))) [0]"
    by (simp add: write_small_string_def writes_def write1_def carbon_write_def wr_bytes_def Let_def)
  moreover have "writes (write_vm_type VT_Struct) [4]"
    by (simp add: write_vm_type_def writes_def write1_def carbon_write_def wr_bytes_def)
  ultimately show "parses read_small_string [0] (SmallString (lit ''''))"
    "parses read_vm_type [4] VT_Struct"
    using small_string_round_trip [of "SmallString (lit '''')"] vm_type_round_trip [of VT_Struct]
    by (auto simp: round_trip1_def nil dest: writes_unique)
  show "to_le_bytes (1 :: i32) = [1, 0, 0, 0]" by code_simp
qed

lemma nested_schema_panics:
  "read_struct_schema d (reader_at pre (concat (replicate d schema_level) @ post)) = Panic Stack_Overflow"
proof (induction d arbitrary: pre)
  case (Suc d)
  let ?rest = "concat (replicate d schema_level) @ post"
  have len: "read_length (reader_at pre ([1, 0, 0, 0] @ [0] @ [4] @ ?rest)) =
      Ok (1, reader_at (pre @ [1, 0, 0, 0]) ([0] @ [4] @ ?rest))"
    using read_length_for_at [of 1 1 "[0] @ [4] @ ?rest" pre]
    by (simp add: read_length_def schema_level_parts(3) fits_length_def del: append.simps)
  have "read_named_schema_with (read_struct_schema d) (reader_at (pre @ [1, 0, 0, 0]) ([0] @ [4] @ ?rest)) =
      Panic Stack_Overflow"
    using Suc parses_reader_at [OF schema_level_parts(1), of "pre @ [1, 0, 0, 0]" "[4] @ ?rest"]
      parses_reader_at [OF schema_level_parts(2), of "(pre @ [1, 0, 0, 0]) @ [0]" ?rest]
    by (simp add: read_named_schema_with_def read_variable_schema_with_def rd_bind_def has_struct_def)
  with len show ?case
    by (simp add: schema_level_def rd_bind_def)
qed (simp add: rd_panic_def)

text \<open>However deep the call stack is, there is an input of six bytes per level on which the schema
  reader exhausts it: the recursion follows the input without a bound of its own.\<close>

theorem schema_reader_unbounded:
  "deserialize (read_struct_schema depth) (concat (replicate depth schema_level)) = Panic Stack_Overflow"
  using nested_schema_panics [of depth "[]" "[]"] by (simp add: deserialize_def reader_at_def)

end
