(* ===== verification/CarbonDynamic.thy ===== *)
theory CarbonDynamic
  imports CarbonSchema "HOL-Library.Multiset"
begin

text \<open>
  Dynamic VM values (\<open>src/src/carbon.rs\<close>): \<open>VMValue\<close>, \<open>VMDynamicVariable\<close>,
  \<open>VMNamedDynamicVariable\<close>, \<open>VMDynamicStruct\<close> and \<open>VMStructArray\<close>, with the self-describing
  encoding (a type byte before each value) and the schema-bound one (no type bytes, missing
  fields written as defaults, extra fields appended when the schema allows them).
  \<open>write_static\<close> and \<open>read_static\<close> call each other through structs and arrays as deep as the
  value nests: both take the number of nested calls the stack still holds, and a call
  beyond it is a stack overflow. \<open>static_ok\<close> names the values that read back.
\<close>

section \<open>Values\<close>

datatype VMValue =
    VV_None
  | VV_Dynamic VMDynamicVariable
  | VV_Bytes bytes
  | VV_Struct VMDynamicStruct
  | VV_Int i64
  | VV_Int256 int
  | VV_Bytes16 bytes16
  | VV_Bytes32 bytes32
  | VV_Bytes64 bytes64
  | VV_String rstring
  | VV_ArrayDynamic "VMDynamicVariable list"
  | VV_ArrayBytes "bytes list"
  | VV_ArrayStruct VMStructArray
  | VV_ArrayInt8 "i8 list"
  | VV_ArrayInt16 "i16 list"
  | VV_ArrayInt32 "i32 list"
  | VV_ArrayInt64 "i64 list"
  | VV_ArrayInt256 "int list"
  | VV_ArrayBytes16 "bytes16 list"
  | VV_ArrayBytes32 "bytes32 list"
  | VV_ArrayBytes64 "bytes64 list"
  | VV_ArrayString "rstring list"
and VMDynamicVariable = VMDynamicVariable (dv_type: VMType) (dv_data: VMValue)
and VMNamedDynamicVariable = VMNamedDynamicVariable (dn_name: SmallString) (dn_value: VMDynamicVariable)
and VMDynamicStruct = VMDynamicStruct (ds_fields: "VMNamedDynamicVariable list")
and VMStructArray = VMStructArray (sa_schema: VMStructSchema) (sa_structs: "VMDynamicStruct list")

definition field_name :: "VMNamedDynamicVariable \<Rightarrow> rstring" where
  "field_name f = as_str (dn_name f)"

text \<open>\<open>VMDynamicStruct::new\<close> and \<open>sort\<close>: a stable sort by the bytes of the name.\<close>

definition struct_sort :: "VMDynamicStruct \<Rightarrow> VMDynamicStruct" where
  "struct_sort s = VMDynamicStruct (sort_key field_name (ds_fields s))"

definition struct_new :: "VMNamedDynamicVariable list \<Rightarrow> VMDynamicStruct" where
  "struct_new fs = struct_sort (VMDynamicStruct fs)"

definition struct_get :: "VMDynamicStruct \<Rightarrow> rstring \<Rightarrow> VMDynamicVariable option" where
  "struct_get s name = map_option dn_value (find (\<lambda>f. field_name f = name) (ds_fields s))"

definition empty_dynamic_struct :: VMDynamicStruct where
  "empty_dynamic_struct = VMDynamicStruct []"

definition empty_struct_array :: VMStructArray where
  "empty_struct_array = VMStructArray empty_struct_schema []"

definition variable_string :: "rstring \<Rightarrow> VMDynamicVariable" where
  "variable_string v = VMDynamicVariable VT_String (VV_String v)"

definition variable_int32 :: "i32 \<Rightarrow> VMDynamicVariable" where
  "variable_int32 v = VMDynamicVariable VT_Int32 (VV_Int (scast v))"

definition variable_int64 :: "i64 \<Rightarrow> VMDynamicVariable" where
  "variable_int64 v = VMDynamicVariable VT_Int64 (VV_Int v)"

definition variable_int256 :: "int \<Rightarrow> VMDynamicVariable" where
  "variable_int256 v = VMDynamicVariable VT_Int256 (VV_Int256 v)"

definition variable_bytes :: "bytes \<Rightarrow> VMDynamicVariable" where
  "variable_bytes v = VMDynamicVariable VT_Bytes (VV_Bytes v)"

text \<open>\<open>BigInt::to_i64\<close> is \<open>None\<close> outside the range of an \<open>i64\<close>.\<close>

definition as_i64 :: "VMDynamicVariable \<Rightarrow> i64" where
  "as_i64 v =
     (case dv_data v of
        VV_Int x \<Rightarrow> x
      | VV_Int256 x \<Rightarrow> if - (2 ^ 63) \<le> x \<and> x < 2 ^ 63 then word_of_int x else 0
      | _ \<Rightarrow> 0)"

definition variable_as_bigint :: "VMDynamicVariable \<Rightarrow> int" where
  "variable_as_bigint v = (case dv_data v of VV_Int x \<Rightarrow> sint x | VV_Int256 x \<Rightarrow> x | _ \<Rightarrow> 0)"

definition default_dynamic_variable :: "VMType \<Rightarrow> VMDynamicVariable" where
  "default_dynamic_variable t =
     VMDynamicVariable t
       (case t of
          VT_Bytes \<Rightarrow> VV_Bytes []
        | VT_Struct \<Rightarrow> VV_Struct empty_dynamic_struct
        | VT_Int8 \<Rightarrow> VV_Int 0 | VT_Int16 \<Rightarrow> VV_Int 0 | VT_Int32 \<Rightarrow> VV_Int 0 | VT_Int64 \<Rightarrow> VV_Int 0
        | VT_Int256 \<Rightarrow> VV_Int256 0
        | VT_Bytes16 \<Rightarrow> VV_Bytes16 EMPTY_BYTES16
        | VT_Bytes32 \<Rightarrow> VV_Bytes32 EMPTY_BYTES32
        | VT_Bytes64 \<Rightarrow> VV_Bytes64 EMPTY_BYTES64
        | VT_String \<Rightarrow> VV_String (lit '''')
        | VT_ArrayStruct \<Rightarrow> VV_ArrayStruct empty_struct_array
        | VT_ArrayDynamic \<Rightarrow> VV_ArrayDynamic []
        | VT_ArrayBytes \<Rightarrow> VV_ArrayBytes []
        | VT_ArrayInt8 \<Rightarrow> VV_ArrayInt8 []
        | VT_ArrayInt16 \<Rightarrow> VV_ArrayInt16 []
        | VT_ArrayInt32 \<Rightarrow> VV_ArrayInt32 []
        | VT_ArrayInt64 \<Rightarrow> VV_ArrayInt64 []
        | VT_ArrayInt256 \<Rightarrow> VV_ArrayInt256 []
        | VT_ArrayBytes16 \<Rightarrow> VV_ArrayBytes16 []
        | VT_ArrayBytes32 \<Rightarrow> VV_ArrayBytes32 []
        | VT_ArrayBytes64 \<Rightarrow> VV_ArrayBytes64 []
        | VT_ArrayString \<Rightarrow> VV_ArrayString []
        | VT_Dynamic \<Rightarrow> VV_None
        | VT_Array \<Rightarrow> VV_None)"

section \<open>Writing\<close>

text \<open>An action that also answers with a flag, as \<open>write_static\<close> does (\<open>Result<bool>\<close>).\<close>

type_synonym flag_action = "byte_writer \<Rightarrow> (bool \<times> byte_writer) result"

definition wr_true :: "wr_action \<Rightarrow> flag_action" where
  "wr_true a w = bind_result (a w) (\<lambda>w'. Ok (True, w'))"

definition wr_drop :: "flag_action \<Rightarrow> wr_action" where
  "wr_drop a w = bind_result (a w) (\<lambda>(_, w'). Ok w')"

type_synonym static_writer = "VMType \<Rightarrow> VMStructSchema option \<Rightarrow> VMDynamicVariable \<Rightarrow> flag_action"

definition write_variable_with :: "static_writer \<Rightarrow> VMDynamicVariable \<Rightarrow> wr_action" where
  "write_variable_with ws v = wr_seq [write1 (VMType_code (dv_type v)), wr_drop (ws (dv_type v) None v)]"

definition write_variables_with :: "static_writer \<Rightarrow> VMDynamicVariable list \<Rightarrow> wr_action" where
  "write_variables_with ws vs = wr_seq [write_length (length vs), wr_for vs (write_variable_with ws)]"

definition write_named_variable_with :: "static_writer \<Rightarrow> VMNamedDynamicVariable \<Rightarrow> wr_action" where
  "write_named_variable_with ws v =
     wr_seq [write_small_string (dn_name v), write_variable_with ws (dn_value v)]"

definition write_named_variables_with :: "static_writer \<Rightarrow> VMNamedDynamicVariable list \<Rightarrow> wr_action" where
  "write_named_variables_with ws vs =
     wr_seq [write_length (length vs), wr_for vs (write_named_variable_with ws)]"

definition write_struct_with :: "static_writer \<Rightarrow> VMDynamicStruct \<Rightarrow> wr_action" where
  "write_struct_with ws s = write_named_variables_with ws (ds_fields (struct_sort s))"

definition DYNAMIC_EXTRAS :: u8 where
  "DYNAMIC_EXTRAS = 1"

definition allows_extras :: "VMStructSchema \<Rightarrow> bool" where
  "allows_extras schema = (ss_flags schema AND DYNAMIC_EXTRAS = DYNAMIC_EXTRAS)"

text \<open>The loop over the schema fields; the flag of every field enters the result.\<close>

primrec write_schema_fields ::
    "static_writer \<Rightarrow> VMDynamicStruct \<Rightarrow> VMNamedVariableSchema list \<Rightarrow> bool \<Rightarrow> flag_action" where
  "write_schema_fields ws s [] ok w = Ok (ok, w)"
| "write_schema_fields ws s (f # fs) ok w =
     (let t = vs_type (nv_schema f);
          v = (case struct_get s (as_str (nv_name f)) of
                 Some v \<Rightarrow> v | None \<Rightarrow> default_dynamic_variable t)
      in bind_result (ws t (vs_struct (nv_schema f)) v w) (\<lambda>(b, w').
           write_schema_fields ws s fs (b \<and> ok) w'))"

definition struct_extras :: "VMStructSchema \<Rightarrow> VMDynamicStruct \<Rightarrow> VMNamedDynamicVariable list" where
  "struct_extras schema s =
     filter (\<lambda>f. \<not> list_ex (\<lambda>sf. nv_name sf = dn_name f) (ss_fields schema)) (ds_fields s)"

definition write_with_schema_with ::
    "static_writer \<Rightarrow> VMStructSchema \<Rightarrow> VMDynamicStruct \<Rightarrow> flag_action" where
  "write_with_schema_with ws schema s w =
     bind_result (write_schema_fields ws s (ss_fields schema) True w) (\<lambda>(ok, w).
       if \<not> allows_extras schema then Ok (ok, w)
       else let found = length (filter (\<lambda>f. struct_get s (as_str (nv_name f)) \<noteq> None)
                          (ss_fields schema));
                extras = struct_extras schema s
         in if found = length (ss_fields schema) \<and> extras = []
            then bind_result (write4u 0 w) (\<lambda>w. Ok (ok, w))
            else bind_result (write_named_variables_with ws extras w) (\<lambda>w. Ok (ok, w)))"

definition write_struct_array_with ::
    "static_writer \<Rightarrow> VMStructSchema option \<Rightarrow> VMStructArray \<Rightarrow> wr_action" where
  "write_struct_array_with ws schema a =
     (let used = (case schema of Some s \<Rightarrow> s | None \<Rightarrow> sa_schema a)
      in wr_seq ([write_length (length (sa_structs a))]
           @ (if schema = None then [write_struct_schema (sa_schema a)] else [])
           @ [wr_for (sa_structs a) (\<lambda>s. wr_drop (write_with_schema_with ws used s))]))"

primrec write_static :: "nat \<Rightarrow> num_bigint \<Rightarrow> static_writer" where
  "write_static 0 nb t schema v = (\<lambda>w. Panic Stack_Overflow)"
| "write_static (Suc depth) nb t schema v =
     (let ws = write_static depth nb
      in case t of
        VT_Dynamic \<Rightarrow>
          wr_true (write_variable_with ws
            (case dv_data v of VV_Dynamic x \<Rightarrow> x
             | _ \<Rightarrow> VMDynamicVariable VT_ArrayDynamic (VV_ArrayDynamic [])))
      | VT_Bytes \<Rightarrow> wr_true (write_byte_array (case dv_data v of VV_Bytes x \<Rightarrow> x | _ \<Rightarrow> []))
      | VT_Struct \<Rightarrow>
          (let s = (case dv_data v of VV_Struct x \<Rightarrow> x | _ \<Rightarrow> empty_dynamic_struct)
           in case schema of
                Some sch \<Rightarrow> write_with_schema_with ws sch s
              | None \<Rightarrow> wr_true (write_struct_with ws s))
      | VT_Int8 \<Rightarrow> wr_true (write1 (ucast (as_i64 v)))
      | VT_Int16 \<Rightarrow> wr_true (write2 (ucast (as_i64 v)))
      | VT_Int32 \<Rightarrow> wr_true (write4 (ucast (as_i64 v)))
      | VT_Int64 \<Rightarrow> wr_true (write8 (as_i64 v))
      | VT_Int256 \<Rightarrow> wr_true (write_big_int nb (variable_as_bigint v))
      | VT_Bytes16 \<Rightarrow> wr_true (write16 (case dv_data v of VV_Bytes16 x \<Rightarrow> x | _ \<Rightarrow> EMPTY_BYTES16))
      | VT_Bytes32 \<Rightarrow> wr_true (write32 (case dv_data v of VV_Bytes32 x \<Rightarrow> x | _ \<Rightarrow> EMPTY_BYTES32))
      | VT_Bytes64 \<Rightarrow> wr_true (write64 (case dv_data v of VV_Bytes64 x \<Rightarrow> x | _ \<Rightarrow> EMPTY_BYTES64))
      | VT_String \<Rightarrow> wr_true (write_string_z (case dv_data v of VV_String x \<Rightarrow> x | _ \<Rightarrow> lit ''''))
      | VT_ArrayDynamic \<Rightarrow>
          wr_true (write_variables_with ws (case dv_data v of VV_ArrayDynamic xs \<Rightarrow> xs | _ \<Rightarrow> []))
      | VT_ArrayBytes \<Rightarrow>
          wr_true (write_byte_arrays (case dv_data v of VV_ArrayBytes xs \<Rightarrow> xs | _ \<Rightarrow> []))
      | VT_ArrayStruct \<Rightarrow>
          wr_true (write_struct_array_with ws schema
            (case dv_data v of VV_ArrayStruct x \<Rightarrow> x | _ \<Rightarrow> empty_struct_array))
      | VT_ArrayInt8 \<Rightarrow> wr_true (write_i8_array (case dv_data v of VV_ArrayInt8 xs \<Rightarrow> xs | _ \<Rightarrow> []))
      | VT_ArrayInt16 \<Rightarrow> wr_true (write_i16_array (case dv_data v of VV_ArrayInt16 xs \<Rightarrow> xs | _ \<Rightarrow> []))
      | VT_ArrayInt32 \<Rightarrow> wr_true (write_i32_array (case dv_data v of VV_ArrayInt32 xs \<Rightarrow> xs | _ \<Rightarrow> []))
      | VT_ArrayInt64 \<Rightarrow> wr_true (write_i64_array (case dv_data v of VV_ArrayInt64 xs \<Rightarrow> xs | _ \<Rightarrow> []))
      | VT_ArrayInt256 \<Rightarrow>
          wr_true (write_big_int_array nb (case dv_data v of VV_ArrayInt256 xs \<Rightarrow> xs | _ \<Rightarrow> []))
      | VT_ArrayBytes16 \<Rightarrow>
          wr_true (write_carbon_array write16 (case dv_data v of VV_ArrayBytes16 xs \<Rightarrow> xs | _ \<Rightarrow> []))
      | VT_ArrayBytes32 \<Rightarrow>
          wr_true (write_carbon_array write32 (case dv_data v of VV_ArrayBytes32 xs \<Rightarrow> xs | _ \<Rightarrow> []))
      | VT_ArrayBytes64 \<Rightarrow>
          wr_true (write_carbon_array write64 (case dv_data v of VV_ArrayBytes64 xs \<Rightarrow> xs | _ \<Rightarrow> []))
      | VT_ArrayString \<Rightarrow>
          wr_true (write_string_z_array (case dv_data v of VV_ArrayString xs \<Rightarrow> xs | _ \<Rightarrow> []))
      | VT_Array \<Rightarrow> wr_true (wr_fail (Serialization ''unsupported VM dynamic type: Array'')))"

definition write_dynamic_variable :: "nat \<Rightarrow> num_bigint \<Rightarrow> VMDynamicVariable \<Rightarrow> wr_action" where
  "write_dynamic_variable depth nb = write_variable_with (write_static depth nb)"

definition write_dynamic_struct :: "nat \<Rightarrow> num_bigint \<Rightarrow> VMDynamicStruct \<Rightarrow> wr_action" where
  "write_dynamic_struct depth nb = write_struct_with (write_static depth nb)"

definition write_with_schema :: "nat \<Rightarrow> num_bigint \<Rightarrow> VMStructSchema \<Rightarrow> VMDynamicStruct \<Rightarrow> flag_action" where
  "write_with_schema depth nb = write_with_schema_with (write_static depth nb)"

section \<open>Reading\<close>

type_synonym static_reader = "VMType \<Rightarrow> VMStructSchema option \<Rightarrow> VMValue reader"

definition read_variable_with :: "static_reader \<Rightarrow> VMDynamicVariable reader" where
  "read_variable_with rs =
     rd_bind read_vm_type (\<lambda>t. rd_bind (rs t None) (\<lambda>d. rd_return (VMDynamicVariable t d)))"

definition read_variables_with :: "static_reader \<Rightarrow> VMDynamicVariable list reader" where
  "read_variables_with rs = rd_bind read_length (\<lambda>count. rd_repeat count (read_variable_with rs))"

definition read_named_variable_with :: "static_reader \<Rightarrow> VMNamedDynamicVariable reader" where
  "read_named_variable_with rs =
     rd_bind read_small_string (\<lambda>n. rd_bind (read_variable_with rs) (\<lambda>v.
       rd_return (VMNamedDynamicVariable n v)))"

definition read_named_variables_with :: "static_reader \<Rightarrow> VMNamedDynamicVariable list reader" where
  "read_named_variables_with rs =
     rd_bind read_length (\<lambda>count. rd_repeat count (read_named_variable_with rs))"

definition read_struct_with :: "static_reader \<Rightarrow> VMDynamicStruct reader" where
  "read_struct_with rs = rd_bind (read_named_variables_with rs) (\<lambda>fs. rd_return (struct_new fs))"

definition read_schema_field :: "static_reader \<Rightarrow> VMNamedVariableSchema \<Rightarrow> VMNamedDynamicVariable reader" where
  "read_schema_field rs f =
     rd_bind (rs (vs_type (nv_schema f)) (vs_struct (nv_schema f))) (\<lambda>d.
       rd_return (VMNamedDynamicVariable (nv_name f) (VMDynamicVariable (vs_type (nv_schema f)) d)))"

definition read_with_schema_with :: "static_reader \<Rightarrow> VMStructSchema \<Rightarrow> VMDynamicStruct reader" where
  "read_with_schema_with rs schema =
     rd_bind (rd_for (ss_fields schema) (read_schema_field rs)) (\<lambda>fields.
     rd_bind (if allows_extras schema then read_named_variables_with rs else rd_return []) (\<lambda>extras.
       rd_return (struct_new (fields @ extras))))"

primrec read_static :: "nat \<Rightarrow> num_bigint \<Rightarrow> static_reader" where
  "read_static 0 nb t schema = rd_panic Stack_Overflow"
| "read_static (Suc depth) nb t schema =
     (let rs = read_static depth nb
      in case t of
        VT_Dynamic \<Rightarrow> rd_bind (read_variable_with rs) (\<lambda>v. rd_return (VV_Dynamic v))
      | VT_Bytes \<Rightarrow> rd_bind read_byte_array (\<lambda>v. rd_return (VV_Bytes v))
      | VT_Struct \<Rightarrow>
          rd_bind (case schema of Some s \<Rightarrow> read_with_schema_with rs s | None \<Rightarrow> read_struct_with rs)
            (\<lambda>v. rd_return (VV_Struct v))
      | VT_Int8 \<Rightarrow> rd_bind read1 (\<lambda>v. rd_return (VV_Int (scast v)))
      | VT_Int16 \<Rightarrow> rd_bind read2 (\<lambda>v. rd_return (VV_Int (scast v)))
      | VT_Int32 \<Rightarrow> rd_bind read4 (\<lambda>v. rd_return (VV_Int (scast v)))
      | VT_Int64 \<Rightarrow> rd_bind read8 (\<lambda>v. rd_return (VV_Int v))
      | VT_Int256 \<Rightarrow> rd_bind (read_big_int nb) (\<lambda>v. rd_return (VV_Int256 v))
      | VT_Bytes16 \<Rightarrow> rd_bind read16 (\<lambda>v. rd_return (VV_Bytes16 v))
      | VT_Bytes32 \<Rightarrow> rd_bind read32 (\<lambda>v. rd_return (VV_Bytes32 v))
      | VT_Bytes64 \<Rightarrow> rd_bind read64 (\<lambda>v. rd_return (VV_Bytes64 v))
      | VT_String \<Rightarrow> rd_bind read_string_z (\<lambda>v. rd_return (VV_String v))
      | VT_ArrayDynamic \<Rightarrow> rd_bind (read_variables_with rs) (\<lambda>v. rd_return (VV_ArrayDynamic v))
      | VT_ArrayBytes \<Rightarrow> rd_bind read_byte_arrays (\<lambda>v. rd_return (VV_ArrayBytes v))
      | VT_ArrayStruct \<Rightarrow>
          rd_bind read_length (\<lambda>count.
          rd_bind (case schema of Some s \<Rightarrow> rd_return s | None \<Rightarrow> read_struct_schema depth) (\<lambda>used.
          rd_bind (rd_repeat count (read_with_schema_with rs used)) (\<lambda>structs.
            rd_return (VV_ArrayStruct (VMStructArray used structs)))))
      | VT_ArrayInt8 \<Rightarrow> rd_bind read_i8_array (\<lambda>v. rd_return (VV_ArrayInt8 v))
      | VT_ArrayInt16 \<Rightarrow> rd_bind read_i16_array (\<lambda>v. rd_return (VV_ArrayInt16 v))
      | VT_ArrayInt32 \<Rightarrow> rd_bind read_i32_array (\<lambda>v. rd_return (VV_ArrayInt32 v))
      | VT_ArrayInt64 \<Rightarrow> rd_bind read_i64_array (\<lambda>v. rd_return (VV_ArrayInt64 v))
      | VT_ArrayInt256 \<Rightarrow> rd_bind (read_big_int_array nb) (\<lambda>v. rd_return (VV_ArrayInt256 v))
      | VT_ArrayBytes16 \<Rightarrow>
          rd_bind (rd_bind (read_length_for 16) (\<lambda>count. rd_repeat count read16)) (\<lambda>v.
            rd_return (VV_ArrayBytes16 v))
      | VT_ArrayBytes32 \<Rightarrow>
          rd_bind (rd_bind (read_length_for 32) (\<lambda>count. rd_repeat count read32)) (\<lambda>v.
            rd_return (VV_ArrayBytes32 v))
      | VT_ArrayBytes64 \<Rightarrow>
          rd_bind (rd_bind (read_length_for 64) (\<lambda>count. rd_repeat count read64)) (\<lambda>v.
            rd_return (VV_ArrayBytes64 v))
      | VT_ArrayString \<Rightarrow> rd_bind read_string_z_array (\<lambda>v. rd_return (VV_ArrayString v))
      | VT_Array \<Rightarrow> rd_fail (Serialization ''unsupported VM dynamic type: Array''))"

definition read_dynamic_variable :: "nat \<Rightarrow> num_bigint \<Rightarrow> VMDynamicVariable reader" where
  "read_dynamic_variable depth nb = read_variable_with (read_static depth nb)"

definition read_dynamic_struct :: "nat \<Rightarrow> num_bigint \<Rightarrow> VMDynamicStruct reader" where
  "read_dynamic_struct depth nb = read_struct_with (read_static depth nb)"

definition read_with_schema :: "nat \<Rightarrow> num_bigint \<Rightarrow> VMStructSchema \<Rightarrow> VMDynamicStruct reader" where
  "read_with_schema depth nb = read_with_schema_with (read_static depth nb)"

section \<open>The values that read back\<close>

definition variable_ok_with :: "(VMType \<Rightarrow> VMStructSchema option \<Rightarrow> VMValue \<Rightarrow> bool) \<Rightarrow> VMDynamicVariable \<Rightarrow> bool" where
  "variable_ok_with so v = (dv_type v \<noteq> VT_Array \<and> so (dv_type v) None (dv_data v))"

definition named_ok_with :: "(VMType \<Rightarrow> VMStructSchema option \<Rightarrow> VMValue \<Rightarrow> bool) \<Rightarrow> VMNamedDynamicVariable \<Rightarrow> bool" where
  "named_ok_with so f = (small_string_ok (dn_name f) \<and> variable_ok_with so (dn_value f))"

definition named_list_ok :: "(VMType \<Rightarrow> VMStructSchema option \<Rightarrow> VMValue \<Rightarrow> bool) \<Rightarrow> VMNamedDynamicVariable list \<Rightarrow> bool" where
  "named_list_ok so fs = (fits_length (length fs) \<and> list_all (named_ok_with so) fs)"

definition struct_ok_with :: "(VMType \<Rightarrow> VMStructSchema option \<Rightarrow> VMValue \<Rightarrow> bool) \<Rightarrow> VMDynamicStruct \<Rightarrow> bool" where
  "struct_ok_with so s = (sorted (map field_name (ds_fields s)) \<and> named_list_ok so (ds_fields s))"

text \<open>A struct matches a schema: each declared field is there with its type, the others are
  extras, and those need the schema's permission.\<close>

definition schema_struct_ok_with ::
    "(VMType \<Rightarrow> VMStructSchema option \<Rightarrow> VMValue \<Rightarrow> bool) \<Rightarrow> VMStructSchema \<Rightarrow> VMDynamicStruct \<Rightarrow> bool" where
  "schema_struct_ok_with so schema s =
     (distinct (map nv_name (ss_fields schema)) \<and> distinct (map dn_name (ds_fields s))
      \<and> sorted (map field_name (ds_fields s))
      \<and> list_all (\<lambda>f. case struct_get s (as_str (nv_name f)) of
            None \<Rightarrow> False
          | Some v \<Rightarrow> dv_type v = vs_type (nv_schema f)
              \<and> so (vs_type (nv_schema f)) (vs_struct (nv_schema f)) (dv_data v)) (ss_fields schema)
      \<and> (if allows_extras schema then named_list_ok so (struct_extras schema s)
         else struct_extras schema s = []))"

text \<open>Whether a value of the schema takes at least one byte; arrays of structs need it, as the
  reader holds the element count against the bytes that are left.\<close>

fun variable_takes_bytes :: "VMVariableSchema \<Rightarrow> bool"
  and named_takes_bytes :: "VMNamedVariableSchema \<Rightarrow> bool"
  and schema_takes_bytes :: "VMStructSchema \<Rightarrow> bool" where
  "variable_takes_bytes (VMVariableSchema t d) =
     (t = VT_Struct \<longrightarrow> (case d of None \<Rightarrow> True | Some s \<Rightarrow> schema_takes_bytes s))"
| "named_takes_bytes (VMNamedVariableSchema n s) = variable_takes_bytes s"
| "schema_takes_bytes (VMStructSchema fs fl) =
     (fl AND DYNAMIC_EXTRAS = DYNAMIC_EXTRAS \<or> list_ex named_takes_bytes fs)"

primrec static_ok :: "nat \<Rightarrow> VMType \<Rightarrow> VMStructSchema option \<Rightarrow> VMValue \<Rightarrow> bool" where
  "static_ok 0 t schema x = False"
| "static_ok (Suc depth) t schema x =
     (let so = static_ok depth
      in case t of
        VT_Dynamic \<Rightarrow> (case x of VV_Dynamic v \<Rightarrow> variable_ok_with so v | _ \<Rightarrow> False)
      | VT_Bytes \<Rightarrow> (case x of VV_Bytes b \<Rightarrow> fits_length (length b) | _ \<Rightarrow> False)
      | VT_Struct \<Rightarrow>
          (case x of
             VV_Struct s \<Rightarrow> (case schema of Some sch \<Rightarrow> schema_struct_ok_with so sch s
                                        | None \<Rightarrow> struct_ok_with so s)
           | _ \<Rightarrow> False)
      | VT_Int8 \<Rightarrow> (case x of VV_Int v \<Rightarrow> scast (ucast v :: 8 word) = v | _ \<Rightarrow> False)
      | VT_Int16 \<Rightarrow> (case x of VV_Int v \<Rightarrow> scast (ucast v :: 16 word) = v | _ \<Rightarrow> False)
      | VT_Int32 \<Rightarrow> (case x of VV_Int v \<Rightarrow> scast (ucast v :: 32 word) = v | _ \<Rightarrow> False)
      | VT_Int64 \<Rightarrow> (case x of VV_Int v \<Rightarrow> True | _ \<Rightarrow> False)
      | VT_Int256 \<Rightarrow> (case x of VV_Int256 v \<Rightarrow> - (2 ^ 255) \<le> v \<and> v < 2 ^ 255 | _ \<Rightarrow> False)
      | VT_Bytes16 \<Rightarrow> (case x of VV_Bytes16 v \<Rightarrow> True | _ \<Rightarrow> False)
      | VT_Bytes32 \<Rightarrow> (case x of VV_Bytes32 v \<Rightarrow> True | _ \<Rightarrow> False)
      | VT_Bytes64 \<Rightarrow> (case x of VV_Bytes64 v \<Rightarrow> True | _ \<Rightarrow> False)
      | VT_String \<Rightarrow> (case x of VV_String v \<Rightarrow> 0 \<notin> set (string_bytes v) | _ \<Rightarrow> False)
      | VT_ArrayDynamic \<Rightarrow>
          (case x of VV_ArrayDynamic vs \<Rightarrow> fits_length (length vs) \<and> list_all (variable_ok_with so) vs
           | _ \<Rightarrow> False)
      | VT_ArrayBytes \<Rightarrow>
          (case x of VV_ArrayBytes vs \<Rightarrow>
             fits_length (length vs) \<and> list_all (\<lambda>b. fits_length (length b)) vs | _ \<Rightarrow> False)
      | VT_ArrayStruct \<Rightarrow>
          (case x of VV_ArrayStruct a \<Rightarrow>
             fits_length (length (sa_structs a))
             \<and> (case schema of Some s \<Rightarrow> sa_schema a = s | None \<Rightarrow> struct_schema_fits depth (sa_schema a))
             \<and> (sa_structs a = [] \<or> schema_takes_bytes (sa_schema a))
             \<and> list_all (schema_struct_ok_with so (sa_schema a)) (sa_structs a)
           | _ \<Rightarrow> False)
      | VT_ArrayInt8 \<Rightarrow> (case x of VV_ArrayInt8 vs \<Rightarrow> fits_length (length vs) | _ \<Rightarrow> False)
      | VT_ArrayInt16 \<Rightarrow> (case x of VV_ArrayInt16 vs \<Rightarrow> fits_length (length vs) | _ \<Rightarrow> False)
      | VT_ArrayInt32 \<Rightarrow> (case x of VV_ArrayInt32 vs \<Rightarrow> fits_length (length vs) | _ \<Rightarrow> False)
      | VT_ArrayInt64 \<Rightarrow> (case x of VV_ArrayInt64 vs \<Rightarrow> fits_length (length vs) | _ \<Rightarrow> False)
      | VT_ArrayInt256 \<Rightarrow>
          (case x of VV_ArrayInt256 vs \<Rightarrow>
             fits_length (length vs) \<and> list_all (\<lambda>v. - (2 ^ 255) \<le> v \<and> v < 2 ^ 255) vs | _ \<Rightarrow> False)
      | VT_ArrayBytes16 \<Rightarrow> (case x of VV_ArrayBytes16 vs \<Rightarrow> fits_length (length vs) | _ \<Rightarrow> False)
      | VT_ArrayBytes32 \<Rightarrow> (case x of VV_ArrayBytes32 vs \<Rightarrow> fits_length (length vs) | _ \<Rightarrow> False)
      | VT_ArrayBytes64 \<Rightarrow> (case x of VV_ArrayBytes64 vs \<Rightarrow> fits_length (length vs) | _ \<Rightarrow> False)
      | VT_ArrayString \<Rightarrow>
          (case x of VV_ArrayString vs \<Rightarrow>
             fits_length (length vs) \<and> list_all (\<lambda>v. 0 \<notin> set (string_bytes v)) vs | _ \<Rightarrow> False)
      | VT_Array \<Rightarrow> False)"

section \<open>Flags\<close>

lemma wr_drop_true [simp]: "wr_drop (wr_true a) = a"
  by (simp add: wr_drop_def wr_true_def fun_eq_iff bind_result_assoc)

definition write_schema_field :: "static_writer \<Rightarrow> VMDynamicStruct \<Rightarrow> VMNamedVariableSchema \<Rightarrow> wr_action" where
  "write_schema_field ws s f =
     wr_drop (ws (vs_type (nv_schema f)) (vs_struct (nv_schema f))
       (case struct_get s (as_str (nv_name f)) of
          Some v \<Rightarrow> v | None \<Rightarrow> default_dynamic_variable (vs_type (nv_schema f))))"

lemma drop_schema_fields:
  "bind_result (write_schema_fields ws s fs ok w) (\<lambda>(_, w'). g w') =
     bind_result (wr_for fs (write_schema_field ws s) w) g"
proof (induction fs arbitrary: ok w)
  case Nil
  then show ?case by (simp add: wr_for_def)
next
  case (Cons f fs)
  then show ?case
    by (simp add: wr_for_def write_schema_field_def wr_drop_def Let_def bind_result_assoc
        case_prod_unfold)
qed

lemma wr_seq_Nil_Ok: "wr_seq [] = Ok"
  by (rule ext) simp

lemma wr_seq_Cons_fun: "wr_seq (a # as) = (\<lambda>w. bind_result (a w) (wr_seq as))"
  by (rule ext) simp

lemma write_no_extras: "write4u 0 = write_named_variables_with ws []"
  by (rule ext) (simp add: write_named_variables_with_def write_length_def ensure_u32_len_def wr_for_def
      write4u_def write4_def carbon_write_def wr_bytes_def to_le_bytes_def)

lemma drop_with_schema:
  "wr_drop (write_with_schema_with ws schema s) =
     wr_seq [wr_for (ss_fields schema) (write_schema_field ws s),
       if allows_extras schema then write_named_variables_with ws (struct_extras schema s) else wr_seq []]"
proof
  fix w
  let ?g = "\<lambda>w. if allows_extras schema then write_named_variables_with ws (struct_extras schema s) w else Ok w"
  have "wr_drop (write_with_schema_with ws schema s) w =
      bind_result (write_schema_fields ws s (ss_fields schema) True w) (\<lambda>(_, w'). ?g w')"
    by (auto simp: wr_drop_def write_with_schema_with_def bind_result_assoc Let_def write_no_extras [of ws]
        intro!: bind_result_cong)
  then show "wr_drop (write_with_schema_with ws schema s) w =
      wr_seq [wr_for (ss_fields schema) (write_schema_field ws s),
        if allows_extras schema then write_named_variables_with ws (struct_extras schema s) else wr_seq []] w"
    by (cases "allows_extras schema")
       (simp_all add: drop_schema_fields wr_seq_Nil_Ok bind_result_assoc wr_seq_Cons_fun)
qed

section \<open>Reassembling a struct from its schema\<close>

lemma field_name_eq: "field_name g = as_str n \<longleftrightarrow> dn_name g = n"
  by (cases "dn_name g"; cases n) (simp add: field_name_def)

lemma struct_get_Some:
  assumes "struct_get s (as_str n) = Some v"
  shows "VMNamedDynamicVariable n v \<in> set (ds_fields s)"
proof -
  from assms obtain g where "find (\<lambda>f. field_name f = as_str n) (ds_fields s) = Some g" "v = dn_value g"
    by (auto simp: struct_get_def)
  then have "g \<in> set (ds_fields s)" "dn_name g = n"
    by (auto simp: find_Some_iff field_name_eq)
  with \<open>v = dn_value g\<close> show ?thesis by (cases g) auto
qed

lemma set_struct_extras:
  "set (struct_extras schema s) = {g \<in> set (ds_fields s). dn_name g \<notin> nv_name ` set (ss_fields schema)}"
  by (auto simp: struct_extras_def list_ex_iff image_iff)

lemma struct_new_reassembles:
  assumes distinct: "distinct (map nv_name (ss_fields schema))" "distinct (map dn_name (ds_fields s))"
    and sorted: "sorted (map field_name (ds_fields s))"
    and val: "\<And>f. f \<in> set (ss_fields schema) \<Longrightarrow> struct_get s (as_str (nv_name f)) = Some (val f)"
  shows "struct_new (map (\<lambda>f. VMNamedDynamicVariable (nv_name f) (val f)) (ss_fields schema)
           @ struct_extras schema s) = s"
proof -
  let ?picked = "map (\<lambda>f. VMNamedDynamicVariable (nv_name f) (val f)) (ss_fields schema)"
  have inj: "inj_on dn_name (set (ds_fields s))" "distinct (ds_fields s)"
    using distinct(2) by (simp_all add: distinct_map)
  have sub: "set ?picked \<subseteq> set (ds_fields s)"
    using struct_get_Some [OF val] by auto
  have picked: "set ?picked = {g \<in> set (ds_fields s). dn_name g \<in> nv_name ` set (ss_fields schema)}"
  proof (intro equalityI subsetI)
    fix g assume "g \<in> {g \<in> set (ds_fields s). dn_name g \<in> nv_name ` set (ss_fields schema)}"
    then obtain f where f: "g \<in> set (ds_fields s)" "f \<in> set (ss_fields schema)" "dn_name g = nv_name f"
      by auto
    then have "VMNamedDynamicVariable (nv_name f) (val f) = g"
      using inj_onD [OF inj(1), of "VMNamedDynamicVariable (nv_name f) (val f)" g]
        struct_get_Some [OF val [OF f(2)]] by simp
    with f(2) show "g \<in> set ?picked" by auto
  next
    fix g assume "g \<in> set ?picked"
    with sub show "g \<in> {g \<in> set (ds_fields s). dn_name g \<in> nv_name ` set (ss_fields schema)}" by auto
  qed
  have all: "set (?picked @ struct_extras schema s) = set (ds_fields s)"
    unfolding set_append picked set_struct_extras by blast
  have "distinct ?picked"
    using distinct(1) by (auto simp: distinct_map inj_on_def)
  moreover have "distinct (struct_extras schema s)" using inj(2) by (simp add: struct_extras_def)
  moreover have "set ?picked \<inter> set (struct_extras schema s) = {}"
    unfolding picked set_struct_extras by blast
  ultimately have "distinct (?picked @ struct_extras schema s)" unfolding distinct_append by blast
  then have "mset (?picked @ struct_extras schema s) = mset (ds_fields s)"
    using all inj(2) by (simp only: set_eq_iff_mset_eq_distinct [symmetric])
  moreover have "inj_on field_name (set (?picked @ struct_extras schema s))"
    unfolding all using inj(1) by (auto simp: inj_on_def field_name_def) (metis SmallString.expand)
  ultimately have "sort_key field_name (?picked @ struct_extras schema s) = ds_fields s"
    using sorted by (rule sort_key_inj_key_eq)
  then show ?thesis by (simp add: struct_new_def struct_sort_def)
qed

lemma struct_sort_sorted: "sorted (map field_name (ds_fields s)) \<Longrightarrow> struct_sort s = s"
  by (simp add: struct_sort_def sort_key_id_if_sorted)

section \<open>Round trips\<close>

text \<open>A round trip that takes bytes when the first argument says so.\<close>

definition round_trip_if :: "bool \<Rightarrow> wr_action \<Rightarrow> 'a reader \<Rightarrow> 'a \<Rightarrow> bool" where
  "round_trip_if k a p v \<longleftrightarrow> (\<exists>bs. writes a bs \<and> parses p bs v \<and> (k \<longrightarrow> bs \<noteq> []))"

lemma round_trip_ifD: "round_trip_if k a p v \<Longrightarrow> round_trip a p v"
  by (auto simp: round_trip_if_def round_trip_def)

lemma round_trip_ifD1: "round_trip_if k a p v \<Longrightarrow> k \<Longrightarrow> round_trip1 a p v"
  by (auto simp: round_trip_if_def round_trip1_def)

lemma round_trip_ifI1: "round_trip1 a p v \<Longrightarrow> round_trip_if k a p v"
  by (auto simp: round_trip_if_def round_trip1_def)

lemma round_trip_if_map:
  assumes "round_trip_if k a p x" and "f x = rd_return v"
  shows "round_trip_if k a (rd_bind p f) v"
proof -
  from assms obtain bs where "writes a bs" "parses p bs x" "k \<longrightarrow> bs \<noteq> []"
    by (auto simp: round_trip_if_def)
  moreover from this assms have "parses (rd_bind p f) (bs @ []) v"
    by (intro parses_bind) auto
  ultimately show ?thesis by (auto simp: round_trip_if_def)
qed

lemma parses_for:
  "(\<And>y. y \<in> set ys \<Longrightarrow> parses (p y) (enc y) (val y)) \<Longrightarrow>
     parses (rd_for ys p) (concat (map enc ys)) (map val ys)"
proof (induction ys)
  case (Cons y ys)
  have "parses (rd_bind (rd_for ys p) (\<lambda>xs. rd_return (val y # xs))) (concat (map enc ys) @ [])
      (map val (y # ys))"
    using Cons by (intro parses_bind) auto
  then show ?case using Cons.prems by (auto intro!: parses_bind [where x = "val y"])
qed (auto simp: parses_return)

text \<open>
  The contract between the two mutually recursive halves: what \<open>write_static\<close> writes for a
  value, \<open>read_static\<close> reads back under the same type and schema.
\<close>

locale static_codec =
  fixes ws :: static_writer and rs :: static_reader
    and so :: "VMType \<Rightarrow> VMStructSchema option \<Rightarrow> VMValue \<Rightarrow> bool"
  assumes static: "so t schema (dv_data v) \<Longrightarrow>
    round_trip_if (variable_takes_bytes (VMVariableSchema t schema)) (wr_drop (ws t schema v))
      (rs t schema) (dv_data v)"
begin

lemma variable_round_trip:
  assumes "variable_ok_with so v"
  shows "round_trip1 (write_variable_with ws v) (read_variable_with rs) v"
proof -
  have ok: "dv_type v \<noteq> VT_Array" "so (dv_type v) None (dv_data v)"
    using assms by (simp_all add: variable_ok_with_def)
  have "round_trip1 (write1 (VMType_code (dv_type v))) read_vm_type (dv_type v)"
    using vm_type_round_trip [OF ok(1)] by (simp add: write_vm_type_def)
  then show ?thesis
    unfolding write_variable_with_def read_variable_with_def
    by (rule round_trip1_cons)
       (rule round_trip_cons0 [OF round_trip_ifD [OF static [OF ok(2)]]], rule round_trip_nil, simp)
qed

lemma named_round_trip:
  assumes "named_ok_with so f"
  shows "round_trip1 (write_named_variable_with ws f) (read_named_variable_with rs) f"
proof -
  have ok: "length (string_bytes (as_str (dn_name f))) \<le> 255" "variable_ok_with so (dn_value f)"
    using assms by (simp_all add: named_ok_with_def small_string_ok_def)
  show ?thesis
    unfolding write_named_variable_with_def read_named_variable_with_def
    by (rule round_trip1_cons [OF small_string_round_trip [OF ok(1)]],
        rule round_trip_cons [OF variable_round_trip [OF ok(2)]], rule round_trip_nil, simp)
qed

lemma variables_round_trip:
  assumes "fits_length (length vs)" and "list_all (variable_ok_with so) vs"
  shows "round_trip1 (write_variables_with ws vs) (read_variables_with rs) vs"
  unfolding write_variables_with_def read_variables_with_def read_length_def
  using assms by (intro array_round_trip round_trip1_sized variable_round_trip) (simp_all add: list_all_iff)

lemma named_list_round_trip:
  assumes "named_list_ok so fs"
  shows "round_trip1 (write_named_variables_with ws fs) (read_named_variables_with rs) fs"
  unfolding write_named_variables_with_def read_named_variables_with_def read_length_def
  using assms
  by (intro array_round_trip round_trip1_sized named_round_trip) (simp_all add: named_list_ok_def list_all_iff)

lemma struct_round_trip:
  assumes "struct_ok_with so s"
  shows "round_trip1 (write_struct_with ws s) (read_struct_with rs) s"
proof -
  have ok: "struct_sort s = s" "named_list_ok so (ds_fields s)"
    using assms by (simp_all add: struct_ok_with_def struct_sort_sorted)
  show ?thesis
    unfolding write_struct_with_def read_struct_with_def ok(1)
    by (rule round_trip1_map [OF named_list_round_trip [OF ok(2)]]) (simp add: struct_new_def ok(1))
qed

end

lemma concat_length_ge:
  "(\<And>x. x \<in> set xs \<Longrightarrow> f x \<noteq> []) \<Longrightarrow> length xs \<le> length (concat (map f xs))"
proof (induction xs)
  case (Cons x xs)
  then have "1 \<le> length (f x)" "length xs \<le> length (concat (map f xs))" by (simp_all add: Suc_le_eq)
  then have "1 + length xs \<le> length (f x) + length (concat (map f xs))" by (rule add_mono)
  then show ?case by simp
qed simp

lemma schema_takes_bytes_iff:
  "schema_takes_bytes schema \<longleftrightarrow> allows_extras schema \<or>
     (\<exists>f\<in>set (ss_fields schema). variable_takes_bytes (VMVariableSchema (vs_type (nv_schema f)) (vs_struct (nv_schema f))))"
proof (cases schema)
  case (VMStructSchema fs fl)
  have "named_takes_bytes f = variable_takes_bytes (VMVariableSchema (vs_type (nv_schema f)) (vs_struct (nv_schema f)))"
    for f by (cases f) simp
  with VMStructSchema show ?thesis by (simp add: allows_extras_def list_ex_iff)
qed

context static_codec begin

lemma schema_field_round_trip:
  assumes "schema_struct_ok_with so schema s" and "f \<in> set (ss_fields schema)"
  shows "\<exists>v. struct_get s (as_str (nv_name f)) = Some v \<and>
    round_trip_if (variable_takes_bytes (VMVariableSchema (vs_type (nv_schema f)) (vs_struct (nv_schema f))))
      (write_schema_field ws s f) (read_schema_field rs f) (VMNamedDynamicVariable (nv_name f) v)"
proof -
  obtain v where v: "struct_get s (as_str (nv_name f)) = Some v" "dv_type v = vs_type (nv_schema f)"
    "so (vs_type (nv_schema f)) (vs_struct (nv_schema f)) (dv_data v)"
    using assms by (auto simp: schema_struct_ok_with_def list_all_iff split: option.splits)
  have "VMDynamicVariable (vs_type (nv_schema f)) (dv_data v) = v" using v(2) by (cases v) simp
  then have "round_trip_if (variable_takes_bytes (VMVariableSchema (vs_type (nv_schema f)) (vs_struct (nv_schema f))))
      (write_schema_field ws s f) (read_schema_field rs f) (VMNamedDynamicVariable (nv_name f) v)"
    unfolding write_schema_field_def read_schema_field_def v(1) option.case
    by (intro round_trip_if_map [OF static [OF v(3)]]) simp
  with v(1) show ?thesis by blast
qed

lemma with_schema_round_trip:
  assumes "schema_struct_ok_with so schema s"
  shows "round_trip_if (schema_takes_bytes schema) (wr_drop (write_with_schema_with ws schema s))
    (read_with_schema_with rs schema) s"
proof -
  let ?fs = "ss_fields schema" and ?xs = "struct_extras schema s"
  let ?takes = "\<lambda>f. variable_takes_bytes (VMVariableSchema (vs_type (nv_schema f)) (vs_struct (nv_schema f)))"
  from schema_field_round_trip [OF assms] obtain val enc where
    field: "\<And>f. f \<in> set ?fs \<Longrightarrow> struct_get s (as_str (nv_name f)) = Some (val f)
      \<and> writes (write_schema_field ws s f) (enc f)
      \<and> parses (read_schema_field rs f) (enc f) (VMNamedDynamicVariable (nv_name f) (val f))
      \<and> (?takes f \<longrightarrow> enc f \<noteq> [])"
    unfolding round_trip_if_def by metis
  let ?vs = "map (\<lambda>f. VMNamedDynamicVariable (nv_name f) (val f)) ?fs"
  have fields: "writes (wr_for ?fs (write_schema_field ws s)) (concat (map enc ?fs))"
    "parses (rd_for ?fs (read_schema_field rs)) (concat (map enc ?fs)) ?vs"
    using field by (simp_all add: writes_for parses_for)
  have "\<exists>bx. writes (if allows_extras schema then write_named_variables_with ws ?xs else wr_seq []) bx
      \<and> parses (if allows_extras schema then read_named_variables_with rs else rd_return []) bx ?xs
      \<and> (allows_extras schema \<longrightarrow> bx \<noteq> [])"
    using assms named_list_round_trip [of ?xs]
    by (auto simp: schema_struct_ok_with_def round_trip1_def parses_return intro!: exI [of _ "[]"])
  then obtain bx where bx: "writes (if allows_extras schema then write_named_variables_with ws ?xs else wr_seq []) bx"
    "parses (if allows_extras schema then read_named_variables_with rs else rd_return []) bx ?xs"
    "allows_extras schema \<longrightarrow> bx \<noteq> []"
    by blast
  have new: "struct_new (?vs @ ?xs) = s"
    using assms field by (intro struct_new_reassembles) (auto simp: schema_struct_ok_with_def)
  have "writes (wr_drop (write_with_schema_with ws schema s)) (concat (map enc ?fs) @ bx)"
    unfolding drop_with_schema using writes_Cons [OF fields(1) writes_Cons [OF bx(1) writes_Nil]] by simp
  moreover have "parses (read_with_schema_with rs schema) (concat (map enc ?fs) @ bx @ []) s"
    unfolding read_with_schema_with_def
    by (rule parses_bind [OF fields(2)], rule parses_bind [OF bx(2)]) (simp add: new parses_return)
  moreover have "schema_takes_bytes schema \<longrightarrow> concat (map enc ?fs) @ bx \<noteq> []"
    using bx(3) field by (auto simp: schema_takes_bytes_iff)
  ultimately show ?thesis by (auto simp: round_trip_if_def)
qed

lemma struct_array_round_trip:
  assumes "list_all (schema_struct_ok_with so schema) ss" and "ss = [] \<or> schema_takes_bytes schema"
    and "fits_length (length ss)"
    and mid: "round_trip (wr_seq mid) p schema"
  shows "round_trip1 (wr_seq ([write_length (length ss)] @ mid
           @ [wr_for ss (\<lambda>s. wr_drop (write_with_schema_with ws schema s))]))
    (rd_bind read_length (\<lambda>count. rd_bind p (\<lambda>used.
       rd_bind (rd_repeat count (read_with_schema_with rs used)) (\<lambda>structs.
         rd_return (VV_ArrayStruct (VMStructArray used structs))))))
    (VV_ArrayStruct (VMStructArray schema ss))"
proof -
  have "\<exists>bs. writes (wr_drop (write_with_schema_with ws schema s)) bs
      \<and> parses (read_with_schema_with rs schema) bs s \<and> bs \<noteq> []" if "s \<in> set ss" for s
    using with_schema_round_trip [of schema s] assms(1,2) that
    by (auto simp: list_all_iff round_trip_if_def)
  then obtain enc where enc: "\<And>s. s \<in> set ss \<Longrightarrow>
      writes (wr_drop (write_with_schema_with ws schema s)) (enc s)
      \<and> parses (read_with_schema_with rs schema) (enc s) s \<and> enc s \<noteq> []" by metis
  let ?hd = "to_le_bytes (word_of_nat (length ss) :: i32)" and ?body = "concat (map enc ss)"
  obtain bm where bm: "writes (wr_seq mid) bm" "parses p bm schema" using mid by (auto simp: round_trip_def)
  have len: "length ss \<le> length (bm @ ?body @ post)" for post
    using concat_length_ge [of ss enc] enc by auto
  have body: "parses (rd_repeat (length ss) (read_with_schema_with rs schema)) ?body ss"
    using enc by (intro parses_repeat) simp
  have tail: "parses (rd_bind p (\<lambda>used.
       rd_bind (rd_repeat (length ss) (read_with_schema_with rs used)) (\<lambda>structs.
         rd_return (VV_ArrayStruct (VMStructArray used structs))))) (bm @ ?body @ [])
       (VV_ArrayStruct (VMStructArray schema ss))"
    by (rule parses_bind [OF bm(2)], rule parses_bind [OF body], rule parses_return)
  have "parses (rd_bind read_length (\<lambda>count. rd_bind p (\<lambda>used.
       rd_bind (rd_repeat count (read_with_schema_with rs used)) (\<lambda>structs.
         rd_return (VV_ArrayStruct (VMStructArray used structs))))))
      (?hd @ bm @ ?body) (VV_ArrayStruct (VMStructArray schema ss))"
    unfolding parses_def
  proof (intro allI)
    fix pre post
    have "read_length (reader_at pre (?hd @ bm @ ?body @ post)) = Ok (length ss, reader_at (pre @ ?hd) (bm @ ?body @ post))"
      unfolding read_length_def using read_length_for_at [OF assms(3), of 1 "bm @ ?body @ post" pre] len by simp
    then show "rd_bind read_length (\<lambda>count. rd_bind p (\<lambda>used.
       rd_bind (rd_repeat count (read_with_schema_with rs used)) (\<lambda>structs.
         rd_return (VV_ArrayStruct (VMStructArray used structs)))))
      (reader_at pre ((?hd @ bm @ ?body) @ post)) =
      Ok (VV_ArrayStruct (VMStructArray schema ss), reader_at (pre @ ?hd @ bm @ ?body) post)"
      using parses_reader_at [OF tail, of "pre @ ?hd" post] by (simp add: rd_bind_def [of read_length])
  qed
  moreover have "writes (wr_seq ([write_length (length ss)] @ mid
      @ [wr_for ss (\<lambda>s. wr_drop (write_with_schema_with ws schema s))])) (?hd @ bm @ ?body)"
    using writes_append [OF bm(1) writes_Cons [OF writes_for writes_Nil]] enc
      writes_Cons [OF writes_length [OF assms(3)]] by fastforce
  ultimately show ?thesis
    unfolding round_trip1_def by (intro exI [of _ "?hd @ bm @ ?body"]) (simp add: to_le_bytes_nonempty)
qed

end

lemma fixed_bytes_arrays:
  "fits_length (length b16) \<Longrightarrow>
     round_trip1 (write_carbon_array write16 b16) (rd_bind (read_length_for 16) (\<lambda>n. rd_repeat n read16)) b16"
  "fits_length (length b32) \<Longrightarrow>
     round_trip1 (write_carbon_array write32 b32) (rd_bind (read_length_for 32) (\<lambda>n. rd_repeat n read32)) b32"
  "fits_length (length b64) \<Longrightarrow>
     round_trip1 (write_carbon_array write64 b64) (rd_bind (read_length_for 64) (\<lambda>n. rd_repeat n read64)) b64"
  unfolding write_carbon_array_def write16_def write32_def write64_def carbon_write_def
  by (rule array_round_trip; force)+

text \<open>The types that do not nest.\<close>

lemma leaf_round_trip:
  assumes nb: "num_bigint_api nb" and "static_ok (Suc d) t schema (dv_data v)"
    and "t \<notin> {VT_Dynamic, VT_Struct, VT_ArrayDynamic, VT_ArrayStruct}"
  shows "round_trip1 (wr_drop (write_static (Suc d) nb t schema v)) (read_static (Suc d) nb t schema) (dv_data v)"
proof -
  note maps = round_trip1_map [OF fixed_round_trips(1)] round_trip1_map [OF fixed_round_trips(2)]
    round_trip1_map [OF fixed_round_trips(3)] round_trip1_map [OF fixed_round_trips(5)]
    round_trip1_map [OF fixed_round_trips(7)] round_trip1_map [OF fixed_round_trips(8)]
    round_trip1_map [OF fixed_round_trips(9)] round_trip1_map [OF byte_array_round_trip]
    round_trip1_map [OF num_bigint_api.big_int_round_trip [OF nb]] round_trip1_map [OF string_z_round_trip]
    round_trip1_map [OF byte_arrays_round_trip] round_trip1_map [OF fixed_array_round_trips(1)]
    round_trip1_map [OF fixed_array_round_trips(2)] round_trip1_map [OF fixed_array_round_trips(3)]
    round_trip1_map [OF fixed_array_round_trips(4)] round_trip1_map [OF big_int_array_round_trip [OF nb]]
    round_trip1_map [OF fixed_bytes_arrays(1)] round_trip1_map [OF fixed_bytes_arrays(2)]
    round_trip1_map [OF fixed_bytes_arrays(3)] round_trip1_map [OF string_z_array_round_trip]
  show ?thesis
    using assms(2,3)
    by (cases t; simp only: write_static.simps read_static.simps Let_def VMType.case)
       (auto split: VMValue.split_asm simp: Let_def list_all_iff as_i64_def variable_as_bigint_def
        intro!: maps)
qed

lemma takes_bytes_struct:
  "variable_takes_bytes (VMVariableSchema VT_Struct (Some schema)) = schema_takes_bytes schema"
  by simp

lemma static_step:
  assumes nb: "num_bigint_api nb"
    and IH: "static_codec (write_static d nb) (read_static d nb) (static_ok d)"
    and ok: "static_ok (Suc d) t schema (dv_data v)"
  shows "round_trip_if (variable_takes_bytes (VMVariableSchema t schema))
    (wr_drop (write_static (Suc d) nb t schema v)) (read_static (Suc d) nb t schema) (dv_data v)"
proof (cases t)
  case VT_Dynamic
  with ok obtain x where x: "dv_data v = VV_Dynamic x" "variable_ok_with (static_ok d) x"
    by (auto simp: Let_def split: VMValue.splits)
  show ?thesis
    unfolding VT_Dynamic write_static.simps read_static.simps Let_def VMType.case x(1) VMValue.case wr_drop_true
    by (intro round_trip_ifI1 round_trip1_map [OF static_codec.variable_round_trip [OF IH x(2)]] refl)
next
  case VT_Struct
  with ok obtain s where s: "dv_data v = VV_Struct s"
    "case schema of Some sch \<Rightarrow> schema_struct_ok_with (static_ok d) sch s | None \<Rightarrow> struct_ok_with (static_ok d) s"
    by (auto simp: Let_def split: VMValue.splits)
  show ?thesis
  proof (cases schema)
    case None
    then have "struct_ok_with (static_ok d) s" using s(2) by simp
    from static_codec.struct_round_trip [OF IH this] show ?thesis
      unfolding VT_Struct None write_static.simps read_static.simps Let_def VMType.case s(1) VMValue.case
        option.case wr_drop_true
      by (intro round_trip_ifI1 round_trip1_map [OF _ refl])
  next
    case (Some sch)
    then have "schema_struct_ok_with (static_ok d) sch s" using s(2) by simp
    from static_codec.with_schema_round_trip [OF IH this] show ?thesis
      unfolding VT_Struct Some write_static.simps read_static.simps Let_def VMType.case s(1) VMValue.case
        option.case takes_bytes_struct
      by (intro round_trip_if_map [OF _ refl])
  qed
next
  case VT_ArrayDynamic
  with ok obtain vs where vs: "dv_data v = VV_ArrayDynamic vs" "fits_length (length vs)"
    "list_all (variable_ok_with (static_ok d)) vs"
    by (auto simp: Let_def split: VMValue.splits)
  show ?thesis
    unfolding VT_ArrayDynamic write_static.simps read_static.simps Let_def VMType.case vs(1) VMValue.case
      wr_drop_true
    by (intro round_trip_ifI1 round_trip1_map [OF static_codec.variables_round_trip [OF IH vs(2,3)]] refl)
next
  case VT_ArrayStruct
  with ok obtain x where x: "dv_data v = VV_ArrayStruct x" "fits_length (length (sa_structs x))"
    "case schema of Some s \<Rightarrow> sa_schema x = s | None \<Rightarrow> struct_schema_fits d (sa_schema x)"
    "sa_structs x = [] \<or> schema_takes_bytes (sa_schema x)"
    "list_all (schema_struct_ok_with (static_ok d) (sa_schema x)) (sa_structs x)"
    by (auto simp: Let_def split: VMValue.splits)
  obtain sch ss where "x = VMStructArray sch ss" by (cases x)
  with x have a: "dv_data v = VV_ArrayStruct (VMStructArray sch ss)" "fits_length (length ss)"
    "case schema of Some s \<Rightarrow> sch = s | None \<Rightarrow> struct_schema_fits d sch"
    "ss = [] \<or> schema_takes_bytes sch" "list_all (schema_struct_ok_with (static_ok d) sch) ss"
    by (auto split: option.splits)
  note array = static_codec.struct_array_round_trip [OF IH a(5,4,2)]
  show ?thesis
  proof (cases schema)
    case None
    then have "round_trip (wr_seq [write_struct_schema sch]) (read_struct_schema d) sch"
      using a(3) by (intro round_trip_single round_trip1_imp struct_schema_round_trip) simp
    from array [OF this] show ?thesis
      unfolding VT_ArrayStruct None write_static.simps read_static.simps Let_def VMType.case a(1) VMValue.case
        option.case wr_drop_true write_struct_array_with_def VMStructArray.sel if_P [OF refl]
      by (intro round_trip_ifI1)
  next
    case (Some s)
    then have "sch = s" using a(3) by simp
    have "round_trip (wr_seq []) (rd_return sch) sch" by (rule round_trip_nil) simp
    from array [OF this] show ?thesis
      unfolding VT_ArrayStruct Some write_static.simps read_static.simps Let_def VMType.case a(1) VMValue.case
        option.case wr_drop_true write_struct_array_with_def VMStructArray.sel \<open>sch = s\<close>
      by (intro round_trip_ifI1) simp
  qed
qed (intro round_trip_ifI1 leaf_round_trip [OF nb ok]; simp)+

lemma static_codec_static:
  assumes "num_bigint_api nb"
  shows "static_codec (write_static d nb) (read_static d nb) (static_ok d)"
proof (induction d)
  case 0
  show ?case by unfold_locales simp
next
  case (Suc d)
  show ?case by unfold_locales (rule static_step [OF assms Suc])
qed

interpretation dynamic: static_codec "write_static depth nb" "read_static depth nb"
    "\<lambda>t schema x. num_bigint_api nb \<and> static_ok depth t schema x" for depth nb
  by unfold_locales (blast intro: static_codec.static [OF static_codec_static])

text \<open>The flag that \<open>write_static\<close> and \<open>write_with_schema\<close> answer with is never false.\<close>

definition flag_true :: "flag_action \<Rightarrow> bool" where
  "flag_true a \<longleftrightarrow> (\<forall>w b w'. a w = Ok (b, w') \<longrightarrow> b)"

lemma flag_true_wr_true [simp]: "flag_true (wr_true a)"
  by (auto simp: flag_true_def wr_true_def bind_result_eq_Ok)

lemma schema_fields_flag:
  assumes "\<forall>t schema v. flag_true (ws t schema v)"
  shows "write_schema_fields ws s fs ok w = Ok (b, w') \<Longrightarrow> b = ok"
proof (induction fs arbitrary: ok w)
  case (Cons f fs)
  then obtain b1 w1 where "write_schema_fields ws s fs (b1 \<and> ok) w1 = Ok (b, w')"
    and "\<exists>t schema v w. ws t schema v w = Ok (b1, w1)"
    by (auto simp: Let_def bind_result_eq_Ok) blast
  then obtain t schema v w0 where "ws t schema v w0 = Ok (b1, w1)"
    "write_schema_fields ws s fs (b1 \<and> ok) w1 = Ok (b, w')" by blast
  moreover from this assms have b1 unfolding flag_true_def by blast
  ultimately show ?case using Cons.IH by simp
qed simp

lemma with_schema_flag:
  assumes "\<forall>t schema v. flag_true (ws t schema v)"
  shows "flag_true (write_with_schema_with ws schema s)"
  unfolding flag_true_def
proof (intro allI impI)
  fix w b w' assume "write_with_schema_with ws schema s w = Ok (b, w')"
  then obtain w1 where "write_schema_fields ws s (ss_fields schema) True w = Ok (b, w1)"
    by (auto simp: write_with_schema_with_def bind_result_eq_Ok Let_def split: if_split_asm)
  then show b using schema_fields_flag [OF assms] by blast
qed

lemma static_flag: "flag_true (write_static d nb t schema v)"
proof (induction d arbitrary: t schema v)
  case 0
  show ?case by (simp add: flag_true_def)
next
  case (Suc d)
  then have "flag_true (write_with_schema_with (write_static d nb) sch s)" for sch s
    by (intro with_schema_flag) blast
  then show ?case by (cases t) (simp_all add: Let_def split: option.split)
qed

section \<open>Panics\<close>

lemma panics_within_for [panic_intros]:
  "(\<And>y. y \<in> set ys \<Longrightarrow> panics_within R (p y)) \<Longrightarrow> panics_within R (rd_for ys p)"
  by (induction ys) (auto intro!: panics_within_bind intro: safe_imp_panics_within safe_return)

lemma panics_within_mono: "panics_within R p \<Longrightarrow> R \<subseteq> S \<Longrightarrow> panics_within S p"
  unfolding panics_within_def by (fastforce split: result.splits)

lemma helper_readers_panics:
  assumes "\<And>t schema. panics_within R (rs t schema)"
  shows "panics_within R (read_variable_with rs)" "panics_within R (read_variables_with rs)"
    "panics_within R (read_named_variables_with rs)" "panics_within R (read_struct_with rs)"
    "panics_within R (read_with_schema_with rs schema)"
proof -
  show var: "panics_within R (read_variable_with rs)"
    unfolding read_variable_with_def
    by (intro panics_within_bind assms) (auto intro: safe_imp_panics_within safe_intros)
  then show "panics_within R (read_variables_with rs)"
    unfolding read_variables_with_def
    by (intro panics_within_bind panics_within_repeat) (auto intro: safe_imp_panics_within safe_intros)
  show named: "panics_within R (read_named_variables_with rs)"
    unfolding read_named_variables_with_def read_named_variable_with_def using var
    by (intro panics_within_bind panics_within_repeat) (auto intro: safe_imp_panics_within safe_intros)
  then show "panics_within R (read_struct_with rs)"
    unfolding read_struct_with_def
    by (intro panics_within_bind) (auto intro: safe_imp_panics_within safe_intros)
  show "panics_within R (read_with_schema_with rs schema)"
    unfolding read_with_schema_with_def read_schema_field_def using named
    by (intro panics_within_bind panics_within_for panics_within_if assms)
       (auto intro: safe_imp_panics_within safe_intros)
qed

lemma read_leaf_safe:
  "t \<notin> {VT_Dynamic, VT_Struct, VT_ArrayDynamic, VT_ArrayStruct} \<Longrightarrow> safe_reader (read_static (Suc d) nb t schema)"
  by (cases t) (simp_all add: Let_def safe_intros)

lemma read_static_panics: "panics_within {Stack_Overflow} (read_static d nb t schema)"
proof (induction d arbitrary: t schema)
  case (Suc d)
  note helpers = helper_readers_panics [of _ "read_static d nb", OF Suc]
  note ret = safe_imp_panics_within [OF safe_return]
  show ?case
  proof (cases "t \<in> {VT_Dynamic, VT_Struct, VT_ArrayDynamic, VT_ArrayStruct}")
    case False
    then show ?thesis by (rule safe_imp_panics_within [OF read_leaf_safe])
  next
    case True
    then consider "t = VT_Dynamic" | "t = VT_Struct" | "t = VT_ArrayDynamic" | "t = VT_ArrayStruct" by auto
    then show ?thesis
    proof cases
      case 4
      have "panics_within {Stack_Overflow}
          (case schema of Some s \<Rightarrow> rd_return s | None \<Rightarrow> read_struct_schema d)"
        by (cases schema) (simp_all add: ret read_struct_schema_panics)
      then show ?thesis
        unfolding 4 read_static.simps Let_def VMType.case
        by (intro panics_within_bind panics_within_repeat helpers ret safe_imp_panics_within [OF read_length_safe(2)])
    qed (cases schema; simp add: Let_def panics_within_bind helpers ret)+
  qed
qed (simp add: panics_within_panic)

section \<open>The two encodings\<close>

lemma dynamic_variable_round_trip [codec_intros]:
  "num_bigint_api nb \<Longrightarrow> variable_ok_with (static_ok depth) v \<Longrightarrow>
     round_trip1 (write_dynamic_variable depth nb v) (read_dynamic_variable depth nb) v"
  unfolding write_dynamic_variable_def read_dynamic_variable_def
  by (rule static_codec.variable_round_trip [OF static_codec_static])

lemma dynamic_struct_round_trip [codec_intros]:
  "num_bigint_api nb \<Longrightarrow> struct_ok_with (static_ok depth) s \<Longrightarrow>
     round_trip1 (write_dynamic_struct depth nb s) (read_dynamic_struct depth nb) s"
  unfolding write_dynamic_struct_def read_dynamic_struct_def
  by (rule static_codec.struct_round_trip [OF static_codec_static])

interpretation dynamic_variable_codec: carbon_codec "write_dynamic_variable depth nb"
    "read_dynamic_variable depth nb" "\<lambda>v. num_bigint_api nb \<and> variable_ok_with (static_ok depth) v"
  for depth nb
  by unfold_locales (simp add: dynamic_variable_round_trip)

interpretation dynamic_struct_codec: carbon_codec "write_dynamic_struct depth nb"
    "read_dynamic_struct depth nb" "\<lambda>s. num_bigint_api nb \<and> struct_ok_with (static_ok depth) s"
  for depth nb
  by unfold_locales (simp add: dynamic_struct_round_trip)

interpretation dynamic_struct_decoder: carbon_partial_decoder "read_dynamic_struct depth nb" "{Stack_Overflow}"
  for depth nb
  unfolding read_dynamic_struct_def by unfold_locales (rule helper_readers_panics(4) [OF read_static_panics])

lemma round_trip_deserialize:
  "round_trip (f v) p u \<Longrightarrow> bind_result (serialize f v) (deserialize p) = Ok u"
  by (auto simp: round_trip_def serialize_def writes_def parses_deserialize)

section \<open>Properties\<close>

text \<open>A dynamic struct whose fields are sorted by name, with every nested value of the shape its
  type announces, survives serialization and deserialization.\<close>

theorem dynamic_struct_serialize_round_trip:
  assumes "num_bigint_api nb" and "struct_ok_with (static_ok depth) s"
  shows "bind_result (serialize (write_dynamic_struct depth nb) s)
    (deserialize (read_dynamic_struct depth nb)) = Ok s"
  using assms by (intro dynamic_struct_codec.deserialize_serialize) simp

definition sample_inner_schema :: VMStructSchema where
  "sample_inner_schema =
     VMStructSchema
       [VMNamedVariableSchema (SmallString (lit ''size'')) (VMVariableSchema VT_Int16 None),
        VMNamedVariableSchema (SmallString (lit ''label'')) (VMVariableSchema VT_String None)] 1"

definition sample_inner :: VMDynamicStruct where
  "sample_inner =
     VMDynamicStruct
       [VMNamedDynamicVariable (SmallString (lit ''extra'')) (variable_bytes [1, 2]),
        VMNamedDynamicVariable (SmallString (lit ''label'')) (variable_string (lit ''x'')),
        VMNamedDynamicVariable (SmallString (lit ''size'')) (VMDynamicVariable VT_Int16 (VV_Int (- 5)))]"

definition sample_dynamic :: VMDynamicStruct where
  "sample_dynamic =
     VMDynamicStruct
       [VMNamedDynamicVariable (SmallString (lit ''items''))
          (VMDynamicVariable VT_ArrayStruct (VV_ArrayStruct (VMStructArray sample_inner_schema [sample_inner]))),
        VMNamedDynamicVariable (SmallString (lit ''name'')) (variable_string (lit ''Sword'')),
        VMNamedDynamicVariable (SmallString (lit ''nested''))
          (VMDynamicVariable VT_Dynamic (VV_Dynamic (variable_int256 (2 ^ 100))))]"

theorem dynamic_struct_serialize_round_trip_witness:
  "bind_result (serialize (write_dynamic_struct 4 num_bigint_std) sample_dynamic)
     (deserialize (read_dynamic_struct 4 num_bigint_std)) = Ok sample_dynamic"
  by (rule dynamic_struct_serialize_round_trip [OF num_bigint_std.num_bigint_api_axioms]) code_simp

text \<open>A struct that matches a schema, extras included where the schema allows them, survives the
  schema-bound encoding, which carries neither types nor the names of the declared fields.\<close>

theorem schema_struct_round_trip:
  assumes "num_bigint_api nb" and "schema_struct_ok_with (static_ok depth) schema s"
  shows "bind_result (serialize (\<lambda>s. wr_drop (write_with_schema depth nb schema s)) s)
    (deserialize (read_with_schema depth nb schema)) = Ok s"
  unfolding write_with_schema_def read_with_schema_def
  using static_codec.with_schema_round_trip [OF static_codec_static [OF assms(1)] assms(2)]
  by (intro round_trip_deserialize round_trip_ifD)

theorem schema_struct_round_trip_witness:
  "bind_result (serialize (\<lambda>s. wr_drop (write_with_schema 2 num_bigint_std sample_inner_schema s)) sample_inner)
     (deserialize (read_with_schema 2 num_bigint_std sample_inner_schema)) = Ok sample_inner"
  by (rule schema_struct_round_trip [OF num_bigint_std.num_bigint_api_axioms]) code_simp

text \<open>The success flag of the schema-bound writer is true whenever the writer succeeds, whatever
  struct and schema it is given: a caller that tests it for a mismatch tests nothing.\<close>

theorem schema_flag_always_true:
  assumes "write_with_schema depth nb schema s w = Ok (b, w')"
  shows "b"
proof -
  have "flag_true (write_with_schema_with (write_static depth nb) schema s)"
    by (rule with_schema_flag) (simp add: static_flag)
  with assms show ?thesis unfolding flag_true_def write_with_schema_def by blast
qed

theorem schema_flag_always_true_witness:
  "case write_with_schema 2 num_bigint_std sample_inner_schema empty_dynamic_struct \<lparr>wr_buffer = []\<rparr> of
     Ok (b, w) \<Rightarrow> b | _ \<Rightarrow> False"
proof -
  have "case write_with_schema 2 num_bigint_std sample_inner_schema empty_dynamic_struct \<lparr>wr_buffer = []\<rparr> of
     Ok _ \<Rightarrow> True | _ \<Rightarrow> False" by code_simp
  then obtain b w where "write_with_schema 2 num_bigint_std sample_inner_schema empty_dynamic_struct
      \<lparr>wr_buffer = []\<rparr> = Ok (b, w)"
    by (auto split: result.splits)
  with schema_flag_always_true [OF this] show ?thesis by simp
qed

end
