(* ===== verification/CarbonArgs.thy ===== *)
theory CarbonArgs
  imports CarbonDynamic
begin

text \<open>
  The configuration records and call-argument structs of the Carbon format
  (\<open>src/src/carbon.rs\<close>), each with its \<open>write_carbon\<close> and \<open>read_carbon\<close>. Every struct is an
  instance of \<open>carbon_codec\<close>; those whose reader does not recurse into schemas are
  instances of \<open>carbon_type\<close>, so their readers also never panic. \<open>X_ok\<close> names the values of
  a struct \<open>X\<close> that the format can hold: byte strings below the \<open>i32\<close> length prefix, small
  strings of at most 255 bytes, and integers of a signed 256-bit word.
\<close>

section \<open>Governance\<close>

record RegisterNameArgs =
  rna_address :: bytes32
  rna_name :: SmallString

definition write_RegisterNameArgs :: "RegisterNameArgs \<Rightarrow> wr_action" where
  "write_RegisterNameArgs v =
     wr_seq [write32 (rna_address v), write_small_string (rna_name v)]"

definition read_RegisterNameArgs :: "RegisterNameArgs reader" where
  "read_RegisterNameArgs =
     rd_bind read32 (\<lambda>addr.
     rd_bind read_small_string (\<lambda>nm.
       rd_return \<lparr>rna_address = addr, rna_name = nm\<rparr>))"

definition RegisterNameArgs_ok :: "RegisterNameArgs \<Rightarrow> bool" where
  "RegisterNameArgs_ok v =
     (small_string_ok (rna_name v))"

lemma RegisterNameArgs_round_trip [codec_intros]:
  "RegisterNameArgs_ok v \<Longrightarrow>
     round_trip1 (write_RegisterNameArgs v) read_RegisterNameArgs v"
  unfolding write_RegisterNameArgs_def read_RegisterNameArgs_def RegisterNameArgs_ok_def
  by (rule round_trip_struct codec_intros | (simp add: small_string_ok_def list_all_iff; fail))+

lemma RegisterNameArgs_safe [safe_intros]: "safe_reader read_RegisterNameArgs"
  unfolding read_RegisterNameArgs_def by (intro safe_intros)

interpretation RegisterNameArgs_codec: carbon_type write_RegisterNameArgs read_RegisterNameArgs
    RegisterNameArgs_ok
  by unfold_locales (simp add: RegisterNameArgs_round_trip, rule RegisterNameArgs_safe)


section \<open>Chain configuration\<close>

record ChainConfig =
  cc_version :: u8
  cc_reserved1 :: u8
  cc_reserved2 :: u8
  cc_reserved3 :: u8
  cc_allowed_tx_types :: u32
  cc_expiry_window :: u32
  cc_block_rate_target :: u32

definition write_ChainConfig :: "ChainConfig \<Rightarrow> wr_action" where
  "write_ChainConfig v =
     wr_seq [write1 (cc_version v), write1 (cc_reserved1 v), write1 (cc_reserved2 v),
             write1 (cc_reserved3 v), write4u (cc_allowed_tx_types v),
             write4u (cc_expiry_window v), write4u (cc_block_rate_target v)]"

definition read_ChainConfig :: "ChainConfig reader" where
  "read_ChainConfig =
     rd_bind read1 (\<lambda>version.
     rd_bind read1 (\<lambda>reserved1.
     rd_bind read1 (\<lambda>reserved2.
     rd_bind read1 (\<lambda>reserved3.
     rd_bind read4u (\<lambda>allowed_tx_types.
     rd_bind read4u (\<lambda>expiry_window.
     rd_bind read4u (\<lambda>block_rate_target.
       rd_return \<lparr>cc_version = version, cc_reserved1 = reserved1, cc_reserved2 = reserved2,
                   cc_reserved3 = reserved3, cc_allowed_tx_types = allowed_tx_types,
                   cc_expiry_window = expiry_window, cc_block_rate_target = block_rate_target\<rparr>)))))))"

lemma ChainConfig_round_trip [codec_intros]:
  "round_trip1 (write_ChainConfig v) read_ChainConfig v"
  unfolding write_ChainConfig_def read_ChainConfig_def
  by (rule round_trip_struct codec_intros | (simp add: small_string_ok_def list_all_iff; fail))+

lemma ChainConfig_safe [safe_intros]: "safe_reader read_ChainConfig"
  unfolding read_ChainConfig_def by (intro safe_intros)

interpretation ChainConfig_codec: carbon_type write_ChainConfig read_ChainConfig
    "\<lambda>_. True"
  by unfold_locales (simp add: ChainConfig_round_trip, rule ChainConfig_safe)


record GasConfig =
  gc_version :: u8
  gc_max_name_length :: u8
  gc_max_token_symbol_length :: u8
  gc_fee_shift :: u8
  gc_max_structure_size :: u32
  gc_fee_multiplier :: u64
  gc_gas_token_id :: u64
  gc_data_token_id :: u64
  gc_minimum_gas_offer :: u64
  gc_data_escrow_per_row :: u64
  gc_gas_fee_transfer :: u64
  gc_gas_fee_query :: u64
  gc_gas_fee_create_token_base :: u64
  gc_gas_fee_create_token_symbol :: u64
  gc_gas_fee_create_token_series :: u64
  gc_gas_fee_per_byte :: u64
  gc_gas_fee_register_name :: u64
  gc_gas_burn_ratio_mul :: u64
  gc_gas_burn_ratio_shift :: u8
  gc_minimum_gas_bill :: u64
  gc_gas_producer_ratio_mul :: u64
  gc_gas_producer_ratio_shift :: u8
  gc_gas_dapp_ratio_mul :: u64
  gc_gas_dapp_ratio_shift :: u8
  gc_policy_fee_create_token_base :: u64
  gc_policy_fee_create_token_symbol :: u64
  gc_policy_fee_create_token_series :: u64
  gc_policy_fee_register_name :: u64
  gc_legacy_data_escrow_per_row :: u64

definition has_gas_model_v2 :: "GasConfig \<Rightarrow> bool" where
  "has_gas_model_v2 c = (1 \<le> gc_version c)"

text \<open>The fields of the version-0 image, and the tail that later versions append.\<close>

definition write_GasConfig :: "GasConfig \<Rightarrow> wr_action" where
  "write_GasConfig v =
     wr_seq
       ([write1 (gc_version v), write1 (gc_max_name_length v),
         write1 (gc_max_token_symbol_length v), write1 (gc_fee_shift v),
         write4u (gc_max_structure_size v), write8u (gc_fee_multiplier v),
         write8u (gc_gas_token_id v), write8u (gc_data_token_id v),
         write8u (gc_minimum_gas_offer v), write8u (gc_data_escrow_per_row v),
         write8u (gc_gas_fee_transfer v), write8u (gc_gas_fee_query v),
         write8u (gc_gas_fee_create_token_base v),
         write8u (gc_gas_fee_create_token_symbol v),
         write8u (gc_gas_fee_create_token_series v), write8u (gc_gas_fee_per_byte v),
         write8u (gc_gas_fee_register_name v), write8u (gc_gas_burn_ratio_mul v),
         write1 (gc_gas_burn_ratio_shift v)] @
        (if gc_version v = 0 then []
         else
         [write8u (gc_minimum_gas_bill v), write8u (gc_gas_producer_ratio_mul v),
         write1 (gc_gas_producer_ratio_shift v), write8u (gc_gas_dapp_ratio_mul v),
         write1 (gc_gas_dapp_ratio_shift v),
         write8u (gc_policy_fee_create_token_base v),
         write8u (gc_policy_fee_create_token_symbol v),
         write8u (gc_policy_fee_create_token_series v),
         write8u (gc_policy_fee_register_name v),
         write8u (gc_legacy_data_escrow_per_row v)]))"

definition read_GasConfig :: "GasConfig reader" where
  "read_GasConfig =
     rd_bind read1 (\<lambda>version.
     rd_bind read1 (\<lambda>max_name_length.
     rd_bind read1 (\<lambda>max_token_symbol_length.
     rd_bind read1 (\<lambda>fee_shift.
     rd_bind read4u (\<lambda>max_structure_size.
     rd_bind read8u (\<lambda>fee_multiplier.
     rd_bind read8u (\<lambda>gas_token_id.
     rd_bind read8u (\<lambda>data_token_id.
     rd_bind read8u (\<lambda>minimum_gas_offer.
     rd_bind read8u (\<lambda>data_escrow_per_row.
     rd_bind read8u (\<lambda>gas_fee_transfer.
     rd_bind read8u (\<lambda>gas_fee_query.
     rd_bind read8u (\<lambda>gas_fee_create_token_base.
     rd_bind read8u (\<lambda>gas_fee_create_token_symbol.
     rd_bind read8u (\<lambda>gas_fee_create_token_series.
     rd_bind read8u (\<lambda>gas_fee_per_byte.
     rd_bind read8u (\<lambda>gas_fee_register_name.
     rd_bind read8u (\<lambda>gas_burn_ratio_mul.
     rd_bind read1 (\<lambda>gas_burn_ratio_shift.
     if version = 0 then
       rd_return
       \<lparr>gc_version = version, gc_max_name_length = max_name_length,
        gc_max_token_symbol_length = max_token_symbol_length, gc_fee_shift = fee_shift,
        gc_max_structure_size = max_structure_size, gc_fee_multiplier = fee_multiplier,
        gc_gas_token_id = gas_token_id, gc_data_token_id = data_token_id,
        gc_minimum_gas_offer = minimum_gas_offer,
        gc_data_escrow_per_row = data_escrow_per_row,
        gc_gas_fee_transfer = gas_fee_transfer, gc_gas_fee_query = gas_fee_query,
        gc_gas_fee_create_token_base = gas_fee_create_token_base,
        gc_gas_fee_create_token_symbol = gas_fee_create_token_symbol,
        gc_gas_fee_create_token_series = gas_fee_create_token_series,
        gc_gas_fee_per_byte = gas_fee_per_byte,
        gc_gas_fee_register_name = gas_fee_register_name,
        gc_gas_burn_ratio_mul = gas_burn_ratio_mul,
        gc_gas_burn_ratio_shift = gas_burn_ratio_shift,
        gc_minimum_gas_bill = 0, gc_gas_producer_ratio_mul = 0,
        gc_gas_producer_ratio_shift = 0, gc_gas_dapp_ratio_mul = 0,
        gc_gas_dapp_ratio_shift = 0, gc_policy_fee_create_token_base = 0,
        gc_policy_fee_create_token_symbol = 0, gc_policy_fee_create_token_series = 0,
        gc_policy_fee_register_name = 0, gc_legacy_data_escrow_per_row = 0\<rparr>
     else
     rd_bind read8u (\<lambda>minimum_gas_bill.
     rd_bind read8u (\<lambda>gas_producer_ratio_mul.
     rd_bind read1 (\<lambda>gas_producer_ratio_shift.
     rd_bind read8u (\<lambda>gas_dapp_ratio_mul.
     rd_bind read1 (\<lambda>gas_dapp_ratio_shift.
     rd_bind read8u (\<lambda>policy_fee_create_token_base.
     rd_bind read8u (\<lambda>policy_fee_create_token_symbol.
     rd_bind read8u (\<lambda>policy_fee_create_token_series.
     rd_bind read8u (\<lambda>policy_fee_register_name.
     rd_bind read8u (\<lambda>legacy_data_escrow_per_row.
       rd_return
       \<lparr>gc_version = version, gc_max_name_length = max_name_length,
        gc_max_token_symbol_length = max_token_symbol_length, gc_fee_shift = fee_shift,
        gc_max_structure_size = max_structure_size, gc_fee_multiplier = fee_multiplier,
        gc_gas_token_id = gas_token_id, gc_data_token_id = data_token_id,
        gc_minimum_gas_offer = minimum_gas_offer,
        gc_data_escrow_per_row = data_escrow_per_row,
        gc_gas_fee_transfer = gas_fee_transfer, gc_gas_fee_query = gas_fee_query,
        gc_gas_fee_create_token_base = gas_fee_create_token_base,
        gc_gas_fee_create_token_symbol = gas_fee_create_token_symbol,
        gc_gas_fee_create_token_series = gas_fee_create_token_series,
        gc_gas_fee_per_byte = gas_fee_per_byte,
        gc_gas_fee_register_name = gas_fee_register_name,
        gc_gas_burn_ratio_mul = gas_burn_ratio_mul,
        gc_gas_burn_ratio_shift = gas_burn_ratio_shift,
        gc_minimum_gas_bill = minimum_gas_bill,
        gc_gas_producer_ratio_mul = gas_producer_ratio_mul,
        gc_gas_producer_ratio_shift = gas_producer_ratio_shift,
        gc_gas_dapp_ratio_mul = gas_dapp_ratio_mul,
        gc_gas_dapp_ratio_shift = gas_dapp_ratio_shift,
        gc_policy_fee_create_token_base = policy_fee_create_token_base,
        gc_policy_fee_create_token_symbol = policy_fee_create_token_symbol,
        gc_policy_fee_create_token_series = policy_fee_create_token_series,
        gc_policy_fee_register_name = policy_fee_register_name,
        gc_legacy_data_escrow_per_row = legacy_data_escrow_per_row\<rparr>)))))))))))))))))))))))))))))"

text \<open>A version-0 configuration has no tail on the wire, so only a zero tail reads back.\<close>

definition GasConfig_ok :: "GasConfig \<Rightarrow> bool" where
  "GasConfig_ok v =
     (gc_version v = 0 \<longrightarrow>
        gc_minimum_gas_bill v = 0
        \<and> gc_gas_producer_ratio_mul v = 0
        \<and> gc_gas_producer_ratio_shift v = 0
        \<and> gc_gas_dapp_ratio_mul v = 0
        \<and> gc_gas_dapp_ratio_shift v = 0
        \<and> gc_policy_fee_create_token_base v = 0
        \<and> gc_policy_fee_create_token_symbol v = 0
        \<and> gc_policy_fee_create_token_series v = 0
        \<and> gc_policy_fee_register_name v = 0
        \<and> gc_legacy_data_escrow_per_row v = 0)"

lemma GasConfig_round_trip [codec_intros]:
  assumes "GasConfig_ok v"
  shows "round_trip1 (write_GasConfig v) read_GasConfig v"
proof (cases "gc_version v = 0")
  case True
  then show ?thesis
    using assms unfolding write_GasConfig_def read_GasConfig_def GasConfig_ok_def if_P [OF True] append_Nil2
    by - (rule round_trip_struct codec_intros | subst if_P [OF True] | (simp; fail))+
next
  case False
  show ?thesis
    unfolding write_GasConfig_def read_GasConfig_def if_not_P [OF False] append.simps
    by (rule round_trip_struct codec_intros | subst if_not_P [OF False] | (simp; fail))+
qed

lemma GasConfig_safe [safe_intros]: "safe_reader read_GasConfig"
  unfolding read_GasConfig_def by (intro safe_intros)

interpretation GasConfig_codec: carbon_type write_GasConfig read_GasConfig GasConfig_ok
  by unfold_locales (simp add: GasConfig_round_trip, rule GasConfig_safe)

record TokensConfig =
  tsc_flags :: u8

definition write_TokensConfig :: "TokensConfig \<Rightarrow> wr_action" where
  "write_TokensConfig v =
     wr_seq [write1 (tsc_flags v)]"

definition read_TokensConfig :: "TokensConfig reader" where
  "read_TokensConfig =
     rd_bind read1 (\<lambda>flags.
       rd_return \<lparr>tsc_flags = flags\<rparr>)"

lemma TokensConfig_round_trip [codec_intros]:
  "round_trip1 (write_TokensConfig v) read_TokensConfig v"
  unfolding write_TokensConfig_def read_TokensConfig_def
  by (rule round_trip_struct codec_intros | (simp add: small_string_ok_def list_all_iff; fail))+

lemma TokensConfig_safe [safe_intros]: "safe_reader read_TokensConfig"
  unfolding read_TokensConfig_def by (intro safe_intros)

interpretation TokensConfig_codec: carbon_type write_TokensConfig read_TokensConfig
    "\<lambda>_. True"
  by unfold_locales (simp add: TokensConfig_round_trip, rule TokensConfig_safe)


section \<open>Tokens and series\<close>

text \<open>\<open>TokenFlags::NON_FUNGIBLE\<close>; a bit set reads and writes its bits unchanged.\<close>

definition NON_FUNGIBLE :: u8 where "NON_FUNGIBLE = 2"

definition BIG_FUNGIBLE :: u8 where "BIG_FUNGIBLE = 1"

definition flags_contain :: "u8 \<Rightarrow> u8 \<Rightarrow> bool" where
  "flags_contain bits flag = (bits AND flag = flag)"

record TokenInfo =
  ti_max_supply :: IntX
  ti_flags :: u8
  ti_decimals :: u8
  ti_owner :: bytes32
  ti_symbol :: SmallString
  ti_metadata :: bytes
  ti_token_schemas :: bytes

definition write_TokenInfo :: "num_bigint \<Rightarrow> TokenInfo \<Rightarrow> wr_action" where
  "write_TokenInfo nb v =
     wr_seq
       ([write_intx nb (ti_max_supply v), write1 (ti_flags v), write1 (ti_decimals v),
         write32 (ti_owner v), write_small_string (ti_symbol v), write_byte_array (ti_metadata v)] @
        (if flags_contain (ti_flags v) NON_FUNGIBLE
         then [write_byte_array (ti_token_schemas v)] else []))"

definition read_TokenInfo :: "num_bigint \<Rightarrow> TokenInfo reader" where
  "read_TokenInfo nb =
     rd_bind (read_intx nb) (\<lambda>supply.
     rd_bind read1 (\<lambda>flags.
     rd_bind read1 (\<lambda>decimals.
     rd_bind read32 (\<lambda>owner.
     rd_bind read_small_string (\<lambda>symbol.
     rd_bind read_byte_array (\<lambda>metadata.
     if flags_contain flags NON_FUNGIBLE then
       rd_bind read_byte_array (\<lambda>schemas.
         rd_return \<lparr>ti_max_supply = supply, ti_flags = flags, ti_decimals = decimals,
                    ti_owner = owner, ti_symbol = symbol, ti_metadata = metadata,
                    ti_token_schemas = schemas\<rparr>)
     else
       rd_return \<lparr>ti_max_supply = supply, ti_flags = flags, ti_decimals = decimals,
                  ti_owner = owner, ti_symbol = symbol, ti_metadata = metadata,
                  ti_token_schemas = []\<rparr>))))))"

definition TokenInfo_ok :: "TokenInfo \<Rightarrow> bool" where
  "TokenInfo_ok v =
     (intx_ok (ti_max_supply v) \<and> small_string_ok (ti_symbol v)
      \<and> fits_length (length (ti_metadata v)) \<and> fits_length (length (ti_token_schemas v))
      \<and> (\<not> flags_contain (ti_flags v) NON_FUNGIBLE \<longrightarrow> ti_token_schemas v = []))"

lemma TokenInfo_round_trip [codec_intros]:
  assumes "num_bigint_api nb" and "TokenInfo_ok v"
  shows "round_trip1 (write_TokenInfo nb v) (read_TokenInfo nb) v"
proof (cases "flags_contain (ti_flags v) NON_FUNGIBLE")
  case True
  then show ?thesis
    using assms unfolding write_TokenInfo_def read_TokenInfo_def TokenInfo_ok_def if_P [OF True] append.simps
    by - (rule round_trip_struct codec_intros | subst if_P [OF True]
        | (simp add: small_string_ok_def; fail))+
next
  case False
  then show ?thesis
    using assms unfolding write_TokenInfo_def read_TokenInfo_def TokenInfo_ok_def if_not_P [OF False]
      append_Nil2
    by - (rule round_trip_struct codec_intros | subst if_not_P [OF False]
        | (simp add: small_string_ok_def; fail))+
qed

lemma TokenInfo_safe [safe_intros]: "safe_reader (read_TokenInfo nb)"
  unfolding read_TokenInfo_def by (intro safe_intros)

interpretation TokenInfo_codec: carbon_type "write_TokenInfo nb" "read_TokenInfo nb"
    "\<lambda>v. num_bigint_api nb \<and> TokenInfo_ok v" for nb
  by unfold_locales (simp add: TokenInfo_round_trip, rule TokenInfo_safe)

record TokenSchemas =
  tss_series_metadata :: VMStructSchema
  tss_rom :: VMStructSchema
  tss_ram :: VMStructSchema

definition write_TokenSchemas :: "TokenSchemas \<Rightarrow> wr_action" where
  "write_TokenSchemas v =
     wr_seq [write_struct_schema (tss_series_metadata v), write_struct_schema (tss_rom v),
             write_struct_schema (tss_ram v)]"

definition read_TokenSchemas :: "nat \<Rightarrow> TokenSchemas reader" where
  "read_TokenSchemas depth =
     rd_bind (read_struct_schema depth) (\<lambda>series_metadata.
     rd_bind (read_struct_schema depth) (\<lambda>rom.
     rd_bind (read_struct_schema depth) (\<lambda>ram.
       rd_return \<lparr>tss_series_metadata = series_metadata, tss_rom = rom, tss_ram = ram\<rparr>)))"

definition TokenSchemas_ok :: "nat \<Rightarrow> TokenSchemas \<Rightarrow> bool" where
  "TokenSchemas_ok depth v =
     (struct_schema_fits depth (tss_series_metadata v)
      \<and> struct_schema_fits depth (tss_rom v)
      \<and> struct_schema_fits depth (tss_ram v))"

lemma TokenSchemas_round_trip [codec_intros]:
  "TokenSchemas_ok depth v \<Longrightarrow>
     round_trip1 (write_TokenSchemas v) (read_TokenSchemas depth) v"
  unfolding write_TokenSchemas_def read_TokenSchemas_def TokenSchemas_ok_def
  by (rule round_trip_struct codec_intros | (simp add: small_string_ok_def list_all_iff; fail))+

interpretation TokenSchemas_codec: carbon_codec write_TokenSchemas "read_TokenSchemas depth"
    "\<lambda>v. TokenSchemas_ok depth v" for depth
  by unfold_locales (simp add: TokenSchemas_round_trip)


record SeriesInfo =
  si_max_mint :: u32
  si_max_supply :: u32
  si_owner :: bytes32
  si_metadata :: bytes
  si_rom :: VMStructSchema
  si_ram :: VMStructSchema

definition write_SeriesInfo :: "SeriesInfo \<Rightarrow> wr_action" where
  "write_SeriesInfo v =
     wr_seq [write4u (si_max_mint v), write4u (si_max_supply v), write32 (si_owner v),
             write_byte_array (si_metadata v), write_struct_schema (si_rom v),
             write_struct_schema (si_ram v)]"

definition read_SeriesInfo :: "nat \<Rightarrow> SeriesInfo reader" where
  "read_SeriesInfo depth =
     rd_bind read4u (\<lambda>max_mint.
     rd_bind read4u (\<lambda>supply.
     rd_bind read32 (\<lambda>owner.
     rd_bind read_byte_array (\<lambda>metadata.
     rd_bind (read_struct_schema depth) (\<lambda>rom.
     rd_bind (read_struct_schema depth) (\<lambda>ram.
       rd_return \<lparr>si_max_mint = max_mint, si_max_supply = supply, si_owner = owner,
                   si_metadata = metadata, si_rom = rom, si_ram = ram\<rparr>))))))"

definition SeriesInfo_ok :: "nat \<Rightarrow> SeriesInfo \<Rightarrow> bool" where
  "SeriesInfo_ok depth v =
     (fits_length (length (si_metadata v))
      \<and> struct_schema_fits depth (si_rom v)
      \<and> struct_schema_fits depth (si_ram v))"

lemma SeriesInfo_round_trip [codec_intros]:
  "SeriesInfo_ok depth v \<Longrightarrow>
     round_trip1 (write_SeriesInfo v) (read_SeriesInfo depth) v"
  unfolding write_SeriesInfo_def read_SeriesInfo_def SeriesInfo_ok_def
  by (rule round_trip_struct codec_intros | (simp add: small_string_ok_def list_all_iff; fail))+

interpretation SeriesInfo_codec: carbon_codec write_SeriesInfo "read_SeriesInfo depth"
    "\<lambda>v. SeriesInfo_ok depth v" for depth
  by unfold_locales (simp add: SeriesInfo_round_trip)


section \<open>Arguments of the token module\<close>

record NFTMintInfo =
  nmi_series_id :: u32
  nmi_rom :: bytes
  nmi_ram :: bytes

definition write_NFTMintInfo :: "NFTMintInfo \<Rightarrow> wr_action" where
  "write_NFTMintInfo v =
     wr_seq [write4u (nmi_series_id v), write_byte_array (nmi_rom v),
             write_byte_array (nmi_ram v)]"

definition read_NFTMintInfo :: "NFTMintInfo reader" where
  "read_NFTMintInfo =
     rd_bind read4u (\<lambda>series_id.
     rd_bind read_byte_array (\<lambda>rom.
     rd_bind read_byte_array (\<lambda>ram.
       rd_return \<lparr>nmi_series_id = series_id, nmi_rom = rom, nmi_ram = ram\<rparr>)))"

definition NFTMintInfo_ok :: "NFTMintInfo \<Rightarrow> bool" where
  "NFTMintInfo_ok v =
     (fits_length (length (nmi_rom v))
      \<and> fits_length (length (nmi_ram v)))"

lemma NFTMintInfo_round_trip [codec_intros]:
  "NFTMintInfo_ok v \<Longrightarrow>
     round_trip1 (write_NFTMintInfo v) read_NFTMintInfo v"
  unfolding write_NFTMintInfo_def read_NFTMintInfo_def NFTMintInfo_ok_def
  by (rule round_trip_struct codec_intros | (simp add: small_string_ok_def list_all_iff; fail))+

lemma NFTMintInfo_safe [safe_intros]: "safe_reader read_NFTMintInfo"
  unfolding read_NFTMintInfo_def by (intro safe_intros)

interpretation NFTMintInfo_codec: carbon_type write_NFTMintInfo read_NFTMintInfo
    NFTMintInfo_ok
  by unfold_locales (simp add: NFTMintInfo_round_trip, rule NFTMintInfo_safe)


record MintNonFungibleArgs =
  mnf_token_id :: u64
  mnf_address :: bytes32
  mnf_tokens :: "NFTMintInfo list"

definition write_MintNonFungibleArgs :: "MintNonFungibleArgs \<Rightarrow> wr_action" where
  "write_MintNonFungibleArgs v =
     wr_seq [write8u (mnf_token_id v), write32 (mnf_address v),
             write_carbon_array write_NFTMintInfo (mnf_tokens v)]"

definition read_MintNonFungibleArgs :: "MintNonFungibleArgs reader" where
  "read_MintNonFungibleArgs =
     rd_bind read8u (\<lambda>token_id.
     rd_bind read32 (\<lambda>addr.
     rd_bind (read_carbon_array read_NFTMintInfo) (\<lambda>tokens.
       rd_return \<lparr>mnf_token_id = token_id, mnf_address = addr, mnf_tokens = tokens\<rparr>)))"

definition MintNonFungibleArgs_ok :: "MintNonFungibleArgs \<Rightarrow> bool" where
  "MintNonFungibleArgs_ok v =
     (fits_length (length (mnf_tokens v)) \<and> list_all NFTMintInfo_ok (mnf_tokens v))"

lemma MintNonFungibleArgs_round_trip [codec_intros]:
  "MintNonFungibleArgs_ok v \<Longrightarrow>
     round_trip1 (write_MintNonFungibleArgs v) read_MintNonFungibleArgs v"
  unfolding write_MintNonFungibleArgs_def read_MintNonFungibleArgs_def MintNonFungibleArgs_ok_def
  by (rule round_trip_struct codec_intros
      NFTMintInfo_codec.carbon_array_round_trip
     | (simp add: small_string_ok_def list_all_iff; fail))+

lemma MintNonFungibleArgs_safe [safe_intros]: "safe_reader read_MintNonFungibleArgs"
  unfolding read_MintNonFungibleArgs_def by (intro safe_intros)

interpretation MintNonFungibleArgs_codec: carbon_type write_MintNonFungibleArgs read_MintNonFungibleArgs
    MintNonFungibleArgs_ok
  by unfold_locales (simp add: MintNonFungibleArgs_round_trip, rule MintNonFungibleArgs_safe)


record CreateTokenSeriesArgs =
  cts_token_id :: u64
  cts_info :: SeriesInfo

definition write_CreateTokenSeriesArgs :: "CreateTokenSeriesArgs \<Rightarrow> wr_action" where
  "write_CreateTokenSeriesArgs v =
     wr_seq [write8u (cts_token_id v), write_SeriesInfo (cts_info v)]"

definition read_CreateTokenSeriesArgs :: "nat \<Rightarrow> CreateTokenSeriesArgs reader" where
  "read_CreateTokenSeriesArgs depth =
     rd_bind read8u (\<lambda>token_id.
     rd_bind (read_SeriesInfo depth) (\<lambda>info.
       rd_return \<lparr>cts_token_id = token_id, cts_info = info\<rparr>))"

definition CreateTokenSeriesArgs_ok :: "nat \<Rightarrow> CreateTokenSeriesArgs \<Rightarrow> bool" where
  "CreateTokenSeriesArgs_ok depth v =
     (SeriesInfo_ok depth (cts_info v))"

lemma CreateTokenSeriesArgs_round_trip [codec_intros]:
  "CreateTokenSeriesArgs_ok depth v \<Longrightarrow>
     round_trip1 (write_CreateTokenSeriesArgs v) (read_CreateTokenSeriesArgs depth) v"
  unfolding write_CreateTokenSeriesArgs_def read_CreateTokenSeriesArgs_def CreateTokenSeriesArgs_ok_def
  by (rule round_trip_struct codec_intros | (simp add: small_string_ok_def list_all_iff; fail))+

interpretation CreateTokenSeriesArgs_codec: carbon_codec write_CreateTokenSeriesArgs "read_CreateTokenSeriesArgs depth"
    "\<lambda>v. CreateTokenSeriesArgs_ok depth v" for depth
  by unfold_locales (simp add: CreateTokenSeriesArgs_round_trip)


record CreateMintedTokenSeriesArgs =
  cms_token_id :: u64
  cms_info :: SeriesInfo
  cms_address :: bytes32
  cms_roms :: "bytes list"
  cms_rams :: "bytes list"

definition write_CreateMintedTokenSeriesArgs :: "CreateMintedTokenSeriesArgs \<Rightarrow> wr_action" where
  "write_CreateMintedTokenSeriesArgs v =
     wr_seq [write8u (cms_token_id v), write_SeriesInfo (cms_info v), write32 (cms_address v),
             write_byte_arrays (cms_roms v), write_byte_arrays (cms_rams v)]"

definition read_CreateMintedTokenSeriesArgs :: "nat \<Rightarrow> CreateMintedTokenSeriesArgs reader" where
  "read_CreateMintedTokenSeriesArgs depth =
     rd_bind read8u (\<lambda>token_id.
     rd_bind (read_SeriesInfo depth) (\<lambda>info.
     rd_bind read32 (\<lambda>addr.
     rd_bind read_byte_arrays (\<lambda>roms.
     rd_bind read_byte_arrays (\<lambda>rams.
       rd_return \<lparr>cms_token_id = token_id, cms_info = info, cms_address = addr,
                   cms_roms = roms, cms_rams = rams\<rparr>)))))"

definition CreateMintedTokenSeriesArgs_ok :: "nat \<Rightarrow> CreateMintedTokenSeriesArgs \<Rightarrow> bool" where
  "CreateMintedTokenSeriesArgs_ok depth v =
     (SeriesInfo_ok depth (cms_info v)
      \<and> fits_length (length (cms_roms v)) \<and> list_all (\<lambda>b. fits_length (length b)) (cms_roms v)
      \<and> fits_length (length (cms_rams v)) \<and> list_all (\<lambda>b. fits_length (length b)) (cms_rams v))"

lemma CreateMintedTokenSeriesArgs_round_trip [codec_intros]:
  "CreateMintedTokenSeriesArgs_ok depth v \<Longrightarrow>
     round_trip1 (write_CreateMintedTokenSeriesArgs v) (read_CreateMintedTokenSeriesArgs depth) v"
  unfolding write_CreateMintedTokenSeriesArgs_def read_CreateMintedTokenSeriesArgs_def CreateMintedTokenSeriesArgs_ok_def
  by (rule round_trip_struct codec_intros | (simp add: small_string_ok_def list_all_iff; fail))+

interpretation CreateMintedTokenSeriesArgs_codec: carbon_codec write_CreateMintedTokenSeriesArgs "read_CreateMintedTokenSeriesArgs depth"
    "\<lambda>v. CreateMintedTokenSeriesArgs_ok depth v" for depth
  by unfold_locales (simp add: CreateMintedTokenSeriesArgs_round_trip)


record PhantasmaNFTMintInfo =
  pmi_phantasma_series_id :: IntX
  pmi_rom :: bytes
  pmi_ram :: bytes

definition write_PhantasmaNFTMintInfo :: "num_bigint \<Rightarrow> PhantasmaNFTMintInfo \<Rightarrow> wr_action" where
  "write_PhantasmaNFTMintInfo nb v =
     wr_seq [write_intx nb (pmi_phantasma_series_id v), write_byte_array (pmi_rom v),
             write_byte_array (pmi_ram v)]"

definition read_PhantasmaNFTMintInfo :: "num_bigint \<Rightarrow> PhantasmaNFTMintInfo reader" where
  "read_PhantasmaNFTMintInfo nb =
     rd_bind (read_intx nb) (\<lambda>phantasma_series_id.
     rd_bind read_byte_array (\<lambda>rom.
     rd_bind read_byte_array (\<lambda>ram.
       rd_return \<lparr>pmi_phantasma_series_id = phantasma_series_id, pmi_rom = rom, pmi_ram = ram\<rparr>)))"

definition PhantasmaNFTMintInfo_ok :: "PhantasmaNFTMintInfo \<Rightarrow> bool" where
  "PhantasmaNFTMintInfo_ok v =
     (intx_ok (pmi_phantasma_series_id v)
      \<and> fits_length (length (pmi_rom v))
      \<and> fits_length (length (pmi_ram v)))"

lemma PhantasmaNFTMintInfo_round_trip [codec_intros]:
  "num_bigint_api nb \<Longrightarrow> PhantasmaNFTMintInfo_ok v \<Longrightarrow>
     round_trip1 (write_PhantasmaNFTMintInfo nb v) (read_PhantasmaNFTMintInfo nb) v"
  unfolding write_PhantasmaNFTMintInfo_def read_PhantasmaNFTMintInfo_def PhantasmaNFTMintInfo_ok_def
  by (rule round_trip_struct codec_intros | (simp add: small_string_ok_def list_all_iff; fail))+

lemma PhantasmaNFTMintInfo_safe [safe_intros]: "safe_reader (read_PhantasmaNFTMintInfo nb)"
  unfolding read_PhantasmaNFTMintInfo_def by (intro safe_intros)

interpretation PhantasmaNFTMintInfo_codec: carbon_type "write_PhantasmaNFTMintInfo nb" "read_PhantasmaNFTMintInfo nb"
    "\<lambda>v. num_bigint_api nb \<and> PhantasmaNFTMintInfo_ok v" for nb
  by unfold_locales (simp add: PhantasmaNFTMintInfo_round_trip, rule PhantasmaNFTMintInfo_safe)


record MintPhantasmaNonFungibleArgs =
  mpn_token_id :: u64
  mpn_address :: bytes32
  mpn_tokens :: "PhantasmaNFTMintInfo list"

definition write_MintPhantasmaNonFungibleArgs :: "num_bigint \<Rightarrow> MintPhantasmaNonFungibleArgs \<Rightarrow> wr_action" where
  "write_MintPhantasmaNonFungibleArgs nb v =
     wr_seq [write8u (mpn_token_id v), write32 (mpn_address v),
             write_carbon_array (write_PhantasmaNFTMintInfo nb) (mpn_tokens v)]"

definition read_MintPhantasmaNonFungibleArgs :: "num_bigint \<Rightarrow> MintPhantasmaNonFungibleArgs reader" where
  "read_MintPhantasmaNonFungibleArgs nb =
     rd_bind read8u (\<lambda>token_id.
     rd_bind read32 (\<lambda>addr.
     rd_bind (read_carbon_array (read_PhantasmaNFTMintInfo nb)) (\<lambda>tokens.
       rd_return \<lparr>mpn_token_id = token_id, mpn_address = addr, mpn_tokens = tokens\<rparr>)))"

definition MintPhantasmaNonFungibleArgs_ok :: "MintPhantasmaNonFungibleArgs \<Rightarrow> bool" where
  "MintPhantasmaNonFungibleArgs_ok v =
     (fits_length (length (mpn_tokens v)) \<and> list_all PhantasmaNFTMintInfo_ok (mpn_tokens v))"

lemma MintPhantasmaNonFungibleArgs_round_trip [codec_intros]:
  "num_bigint_api nb \<Longrightarrow> MintPhantasmaNonFungibleArgs_ok v \<Longrightarrow>
     round_trip1 (write_MintPhantasmaNonFungibleArgs nb v) (read_MintPhantasmaNonFungibleArgs nb) v"
  unfolding write_MintPhantasmaNonFungibleArgs_def read_MintPhantasmaNonFungibleArgs_def MintPhantasmaNonFungibleArgs_ok_def
  by (rule round_trip_struct codec_intros
      PhantasmaNFTMintInfo_codec.carbon_array_round_trip
     | (simp add: small_string_ok_def list_all_iff; fail))+

lemma MintPhantasmaNonFungibleArgs_safe [safe_intros]: "safe_reader (read_MintPhantasmaNonFungibleArgs nb)"
  unfolding read_MintPhantasmaNonFungibleArgs_def by (intro safe_intros)

interpretation MintPhantasmaNonFungibleArgs_codec: carbon_type "write_MintPhantasmaNonFungibleArgs nb" "read_MintPhantasmaNonFungibleArgs nb"
    "\<lambda>v. num_bigint_api nb \<and> MintPhantasmaNonFungibleArgs_ok v" for nb
  by unfold_locales (simp add: MintPhantasmaNonFungibleArgs_round_trip, rule MintPhantasmaNonFungibleArgs_safe)


record PhantasmaNFTMintResult =
  pmr_phantasma_nft_id :: bytes32
  pmr_carbon_instance_id :: u64

definition write_PhantasmaNFTMintResult :: "PhantasmaNFTMintResult \<Rightarrow> wr_action" where
  "write_PhantasmaNFTMintResult v =
     wr_seq [write32 (pmr_phantasma_nft_id v), write8u (pmr_carbon_instance_id v)]"

definition read_PhantasmaNFTMintResult :: "PhantasmaNFTMintResult reader" where
  "read_PhantasmaNFTMintResult =
     rd_bind read32 (\<lambda>phantasma_nft_id.
     rd_bind read8u (\<lambda>carbon_instance_id.
       rd_return \<lparr>pmr_phantasma_nft_id = phantasma_nft_id,
                   pmr_carbon_instance_id = carbon_instance_id\<rparr>))"

lemma PhantasmaNFTMintResult_round_trip [codec_intros]:
  "round_trip1 (write_PhantasmaNFTMintResult v) read_PhantasmaNFTMintResult v"
  unfolding write_PhantasmaNFTMintResult_def read_PhantasmaNFTMintResult_def
  by (rule round_trip_struct codec_intros | (simp add: small_string_ok_def list_all_iff; fail))+

lemma PhantasmaNFTMintResult_safe [safe_intros]: "safe_reader read_PhantasmaNFTMintResult"
  unfolding read_PhantasmaNFTMintResult_def by (intro safe_intros)

interpretation PhantasmaNFTMintResult_codec: carbon_type write_PhantasmaNFTMintResult read_PhantasmaNFTMintResult
    "\<lambda>_. True"
  by unfold_locales (simp add: PhantasmaNFTMintResult_round_trip, rule PhantasmaNFTMintResult_safe)


record MintFungibleArgs =
  mfa_token_id :: u64
  mfa_to :: bytes32
  mfa_amount :: IntX

definition write_MintFungibleArgs :: "num_bigint \<Rightarrow> MintFungibleArgs \<Rightarrow> wr_action" where
  "write_MintFungibleArgs nb v =
     wr_seq [write8u (mfa_token_id v), write32 (mfa_to v), write_intx nb (mfa_amount v)]"

definition read_MintFungibleArgs :: "num_bigint \<Rightarrow> MintFungibleArgs reader" where
  "read_MintFungibleArgs nb =
     rd_bind read8u (\<lambda>token_id.
     rd_bind read32 (\<lambda>dest.
     rd_bind (read_intx nb) (\<lambda>amount.
       rd_return \<lparr>mfa_token_id = token_id, mfa_to = dest, mfa_amount = amount\<rparr>)))"

definition MintFungibleArgs_ok :: "MintFungibleArgs \<Rightarrow> bool" where
  "MintFungibleArgs_ok v =
     (intx_ok (mfa_amount v))"

lemma MintFungibleArgs_round_trip [codec_intros]:
  "num_bigint_api nb \<Longrightarrow> MintFungibleArgs_ok v \<Longrightarrow>
     round_trip1 (write_MintFungibleArgs nb v) (read_MintFungibleArgs nb) v"
  unfolding write_MintFungibleArgs_def read_MintFungibleArgs_def MintFungibleArgs_ok_def
  by (rule round_trip_struct codec_intros | (simp add: small_string_ok_def list_all_iff; fail))+

lemma MintFungibleArgs_safe [safe_intros]: "safe_reader (read_MintFungibleArgs nb)"
  unfolding read_MintFungibleArgs_def by (intro safe_intros)

interpretation MintFungibleArgs_codec: carbon_type "write_MintFungibleArgs nb" "read_MintFungibleArgs nb"
    "\<lambda>v. num_bigint_api nb \<and> MintFungibleArgs_ok v" for nb
  by unfold_locales (simp add: MintFungibleArgs_round_trip, rule MintFungibleArgs_safe)


record TransferFungibleArgs =
  tfa_to :: bytes32
  tfa_from_address :: bytes32
  tfa_token_id :: u64
  tfa_amount :: IntX

definition write_TransferFungibleArgs :: "num_bigint \<Rightarrow> TransferFungibleArgs \<Rightarrow> wr_action" where
  "write_TransferFungibleArgs nb v =
     wr_seq [write32 (tfa_to v), write32 (tfa_from_address v), write8u (tfa_token_id v),
             write_intx nb (tfa_amount v)]"

definition read_TransferFungibleArgs :: "num_bigint \<Rightarrow> TransferFungibleArgs reader" where
  "read_TransferFungibleArgs nb =
     rd_bind read32 (\<lambda>dest.
     rd_bind read32 (\<lambda>from_addr.
     rd_bind read8u (\<lambda>token_id.
     rd_bind (read_intx nb) (\<lambda>amount.
       rd_return \<lparr>tfa_to = dest, tfa_from_address = from_addr, tfa_token_id = token_id,
                   tfa_amount = amount\<rparr>))))"

definition TransferFungibleArgs_ok :: "TransferFungibleArgs \<Rightarrow> bool" where
  "TransferFungibleArgs_ok v =
     (intx_ok (tfa_amount v))"

lemma TransferFungibleArgs_round_trip [codec_intros]:
  "num_bigint_api nb \<Longrightarrow> TransferFungibleArgs_ok v \<Longrightarrow>
     round_trip1 (write_TransferFungibleArgs nb v) (read_TransferFungibleArgs nb) v"
  unfolding write_TransferFungibleArgs_def read_TransferFungibleArgs_def TransferFungibleArgs_ok_def
  by (rule round_trip_struct codec_intros | (simp add: small_string_ok_def list_all_iff; fail))+

lemma TransferFungibleArgs_safe [safe_intros]: "safe_reader (read_TransferFungibleArgs nb)"
  unfolding read_TransferFungibleArgs_def by (intro safe_intros)

interpretation TransferFungibleArgs_codec: carbon_type "write_TransferFungibleArgs nb" "read_TransferFungibleArgs nb"
    "\<lambda>v. num_bigint_api nb \<and> TransferFungibleArgs_ok v" for nb
  by unfold_locales (simp add: TransferFungibleArgs_round_trip, rule TransferFungibleArgs_safe)


record TransferNonFungibleArgs =
  tna_to :: bytes32
  tna_from_address :: bytes32
  tna_token_id :: u64
  tna_instance_ids :: "u64 list"

definition write_TransferNonFungibleArgs :: "TransferNonFungibleArgs \<Rightarrow> wr_action" where
  "write_TransferNonFungibleArgs v =
     wr_seq [write32 (tna_to v), write32 (tna_from_address v), write8u (tna_token_id v),
             write_u64_array (tna_instance_ids v)]"

definition read_TransferNonFungibleArgs :: "TransferNonFungibleArgs reader" where
  "read_TransferNonFungibleArgs =
     rd_bind read32 (\<lambda>dest.
     rd_bind read32 (\<lambda>from_addr.
     rd_bind read8u (\<lambda>token_id.
     rd_bind read_u64_array (\<lambda>instance_ids.
       rd_return \<lparr>tna_to = dest, tna_from_address = from_addr, tna_token_id = token_id,
                   tna_instance_ids = instance_ids\<rparr>))))"

definition TransferNonFungibleArgs_ok :: "TransferNonFungibleArgs \<Rightarrow> bool" where
  "TransferNonFungibleArgs_ok v =
     (fits_length (length (tna_instance_ids v)))"

lemma TransferNonFungibleArgs_round_trip [codec_intros]:
  "TransferNonFungibleArgs_ok v \<Longrightarrow>
     round_trip1 (write_TransferNonFungibleArgs v) read_TransferNonFungibleArgs v"
  unfolding write_TransferNonFungibleArgs_def read_TransferNonFungibleArgs_def TransferNonFungibleArgs_ok_def
  by (rule round_trip_struct codec_intros | (simp add: small_string_ok_def list_all_iff; fail))+

lemma TransferNonFungibleArgs_safe [safe_intros]: "safe_reader read_TransferNonFungibleArgs"
  unfolding read_TransferNonFungibleArgs_def by (intro safe_intros)

interpretation TransferNonFungibleArgs_codec: carbon_type write_TransferNonFungibleArgs read_TransferNonFungibleArgs
    TransferNonFungibleArgs_ok
  by unfold_locales (simp add: TransferNonFungibleArgs_round_trip, rule TransferNonFungibleArgs_safe)


record BurnFungibleArgs =
  bfa_token_id :: u64
  bfa_from_address :: bytes32
  bfa_amount :: IntX

definition write_BurnFungibleArgs :: "num_bigint \<Rightarrow> BurnFungibleArgs \<Rightarrow> wr_action" where
  "write_BurnFungibleArgs nb v =
     wr_seq [write8u (bfa_token_id v), write32 (bfa_from_address v),
             write_intx nb (bfa_amount v)]"

definition read_BurnFungibleArgs :: "num_bigint \<Rightarrow> BurnFungibleArgs reader" where
  "read_BurnFungibleArgs nb =
     rd_bind read8u (\<lambda>token_id.
     rd_bind read32 (\<lambda>from_addr.
     rd_bind (read_intx nb) (\<lambda>amount.
       rd_return \<lparr>bfa_token_id = token_id, bfa_from_address = from_addr, bfa_amount = amount\<rparr>)))"

definition BurnFungibleArgs_ok :: "BurnFungibleArgs \<Rightarrow> bool" where
  "BurnFungibleArgs_ok v =
     (intx_ok (bfa_amount v))"

lemma BurnFungibleArgs_round_trip [codec_intros]:
  "num_bigint_api nb \<Longrightarrow> BurnFungibleArgs_ok v \<Longrightarrow>
     round_trip1 (write_BurnFungibleArgs nb v) (read_BurnFungibleArgs nb) v"
  unfolding write_BurnFungibleArgs_def read_BurnFungibleArgs_def BurnFungibleArgs_ok_def
  by (rule round_trip_struct codec_intros | (simp add: small_string_ok_def list_all_iff; fail))+

lemma BurnFungibleArgs_safe [safe_intros]: "safe_reader (read_BurnFungibleArgs nb)"
  unfolding read_BurnFungibleArgs_def by (intro safe_intros)

interpretation BurnFungibleArgs_codec: carbon_type "write_BurnFungibleArgs nb" "read_BurnFungibleArgs nb"
    "\<lambda>v. num_bigint_api nb \<and> BurnFungibleArgs_ok v" for nb
  by unfold_locales (simp add: BurnFungibleArgs_round_trip, rule BurnFungibleArgs_safe)


record BurnNonFungibleArgs =
  bna_token_id :: u64
  bna_from_address :: bytes32
  bna_instance_ids :: "u64 list"

definition write_BurnNonFungibleArgs :: "BurnNonFungibleArgs \<Rightarrow> wr_action" where
  "write_BurnNonFungibleArgs v =
     wr_seq [write8u (bna_token_id v), write32 (bna_from_address v),
             write_u64_array (bna_instance_ids v)]"

definition read_BurnNonFungibleArgs :: "BurnNonFungibleArgs reader" where
  "read_BurnNonFungibleArgs =
     rd_bind read8u (\<lambda>token_id.
     rd_bind read32 (\<lambda>from_addr.
     rd_bind read_u64_array (\<lambda>instance_ids.
       rd_return \<lparr>bna_token_id = token_id, bna_from_address = from_addr,
                   bna_instance_ids = instance_ids\<rparr>)))"

definition BurnNonFungibleArgs_ok :: "BurnNonFungibleArgs \<Rightarrow> bool" where
  "BurnNonFungibleArgs_ok v =
     (fits_length (length (bna_instance_ids v)))"

lemma BurnNonFungibleArgs_round_trip [codec_intros]:
  "BurnNonFungibleArgs_ok v \<Longrightarrow>
     round_trip1 (write_BurnNonFungibleArgs v) read_BurnNonFungibleArgs v"
  unfolding write_BurnNonFungibleArgs_def read_BurnNonFungibleArgs_def BurnNonFungibleArgs_ok_def
  by (rule round_trip_struct codec_intros | (simp add: small_string_ok_def list_all_iff; fail))+

lemma BurnNonFungibleArgs_safe [safe_intros]: "safe_reader read_BurnNonFungibleArgs"
  unfolding read_BurnNonFungibleArgs_def by (intro safe_intros)

interpretation BurnNonFungibleArgs_codec: carbon_type write_BurnNonFungibleArgs read_BurnNonFungibleArgs
    BurnNonFungibleArgs_ok
  by unfold_locales (simp add: BurnNonFungibleArgs_round_trip, rule BurnNonFungibleArgs_safe)


record UpdateTokenMetadataArgs =
  utm_token_id :: u64
  utm_metadata :: VMDynamicStruct

definition write_UpdateTokenMetadataArgs :: "num_bigint \<Rightarrow> nat \<Rightarrow> UpdateTokenMetadataArgs \<Rightarrow> wr_action" where
  "write_UpdateTokenMetadataArgs nb depth v =
     wr_seq [write8u (utm_token_id v), write_dynamic_struct depth nb (utm_metadata v)]"

definition read_UpdateTokenMetadataArgs :: "num_bigint \<Rightarrow> nat \<Rightarrow> UpdateTokenMetadataArgs reader" where
  "read_UpdateTokenMetadataArgs nb depth =
     rd_bind read8u (\<lambda>token_id.
     rd_bind (read_dynamic_struct depth nb) (\<lambda>metadata.
       rd_return \<lparr>utm_token_id = token_id, utm_metadata = metadata\<rparr>))"

definition UpdateTokenMetadataArgs_ok :: "nat \<Rightarrow> UpdateTokenMetadataArgs \<Rightarrow> bool" where
  "UpdateTokenMetadataArgs_ok depth v =
     (struct_ok_with (static_ok depth) (utm_metadata v))"

lemma UpdateTokenMetadataArgs_round_trip [codec_intros]:
  "num_bigint_api nb \<Longrightarrow> UpdateTokenMetadataArgs_ok depth v \<Longrightarrow>
     round_trip1 (write_UpdateTokenMetadataArgs nb depth v) (read_UpdateTokenMetadataArgs nb depth) v"
  unfolding write_UpdateTokenMetadataArgs_def read_UpdateTokenMetadataArgs_def UpdateTokenMetadataArgs_ok_def
  by (rule round_trip_struct codec_intros | (simp add: small_string_ok_def list_all_iff; fail))+

interpretation UpdateTokenMetadataArgs_codec: carbon_codec "write_UpdateTokenMetadataArgs nb depth" "read_UpdateTokenMetadataArgs nb depth"
    "\<lambda>v. num_bigint_api nb \<and> UpdateTokenMetadataArgs_ok depth v" for nb depth
  by unfold_locales (simp add: UpdateTokenMetadataArgs_round_trip)


record UpdateSeriesMetadataArgs =
  usm_token_id :: u64
  usm_series_id :: u32
  usm_metadata :: bytes

definition write_UpdateSeriesMetadataArgs :: "UpdateSeriesMetadataArgs \<Rightarrow> wr_action" where
  "write_UpdateSeriesMetadataArgs v =
     wr_seq [write8u (usm_token_id v), write4u (usm_series_id v),
             write_byte_array (usm_metadata v)]"

definition read_UpdateSeriesMetadataArgs :: "UpdateSeriesMetadataArgs reader" where
  "read_UpdateSeriesMetadataArgs =
     rd_bind read8u (\<lambda>token_id.
     rd_bind read4u (\<lambda>series_id.
     rd_bind read_byte_array (\<lambda>metadata.
       rd_return \<lparr>usm_token_id = token_id, usm_series_id = series_id, usm_metadata = metadata\<rparr>)))"

definition UpdateSeriesMetadataArgs_ok :: "UpdateSeriesMetadataArgs \<Rightarrow> bool" where
  "UpdateSeriesMetadataArgs_ok v =
     (fits_length (length (usm_metadata v)))"

lemma UpdateSeriesMetadataArgs_round_trip [codec_intros]:
  "UpdateSeriesMetadataArgs_ok v \<Longrightarrow>
     round_trip1 (write_UpdateSeriesMetadataArgs v) read_UpdateSeriesMetadataArgs v"
  unfolding write_UpdateSeriesMetadataArgs_def read_UpdateSeriesMetadataArgs_def UpdateSeriesMetadataArgs_ok_def
  by (rule round_trip_struct codec_intros | (simp add: small_string_ok_def list_all_iff; fail))+

lemma UpdateSeriesMetadataArgs_safe [safe_intros]: "safe_reader read_UpdateSeriesMetadataArgs"
  unfolding read_UpdateSeriesMetadataArgs_def by (intro safe_intros)

interpretation UpdateSeriesMetadataArgs_codec: carbon_type write_UpdateSeriesMetadataArgs read_UpdateSeriesMetadataArgs
    UpdateSeriesMetadataArgs_ok
  by unfold_locales (simp add: UpdateSeriesMetadataArgs_round_trip, rule UpdateSeriesMetadataArgs_safe)


section \<open>The market\<close>

datatype ListingType = FixedPrice

record TokenListing =
  tl_listing_type :: ListingType
  tl_seller :: bytes32
  tl_quote_token_id :: u64
  tl_price :: IntX
  tl_start_date :: i64
  tl_end_date :: i64

definition listing_type_code :: "ListingType \<Rightarrow> u8" where
  "listing_type_code t = (case t of FixedPrice \<Rightarrow> 0)"

definition write_TokenListing :: "num_bigint \<Rightarrow> TokenListing \<Rightarrow> wr_action" where
  "write_TokenListing nb v =
     wr_seq [write1 (listing_type_code (tl_listing_type v)), write32 (tl_seller v),
             write8u (tl_quote_token_id v), write_intx nb (tl_price v), write8 (tl_start_date v),
             write8 (tl_end_date v)]"

definition read_TokenListing :: "num_bigint \<Rightarrow> TokenListing reader" where
  "read_TokenListing nb =
     rd_bind read1 (\<lambda>code.
     rd_bind (if code = 0 then rd_return FixedPrice
              else rd_fail (Serialization ''unsupported listing type: '')) (\<lambda>listing_type.
     rd_bind read32 (\<lambda>seller.
     rd_bind read8u (\<lambda>quote_token_id.
     rd_bind (read_intx nb) (\<lambda>price.
     rd_bind read8 (\<lambda>start_date.
     rd_bind read8 (\<lambda>end_date.
       rd_return \<lparr>tl_listing_type = listing_type, tl_seller = seller,
                   tl_quote_token_id = quote_token_id, tl_price = price,
                   tl_start_date = start_date, tl_end_date = end_date\<rparr>)))))))"

definition TokenListing_ok :: "TokenListing \<Rightarrow> bool" where
  "TokenListing_ok v = intx_ok (tl_price v)"

lemma rd_bind_return [simp]: "rd_bind (rd_return x) f = f x"
  by (simp add: rd_bind_def rd_return_def fun_eq_iff)

lemma TokenListing_round_trip [codec_intros]:
  assumes "num_bigint_api nb" and "TokenListing_ok v"
  shows "round_trip1 (write_TokenListing nb v) (read_TokenListing nb) v"
proof -
  have type: "listing_type_code (tl_listing_type v) = 0" "tl_listing_type v = FixedPrice"
    by (cases "tl_listing_type v"; simp add: listing_type_code_def)+
  show ?thesis
    using assms unfolding write_TokenListing_def read_TokenListing_def TokenListing_ok_def type(1)
    by - (simp only: if_True refl rd_bind_return | rule round_trip_struct codec_intros
        | (simp add: type(2); fail))+
qed

lemma TokenListing_safe [safe_intros]: "safe_reader (read_TokenListing nb)"
  unfolding read_TokenListing_def by (intro safe_intros)

interpretation TokenListing_codec: carbon_type "write_TokenListing nb" "read_TokenListing nb"
    "\<lambda>v. num_bigint_api nb \<and> TokenListing_ok v" for nb
  by unfold_locales (simp add: TokenListing_round_trip, rule TokenListing_safe)

record MarketConfig =
  mc_minimum_listing_time :: u64
  mc_maximum_listing_time :: u64
  mc_delisting_grace :: u64
  mc_flags :: u32

definition write_MarketConfig :: "MarketConfig \<Rightarrow> wr_action" where
  "write_MarketConfig v =
     wr_seq [write8u (mc_minimum_listing_time v), write8u (mc_maximum_listing_time v),
             write8u (mc_delisting_grace v), write4u (mc_flags v)]"

definition read_MarketConfig :: "MarketConfig reader" where
  "read_MarketConfig =
     rd_bind read8u (\<lambda>minimum_listing_time.
     rd_bind read8u (\<lambda>maximum_listing_time.
     rd_bind read8u (\<lambda>delisting_grace.
     rd_bind read4u (\<lambda>flags.
       rd_return \<lparr>mc_minimum_listing_time = minimum_listing_time,
                   mc_maximum_listing_time = maximum_listing_time,
                   mc_delisting_grace = delisting_grace, mc_flags = flags\<rparr>))))"

lemma MarketConfig_round_trip [codec_intros]:
  "round_trip1 (write_MarketConfig v) read_MarketConfig v"
  unfolding write_MarketConfig_def read_MarketConfig_def
  by (rule round_trip_struct codec_intros | (simp add: small_string_ok_def list_all_iff; fail))+

lemma MarketConfig_safe [safe_intros]: "safe_reader read_MarketConfig"
  unfolding read_MarketConfig_def by (intro safe_intros)

interpretation MarketConfig_codec: carbon_type write_MarketConfig read_MarketConfig
    "\<lambda>_. True"
  by unfold_locales (simp add: MarketConfig_round_trip, rule MarketConfig_safe)


definition default_market_config :: MarketConfig where
  "default_market_config =
     \<lparr>mc_minimum_listing_time = 1000, mc_maximum_listing_time = 1000 * 60 * 60 * 24 * 90,
      mc_delisting_grace = 1000 * 60 * 60 * 24, mc_flags = 1 OR 2\<rparr>"

record MarketSellTokenArgs =
  mst_from_address :: bytes32
  mst_token_id :: u64
  mst_instance_id :: u64
  mst_quote_token_id :: u64
  mst_price :: IntX
  mst_end_date :: i64

definition write_MarketSellTokenArgs :: "num_bigint \<Rightarrow> MarketSellTokenArgs \<Rightarrow> wr_action" where
  "write_MarketSellTokenArgs nb v =
     wr_seq [write32 (mst_from_address v), write8u (mst_token_id v),
             write8u (mst_instance_id v), write8u (mst_quote_token_id v),
             write_intx nb (mst_price v), write8 (mst_end_date v)]"

definition read_MarketSellTokenArgs :: "num_bigint \<Rightarrow> MarketSellTokenArgs reader" where
  "read_MarketSellTokenArgs nb =
     rd_bind read32 (\<lambda>from_addr.
     rd_bind read8u (\<lambda>token_id.
     rd_bind read8u (\<lambda>instance_id.
     rd_bind read8u (\<lambda>quote_token_id.
     rd_bind (read_intx nb) (\<lambda>price.
     rd_bind read8 (\<lambda>end_date.
       rd_return \<lparr>mst_from_address = from_addr, mst_token_id = token_id,
                   mst_instance_id = instance_id, mst_quote_token_id = quote_token_id,
                   mst_price = price, mst_end_date = end_date\<rparr>))))))"

definition MarketSellTokenArgs_ok :: "MarketSellTokenArgs \<Rightarrow> bool" where
  "MarketSellTokenArgs_ok v =
     (intx_ok (mst_price v))"

lemma MarketSellTokenArgs_round_trip [codec_intros]:
  "num_bigint_api nb \<Longrightarrow> MarketSellTokenArgs_ok v \<Longrightarrow>
     round_trip1 (write_MarketSellTokenArgs nb v) (read_MarketSellTokenArgs nb) v"
  unfolding write_MarketSellTokenArgs_def read_MarketSellTokenArgs_def MarketSellTokenArgs_ok_def
  by (rule round_trip_struct codec_intros | (simp add: small_string_ok_def list_all_iff; fail))+

lemma MarketSellTokenArgs_safe [safe_intros]: "safe_reader (read_MarketSellTokenArgs nb)"
  unfolding read_MarketSellTokenArgs_def by (intro safe_intros)

interpretation MarketSellTokenArgs_codec: carbon_type "write_MarketSellTokenArgs nb" "read_MarketSellTokenArgs nb"
    "\<lambda>v. num_bigint_api nb \<and> MarketSellTokenArgs_ok v" for nb
  by unfold_locales (simp add: MarketSellTokenArgs_round_trip, rule MarketSellTokenArgs_safe)


record MarketSellTokenByIdArgs =
  msi_from_address :: bytes32
  msi_symbol :: SmallString
  msi_instance_id :: VMDynamicVariable
  msi_quote_symbol :: SmallString
  msi_price :: IntX
  msi_end_date :: i64

definition write_MarketSellTokenByIdArgs :: "num_bigint \<Rightarrow> nat \<Rightarrow> MarketSellTokenByIdArgs \<Rightarrow> wr_action" where
  "write_MarketSellTokenByIdArgs nb depth v =
     wr_seq [write32 (msi_from_address v), write_small_string (msi_symbol v),
             write_dynamic_variable depth nb (msi_instance_id v),
             write_small_string (msi_quote_symbol v), write_intx nb (msi_price v),
             write8 (msi_end_date v)]"

definition read_MarketSellTokenByIdArgs :: "num_bigint \<Rightarrow> nat \<Rightarrow> MarketSellTokenByIdArgs reader" where
  "read_MarketSellTokenByIdArgs nb depth =
     rd_bind read32 (\<lambda>from_addr.
     rd_bind read_small_string (\<lambda>symbol.
     rd_bind (read_dynamic_variable depth nb) (\<lambda>instance_id.
     rd_bind read_small_string (\<lambda>quote_symbol.
     rd_bind (read_intx nb) (\<lambda>price.
     rd_bind read8 (\<lambda>end_date.
       rd_return \<lparr>msi_from_address = from_addr, msi_symbol = symbol,
                   msi_instance_id = instance_id, msi_quote_symbol = quote_symbol,
                   msi_price = price, msi_end_date = end_date\<rparr>))))))"

definition MarketSellTokenByIdArgs_ok :: "nat \<Rightarrow> MarketSellTokenByIdArgs \<Rightarrow> bool" where
  "MarketSellTokenByIdArgs_ok depth v =
     (small_string_ok (msi_symbol v)
      \<and> variable_ok_with (static_ok depth) (msi_instance_id v)
      \<and> small_string_ok (msi_quote_symbol v)
      \<and> intx_ok (msi_price v))"

lemma MarketSellTokenByIdArgs_round_trip [codec_intros]:
  "num_bigint_api nb \<Longrightarrow> MarketSellTokenByIdArgs_ok depth v \<Longrightarrow>
     round_trip1 (write_MarketSellTokenByIdArgs nb depth v) (read_MarketSellTokenByIdArgs nb depth) v"
  unfolding write_MarketSellTokenByIdArgs_def read_MarketSellTokenByIdArgs_def MarketSellTokenByIdArgs_ok_def
  by (rule round_trip_struct codec_intros | (simp add: small_string_ok_def list_all_iff; fail))+

interpretation MarketSellTokenByIdArgs_codec: carbon_codec "write_MarketSellTokenByIdArgs nb depth" "read_MarketSellTokenByIdArgs nb depth"
    "\<lambda>v. num_bigint_api nb \<and> MarketSellTokenByIdArgs_ok depth v" for nb depth
  by unfold_locales (simp add: MarketSellTokenByIdArgs_round_trip)


record MarketCancelSaleArgs =
  mcs_token_id :: u64
  mcs_instance_id :: u64

definition write_MarketCancelSaleArgs :: "MarketCancelSaleArgs \<Rightarrow> wr_action" where
  "write_MarketCancelSaleArgs v =
     wr_seq [write8u (mcs_token_id v), write8u (mcs_instance_id v)]"

definition read_MarketCancelSaleArgs :: "MarketCancelSaleArgs reader" where
  "read_MarketCancelSaleArgs =
     rd_bind read8u (\<lambda>token_id.
     rd_bind read8u (\<lambda>instance_id.
       rd_return \<lparr>mcs_token_id = token_id, mcs_instance_id = instance_id\<rparr>))"

lemma MarketCancelSaleArgs_round_trip [codec_intros]:
  "round_trip1 (write_MarketCancelSaleArgs v) read_MarketCancelSaleArgs v"
  unfolding write_MarketCancelSaleArgs_def read_MarketCancelSaleArgs_def
  by (rule round_trip_struct codec_intros | (simp add: small_string_ok_def list_all_iff; fail))+

lemma MarketCancelSaleArgs_safe [safe_intros]: "safe_reader read_MarketCancelSaleArgs"
  unfolding read_MarketCancelSaleArgs_def by (intro safe_intros)

interpretation MarketCancelSaleArgs_codec: carbon_type write_MarketCancelSaleArgs read_MarketCancelSaleArgs
    "\<lambda>_. True"
  by unfold_locales (simp add: MarketCancelSaleArgs_round_trip, rule MarketCancelSaleArgs_safe)


record MarketCancelSaleByIdArgs =
  mci_symbol :: SmallString
  mci_instance_id :: VMDynamicVariable

definition write_MarketCancelSaleByIdArgs :: "num_bigint \<Rightarrow> nat \<Rightarrow> MarketCancelSaleByIdArgs \<Rightarrow> wr_action" where
  "write_MarketCancelSaleByIdArgs nb depth v =
     wr_seq [write_small_string (mci_symbol v),
             write_dynamic_variable depth nb (mci_instance_id v)]"

definition read_MarketCancelSaleByIdArgs :: "num_bigint \<Rightarrow> nat \<Rightarrow> MarketCancelSaleByIdArgs reader" where
  "read_MarketCancelSaleByIdArgs nb depth =
     rd_bind read_small_string (\<lambda>symbol.
     rd_bind (read_dynamic_variable depth nb) (\<lambda>instance_id.
       rd_return \<lparr>mci_symbol = symbol, mci_instance_id = instance_id\<rparr>))"

definition MarketCancelSaleByIdArgs_ok :: "nat \<Rightarrow> MarketCancelSaleByIdArgs \<Rightarrow> bool" where
  "MarketCancelSaleByIdArgs_ok depth v =
     (small_string_ok (mci_symbol v)
      \<and> variable_ok_with (static_ok depth) (mci_instance_id v))"

lemma MarketCancelSaleByIdArgs_round_trip [codec_intros]:
  "num_bigint_api nb \<Longrightarrow> MarketCancelSaleByIdArgs_ok depth v \<Longrightarrow>
     round_trip1 (write_MarketCancelSaleByIdArgs nb depth v) (read_MarketCancelSaleByIdArgs nb depth) v"
  unfolding write_MarketCancelSaleByIdArgs_def read_MarketCancelSaleByIdArgs_def MarketCancelSaleByIdArgs_ok_def
  by (rule round_trip_struct codec_intros | (simp add: small_string_ok_def list_all_iff; fail))+

interpretation MarketCancelSaleByIdArgs_codec: carbon_codec "write_MarketCancelSaleByIdArgs nb depth" "read_MarketCancelSaleByIdArgs nb depth"
    "\<lambda>v. num_bigint_api nb \<and> MarketCancelSaleByIdArgs_ok depth v" for nb depth
  by unfold_locales (simp add: MarketCancelSaleByIdArgs_round_trip)


record MarketBuyTokenArgs =
  mbt_from_address :: bytes32
  mbt_token_id :: u64
  mbt_instance_id :: u64

definition write_MarketBuyTokenArgs :: "MarketBuyTokenArgs \<Rightarrow> wr_action" where
  "write_MarketBuyTokenArgs v =
     wr_seq [write32 (mbt_from_address v), write8u (mbt_token_id v),
             write8u (mbt_instance_id v)]"

definition read_MarketBuyTokenArgs :: "MarketBuyTokenArgs reader" where
  "read_MarketBuyTokenArgs =
     rd_bind read32 (\<lambda>from_addr.
     rd_bind read8u (\<lambda>token_id.
     rd_bind read8u (\<lambda>instance_id.
       rd_return \<lparr>mbt_from_address = from_addr, mbt_token_id = token_id,
                   mbt_instance_id = instance_id\<rparr>)))"

lemma MarketBuyTokenArgs_round_trip [codec_intros]:
  "round_trip1 (write_MarketBuyTokenArgs v) read_MarketBuyTokenArgs v"
  unfolding write_MarketBuyTokenArgs_def read_MarketBuyTokenArgs_def
  by (rule round_trip_struct codec_intros | (simp add: small_string_ok_def list_all_iff; fail))+

lemma MarketBuyTokenArgs_safe [safe_intros]: "safe_reader read_MarketBuyTokenArgs"
  unfolding read_MarketBuyTokenArgs_def by (intro safe_intros)

interpretation MarketBuyTokenArgs_codec: carbon_type write_MarketBuyTokenArgs read_MarketBuyTokenArgs
    "\<lambda>_. True"
  by unfold_locales (simp add: MarketBuyTokenArgs_round_trip, rule MarketBuyTokenArgs_safe)


record MarketBuyTokenByIdArgs =
  mbi_from_address :: bytes32
  mbi_symbol :: SmallString
  mbi_instance_id :: VMDynamicVariable

definition write_MarketBuyTokenByIdArgs :: "num_bigint \<Rightarrow> nat \<Rightarrow> MarketBuyTokenByIdArgs \<Rightarrow> wr_action" where
  "write_MarketBuyTokenByIdArgs nb depth v =
     wr_seq [write32 (mbi_from_address v), write_small_string (mbi_symbol v),
             write_dynamic_variable depth nb (mbi_instance_id v)]"

definition read_MarketBuyTokenByIdArgs :: "num_bigint \<Rightarrow> nat \<Rightarrow> MarketBuyTokenByIdArgs reader" where
  "read_MarketBuyTokenByIdArgs nb depth =
     rd_bind read32 (\<lambda>from_addr.
     rd_bind read_small_string (\<lambda>symbol.
     rd_bind (read_dynamic_variable depth nb) (\<lambda>instance_id.
       rd_return \<lparr>mbi_from_address = from_addr, mbi_symbol = symbol,
                   mbi_instance_id = instance_id\<rparr>)))"

definition MarketBuyTokenByIdArgs_ok :: "nat \<Rightarrow> MarketBuyTokenByIdArgs \<Rightarrow> bool" where
  "MarketBuyTokenByIdArgs_ok depth v =
     (small_string_ok (mbi_symbol v)
      \<and> variable_ok_with (static_ok depth) (mbi_instance_id v))"

lemma MarketBuyTokenByIdArgs_round_trip [codec_intros]:
  "num_bigint_api nb \<Longrightarrow> MarketBuyTokenByIdArgs_ok depth v \<Longrightarrow>
     round_trip1 (write_MarketBuyTokenByIdArgs nb depth v) (read_MarketBuyTokenByIdArgs nb depth) v"
  unfolding write_MarketBuyTokenByIdArgs_def read_MarketBuyTokenByIdArgs_def MarketBuyTokenByIdArgs_ok_def
  by (rule round_trip_struct codec_intros | (simp add: small_string_ok_def list_all_iff; fail))+

interpretation MarketBuyTokenByIdArgs_codec: carbon_codec "write_MarketBuyTokenByIdArgs nb depth" "read_MarketBuyTokenByIdArgs nb depth"
    "\<lambda>v. num_bigint_api nb \<and> MarketBuyTokenByIdArgs_ok depth v" for nb depth
  by unfold_locales (simp add: MarketBuyTokenByIdArgs_round_trip)


record MarketGetTokenListingCountArgs =
  mlc_token_id :: u64

definition write_MarketGetTokenListingCountArgs :: "MarketGetTokenListingCountArgs \<Rightarrow> wr_action" where
  "write_MarketGetTokenListingCountArgs v =
     wr_seq [write8u (mlc_token_id v)]"

definition read_MarketGetTokenListingCountArgs :: "MarketGetTokenListingCountArgs reader" where
  "read_MarketGetTokenListingCountArgs =
     rd_bind read8u (\<lambda>token_id.
       rd_return \<lparr>mlc_token_id = token_id\<rparr>)"

lemma MarketGetTokenListingCountArgs_round_trip [codec_intros]:
  "round_trip1 (write_MarketGetTokenListingCountArgs v) read_MarketGetTokenListingCountArgs v"
  unfolding write_MarketGetTokenListingCountArgs_def read_MarketGetTokenListingCountArgs_def
  by (rule round_trip_struct codec_intros | (simp add: small_string_ok_def list_all_iff; fail))+

lemma MarketGetTokenListingCountArgs_safe [safe_intros]: "safe_reader read_MarketGetTokenListingCountArgs"
  unfolding read_MarketGetTokenListingCountArgs_def by (intro safe_intros)

interpretation MarketGetTokenListingCountArgs_codec: carbon_type write_MarketGetTokenListingCountArgs read_MarketGetTokenListingCountArgs
    "\<lambda>_. True"
  by unfold_locales (simp add: MarketGetTokenListingCountArgs_round_trip, rule MarketGetTokenListingCountArgs_safe)


record MarketGetTokenListingInfoArgs =
  mli_token_id :: u64
  mli_instance_id :: u64

definition write_MarketGetTokenListingInfoArgs :: "MarketGetTokenListingInfoArgs \<Rightarrow> wr_action" where
  "write_MarketGetTokenListingInfoArgs v =
     wr_seq [write8u (mli_token_id v), write8u (mli_instance_id v)]"

definition read_MarketGetTokenListingInfoArgs :: "MarketGetTokenListingInfoArgs reader" where
  "read_MarketGetTokenListingInfoArgs =
     rd_bind read8u (\<lambda>token_id.
     rd_bind read8u (\<lambda>instance_id.
       rd_return \<lparr>mli_token_id = token_id, mli_instance_id = instance_id\<rparr>))"

lemma MarketGetTokenListingInfoArgs_round_trip [codec_intros]:
  "round_trip1 (write_MarketGetTokenListingInfoArgs v) read_MarketGetTokenListingInfoArgs v"
  unfolding write_MarketGetTokenListingInfoArgs_def read_MarketGetTokenListingInfoArgs_def
  by (rule round_trip_struct codec_intros | (simp add: small_string_ok_def list_all_iff; fail))+

lemma MarketGetTokenListingInfoArgs_safe [safe_intros]: "safe_reader read_MarketGetTokenListingInfoArgs"
  unfolding read_MarketGetTokenListingInfoArgs_def by (intro safe_intros)

interpretation MarketGetTokenListingInfoArgs_codec: carbon_type write_MarketGetTokenListingInfoArgs read_MarketGetTokenListingInfoArgs
    "\<lambda>_. True"
  by unfold_locales (simp add: MarketGetTokenListingInfoArgs_round_trip, rule MarketGetTokenListingInfoArgs_safe)


record MarketGetTokenListingInfoByIdArgs =
  mii_symbol :: SmallString
  mii_instance_id :: VMDynamicVariable

definition write_MarketGetTokenListingInfoByIdArgs :: "num_bigint \<Rightarrow> nat \<Rightarrow> MarketGetTokenListingInfoByIdArgs \<Rightarrow> wr_action" where
  "write_MarketGetTokenListingInfoByIdArgs nb depth v =
     wr_seq [write_small_string (mii_symbol v),
             write_dynamic_variable depth nb (mii_instance_id v)]"

definition read_MarketGetTokenListingInfoByIdArgs :: "num_bigint \<Rightarrow> nat \<Rightarrow> MarketGetTokenListingInfoByIdArgs reader" where
  "read_MarketGetTokenListingInfoByIdArgs nb depth =
     rd_bind read_small_string (\<lambda>symbol.
     rd_bind (read_dynamic_variable depth nb) (\<lambda>instance_id.
       rd_return \<lparr>mii_symbol = symbol, mii_instance_id = instance_id\<rparr>))"

definition MarketGetTokenListingInfoByIdArgs_ok :: "nat \<Rightarrow> MarketGetTokenListingInfoByIdArgs \<Rightarrow> bool" where
  "MarketGetTokenListingInfoByIdArgs_ok depth v =
     (small_string_ok (mii_symbol v)
      \<and> variable_ok_with (static_ok depth) (mii_instance_id v))"

lemma MarketGetTokenListingInfoByIdArgs_round_trip [codec_intros]:
  "num_bigint_api nb \<Longrightarrow> MarketGetTokenListingInfoByIdArgs_ok depth v \<Longrightarrow>
     round_trip1 (write_MarketGetTokenListingInfoByIdArgs nb depth v) (read_MarketGetTokenListingInfoByIdArgs nb depth) v"
  unfolding write_MarketGetTokenListingInfoByIdArgs_def read_MarketGetTokenListingInfoByIdArgs_def MarketGetTokenListingInfoByIdArgs_ok_def
  by (rule round_trip_struct codec_intros | (simp add: small_string_ok_def list_all_iff; fail))+

interpretation MarketGetTokenListingInfoByIdArgs_codec: carbon_codec "write_MarketGetTokenListingInfoByIdArgs nb depth" "read_MarketGetTokenListingInfoByIdArgs nb depth"
    "\<lambda>v. num_bigint_api nb \<and> MarketGetTokenListingInfoByIdArgs_ok depth v" for nb depth
  by unfold_locales (simp add: MarketGetTokenListingInfoByIdArgs_round_trip)


section \<open>Properties\<close>

text \<open>What a version-0 image keeps of a configuration.\<close>

definition gas_config_image :: "GasConfig \<Rightarrow> GasConfig" where
  "gas_config_image c =
     (if gc_version c = 0
      then c\<lparr>gc_minimum_gas_bill := 0, gc_gas_producer_ratio_mul := 0, gc_gas_producer_ratio_shift := 0,
             gc_gas_dapp_ratio_mul := 0, gc_gas_dapp_ratio_shift := 0,
             gc_policy_fee_create_token_base := 0, gc_policy_fee_create_token_symbol := 0,
             gc_policy_fee_create_token_series := 0, gc_policy_fee_register_name := 0,
             gc_legacy_data_escrow_per_row := 0\<rparr>
      else c)"

lemma gas_config_image_ok: "GasConfig_ok (gas_config_image c)"
  by (simp add: GasConfig_ok_def gas_config_image_def)

lemma write_gas_config_image: "write_GasConfig (gas_config_image c) = write_GasConfig c"
  by (simp add: write_GasConfig_def gas_config_image_def del: wr_seq.simps)

text \<open>Every gas configuration reads back as itself when its version is 1 or more, and with a
  zero second-model tail when its version is 0.\<close>

theorem gas_config_round_trip:
  "bind_result (serialize write_GasConfig c) (deserialize read_GasConfig) = Ok (gas_config_image c)"
  using GasConfig_codec.deserialize_serialize [OF gas_config_image_ok [of c]]
  by (simp add: serialize_def write_gas_config_image)

text \<open>A gas configuration image that lost bytes at its end is refused with an error: a version-1
  image cut to the version-0 fields is not taken for an older configuration.\<close>

theorem gas_config_truncation_rejected:
  assumes "serialize write_GasConfig c = Ok (bs @ rest)" and "rest \<noteq> []"
  shows "\<exists>e. deserialize read_GasConfig bs = Err e"
  using GasConfig_codec.truncated_encoding_rejected [OF gas_config_image_ok [of c]] assms
  by (simp add: serialize_def write_gas_config_image)

definition sample_gas_config :: GasConfig where
  "sample_gas_config =
     \<lparr>gc_version = 1, gc_max_name_length = 32, gc_max_token_symbol_length = 10, gc_fee_shift = 1,
      gc_max_structure_size = 1024, gc_fee_multiplier = 10000, gc_gas_token_id = 1, gc_data_token_id = 2,
      gc_minimum_gas_offer = 100, gc_data_escrow_per_row = 3, gc_gas_fee_transfer = 10,
      gc_gas_fee_query = 2, gc_gas_fee_create_token_base = 1000, gc_gas_fee_create_token_symbol = 1000,
      gc_gas_fee_create_token_series = 250, gc_gas_fee_per_byte = 1, gc_gas_fee_register_name = 500,
      gc_gas_burn_ratio_mul = 1, gc_gas_burn_ratio_shift = 1, gc_minimum_gas_bill = 7,
      gc_gas_producer_ratio_mul = 1, gc_gas_producer_ratio_shift = 2, gc_gas_dapp_ratio_mul = 1,
      gc_gas_dapp_ratio_shift = 3, gc_policy_fee_create_token_base = 11,
      gc_policy_fee_create_token_symbol = 12, gc_policy_fee_create_token_series = 13,
      gc_policy_fee_register_name = 14, gc_legacy_data_escrow_per_row = 15\<rparr>"

theorem gas_config_truncation_rejected_witness:
  "case serialize write_GasConfig sample_gas_config of
     Ok bs \<Rightarrow> \<exists>e. deserialize read_GasConfig (take 113 bs) = Err e
   | _ \<Rightarrow> False"
proof -
  have "case serialize write_GasConfig sample_gas_config of Ok bs \<Rightarrow> 113 < length bs | _ \<Rightarrow> False"
    by code_simp
  then obtain bs where bs: "serialize write_GasConfig sample_gas_config = Ok bs" "113 < length bs"
    by (auto split: result.split_asm)
  have "serialize write_GasConfig sample_gas_config = Ok (take 113 bs @ drop 113 bs)"
    using bs by simp
  from gas_config_truncation_rejected [OF this] bs show ?thesis by simp
qed

text \<open>The arguments that create a series and mint into it survive serialization when the nested
  schemas fit the recursion depth of the reader.\<close>

theorem create_minted_series_round_trip:
  assumes "CreateMintedTokenSeriesArgs_ok depth v"
  shows "bind_result (serialize write_CreateMintedTokenSeriesArgs v)
    (deserialize (read_CreateMintedTokenSeriesArgs depth)) = Ok v"
  by (rule CreateMintedTokenSeriesArgs_codec.deserialize_serialize [OF assms])

definition sample_schema :: VMStructSchema where
  "sample_schema =
     VMStructSchema
       [VMNamedVariableSchema (SmallString (lit ''royalties'')) (VMVariableSchema VT_Int32 None),
        VMNamedVariableSchema (SmallString (lit ''more''))
          (VMVariableSchema VT_Struct (Some (VMStructSchema
            [VMNamedVariableSchema (SmallString (lit ''name'')) (VMVariableSchema VT_String None)] 0)))] 1"

definition sample_series :: CreateMintedTokenSeriesArgs where
  "sample_series =
     \<lparr>cms_token_id = 5,
      cms_info = \<lparr>si_max_mint = 10, si_max_supply = 10, si_owner = array_of (replicate 32 4),
                  si_metadata = [1, 2], si_rom = sample_schema, si_ram = VMStructSchema [] 0\<rparr>,
      cms_address = array_of (replicate 32 9), cms_roms = [[1], [2, 3]], cms_rams = [[], []]\<rparr>"

theorem create_minted_series_round_trip_witness:
  "bind_result (serialize write_CreateMintedTokenSeriesArgs sample_series)
    (deserialize (read_CreateMintedTokenSeriesArgs 2)) = Ok sample_series"
  by (rule create_minted_series_round_trip) code_simp

text \<open>Token information reads back as it was written, except that a token without the
  non-fungible flag loses its schema bytes: they are not part of its image.\<close>

theorem token_info_round_trip:
  assumes "num_bigint_api nb" and "intx_ok (ti_max_supply v)" and "small_string_ok (ti_symbol v)"
    and "fits_length (length (ti_metadata v))" and "fits_length (length (ti_token_schemas v))"
  shows "bind_result (serialize (write_TokenInfo nb) v) (deserialize (read_TokenInfo nb)) =
    Ok (if flags_contain (ti_flags v) NON_FUNGIBLE then v else v\<lparr>ti_token_schemas := []\<rparr>)"
proof -
  let ?v = "if flags_contain (ti_flags v) NON_FUNGIBLE then v else v\<lparr>ti_token_schemas := []\<rparr>"
  have "TokenInfo_ok ?v" using assms by (simp add: TokenInfo_ok_def fits_length_def)
  moreover have "write_TokenInfo nb ?v = write_TokenInfo nb v"
    by (simp add: write_TokenInfo_def del: wr_seq.simps)
  ultimately show ?thesis
    using TokenInfo_codec.deserialize_serialize [of nb ?v] assms(1) by (simp only: serialize_def)
qed

definition sample_token :: TokenInfo where
  "sample_token =
     \<lparr>ti_max_supply = IntX (10 ^ 30), ti_flags = 1, ti_decimals = 8, ti_owner = array_of (replicate 32 3),
      ti_symbol = SmallString (lit ''SOUL''), ti_metadata = [1, 2, 3], ti_token_schemas = [4]\<rparr>"

theorem token_info_round_trip_witness:
  "bind_result (serialize (write_TokenInfo num_bigint_std) sample_token)
     (deserialize (read_TokenInfo num_bigint_std)) = Ok (sample_token\<lparr>ti_token_schemas := []\<rparr>)"
proof -
  have "\<not> flags_contain (ti_flags sample_token) NON_FUNGIBLE" by code_simp
  moreover have "intx_ok (ti_max_supply sample_token)" "small_string_ok (ti_symbol sample_token)"
    "fits_length (length (ti_metadata sample_token))" "fits_length (length (ti_token_schemas sample_token))"
    by code_simp+
  ultimately show ?thesis
    using token_info_round_trip [OF num_bigint_std.num_bigint_api_axioms, of sample_token] by simp
qed

end
