(* ===== verification/FeeModel.thy ===== *)
theory FeeModel
  imports CarbonArgs
begin

text \<open>
  The offline fee calculator (\<open>src/src/fees.rs\<close>): the work, policy fee, result bytes and
  storage rows of each native operation (\<open>operation_model\<close>), and the settlement of a
  transaction's operations into a gas bill, a gas offer and an escrow ceiling (\<open>settle\<close>).
  Gas amounts are \<open>u64\<close> and saturate as in the source; sizes and row counts are \<open>u32\<close> and
  plain additions on them are checked, so an overflow is a panic of the model.
\<close>

section \<open>Machine arithmetic\<close>

definition sat_add :: "'a::len word \<Rightarrow> 'a word \<Rightarrow> 'a word" where
  "sat_add a b = (if uint a + uint b < 2 ^ LENGTH('a) then a + b else - 1)"

definition sat_mul :: "'a::len word \<Rightarrow> 'a word \<Rightarrow> 'a word" where
  "sat_mul a b = (if uint a * uint b < 2 ^ LENGTH('a) then a * b else - 1)"

definition sat_sub :: "'a::len word \<Rightarrow> 'a word \<Rightarrow> 'a word" where
  "sat_sub a b = (if b \<le> a then a - b else 0)"

definition checked_add :: "'a::len word \<Rightarrow> 'a word \<Rightarrow> 'a word result" where
  "checked_add a b = (if uint a + uint b < 2 ^ LENGTH('a) then Ok (a + b) else Panic Arithmetic_Overflow)"

definition checked_mul :: "'a::len word \<Rightarrow> 'a word \<Rightarrow> 'a word result" where
  "checked_mul a b = (if uint a * uint b < 2 ^ LENGTH('a) then Ok (a * b) else Panic Arithmetic_Overflow)"

text \<open>A chain of additions \<open>a + b + c\<close>, evaluated from the left.\<close>

primrec add_all :: "u32 \<Rightarrow> u32 result list \<Rightarrow> u32 result" where
  "add_all acc [] = Ok acc"
| "add_all acc (m # ms) = bind_result m (\<lambda>x. bind_result (checked_add acc x) (\<lambda>s. add_all s ms))"

section \<open>Constants and inputs\<close>

datatype NativeFeeKind =
    FK_TransferFungible | FK_TransferNonFungible | FK_MintFungible | FK_MintNonFungible
  | FK_MintPhantasmaNonFungible | FK_BurnFungible | FK_BurnNonFungible | FK_CreateToken
  | FK_CreateTokenSeries | FK_RegisterName | FK_Script

definition uses_bare_signatures :: "NativeFeeKind \<Rightarrow> bool" where
  "uses_bare_signatures k =
     (k \<in> {FK_TransferFungible, FK_TransferNonFungible, FK_MintFungible, FK_MintNonFungible,
           FK_BurnFungible, FK_BurnNonFungible})"

definition GAS_MODEL_V2_UNITS_PER_BLOCK_DATA_BYTE :: u64 where
  "GAS_MODEL_V2_UNITS_PER_BLOCK_DATA_BYTE = 25"

definition STORAGE_QUANTUM_BYTES :: u32 where
  "STORAGE_QUANTUM_BYTES = 1024"

definition WITNESS_ARRAY_ENTRY_BYTES :: u32 where
  "WITNESS_ARRAY_ENTRY_BYTES = 96"

definition NATIVE_SIGNATURE_BYTES :: u32 where
  "NATIVE_SIGNATURE_BYTES = 64"

definition NFT_INSTANCE_ROW_OVERHEAD :: u32 where
  "NFT_INSTANCE_ROW_OVERHEAD = 17 + 32 + 8 + 1 + 4"

definition NFT_RAM_ROW_OVERHEAD :: u32 where
  "NFT_RAM_ROW_OVERHEAD = 17"

definition TOKEN_INFO_KEY_BYTES :: u32 where
  "TOKEN_INFO_KEY_BYTES = 9"

definition SERIES_INFO_KEY_BYTES :: u32 where
  "SERIES_INFO_KEY_BYTES = 13"

definition PHANTASMA_CANONICAL_ROM_OVERHEAD :: u32 where
  "PHANTASMA_CANONICAL_ROM_OVERHEAD = 32 + 4"

definition INTX_SMALL_RESULT_BYTES :: u32 where
  "INTX_SMALL_RESULT_BYTES = 9"

definition INTX_BIG_RESULT_BYTES :: u32 where
  "INTX_BIG_RESULT_BYTES = 33"

definition MAX_PRICEABLE_LENGTH :: u32 where
  "MAX_PRICEABLE_LENGTH = 64"

definition DEFAULT_SCRIPT_UNITS_ALLOWANCE :: u64 where
  "DEFAULT_SCRIPT_UNITS_ALLOWANCE = 5000"

definition DEFAULT_SCRIPT_EVENT_BYTES :: u32 where
  "DEFAULT_SCRIPT_EVENT_BYTES = 512"

definition DEFAULT_SCRIPT_STORAGE_QUANTA :: u32 where
  "DEFAULT_SCRIPT_STORAGE_QUANTA = 4"

record InfusedAsset =
  ia_token_id :: "u64 option"
  ia_non_fungible :: bool
  ia_instance_count :: "u32 option"
  ia_burner_holds_token :: bool

record NativeFeeParams =
  np_envelope_bytes :: u32
  np_count :: "u32 option"
  np_token_id :: "u64 option"
  np_recipient_holds_token :: bool
  np_to_is_nft_address :: bool
  np_big_fungible :: "bool option"
  np_token_burned_before :: bool
  np_supply_row_exists :: bool
  np_infusions :: "InfusedAsset list option"
  np_symbol_length :: u32
  np_token_info_bytes :: u32
  np_non_fungible :: bool
  np_has_pre_burn :: bool
  np_has_inflation_schedule :: bool
  np_has_staking_organisation :: bool
  np_has_staking_reward_token :: bool
  np_series_info_bytes :: u32
  np_series_has_meta_id :: "bool option"
  np_name_length :: u32
  np_rom_bytes :: "u32 list"
  np_ram_bytes :: "u32 list"
  np_rom_has_meta_id :: "bool option"
  np_duplicated_series :: "bool option"
  np_distinct_series_count :: "u32 option"
  np_payload_bytes :: u32
  np_script_units_allowance :: "u64 option"
  np_script_event_bytes :: "u32 option"
  np_script_storage_quanta :: "u32 option"

text \<open>\<open>NativeFeeParams::default()\<close>\<close>

definition default_fee_params :: NativeFeeParams where
  "default_fee_params =
     \<lparr>np_envelope_bytes = 0, np_count = None, np_token_id = None, np_recipient_holds_token = False,
      np_to_is_nft_address = False, np_big_fungible = None, np_token_burned_before = False,
      np_supply_row_exists = False, np_infusions = None, np_symbol_length = 0,
      np_token_info_bytes = 0, np_non_fungible = False, np_has_pre_burn = False,
      np_has_inflation_schedule = False, np_has_staking_organisation = False,
      np_has_staking_reward_token = False, np_series_info_bytes = 0, np_series_has_meta_id = None,
      np_name_length = 0, np_rom_bytes = [], np_ram_bytes = [], np_rom_has_meta_id = None,
      np_duplicated_series = None, np_distinct_series_count = None, np_payload_bytes = 0,
      np_script_units_allowance = None, np_script_event_bytes = None,
      np_script_storage_quanta = None\<rparr>"

record FeeQuote =
  fq_max_gas :: u64
  fq_max_data :: u64
  fq_expected_gas_bill :: u64

record NativeFeeEstimate =
  fe_max_gas :: u64
  fe_max_data :: u64
  fe_expected_gas_bill :: u64
  fe_new_storage_quanta :: u32
  fe_deleted_storage_quanta :: u32

definition estimate_quote :: "NativeFeeEstimate \<Rightarrow> FeeQuote" where
  "estimate_quote e =
     \<lparr>fq_max_gas = fe_max_gas e, fq_max_data = fe_max_data e,
      fq_expected_gas_bill = fe_expected_gas_bill e\<rparr>"

record OperationModel =
  om_work_units :: u64
  om_policy_fee :: u64
  om_result_bytes :: u32
  om_new_quanta :: u32
  om_deleted_quanta :: u32

definition default_operation :: OperationModel where
  "default_operation =
     \<lparr>om_work_units = 0, om_policy_fee = 0, om_result_bytes = 0, om_new_quanta = 0, om_deleted_quanta = 0\<rparr>"

record NativeFeePart =
  fp_kind :: NativeFeeKind
  fp_params :: NativeFeeParams

record NativeFeeTransactionParams =
  nt_envelope_bytes :: u32
  nt_payload_bytes :: u32

section \<open>Pieces of the operation models\<close>

definition quantum :: "bool \<Rightarrow> u32" where
  "quantum v = (if v then 1 else 0)"

definition storage_quanta_for :: "u32 \<Rightarrow> u32" where
  "storage_quanta_for row_bytes = word_of_int ((uint row_bytes + 1023) div 1024)"

definition phantasma_canonical_rom_bytes :: "u32 \<Rightarrow> u32 result" where
  "phantasma_canonical_rom_bytes public_rom_bytes =
     bind_result (checked_mul public_rom_bytes 2) (\<lambda>d. checked_add d PHANTASMA_CANONICAL_ROM_OVERHEAD)"

text \<open>\<open>storage_quanta_for(overhead + bytes)\<close>\<close>

definition row_quanta :: "u32 \<Rightarrow> u32 \<Rightarrow> u32 result" where
  "row_quanta overhead n = bind_result (checked_add overhead n) (\<lambda>row. Ok (storage_quanta_for row))"

definition mul_shift :: "u64 \<Rightarrow> u64 \<Rightarrow> u8 \<Rightarrow> u64" where
  "mul_shift v multiplier shift =
     (if 64 \<le> shift then 0
      else let wide = (uint v * uint multiplier) div 2 ^ unat shift
        in if wide < 2 ^ 64 then word_of_int wide else - 1)"

definition symbol_shift :: "u32 \<Rightarrow> u8 \<Rightarrow> u32 result" where
  "symbol_shift len max_length =
     (if len = 0 then Ok 0
      else let shift = len - 1
        in if max_length \<noteq> 0 \<and> ucast max_length \<le> shift then Err (Builder ''estimate_native_fee: '')
           else if MAX_PRICEABLE_LENGTH < len then Err (Builder ''estimate_native_fee: '')
           else Ok shift)"

text \<open>\<open>price >> shift\<close> for a shift below 64, which \<open>symbol_shift\<close> guarantees.\<close>

definition shift_price :: "u64 \<Rightarrow> u32 \<Rightarrow> u64" where
  "shift_price price shift = drop_bit (unat shift) price"

definition per_instance :: "u32 list \<Rightarrow> u32 \<Rightarrow> u32 list result" where
  "per_instance vs cnt =
     (let n = unat cnt
      in if vs = [] then Ok (replicate n 0)
         else if length vs = 1 then Ok (replicate n (hd vs))
         else if length vs = n then Ok vs
         else Err (Builder ''estimate_native_fee: ''))"

definition distinct_series :: "NativeFeeParams \<Rightarrow> u32 \<Rightarrow> u32 result" where
  "distinct_series params cnt =
     (let d = (case np_distinct_series_count params of None \<Rightarrow> 1 | Some d \<Rightarrow> d)
      in if d < 1 \<or> cnt < d
         then Err (Builder ''estimate_native_fee: distinct_series_count must be between 1 and '')
         else Ok d)"

definition is_free_token :: "GasConfig \<Rightarrow> u64 option \<Rightarrow> bool" where
  "is_free_token config token_id =
     (case token_id of None \<Rightarrow> False
      | Some i \<Rightarrow> i = gc_gas_token_id config \<or> i = gc_data_token_id config)"

text \<open>One returned asset, added to the model of the assets before it.\<close>

definition return_asset :: "GasConfig \<Rightarrow> InfusedAsset \<Rightarrow> OperationModel \<Rightarrow> OperationModel result" where
  "return_asset config asset model =
     (let free_rows = is_free_token config (ia_token_id asset);
          balance_row = quantum (\<not> ia_burner_holds_token asset \<and> \<not> free_rows)
      in if ia_non_fungible asset then
           (let instances = (case ia_instance_count asset of None \<Rightarrow> 1 | Some n \<Rightarrow> n)
            in if instances = 0
               then Err (Builder ''estimate_native_fee: instance_count of a returned NFT token must be a positive integer'')
               else let work = sat_add (om_work_units model)
                          (sat_add (sat_mul (gc_gas_fee_query config) 2)
                             (sat_mul (gc_gas_fee_transfer config) (ucast instances)))
                 in bind_result (checked_add balance_row instances) (\<lambda>n.
                    bind_result (checked_add (om_new_quanta model) n) (\<lambda>new.
                    bind_result (checked_add 1 instances) (\<lambda>m.
                    bind_result (checked_add (om_deleted_quanta model) m) (\<lambda>deleted.
                      Ok (model\<lparr>om_work_units := work, om_new_quanta := new, om_deleted_quanta := deleted\<rparr>))))))
         else
           (let work = sat_add (om_work_units model)
                  (sat_add (gc_gas_fee_transfer config) (gc_gas_fee_query config))
            in bind_result (checked_add (om_new_quanta model) balance_row) (\<lambda>new.
               bind_result (checked_add (om_deleted_quanta model) (quantum (\<not> free_rows))) (\<lambda>deleted.
                 Ok (model\<lparr>om_work_units := work, om_new_quanta := new, om_deleted_quanta := deleted\<rparr>)))))"

primrec return_assets :: "GasConfig \<Rightarrow> InfusedAsset list \<Rightarrow> OperationModel \<Rightarrow> OperationModel result" where
  "return_assets config [] model = Ok model"
| "return_assets config (a # as) model = bind_result (return_asset config a model) (return_assets config as)"

definition returned_assets :: "NativeFeeParams \<Rightarrow> GasConfig \<Rightarrow> OperationModel result" where
  "returned_assets params config =
     return_assets config (case np_infusions params of None \<Rightarrow> [] | Some as \<Rightarrow> as) default_operation"

text \<open>
  The rows of one NFT instance: the instance row with its ROM, a fixed number of small rows,
  the RAM row when RAM is given, and the meta-id row when it is counted.
\<close>

definition add_instance_rows :: "u32 \<Rightarrow> bool \<Rightarrow> (u32 \<Rightarrow> u32 result) \<Rightarrow> u32 \<Rightarrow> u32 \<Rightarrow> u32 \<Rightarrow> u32 result" where
  "add_instance_rows small meta_id stored_rom rom ram quanta =
     bind_result (stored_rom rom) (\<lambda>stored.
     bind_result (row_quanta NFT_INSTANCE_ROW_OVERHEAD stored) (\<lambda>row.
     bind_result (checked_add row small) (\<lambda>rows.
     bind_result (checked_add quanta rows) (\<lambda>q.
     bind_result (if ram > 0 then bind_result (row_quanta NFT_RAM_ROW_OVERHEAD ram) (checked_add q) else Ok q) (\<lambda>q.
       if meta_id then checked_add q 1 else Ok q)))))"

primrec instance_rows ::
    "u32 \<Rightarrow> bool \<Rightarrow> (u32 \<Rightarrow> u32 result) \<Rightarrow> (u32 \<times> u32) list \<Rightarrow> u32 \<Rightarrow> u32 result" where
  "instance_rows small meta_id stored_rom [] quanta = Ok quanta"
| "instance_rows small meta_id stored_rom (i # is) quanta =
     bind_result (add_instance_rows small meta_id stored_rom (fst i) (snd i) quanta)
       (instance_rows small meta_id stored_rom is)"

section \<open>The operation models\<close>

definition recipient_row :: "GasConfig \<Rightarrow> NativeFeeParams \<Rightarrow> u32" where
  "recipient_row config params =
     quantum (\<not> np_recipient_holds_token params \<and> \<not> is_free_token config (np_token_id params))"

definition burnt_row :: "GasConfig \<Rightarrow> NativeFeeParams \<Rightarrow> u32" where
  "burnt_row config params =
     quantum (\<not> np_token_burned_before params \<and> \<not> is_free_token config (np_token_id params))"

definition supply_row :: "GasConfig \<Rightarrow> NativeFeeParams \<Rightarrow> u32" where
  "supply_row config params =
     quantum (\<not> np_supply_row_exists params \<and> \<not> is_free_token config (np_token_id params))"

text \<open>\<open>unwrap_or(true)\<close>\<close>

definition unwrap_true :: "bool option \<Rightarrow> bool" where
  "unwrap_true b = (case b of None \<Rightarrow> True | Some b \<Rightarrow> b)"

definition balance_result_bytes :: "NativeFeeParams \<Rightarrow> u32" where
  "balance_result_bytes params =
     (if unwrap_true (np_big_fungible params)
      then INTX_BIG_RESULT_BYTES else INTX_SMALL_RESULT_BYTES)"

definition infusion_query :: "GasConfig \<Rightarrow> NativeFeeParams \<Rightarrow> u64" where
  "infusion_query config params = (if np_to_is_nft_address params then gc_gas_fee_query config else 0)"

definition model_transfer_nft :: "GasConfig \<Rightarrow> NativeFeeParams \<Rightarrow> u32 \<Rightarrow> OperationModel result" where
  "model_transfer_nft config params cnt =
     bind_result (checked_add cnt (recipient_row config params)) (\<lambda>new.
       Ok (default_operation
         \<lparr>om_work_units := sat_add (sat_mul (gc_gas_fee_transfer config) (ucast cnt)) (infusion_query config params),
          om_new_quanta := new, om_deleted_quanta := cnt\<rparr>))"

definition model_mint_nft :: "GasConfig \<Rightarrow> NativeFeeParams \<Rightarrow> u32 \<Rightarrow> OperationModel result" where
  "model_mint_nft config params cnt =
     bind_result (per_instance (np_rom_bytes params) cnt) (\<lambda>roms.
     bind_result (per_instance (np_ram_bytes params) cnt) (\<lambda>rams.
     bind_result (instance_rows 2 (unwrap_true (np_rom_has_meta_id params)) Ok (zip roms rams)
         (recipient_row config params + supply_row config params)) (\<lambda>quanta.
     bind_result (bind_result (checked_mul 8 cnt) (checked_add 4)) (\<lambda>result_bytes.
       Ok (default_operation
         \<lparr>om_work_units := sat_add (sat_mul (gc_gas_fee_transfer config) (ucast cnt)) (infusion_query config params),
          om_result_bytes := result_bytes, om_new_quanta := quanta\<rparr>)))))"

definition model_mint_phantasma_nft :: "GasConfig \<Rightarrow> NativeFeeParams \<Rightarrow> u32 \<Rightarrow> OperationModel result" where
  "model_mint_phantasma_nft config params cnt =
     bind_result (per_instance (np_rom_bytes params) cnt) (\<lambda>roms.
     bind_result (per_instance (np_ram_bytes params) cnt) (\<lambda>rams.
     bind_result (instance_rows 3 False phantasma_canonical_rom_bytes (zip roms rams)
         (recipient_row config params + supply_row config params)) (\<lambda>quanta.
     let duplicated = unwrap_true (np_duplicated_series params);
         per_query = (if duplicated then 3 else 2 :: u64)
     in bind_result (if duplicated then bind_result (distinct_series params cnt) (\<lambda>d. Ok (ucast d)) else Ok 0)
          (\<lambda>supply_queries :: u64.
        let query = gc_gas_fee_query config;
            work = sat_add (sat_add (sat_mul (sat_add (gc_gas_fee_transfer config) (sat_mul query per_query))
                     (ucast cnt)) (sat_mul query supply_queries)) (infusion_query config params)
        in bind_result (bind_result (checked_mul 40 cnt) (checked_add 4)) (\<lambda>result_bytes.
             Ok (default_operation
               \<lparr>om_work_units := work, om_result_bytes := result_bytes, om_new_quanta := quanta\<rparr>))))))"

definition model_burn_nft :: "GasConfig \<Rightarrow> NativeFeeParams \<Rightarrow> u32 \<Rightarrow> OperationModel result" where
  "model_burn_nft config params cnt =
     bind_result (per_instance (np_rom_bytes params) cnt) (\<lambda>roms.
     bind_result (per_instance (np_ram_bytes params) cnt) (\<lambda>rams.
     bind_result (instance_rows 2 (unwrap_true (np_rom_has_meta_id params)) Ok (zip roms rams) 0) (\<lambda>deleted.
     bind_result (returned_assets params config) (\<lambda>returned.
     bind_result (add_all (burnt_row config params) [Ok (supply_row config params), Ok (om_new_quanta returned)])
       (\<lambda>new.
     bind_result (checked_add deleted (om_deleted_quanta returned)) (\<lambda>deleted.
       Ok (default_operation
         \<lparr>om_work_units := sat_add (sat_mul (sat_add (gc_gas_fee_transfer config)
              (sat_mul (gc_gas_fee_query config) 2)) (ucast cnt)) (om_work_units returned),
          om_new_quanta := new, om_deleted_quanta := deleted\<rparr>)))))))"

definition model_create_token :: "GasConfig \<Rightarrow> NativeFeeParams \<Rightarrow> OperationModel result" where
  "model_create_token config params =
     bind_result (symbol_shift (np_symbol_length params) (gc_max_token_symbol_length config)) (\<lambda>shift.
     let has_symbol = (np_symbol_length params > 0)
     in bind_result (add_all (quantum has_symbol)
          [row_quanta TOKEN_INFO_KEY_BYTES (np_token_info_bytes params), Ok 1,
           Ok (quantum (np_non_fungible params)), Ok (quantum (np_has_pre_burn params)),
           Ok (quantum (np_has_inflation_schedule params))]) (\<lambda>quanta.
        let v2 = has_gas_model_v2 config;
            base = (if v2 then gc_policy_fee_create_token_base config else gc_gas_fee_create_token_base config);
            symbol_price = (if v2 then gc_policy_fee_create_token_symbol config
                            else gc_gas_fee_create_token_symbol config);
            symbol = (if has_symbol then shift_price symbol_price shift else 0);
            metadata_queries = sat_mul (gc_gas_fee_query config)
              (ucast (quantum (np_has_staking_organisation params) + quantum (np_has_staking_reward_token params)))
        in Ok \<lparr>om_work_units = (if v2 then metadata_queries else sat_add (sat_add base symbol) metadata_queries),
               om_policy_fee = (if v2 then sat_add base symbol else 0),
               om_result_bytes = 8, om_new_quanta = quanta, om_deleted_quanta = 0\<rparr>))"

definition model_create_series :: "GasConfig \<Rightarrow> NativeFeeParams \<Rightarrow> OperationModel result" where
  "model_create_series config params =
     (let v2 = has_gas_model_v2 config
      in bind_result (row_quanta SERIES_INFO_KEY_BYTES (np_series_info_bytes params)) (\<lambda>row.
         bind_result (add_all row [Ok 1, Ok (quantum (unwrap_true (np_series_has_meta_id params)))]) (\<lambda>quanta.
           Ok \<lparr>om_work_units = (if v2 then 0 else gc_gas_fee_create_token_series config),
               om_policy_fee = (if v2 then gc_policy_fee_create_token_series config else 0),
               om_result_bytes = 4, om_new_quanta = quanta, om_deleted_quanta = 0\<rparr>)))"

definition model_register_name :: "GasConfig \<Rightarrow> NativeFeeParams \<Rightarrow> OperationModel result" where
  "model_register_name config params =
     (if np_name_length params = 0
      then Err (Builder ''estimate_native_fee: name_length is required for RegisterName'')
      else bind_result (symbol_shift (np_name_length params) (gc_max_name_length config)) (\<lambda>shift.
        let v2 = has_gas_model_v2 config
        in Ok (default_operation
          \<lparr>om_work_units := (if v2 then 0 else shift_price (gc_gas_fee_register_name config) shift),
           om_policy_fee := (if v2 then shift_price (gc_policy_fee_register_name config) shift else 0)\<rparr>)))"

definition model_script :: "NativeFeeParams \<Rightarrow> OperationModel" where
  "model_script params =
     default_operation
       \<lparr>om_work_units := (case np_script_units_allowance params of None \<Rightarrow> DEFAULT_SCRIPT_UNITS_ALLOWANCE | Some u \<Rightarrow> u),
        om_result_bytes := (case np_script_event_bytes params of None \<Rightarrow> DEFAULT_SCRIPT_EVENT_BYTES | Some b \<Rightarrow> b),
        om_new_quanta := (case np_script_storage_quanta params of None \<Rightarrow> DEFAULT_SCRIPT_STORAGE_QUANTA | Some q \<Rightarrow> q)\<rparr>"

definition operation_model ::
    "NativeFeeKind \<Rightarrow> GasConfig \<Rightarrow> NativeFeeParams \<Rightarrow> u32 \<Rightarrow> OperationModel result" where
  "operation_model kind config params cnt =
     (case kind of
        FK_TransferFungible \<Rightarrow>
          Ok (default_operation
            \<lparr>om_work_units := sat_add (gc_gas_fee_transfer config) (infusion_query config params),
             om_new_quanta := recipient_row config params\<rparr>)
      | FK_TransferNonFungible \<Rightarrow> model_transfer_nft config params cnt
      | FK_MintFungible \<Rightarrow>
          Ok (default_operation
            \<lparr>om_work_units := sat_add (gc_gas_fee_transfer config) (infusion_query config params),
             om_result_bytes := balance_result_bytes params,
             om_new_quanta := recipient_row config params + supply_row config params\<rparr>)
      | FK_BurnFungible \<Rightarrow>
          Ok (default_operation
            \<lparr>om_work_units := gc_gas_fee_transfer config,
             om_result_bytes := balance_result_bytes params,
             om_new_quanta := burnt_row config params + supply_row config params\<rparr>)
      | FK_MintNonFungible \<Rightarrow> model_mint_nft config params cnt
      | FK_MintPhantasmaNonFungible \<Rightarrow> model_mint_phantasma_nft config params cnt
      | FK_BurnNonFungible \<Rightarrow> model_burn_nft config params cnt
      | FK_CreateToken \<Rightarrow> model_create_token config params
      | FK_CreateTokenSeries \<Rightarrow> model_create_series config params
      | FK_RegisterName \<Rightarrow> model_register_name config params
      | FK_Script \<Rightarrow> Ok (model_script params))"

definition part_model :: "GasConfig \<Rightarrow> NativeFeePart \<Rightarrow> OperationModel result" where
  "part_model config part =
     (let cnt = (case np_count (fp_params part) of None \<Rightarrow> 1 | Some n \<Rightarrow> n)
      in if cnt = 0 then Err (Builder ''estimate_native_fee: count must be a positive integer'')
         else operation_model (fp_kind part) config (fp_params part) cnt)"

section \<open>Settlement\<close>

definition add_model :: "OperationModel \<Rightarrow> OperationModel \<Rightarrow> OperationModel" where
  "add_model model totals =
     \<lparr>om_work_units = sat_add (om_work_units totals) (om_work_units model),
      om_policy_fee = sat_add (om_policy_fee totals) (om_policy_fee model),
      om_result_bytes = sat_add (om_result_bytes totals) (om_result_bytes model),
      om_new_quanta = sat_add (om_new_quanta totals) (om_new_quanta model),
      om_deleted_quanta = sat_add (om_deleted_quanta totals) (om_deleted_quanta model)\<rparr>"

definition total_model :: "OperationModel list \<Rightarrow> OperationModel" where
  "total_model models = fold add_model models default_operation"

text \<open>The bill and the offer of the totals, under the gas model the configuration selects.\<close>

definition bill_and_offer :: "GasConfig \<Rightarrow> NativeFeeTransactionParams \<Rightarrow> OperationModel \<Rightarrow> (u64 \<times> u64) result" where
  "bill_and_offer config transaction totals =
     (let net_quanta = sat_sub (om_new_quanta totals) (om_deleted_quanta totals)
      in if has_gas_model_v2 config then
           (if nt_envelope_bytes transaction = 0
            then Err (Builder ''estimate_native_fee: envelope_bytes is required under gas model v2'')
            else let block_data = ucast (nt_envelope_bytes transaction) + ucast net_quanta
                       + ucast (om_result_bytes totals) :: u64;
                     byte_units = sat_mul block_data GAS_MODEL_V2_UNITS_PER_BLOCK_DATA_BYTE;
                     bill = sat_add (mul_shift (sat_add (om_work_units totals) byte_units)
                              (gc_fee_multiplier config) (gc_fee_shift config)) (om_policy_fee totals);
                     expected = max bill (gc_minimum_gas_bill config)
              in Ok (expected, max expected (gc_minimum_gas_offer config)))
         else
           (let work = mul_shift (om_work_units totals) (gc_fee_multiplier config) (gc_fee_shift config);
                block_data = ucast (nt_payload_bytes transaction) + ucast (om_result_bytes totals)
                  + ucast net_quanta :: u64;
                expected = sat_add work (sat_mul block_data (gc_gas_fee_per_byte config));
                byte_allowance = max block_data 1024
            in Ok (expected,
                 sat_add (sat_add (sat_mul (gc_minimum_gas_offer config) 2) work)
                   (sat_mul byte_allowance (gc_gas_fee_per_byte config)))))"

definition settle ::
    "OperationModel list \<Rightarrow> GasConfig \<Rightarrow> NativeFeeTransactionParams \<Rightarrow> NativeFeeEstimate result" where
  "settle models config transaction =
     (let totals = total_model models
      in bind_result (bill_and_offer config transaction totals) (\<lambda>(expected, max_gas).
           Ok \<lparr>fe_max_gas = max_gas,
               fe_max_data = sat_mul (ucast (om_new_quanta totals)) (gc_data_escrow_per_row config),
               fe_expected_gas_bill = expected,
               fe_new_storage_quanta = om_new_quanta totals,
               fe_deleted_storage_quanta = om_deleted_quanta totals\<rparr>))"

definition estimate_native_fee_batch ::
    "NativeFeePart list \<Rightarrow> GasConfig \<Rightarrow> NativeFeeTransactionParams \<Rightarrow> NativeFeeEstimate result" where
  "estimate_native_fee_batch parts config transaction =
     bind_result (collect_result (part_model config) parts) (\<lambda>models. settle models config transaction)"

definition estimate_native_fee ::
    "NativeFeeKind \<Rightarrow> GasConfig \<Rightarrow> NativeFeeParams \<Rightarrow> NativeFeeEstimate result" where
  "estimate_native_fee kind config params =
     estimate_native_fee_batch [\<lparr>fp_kind = kind, fp_params = params\<rparr>] config
       \<lparr>nt_envelope_bytes = np_envelope_bytes params, nt_payload_bytes = np_payload_bytes params\<rparr>"

definition envelope_bytes_for :: "NativeFeeKind \<Rightarrow> u32 \<Rightarrow> u32 \<Rightarrow> u32 result" where
  "envelope_bytes_for kind serialized_message_length witness_count =
     (if uses_bare_signatures kind
      then bind_result (checked_mul NATIVE_SIGNATURE_BYTES witness_count) (checked_add serialized_message_length)
      else bind_result (checked_add serialized_message_length 4) (\<lambda>n.
           bind_result (checked_mul WITNESS_ARRAY_ENTRY_BYTES witness_count) (checked_add n)))"


section \<open>Saturating arithmetic on the integers\<close>

text \<open>The saturating operations clamp the exact result to the range of the type.\<close>

lemma uint_minus_one: "uint (- 1 :: 'a::len word) = 2 ^ LENGTH('a) - 1"
  by (simp add: unsigned_minus_1_eq_mask mask_eq_exp_minus_1)

lemma uint_sat_add: "uint (sat_add a b) = min (2 ^ LENGTH('a) - 1) (uint a + uint (b :: 'a::len word))"
  by (auto simp add: sat_add_def uint_minus_one uint_word_ariths(1,3) min_def mod_pos_pos_trivial)

lemma uint_sat_mul: "uint (sat_mul a b) = min (2 ^ LENGTH('a) - 1) (uint a * uint (b :: 'a::len word))"
  by (auto simp add: sat_mul_def uint_minus_one uint_word_ariths(1,3) min_def mod_pos_pos_trivial)

lemma uint_sat_sub: "uint (sat_sub a b) = max 0 (uint a - uint (b :: 'a::len word))"
  using uint_lt2p [of a]
  by (auto simp add: sat_sub_def word_le_def uint_sub_lem max_def)

lemma uint_bounded_max: "uint (a :: 'a::len word) \<le> 2 ^ LENGTH('a) - 1"
  using uint_lt2p [of a] by simp

lemma checked_add_eq_Ok:
  "checked_add a b = Ok c \<longleftrightarrow> uint c = uint a + uint (b :: 'a::len word) \<and> uint a + uint b < 2 ^ LENGTH('a)"
  by (auto simp add: checked_add_def uint_word_ariths word_uint_eq_iff mod_pos_pos_trivial)

lemma checked_mul_eq_Ok:
  "checked_mul a b = Ok c \<longleftrightarrow> uint c = uint a * uint (b :: 'a::len word) \<and> uint a * uint b < 2 ^ LENGTH('a)"
  by (auto simp add: checked_mul_def uint_word_ariths word_uint_eq_iff mod_pos_pos_trivial)

lemma sat_add_commute: "sat_add a b = sat_add b a"
  by (simp add: word_uint_eq_iff uint_sat_add add.commute)

lemma sat_add_left_commute: "sat_add a (sat_add b c) = sat_add b (sat_add a c)"
proof -
  have "0 \<le> uint a" "0 \<le> uint b" "0 \<le> uint c"
    by simp_all
  then have "uint (sat_add a (sat_add b c)) = uint (sat_add b (sat_add a c))"
    unfolding uint_sat_add by linarith
  then show ?thesis
    by (simp add: word_uint_eq_iff)
qed


lemma sat_add_mono: "a \<le> a' \<Longrightarrow> b \<le> b' \<Longrightarrow> sat_add a b \<le> sat_add a' b'"
  by (simp add: word_le_def uint_sat_add add_mono min.coboundedI2)

lemma sat_mul_mono: "a \<le> a' \<Longrightarrow> b \<le> b' \<Longrightarrow> sat_mul a b \<le> sat_mul a' b'"
  by (simp add: word_le_def uint_sat_mul mult_mono min.coboundedI2)

lemma sat_sub_mono: "a \<le> a' \<Longrightarrow> b' \<le> b \<Longrightarrow> sat_sub a b \<le> sat_sub a' b'"
  by (simp add: word_le_def uint_sat_sub)

lemma sat_add_self: "a \<le> sat_add a b" "b \<le> sat_add a b"
  using uint_bounded_max [of a] uint_bounded_max [of b] by (simp_all add: word_le_def uint_sat_add)

lemma uint_mul_shift:
  "uint (mul_shift v m s) =
     (if s < 64 then min (2 ^ 64 - 1) ((uint v * uint m) div 2 ^ unat s) else 0)"
  by (simp add: mul_shift_def Let_def uint_minus_one uint_word_of_int_eq take_bit_int_eq_self
        pos_imp_zdiv_nonneg_iff min_def linorder_not_less)

lemma mul_shift_mono: "v \<le> v' \<Longrightarrow> mul_shift v m s \<le> mul_shift v' m s"
  by (auto simp add: word_le_def uint_mul_shift intro!: min.coboundedI2 zdiv_mono1 mult_right_mono)

lemma ucast_u32_u64: "uint (ucast (w :: u32) :: u64) = uint w"
  by (simp add: unsigned_ucast_eq take_bit_int_eq_self_iff) (use uint_lt2p [of w] in simp)

lemma ucast_u32_mono: "a \<le> b \<Longrightarrow> (ucast (a :: u32) :: u64) \<le> ucast b"
  by (simp add: word_le_def ucast_u32_u64)

text \<open>The block-data sum of three \<open>u32\<close> values never leaves \<open>u64\<close>.\<close>

lemma uint_sum3:
  "uint (ucast (a :: u32) + ucast (b :: u32) + ucast (c :: u32) :: u64) = uint a + uint b + uint c"
  using uint_lt2p [of a] uint_lt2p [of b] uint_lt2p [of c]
  by (simp add: uint_word_ariths(1) ucast_u32_u64 mod_pos_pos_trivial)

lemma sum3_mono:
  "a \<le> a' \<Longrightarrow> b \<le> b' \<Longrightarrow> c \<le> c' \<Longrightarrow>
   (ucast (a :: u32) + ucast (b :: u32) + ucast (c :: u32) :: u64) \<le> ucast a' + ucast b' + ucast c'"
  by (simp add: word_le_def uint_sum3)

lemmas fee_monos = sat_add_mono sat_mul_mono sat_sub_mono mul_shift_mono sum3_mono max.mono ucast_u32_mono

lemma uint_max_word: "uint (max a b) = max (uint a) (uint (b :: 'a::len word))"
  by (simp add: max_def word_le_def)


section \<open>Settlement\<close>

lemma settle_eq_Ok:
  "settle models config transaction = Ok e \<longleftrightarrow>
     (\<exists>expected max_gas. bill_and_offer config transaction (total_model models) = Ok (expected, max_gas) \<and>
        e = \<lparr>fe_max_gas = max_gas,
             fe_max_data = sat_mul (ucast (om_new_quanta (total_model models))) (gc_data_escrow_per_row config),
             fe_expected_gas_bill = expected,
             fe_new_storage_quanta = om_new_quanta (total_model models),
             fe_deleted_storage_quanta = om_deleted_quanta (total_model models)\<rparr>)"
  by (auto simp add: settle_def Let_def bind_result_eq_Ok)

lemma bill_and_offer_covers:
  assumes "bill_and_offer config transaction totals = Ok (expected, offer)"
  shows "expected \<le> offer" "gc_minimum_gas_offer config \<le> offer"
proof -
  have 1: "gc_minimum_gas_offer config \<le> sat_mul (gc_minimum_gas_offer config) 2"
    using uint_bounded_max [of "gc_minimum_gas_offer config"] by (simp add: word_le_def uint_sat_mul)
  have 2: "sat_add w (sat_mul b f) \<le> sat_add (sat_add g w) (sat_mul (max b 1024) f)" for w b f g :: u64
    by (intro fee_monos sat_add_self) simp_all
  have 3: "gc_minimum_gas_offer config \<le> sat_add (sat_add (sat_mul (gc_minimum_gas_offer config) 2) w) x" for w x
    using 1 sat_add_self(1) by (rule order_trans [OF order_trans]) (rule sat_add_self(1))
  show "expected \<le> offer"
    using assms 2 by (auto simp add: bill_and_offer_def Let_def split: if_splits)
  show "gc_minimum_gas_offer config \<le> offer"
    using assms 3 by (auto simp add: bill_and_offer_def Let_def split: if_splits)
qed

lemma batch_offer_covers:
  assumes "estimate_native_fee_batch parts config transaction = Ok e"
  shows "fe_expected_gas_bill e \<le> fe_max_gas e" "gc_minimum_gas_offer config \<le> fe_max_gas e"
  using assms
  by (auto simp add: estimate_native_fee_batch_def bind_result_eq_Ok settle_eq_Ok bill_and_offer_covers)

text \<open>The gas offer of an estimate is never below the bill it expects, nor below the minimum
  offer of the chain, whatever the operations and under both gas models.\<close>

theorem offer_covers_bill:
  assumes "estimate_native_fee_batch parts config transaction = Ok e"
  shows "fe_expected_gas_bill e \<le> fe_max_gas e \<and> gc_minimum_gas_offer config \<le> fe_max_gas e"
  using batch_offer_covers [OF assms] by simp

text \<open>
  The settlement on unbounded integers: the totals of the parts, the gas units, the bill and the
  offer without any clamping.
\<close>

definition sum_of :: "(OperationModel \<Rightarrow> 'a::len word) \<Rightarrow> OperationModel list \<Rightarrow> int" where
  "sum_of f models = (\<Sum>m\<leftarrow>models. uint (f m))"

definition block_data_spec :: "GasConfig \<Rightarrow> NativeFeeTransactionParams \<Rightarrow> OperationModel list \<Rightarrow> int" where
  "block_data_spec config transaction models =
     uint (if has_gas_model_v2 config then nt_envelope_bytes transaction else nt_payload_bytes transaction)
       + max 0 (sum_of om_new_quanta models - sum_of om_deleted_quanta models) + sum_of om_result_bytes models"

definition units_spec :: "GasConfig \<Rightarrow> NativeFeeTransactionParams \<Rightarrow> OperationModel list \<Rightarrow> int" where
  "units_spec config transaction models =
     sum_of om_work_units models
       + (if has_gas_model_v2 config then 25 * block_data_spec config transaction models else 0)"

definition scaled_fee :: "GasConfig \<Rightarrow> int \<Rightarrow> int" where
  "scaled_fee config units = units * uint (gc_fee_multiplier config) div 2 ^ unat (gc_fee_shift config)"

definition bill_spec :: "GasConfig \<Rightarrow> NativeFeeTransactionParams \<Rightarrow> OperationModel list \<Rightarrow> int" where
  "bill_spec config transaction models =
     (let scaled = scaled_fee config (units_spec config transaction models)
      in if has_gas_model_v2 config
         then max (scaled + sum_of om_policy_fee models) (uint (gc_minimum_gas_bill config))
         else scaled + block_data_spec config transaction models * uint (gc_gas_fee_per_byte config))"

definition offer_spec :: "GasConfig \<Rightarrow> NativeFeeTransactionParams \<Rightarrow> OperationModel list \<Rightarrow> int" where
  "offer_spec config transaction models =
     (if has_gas_model_v2 config
      then max (bill_spec config transaction models) (uint (gc_minimum_gas_offer config))
      else 2 * uint (gc_minimum_gas_offer config) + scaled_fee config (units_spec config transaction models)
        + max (block_data_spec config transaction models) 1024 * uint (gc_gas_fee_per_byte config))"

text \<open>No row or result-byte total leaves \<open>u32\<close>, and the gas units stay in \<open>u64\<close>.\<close>

definition totals_fit :: "GasConfig \<Rightarrow> NativeFeeTransactionParams \<Rightarrow> OperationModel list \<Rightarrow> bool" where
  "totals_fit config transaction models \<longleftrightarrow>
     sum_of om_new_quanta models < 2 ^ 32 \<and> sum_of om_deleted_quanta models < 2 ^ 32 \<and>
     sum_of om_result_bytes models < 2 ^ 32 \<and> units_spec config transaction models < 2 ^ 64"

lemma fold_add_model:
  "om_work_units (fold add_model models t) = fold (\<lambda>m a. sat_add a (om_work_units m)) models (om_work_units t)"
  "om_policy_fee (fold add_model models t) = fold (\<lambda>m a. sat_add a (om_policy_fee m)) models (om_policy_fee t)"
  "om_result_bytes (fold add_model models t) = fold (\<lambda>m a. sat_add a (om_result_bytes m)) models (om_result_bytes t)"
  "om_new_quanta (fold add_model models t) = fold (\<lambda>m a. sat_add a (om_new_quanta m)) models (om_new_quanta t)"
  "om_deleted_quanta (fold add_model models t) = fold (\<lambda>m a. sat_add a (om_deleted_quanta m)) models (om_deleted_quanta t)"
  by (induction models arbitrary: t) (simp_all add: add_model_def)

lemma uint_fold_sat_add:
  "uint (fold (\<lambda>m a. sat_add a (f m)) ms (z :: 'a::len word)) =
     min (2 ^ LENGTH('a) - 1) (uint z + (\<Sum>m\<leftarrow>ms. uint (f m)))"
proof (induction ms arbitrary: z)
  case Nil
  then show ?case using uint_bounded_max [of z] by simp
next
  case (Cons m ms)
  have "0 \<le> (\<Sum>m\<leftarrow>ms. uint (f m))"
    by (rule sum_list_nonneg) auto
  then show ?case
    by (simp add: Cons uint_sat_add)
qed

lemma total_model_uint:
  "uint (om_work_units (total_model ms)) = min (2 ^ 64 - 1) (sum_of om_work_units ms)"
  "uint (om_policy_fee (total_model ms)) = min (2 ^ 64 - 1) (sum_of om_policy_fee ms)"
  "uint (om_result_bytes (total_model ms)) = min (2 ^ 32 - 1) (sum_of om_result_bytes ms)"
  "uint (om_new_quanta (total_model ms)) = min (2 ^ 32 - 1) (sum_of om_new_quanta ms)"
  "uint (om_deleted_quanta (total_model ms)) = min (2 ^ 32 - 1) (sum_of om_deleted_quanta ms)"
  by (simp_all add: total_model_def fold_add_model sum_of_def uint_fold_sat_add default_operation_def)


lemma sum_of_nonneg [simp]: "0 \<le> sum_of f models"
  unfolding sum_of_def by (rule sum_list_nonneg) auto

lemma block_data_spec_nonneg [simp]: "0 \<le> block_data_spec config transaction models"
  by (simp add: block_data_spec_def)

lemma scaled_fee_nonneg [simp]: "0 \<le> u \<Longrightarrow> 0 \<le> scaled_fee config u"
  by (simp add: scaled_fee_def pos_imp_zdiv_nonneg_iff)

lemma units_spec_nonneg [simp]: "0 \<le> units_spec config transaction models"
  by (simp add: units_spec_def)

lemma totals_fitD:
  assumes "totals_fit config transaction models"
  shows "uint (om_work_units (total_model models)) = sum_of om_work_units models"
    "uint (om_result_bytes (total_model models)) = sum_of om_result_bytes models"
    "uint (om_new_quanta (total_model models)) = sum_of om_new_quanta models"
    "uint (om_deleted_quanta (total_model models)) = sum_of om_deleted_quanta models"
  using assms block_data_spec_nonneg [of config transaction models]
  by (auto simp add: totals_fit_def total_model_uint units_spec_def split: if_splits
        simp del: block_data_spec_nonneg)

lemma block_data_total:
  assumes "totals_fit config transaction models"
  shows "has_gas_model_v2 config \<Longrightarrow>
      uint (ucast (nt_envelope_bytes transaction)
        + ucast (sat_sub (om_new_quanta (total_model models)) (om_deleted_quanta (total_model models)))
        + ucast (om_result_bytes (total_model models)) :: u64) = block_data_spec config transaction models"
    and "\<not> has_gas_model_v2 config \<Longrightarrow>
      uint (ucast (nt_payload_bytes transaction) + ucast (om_result_bytes (total_model models))
        + ucast (sat_sub (om_new_quanta (total_model models)) (om_deleted_quanta (total_model models))) :: u64)
        = block_data_spec config transaction models"
  by (simp_all add: uint_sum3 uint_sat_sub totals_fitD [OF assms] block_data_spec_def)

lemma uint_scaled_total:
  assumes "uint v = units" "gc_fee_shift config < 64"
  shows "uint (mul_shift v (gc_fee_multiplier config) (gc_fee_shift config)) = min (2 ^ 64 - 1) (scaled_fee config units)"
  using assms by (simp add: uint_mul_shift scaled_fee_def)

lemma clamp_add: "0 \<le> M \<Longrightarrow> 0 \<le> a \<Longrightarrow> 0 \<le> b \<Longrightarrow> min M (min M a + min M b) = min M (a + b)" for a b M :: int
  by linarith

lemma clamp_max: "b \<le> M \<Longrightarrow> max (min M a) b = min M (max a b)" for a b M :: int
  by linarith

lemma bill_and_offer_spec:
  assumes fit: "totals_fit config transaction models" and shift: "gc_fee_shift config < 64"
    and env: "has_gas_model_v2 config \<longrightarrow> nt_envelope_bytes transaction \<noteq> 0"
  shows "\<exists>expected offer. bill_and_offer config transaction (total_model models) = Ok (expected, offer) \<and>
    uint expected = min (2 ^ 64 - 1) (bill_spec config transaction models) \<and>
    uint offer = min (2 ^ 64 - 1) (offer_spec config transaction models)"
proof (cases "has_gas_model_v2 config")
  case True
  let ?block = "ucast (nt_envelope_bytes transaction)
        + ucast (sat_sub (om_new_quanta (total_model models)) (om_deleted_quanta (total_model models)))
        + ucast (om_result_bytes (total_model models)) :: u64"
  have clamp: "0 \<le> a \<Longrightarrow> 0 \<le> b \<Longrightarrow> a + 25 * b < 2 ^ 64 \<Longrightarrow>
      min (2 ^ 64 - 1) (a + min (2 ^ 64 - 1) (b * 25)) = a + 25 * b" for a b :: int
    by linarith
  have units: "uint (sat_add (om_work_units (total_model models)) (sat_mul ?block 25)) = units_spec config transaction models"
    using fit by (simp add: uint_sat_add uint_sat_mul block_data_total(1) [OF fit True] totals_fitD [OF fit]
          totals_fit_def units_spec_def True clamp [simplified])
  show ?thesis
    using env uint_scaled_total [OF units shift] uint_bounded_max [of "gc_minimum_gas_bill config"]
      uint_bounded_max [of "gc_minimum_gas_offer config"]
    by (auto simp add: bill_and_offer_def Let_def True GAS_MODEL_V2_UNITS_PER_BLOCK_DATA_BYTE_def
          uint_max_word uint_sat_add total_model_uint clamp_add clamp_max bill_spec_def offer_spec_def)
next
  case False
  show ?thesis
    using uint_scaled_total [OF _ shift, of "om_work_units (total_model models)" "units_spec config transaction models"]
    by (auto simp add: bill_and_offer_def Let_def False uint_max_word uint_sat_add uint_sat_mul
          totals_fitD [OF fit] units_spec_def bill_spec_def offer_spec_def block_data_total(2) [OF fit False]
          clamp_add mult_nonneg_nonneg le_max_iff_disj mult.commute [of 2])
qed


text \<open>C15: An estimate is the settlement on unbounded integers, clamped to \<open>u64\<close> at the end: when the
  totals of rows, result bytes and gas units fit their types, no intermediate saturation shows in the bill,
  the offer or the escrow ceiling.\<close>

theorem estimate_refines_integer_settlement:
  assumes "collect_result (part_model config) parts = Ok models"
    and "totals_fit config transaction models" and "gc_fee_shift config < 64"
    and "has_gas_model_v2 config \<longrightarrow> nt_envelope_bytes transaction \<noteq> 0"
  shows "\<exists>e. estimate_native_fee_batch parts config transaction = Ok e \<and>
    uint (fe_expected_gas_bill e) = min (2 ^ 64 - 1) (bill_spec config transaction models) \<and>
    uint (fe_max_gas e) = min (2 ^ 64 - 1) (offer_spec config transaction models) \<and>
    uint (fe_max_data e) =
      min (2 ^ 64 - 1) (sum_of om_new_quanta models * uint (gc_data_escrow_per_row config))"
proof -
  obtain expected offer where
    "bill_and_offer config transaction (total_model models) = Ok (expected, offer)"
    "uint expected = min (2 ^ 64 - 1) (bill_spec config transaction models)"
    "uint offer = min (2 ^ 64 - 1) (offer_spec config transaction models)"
    using bill_and_offer_spec [OF assms(2-4)] by blast
  then show ?thesis
    using assms(1)
    by (simp add: estimate_native_fee_batch_def settle_def Let_def uint_sat_mul ucast_u32_u64
          totals_fitD [OF assms(2)])
qed

text \<open>
  The chain scales every charge on its own and adds the results; the calculator scales the sum.
\<close>

lemma uint_sum_nonneg: "0 \<le> sum_list (map uint cs)" for cs :: "'a::len word list"
  by (rule sum_list_nonneg) auto

lemma uint_sum_list: "sum_list (map uint cs) < 2 ^ LENGTH('a) \<Longrightarrow> uint (sum_list cs) = sum_list (map uint cs)"
  for cs :: "'a::len word list"
proof (induction cs)
  case (Cons c cs)
  then have "sum_list (map uint cs) < 2 ^ LENGTH('a)"
    by (simp add: le_less_trans [of _ "uint c + sum_list (map uint cs)"])
  then show ?case
    using Cons by (simp add: uint_word_ariths(1) mod_pos_pos_trivial uint_sum_nonneg)
qed simp

lemma sum_of_divs_le: "0 < k \<Longrightarrow> (\<Sum>x\<leftarrow>xs. f x div k) \<le> (\<Sum>x\<leftarrow>xs. f x) div k" for k :: int
proof (induction xs)
  case (Cons x xs)
  then have "f x div k + (\<Sum>x\<leftarrow>xs. f x div k) \<le> f x div k + (\<Sum>x\<leftarrow>xs. f x) div k"
    by simp
  also have "\<dots> \<le> (f x + (\<Sum>x\<leftarrow>xs. f x)) div k"
    unfolding div_add1_eq [of "f x"] using Cons.prems by (simp add: pos_imp_zdiv_nonneg_iff)
  finally show ?case by simp
qed simp

lemma uint_le_sum_list: "c \<in> set cs \<Longrightarrow> uint c \<le> sum_list (map uint cs)"
  for cs :: "'a::len word list"
  by (induction cs) (auto intro: add_increasing add_increasing2 uint_sum_nonneg)

text \<open>Scaling the sum of the charges, as the calculator does, never gives less than scaling each
  charge and adding the results, as the chain does, and gives the same at shift zero.\<close>

theorem scaling_the_sum_covers_scaled_charges:
  fixes charges :: "u64 list"
  assumes fits: "sum_list (map uint charges) < 2 ^ 64"
    and scaled: "sum_list (map uint charges) * uint multiplier div 2 ^ unat shift < 2 ^ 64" and shift: "shift < 64"
  shows "(\<Sum>c\<leftarrow>charges. uint (mul_shift c multiplier shift)) \<le> uint (mul_shift (sum_list charges) multiplier shift) \<and>
    (shift = 0 \<longrightarrow>
      (\<Sum>c\<leftarrow>charges. uint (mul_shift c multiplier shift)) = uint (mul_shift (sum_list charges) multiplier shift))"
proof -
  let ?k = "2 ^ unat shift :: int"
  have total: "uint (mul_shift (sum_list charges) multiplier shift) = (\<Sum>c\<leftarrow>charges. uint c * uint multiplier) div ?k"
    using fits scaled shift by (simp add: uint_mul_shift uint_sum_list sum_list_mult_const)
  have each: "uint (mul_shift c multiplier shift) = uint c * uint multiplier div ?k" if "c \<in> set charges" for c
  proof -
    have "uint c * uint multiplier div ?k \<le> sum_list (map uint charges) * uint multiplier div ?k"
      using uint_le_sum_list [OF that] by (intro zdiv_mono1 mult_right_mono) auto
    then show ?thesis
      using scaled shift by (simp add: uint_mul_shift)
  qed
  have "(\<Sum>c\<leftarrow>charges. uint (mul_shift c multiplier shift)) = (\<Sum>c\<leftarrow>charges. uint c * uint multiplier div ?k)"
    using each by (intro arg_cong [where f = sum_list] map_cong) auto
  then show ?thesis
    using sum_of_divs_le [of ?k "\<lambda>c. uint c * uint multiplier" charges] total by auto
qed

section \<open>Order of the parts\<close>

lemma collect_result_eq_Ok: "collect_result f xs = Ok ys \<longleftrightarrow> map f xs = map Ok ys"
  by (induction xs arbitrary: ys) (auto simp add: bind_result_eq_Ok Cons_eq_map_conv)

lemma collect_result_permute:
  assumes "collect_result f xs = Ok ys" and "mset xs = mset xs'"
  shows "\<exists>ys'. collect_result f xs' = Ok ys' \<and> mset ys' = mset ys"
proof -
  define get where "get x = (case f x of Ok y \<Rightarrow> y | _ \<Rightarrow> undefined)" for x
  have f: "map f xs = map Ok ys"
    using assms(1) by (simp add: collect_result_eq_Ok)
  then have get: "f x = Ok (get x)" if "x \<in> set xs" for x
    using that by (auto simp add: get_def map_eq_conv list_eq_iff_nth_eq in_set_conv_nth split: result.split)
  then have "map Ok ys = map Ok (map get xs)"
    using f by (metis (mono_tags, lifting) comp_apply map_eq_conv map_map)
  then have ys: "ys = map get xs"
    by (simp add: inj_map_eq_map inj_def del: map_map)
  have "map f xs' = map Ok (map get xs')"
    using get assms(2) by (metis (mono_tags, lifting) comp_apply map_eq_conv map_map set_mset_mset)
  then show ?thesis
    using assms(2) ys by (metis collect_result_eq_Ok mset_map)
qed

lemma add_model_commute: "add_model a \<circ> add_model b = add_model b \<circ> add_model a"
  by (rule ext) (simp add: add_model_def sat_add_left_commute sat_add_commute)

lemma total_model_permute: "mset models = mset models' \<Longrightarrow> total_model models = total_model models'"
  unfolding total_model_def by (rule fun_cong [OF fold_multiset_equiv]) (simp_all add: add_model_commute)

text \<open>The order of the operations of a batch does not change its estimate.\<close>

theorem batch_order_irrelevant:
  assumes "estimate_native_fee_batch parts config transaction = Ok e" and "mset parts = mset parts'"
  shows "estimate_native_fee_batch parts' config transaction = Ok e"
proof -
  obtain models where models: "collect_result (part_model config) parts = Ok models"
    "settle models config transaction = Ok e"
    using assms(1) by (auto simp add: estimate_native_fee_batch_def bind_result_eq_Ok)
  then obtain models' where "collect_result (part_model config) parts' = Ok models'" "mset models' = mset models"
    using collect_result_permute assms(2) by blast
  then show ?thesis
    using models(2) total_model_permute [of models' models]
    by (simp add: estimate_native_fee_batch_def settle_def)
qed

section \<open>Facts left unstated\<close>

text \<open>
  A computation undercuts another when it succeeds whenever the other does, with a result that is
  related to the other's.
\<close>

definition undercuts :: "('a \<Rightarrow> 'a \<Rightarrow> bool) \<Rightarrow> 'a result \<Rightarrow> 'a result \<Rightarrow> bool" where
  "undercuts R m n \<longleftrightarrow> (\<forall>y. n = Ok y \<longrightarrow> (\<exists>x. m = Ok x \<and> R x y))"

named_theorems undercut_intros \<open>computations that cost no more on smaller inputs\<close>

lemma undercuts_Ok: "R x y \<Longrightarrow> undercuts R (Ok x) (Ok y)"
  by (simp add: undercuts_def)

lemma undercuts_Err [undercut_intros]: "undercuts R m (Err e)"
  by (simp add: undercuts_def)

lemma undercuts_bind:
  "undercuts R m n \<Longrightarrow> (\<And>x y. R x y \<Longrightarrow> undercuts S (f x) (g y)) \<Longrightarrow>
   undercuts S (bind_result m f) (bind_result n g)"
  unfolding undercuts_def bind_result_eq_Ok by metis

lemma undercuts_same: "(\<And>x. R x x) \<Longrightarrow> undercuts R m m"
  by (simp add: undercuts_def)

lemma undercuts_bind_same:
  "(\<And>x. undercuts S (f x) (g x)) \<Longrightarrow> undercuts S (bind_result m f) (bind_result m g)"
  by (simp add: undercuts_def bind_result_eq_Ok) blast

lemma undercuts_checked_add [undercut_intros]:
  "a \<le> a' \<Longrightarrow> b \<le> b' \<Longrightarrow> undercuts (\<le>) (checked_add a b) (checked_add a' (b' :: 'a::len word))"
  unfolding undercuts_def checked_add_def
  by (auto simp add: word_le_def uint_word_ariths(1) mod_pos_pos_trivial)

lemma undercuts_add_if [undercut_intros]:
  "q \<le> q' \<Longrightarrow> (b \<longrightarrow> b') \<Longrightarrow>
   undercuts (\<le>) (if b then checked_add q x else Ok q) (if b' then checked_add q' x else Ok (q' :: 'a::len word))"
  unfolding undercuts_def checked_add_def
  by (auto simp add: word_le_def uint_word_ariths(1) mod_pos_pos_trivial add_increasing2)

lemma quantum_mono: "(b \<longrightarrow> b') \<Longrightarrow> quantum b \<le> quantum b'"
  by (simp add: quantum_def)

lemma undercuts_instance_row:
  assumes "q \<le> q'" "m \<longrightarrow> m'"
  shows "undercuts (\<le>) (add_instance_rows small m stored rom ram q) (add_instance_rows small m' stored rom ram q')"
  unfolding add_instance_rows_def
proof (rule undercuts_bind [where R = "(=)"])
  show "undercuts (=) (stored rom) (stored rom)"
    by (rule undercuts_same) simp
qed (use assms in \<open>auto intro!: undercuts_bind [where R = "(\<le>)"] undercuts_same undercuts_Ok undercut_intros split: if_splits\<close>)

lemma undercuts_instance_rows [undercut_intros]:
  "q \<le> q' \<Longrightarrow> m \<longrightarrow> m' \<Longrightarrow>
   undercuts (\<le>) (instance_rows small m stored is q) (instance_rows small m' stored is q')"
proof (induction "is" arbitrary: q q')
  case (Cons i "is")
  then show ?case
    by (auto intro!: undercuts_bind [where R = "(\<le>)"] undercuts_instance_row)
qed (simp add: undercuts_Ok)


text \<open>
  \<open>states_more kind p q\<close>: the inputs \<open>q\<close> are those of \<open>p\<close> with some facts about chain state stated
  that \<open>p\<close> leaves at their defaults. The meta-id fact of a burn is excluded: it prices deleted rows.
\<close>

definition without_facts :: "NativeFeeParams \<Rightarrow> NativeFeeParams" where
  "without_facts p =
     p\<lparr>np_token_id := None, np_recipient_holds_token := False, np_big_fungible := None,
       np_token_burned_before := False, np_supply_row_exists := False, np_series_has_meta_id := None,
       np_rom_has_meta_id := None, np_duplicated_series := None\<rparr>"

definition states_more :: "NativeFeeKind \<Rightarrow> NativeFeeParams \<Rightarrow> NativeFeeParams \<Rightarrow> bool" where
  "states_more kind p q \<longleftrightarrow>
     without_facts q = without_facts p \<and>
     (np_token_id p \<noteq> None \<longrightarrow> np_token_id q = np_token_id p) \<and>
     (np_recipient_holds_token p \<longrightarrow> np_recipient_holds_token q) \<and>
     (np_token_burned_before p \<longrightarrow> np_token_burned_before q) \<and>
     (np_supply_row_exists p \<longrightarrow> np_supply_row_exists q) \<and>
     (unwrap_true (np_big_fungible q) \<longrightarrow> unwrap_true (np_big_fungible p)) \<and>
     (unwrap_true (np_series_has_meta_id q) \<longrightarrow> unwrap_true (np_series_has_meta_id p)) \<and>
     (unwrap_true (np_rom_has_meta_id q) \<longrightarrow> unwrap_true (np_rom_has_meta_id p)) \<and>
     (unwrap_true (np_duplicated_series q) \<longrightarrow> unwrap_true (np_duplicated_series p)) \<and>
     (kind = FK_BurnNonFungible \<longrightarrow> np_rom_has_meta_id q = np_rom_has_meta_id p)"

definition model_le :: "OperationModel \<Rightarrow> OperationModel \<Rightarrow> bool" where
  "model_le a b \<longleftrightarrow> om_work_units a \<le> om_work_units b \<and> om_policy_fee a \<le> om_policy_fee b \<and>
     om_result_bytes a \<le> om_result_bytes b \<and> om_new_quanta a \<le> om_new_quanta b \<and>
     om_deleted_quanta b \<le> om_deleted_quanta a"

lemma states_more_same:
  assumes "states_more kind p q"
  shows "np_count q = np_count p" "np_to_is_nft_address q = np_to_is_nft_address p"
    "np_infusions q = np_infusions p" "np_symbol_length q = np_symbol_length p"
    "np_token_info_bytes q = np_token_info_bytes p" "np_non_fungible q = np_non_fungible p"
    "np_has_pre_burn q = np_has_pre_burn p" "np_has_inflation_schedule q = np_has_inflation_schedule p"
    "np_has_staking_organisation q = np_has_staking_organisation p"
    "np_has_staking_reward_token q = np_has_staking_reward_token p"
    "np_series_info_bytes q = np_series_info_bytes p" "np_name_length q = np_name_length p"
    "np_rom_bytes q = np_rom_bytes p" "np_ram_bytes q = np_ram_bytes p"
    "np_distinct_series_count q = np_distinct_series_count p"
    "np_script_units_allowance q = np_script_units_allowance p"
    "np_script_event_bytes q = np_script_event_bytes p"
    "np_script_storage_quanta q = np_script_storage_quanta p"
  using assms by (cases p; cases q; simp add: states_more_def without_facts_def)+

lemma states_more_free: "states_more kind p q \<Longrightarrow> is_free_token config (np_token_id p) \<Longrightarrow> is_free_token config (np_token_id q)"
  by (auto simp add: states_more_def is_free_token_def)

lemma states_moreD:
  assumes "states_more kind p q"
  shows "np_recipient_holds_token p \<Longrightarrow> np_recipient_holds_token q"
    "np_token_burned_before p \<Longrightarrow> np_token_burned_before q"
    "np_supply_row_exists p \<Longrightarrow> np_supply_row_exists q"
    "unwrap_true (np_big_fungible q) \<Longrightarrow> unwrap_true (np_big_fungible p)"
    "unwrap_true (np_series_has_meta_id q) \<Longrightarrow> unwrap_true (np_series_has_meta_id p)"
    "unwrap_true (np_rom_has_meta_id q) \<Longrightarrow> unwrap_true (np_rom_has_meta_id p)"
    "unwrap_true (np_duplicated_series q) \<Longrightarrow> unwrap_true (np_duplicated_series p)"
    "kind = FK_BurnNonFungible \<Longrightarrow> np_rom_has_meta_id q = np_rom_has_meta_id p"
  using assms by (simp_all only: states_more_def)

lemma states_more_rows:
  assumes "states_more kind p q"
  shows "recipient_row config q \<le> recipient_row config p" "burnt_row config q \<le> burnt_row config p"
    "supply_row config q \<le> supply_row config p" "balance_result_bytes q \<le> balance_result_bytes p"
proof -
  show "recipient_row config q \<le> recipient_row config p" "burnt_row config q \<le> burnt_row config p"
    "supply_row config q \<le> supply_row config p"
    using states_more_free [OF assms] states_moreD [OF assms]
    unfolding recipient_row_def burnt_row_def supply_row_def by (blast intro: quantum_mono)+
  show "balance_result_bytes q \<le> balance_result_bytes p"
    using states_moreD(4) [OF assms]
    by (simp add: balance_result_bytes_def INTX_BIG_RESULT_BYTES_def INTX_SMALL_RESULT_BYTES_def)
qed

lemma infusion_query_same: "states_more kind p q \<Longrightarrow> infusion_query config q = infusion_query config p"
  by (simp add: infusion_query_def states_more_same)

text \<open>Two small row counts add without overflow.\<close>

lemma row_le_1: "recipient_row config p \<le> 1" "burnt_row config p \<le> 1" "supply_row config p \<le> 1"
  by (simp_all add: recipient_row_def burnt_row_def supply_row_def quantum_def)

lemma small_add_mono: "a \<le> a' \<Longrightarrow> b \<le> b' \<Longrightarrow> a' \<le> 1 \<Longrightarrow> b' \<le> 1 \<Longrightarrow> a + b \<le> a' + (b' :: u32)"
  by (simp add: word_le_def uint_word_ariths(1) mod_pos_pos_trivial)

lemmas quanta_add_mono = small_add_mono [OF _ _ row_le_1(1) row_le_1(3)] small_add_mono [OF _ _ row_le_1(2) row_le_1(3)]


text \<open>Each operation model costs no more when more is known.\<close>

lemma model_le_refl: "model_le m m"
  by (simp add: model_le_def)

lemma undercuts_transfer_nft:
  assumes "states_more kind p q"
  shows "undercuts model_le (model_transfer_nft config q cnt) (model_transfer_nft config p cnt)"
  unfolding model_transfer_nft_def
  by (rule undercuts_bind [OF undercuts_checked_add])
    (simp_all add: states_more_rows [OF assms] undercuts_Ok model_le_def infusion_query_same [OF assms])

lemma undercuts_mint_nft:
  assumes "states_more kind p q"
  shows "undercuts model_le (model_mint_nft config q cnt) (model_mint_nft config p cnt)"
  unfolding model_mint_nft_def states_more_same [OF assms] infusion_query_same [OF assms]
  by (intro undercuts_bind [where R = "(=)"] undercuts_bind [where R = "(\<le>)"])
    (auto intro!: undercuts_same undercuts_Ok undercuts_instance_rows quanta_add_mono
      simp add: states_more_rows [OF assms] states_moreD(6) [OF assms] model_le_def)

lemma undercuts_supply_queries:
  assumes "states_more kind p q"
  shows "undercuts (\<le>)
    (if unwrap_true (np_duplicated_series q) then bind_result (distinct_series q cnt) (\<lambda>d. Ok (ucast d :: u64)) else Ok 0)
    (if unwrap_true (np_duplicated_series p) then bind_result (distinct_series p cnt) (\<lambda>d. Ok (ucast d)) else Ok 0)"
  using states_moreD(7) [OF assms]
  by (auto simp add: distinct_series_def states_more_same [OF assms] undercuts_def)

lemma undercuts_mint_phantasma:
  assumes "states_more kind p q"
  shows "undercuts model_le (model_mint_phantasma_nft config q cnt) (model_mint_phantasma_nft config p cnt)"
  unfolding model_mint_phantasma_nft_def Let_def states_more_same [OF assms] infusion_query_same [OF assms]
  using states_moreD(7) [OF assms]
  by (intro undercuts_bind_same undercuts_bind [where R = "(\<le>)", OF undercuts_supply_queries [OF assms]]
      undercuts_bind [where R = "(\<le>)"])
    (auto intro!: undercuts_Ok undercuts_instance_rows quanta_add_mono fee_monos
      simp add: states_more_rows [OF assms] model_le_def)

lemma undercuts_add_all [undercut_intros]:
  "a \<le> a' \<Longrightarrow> b \<le> b' \<Longrightarrow> c \<le> c' \<Longrightarrow> undercuts (\<le>) (add_all a [Ok b, Ok c]) (add_all a' [Ok b', Ok c'])"
  by (auto intro!: undercuts_bind [where R = "(\<le>)"] undercuts_checked_add undercuts_Ok)

lemma undercuts_burn_nft:
  assumes "states_more FK_BurnNonFungible p q"
  shows "undercuts model_le (model_burn_nft config q cnt) (model_burn_nft config p cnt)"
  unfolding model_burn_nft_def returned_assets_def states_more_same [OF assms] states_moreD(8) [OF assms refl]
  by (intro undercuts_bind_same undercuts_bind [where R = "(\<le>)", OF undercuts_add_all])
    (auto intro!: undercuts_Ok simp add: states_more_rows [OF assms] model_le_def)

lemma undercuts_operation:
  assumes "states_more kind p q"
  shows "undercuts model_le (operation_model kind config q cnt) (operation_model kind config p cnt)"
proof (cases kind)
  case FK_CreateToken
  then show ?thesis
    by (simp add: operation_model_def model_create_token_def states_more_same [OF assms] undercuts_same model_le_refl)
next
  case FK_CreateTokenSeries
  have "undercuts (\<le>)
      (add_all row [Ok 1, Ok (quantum (unwrap_true (np_series_has_meta_id q)))])
      (add_all row [Ok 1, Ok (quantum (unwrap_true (np_series_has_meta_id p)))])" for row
    using states_moreD(5) [OF assms] by (intro undercuts_add_all quantum_mono) auto
  then show ?thesis
    unfolding FK_CreateTokenSeries operation_model_def model_create_series_def Let_def states_more_same [OF assms]
    by (simp only: NativeFeeKind.case)
      (intro undercuts_bind_same undercuts_bind [where R = "(\<le>)"];
        simp add: undercuts_Ok model_le_def del: add_all.simps)
next
  case FK_BurnNonFungible
  then show ?thesis
    using assms by (simp add: operation_model_def undercuts_burn_nft)
qed (auto simp add: operation_model_def model_register_name_def model_script_def states_more_same [OF assms]
      infusion_query_same [OF assms] undercuts_transfer_nft [OF assms] undercuts_mint_nft [OF assms]
      undercuts_mint_phantasma [OF assms] states_more_rows [OF assms] quanta_add_mono
      model_le_def intro!: undercuts_Ok undercuts_same)

lemma undercuts_collect:
  "list_all2 (\<lambda>p q. undercuts R (f q) (f p)) ps qs \<Longrightarrow>
   undercuts (list_all2 R) (collect_result f qs) (collect_result f ps)"
proof (induction rule: list_all2_induct)
  case (Cons p ps q qs)
  then show ?case
    by (auto intro!: undercuts_bind [where R = R] undercuts_bind [where R = "list_all2 R"] undercuts_Ok)
qed (simp add: undercuts_Ok)

lemma add_model_mono: "model_le a b \<Longrightarrow> model_le t u \<Longrightarrow> model_le (add_model a t) (add_model b u)"
  by (simp add: model_le_def add_model_def sat_add_mono)

lemma total_model_mono: "list_all2 model_le ms ns \<Longrightarrow> model_le (total_model ms) (total_model ns)"
proof -
  have "model_le t u \<Longrightarrow> model_le (fold add_model ms t) (fold add_model ns u)" if "list_all2 model_le ms ns" for t u
    using that by (induction arbitrary: t u rule: list_all2_induct) (auto simp add: add_model_mono)
  then show "list_all2 model_le ms ns \<Longrightarrow> model_le (total_model ms) (total_model ns)"
    by (simp add: total_model_def model_le_refl)
qed

definition estimate_le :: "NativeFeeEstimate \<Rightarrow> NativeFeeEstimate \<Rightarrow> bool" where
  "estimate_le a b \<longleftrightarrow> fe_expected_gas_bill a \<le> fe_expected_gas_bill b \<and> fe_max_gas a \<le> fe_max_gas b \<and>
     fe_max_data a \<le> fe_max_data b"

lemma undercuts_settle:
  assumes "list_all2 model_le ms ns"
  shows "undercuts estimate_le (settle ms config transaction) (settle ns config transaction)"
proof -
  have le: "om_work_units (total_model ms) \<le> om_work_units (total_model ns)"
    "om_policy_fee (total_model ms) \<le> om_policy_fee (total_model ns)"
    "om_result_bytes (total_model ms) \<le> om_result_bytes (total_model ns)"
    "om_new_quanta (total_model ms) \<le> om_new_quanta (total_model ns)"
    "om_deleted_quanta (total_model ns) \<le> om_deleted_quanta (total_model ms)"
    using total_model_mono [OF assms] by (simp_all add: model_le_def)
  have "undercuts (\<lambda>x y. fst x \<le> fst y \<and> snd x \<le> snd y) (bill_and_offer config transaction (total_model ms))
      (bill_and_offer config transaction (total_model ns))"
    unfolding bill_and_offer_def Let_def
    by (cases "has_gas_model_v2 config"; cases "nt_envelope_bytes transaction = 0")
      (simp only: if_True if_False simp_thms fst_conv snd_conv
        | intro undercuts_Ok undercuts_Err conjI fee_monos le order_refl)+
  then show ?thesis
    unfolding settle_def Let_def
    by (rule undercuts_bind) (auto simp add: estimate_le_def intro!: undercuts_Ok fee_monos le)
qed

definition batch_states_more :: "NativeFeePart list \<Rightarrow> NativeFeePart list \<Rightarrow> bool" where
  "batch_states_more parts parts' \<longleftrightarrow>
     list_all2 (\<lambda>p q. fp_kind q = fp_kind p \<and> states_more (fp_kind p) (fp_params p) (fp_params q)) parts parts'"

lemma undercuts_batch:
  assumes "batch_states_more parts parts'"
  shows "undercuts estimate_le (estimate_native_fee_batch parts' config transaction)
    (estimate_native_fee_batch parts config transaction)"
  unfolding estimate_native_fee_batch_def
proof (rule undercuts_bind [OF undercuts_collect undercuts_settle])
  show "list_all2 (\<lambda>p q. undercuts model_le (part_model config q) (part_model config p)) parts parts'"
    using assms unfolding batch_states_more_def
    by (rule list_all2_mono)
      (auto simp add: part_model_def Let_def states_more_same undercuts_operation undercuts_Err)
qed


section \<open>Burns\<close>

lemma return_asset_net:
  assumes "return_asset config a m = Ok m'" and "om_new_quanta m \<le> om_deleted_quanta m"
  shows "om_new_quanta m' \<le> om_deleted_quanta m'"
  using assms
  by (auto simp add: return_asset_def Let_def bind_result_eq_Ok checked_add_eq_Ok word_le_def quantum_def
        split: if_splits)

lemma return_assets_net:
  "return_assets config as m = Ok m' \<Longrightarrow> om_new_quanta m \<le> om_deleted_quanta m \<Longrightarrow>
   om_new_quanta m' \<le> om_deleted_quanta m'"
  by (induction as arbitrary: m) (auto simp add: bind_result_eq_Ok dest: return_asset_net)

lemma add_instance_rows_grows:
  assumes "add_instance_rows small meta stored rom ram q = Ok q'"
  shows "uint q + uint small \<le> uint q'"
  using assms
  by (auto simp add: add_instance_rows_def bind_result_eq_Ok checked_add_eq_Ok split: if_splits)

lemma instance_rows_grows:
  "instance_rows small meta stored is q = Ok q' \<Longrightarrow> uint q + int (length is) * uint small \<le> uint q'"
proof (induction "is" arbitrary: q)
  case (Cons i "is")
  then obtain r where "add_instance_rows small meta stored (fst i) (snd i) q = Ok r"
    "instance_rows small meta stored is r = Ok q'"
    by (auto simp add: bind_result_eq_Ok)
  then show ?case
    using Cons.IH add_instance_rows_grows by (fastforce simp add: algebra_simps)
qed simp

lemma per_instance_length: "per_instance vs cnt = Ok ws \<Longrightarrow> length ws = unat cnt"
  by (auto simp add: per_instance_def Let_def split: if_splits)

lemma model_burn_net:
  assumes "model_burn_nft config p cnt = Ok m" and "cnt \<noteq> 0"
  shows "om_new_quanta m \<le> om_deleted_quanta m"
proof -
  obtain roms rams deleted returned new deleted' where
    sizes: "per_instance (np_rom_bytes p) cnt = Ok roms" "per_instance (np_ram_bytes p) cnt = Ok rams"
    and rows: "instance_rows 2 (unwrap_true (np_rom_has_meta_id p)) Ok (zip roms rams) 0 = Ok deleted"
    and returned: "returned_assets p config = Ok returned"
    and new: "add_all (burnt_row config p) [Ok (supply_row config p), Ok (om_new_quanta returned)] = Ok new"
    and deleted: "checked_add deleted (om_deleted_quanta returned) = Ok deleted'"
    and m: "om_new_quanta m = new" "om_deleted_quanta m = deleted'"
    using assms(1) by (auto simp add: model_burn_nft_def bind_result_eq_Ok simp del: add_all.simps)
  have "om_new_quanta returned \<le> om_deleted_quanta returned"
    using return_assets_net returned by (fastforce simp add: returned_assets_def default_operation_def)
  moreover have "2 \<le> uint deleted"
    using instance_rows_grows [OF rows] sizes assms(2) by (simp add: per_instance_length) (simp add: word_neq_0_conv word_less_def)
  moreover have "uint (burnt_row config p) \<le> 1" "uint (supply_row config p) \<le> 1"
    using row_le_1 [of config p] by (simp_all add: word_le_def)
  ultimately show ?thesis
    using new deleted by (auto simp add: m bind_result_eq_Ok checked_add_eq_Ok word_le_def)
qed

lemma sum_of_mono: "(\<And>m. m \<in> set ms \<Longrightarrow> f m \<le> g m) \<Longrightarrow> sum_of f ms \<le> sum_of g ms"
  unfolding sum_of_def by (rule sum_list_mono) (simp add: word_le_def)

text \<open>A batch of NFT burns deletes at least as many storage quanta as it creates, so its rows are
  never billed as block data.\<close>

theorem burns_add_no_block_data:
  assumes "estimate_native_fee_batch parts config transaction = Ok e"
    and "list_all (\<lambda>p. fp_kind p = FK_BurnNonFungible) parts"
  shows "fe_new_storage_quanta e \<le> fe_deleted_storage_quanta e"
proof -
  obtain models where models: "collect_result (part_model config) parts = Ok models"
    and e: "settle models config transaction = Ok e"
    using assms(1) by (auto simp add: estimate_native_fee_batch_def bind_result_eq_Ok)
  have "om_new_quanta m \<le> om_deleted_quanta m" if "m \<in> set models" for m
  proof -
    have "Ok m \<in> set (map (part_model config) parts)"
      using that models by (simp add: collect_result_eq_Ok)
    then obtain p where "p \<in> set parts" "part_model config p = Ok m"
      by auto
    then show ?thesis
      using assms(2) model_burn_net
      by (auto simp add: list_all_iff part_model_def Let_def operation_model_def split: if_splits)
  qed
  then show ?thesis
    using e sum_of_mono [of models om_new_quanta om_deleted_quanta]
    by (auto simp add: settle_eq_Ok word_le_def total_model_uint)
qed

section \<open>Samples\<close>

definition sample_fee_config :: GasConfig where
  "sample_fee_config = sample_gas_config
     \<lparr>gc_version := 1, gc_max_name_length := 32, gc_max_token_symbol_length := 8, gc_fee_shift := 0, gc_fee_multiplier := 10000,
      gc_gas_token_id := 1, gc_data_token_id := 2, gc_minimum_gas_offer := 5000000, gc_data_escrow_per_row := 1000,
      gc_gas_fee_transfer := 100, gc_gas_fee_query := 10, gc_minimum_gas_bill := 1000000,
      gc_policy_fee_create_token_series := 50000\<rparr>"

definition sample_burn :: "bool option \<Rightarrow> NativeFeePart" where
  "sample_burn meta = \<lparr>fp_kind = FK_BurnNonFungible,
     fp_params = default_fee_params\<lparr>np_token_id := Some 7, np_rom_has_meta_id := meta, np_infusions := Some []\<rparr>\<rparr>"

definition sample_mint :: "bool \<Rightarrow> bool option \<Rightarrow> NativeFeePart" where
  "sample_mint holds meta = \<lparr>fp_kind = FK_MintNonFungible,
     fp_params = default_fee_params\<lparr>np_token_id := Some 7, np_recipient_holds_token := holds, np_rom_has_meta_id := meta,
       np_rom_bytes := [2000], np_ram_bytes := [10]\<rparr>\<rparr>"

definition sample_transaction :: NativeFeeTransactionParams where
  "sample_transaction = \<lparr>nt_envelope_bytes = 300, nt_payload_bytes = 0\<rparr>"

definition sample_burn_model :: "bool option \<Rightarrow> OperationModel" where
  "sample_burn_model meta = \<lparr>om_work_units = 120, om_policy_fee = 0, om_result_bytes = 0, om_new_quanta = 2,
     om_deleted_quanta = (if unwrap_true meta then 4 else 3)\<rparr>"

definition sample_mint_model :: "bool \<Rightarrow> bool option \<Rightarrow> OperationModel" where
  "sample_mint_model holds meta = \<lparr>om_work_units = 100, om_policy_fee = 0, om_result_bytes = 12,
     om_new_quanta = (if holds then 6 else 7) + (if unwrap_true meta then 2 else 1), om_deleted_quanta = 0\<rparr>"

lemma sample_models:
  "part_model sample_fee_config (sample_burn None) = Ok (sample_burn_model None)"
  "part_model sample_fee_config (sample_burn (Some False)) = Ok (sample_burn_model (Some False))"
  "part_model sample_fee_config (sample_mint False None) = Ok (sample_mint_model False None)"
  "part_model sample_fee_config (sample_mint True (Some False)) = Ok (sample_mint_model True (Some False))"
  by code_simp+

definition sample_estimate :: "u64 \<Rightarrow> u64 \<Rightarrow> u32 \<Rightarrow> u32 \<Rightarrow> NativeFeeEstimate" where
  "sample_estimate bill escrow new deleted =
     \<lparr>fe_max_gas = bill, fe_max_data = escrow, fe_expected_gas_bill = bill, fe_new_storage_quanta = new,
      fe_deleted_storage_quanta = deleted\<rparr>"

lemma sample_settlements:
  "settle [sample_burn_model None, sample_mint_model False None] sample_fee_config sample_transaction =
     Ok (sample_estimate 81950000 11000 11 4)"
  "settle [sample_burn_model (Some False), sample_mint_model False None] sample_fee_config sample_transaction =
     Ok (sample_estimate 82200000 11000 11 3)"
  "settle [sample_mint_model False None] sample_fee_config sample_transaction =
     Ok (sample_estimate 81250000 9000 9 0)"
  "settle [sample_mint_model True (Some False)] sample_fee_config sample_transaction =
     Ok (sample_estimate 80750000 7000 7 0)"
  "settle [sample_burn_model None] sample_fee_config sample_transaction =
     Ok (sample_estimate 76200000 2000 2 4)"
  by code_simp+

lemma sample_quotes:
  "estimate_native_fee_batch [sample_burn None, sample_mint False None] sample_fee_config sample_transaction =
     Ok (sample_estimate 81950000 11000 11 4)"
  "estimate_native_fee_batch [sample_burn (Some False), sample_mint False None] sample_fee_config sample_transaction =
     Ok (sample_estimate 82200000 11000 11 3)"
  "estimate_native_fee_batch [sample_mint False None] sample_fee_config sample_transaction =
     Ok (sample_estimate 81250000 9000 9 0)"
  "estimate_native_fee_batch [sample_mint True (Some False)] sample_fee_config sample_transaction =
     Ok (sample_estimate 80750000 7000 7 0)"
  "estimate_native_fee_batch [sample_burn None] sample_fee_config sample_transaction =
     Ok (sample_estimate 76200000 2000 2 4)"
  by (simp_all add: estimate_native_fee_batch_def sample_models sample_settlements)

theorem offer_covers_bill_witness:
  "fe_expected_gas_bill (sample_estimate 81950000 11000 11 4) \<le> fe_max_gas (sample_estimate 81950000 11000 11 4) \<and>
   gc_minimum_gas_offer sample_fee_config \<le> fe_max_gas (sample_estimate 81950000 11000 11 4)"
  by (rule offer_covers_bill [OF sample_quotes(1)])

theorem estimate_refines_integer_settlement_witness:
  "\<exists>e. estimate_native_fee_batch [sample_burn None, sample_mint False None] sample_fee_config sample_transaction = Ok e \<and>
    uint (fe_expected_gas_bill e) = min (2 ^ 64 - 1)
      (bill_spec sample_fee_config sample_transaction [sample_burn_model None, sample_mint_model False None]) \<and>
    uint (fe_max_gas e) = min (2 ^ 64 - 1)
      (offer_spec sample_fee_config sample_transaction [sample_burn_model None, sample_mint_model False None]) \<and>
    uint (fe_max_data e) = min (2 ^ 64 - 1)
      (sum_of om_new_quanta [sample_burn_model None, sample_mint_model False None]
        * uint (gc_data_escrow_per_row sample_fee_config))"
proof (rule estimate_refines_integer_settlement)
  show "collect_result (part_model sample_fee_config) [sample_burn None, sample_mint False None] =
      Ok [sample_burn_model None, sample_mint_model False None]"
    by (simp add: sample_models)
  show "totals_fit sample_fee_config sample_transaction [sample_burn_model None, sample_mint_model False None]"
    by code_simp
  show "gc_fee_shift sample_fee_config < 64"
    "has_gas_model_v2 sample_fee_config \<longrightarrow> nt_envelope_bytes sample_transaction \<noteq> 0"
    by code_simp+
qed

theorem scaling_the_sum_covers_scaled_charges_witness:
  "(\<Sum>c\<leftarrow>[3, 5]. uint (mul_shift c 7 2)) \<le> uint (mul_shift (sum_list [3, 5]) 7 2) \<and>
   (\<Sum>c\<leftarrow>[3, 5]. uint (mul_shift c 7 0)) = uint (mul_shift (sum_list [3, 5]) 7 0)"
proof
  show "(\<Sum>c\<leftarrow>[3, 5]. uint (mul_shift c 7 2)) \<le> uint (mul_shift (sum_list [3, 5]) 7 2)"
    by (rule scaling_the_sum_covers_scaled_charges [THEN conjunct1]) code_simp+
  show "(\<Sum>c\<leftarrow>[3, 5]. uint (mul_shift c 7 0)) = uint (mul_shift (sum_list [3, 5]) 7 0)"
    by (rule scaling_the_sum_covers_scaled_charges [THEN conjunct2, THEN mp]) code_simp+
qed

theorem batch_order_irrelevant_witness:
  "estimate_native_fee_batch [sample_mint False None, sample_burn None] sample_fee_config sample_transaction =
     Ok (sample_estimate 81950000 11000 11 4)"
  by (rule batch_order_irrelevant [OF sample_quotes(1)]) (simp add: add_mset_commute)


theorem burns_add_no_block_data_witness:
  "fe_new_storage_quanta (sample_estimate 76200000 2000 2 4) \<le> fe_deleted_storage_quanta (sample_estimate 76200000 2000 2 4)"
  by (rule burns_add_no_block_data [OF sample_quotes(5)]) (simp add: sample_burn_def)

text \<open>In a batch that burns an NFT and mints another, leaving \<open>rom_has_meta_id\<close> unstated gives a
  lower bill than stating that the ROM carries no id: the assumed row of the burned NFT is netted against the
  rows the mint creates, so the quote is not the upper bound the documentation promises.\<close>

theorem unstated_meta_id_can_lower_a_quote:
  "(case (estimate_native_fee_batch [sample_burn None, sample_mint False None] sample_fee_config sample_transaction,
          estimate_native_fee_batch [sample_burn (Some False), sample_mint False None] sample_fee_config sample_transaction) of
      (Ok unstated, Ok stated) \<Rightarrow> fe_expected_gas_bill unstated < fe_expected_gas_bill stated
    | _ \<Rightarrow> False)"
  by (simp add: sample_quotes sample_estimate_def)

end
