(* ===== verification/CarbonTx.thy ===== *)
theory CarbonTx
  imports CarbonArgs
begin

text \<open>
  Transaction messages (\<open>src/src/carbon.rs\<close>): module calls with their argument sections, the
  payload structs of the native transaction types, \<open>TxMsg\<close>, \<open>Witness\<close> and \<open>SignedTxMsg\<close>
  with the three envelope layouts, and the envelope size that the fee planner bills.
\<close>

section \<open>Transaction types\<close>

datatype TxType =
    TT_Call | TT_CallMulti | TT_Trade
  | TT_TransferFungible | TT_TransferFungibleGasPayer | TT_TransferNonFungibleSingle
  | TT_TransferNonFungibleSingleGasPayer | TT_TransferNonFungibleMulti | TT_TransferNonFungibleMultiGasPayer
  | TT_MintFungible | TT_BurnFungible | TT_BurnFungibleGasPayer
  | TT_MintNonFungible | TT_BurnNonFungible | TT_BurnNonFungibleGasPayer
  | TT_Phantasma | TT_PhantasmaRaw

primrec TxType_code :: "TxType \<Rightarrow> u8" where
  "TxType_code TT_Call = 0"
| "TxType_code TT_CallMulti = 1"
| "TxType_code TT_Trade = 2"
| "TxType_code TT_TransferFungible = 3"
| "TxType_code TT_TransferFungibleGasPayer = 4"
| "TxType_code TT_TransferNonFungibleSingle = 5"
| "TxType_code TT_TransferNonFungibleSingleGasPayer = 6"
| "TxType_code TT_TransferNonFungibleMulti = 7"
| "TxType_code TT_TransferNonFungibleMultiGasPayer = 8"
| "TxType_code TT_MintFungible = 9"
| "TxType_code TT_BurnFungible = 10"
| "TxType_code TT_BurnFungibleGasPayer = 11"
| "TxType_code TT_MintNonFungible = 12"
| "TxType_code TT_BurnNonFungible = 13"
| "TxType_code TT_BurnNonFungibleGasPayer = 14"
| "TxType_code TT_Phantasma = 15"
| "TxType_code TT_PhantasmaRaw = 16"

definition TxType_try_from :: "u8 \<Rightarrow> TxType result" where
  "TxType_try_from v =
     (if v = 0 then Ok TT_Call
      else if v = 1 then Ok TT_CallMulti
      else if v = 2 then Ok TT_Trade
      else if v = 3 then Ok TT_TransferFungible
      else if v = 4 then Ok TT_TransferFungibleGasPayer
      else if v = 5 then Ok TT_TransferNonFungibleSingle
      else if v = 6 then Ok TT_TransferNonFungibleSingleGasPayer
      else if v = 7 then Ok TT_TransferNonFungibleMulti
      else if v = 8 then Ok TT_TransferNonFungibleMultiGasPayer
      else if v = 9 then Ok TT_MintFungible
      else if v = 10 then Ok TT_BurnFungible
      else if v = 11 then Ok TT_BurnFungibleGasPayer
      else if v = 12 then Ok TT_MintNonFungible
      else if v = 13 then Ok TT_BurnNonFungible
      else if v = 14 then Ok TT_BurnNonFungibleGasPayer
      else if v = 15 then Ok TT_Phantasma
      else if v = 16 then Ok TT_PhantasmaRaw
      else Err (Serialization ''unsupported transaction type: ''))"

lemma TxType_try_from_code [simp]: "TxType_try_from (TxType_code t) = Ok t"
  by (cases t) (simp_all add: TxType_try_from_def)

lemma TxType_try_from_no_panic [simp]: "\<not> panics (TxType_try_from v)"
  unfolding TxType_try_from_def by (simp split: if_split)

section \<open>Calls\<close>

definition wr_panic :: "panic_reason \<Rightarrow> wr_action" where
  "wr_panic p w = Panic p"

record CallArgSection =
  cas_register_offset :: i32
  cas_args :: bytes

definition write_CallArgSection :: "CallArgSection \<Rightarrow> wr_action" where
  "write_CallArgSection v =
     (if cas_register_offset v <s 0 then write4 (cas_register_offset v)
      else wr_seq [write_length (length (cas_args v)), carbon_write (cas_args v)])"

definition read_CallArgSection :: "CallArgSection reader" where
  "read_CallArgSection =
     rd_bind read4 (\<lambda>v.
       if v <s 0 then rd_return \<lparr>cas_register_offset = v, cas_args = []\<rparr>
       else rd_bind (carbon_read (unat v)) (\<lambda>args.
         rd_return \<lparr>cas_register_offset = 0, cas_args = args\<rparr>))"

text \<open>\<open>MsgCallArgSections\<close>; \<open>-count\<close> overflows for the smallest \<open>i32\<close>.\<close>

record MsgCallArgSections =
  mas_sections :: "CallArgSection list"

definition has_sections :: "MsgCallArgSections \<Rightarrow> bool" where
  "has_sections v = (mas_sections v \<noteq> [])"

definition write_MsgCallArgSections :: "MsgCallArgSections \<Rightarrow> wr_action" where
  "write_MsgCallArgSections v =
     (if mas_sections v = [] then wr_fail (Serialization ''arg sections are empty'')
      else let n = word_of_nat (length (mas_sections v)) :: i32
        in if n = 0x80000000 then wr_panic Arithmetic_Overflow
           else wr_seq [write4 (- n), wr_for (mas_sections v) write_CallArgSection])"

definition read_with_count :: "i32 \<Rightarrow> MsgCallArgSections reader" where
  "read_with_count count_negative =
     (if \<not> count_negative <s 0 then rd_fail (Serialization ''arg sections count must be negative'')
      else if count_negative = 0x80000000 then rd_panic Arithmetic_Overflow
      else rd_bind (rd_repeat (unat (- count_negative)) read_CallArgSection) (\<lambda>sections.
        rd_return \<lparr>mas_sections = sections\<rparr>))"

definition read_MsgCallArgSections :: "MsgCallArgSections reader" where
  "read_MsgCallArgSections = rd_bind read4 read_with_count"

record TxMsgCall =
  call_module_id :: u32
  call_method_id :: u32
  call_args :: bytes
  call_sections :: "MsgCallArgSections option"

definition write_TxMsgCall :: "TxMsgCall \<Rightarrow> wr_action" where
  "write_TxMsgCall v =
     wr_seq [write4u (call_module_id v), write4u (call_method_id v),
       (case call_sections v of
          Some sections \<Rightarrow>
            if has_sections sections then write_MsgCallArgSections sections
            else wr_seq [write_length (length (call_args v)), carbon_write (call_args v)]
        | None \<Rightarrow> wr_seq [write_length (length (call_args v)), carbon_write (call_args v)])]"

text \<open>\<open>TxMsgCall::read_carbon\<close> behind the length field.\<close>

definition read_call_body :: "u32 \<Rightarrow> u32 \<Rightarrow> i32 \<Rightarrow> TxMsgCall reader" where
  "read_call_body module_id method_id len =
     (if \<not> len <s 0 then
        rd_bind (carbon_read (unat len)) (\<lambda>args.
          rd_return \<lparr>call_module_id = module_id, call_method_id = method_id,
                      call_args = args, call_sections = None\<rparr>)
      else
        rd_bind (read_with_count len) (\<lambda>sections.
          rd_return \<lparr>call_module_id = module_id, call_method_id = method_id,
                      call_args = [], call_sections = Some sections\<rparr>))"

definition read_TxMsgCall :: "TxMsgCall reader" where
  "read_TxMsgCall =
     rd_bind read4u (\<lambda>module_id.
     rd_bind read4u (\<lambda>method_id.
     rd_bind read4 (read_call_body module_id method_id)))"

definition CallArgSection_ok :: "CallArgSection \<Rightarrow> bool" where
  "CallArgSection_ok v =
     (if cas_register_offset v <s 0 then cas_args v = []
      else cas_register_offset v = 0 \<and> fits_length (length (cas_args v)))"

definition MsgCallArgSections_ok :: "MsgCallArgSections \<Rightarrow> bool" where
  "MsgCallArgSections_ok v =
     (mas_sections v \<noteq> [] \<and> fits_length (length (mas_sections v))
      \<and> list_all CallArgSection_ok (mas_sections v))"

text \<open>A call carries its arguments either as one byte string or as sections.\<close>

definition TxMsgCall_ok :: "TxMsgCall \<Rightarrow> bool" where
  "TxMsgCall_ok v =
     (case call_sections v of
        None \<Rightarrow> fits_length (length (call_args v))
      | Some sections \<Rightarrow> call_args v = [] \<and> MsgCallArgSections_ok sections)"

lemma length_prefix_round_trip:
  "fits_length n \<Longrightarrow> round_trip1 (write_length n) read4 (word_of_nat n)"
  using fixed_round_trips(3) [of "word_of_nat n"] by (simp add: write_length_def length_word)

lemma prefixed_bytes_round_trip:
  assumes "fits_length (length raw)" and "\<And>w. \<not> w <s 0 \<Longrightarrow> f w = rd_bind (carbon_read (unat w)) g"
    and "g raw = rd_return v"
  shows "round_trip1 (wr_seq [write_length (length raw), carbon_write raw]) (rd_bind read4 f) v"
proof (rule round_trip1_cons [OF length_prefix_round_trip [OF assms(1)]])
  have "f (word_of_nat (length raw)) = rd_bind (carbon_read (length raw)) g"
    using assms(2) length_word [OF assms(1)] by simp
  then show "round_trip (wr_seq [carbon_write raw]) (f (word_of_nat (length raw))) v"
    by (simp only:) (rule round_trip_cons0 [OF carbon_bytes_round_trip], simp only: assms(3),
        rule round_trip_nil, rule refl)
qed

lemma CallArgSection_round_trip [codec_intros]:
  assumes "CallArgSection_ok v"
  shows "round_trip1 (write_CallArgSection v) read_CallArgSection v"
proof (cases "cas_register_offset v <s 0")
  case True
  with assms have "v = \<lparr>cas_register_offset = cas_register_offset v, cas_args = []\<rparr>"
    by (simp add: CallArgSection_ok_def)
  with True show ?thesis
    unfolding write_CallArgSection_def read_CallArgSection_def if_P [OF True]
    by (intro round_trip1_map [OF fixed_round_trips(3)]) simp
next
  case False
  with assms have "v = \<lparr>cas_register_offset = 0, cas_args = cas_args v\<rparr>" "fits_length (length (cas_args v))"
    by (simp_all add: CallArgSection_ok_def)
  then show ?thesis
    unfolding write_CallArgSection_def read_CallArgSection_def if_not_P [OF False]
    by (intro prefixed_bytes_round_trip
        [where g = "\<lambda>args. rd_return \<lparr>cas_register_offset = 0, cas_args = args\<rparr>"]) simp_all
qed

lemma neg_length_word:
  assumes "0 < n" "fits_length n"
  shows "- (word_of_nat n :: i32) <s 0" "(word_of_nat n :: i32) \<noteq> 0x80000000"
    "- (word_of_nat n :: i32) \<noteq> 0x80000000" "unat (- (- (word_of_nat n :: i32))) = n"
proof -
  have n: "int n < 2 ^ 31" using assms(2) by (simp add: fits_length_def)
  have "sint (word_of_int (- int n) :: i32) = - int n"
    by (rule word_int_values) (use n in simp_all)
  then have s: "sint (- (word_of_nat n :: i32)) = - int n" by simp
  with assms(1) show "- (word_of_nat n :: i32) <s 0" by (simp add: word_sless_alt)
  have "unat (0x80000000 :: i32) \<noteq> n" using n by simp
  then show "(word_of_nat n :: i32) \<noteq> 0x80000000" using length_word(2) [OF assms(2)] by metis
  have "sint (0x80000000 :: i32) = - (2 ^ 31)" by simp
  with s n show "- (word_of_nat n :: i32) \<noteq> 0x80000000" by auto
  show "unat (- (- (word_of_nat n :: i32))) = n" using length_word(2) [OF assms(2)] by simp
qed

lemma MsgCallArgSections_body:
  assumes "MsgCallArgSections_ok v"
  defines "n \<equiv> word_of_nat (length (mas_sections v)) :: i32"
  shows "round_trip (wr_seq [wr_for (mas_sections v) write_CallArgSection]) (read_with_count (- n)) v"
proof -
  note ok = assms(1) [unfolded MsgCallArgSections_ok_def]
  have elem: "\<exists>bs. writes (write_CallArgSection s) bs \<and> parses read_CallArgSection bs s"
    if "s \<in> set (mas_sections v)" for s
    using CallArgSection_round_trip [of s] ok that by (auto simp: list_all_iff round_trip1_def)
  then obtain enc where enc: "\<And>s. s \<in> set (mas_sections v) \<Longrightarrow>
      writes (write_CallArgSection s) (enc s) \<and> parses read_CallArgSection (enc s) s" by metis
  let ?bs = "concat (map enc (mas_sections v))"
  have "parses (rd_repeat (length (mas_sections v)) read_CallArgSection) ?bs (mas_sections v)"
    using enc by (intro parses_repeat) simp
  then have "round_trip (wr_for (mas_sections v) write_CallArgSection)
      (rd_repeat (length (mas_sections v)) read_CallArgSection) (mas_sections v)"
    using writes_for [of "mas_sections v" write_CallArgSection enc] enc by (auto simp: round_trip_def)
  moreover have "read_with_count (- n) =
      rd_bind (rd_repeat (length (mas_sections v)) read_CallArgSection) (\<lambda>sections.
        rd_return \<lparr>mas_sections = sections\<rparr>)"
    using neg_length_word [of "length (mas_sections v)"] ok by (simp add: read_with_count_def n_def)
  ultimately show ?thesis
    by (simp only:) (rule round_trip_cons0, assumption, rule round_trip_nil, simp)
qed

lemma write_MsgCallArgSections_ok:
  assumes "MsgCallArgSections_ok v"
  shows "write_MsgCallArgSections v =
    wr_seq [write4 (- word_of_nat (length (mas_sections v))), wr_for (mas_sections v) write_CallArgSection]"
  using assms neg_length_word(2) [of "length (mas_sections v)"]
  by (simp add: write_MsgCallArgSections_def MsgCallArgSections_ok_def Let_def del: wr_seq.simps)

lemma MsgCallArgSections_round_trip [codec_intros]:
  assumes "MsgCallArgSections_ok v"
  shows "round_trip1 (write_MsgCallArgSections v) read_MsgCallArgSections v"
  unfolding write_MsgCallArgSections_ok [OF assms] read_MsgCallArgSections_def
  by (rule round_trip1_cons [OF fixed_round_trips(3)], rule MsgCallArgSections_body [OF assms])

lemma call_body_plain:
  assumes "TxMsgCall_ok v" and "call_sections v = None"
  shows "round_trip1 (wr_seq [write_length (length (call_args v)), carbon_write (call_args v)])
           (rd_bind read4 (read_call_body (call_module_id v) (call_method_id v))) v"
proof (rule prefixed_bytes_round_trip [where g = "\<lambda>args.
      rd_return \<lparr>call_module_id = call_module_id v, call_method_id = call_method_id v,
                  call_args = args, call_sections = None\<rparr>"])
  show "fits_length (length (call_args v))" using assms by (simp add: TxMsgCall_ok_def)
  have "\<lparr>call_module_id = call_module_id v, call_method_id = call_method_id v,
         call_args = call_args v, call_sections = None\<rparr> = v"
    using assms(2) by simp
  then show "rd_return \<lparr>call_module_id = call_module_id v, call_method_id = call_method_id v,
         call_args = call_args v, call_sections = None\<rparr> = rd_return v" by (rule arg_cong)
qed (simp add: read_call_body_def)

lemma call_body_sections:
  assumes "TxMsgCall_ok v" and "call_sections v = Some sections"
  shows "round_trip1 (write_MsgCallArgSections sections)
           (rd_bind read4 (read_call_body (call_module_id v) (call_method_id v))) v"
proof -
  have ok: "MsgCallArgSections_ok sections" "call_args v = []"
    using assms by (simp_all add: TxMsgCall_ok_def)
  let ?n = "word_of_nat (length (mas_sections sections)) :: i32"
  have "- ?n <s 0" using neg_length_word(1) ok(1) by (simp add: MsgCallArgSections_ok_def)
  then have body: "read_call_body (call_module_id v) (call_method_id v) (- ?n) =
      rd_bind (read_with_count (- ?n)) (\<lambda>sections.
        rd_return \<lparr>call_module_id = call_module_id v, call_method_id = call_method_id v,
                    call_args = [], call_sections = Some sections\<rparr>)"
    by (simp add: read_call_body_def)
  have "round_trip (wr_seq ([wr_for (mas_sections sections) write_CallArgSection] @ []))
      (read_call_body (call_module_id v) (call_method_id v) (- ?n)) v"
    unfolding body by (rule round_trip_block [OF MsgCallArgSections_body [OF ok(1)]], rule round_trip_nil)
      (simp add: ok(2) assms(2))
  then show ?thesis
    unfolding write_MsgCallArgSections_ok [OF ok(1)]
    by (intro round_trip1_cons [OF fixed_round_trips(3)]) simp
qed

lemma TxMsgCall_round_trip [codec_intros]:
  assumes "TxMsgCall_ok v"
  shows "round_trip1 (write_TxMsgCall v) read_TxMsgCall v"
proof -
  have step: "round_trip1 (wr_seq [write4u (call_module_id v), write4u (call_method_id v), a])
      read_TxMsgCall v"
    if "round_trip1 a (rd_bind read4 (read_call_body (call_module_id v) (call_method_id v))) v" for a
    unfolding read_TxMsgCall_def
    by (rule round_trip1_cons [OF fixed_round_trips(4)], rule round_trip_cons [OF fixed_round_trips(4)],
        rule round_trip_single, rule round_trip1_imp, rule that)
  show ?thesis
  proof (cases "call_sections v")
    case None
    from step [OF call_body_plain [OF assms None]] None show ?thesis
      by (simp only: write_TxMsgCall_def option.case)
  next
    case (Some sections)
    with assms have "has_sections sections"
      by (simp add: TxMsgCall_ok_def MsgCallArgSections_ok_def has_sections_def)
    with step [OF call_body_sections [OF assms Some]] Some show ?thesis
      by (simp only: write_TxMsgCall_def option.case if_True)
  qed
qed

text \<open>A call can panic on the section count; nothing else in it can.\<close>

lemma CallArgSection_safe [safe_intros]: "safe_reader read_CallArgSection"
  unfolding read_CallArgSection_def by (intro safe_intros)

lemma read_with_count_panics [panic_intros]:
  "panics_within {Arithmetic_Overflow} (read_with_count c)"
  unfolding read_with_count_def
  by (intro panics_within_if panics_within_panic) (auto intro!: safe_imp_panics_within safe_intros)

lemma TxMsgCall_panics [panic_intros]: "panics_within {Arithmetic_Overflow} read_TxMsgCall"
  unfolding read_TxMsgCall_def read_call_body_def
  by (intro panics_within_bind panics_within_if read_with_count_panics)
     (auto intro!: safe_imp_panics_within safe_intros)

interpretation TxMsgCall_codec: carbon_codec write_TxMsgCall read_TxMsgCall TxMsgCall_ok
  by unfold_locales (rule TxMsgCall_round_trip)

interpretation MsgCallArgSections_codec: carbon_codec write_MsgCallArgSections
    read_MsgCallArgSections MsgCallArgSections_ok
  by unfold_locales (rule MsgCallArgSections_round_trip)

record TxMsgCallMulti =
  cm_calls :: "TxMsgCall list"

definition write_TxMsgCallMulti :: "TxMsgCallMulti \<Rightarrow> wr_action" where
  "write_TxMsgCallMulti v =
     wr_seq [write_carbon_array write_TxMsgCall (cm_calls v)]"

definition read_TxMsgCallMulti :: "TxMsgCallMulti reader" where
  "read_TxMsgCallMulti =
     rd_bind (read_carbon_array read_TxMsgCall) (\<lambda>calls.
       rd_return \<lparr>cm_calls = calls\<rparr>)"

definition TxMsgCallMulti_ok :: "TxMsgCallMulti \<Rightarrow> bool" where
  "TxMsgCallMulti_ok v =
     (fits_length (length (cm_calls v)) \<and> list_all TxMsgCall_ok (cm_calls v))"

lemma TxMsgCallMulti_round_trip [codec_intros]:
  "TxMsgCallMulti_ok v \<Longrightarrow>
     round_trip1 (write_TxMsgCallMulti v) read_TxMsgCallMulti v"
  unfolding write_TxMsgCallMulti_def read_TxMsgCallMulti_def TxMsgCallMulti_ok_def
  by (rule round_trip_struct codec_intros
      TxMsgCall_codec.carbon_array_round_trip
     | (simp add: small_string_ok_def list_all_iff; fail))+

lemma TxMsgCallMulti_panics [panic_intros]: "panics_within {Arithmetic_Overflow} read_TxMsgCallMulti"
  unfolding read_TxMsgCallMulti_def read_carbon_array_def
  by (intro panics_within_bind panics_within_repeat TxMsgCall_panics)
     (auto intro!: safe_imp_panics_within safe_intros)

interpretation TxMsgCallMulti_codec: carbon_codec write_TxMsgCallMulti read_TxMsgCallMulti
    TxMsgCallMulti_ok
  by unfold_locales (simp add: TxMsgCallMulti_round_trip)


record TxMsgSpecialResolution =
  sr_resolution_id :: u64
  sr_calls :: "TxMsgCall list"

definition write_TxMsgSpecialResolution :: "TxMsgSpecialResolution \<Rightarrow> wr_action" where
  "write_TxMsgSpecialResolution v =
     wr_seq [write8u (sr_resolution_id v), write_carbon_array write_TxMsgCall (sr_calls v)]"

definition read_TxMsgSpecialResolution :: "TxMsgSpecialResolution reader" where
  "read_TxMsgSpecialResolution =
     rd_bind read8u (\<lambda>resolution_id.
     rd_bind (read_carbon_array read_TxMsgCall) (\<lambda>calls.
       rd_return \<lparr>sr_resolution_id = resolution_id, sr_calls = calls\<rparr>))"

definition TxMsgSpecialResolution_ok :: "TxMsgSpecialResolution \<Rightarrow> bool" where
  "TxMsgSpecialResolution_ok v =
     (fits_length (length (sr_calls v)) \<and> list_all TxMsgCall_ok (sr_calls v))"

lemma TxMsgSpecialResolution_round_trip [codec_intros]:
  "TxMsgSpecialResolution_ok v \<Longrightarrow>
     round_trip1 (write_TxMsgSpecialResolution v) read_TxMsgSpecialResolution v"
  unfolding write_TxMsgSpecialResolution_def read_TxMsgSpecialResolution_def TxMsgSpecialResolution_ok_def
  by (rule round_trip_struct codec_intros
      TxMsgCall_codec.carbon_array_round_trip
     | (simp add: small_string_ok_def list_all_iff; fail))+

lemma TxMsgSpecialResolution_panics [panic_intros]: "panics_within {Arithmetic_Overflow} read_TxMsgSpecialResolution"
  unfolding read_TxMsgSpecialResolution_def read_carbon_array_def
  by (intro panics_within_bind panics_within_repeat TxMsgCall_panics)
     (auto intro!: safe_imp_panics_within safe_intros)

interpretation TxMsgSpecialResolution_codec: carbon_codec write_TxMsgSpecialResolution read_TxMsgSpecialResolution
    TxMsgSpecialResolution_ok
  by unfold_locales (simp add: TxMsgSpecialResolution_round_trip)


section \<open>Payloads of the native types\<close>

record TxMsgTransferFungible =
  tf_to :: bytes32
  tf_token_id :: u64
  tf_amount :: u64

definition write_TxMsgTransferFungible :: "TxMsgTransferFungible \<Rightarrow> wr_action" where
  "write_TxMsgTransferFungible v =
     wr_seq [write32 (tf_to v), write8u (tf_token_id v), write8u (tf_amount v)]"

definition read_TxMsgTransferFungible :: "TxMsgTransferFungible reader" where
  "read_TxMsgTransferFungible =
     rd_bind read32 (\<lambda>dest.
     rd_bind read8u (\<lambda>token_id.
     rd_bind read8u (\<lambda>amount.
       rd_return \<lparr>tf_to = dest, tf_token_id = token_id, tf_amount = amount\<rparr>)))"

lemma TxMsgTransferFungible_round_trip [codec_intros]:
  "round_trip1 (write_TxMsgTransferFungible v) read_TxMsgTransferFungible v"
  unfolding write_TxMsgTransferFungible_def read_TxMsgTransferFungible_def
  by (rule round_trip_struct codec_intros | (simp add: small_string_ok_def list_all_iff; fail))+

lemma TxMsgTransferFungible_safe [safe_intros]: "safe_reader read_TxMsgTransferFungible"
  unfolding read_TxMsgTransferFungible_def by (intro safe_intros)

interpretation TxMsgTransferFungible_codec: carbon_type write_TxMsgTransferFungible read_TxMsgTransferFungible
    "\<lambda>_. True"
  by unfold_locales (simp add: TxMsgTransferFungible_round_trip, rule TxMsgTransferFungible_safe)


record TxMsgTransferFungibleGasPayer =
  tfg_to :: bytes32
  tfg_from_address :: bytes32
  tfg_token_id :: u64
  tfg_amount :: u64

definition write_TxMsgTransferFungibleGasPayer :: "TxMsgTransferFungibleGasPayer \<Rightarrow> wr_action" where
  "write_TxMsgTransferFungibleGasPayer v =
     wr_seq [write32 (tfg_to v), write32 (tfg_from_address v), write8u (tfg_token_id v),
             write8u (tfg_amount v)]"

definition read_TxMsgTransferFungibleGasPayer :: "TxMsgTransferFungibleGasPayer reader" where
  "read_TxMsgTransferFungibleGasPayer =
     rd_bind read32 (\<lambda>dest.
     rd_bind read32 (\<lambda>from_addr.
     rd_bind read8u (\<lambda>token_id.
     rd_bind read8u (\<lambda>amount.
       rd_return \<lparr>tfg_to = dest, tfg_from_address = from_addr, tfg_token_id = token_id,
                   tfg_amount = amount\<rparr>))))"

lemma TxMsgTransferFungibleGasPayer_round_trip [codec_intros]:
  "round_trip1 (write_TxMsgTransferFungibleGasPayer v) read_TxMsgTransferFungibleGasPayer v"
  unfolding write_TxMsgTransferFungibleGasPayer_def read_TxMsgTransferFungibleGasPayer_def
  by (rule round_trip_struct codec_intros | (simp add: small_string_ok_def list_all_iff; fail))+

lemma TxMsgTransferFungibleGasPayer_safe [safe_intros]: "safe_reader read_TxMsgTransferFungibleGasPayer"
  unfolding read_TxMsgTransferFungibleGasPayer_def by (intro safe_intros)

interpretation TxMsgTransferFungibleGasPayer_codec: carbon_type write_TxMsgTransferFungibleGasPayer read_TxMsgTransferFungibleGasPayer
    "\<lambda>_. True"
  by unfold_locales (simp add: TxMsgTransferFungibleGasPayer_round_trip, rule TxMsgTransferFungibleGasPayer_safe)


record TxMsgTransferNonFungibleSingle =
  tns_to :: bytes32
  tns_token_id :: u64
  tns_instance_id :: u64

definition write_TxMsgTransferNonFungibleSingle :: "TxMsgTransferNonFungibleSingle \<Rightarrow> wr_action" where
  "write_TxMsgTransferNonFungibleSingle v =
     wr_seq [write32 (tns_to v), write8u (tns_token_id v), write8u (tns_instance_id v)]"

definition read_TxMsgTransferNonFungibleSingle :: "TxMsgTransferNonFungibleSingle reader" where
  "read_TxMsgTransferNonFungibleSingle =
     rd_bind read32 (\<lambda>dest.
     rd_bind read8u (\<lambda>token_id.
     rd_bind read8u (\<lambda>instance_id.
       rd_return \<lparr>tns_to = dest, tns_token_id = token_id, tns_instance_id = instance_id\<rparr>)))"

lemma TxMsgTransferNonFungibleSingle_round_trip [codec_intros]:
  "round_trip1 (write_TxMsgTransferNonFungibleSingle v) read_TxMsgTransferNonFungibleSingle v"
  unfolding write_TxMsgTransferNonFungibleSingle_def read_TxMsgTransferNonFungibleSingle_def
  by (rule round_trip_struct codec_intros | (simp add: small_string_ok_def list_all_iff; fail))+

lemma TxMsgTransferNonFungibleSingle_safe [safe_intros]: "safe_reader read_TxMsgTransferNonFungibleSingle"
  unfolding read_TxMsgTransferNonFungibleSingle_def by (intro safe_intros)

interpretation TxMsgTransferNonFungibleSingle_codec: carbon_type write_TxMsgTransferNonFungibleSingle read_TxMsgTransferNonFungibleSingle
    "\<lambda>_. True"
  by unfold_locales (simp add: TxMsgTransferNonFungibleSingle_round_trip, rule TxMsgTransferNonFungibleSingle_safe)


record TxMsgTransferNonFungibleSingleGasPayer =
  tnsg_to :: bytes32
  tnsg_from_address :: bytes32
  tnsg_token_id :: u64
  tnsg_instance_id :: u64

definition write_TxMsgTransferNonFungibleSingleGasPayer :: "TxMsgTransferNonFungibleSingleGasPayer \<Rightarrow> wr_action" where
  "write_TxMsgTransferNonFungibleSingleGasPayer v =
     wr_seq [write32 (tnsg_to v), write32 (tnsg_from_address v), write8u (tnsg_token_id v),
             write8u (tnsg_instance_id v)]"

definition read_TxMsgTransferNonFungibleSingleGasPayer :: "TxMsgTransferNonFungibleSingleGasPayer reader" where
  "read_TxMsgTransferNonFungibleSingleGasPayer =
     rd_bind read32 (\<lambda>dest.
     rd_bind read32 (\<lambda>from_addr.
     rd_bind read8u (\<lambda>token_id.
     rd_bind read8u (\<lambda>instance_id.
       rd_return \<lparr>tnsg_to = dest, tnsg_from_address = from_addr, tnsg_token_id = token_id,
                   tnsg_instance_id = instance_id\<rparr>))))"

lemma TxMsgTransferNonFungibleSingleGasPayer_round_trip [codec_intros]:
  "round_trip1 (write_TxMsgTransferNonFungibleSingleGasPayer v) read_TxMsgTransferNonFungibleSingleGasPayer v"
  unfolding write_TxMsgTransferNonFungibleSingleGasPayer_def read_TxMsgTransferNonFungibleSingleGasPayer_def
  by (rule round_trip_struct codec_intros | (simp add: small_string_ok_def list_all_iff; fail))+

lemma TxMsgTransferNonFungibleSingleGasPayer_safe [safe_intros]: "safe_reader read_TxMsgTransferNonFungibleSingleGasPayer"
  unfolding read_TxMsgTransferNonFungibleSingleGasPayer_def by (intro safe_intros)

interpretation TxMsgTransferNonFungibleSingleGasPayer_codec: carbon_type write_TxMsgTransferNonFungibleSingleGasPayer read_TxMsgTransferNonFungibleSingleGasPayer
    "\<lambda>_. True"
  by unfold_locales (simp add: TxMsgTransferNonFungibleSingleGasPayer_round_trip, rule TxMsgTransferNonFungibleSingleGasPayer_safe)


record TxMsgTransferNonFungibleMulti =
  tnm_to :: bytes32
  tnm_token_id :: u64
  tnm_instance_ids :: "u64 list"

definition write_TxMsgTransferNonFungibleMulti :: "TxMsgTransferNonFungibleMulti \<Rightarrow> wr_action" where
  "write_TxMsgTransferNonFungibleMulti v =
     wr_seq [write32 (tnm_to v), write8u (tnm_token_id v), write_u64_array (tnm_instance_ids v)]"

definition read_TxMsgTransferNonFungibleMulti :: "TxMsgTransferNonFungibleMulti reader" where
  "read_TxMsgTransferNonFungibleMulti =
     rd_bind read32 (\<lambda>dest.
     rd_bind read8u (\<lambda>token_id.
     rd_bind read_u64_array (\<lambda>instance_ids.
       rd_return \<lparr>tnm_to = dest, tnm_token_id = token_id, tnm_instance_ids = instance_ids\<rparr>)))"

definition TxMsgTransferNonFungibleMulti_ok :: "TxMsgTransferNonFungibleMulti \<Rightarrow> bool" where
  "TxMsgTransferNonFungibleMulti_ok v =
     (fits_length (length (tnm_instance_ids v)))"

lemma TxMsgTransferNonFungibleMulti_round_trip [codec_intros]:
  "TxMsgTransferNonFungibleMulti_ok v \<Longrightarrow>
     round_trip1 (write_TxMsgTransferNonFungibleMulti v) read_TxMsgTransferNonFungibleMulti v"
  unfolding write_TxMsgTransferNonFungibleMulti_def read_TxMsgTransferNonFungibleMulti_def TxMsgTransferNonFungibleMulti_ok_def
  by (rule round_trip_struct codec_intros | (simp add: small_string_ok_def list_all_iff; fail))+

lemma TxMsgTransferNonFungibleMulti_safe [safe_intros]: "safe_reader read_TxMsgTransferNonFungibleMulti"
  unfolding read_TxMsgTransferNonFungibleMulti_def by (intro safe_intros)

interpretation TxMsgTransferNonFungibleMulti_codec: carbon_type write_TxMsgTransferNonFungibleMulti read_TxMsgTransferNonFungibleMulti
    TxMsgTransferNonFungibleMulti_ok
  by unfold_locales (simp add: TxMsgTransferNonFungibleMulti_round_trip, rule TxMsgTransferNonFungibleMulti_safe)


record TxMsgTransferNonFungibleMultiGasPayer =
  tnmg_to :: bytes32
  tnmg_from_address :: bytes32
  tnmg_token_id :: u64
  tnmg_instance_ids :: "u64 list"

definition write_TxMsgTransferNonFungibleMultiGasPayer :: "TxMsgTransferNonFungibleMultiGasPayer \<Rightarrow> wr_action" where
  "write_TxMsgTransferNonFungibleMultiGasPayer v =
     wr_seq [write32 (tnmg_to v), write32 (tnmg_from_address v), write8u (tnmg_token_id v),
             write_u64_array (tnmg_instance_ids v)]"

definition read_TxMsgTransferNonFungibleMultiGasPayer :: "TxMsgTransferNonFungibleMultiGasPayer reader" where
  "read_TxMsgTransferNonFungibleMultiGasPayer =
     rd_bind read32 (\<lambda>dest.
     rd_bind read32 (\<lambda>from_addr.
     rd_bind read8u (\<lambda>token_id.
     rd_bind read_u64_array (\<lambda>instance_ids.
       rd_return \<lparr>tnmg_to = dest, tnmg_from_address = from_addr, tnmg_token_id = token_id,
                   tnmg_instance_ids = instance_ids\<rparr>))))"

definition TxMsgTransferNonFungibleMultiGasPayer_ok :: "TxMsgTransferNonFungibleMultiGasPayer \<Rightarrow> bool" where
  "TxMsgTransferNonFungibleMultiGasPayer_ok v =
     (fits_length (length (tnmg_instance_ids v)))"

lemma TxMsgTransferNonFungibleMultiGasPayer_round_trip [codec_intros]:
  "TxMsgTransferNonFungibleMultiGasPayer_ok v \<Longrightarrow>
     round_trip1 (write_TxMsgTransferNonFungibleMultiGasPayer v) read_TxMsgTransferNonFungibleMultiGasPayer v"
  unfolding write_TxMsgTransferNonFungibleMultiGasPayer_def read_TxMsgTransferNonFungibleMultiGasPayer_def TxMsgTransferNonFungibleMultiGasPayer_ok_def
  by (rule round_trip_struct codec_intros | (simp add: small_string_ok_def list_all_iff; fail))+

lemma TxMsgTransferNonFungibleMultiGasPayer_safe [safe_intros]: "safe_reader read_TxMsgTransferNonFungibleMultiGasPayer"
  unfolding read_TxMsgTransferNonFungibleMultiGasPayer_def by (intro safe_intros)

interpretation TxMsgTransferNonFungibleMultiGasPayer_codec: carbon_type write_TxMsgTransferNonFungibleMultiGasPayer read_TxMsgTransferNonFungibleMultiGasPayer
    TxMsgTransferNonFungibleMultiGasPayer_ok
  by unfold_locales (simp add: TxMsgTransferNonFungibleMultiGasPayer_round_trip, rule TxMsgTransferNonFungibleMultiGasPayer_safe)


record TxMsgMintFungible =
  mf_token_id :: u64
  mf_to :: bytes32
  mf_amount :: IntX

definition write_TxMsgMintFungible :: "num_bigint \<Rightarrow> TxMsgMintFungible \<Rightarrow> wr_action" where
  "write_TxMsgMintFungible nb v =
     wr_seq [write8u (mf_token_id v), write32 (mf_to v), write_intx nb (mf_amount v)]"

definition read_TxMsgMintFungible :: "num_bigint \<Rightarrow> TxMsgMintFungible reader" where
  "read_TxMsgMintFungible nb =
     rd_bind read8u (\<lambda>token_id.
     rd_bind read32 (\<lambda>dest.
     rd_bind (read_intx nb) (\<lambda>amount.
       rd_return \<lparr>mf_token_id = token_id, mf_to = dest, mf_amount = amount\<rparr>)))"

definition TxMsgMintFungible_ok :: "TxMsgMintFungible \<Rightarrow> bool" where
  "TxMsgMintFungible_ok v =
     (intx_ok (mf_amount v))"

lemma TxMsgMintFungible_round_trip [codec_intros]:
  "num_bigint_api nb \<Longrightarrow> TxMsgMintFungible_ok v \<Longrightarrow>
     round_trip1 (write_TxMsgMintFungible nb v) (read_TxMsgMintFungible nb) v"
  unfolding write_TxMsgMintFungible_def read_TxMsgMintFungible_def TxMsgMintFungible_ok_def
  by (rule round_trip_struct codec_intros | (simp add: small_string_ok_def list_all_iff; fail))+

lemma TxMsgMintFungible_safe [safe_intros]: "safe_reader (read_TxMsgMintFungible nb)"
  unfolding read_TxMsgMintFungible_def by (intro safe_intros)

interpretation TxMsgMintFungible_codec: carbon_type "write_TxMsgMintFungible nb" "read_TxMsgMintFungible nb"
    "\<lambda>v. num_bigint_api nb \<and> TxMsgMintFungible_ok v" for nb
  by unfold_locales (simp add: TxMsgMintFungible_round_trip, rule TxMsgMintFungible_safe)


record TxMsgBurnFungible =
  bf_token_id :: u64
  bf_amount :: IntX

definition write_TxMsgBurnFungible :: "num_bigint \<Rightarrow> TxMsgBurnFungible \<Rightarrow> wr_action" where
  "write_TxMsgBurnFungible nb v =
     wr_seq [write8u (bf_token_id v), write_intx nb (bf_amount v)]"

definition read_TxMsgBurnFungible :: "num_bigint \<Rightarrow> TxMsgBurnFungible reader" where
  "read_TxMsgBurnFungible nb =
     rd_bind read8u (\<lambda>token_id.
     rd_bind (read_intx nb) (\<lambda>amount.
       rd_return \<lparr>bf_token_id = token_id, bf_amount = amount\<rparr>))"

definition TxMsgBurnFungible_ok :: "TxMsgBurnFungible \<Rightarrow> bool" where
  "TxMsgBurnFungible_ok v =
     (intx_ok (bf_amount v))"

lemma TxMsgBurnFungible_round_trip [codec_intros]:
  "num_bigint_api nb \<Longrightarrow> TxMsgBurnFungible_ok v \<Longrightarrow>
     round_trip1 (write_TxMsgBurnFungible nb v) (read_TxMsgBurnFungible nb) v"
  unfolding write_TxMsgBurnFungible_def read_TxMsgBurnFungible_def TxMsgBurnFungible_ok_def
  by (rule round_trip_struct codec_intros | (simp add: small_string_ok_def list_all_iff; fail))+

lemma TxMsgBurnFungible_safe [safe_intros]: "safe_reader (read_TxMsgBurnFungible nb)"
  unfolding read_TxMsgBurnFungible_def by (intro safe_intros)

interpretation TxMsgBurnFungible_codec: carbon_type "write_TxMsgBurnFungible nb" "read_TxMsgBurnFungible nb"
    "\<lambda>v. num_bigint_api nb \<and> TxMsgBurnFungible_ok v" for nb
  by unfold_locales (simp add: TxMsgBurnFungible_round_trip, rule TxMsgBurnFungible_safe)


record TxMsgBurnFungibleGasPayer =
  bfg_token_id :: u64
  bfg_from_address :: bytes32
  bfg_amount :: IntX

definition write_TxMsgBurnFungibleGasPayer :: "num_bigint \<Rightarrow> TxMsgBurnFungibleGasPayer \<Rightarrow> wr_action" where
  "write_TxMsgBurnFungibleGasPayer nb v =
     wr_seq [write8u (bfg_token_id v), write32 (bfg_from_address v),
             write_intx nb (bfg_amount v)]"

definition read_TxMsgBurnFungibleGasPayer :: "num_bigint \<Rightarrow> TxMsgBurnFungibleGasPayer reader" where
  "read_TxMsgBurnFungibleGasPayer nb =
     rd_bind read8u (\<lambda>token_id.
     rd_bind read32 (\<lambda>from_addr.
     rd_bind (read_intx nb) (\<lambda>amount.
       rd_return \<lparr>bfg_token_id = token_id, bfg_from_address = from_addr, bfg_amount = amount\<rparr>)))"

definition TxMsgBurnFungibleGasPayer_ok :: "TxMsgBurnFungibleGasPayer \<Rightarrow> bool" where
  "TxMsgBurnFungibleGasPayer_ok v =
     (intx_ok (bfg_amount v))"

lemma TxMsgBurnFungibleGasPayer_round_trip [codec_intros]:
  "num_bigint_api nb \<Longrightarrow> TxMsgBurnFungibleGasPayer_ok v \<Longrightarrow>
     round_trip1 (write_TxMsgBurnFungibleGasPayer nb v) (read_TxMsgBurnFungibleGasPayer nb) v"
  unfolding write_TxMsgBurnFungibleGasPayer_def read_TxMsgBurnFungibleGasPayer_def TxMsgBurnFungibleGasPayer_ok_def
  by (rule round_trip_struct codec_intros | (simp add: small_string_ok_def list_all_iff; fail))+

lemma TxMsgBurnFungibleGasPayer_safe [safe_intros]: "safe_reader (read_TxMsgBurnFungibleGasPayer nb)"
  unfolding read_TxMsgBurnFungibleGasPayer_def by (intro safe_intros)

interpretation TxMsgBurnFungibleGasPayer_codec: carbon_type "write_TxMsgBurnFungibleGasPayer nb" "read_TxMsgBurnFungibleGasPayer nb"
    "\<lambda>v. num_bigint_api nb \<and> TxMsgBurnFungibleGasPayer_ok v" for nb
  by unfold_locales (simp add: TxMsgBurnFungibleGasPayer_round_trip, rule TxMsgBurnFungibleGasPayer_safe)


record TxMsgMintNonFungible =
  mn_token_id :: u64
  mn_to :: bytes32
  mn_series_id :: u32
  mn_rom :: bytes
  mn_ram :: bytes

definition write_TxMsgMintNonFungible :: "TxMsgMintNonFungible \<Rightarrow> wr_action" where
  "write_TxMsgMintNonFungible v =
     wr_seq [write8u (mn_token_id v), write32 (mn_to v), write4u (mn_series_id v),
             write_byte_array (mn_rom v), write_byte_array (mn_ram v)]"

definition read_TxMsgMintNonFungible :: "TxMsgMintNonFungible reader" where
  "read_TxMsgMintNonFungible =
     rd_bind read8u (\<lambda>token_id.
     rd_bind read32 (\<lambda>dest.
     rd_bind read4u (\<lambda>series_id.
     rd_bind read_byte_array (\<lambda>rom.
     rd_bind read_byte_array (\<lambda>ram.
       rd_return \<lparr>mn_token_id = token_id, mn_to = dest, mn_series_id = series_id,
                   mn_rom = rom, mn_ram = ram\<rparr>)))))"

definition TxMsgMintNonFungible_ok :: "TxMsgMintNonFungible \<Rightarrow> bool" where
  "TxMsgMintNonFungible_ok v =
     (fits_length (length (mn_rom v))
      \<and> fits_length (length (mn_ram v)))"

lemma TxMsgMintNonFungible_round_trip [codec_intros]:
  "TxMsgMintNonFungible_ok v \<Longrightarrow>
     round_trip1 (write_TxMsgMintNonFungible v) read_TxMsgMintNonFungible v"
  unfolding write_TxMsgMintNonFungible_def read_TxMsgMintNonFungible_def TxMsgMintNonFungible_ok_def
  by (rule round_trip_struct codec_intros | (simp add: small_string_ok_def list_all_iff; fail))+

lemma TxMsgMintNonFungible_safe [safe_intros]: "safe_reader read_TxMsgMintNonFungible"
  unfolding read_TxMsgMintNonFungible_def by (intro safe_intros)

interpretation TxMsgMintNonFungible_codec: carbon_type write_TxMsgMintNonFungible read_TxMsgMintNonFungible
    TxMsgMintNonFungible_ok
  by unfold_locales (simp add: TxMsgMintNonFungible_round_trip, rule TxMsgMintNonFungible_safe)


record TxMsgBurnNonFungible =
  bn_token_id :: u64
  bn_instance_id :: u64

definition write_TxMsgBurnNonFungible :: "TxMsgBurnNonFungible \<Rightarrow> wr_action" where
  "write_TxMsgBurnNonFungible v =
     wr_seq [write8u (bn_token_id v), write8u (bn_instance_id v)]"

definition read_TxMsgBurnNonFungible :: "TxMsgBurnNonFungible reader" where
  "read_TxMsgBurnNonFungible =
     rd_bind read8u (\<lambda>token_id.
     rd_bind read8u (\<lambda>instance_id.
       rd_return \<lparr>bn_token_id = token_id, bn_instance_id = instance_id\<rparr>))"

lemma TxMsgBurnNonFungible_round_trip [codec_intros]:
  "round_trip1 (write_TxMsgBurnNonFungible v) read_TxMsgBurnNonFungible v"
  unfolding write_TxMsgBurnNonFungible_def read_TxMsgBurnNonFungible_def
  by (rule round_trip_struct codec_intros | (simp add: small_string_ok_def list_all_iff; fail))+

lemma TxMsgBurnNonFungible_safe [safe_intros]: "safe_reader read_TxMsgBurnNonFungible"
  unfolding read_TxMsgBurnNonFungible_def by (intro safe_intros)

interpretation TxMsgBurnNonFungible_codec: carbon_type write_TxMsgBurnNonFungible read_TxMsgBurnNonFungible
    "\<lambda>_. True"
  by unfold_locales (simp add: TxMsgBurnNonFungible_round_trip, rule TxMsgBurnNonFungible_safe)


record TxMsgBurnNonFungibleGasPayer =
  bng_token_id :: u64
  bng_from_address :: bytes32
  bng_instance_id :: u64

definition write_TxMsgBurnNonFungibleGasPayer :: "TxMsgBurnNonFungibleGasPayer \<Rightarrow> wr_action" where
  "write_TxMsgBurnNonFungibleGasPayer v =
     wr_seq [write8u (bng_token_id v), write32 (bng_from_address v),
             write8u (bng_instance_id v)]"

definition read_TxMsgBurnNonFungibleGasPayer :: "TxMsgBurnNonFungibleGasPayer reader" where
  "read_TxMsgBurnNonFungibleGasPayer =
     rd_bind read8u (\<lambda>token_id.
     rd_bind read32 (\<lambda>from_addr.
     rd_bind read8u (\<lambda>instance_id.
       rd_return \<lparr>bng_token_id = token_id, bng_from_address = from_addr,
                   bng_instance_id = instance_id\<rparr>)))"

lemma TxMsgBurnNonFungibleGasPayer_round_trip [codec_intros]:
  "round_trip1 (write_TxMsgBurnNonFungibleGasPayer v) read_TxMsgBurnNonFungibleGasPayer v"
  unfolding write_TxMsgBurnNonFungibleGasPayer_def read_TxMsgBurnNonFungibleGasPayer_def
  by (rule round_trip_struct codec_intros | (simp add: small_string_ok_def list_all_iff; fail))+

lemma TxMsgBurnNonFungibleGasPayer_safe [safe_intros]: "safe_reader read_TxMsgBurnNonFungibleGasPayer"
  unfolding read_TxMsgBurnNonFungibleGasPayer_def by (intro safe_intros)

interpretation TxMsgBurnNonFungibleGasPayer_codec: carbon_type write_TxMsgBurnNonFungibleGasPayer read_TxMsgBurnNonFungibleGasPayer
    "\<lambda>_. True"
  by unfold_locales (simp add: TxMsgBurnNonFungibleGasPayer_round_trip, rule TxMsgBurnNonFungibleGasPayer_safe)


record TxMsgTrade =
  tr_transfer_f :: "TxMsgTransferFungibleGasPayer list"
  tr_transfer_n :: "TxMsgTransferNonFungibleSingleGasPayer list"
  tr_mint_f :: "TxMsgMintFungible list"
  tr_burn_f :: "TxMsgBurnFungibleGasPayer list"
  tr_mint_n :: "TxMsgMintNonFungible list"
  tr_burn_n :: "TxMsgBurnNonFungibleGasPayer list"

definition write_TxMsgTrade :: "num_bigint \<Rightarrow> TxMsgTrade \<Rightarrow> wr_action" where
  "write_TxMsgTrade nb v =
     wr_seq [write_carbon_array write_TxMsgTransferFungibleGasPayer (tr_transfer_f v),
             write_carbon_array write_TxMsgTransferNonFungibleSingleGasPayer (tr_transfer_n v),
             write_carbon_array (write_TxMsgMintFungible nb) (tr_mint_f v),
             write_carbon_array (write_TxMsgBurnFungibleGasPayer nb) (tr_burn_f v),
             write_carbon_array write_TxMsgMintNonFungible (tr_mint_n v),
             write_carbon_array write_TxMsgBurnNonFungibleGasPayer (tr_burn_n v)]"

definition read_TxMsgTrade :: "num_bigint \<Rightarrow> TxMsgTrade reader" where
  "read_TxMsgTrade nb =
     rd_bind (read_carbon_array read_TxMsgTransferFungibleGasPayer) (\<lambda>transfer_f.
     rd_bind (read_carbon_array read_TxMsgTransferNonFungibleSingleGasPayer) (\<lambda>transfer_n.
     rd_bind (read_carbon_array (read_TxMsgMintFungible nb)) (\<lambda>mint_f.
     rd_bind (read_carbon_array (read_TxMsgBurnFungibleGasPayer nb)) (\<lambda>burn_f.
     rd_bind (read_carbon_array read_TxMsgMintNonFungible) (\<lambda>mint_n.
     rd_bind (read_carbon_array read_TxMsgBurnNonFungibleGasPayer) (\<lambda>burn_n.
       rd_return \<lparr>tr_transfer_f = transfer_f, tr_transfer_n = transfer_n, tr_mint_f = mint_f,
                   tr_burn_f = burn_f, tr_mint_n = mint_n, tr_burn_n = burn_n\<rparr>))))))"

definition TxMsgTrade_ok :: "TxMsgTrade \<Rightarrow> bool" where
  "TxMsgTrade_ok v =
     (fits_length (length (tr_transfer_f v))
      \<and> fits_length (length (tr_transfer_n v))
      \<and> fits_length (length (tr_mint_f v)) \<and> list_all TxMsgMintFungible_ok (tr_mint_f v)
      \<and> fits_length (length (tr_burn_f v)) \<and> list_all TxMsgBurnFungibleGasPayer_ok (tr_burn_f v)
      \<and> fits_length (length (tr_mint_n v)) \<and> list_all TxMsgMintNonFungible_ok (tr_mint_n v)
      \<and> fits_length (length (tr_burn_n v)))"

lemma TxMsgTrade_round_trip [codec_intros]:
  "num_bigint_api nb \<Longrightarrow> TxMsgTrade_ok v \<Longrightarrow>
     round_trip1 (write_TxMsgTrade nb v) (read_TxMsgTrade nb) v"
  unfolding write_TxMsgTrade_def read_TxMsgTrade_def TxMsgTrade_ok_def
  by (rule round_trip_struct codec_intros
      TxMsgTransferFungibleGasPayer_codec.carbon_array_round_trip TxMsgTransferNonFungibleSingleGasPayer_codec.carbon_array_round_trip TxMsgMintFungible_codec.carbon_array_round_trip TxMsgBurnFungibleGasPayer_codec.carbon_array_round_trip TxMsgMintNonFungible_codec.carbon_array_round_trip TxMsgBurnNonFungibleGasPayer_codec.carbon_array_round_trip
     | (simp add: small_string_ok_def list_all_iff; fail))+

lemma TxMsgTrade_safe [safe_intros]: "safe_reader (read_TxMsgTrade nb)"
  unfolding read_TxMsgTrade_def by (intro safe_intros)

interpretation TxMsgTrade_codec: carbon_type "write_TxMsgTrade nb" "read_TxMsgTrade nb"
    "\<lambda>v. num_bigint_api nb \<and> TxMsgTrade_ok v" for nb
  by unfold_locales (simp add: TxMsgTrade_round_trip, rule TxMsgTrade_safe)


record TxMsgPhantasma =
  ph_nexus :: SmallString
  ph_chain :: SmallString
  ph_script :: bytes

definition write_TxMsgPhantasma :: "TxMsgPhantasma \<Rightarrow> wr_action" where
  "write_TxMsgPhantasma v =
     wr_seq [write_small_string (ph_nexus v), write_small_string (ph_chain v),
             write_byte_array (ph_script v)]"

definition read_TxMsgPhantasma :: "TxMsgPhantasma reader" where
  "read_TxMsgPhantasma =
     rd_bind read_small_string (\<lambda>nexus.
     rd_bind read_small_string (\<lambda>chain.
     rd_bind read_byte_array (\<lambda>script.
       rd_return \<lparr>ph_nexus = nexus, ph_chain = chain, ph_script = script\<rparr>)))"

definition TxMsgPhantasma_ok :: "TxMsgPhantasma \<Rightarrow> bool" where
  "TxMsgPhantasma_ok v =
     (small_string_ok (ph_nexus v)
      \<and> small_string_ok (ph_chain v)
      \<and> fits_length (length (ph_script v)))"

lemma TxMsgPhantasma_round_trip [codec_intros]:
  "TxMsgPhantasma_ok v \<Longrightarrow>
     round_trip1 (write_TxMsgPhantasma v) read_TxMsgPhantasma v"
  unfolding write_TxMsgPhantasma_def read_TxMsgPhantasma_def TxMsgPhantasma_ok_def
  by (rule round_trip_struct codec_intros | (simp add: small_string_ok_def list_all_iff; fail))+

lemma TxMsgPhantasma_safe [safe_intros]: "safe_reader read_TxMsgPhantasma"
  unfolding read_TxMsgPhantasma_def by (intro safe_intros)

interpretation TxMsgPhantasma_codec: carbon_type write_TxMsgPhantasma read_TxMsgPhantasma
    TxMsgPhantasma_ok
  by unfold_locales (simp add: TxMsgPhantasma_round_trip, rule TxMsgPhantasma_safe)


record TxMsgPhantasmaRaw =
  pr_transaction :: bytes

definition write_TxMsgPhantasmaRaw :: "TxMsgPhantasmaRaw \<Rightarrow> wr_action" where
  "write_TxMsgPhantasmaRaw v =
     wr_seq [write_byte_array (pr_transaction v)]"

definition read_TxMsgPhantasmaRaw :: "TxMsgPhantasmaRaw reader" where
  "read_TxMsgPhantasmaRaw =
     rd_bind read_byte_array (\<lambda>transaction.
       rd_return \<lparr>pr_transaction = transaction\<rparr>)"

definition TxMsgPhantasmaRaw_ok :: "TxMsgPhantasmaRaw \<Rightarrow> bool" where
  "TxMsgPhantasmaRaw_ok v =
     (fits_length (length (pr_transaction v)))"

lemma TxMsgPhantasmaRaw_round_trip [codec_intros]:
  "TxMsgPhantasmaRaw_ok v \<Longrightarrow>
     round_trip1 (write_TxMsgPhantasmaRaw v) read_TxMsgPhantasmaRaw v"
  unfolding write_TxMsgPhantasmaRaw_def read_TxMsgPhantasmaRaw_def TxMsgPhantasmaRaw_ok_def
  by (rule round_trip_struct codec_intros | (simp add: small_string_ok_def list_all_iff; fail))+

lemma TxMsgPhantasmaRaw_safe [safe_intros]: "safe_reader read_TxMsgPhantasmaRaw"
  unfolding read_TxMsgPhantasmaRaw_def by (intro safe_intros)

interpretation TxMsgPhantasmaRaw_codec: carbon_type write_TxMsgPhantasmaRaw read_TxMsgPhantasmaRaw
    TxMsgPhantasmaRaw_ok
  by unfold_locales (simp add: TxMsgPhantasmaRaw_round_trip, rule TxMsgPhantasmaRaw_safe)


section \<open>Messages\<close>

datatype TxPayload =
    TP_Call TxMsgCall
  | TP_CallMulti TxMsgCallMulti
  | TP_Trade TxMsgTrade
  | TP_TransferFungible TxMsgTransferFungible
  | TP_TransferFungibleGasPayer TxMsgTransferFungibleGasPayer
  | TP_TransferNonFungibleSingle TxMsgTransferNonFungibleSingle
  | TP_TransferNonFungibleSingleGasPayer TxMsgTransferNonFungibleSingleGasPayer
  | TP_TransferNonFungibleMulti TxMsgTransferNonFungibleMulti
  | TP_TransferNonFungibleMultiGasPayer TxMsgTransferNonFungibleMultiGasPayer
  | TP_MintFungible TxMsgMintFungible
  | TP_BurnFungible TxMsgBurnFungible
  | TP_BurnFungibleGasPayer TxMsgBurnFungibleGasPayer
  | TP_MintNonFungible TxMsgMintNonFungible
  | TP_BurnNonFungible TxMsgBurnNonFungible
  | TP_BurnNonFungibleGasPayer TxMsgBurnNonFungibleGasPayer
  | TP_Phantasma TxMsgPhantasma
  | TP_PhantasmaRaw TxMsgPhantasmaRaw

primrec payload_type :: "TxPayload \<Rightarrow> TxType" where
  "payload_type (TP_Call v) = TT_Call"
| "payload_type (TP_CallMulti v) = TT_CallMulti"
| "payload_type (TP_Trade v) = TT_Trade"
| "payload_type (TP_TransferFungible v) = TT_TransferFungible"
| "payload_type (TP_TransferFungibleGasPayer v) = TT_TransferFungibleGasPayer"
| "payload_type (TP_TransferNonFungibleSingle v) = TT_TransferNonFungibleSingle"
| "payload_type (TP_TransferNonFungibleSingleGasPayer v) = TT_TransferNonFungibleSingleGasPayer"
| "payload_type (TP_TransferNonFungibleMulti v) = TT_TransferNonFungibleMulti"
| "payload_type (TP_TransferNonFungibleMultiGasPayer v) = TT_TransferNonFungibleMultiGasPayer"
| "payload_type (TP_MintFungible v) = TT_MintFungible"
| "payload_type (TP_BurnFungible v) = TT_BurnFungible"
| "payload_type (TP_BurnFungibleGasPayer v) = TT_BurnFungibleGasPayer"
| "payload_type (TP_MintNonFungible v) = TT_MintNonFungible"
| "payload_type (TP_BurnNonFungible v) = TT_BurnNonFungible"
| "payload_type (TP_BurnNonFungibleGasPayer v) = TT_BurnNonFungibleGasPayer"
| "payload_type (TP_Phantasma v) = TT_Phantasma"
| "payload_type (TP_PhantasmaRaw v) = TT_PhantasmaRaw"

primrec write_TxPayload :: "num_bigint \<Rightarrow> TxPayload \<Rightarrow> wr_action" where
  "write_TxPayload nb (TP_Call v) = write_TxMsgCall v"
| "write_TxPayload nb (TP_CallMulti v) = write_TxMsgCallMulti v"
| "write_TxPayload nb (TP_Trade v) = write_TxMsgTrade nb v"
| "write_TxPayload nb (TP_TransferFungible v) = write_TxMsgTransferFungible v"
| "write_TxPayload nb (TP_TransferFungibleGasPayer v) = write_TxMsgTransferFungibleGasPayer v"
| "write_TxPayload nb (TP_TransferNonFungibleSingle v) = write_TxMsgTransferNonFungibleSingle v"
| "write_TxPayload nb (TP_TransferNonFungibleSingleGasPayer v) = write_TxMsgTransferNonFungibleSingleGasPayer v"
| "write_TxPayload nb (TP_TransferNonFungibleMulti v) = write_TxMsgTransferNonFungibleMulti v"
| "write_TxPayload nb (TP_TransferNonFungibleMultiGasPayer v) = write_TxMsgTransferNonFungibleMultiGasPayer v"
| "write_TxPayload nb (TP_MintFungible v) = write_TxMsgMintFungible nb v"
| "write_TxPayload nb (TP_BurnFungible v) = write_TxMsgBurnFungible nb v"
| "write_TxPayload nb (TP_BurnFungibleGasPayer v) = write_TxMsgBurnFungibleGasPayer nb v"
| "write_TxPayload nb (TP_MintNonFungible v) = write_TxMsgMintNonFungible v"
| "write_TxPayload nb (TP_BurnNonFungible v) = write_TxMsgBurnNonFungible v"
| "write_TxPayload nb (TP_BurnNonFungibleGasPayer v) = write_TxMsgBurnNonFungibleGasPayer v"
| "write_TxPayload nb (TP_Phantasma v) = write_TxMsgPhantasma v"
| "write_TxPayload nb (TP_PhantasmaRaw v) = write_TxMsgPhantasmaRaw v"

primrec read_TxPayload :: "num_bigint \<Rightarrow> TxType \<Rightarrow> TxPayload reader" where
  "read_TxPayload nb TT_Call = rd_bind read_TxMsgCall (\<lambda>v. rd_return (TP_Call v))"
| "read_TxPayload nb TT_CallMulti = rd_bind read_TxMsgCallMulti (\<lambda>v. rd_return (TP_CallMulti v))"
| "read_TxPayload nb TT_Trade = rd_bind (read_TxMsgTrade nb) (\<lambda>v. rd_return (TP_Trade v))"
| "read_TxPayload nb TT_TransferFungible = rd_bind read_TxMsgTransferFungible (\<lambda>v. rd_return (TP_TransferFungible v))"
| "read_TxPayload nb TT_TransferFungibleGasPayer = rd_bind read_TxMsgTransferFungibleGasPayer (\<lambda>v. rd_return (TP_TransferFungibleGasPayer v))"
| "read_TxPayload nb TT_TransferNonFungibleSingle = rd_bind read_TxMsgTransferNonFungibleSingle (\<lambda>v. rd_return (TP_TransferNonFungibleSingle v))"
| "read_TxPayload nb TT_TransferNonFungibleSingleGasPayer = rd_bind read_TxMsgTransferNonFungibleSingleGasPayer (\<lambda>v. rd_return (TP_TransferNonFungibleSingleGasPayer v))"
| "read_TxPayload nb TT_TransferNonFungibleMulti = rd_bind read_TxMsgTransferNonFungibleMulti (\<lambda>v. rd_return (TP_TransferNonFungibleMulti v))"
| "read_TxPayload nb TT_TransferNonFungibleMultiGasPayer = rd_bind read_TxMsgTransferNonFungibleMultiGasPayer (\<lambda>v. rd_return (TP_TransferNonFungibleMultiGasPayer v))"
| "read_TxPayload nb TT_MintFungible = rd_bind (read_TxMsgMintFungible nb) (\<lambda>v. rd_return (TP_MintFungible v))"
| "read_TxPayload nb TT_BurnFungible = rd_bind (read_TxMsgBurnFungible nb) (\<lambda>v. rd_return (TP_BurnFungible v))"
| "read_TxPayload nb TT_BurnFungibleGasPayer = rd_bind (read_TxMsgBurnFungibleGasPayer nb) (\<lambda>v. rd_return (TP_BurnFungibleGasPayer v))"
| "read_TxPayload nb TT_MintNonFungible = rd_bind read_TxMsgMintNonFungible (\<lambda>v. rd_return (TP_MintNonFungible v))"
| "read_TxPayload nb TT_BurnNonFungible = rd_bind read_TxMsgBurnNonFungible (\<lambda>v. rd_return (TP_BurnNonFungible v))"
| "read_TxPayload nb TT_BurnNonFungibleGasPayer = rd_bind read_TxMsgBurnNonFungibleGasPayer (\<lambda>v. rd_return (TP_BurnNonFungibleGasPayer v))"
| "read_TxPayload nb TT_Phantasma = rd_bind read_TxMsgPhantasma (\<lambda>v. rd_return (TP_Phantasma v))"
| "read_TxPayload nb TT_PhantasmaRaw = rd_bind read_TxMsgPhantasmaRaw (\<lambda>v. rd_return (TP_PhantasmaRaw v))"

primrec TxPayload_ok :: "TxPayload \<Rightarrow> bool" where
  "TxPayload_ok (TP_Call v) = TxMsgCall_ok v"
| "TxPayload_ok (TP_CallMulti v) = TxMsgCallMulti_ok v"
| "TxPayload_ok (TP_Trade v) = TxMsgTrade_ok v"
| "TxPayload_ok (TP_TransferFungible v) = True"
| "TxPayload_ok (TP_TransferFungibleGasPayer v) = True"
| "TxPayload_ok (TP_TransferNonFungibleSingle v) = True"
| "TxPayload_ok (TP_TransferNonFungibleSingleGasPayer v) = True"
| "TxPayload_ok (TP_TransferNonFungibleMulti v) = TxMsgTransferNonFungibleMulti_ok v"
| "TxPayload_ok (TP_TransferNonFungibleMultiGasPayer v) = TxMsgTransferNonFungibleMultiGasPayer_ok v"
| "TxPayload_ok (TP_MintFungible v) = TxMsgMintFungible_ok v"
| "TxPayload_ok (TP_BurnFungible v) = TxMsgBurnFungible_ok v"
| "TxPayload_ok (TP_BurnFungibleGasPayer v) = TxMsgBurnFungibleGasPayer_ok v"
| "TxPayload_ok (TP_MintNonFungible v) = TxMsgMintNonFungible_ok v"
| "TxPayload_ok (TP_BurnNonFungible v) = True"
| "TxPayload_ok (TP_BurnNonFungibleGasPayer v) = True"
| "TxPayload_ok (TP_Phantasma v) = TxMsgPhantasma_ok v"
| "TxPayload_ok (TP_PhantasmaRaw v) = TxMsgPhantasmaRaw_ok v"

definition payload_from_address :: "TxPayload \<Rightarrow> bytes32" where
  "payload_from_address p =
     (case p of
        TP_TransferFungibleGasPayer v \<Rightarrow> tfg_from_address v
      | TP_TransferNonFungibleSingleGasPayer v \<Rightarrow> tnsg_from_address v
      | TP_TransferNonFungibleMultiGasPayer v \<Rightarrow> tnmg_from_address v
      | TP_BurnFungibleGasPayer v \<Rightarrow> bfg_from_address v
      | TP_BurnNonFungibleGasPayer v \<Rightarrow> bng_from_address v
      | _ \<Rightarrow> EMPTY_BYTES32)"

lemma round_trip1_wrap:
  "round_trip1 a p v \<Longrightarrow> round_trip1 a (rd_bind p (\<lambda>x. rd_return (C x))) (C v)"
  by (rule round_trip1_map) auto

lemma TxPayload_round_trip [codec_intros]:
  assumes "num_bigint_api nb" and "TxPayload_ok p"
  shows "round_trip1 (write_TxPayload nb p) (read_TxPayload nb (payload_type p)) p"
  using assms
  by - (cases p; simp only: write_TxPayload.simps read_TxPayload.simps payload_type.simps TxPayload_ok.simps;
      rule round_trip1_wrap; rule codec_intros; assumption)

text \<open>Only the two call types can panic while a payload is read.\<close>

lemma TxPayload_safe:
  assumes "t \<noteq> TT_Call" and "t \<noteq> TT_CallMulti"
  shows "safe_reader (read_TxPayload nb t)"
  using assms by (cases t; simp only: read_TxPayload.simps simp_thms; intro safe_intros)

lemma TxPayload_panics [panic_intros]: "panics_within {Arithmetic_Overflow} (read_TxPayload nb t)"
proof -
  consider "t = TT_Call" | "t = TT_CallMulti" | "t \<noteq> TT_Call" "t \<noteq> TT_CallMulti" by blast
  then show ?thesis
    by cases (auto intro!: panics_within_bind TxMsgCall_panics TxMsgCallMulti_panics
        intro: safe_imp_panics_within safe_return TxPayload_safe)
qed

record TxMsg =
  tm_tx_type :: TxType
  tm_expiry :: i64
  tm_max_gas :: u64
  tm_max_data :: u64
  tm_gas_from :: bytes32
  tm_payload :: SmallString
  tm_msg :: TxPayload

definition write_TxMsg :: "num_bigint \<Rightarrow> TxMsg \<Rightarrow> wr_action" where
  "write_TxMsg nb v =
     wr_seq [write1 (TxType_code (tm_tx_type v)), write8 (tm_expiry v), write8u (tm_max_gas v),
             write8u (tm_max_data v), write32 (tm_gas_from v), write_small_string (tm_payload v),
             write_TxPayload nb (tm_msg v)]"

definition read_TxMsg :: "num_bigint \<Rightarrow> TxMsg reader" where
  "read_TxMsg nb =
     rd_bind (rd_bind read1 (\<lambda>b. rd_lift (TxType_try_from b))) (\<lambda>tx_type.
     rd_bind read8 (\<lambda>expiry.
     rd_bind read8u (\<lambda>max_gas.
     rd_bind read8u (\<lambda>max_data.
     rd_bind read32 (\<lambda>gas_from.
     rd_bind read_small_string (\<lambda>payload.
     rd_bind (read_TxPayload nb tx_type) (\<lambda>msg.
       rd_return \<lparr>tm_tx_type = tx_type, tm_expiry = expiry, tm_max_gas = max_gas,
                   tm_max_data = max_data, tm_gas_from = gas_from, tm_payload = payload,
                   tm_msg = msg\<rparr>)))))))"

text \<open>The type tag of a message names its payload.\<close>

definition TxMsg_ok :: "TxMsg \<Rightarrow> bool" where
  "TxMsg_ok v =
     (payload_type (tm_msg v) = tm_tx_type v \<and> small_string_ok (tm_payload v)
      \<and> TxPayload_ok (tm_msg v))"

lemma tx_type_round_trip:
  "round_trip1 (write1 (TxType_code t)) (rd_bind read1 (\<lambda>b. rd_lift (TxType_try_from b))) t"
  by (rule round_trip1_map [OF fixed_round_trips(1)]) simp

lemma TxMsg_round_trip [codec_intros]:
  assumes "num_bigint_api nb" and "TxMsg_ok v"
  shows "round_trip1 (write_TxMsg nb v) (read_TxMsg nb) v"
proof -
  have type: "payload_type (tm_msg v) = tm_tx_type v" using assms(2) by (simp add: TxMsg_ok_def)
  have payload: "round_trip1 (write_TxPayload nb (tm_msg v)) (read_TxPayload nb (tm_tx_type v)) (tm_msg v)"
    using TxPayload_round_trip [of nb "tm_msg v"] assms by (simp add: TxMsg_ok_def)
  show ?thesis
    using assms(2) unfolding write_TxMsg_def read_TxMsg_def TxMsg_ok_def
    by - (rule round_trip_struct tx_type_round_trip payload codec_intros
        | (simp add: small_string_ok_def; fail))+
qed

lemma TxMsg_panics [panic_intros]: "panics_within {Arithmetic_Overflow} (read_TxMsg nb)"
  unfolding read_TxMsg_def
  by (intro panics_within_bind TxPayload_panics)
     (auto intro!: safe_imp_panics_within safe_intros)

interpretation TxMsg_codec: carbon_codec "write_TxMsg nb" "read_TxMsg nb"
    "\<lambda>v. num_bigint_api nb \<and> TxMsg_ok v" for nb
  by unfold_locales (simp add: TxMsg_round_trip)

interpretation TxMsg_decoder: carbon_partial_decoder "read_TxMsg nb" "{Arithmetic_Overflow}" for nb
  by unfold_locales (rule TxMsg_panics)

section \<open>Signed messages\<close>

record Witness =
  w_address :: bytes32
  w_signature :: bytes64

definition write_Witness :: "Witness \<Rightarrow> wr_action" where
  "write_Witness v = wr_seq [write32 (w_address v), write64 (w_signature v)]"

definition read_Witness :: "Witness reader" where
  "read_Witness =
     rd_bind read32 (\<lambda>addr. rd_bind read64 (\<lambda>sig.
       rd_return \<lparr>w_address = addr, w_signature = sig\<rparr>))"

lemma Witness_round_trip [codec_intros]: "round_trip1 (write_Witness v) read_Witness v"
  unfolding write_Witness_def read_Witness_def
  by (rule round_trip_struct codec_intros | (simp; fail))+

lemma Witness_safe [safe_intros]: "safe_reader read_Witness"
  unfolding read_Witness_def by (intro safe_intros)

interpretation Witness_codec: carbon_type write_Witness read_Witness "\<lambda>_. True"
  by unfold_locales (simp add: Witness_round_trip, rule Witness_safe)

text \<open>The groups of types that the source's matches on \<open>tx_type\<close> distinguish.\<close>

definition single_witness :: "TxType \<Rightarrow> bool" where
  "single_witness t \<longleftrightarrow>
     t \<in> {TT_TransferFungible, TT_TransferNonFungibleSingle, TT_TransferNonFungibleMulti,
          TT_MintFungible, TT_BurnFungible, TT_MintNonFungible, TT_BurnNonFungible}"

definition gas_payer_type :: "TxType \<Rightarrow> bool" where
  "gas_payer_type t \<longleftrightarrow>
     t \<in> {TT_TransferFungibleGasPayer, TT_TransferNonFungibleSingleGasPayer,
          TT_TransferNonFungibleMultiGasPayer, TT_BurnFungibleGasPayer, TT_BurnNonFungibleGasPayer}"

definition witness_array_type :: "TxType \<Rightarrow> bool" where
  "witness_array_type t \<longleftrightarrow> t \<in> {TT_Call, TT_CallMulti, TT_Trade, TT_Phantasma}"

lemma tx_type_cases:
  obtains "single_witness t" "\<not> gas_payer_type t" "\<not> witness_array_type t"
  | "gas_payer_type t" "\<not> single_witness t" "\<not> witness_array_type t"
  | "witness_array_type t" "\<not> single_witness t" "\<not> gas_payer_type t"
  | "t = TT_PhantasmaRaw" "\<not> single_witness t" "\<not> gas_payer_type t" "\<not> witness_array_type t"
  by (cases t) (simp_all add: single_witness_def gas_payer_type_def witness_array_type_def)

record SignedTxMsg =
  sm_msg :: TxMsg
  sm_witnesses :: "Witness list"

definition required_witnesses :: "TxMsg \<Rightarrow> bytes32 list option" where
  "required_witnesses msg =
     (if single_witness (tm_tx_type msg) then Some [tm_gas_from msg]
      else if gas_payer_type (tm_tx_type msg)
        then Some [tm_gas_from msg, payload_from_address (tm_msg msg)]
      else if tm_tx_type msg = TT_PhantasmaRaw then Some []
      else None)"

text \<open>The envelope part of \<open>SignedTxMsg::write_carbon\<close>.\<close>

definition write_witnesses :: "TxMsg \<Rightarrow> Witness list \<Rightarrow> wr_action" where
  "write_witnesses msg ws =
     (if single_witness (tm_tx_type msg) then
        (if length ws \<noteq> 1 \<or> w_address (ws ! 0) \<noteq> tm_gas_from msg
         then wr_fail (Serialization ''single-witness transaction address mismatch'')
         else write64 (w_signature (ws ! 0)))
      else if gas_payer_type (tm_tx_type msg) then
        (if length ws \<noteq> 2
         then wr_fail (Serialization ''gas-payer transaction expects 2 witnesses'')
         else if w_address (ws ! 0) \<noteq> tm_gas_from msg
         then wr_fail (Serialization ''gas witness address mismatch'')
         else if w_address (ws ! 1) \<noteq> payload_from_address (tm_msg msg)
         then wr_fail (Serialization ''from witness address mismatch'')
         else wr_seq [write64 (w_signature (ws ! 0)), write64 (w_signature (ws ! 1))])
      else if witness_array_type (tm_tx_type msg) then
        (if \<not> list_ex (\<lambda>w. w_address w = tm_gas_from msg) ws
         then wr_fail (Serialization ''the gas payer must be one of the witnesses'')
         else write_carbon_array write_Witness ws)
      else
        (if ws \<noteq> []
         then wr_fail (Serialization ''raw Phantasma transaction must not contain witnesses'')
         else wr_seq []))"

definition write_SignedTxMsg :: "num_bigint \<Rightarrow> SignedTxMsg \<Rightarrow> wr_action" where
  "write_SignedTxMsg nb v =
     wr_seq [write_TxMsg nb (sm_msg v), write_witnesses (sm_msg v) (sm_witnesses v)]"

definition read_witnesses :: "TxMsg \<Rightarrow> Witness list reader" where
  "read_witnesses msg =
     (if single_witness (tm_tx_type msg) then
        rd_bind read64 (\<lambda>sig. rd_return [\<lparr>w_address = tm_gas_from msg, w_signature = sig\<rparr>])
      else if gas_payer_type (tm_tx_type msg) then
        rd_bind read64 (\<lambda>sig1. rd_bind read64 (\<lambda>sig2. rd_return
          [\<lparr>w_address = tm_gas_from msg, w_signature = sig1\<rparr>,
           \<lparr>w_address = payload_from_address (tm_msg msg), w_signature = sig2\<rparr>]))
      else if witness_array_type (tm_tx_type msg) then read_carbon_array read_Witness
      else rd_return [])"

definition read_SignedTxMsg :: "num_bigint \<Rightarrow> SignedTxMsg reader" where
  "read_SignedTxMsg nb =
     rd_bind (read_TxMsg nb) (\<lambda>msg. rd_bind (read_witnesses msg) (\<lambda>ws.
       rd_return \<lparr>sm_msg = msg, sm_witnesses = ws\<rparr>))"

text \<open>The witness sets the envelope of a message admits.\<close>

definition witnesses_ok :: "TxMsg \<Rightarrow> Witness list \<Rightarrow> bool" where
  "witnesses_ok msg ws =
     (case required_witnesses msg of
        Some addresses \<Rightarrow> map w_address ws = addresses
      | None \<Rightarrow> tm_gas_from msg \<in> w_address ` set ws \<and> fits_length (length ws))"

definition SignedTxMsg_ok :: "SignedTxMsg \<Rightarrow> bool" where
  "SignedTxMsg_ok v = (TxMsg_ok (sm_msg v) \<and> witnesses_ok (sm_msg v) (sm_witnesses v))"

lemma required_witnesses_simps:
  "single_witness (tm_tx_type msg) \<Longrightarrow> required_witnesses msg = Some [tm_gas_from msg]"
  "gas_payer_type (tm_tx_type msg) \<Longrightarrow> required_witnesses msg =
     Some [tm_gas_from msg, payload_from_address (tm_msg msg)]"
  "witness_array_type (tm_tx_type msg) \<Longrightarrow> required_witnesses msg = None"
  "tm_tx_type msg = TT_PhantasmaRaw \<Longrightarrow> required_witnesses msg = Some []"
  by (auto simp: required_witnesses_def single_witness_def gas_payer_type_def witness_array_type_def)

lemma map_eq_one: "map f xs = [a] \<longleftrightarrow> (\<exists>x. xs = [x] \<and> f x = a)"
  by (auto simp: map_eq_Cons_conv)

lemma map_eq_two: "map f xs = [a, b] \<longleftrightarrow> (\<exists>x y. xs = [x, y] \<and> f x = a \<and> f y = b)"
  by (auto simp: map_eq_Cons_conv)

lemma witnesses_round_trip:
  assumes "witnesses_ok msg ws"
  shows "round_trip (write_witnesses msg ws) (read_witnesses msg) ws"
proof (cases rule: tx_type_cases [of "tm_tx_type msg"])
  case 1
  then obtain w where w: "ws = [w]" "w_address w = tm_gas_from msg"
    using assms by (auto simp: witnesses_ok_def required_witnesses_simps map_eq_one)
  from 1 w show ?thesis
    by (simp add: write_witnesses_def read_witnesses_def)
       (rule round_trip1_imp, rule round_trip1_map [OF fixed_round_trips(9)],
        rule arg_cong [of _ _ rd_return], simp add: w(2) [symmetric])
next
  case 2
  then obtain w1 w2 where w: "ws = [w1, w2]" "w_address w1 = tm_gas_from msg"
      "w_address w2 = payload_from_address (tm_msg msg)"
    using assms by (auto simp: witnesses_ok_def required_witnesses_simps map_eq_two)
  from 2 w show ?thesis
    by (simp add: write_witnesses_def read_witnesses_def del: wr_seq.simps)
       (rule round_trip_cons [OF fixed_round_trips(9)], rule round_trip_cons [OF fixed_round_trips(9)],
        rule round_trip_nil, simp add: w(2,3) [symmetric])
next
  case 3
  then have "list_ex (\<lambda>w. w_address w = tm_gas_from msg) ws" "fits_length (length ws)"
    using assms by (auto simp: witnesses_ok_def required_witnesses_simps list_ex_iff)
  with 3 show ?thesis
    using Witness_codec.carbon_array_round_trip [of ws, THEN round_trip1_imp]
    by (simp add: write_witnesses_def read_witnesses_def)
next
  case 4
  then show ?thesis
    using assms by (auto simp: witnesses_ok_def required_witnesses_simps write_witnesses_def
        read_witnesses_def intro: round_trip_nil)
qed

lemma SignedTxMsg_round_trip [codec_intros]:
  assumes "num_bigint_api nb" and "SignedTxMsg_ok v"
  shows "round_trip1 (write_SignedTxMsg nb v) (read_SignedTxMsg nb) v"
proof -
  have ok: "TxMsg_ok (sm_msg v)" "witnesses_ok (sm_msg v) (sm_witnesses v)"
    using assms(2) by (simp_all add: SignedTxMsg_ok_def)
  show ?thesis
    unfolding write_SignedTxMsg_def read_SignedTxMsg_def
    by (rule round_trip1_cons [OF TxMsg_round_trip [OF assms(1) ok(1)]],
        rule round_trip_cons0 [OF witnesses_round_trip [OF ok(2)]], rule round_trip_nil, simp)
qed

lemma read_witnesses_safe [safe_intros]: "safe_reader (read_witnesses msg)"
  unfolding read_witnesses_def by (intro safe_intros)

lemma SignedTxMsg_panics: "panics_within {Arithmetic_Overflow} (read_SignedTxMsg nb)"
  unfolding read_SignedTxMsg_def
  by (intro panics_within_bind TxMsg_panics) (auto intro!: safe_imp_panics_within safe_intros)

interpretation SignedTxMsg_codec: carbon_codec "write_SignedTxMsg nb" "read_SignedTxMsg nb"
    "\<lambda>v. num_bigint_api nb \<and> SignedTxMsg_ok v" for nb
  by unfold_locales (simp add: SignedTxMsg_round_trip)

interpretation SignedTxMsg_decoder: carbon_partial_decoder "read_SignedTxMsg nb" "{Arithmetic_Overflow}"
  for nb
  by unfold_locales (rule SignedTxMsg_panics)

section \<open>Properties\<close>

text \<open>C1: A signed Carbon message with its witnesses, in any of the three envelope layouts, survives
  \<open>serialize\<close> followed by \<open>deserialize\<close>.\<close>

theorem signed_message_round_trip:
  assumes "num_bigint_api nb" and "TxMsg_ok msg" and "witnesses_ok msg ws"
  shows "bind_result (serialize (write_SignedTxMsg nb) \<lparr>sm_msg = msg, sm_witnesses = ws\<rparr>)
           (deserialize (read_SignedTxMsg nb)) = Ok \<lparr>sm_msg = msg, sm_witnesses = ws\<rparr>"
  using assms by (intro SignedTxMsg_codec.deserialize_serialize) (simp add: SignedTxMsg_ok_def)

definition sample_burn :: TxMsg where
  "sample_burn =
     \<lparr>tm_tx_type = TT_BurnFungibleGasPayer, tm_expiry = 9, tm_max_gas = 100, tm_max_data = 0,
      tm_gas_from = array_of (replicate 32 7), tm_payload = SmallString (lit ''''),
      tm_msg = TP_BurnFungibleGasPayer
        \<lparr>bfg_token_id = 1, bfg_from_address = array_of (replicate 32 3), bfg_amount = IntX (2 ^ 70)\<rparr>\<rparr>"

definition sample_burn_witnesses :: "Witness list" where
  "sample_burn_witnesses =
     [\<lparr>w_address = array_of (replicate 32 7), w_signature = array_of (replicate 64 1)\<rparr>,
      \<lparr>w_address = array_of (replicate 32 3), w_signature = array_of (replicate 64 2)\<rparr>]"

lemma sample_burn_ok: "TxMsg_ok sample_burn" "witnesses_ok sample_burn sample_burn_witnesses"
  by code_simp+

theorem signed_message_round_trip_witness:
  "bind_result (serialize (write_SignedTxMsg num_bigint_std)
       \<lparr>sm_msg = sample_burn, sm_witnesses = sample_burn_witnesses\<rparr>)
     (deserialize (read_SignedTxMsg num_bigint_std)) =
   Ok \<lparr>sm_msg = sample_burn, sm_witnesses = sample_burn_witnesses\<rparr>"
  by (rule signed_message_round_trip [OF num_bigint_std.num_bigint_api_axioms sample_burn_ok])

text \<open>C7: A signed message is written exactly when its witnesses are the ones the envelope of its
  type admits: the gas payer alone, the gas payer and the token owner in this order, a set
  that contains the gas payer, or none.\<close>

theorem envelope_checks_witnesses:
  assumes "num_bigint_api nb" and "TxMsg_ok msg" and "fits_length (length ws)"
  shows "(\<exists>bs. serialize (write_SignedTxMsg nb) \<lparr>sm_msg = msg, sm_witnesses = ws\<rparr> = Ok bs)
           \<longleftrightarrow> witnesses_ok msg ws"
proof
  assume "witnesses_ok msg ws"
  then have "SignedTxMsg_ok \<lparr>sm_msg = msg, sm_witnesses = ws\<rparr>"
    using assms(2) by (simp add: SignedTxMsg_ok_def)
  then show "\<exists>bs. serialize (write_SignedTxMsg nb) \<lparr>sm_msg = msg, sm_witnesses = ws\<rparr> = Ok bs"
    using SignedTxMsg_codec.serialize_Ok [of nb] assms(1) by blast
next
  assume "\<exists>bs. serialize (write_SignedTxMsg nb) \<lparr>sm_msg = msg, sm_witnesses = ws\<rparr> = Ok bs"
  then obtain w w' where ok: "write_witnesses msg ws w = Ok w'"
    by (auto simp: serialize_def write_SignedTxMsg_def bind_result_eq_Ok)
  show "witnesses_ok msg ws"
  proof (cases rule: tx_type_cases [of "tm_tx_type msg"])
    case 1
    with ok show ?thesis
      by (auto simp: write_witnesses_def wr_fail_def witnesses_ok_def required_witnesses_simps
          length_Suc_conv split: if_split_asm)
  next
    case 2
    with ok show ?thesis
      by (auto simp: write_witnesses_def wr_fail_def witnesses_ok_def required_witnesses_simps
          numeral_2_eq_2 length_Suc_conv split: if_split_asm)
  next
    case 3
    with ok assms(3) show ?thesis
      by (auto simp: write_witnesses_def wr_fail_def witnesses_ok_def required_witnesses_simps
          list_ex_iff image_iff eq_commute [of "tm_gas_from msg"] split: if_split_asm)
  next
    case 4
    with ok show ?thesis
      by (auto simp: write_witnesses_def wr_fail_def witnesses_ok_def required_witnesses_simps
          split: if_split_asm)
  qed
qed

theorem envelope_checks_witnesses_witness:
  "\<not> (\<exists>bs. serialize (write_SignedTxMsg num_bigint_std)
      \<lparr>sm_msg = sample_burn, sm_witnesses = rev sample_burn_witnesses\<rparr> = Ok bs)"
proof -
  have "\<not> witnesses_ok sample_burn (rev sample_burn_witnesses)" by code_simp
  moreover have "fits_length (length (rev sample_burn_witnesses))"
    by (simp add: fits_length_def sample_burn_witnesses_def)
  ultimately show ?thesis
    using envelope_checks_witnesses [OF num_bigint_std.num_bigint_api_axioms sample_burn_ok(1)] by blast
qed

lemma read_TxMsg_panic_cases:
  assumes "read_TxMsg nb r = Panic q" "reader_wf r"
  shows "q = Arithmetic_Overflow \<and> (\<exists>t r'. read1 r = Ok (TxType_code t, r') \<and> t \<in> {TT_Call, TT_CallMulti})"
proof
  show "q = Arithmetic_Overflow" using panics_withinD(2) [OF TxMsg_panics assms(2,1)] by simp
  have "\<not> panics (read1 r)" by (rule safe_readerD [OF _ assms(2)]) (rule carbon_fixed_safe)
  with assms(1) obtain b r1 where b: "read1 r = Ok (b, r1)"
    by (cases "read1 r") (auto simp: read_TxMsg_def rd_bind_def)
  with assms(1) obtain t where t: "TxType_try_from b = Ok t"
    using TxType_try_from_no_panic [of b]
    by (cases "TxType_try_from b") (auto simp: read_TxMsg_def rd_bind_def rd_lift_def)
  then have code: "TxType_code t = b" by (auto simp: TxType_try_from_def split: if_split_asm)
  have wf: "reader_wf r1"
    using safe_readerD(3) [OF carbon_fixed_safe(1) assms(2) b] by (rule advances_wf)
  have "t \<in> {TT_Call, TT_CallMulti}"
  proof (rule ccontr)
    assume "t \<notin> {TT_Call, TT_CallMulti}"
    then have "safe_reader (rd_bind read8 (\<lambda>expiry. rd_bind read8u (\<lambda>max_gas. rd_bind read8u (\<lambda>max_data.
        rd_bind read32 (\<lambda>gas_from. rd_bind read_small_string (\<lambda>payload.
        rd_bind (read_TxPayload nb t) (\<lambda>msg. rd_return
         \<lparr>tm_tx_type = t, tm_expiry = expiry, tm_max_gas = max_gas, tm_max_data = max_data,
          tm_gas_from = gas_from, tm_payload = payload, tm_msg = msg\<rparr>)))))))"
      by (intro safe_intros TxPayload_safe) auto
    from safe_readerD(1) [OF this wf] assms(1) show False
      by (simp add: read_TxMsg_def rd_bind_def [of "rd_bind read1 _"] rd_bind_def [of read1] b t
          rd_return_def panics_def)
  qed
  with b code show "\<exists>t r'. read1 r = Ok (TxType_code t, r') \<and> t \<in> {TT_Call, TT_CallMulti}" by blast
qed

text \<open>C33: Reading a signed message from arbitrary bytes can only panic by an arithmetic overflow, and
  only when the first byte announces a Call or a CallMulti: every other transaction type is
  read without panics.\<close>

theorem signed_message_reader_panics:
  assumes "deserialize (read_SignedTxMsg nb) data = Panic q"
  shows "q = Arithmetic_Overflow \<and> (\<exists>rest. data = 0 # rest \<or> data = 1 # rest)"
proof -
  let ?r = "\<lparr>rd_data = data, rd_offset = 0\<rparr>"
  have wf: "reader_wf ?r" by (simp add: reader_wf_def)
  have signed_panic: "read_SignedTxMsg nb ?r = Panic q"
    using assms by (auto simp: deserialize_def bind_result_eq_Panic carbon_assert_eof_def
        slice_assert_eof_def split: if_split_asm)
  have "\<not> panics (read_witnesses m r')" if "read_TxMsg nb ?r = Ok (m, r')" for m r'
  proof -
    have "reader_wf r'"
      using panics_withinD(1) [OF TxMsg_panics wf that] by (auto simp: settled_def dest: advances_wf)
    with read_witnesses_safe show ?thesis by (rule safe_readerD)
  qed
  with signed_panic have "read_TxMsg nb ?r = Panic q"
    by (fastforce simp: read_SignedTxMsg_def rd_bind_def bind_result_eq_Panic rd_return_def panics_def
        split: result.splits)
  from read_TxMsg_panic_cases [OF this wf] obtain t r' where t: "q = Arithmetic_Overflow"
    "read1 ?r = Ok (TxType_code t, r')" "t \<in> {TT_Call, TT_CallMulti}" by blast
  from t(2) obtain rest where "data = TxType_code t # rest"
    by (cases data) (auto simp: read1_def rd_bind_def carbon_read_array_def rd_array_def carbon_read_def
        slice_read_def remaining_def rd_return_def bind_result_eq_Ok split: if_split_asm)
  with t show ?thesis by auto
qed

definition overflow_bytes :: bytes where
  "overflow_bytes = 0 # replicate 24 0 @ replicate 32 7 @ [0] @ replicate 8 0 @ [0, 0, 0, 0x80]"

theorem signed_message_reader_panics_witness:
  "deserialize (read_SignedTxMsg num_bigint_std) overflow_bytes = Panic Arithmetic_Overflow
   \<and> (\<exists>rest. overflow_bytes = 0 # rest \<or> overflow_bytes = 1 # rest)"
proof -
  have panic: "deserialize (read_SignedTxMsg num_bigint_std) overflow_bytes = Panic Arithmetic_Overflow"
    by code_simp
  from signed_message_reader_panics [OF this] panic show ?thesis by simp
qed

end
