(* ===== verification/Crypto.thy ===== *)
theory Crypto
  imports BinaryIO
begin

text \<open>
  Text encodings (\<open>src/src/encoding.rs\<close>) and keys, addresses, hashes and signatures
  (\<open>src/src/crypto.rs\<close>). SHA-256, Ed25519, Base58 and hex come from crates outside the
  repository: they are the fields of \<open>crypto_api\<close>, an argument of the definitions that
  call them, and \<open>base58_correct\<close> and \<open>ed25519_correct\<close> name what those crates document.
\<close>

record crypto_api =
  sha256_digest :: "bytes \<Rightarrow> bytes32"
  ed_public_key :: "bytes32 \<Rightarrow> bytes32"
  ed_sign :: "bytes32 \<Rightarrow> bytes \<Rightarrow> bytes64"
  ed_verify :: "bytes32 \<Rightarrow> bytes \<Rightarrow> bytes64 \<Rightarrow> bool"
  bs58_encode :: "bytes \<Rightarrow> rstring"
  bs58_decode :: "bytes \<Rightarrow> bytes option"
  hex_decode :: "bytes \<Rightarrow> bytes option"

definition ed25519_correct :: "crypto_api \<Rightarrow> bool" where
  "ed25519_correct ca \<longleftrightarrow> (\<forall>sk m. ed_verify ca (ed_public_key ca sk) m (ed_sign ca sk m))"

section \<open>Base58 and hex\<close>

definition BASE58_ALPHABET :: bytes where
  "BASE58_ALPHABET = map of_char ''123456789ABCDEFGHJKLMNPQRSTUVWXYZabcdefghijkmnopqrstuvwxyz''"

definition base58_correct :: "crypto_api \<Rightarrow> bool" where
  "base58_correct ca \<longleftrightarrow>
     (\<forall>d. d \<noteq> [] \<longrightarrow>
        bs58_decode ca (string_bytes (bs58_encode ca d)) = Some d
        \<and> string_bytes (bs58_encode ca d) \<noteq> []
        \<and> set (string_bytes (bs58_encode ca d)) \<subseteq> set BASE58_ALPHABET)"

definition encode_base58 :: "crypto_api \<Rightarrow> bytes \<Rightarrow> rstring" where
  "encode_base58 ca data = bs58_encode ca data"

text \<open>
  Text is passed as its UTF-8 bytes; a character outside ASCII has no byte in the
  alphabet. The message of a library error is not modelled.
\<close>

definition decode_base58 :: "crypto_api \<Rightarrow> bytes \<Rightarrow> bytes result" where
  "decode_base58 ca text =
     (if text = [] then Err (Encoding ''base58 text is empty'')
      else if \<not> list_all (\<lambda>b. b \<in> set BASE58_ALPHABET) text
      then Err (Encoding ''invalid base58 character: '')
      else case bs58_decode ca text of None \<Rightarrow> Err (Encoding '''') | Some d \<Rightarrow> Ok d)"

text \<open>\<open>str::trim\<close> strips Unicode white space, here on the UTF-8 bytes.\<close>

definition ws_char :: "bytes \<Rightarrow> bool" where
  "ws_char c \<longleftrightarrow>
     (length c = 1 \<and> (9 \<le> c ! 0 \<and> c ! 0 \<le> 13 \<or> c ! 0 = 32))
     \<or> c = [0xC2, 0x85] \<or> c = [0xC2, 0xA0] \<or> c = [0xE1, 0x9A, 0x80]
     \<or> (length c = 3 \<and> take 2 c = [0xE2, 0x80]
        \<and> (0x80 \<le> c ! 2 \<and> c ! 2 \<le> 0x8A \<or> c ! 2 = 0xA8 \<or> c ! 2 = 0xA9 \<or> c ! 2 = 0xAF))
     \<or> c = [0xE2, 0x81, 0x9F] \<or> c = [0xE3, 0x80, 0x80]"

text \<open>The width of the white space at the front, and at the end, of a text.\<close>

definition ws_front :: "bytes \<Rightarrow> nat" where
  "ws_front s =
     (if s = [] then 0
      else if ws_char (take 1 s) then 1
      else if ws_char (take 2 s) then length (take 2 s)
      else if ws_char (take 3 s) then length (take 3 s)
      else 0)"

definition ws_back :: "bytes \<Rightarrow> nat" where
  "ws_back s =
     (let last_n = (\<lambda>n. drop (length s - n) s)
      in if s = [] then 0
         else if ws_char (last_n 1) then 1
         else if ws_char (last_n 2) then length (last_n 2)
         else if ws_char (last_n 3) then length (last_n 3)
         else 0)"

function trim_start :: "bytes \<Rightarrow> bytes" where
  "trim_start s = (if ws_front s = 0 then s else trim_start (drop (ws_front s) s))"
  by pat_completeness auto
termination
  by (relation "measure length") (auto simp: ws_front_def split: if_splits)

function trim_end :: "bytes \<Rightarrow> bytes" where
  "trim_end s = (if ws_back s = 0 then s else trim_end (take (length s - ws_back s) s))"
  by pat_completeness auto
termination
  by (relation "measure length") (auto simp: ws_back_def Let_def split: if_splits)

declare trim_start.simps [simp del] trim_end.simps [simp del]

definition strip_0x :: "bytes \<Rightarrow> bytes" where
  "strip_0x s = (if take 2 s = [0x30, 0x78] \<or> take 2 s = [0x30, 0x58] then drop 2 s else s)"

definition decode_hex :: "crypto_api \<Rightarrow> rstring \<Rightarrow> bytes result" where
  "decode_hex ca v =
     (let text = strip_0x (trim_end (trim_start (string_bytes v)))
      in if length text mod 2 \<noteq> 0
         then Err (Encoding ''hex value must contain an even number of digits'')
         else case hex_decode ca text of None \<Rightarrow> Err (Encoding '''') | Some d \<Rightarrow> Ok d)"

section \<open>Addresses\<close>

datatype AddressKind = Invalid | User | System | Interop

datatype Address = Address (addr_data: "34 byte_array")

definition Address_try_from_slice :: "bytes \<Rightarrow> Address result" where
  "Address_try_from_slice data =
     (if length data = 34 then Ok (Address (array_of data))
      else Err (Crypto ''address length must be ''))"

definition Address_null :: Address where
  "Address_null = Address (array_of (replicate 34 0))"

definition from_public_key :: "bytes \<Rightarrow> Address result" where
  "from_public_key public_key =
     (if length public_key = 32 then Ok (Address (array_of ([1, 0] @ public_key)))
      else if length public_key = 33 then Ok (Address (array_of ([1] @ public_key)))
      else if length public_key = 64 then Ok (Address (array_of ([1, 0] @ take 32 public_key)))
      else Err (Crypto ''invalid public key length: ''))"

definition from_hash :: "crypto_api \<Rightarrow> bytes \<Rightarrow> Address" where
  "from_hash ca v = Address (array_of ([1, 0] @ array_bytes (sha256_digest ca v)))"

definition is_null :: "Address \<Rightarrow> bool" where
  "is_null a = (array_bytes (addr_data a) = replicate 34 0)"

definition address_kind :: "Address \<Rightarrow> AddressKind" where
  "address_kind a =
     (if is_null a then System
      else let b = array_bytes (addr_data a) ! 0
        in if b = 1 then User else if b = 2 then System else if b \<ge> 3 then Interop else Invalid)"

definition address_public_key :: "Address \<Rightarrow> bytes32 result" where
  "address_public_key a =
     (if address_kind a \<noteq> User
      then Err (Crypto ''only user addresses contain an Ed25519 public key'')
      else Ok (array_of (drop 2 (array_bytes (addr_data a)))))"

text \<open>
  \<open>&text[1..]\<close> panics when the first character is longer than one byte.
\<close>

definition from_text :: "crypto_api \<Rightarrow> rstring \<Rightarrow> Address result" where
  "from_text ca text =
     (let bs = string_bytes text
      in if bs = [] \<or> eq_ignore_ascii_case text (lit ''NULL'') then Ok Address_null
         else if length bs < 2 then Err (Crypto ''address text is too short'')
         else if utf8_cont (bs ! 1) then Panic Char_Boundary
         else bind_result (decode_base58 ca (drop 1 bs)) (\<lambda>data.
              bind_result (Address_try_from_slice data) (\<lambda>address.
                let prefix = bs ! 0
                in if prefix = 0x50 \<and> address_kind address \<noteq> User
                   then Err (Crypto ''address has to be of type User'')
                   else if prefix = 0x53 \<and> address_kind address \<noteq> System
                   then Err (Crypto ''address has to be of type System'')
                   else if prefix = 0x58 \<and> address_kind address \<noteq> Interop
                   then Err (Crypto ''address has to be of type Interop'')
                   else if prefix = 0x50 \<or> prefix = 0x53 \<or> prefix = 0x58 then Ok address
                   else Err (Crypto ''unknown address prefix: ''))))"

definition to_text :: "crypto_api \<Rightarrow> Address \<Rightarrow> rstring" where
  "to_text ca a =
     (if is_null a then lit ''NULL''
      else let prefix = (case address_kind a of System \<Rightarrow> 0x53 | Interop \<Rightarrow> 0x58 | _ \<Rightarrow> 0x50)
        in string_of (prefix # string_bytes (encode_base58 ca (array_bytes (addr_data a)))))"

text \<open>The buffer of a sequence of writes that cannot fail.\<close>

definition wr_run :: "wr_action \<Rightarrow> bytes" where
  "wr_run a = (case a \<lparr>wr_buffer = []\<rparr> of Ok w \<Rightarrow> wr_buffer w | _ \<Rightarrow> [])"

definition prefixed_bytes :: "Address \<Rightarrow> bytes" where
  "prefixed_bytes a = wr_run (write_var_bytes (array_bytes (addr_data a)))"

section \<open>Hashes\<close>

datatype Hash = Hash (hash_data: bytes32)

definition Hash_try_from_slice :: "bytes \<Rightarrow> Hash result" where
  "Hash_try_from_slice data =
     (if length data = 32 then Ok (Hash (array_of data)) else Err (Crypto ''hash length must be 32, got ''))"

definition sha256 :: "crypto_api \<Rightarrow> bytes \<Rightarrow> Hash" where
  "sha256 ca data = Hash (sha256_digest ca data)"

definition double_sha256 :: "crypto_api \<Rightarrow> bytes \<Rightarrow> bytes32" where
  "double_sha256 ca data = sha256_digest ca (array_bytes (sha256_digest ca data))"

text \<open>The two nested loops of \<open>Hash::difficulty\<close>; no step overflows a \<open>u32\<close>.\<close>

definition last_set_bit_byte :: "nat \<Rightarrow> u8 \<Rightarrow> nat \<Rightarrow> nat" where
  "last_set_bit_byte byte_index b acc =
     fold (\<lambda>bit_index acc. if b AND push_bit bit_index 1 \<noteq> 0 then 1 + byte_index * 8 + bit_index else acc)
       [0..<8] acc"

definition last_set_bit :: "bytes \<Rightarrow> nat" where
  "last_set_bit bs = fold (\<lambda>(i, b). last_set_bit_byte i b) (enumerate 0 bs) 0"

definition difficulty :: "Hash \<Rightarrow> nat" where
  "difficulty h = 256 - last_set_bit (array_bytes (hash_data h))"

section \<open>Signatures and keys\<close>

datatype Ed25519Signature = Ed25519Signature (sig_data: bytes64)

definition signature_kind :: "Ed25519Signature \<Rightarrow> u8" where
  "signature_kind s = 1"

definition Ed25519Signature_try_from_slice :: "bytes \<Rightarrow> Ed25519Signature result" where
  "Ed25519Signature_try_from_slice data =
     (if length data = 64 then Ok (Ed25519Signature (array_of data))
      else Err (Crypto ''signature length must be ''))"

definition verify :: "crypto_api \<Rightarrow> Ed25519Signature \<Rightarrow> bytes \<Rightarrow> Address list \<Rightarrow> bool" where
  "verify ca s message addresses =
     list_ex (\<lambda>address.
       if address_kind address \<noteq> User then False
       else case address_public_key address of
           Ok public_key \<Rightarrow> ed_verify ca public_key message (sig_data s)
         | _ \<Rightarrow> False) addresses"

definition serialize_data :: "Ed25519Signature \<Rightarrow> bytes" where
  "serialize_data s = wr_run (write_var_bytes (array_bytes (sig_data s)))"

datatype PhantasmaKeys = PhantasmaKeys (private_key: bytes32)

definition PhantasmaKeys_try_from_slice :: "bytes \<Rightarrow> PhantasmaKeys result" where
  "PhantasmaKeys_try_from_slice key =
     (let raw = (if length key = 64 then take 32 key else key)
      in if length raw = 32 then Ok (PhantasmaKeys (array_of raw))
         else Err (Crypto ''private key length must be ''))"

definition public_key :: "crypto_api \<Rightarrow> PhantasmaKeys \<Rightarrow> bytes32" where
  "public_key ca k = ed_public_key ca (private_key k)"

definition keys_address :: "crypto_api \<Rightarrow> PhantasmaKeys \<Rightarrow> Address result" where
  "keys_address ca k =
     (case from_public_key (array_bytes (public_key ca k)) of
        Ok a \<Rightarrow> Ok a | Err e \<Rightarrow> Panic Expect_Failed | Panic p \<Rightarrow> Panic p)"

definition keys_sign :: "crypto_api \<Rightarrow> PhantasmaKeys \<Rightarrow> bytes \<Rightarrow> Ed25519Signature" where
  "keys_sign ca k message = Ed25519Signature (ed_sign ca (private_key k) message)"

definition to_wif :: "crypto_api \<Rightarrow> PhantasmaKeys \<Rightarrow> rstring" where
  "to_wif ca k =
     (let payload = [0x80] @ array_bytes (private_key k) @ [0x01]
      in encode_base58 ca (payload @ take 4 (array_bytes (double_sha256 ca payload))))"

definition from_wif :: "crypto_api \<Rightarrow> rstring \<Rightarrow> PhantasmaKeys result" where
  "from_wif ca wif =
     (if string_bytes wif = [] then Err (Crypto ''WIF is required'')
      else bind_result (decode_base58 ca (string_bytes wif)) (\<lambda>data.
        if length data \<noteq> 38 then Err (Crypto ''invalid WIF length'')
        else let payload = take (length data - 4) data; checksum = drop (length data - 4) data
          in if take 4 (array_bytes (double_sha256 ca payload)) \<noteq> checksum
             then Err (Crypto ''invalid WIF checksum'')
             else if length payload \<noteq> 34 \<or> payload ! 0 \<noteq> 0x80 \<or> payload ! 33 \<noteq> 0x01
             then Err (Crypto ''invalid compressed Ed25519 WIF payload'')
             else PhantasmaKeys_try_from_slice (take 32 (drop 1 payload))))"

section \<open>Address and key text\<close>

lemma decode_encode_base58:
  assumes "base58_correct ca" and "d \<noteq> []"
  shows "decode_base58 ca (string_bytes (encode_base58 ca d)) = Ok d"
  using assms by (auto simp: base58_correct_def decode_base58_def encode_base58_def list_all_iff)

lemma base58_bytes_ascii: "b \<in> set BASE58_ALPHABET \<Longrightarrow> \<not> utf8_cont b"
proof -
  have "list_all (\<lambda>b. \<not> utf8_cont b) BASE58_ALPHABET" by code_simp
  then show "b \<in> set BASE58_ALPHABET \<Longrightarrow> \<not> utf8_cont b" by (simp add: list_all_iff)
qed

definition address_prefix :: "Address \<Rightarrow> u8" where
  "address_prefix a = (case address_kind a of System \<Rightarrow> 0x53 | Interop \<Rightarrow> 0x58 | _ \<Rightarrow> 0x50)"

lemma address_prefix_cases: "address_prefix a \<in> {0x50, 0x53, 0x58}"
  by (simp add: address_prefix_def split: AddressKind.split)

lemma string_bytes_to_text:
  assumes "\<not> is_null a"
  shows "string_bytes (to_text ca a) =
    address_prefix a # string_bytes (encode_base58 ca (array_bytes (addr_data a)))"
proof -
  have "address_prefix a < 0x80" using address_prefix_cases [of a] by auto
  with assms show ?thesis by (simp add: to_text_def address_prefix_def Let_def)
qed

lemma not_null_text:
  assumes "string_bytes t = b # bs" and "b \<in> {0x50, 0x53, 0x58}"
  shows "\<not> eq_ignore_ascii_case t (lit ''NULL'')"
proof
  assume "eq_ignore_ascii_case t (lit ''NULL'')"
  then have "map ascii_lower (b # bs) = map ascii_lower (string_bytes (lit ''NULL''))"
    using assms(1) by (simp add: eq_ignore_ascii_case_def)
  moreover have "string_bytes (lit ''NULL'') = [0x4E, 0x55, 0x4C, 0x4C]" by code_simp
  ultimately have "ascii_lower b = ascii_lower 0x4E" by simp
  with assms(2) show False by (auto simp: ascii_lower_def)
qed

lemma from_text_to_text:
  assumes "base58_correct ca" and "\<not> is_null a"
  shows "from_text ca (to_text ca a) =
    (if address_kind a = Invalid then Err (Crypto ''address has to be of type User'') else Ok a)"
proof -
  let ?data = "array_bytes (addr_data a)"
  let ?enc = "string_bytes (encode_base58 ca ?data)"
  note bytes = string_bytes_to_text [OF assms(2), of ca]
  have ne: "?data \<noteq> []" by (simp flip: length_0_conv)
  then have enc: "?enc \<noteq> []" "set ?enc \<subseteq> set BASE58_ALPHABET"
    using assms(1) by (auto simp: base58_correct_def encode_base58_def)
  then have "\<not> utf8_cont (?enc ! 0)" using base58_bytes_ascii by (auto simp: neq_Nil_conv)
  moreover have "decode_base58 ca ?enc = Ok ?data" by (rule decode_encode_base58 [OF assms(1) ne])
  moreover have "Address_try_from_slice ?data = Ok a" by (simp add: Address_try_from_slice_def)
  moreover have "\<not> eq_ignore_ascii_case (to_text ca a) (lit ''NULL'')"
    using not_null_text [OF bytes] address_prefix_cases by simp
  ultimately show ?thesis
    using enc(1) bytes
    by (cases "address_kind a") (simp_all add: from_text_def Let_def address_prefix_def Suc_le_eq)
qed

lemma wif_payload:
  assumes "base58_correct ca"
  shows "decode_base58 ca (string_bytes (to_wif ca k)) =
    Ok (([0x80] @ array_bytes (private_key k) @ [0x01])
        @ take 4 (array_bytes (double_sha256 ca ([0x80] @ array_bytes (private_key k) @ [0x01]))))"
  unfolding to_wif_def Let_def by (rule decode_encode_base58 [OF assms]) simp

section \<open>Signatures verify\<close>

lemma keys_address_Ok:
  "keys_address ca k = Ok (Address (array_of ([1, 0] @ array_bytes (public_key ca k))))"
  by (simp add: keys_address_def from_public_key_def)

lemma user_address:
  fixes pk :: bytes32
  defines "a \<equiv> Address (array_of ([1, 0] @ array_bytes pk))"
  shows "address_kind a = User" and "address_public_key a = Ok pk"
proof -
  show kind: "address_kind a = User"
    by (auto simp: a_def address_kind_def is_null_def Let_def dest!: arg_cong [of _ _ "\<lambda>xs. xs ! 0"])
  show "address_public_key a = Ok pk"
    using kind by (simp add: address_public_key_def) (simp add: a_def)
qed

lemma signature_verifies:
  assumes "ed25519_correct ca" and "keys_address ca k = Ok a" and "a \<in> set addresses"
  shows "verify ca (keys_sign ca k m) m addresses"
  using assms user_address [of "public_key ca k"]
  by (auto simp: verify_def list_ex_iff keys_address_Ok keys_sign_def ed25519_correct_def public_key_def
      intro!: bexI [of _ a])

section \<open>Difficulty\<close>

definition top_bit :: "u8 \<Rightarrow> nat option" where
  "top_bit b =
     (if b AND 128 \<noteq> 0 then Some 7 else if b AND 64 \<noteq> 0 then Some 6
      else if b AND 32 \<noteq> 0 then Some 5 else if b AND 16 \<noteq> 0 then Some 4
      else if b AND 8 \<noteq> 0 then Some 3 else if b AND 4 \<noteq> 0 then Some 2
      else if b AND 2 \<noteq> 0 then Some 1 else if b AND 1 \<noteq> 0 then Some 0 else None)"

lemma top_bit_bounds:
  "case top_bit b of None \<Rightarrow> unat b = 0 | Some k \<Rightarrow> k < 8 \<and> 2 ^ k \<le> unat b \<and> unat b < 2 ^ Suc k"
proof -
  have "\<forall>b\<in>set (map word_of_nat [0..<256]).
      case top_bit b of None \<Rightarrow> unat b = 0 | Some k \<Rightarrow> k < 8 \<and> 2 ^ k \<le> unat b \<and> unat b < 2 ^ Suc k"
    by code_simp
  moreover have "b \<in> set (map word_of_nat [0..<256])"
    using unat_byte_less [of b] by (auto intro!: image_eqI [of _ _ "unat b"])
  ultimately show ?thesis by blast
qed

lemma last_set_bit_byte_eq:
  "last_set_bit_byte i b acc = (case top_bit b of None \<Rightarrow> acc | Some k \<Rightarrow> 1 + i * 8 + k)"
proof -
  have "[0..<8] = [0, 1, 2, 3, 4, 5, 6, 7 :: nat]" by (simp add: upt_rec)
  then show ?thesis by (simp add: last_set_bit_byte_def top_bit_def push_bit_eq_mult)
qed

lemma last_set_bit_snoc:
  "last_set_bit (bs @ [b]) = last_set_bit_byte (length bs) b (last_set_bit bs)"
  by (simp add: last_set_bit_def enumerate_append_eq)

text \<open>The last set bit is the bit length of the little-endian number.\<close>

lemma last_set_bit_spec:
  "le_to_nat bs < 2 ^ last_set_bit bs" "0 < last_set_bit bs \<Longrightarrow> 2 ^ (last_set_bit bs - 1) \<le> le_to_nat bs"
  "last_set_bit bs \<le> 8 * length bs"
proof (induction bs rule: rev_induct)
  case Nil
  { case 1 show ?case by simp }
  { case 2 then show ?case by (simp add: last_set_bit_def) }
  { case 3 show ?case by (simp add: last_set_bit_def) }
next
  case (snoc b bs)
  have pow: "(256::nat) ^ length bs = 2 ^ (8 * length bs)" by (simp add: power_mult)
  have low: "le_to_nat bs < 2 ^ (8 * length bs)" using le_to_nat_bound [of bs] by (simp add: pow)
  have val: "le_to_nat (bs @ [b]) = le_to_nat bs + 2 ^ (8 * length bs) * unat b"
    by (simp add: le_to_nat_append pow)
  note simps = last_set_bit_snoc last_set_bit_byte_eq
  show "le_to_nat (bs @ [b]) < 2 ^ last_set_bit (bs @ [b])"
  proof (cases "top_bit b")
    case None
    then show ?thesis using top_bit_bounds [of b] snoc by (simp add: simps val)
  next
    case (Some k)
    then have "unat b + 1 \<le> 2 ^ Suc k" using top_bit_bounds [of b] by simp
    then have "2 ^ (8 * length bs) * (unat b + 1) \<le> 2 ^ (8 * length bs) * (2 ^ Suc k :: nat)"
      by (rule mult_le_mono2)
    with low have "le_to_nat (bs @ [b]) < 2 ^ (8 * length bs) * 2 ^ Suc k" by (simp add: val)
    then show ?thesis by (simp add: simps Some power_add mult_ac)
  qed
  show "2 ^ (last_set_bit (bs @ [b]) - 1) \<le> le_to_nat (bs @ [b])" if "0 < last_set_bit (bs @ [b])"
  proof (cases "top_bit b")
    case None
    then show ?thesis using top_bit_bounds [of b] snoc that by (simp add: simps val)
  next
    case (Some k)
    then have "2 ^ k \<le> unat b" using top_bit_bounds [of b] by simp
    then have "2 ^ (8 * length bs) * 2 ^ k \<le> 2 ^ (8 * length bs) * unat b" by (rule mult_le_mono2)
    then have "2 ^ (8 * length bs + k) \<le> le_to_nat (bs @ [b])"
      unfolding power_add val by (rule trans_le_add2)
    then show ?thesis by (simp add: simps Some mult.commute)
  qed
  show "last_set_bit (bs @ [b]) \<le> 8 * length (bs @ [b])"
    using top_bit_bounds [of b] snoc by (simp add: simps split: option.splits)
qed

section \<open>A concrete instance\<close>

text \<open>
  A computable \<open>crypto_api\<close> that meets the two contracts, used to run statements about
  them: each byte is spelled by two letters of the alphabet and a signature is its key.
\<close>

lemma ascii_utf8_valid: "list_all (\<lambda>b. b < 0x80) bs \<Longrightarrow> utf8_valid bs"
  by (induction bs) auto

definition nibble_encode :: "bytes \<Rightarrow> bytes" where
  "nibble_encode d = concat (map (\<lambda>b. [BASE58_ALPHABET ! (unat b div 16), BASE58_ALPHABET ! (unat b mod 16)]) d)"

fun nibble_decode :: "bytes \<Rightarrow> bytes" where
  "nibble_decode (x # y # r) =
     word_of_nat (16 * length (takeWhile (\<lambda>c. c \<noteq> x) BASE58_ALPHABET)
       + length (takeWhile (\<lambda>c. c \<noteq> y) BASE58_ALPHABET)) # nibble_decode r"
| "nibble_decode _ = []"

definition crypto_model :: crypto_api where
  "crypto_model =
     \<lparr>sha256_digest = (\<lambda>d. array_of (take 32 (d @ replicate 32 0))),
      ed_public_key = (\<lambda>sk. sk),
      ed_sign = (\<lambda>sk m. array_of (array_bytes sk @ take 32 (m @ replicate 32 0))),
      ed_verify = (\<lambda>pk m s. s = array_of (array_bytes pk @ take 32 (m @ replicate 32 0))),
      bs58_encode = (\<lambda>d. string_of (nibble_encode d)),
      bs58_decode = (\<lambda>t. Some (nibble_decode t)),
      hex_decode = (\<lambda>t. Some (nibble_decode t))\<rparr>"

lemma nibble_pair:
  "nibble_decode (BASE58_ALPHABET ! (unat (b::u8) div 16) # BASE58_ALPHABET ! (unat b mod 16) # r) =
     b # nibble_decode r"
proof -
  have "\<forall>n\<in>set [0..<16]. length (takeWhile (\<lambda>c. c \<noteq> BASE58_ALPHABET ! n) BASE58_ALPHABET) = n"
    by code_simp
  moreover have "unat b div 16 \<in> set [0..<16]" "unat b mod 16 \<in> set [0..<16]"
    using unat_byte_less [of b] by (auto simp del: unat_byte_less)
  ultimately show ?thesis by simp
qed

lemma nibble_decode_encode: "nibble_decode (nibble_encode d) = d"
  by (induction d) (simp_all add: nibble_encode_def nibble_pair del: nibble_decode.simps(1))

lemma nibble_encode_set: "set (nibble_encode d) \<subseteq> set BASE58_ALPHABET"
proof -
  have "length BASE58_ALPHABET = 58" by code_simp
  moreover have "unat b div 16 < 58" "unat b mod 16 < 58" for b :: u8
    using unat_byte_less [of b] by (linarith+)
  ultimately show ?thesis by (auto simp: nibble_encode_def)
qed

lemma nibble_encode_utf8: "utf8_valid (nibble_encode d)"
proof -
  have "list_all (\<lambda>b. b < 0x80) BASE58_ALPHABET" by code_simp
  then have "list_all (\<lambda>b. b < 0x80) (nibble_encode d)"
    using nibble_encode_set [of d] by (auto simp: list_all_iff)
  then show ?thesis by (rule ascii_utf8_valid)
qed

lemma crypto_model_correct: "base58_correct crypto_model" "ed25519_correct crypto_model"
  using nibble_encode_set
  by (auto simp: base58_correct_def ed25519_correct_def crypto_model_def nibble_encode_utf8
      nibble_decode_encode) (auto simp: nibble_encode_def neq_Nil_conv)

section \<open>Properties\<close>

text \<open>The text of an address reads back as the address. The only addresses whose text is refused
  are those of kind Invalid, which \<open>to_text\<close> prints with the prefix of a user address.\<close>

theorem address_text_exact:
  assumes "base58_correct ca"
  shows "from_text ca (to_text ca a) =
    (if address_kind a = Invalid then Err (Crypto ''address has to be of type User'') else Ok a)"
proof (cases "is_null a")
  case True
  then have "a = Address_null"
    by (cases a) (simp add: is_null_def Address_null_def flip: array_bytes_inject)
  moreover from True have "to_text ca a = lit ''NULL''" "address_kind a = System"
    by (simp_all add: to_text_def address_kind_def)
  ultimately show ?thesis by (simp add: from_text_def eq_ignore_ascii_case_def)
qed (rule from_text_to_text [OF assms])

theorem address_text_exact_witness:
  "from_text crypto_model (to_text crypto_model (Address (array_of (2 # replicate 33 5)))) =
     Ok (Address (array_of (2 # replicate 33 5)))"
proof -
  have "address_kind (Address (array_of (2 # replicate 33 5))) \<noteq> Invalid" by code_simp
  then show ?thesis
    using address_text_exact [OF crypto_model_correct(1), of "Address (array_of (2 # replicate 33 5))"]
    by simp
qed

lemma decode_base58_no_panic [simp]: "decode_base58 ca t \<noteq> Panic p"
  by (simp add: decode_base58_def split: option.split)

text \<open>C31: A WIF text is accepted for a key exactly when it decodes to the payload that \<open>to_wif\<close> writes
  for this key, checksum included: there is one accepted payload per key.\<close>

theorem wif_exact:
  assumes "base58_correct ca"
  shows "from_wif ca w = Ok k \<longleftrightarrow>
    string_bytes w \<noteq> [] \<and> decode_base58 ca (string_bytes w) = decode_base58 ca (string_bytes (to_wif ca k))"
proof -
  let ?payload = "[0x80] @ array_bytes (private_key k) @ [0x01]"
  let ?sum = "take 4 (array_bytes (double_sha256 ca ?payload))"
  note enc = wif_payload [OF assms, of k]
  show ?thesis
  proof
    assume "string_bytes w \<noteq> [] \<and> decode_base58 ca (string_bytes w) = decode_base58 ca (string_bytes (to_wif ca k))"
    then show "from_wif ca w = Ok k"
      using enc by (simp add: from_wif_def Let_def PhantasmaKeys_try_from_slice_def nth_append)
  next
    assume ok: "from_wif ca w = Ok k"
    then obtain data where data: "decode_base58 ca (string_bytes w) = Ok data" "length data = 38"
        "string_bytes w \<noteq> []" "data ! 0 = 0x80" "data ! 33 = 0x01"
        "take 4 (array_bytes (double_sha256 ca (take 34 data))) = drop 34 data"
        "k = PhantasmaKeys (array_of (take 32 (drop 1 (take 34 data))))"
      by (auto simp: from_wif_def bind_result_eq_Ok Let_def PhantasmaKeys_try_from_slice_def
          split: if_split_asm)
    have "take 34 data = ?payload"
    proof (rule nth_equalityI)
      fix i assume "i < length (take 34 data)"
      then consider "i = 0" | "0 < i" "i < 33" | "i = 33" using data(2) by fastforce
      then show "take 34 data ! i = ?payload ! i"
        using data by cases (auto simp: nth_append nth_Cons')
    qed (use data in simp)
    with data(6) have "data = ?payload @ ?sum" by (metis append_take_drop_id)
    with data(1,3) enc show "string_bytes w \<noteq> []
        \<and> decode_base58 ca (string_bytes w) = decode_base58 ca (string_bytes (to_wif ca k))" by simp
  qed
qed

theorem wif_exact_witness:
  "from_wif crypto_model (to_wif crypto_model (PhantasmaKeys (array_of (replicate 32 9)))) =
     Ok (PhantasmaKeys (array_of (replicate 32 9)))"
proof -
  have "string_bytes (to_wif crypto_model (PhantasmaKeys (array_of (replicate 32 9)))) \<noteq> []" by code_simp
  then show ?thesis using wif_exact [OF crypto_model_correct(1)] by blast
qed

text \<open>A hash has difficulty \<open>d\<close> or more exactly when its little-endian value is below \<open>2\<^sup>2\<^sup>5\<^sup>6\<^sup>-\<^sup>d\<close>; in
  particular the subtraction from 256 never underflows.\<close>

theorem difficulty_spec:
  assumes "d \<le> 256"
  shows "last_set_bit (array_bytes (hash_data h)) \<le> 256
    \<and> (d \<le> difficulty h \<longleftrightarrow> le_to_nat (array_bytes (hash_data h)) < 2 ^ (256 - d))"
proof -
  let ?bs = "array_bytes (hash_data h)"
  note spec = last_set_bit_spec [of ?bs]
  have le: "last_set_bit ?bs \<le> 256" using spec(3) by simp
  have "d \<le> difficulty h \<longleftrightarrow> last_set_bit ?bs \<le> 256 - d"
    using le assms by (auto simp: difficulty_def)
  also have "\<dots> \<longleftrightarrow> le_to_nat ?bs < 2 ^ (256 - d)"
  proof
    assume "last_set_bit ?bs \<le> 256 - d"
    then have "(2::nat) ^ last_set_bit ?bs \<le> 2 ^ (256 - d)" by (intro power_increasing) auto
    with spec(1) show "le_to_nat ?bs < 2 ^ (256 - d)" by (rule less_le_trans)
  next
    assume lt: "le_to_nat ?bs < 2 ^ (256 - d)"
    show "last_set_bit ?bs \<le> 256 - d"
    proof (rule ccontr)
      assume "\<not> last_set_bit ?bs \<le> 256 - d"
      then have "0 < last_set_bit ?bs" "256 - d \<le> last_set_bit ?bs - 1" by simp_all
      then have "(2::nat) ^ (256 - d) \<le> le_to_nat ?bs"
        using spec(2) power_increasing [of "256 - d" "last_set_bit ?bs - 1" "2::nat"] by linarith
      with lt show False by simp
    qed
  qed
  finally show ?thesis using le by simp
qed

theorem difficulty_spec_witness:
  "16 \<le> difficulty (Hash (array_of (replicate 30 255 @ [0, 0])))"
proof -
  have "le_to_nat (replicate 30 255 @ [0, 0]) < 256 ^ length (replicate 30 255 :: bytes)"
    using le_to_nat_bound [of "replicate 30 255"] by (simp add: le_to_nat_append)
  then have "le_to_nat (array_bytes (hash_data (Hash (array_of (replicate 30 255 @ [0, 0]))))) < 2 ^ (256 - 16)"
    by simp
  then show ?thesis using difficulty_spec [of 16] by auto
qed

text \<open>The second byte of a text continues its first character exactly when this is not ASCII.\<close>

lemma second_byte_continues:
  assumes "utf8_valid (a # bs)"
  shows "0x80 \<le> a \<longleftrightarrow> bs \<noteq> [] \<and> utf8_cont (bs ! 0)"
proof (cases "a < 0x80")
  case True
  have "\<not> utf8_cont b" if "bs = b # r" for b r
    using that True assms
    by (auto simp: utf8_valid.simps [of "b # r"] utf8_width_def utf8_lead_def utf8_cont_def Let_def word_le_nat_alt
        word_less_nat_alt split: if_split_asm)
  with True show ?thesis by (cases bs) (auto simp: not_le)
next
  case False
  then have "2 \<le> utf8_lead a" "utf8_lead a \<le> Suc (length bs)" "list_all utf8_cont (take (utf8_lead a - 1) bs)"
    using assms by (auto simp: utf8_valid.simps [of "a # bs"] utf8_width_def utf8_lead_def Let_def split: if_split_asm)
  then have "bs \<noteq> []" "utf8_cont (bs ! 0)"
    by (auto simp: list_all_length dest!: spec [of _ 0])
  with False show ?thesis by (simp add: not_less)
qed

lemma null_text_ascii: "eq_ignore_ascii_case t (lit ''NULL'') \<Longrightarrow> string_bytes t ! 0 < 0x80"
proof -
  assume "eq_ignore_ascii_case t (lit ''NULL'')"
  moreover have "string_bytes (lit ''NULL'') = [0x4E, 0x55, 0x4C, 0x4C]" by code_simp
  ultimately have "map ascii_lower (string_bytes t) = map ascii_lower [0x4E, 0x55, 0x4C, 0x4C]"
    by (simp add: eq_ignore_ascii_case_def)
  then obtain b bs where b: "string_bytes t = b # bs" "ascii_lower b = ascii_lower 0x4E" by auto
  have "b < 0x80"
  proof (rule ccontr)
    assume "\<not> b < 0x80"
    then have "ascii_lower b = b" by simp
    with b(2) \<open>\<not> b < 0x80\<close> show False by (simp add: ascii_lower_def)
  qed
  with b(1) show ?thesis by simp
qed

text \<open>C34: A text is parsed to an address exactly when it is empty or \<open>NULL\<close> in any case and the address is the
  null address, or its first character is the prefix of the kind of the address and the rest decodes to its bytes.
  Parsing panics exactly on texts that begin with a character outside ASCII; every other text that is not
  accepted gives an error.\<close>

theorem from_text_exact:
  "(from_text ca t = Ok a \<longleftrightarrow>
      (if string_bytes t = [] \<or> eq_ignore_ascii_case t (lit ''NULL'') then a = Address_null
       else \<exists>prefix digits. string_bytes t = prefix # digits \<and>
         (prefix, address_kind a) \<in> {(of_char CHR ''P'', User), (of_char CHR ''S'', System), (of_char CHR ''X'', Interop)} \<and>
         decode_base58 ca digits = Ok (array_bytes (addr_data a)))) \<and>
   (panics (from_text ca t) \<longleftrightarrow> string_bytes t \<noteq> [] \<and> 0x80 \<le> string_bytes t ! 0)"
proof (cases "string_bytes t = [] \<or> eq_ignore_ascii_case t (lit ''NULL'')")
  case True
  then show ?thesis using null_text_ascii [of t] by (auto simp: from_text_def panics_def Let_def not_le)
next
  case False
  then obtain prefix digits where t: "string_bytes t = prefix # digits" by (cases "string_bytes t") auto
  note second = second_byte_continues [of prefix digits, folded t, OF utf8_valid_string_bytes]
  have decoded: "digits \<noteq> [] \<and> \<not> utf8_cont (digits ! 0)" if "decode_base58 ca digits = Ok d" for d
    using that base58_bytes_ascii by (cases digits) (auto simp: decode_base58_def split: if_split_asm)
  have parsed: "from_text ca t = Ok a \<longleftrightarrow>
      (prefix, address_kind a) \<in> {(0x50, User), (0x53, System), (0x58, Interop)} \<and>
      decode_base58 ca digits = Ok (array_bytes (addr_data a))"
    using False t decoded [of "array_bytes (addr_data a)"]
    by (cases a; cases "decode_base58 ca digits")
      (auto simp: from_text_def Let_def Address_try_from_slice_def)
  have "panics (from_text ca t) \<longleftrightarrow> digits \<noteq> [] \<and> utf8_cont (digits ! 0)"
    using False t decode_base58_no_panic [of ca digits]
    by (cases "decode_base58 ca digits")
      (auto simp: from_text_def panics_def Let_def Address_try_from_slice_def Suc_le_eq split: if_split_asm)
  with False t parsed second show ?thesis by simp
qed

end
