(* ===== verification/CarbonSign.thy ===== *)
theory CarbonSign
  imports CarbonTx Crypto
begin

text \<open>
  Building, sizing and signing Carbon messages (\<open>src/src/carbon.rs\<close>): the native transaction
  builders with their limits and expiry, \<open>envelope_bytes\<close>, the checks before signing, the
  pairing of signers with witness slots, and the derived NFT addresses. The clock is an
  argument \<open>now\<close>, and a remote signer is a function of the message.
\<close>

section \<open>The size of a signed message\<close>

definition placeholder :: "bytes32 \<Rightarrow> Witness" where
  "placeholder address = \<lparr>w_address = address, w_signature = EMPTY_BYTES64\<rparr>"

definition envelope_addresses :: "TxMsg \<Rightarrow> u32 option \<Rightarrow> bytes32 list result" where
  "envelope_addresses msg witness_count =
     (case required_witnesses msg of
        Some required \<Rightarrow>
          (case witness_count of
             Some cnt \<Rightarrow>
               if unat cnt \<noteq> length required then Err (Builder '' carries '') else Ok required
           | None \<Rightarrow> Ok required)
      | None \<Rightarrow>
          let cnt = (case witness_count of Some c \<Rightarrow> c | None \<Rightarrow> 1)
          in if cnt = 0 then Err (Builder '' needs at least one witness, not 0'')
             else Ok ((replicate (unat cnt) EMPTY_BYTES32)[0 := tm_gas_from msg]))"

definition envelope_bytes :: "num_bigint \<Rightarrow> TxMsg \<Rightarrow> u32 option \<Rightarrow> u32 result" where
  "envelope_bytes nb msg witness_count =
     bind_result (envelope_addresses msg witness_count) (\<lambda>addresses.
     bind_result (serialize (write_SignedTxMsg nb)
       \<lparr>sm_msg = msg, sm_witnesses = map placeholder addresses\<rparr>) (\<lambda>encoded.
       if length encoded < 2 ^ 32 then Ok (word_of_nat (length encoded))
       else Err (Builder ''envelope exceeds u32 bytes'')))"

section \<open>Limits and expiry\<close>

record TxLimits =
  lim_max_gas :: u64
  lim_max_data :: u64
  lim_expiry :: i64

definition checked_add_i64 :: "i64 \<Rightarrow> i64 \<Rightarrow> i64 result" where
  "checked_add_i64 a b =
     (if - (2 ^ 63) \<le> sint a + sint b \<and> sint a + sint b < 2 ^ 63 then Ok (a + b)
      else Panic Arithmetic_Overflow)"

definition DEFAULT_TX_EXPIRY_MS :: i64 where
  "DEFAULT_TX_EXPIRY_MS = 45000"

definition default_expiry :: "i64 \<Rightarrow> i64 result" where
  "default_expiry now = checked_add_i64 now DEFAULT_TX_EXPIRY_MS"

text \<open>A \<open>Duration\<close> is a number of nanoseconds.\<close>

definition expiry_within :: "i64 \<Rightarrow> nat \<Rightarrow> nat \<Rightarrow> i64 result" where
  "expiry_within now expiry_window margin =
     (if expiry_window = 0 then Err (Builder ''expiry_within: expiry_window must be positive'')
      else let margin = (if margin = 0 then 5 * 10 ^ 9 else margin)
        in if expiry_window \<le> margin then Err (Builder ''expiry_within: a margin of '')
           else let lifetime = (expiry_window - margin) div 10 ^ 6
             in if lifetime \<ge> 2 ^ 63 then Err (Builder ''expiry_within: window overflow'')
                else checked_add_i64 now (word_of_nat lifetime))"

definition apply_tx_limits :: "i64 \<Rightarrow> TxMsg \<Rightarrow> TxLimits \<Rightarrow> TxMsg result" where
  "apply_tx_limits now msg limits =
     bind_result (if lim_expiry limits = 0 then default_expiry now else Ok (lim_expiry limits)) (\<lambda>expiry.
       Ok (msg\<lparr>tm_max_gas := lim_max_gas limits, tm_max_data := lim_max_data limits,
               tm_expiry := expiry\<rparr>))"

definition empty_small_string :: SmallString where
  "empty_small_string = SmallString (lit '''')"

definition native_tx :: "i64 \<Rightarrow> TxType \<Rightarrow> bytes32 \<Rightarrow> TxLimits \<Rightarrow> TxPayload \<Rightarrow> TxMsg result" where
  "native_tx now tx_type gas_from limits msg =
     apply_tx_limits now
       \<lparr>tm_tx_type = tx_type, tm_expiry = 0, tm_max_gas = 0, tm_max_data = 0,
        tm_gas_from = gas_from, tm_payload = empty_small_string, tm_msg = msg\<rparr> limits"

section \<open>Native builders\<close>

record TransferFungibleParams =
  tfp_limits :: TxLimits
  tfp_from :: bytes32
  tfp_gas_payer :: "bytes32 option"
  tfp_to :: bytes32
  tfp_token_id :: u64
  tfp_amount :: u64

record TransferNonFungibleParams =
  tnp_limits :: TxLimits
  tnp_from :: bytes32
  tnp_gas_payer :: "bytes32 option"
  tnp_to :: bytes32
  tnp_token_id :: u64
  tnp_instance_ids :: "u64 list"

record MintFungibleParams =
  mfp_limits :: TxLimits
  mfp_owner :: bytes32
  mfp_to :: bytes32
  mfp_token_id :: u64
  mfp_amount :: IntX

record BurnFungibleParams =
  bfp_limits :: TxLimits
  bfp_from :: bytes32
  bfp_gas_payer :: "bytes32 option"
  bfp_token_id :: u64
  bfp_amount :: IntX

record BurnNonFungibleParams =
  bnp_limits :: TxLimits
  bnp_from :: bytes32
  bnp_gas_payer :: "bytes32 option"
  bnp_token_id :: u64
  bnp_instance_id :: u64

definition build_transfer_fungible_tx :: "i64 \<Rightarrow> TransferFungibleParams \<Rightarrow> TxMsg result" where
  "build_transfer_fungible_tx now p =
     (case tfp_gas_payer p of
        Some gas_payer \<Rightarrow>
          native_tx now TT_TransferFungibleGasPayer gas_payer (tfp_limits p)
            (TP_TransferFungibleGasPayer
              \<lparr>tfg_to = tfp_to p, tfg_from_address = tfp_from p, tfg_token_id = tfp_token_id p,
               tfg_amount = tfp_amount p\<rparr>)
      | None \<Rightarrow>
          native_tx now TT_TransferFungible (tfp_from p) (tfp_limits p)
            (TP_TransferFungible
              \<lparr>tf_to = tfp_to p, tf_token_id = tfp_token_id p, tf_amount = tfp_amount p\<rparr>))"

definition build_transfer_non_fungible_tx :: "i64 \<Rightarrow> TransferNonFungibleParams \<Rightarrow> TxMsg result" where
  "build_transfer_non_fungible_tx now p =
     (case tnp_instance_ids p of
        [] \<Rightarrow> Err (Builder ''instance_ids must not be empty'')
      | first # _ \<Rightarrow>
          let single = (length (tnp_instance_ids p) = 1)
          in case (tnp_gas_payer p, single) of
              (Some gas_payer, True) \<Rightarrow>
                native_tx now TT_TransferNonFungibleSingleGasPayer gas_payer (tnp_limits p)
                  (TP_TransferNonFungibleSingleGasPayer
                    \<lparr>tnsg_to = tnp_to p, tnsg_from_address = tnp_from p,
                     tnsg_token_id = tnp_token_id p, tnsg_instance_id = first\<rparr>)
            | (Some gas_payer, False) \<Rightarrow>
                native_tx now TT_TransferNonFungibleMultiGasPayer gas_payer (tnp_limits p)
                  (TP_TransferNonFungibleMultiGasPayer
                    \<lparr>tnmg_to = tnp_to p, tnmg_from_address = tnp_from p,
                     tnmg_token_id = tnp_token_id p, tnmg_instance_ids = tnp_instance_ids p\<rparr>)
            | (None, True) \<Rightarrow>
                native_tx now TT_TransferNonFungibleSingle (tnp_from p) (tnp_limits p)
                  (TP_TransferNonFungibleSingle
                    \<lparr>tns_to = tnp_to p, tns_token_id = tnp_token_id p, tns_instance_id = first\<rparr>)
            | (None, False) \<Rightarrow>
                native_tx now TT_TransferNonFungibleMulti (tnp_from p) (tnp_limits p)
                  (TP_TransferNonFungibleMulti
                    \<lparr>tnm_to = tnp_to p, tnm_token_id = tnp_token_id p,
                     tnm_instance_ids = tnp_instance_ids p\<rparr>))"

definition build_mint_fungible_tx :: "i64 \<Rightarrow> MintFungibleParams \<Rightarrow> TxMsg result" where
  "build_mint_fungible_tx now p =
     native_tx now TT_MintFungible (mfp_owner p) (mfp_limits p)
       (TP_MintFungible
         \<lparr>mf_token_id = mfp_token_id p, mf_to = mfp_to p, mf_amount = mfp_amount p\<rparr>)"

definition build_burn_fungible_tx :: "i64 \<Rightarrow> BurnFungibleParams \<Rightarrow> TxMsg result" where
  "build_burn_fungible_tx now p =
     (case bfp_gas_payer p of
        Some gas_payer \<Rightarrow>
          native_tx now TT_BurnFungibleGasPayer gas_payer (bfp_limits p)
            (TP_BurnFungibleGasPayer
              \<lparr>bfg_token_id = bfp_token_id p, bfg_from_address = bfp_from p,
               bfg_amount = bfp_amount p\<rparr>)
      | None \<Rightarrow>
          native_tx now TT_BurnFungible (bfp_from p) (bfp_limits p)
            (TP_BurnFungible \<lparr>bf_token_id = bfp_token_id p, bf_amount = bfp_amount p\<rparr>))"

definition build_burn_non_fungible_tx :: "i64 \<Rightarrow> BurnNonFungibleParams \<Rightarrow> TxMsg result" where
  "build_burn_non_fungible_tx now p =
     (case bnp_gas_payer p of
        Some gas_payer \<Rightarrow>
          native_tx now TT_BurnNonFungibleGasPayer gas_payer (bnp_limits p)
            (TP_BurnNonFungibleGasPayer
              \<lparr>bng_token_id = bnp_token_id p, bng_from_address = bnp_from p,
               bng_instance_id = bnp_instance_id p\<rparr>)
      | None \<Rightarrow>
          native_tx now TT_BurnNonFungible (bnp_from p) (bnp_limits p)
            (TP_BurnNonFungible \<lparr>bn_token_id = bnp_token_id p, bn_instance_id = bnp_instance_id p\<rparr>))"

section \<open>Signing\<close>

definition bytes32_from_public_key :: "bytes \<Rightarrow> bytes32 result" where
  "bytes32_from_public_key pk =
     (if length pk \<noteq> 32 then Err (Crypto ''public key length must be 32, got '')
      else try_from_slice pk)"

definition bytes32_from_phantasma_address :: "Address \<Rightarrow> bytes32 result" where
  "bytes32_from_phantasma_address a =
     (if \<not> (address_kind a = User \<or> address_kind a = System)
      then Err (Crypto ''unsupported address kind '')
      else try_from_slice (drop 2 (array_bytes (addr_data a))))"

definition bytes32_from_phantasma_address_text :: "crypto_api \<Rightarrow> rstring \<Rightarrow> bytes32 result" where
  "bytes32_from_phantasma_address_text ca t =
     bind_result (from_text ca t) bytes32_from_phantasma_address"

definition transfer_amount :: "TxMsg \<Rightarrow> u64 option" where
  "transfer_amount msg =
     (case (tm_tx_type msg, tm_msg msg) of
        (TT_TransferFungible, TP_TransferFungible body) \<Rightarrow> Some (tf_amount body)
      | (TT_TransferFungibleGasPayer, TP_TransferFungibleGasPayer body) \<Rightarrow> Some (tfg_amount body)
      | _ \<Rightarrow> None)"

definition assert_signable :: "TxMsg \<Rightarrow> unit result" where
  "assert_signable msg =
     (if tm_max_gas msg = 0
      then Err (Builder ''transaction has no gas offer: plan its fees or set max_gas before signing'')
      else case transfer_amount msg of
          None \<Rightarrow> Ok ()
        | Some amount \<Rightarrow>
            if amount = 0 then Err (Builder ''transfer amount must be above zero for a native transfer'')
            else if amount > 0x7FFFFFFFFFFFFFFF then Err (Builder ''transfer amount '')
            else Ok ())"

text \<open>\<open>iter().position(..)\<close>.\<close>

fun position :: "('a \<Rightarrow> bool) \<Rightarrow> 'a list \<Rightarrow> nat option" where
  "position p [] = None"
| "position p (x # xs) = (if p x then Some 0 else map_option Suc (position p xs))"

definition witness_slots :: "TxMsg \<Rightarrow> bytes32 list \<Rightarrow> (bytes32 \<times> nat) list result" where
  "witness_slots msg addresses =
     (case required_witnesses msg of
        None \<Rightarrow>
          if addresses = [] then Err (Builder '' transactions need at least one witness'')
          else if tm_gas_from msg \<notin> set addresses then Err (Builder ''the gas payer '')
          else Ok (zip addresses [0..<length addresses])
      | Some required \<Rightarrow>
          if required = [] then
            (if addresses \<noteq> [] then Err (Builder '' transactions carry no witnesses'') else Ok [])
          else
            bind_result (collect_result (\<lambda>address.
              case position (\<lambda>candidate. candidate = address) addresses of
                None \<Rightarrow> Err (Builder ''no signer for witness '')
              | Some index \<Rightarrow> Ok (address, index)) required) (\<lambda>slots.
            bind_result (collect_result (\<lambda>address.
              if address \<notin> set required then Err (Builder ''signer '') else Ok ()) addresses) (\<lambda>_.
              Ok slots)))"

definition sign_tx_msg_with_keys ::
    "num_bigint \<Rightarrow> crypto_api \<Rightarrow> TxMsg \<Rightarrow> PhantasmaKeys list \<Rightarrow> SignedTxMsg result" where
  "sign_tx_msg_with_keys nb ca msg keys =
     bind_result (assert_signable msg) (\<lambda>_.
     bind_result (collect_result (\<lambda>k. bytes32_from_public_key (array_bytes (public_key ca k))) keys)
       (\<lambda>addresses.
     bind_result (witness_slots msg addresses) (\<lambda>slots.
     bind_result (serialize (write_TxMsg nb) msg) (\<lambda>message.
       let sigs = map (\<lambda>k. sig_data (keys_sign ca k message)) keys
       in Ok \<lparr>sm_msg = msg,
              sm_witnesses = map (\<lambda>(address, signer).
                \<lparr>w_address = address, w_signature = sigs ! signer\<rparr>) slots\<rparr>))))"

definition sign_tx_msg :: "num_bigint \<Rightarrow> crypto_api \<Rightarrow> TxMsg \<Rightarrow> PhantasmaKeys \<Rightarrow> SignedTxMsg result" where
  "sign_tx_msg nb ca msg k = sign_tx_msg_with_keys nb ca msg [k]"

definition sign_and_serialize_tx_msg_with_keys ::
    "num_bigint \<Rightarrow> crypto_api \<Rightarrow> TxMsg \<Rightarrow> PhantasmaKeys list \<Rightarrow> bytes result" where
  "sign_and_serialize_tx_msg_with_keys nb ca msg keys =
     bind_result (sign_tx_msg_with_keys nb ca msg keys) (serialize (write_SignedTxMsg nb))"

definition sign_and_serialize_tx_msg ::
    "num_bigint \<Rightarrow> crypto_api \<Rightarrow> TxMsg \<Rightarrow> PhantasmaKeys \<Rightarrow> bytes result" where
  "sign_and_serialize_tx_msg nb ca msg k =
     bind_result (sign_tx_msg nb ca msg k) (serialize (write_SignedTxMsg nb))"

text \<open>
  The trait \<open>TxSigner\<close>. The loop of \<open>sign_tx_msg_with\<close> carries the signatures obtained so
  far, and the log of the signers that were asked, in order.
\<close>

record tx_signer =
  signer_public_key :: bytes32
  sign_message :: "bytes \<Rightarrow> bytes64 result"

fun sign_slots :: "bytes \<Rightarrow> tx_signer list \<Rightarrow> (bytes32 \<times> nat) list \<Rightarrow> bytes64 option list \<Rightarrow> nat list
    \<Rightarrow> (Witness list \<times> nat list) result" where
  "sign_slots message signers [] sigs asked = Ok ([], asked)"
| "sign_slots message signers ((address, signer) # slots) sigs asked =
     bind_result
       (case sigs ! signer of
          None \<Rightarrow> bind_result (sign_message (signers ! signer) message) (\<lambda>s.
            Ok (s, sigs[signer := Some s], asked @ [signer]))
        | Some s \<Rightarrow> Ok (s, sigs, asked)) (\<lambda>(s, sigs', asked').
     bind_result (sign_slots message signers slots sigs' asked') (\<lambda>(ws, log).
       Ok (\<lparr>w_address = address, w_signature = s\<rparr> # ws, log)))"

definition sign_tx_msg_with ::
    "num_bigint \<Rightarrow> TxMsg \<Rightarrow> tx_signer list \<Rightarrow> (SignedTxMsg \<times> nat list) result" where
  "sign_tx_msg_with nb msg signers =
     bind_result (assert_signable msg) (\<lambda>_.
     bind_result (collect_result (\<lambda>s. bytes32_from_public_key (array_bytes (signer_public_key s))) signers)
       (\<lambda>addresses.
     bind_result (witness_slots msg addresses) (\<lambda>slots.
     bind_result (serialize (write_TxMsg nb) msg) (\<lambda>message.
     bind_result (sign_slots message signers slots (replicate (length signers) None) []) (\<lambda>(ws, log).
       Ok (\<lparr>sm_msg = msg, sm_witnesses = ws\<rparr>, log))))))"

definition sign_and_serialize_tx_msg_with :: "num_bigint \<Rightarrow> TxMsg \<Rightarrow> tx_signer list \<Rightarrow> bytes result" where
  "sign_and_serialize_tx_msg_with nb msg signers =
     bind_result (sign_tx_msg_with nb msg signers) (\<lambda>(signed, asked). serialize (write_SignedTxMsg nb) signed)"

section \<open>NFT addresses\<close>

definition get_nft_address :: "u64 \<Rightarrow> u64 \<Rightarrow> bytes32" where
  "get_nft_address carbon_token_id instance_id =
     array_of (replicate 15 0 @ [1] @ to_le_bytes carbon_token_id @ to_le_bytes instance_id)"

definition unpack_nft_address :: "bytes32 \<Rightarrow> u64 \<times> u64" where
  "unpack_nft_address address =
     (from_le_bytes (take 8 (drop 16 (array_bytes address))),
      from_le_bytes (take 8 (drop 24 (array_bytes address))))"

definition is_nft_address :: "bytes32 \<Rightarrow> bool" where
  "is_nft_address address =
     (if array_bytes address ! 15 \<noteq> 1 \<or> list_ex (\<lambda>b. b \<noteq> 0) (take 15 (array_bytes address)) then False
      else let (token_id, instance_id) = unpack_nft_address address
        in token_id \<noteq> 0 \<and> instance_id \<noteq> 0)"

definition unpack_nft_instance_id :: "u64 \<Rightarrow> u32 \<times> u32" where
  "unpack_nft_instance_id instance_id =
     (ucast (instance_id AND 0xFFFFFFFF), ucast (drop_bit 32 instance_id AND 0xFFFFFFFF))"

definition parse_create_token_result :: "crypto_api \<Rightarrow> rstring \<Rightarrow> u64 result" where
  "parse_create_token_result ca result_hex =
     bind_result (decode_hex ca result_hex) (deserialize read8u)"

definition parse_create_token_series_result :: "crypto_api \<Rightarrow> rstring \<Rightarrow> u32 result" where
  "parse_create_token_series_result ca result_hex =
     bind_result (decode_hex ca result_hex) (deserialize read4u)"

definition parse_mint_non_fungible_result :: "crypto_api \<Rightarrow> u64 \<Rightarrow> rstring \<Rightarrow> bytes32 list result" where
  "parse_mint_non_fungible_result ca carbon_token_id result_hex =
     bind_result (decode_hex ca result_hex) (deserialize
       (rd_bind (read_length_for 8) (\<lambda>count. rd_repeat count
         (rd_bind read8u (\<lambda>id. rd_return (get_nft_address carbon_token_id id))))))"

definition parse_mint_phantasma_non_fungible_result ::
    "crypto_api \<Rightarrow> rstring \<Rightarrow> PhantasmaNFTMintResult list result" where
  "parse_mint_phantasma_non_fungible_result ca result_hex =
     bind_result (decode_hex ca result_hex) (deserialize
       (rd_bind (read_length_for 40) (\<lambda>count. rd_repeat count read_PhantasmaNFTMintResult)))"

section \<open>Envelope sizes\<close>

text \<open>The bytes the envelope of a message adds for a number of witnesses.\<close>

definition witness_bytes :: "TxMsg \<Rightarrow> nat \<Rightarrow> nat" where
  "witness_bytes msg n =
     (if single_witness (tm_tx_type msg) then 64
      else if gas_payer_type (tm_tx_type msg) then 128
      else if witness_array_type (tm_tx_type msg) then 4 + 96 * n
      else 0)"

lemma writes_seq2: "writes a b1 \<Longrightarrow> writes b b2 \<Longrightarrow> writes (wr_seq [a, b]) (b1 @ b2)"
  using writes_Cons [OF _ writes_Cons [OF _ writes_Nil]] by fastforce

lemma writes_witness_array:
  assumes "fits_length (length ws)"
  shows "\<exists>bs. writes (write_carbon_array write_Witness ws) bs \<and> length bs = 4 + 96 * length ws"
proof -
  let ?enc = "\<lambda>w. array_bytes (w_address w) @ array_bytes (w_signature w)"
  have "writes (write_Witness w) (?enc w)" for w
    unfolding write_Witness_def write32_def write64_def carbon_write_def
    by (intro writes_seq2 writes_bytes)
  then have "writes (wr_for ws write_Witness) (concat (map ?enc ws))" by (intro writes_for)
  with writes_length [OF assms]
  have "writes (write_carbon_array write_Witness ws)
      (to_le_bytes (word_of_nat (length ws) :: i32) @ concat (map ?enc ws))"
    unfolding write_carbon_array_def by (rule writes_seq2)
  moreover have "length (concat (map ?enc ws)) = 96 * length ws" by (induction ws) simp_all
  ultimately show ?thesis by (intro exI conjI) (assumption, simp)
qed

lemma writes_witnesses:
  assumes "witnesses_ok msg ws"
  shows "\<exists>bs. writes (write_witnesses msg ws) bs \<and> length bs = witness_bytes msg (length ws)"
proof (cases rule: tx_type_cases [of "tm_tx_type msg"])
  case 1
  then obtain w where "ws = [w]" "w_address w = tm_gas_from msg"
    using assms by (auto simp: witnesses_ok_def required_witnesses_simps map_eq_one)
  with 1 show ?thesis
    by (auto simp: write_witnesses_def witness_bytes_def write64_def carbon_write_def)
next
  case 2
  then obtain w1 w2 where w: "ws = [w1, w2]" "w_address w1 = tm_gas_from msg"
      "w_address w2 = payload_from_address (tm_msg msg)"
    using assms by (auto simp: witnesses_ok_def required_witnesses_simps map_eq_two)
  have "writes (wr_seq [write64 (w_signature w1), write64 (w_signature w2)])
      (array_bytes (w_signature w1) @ array_bytes (w_signature w2))"
    unfolding write64_def carbon_write_def by (intro writes_seq2 writes_bytes)
  with 2 w show ?thesis
    by (intro exI [of _ "array_bytes (w_signature w1) @ array_bytes (w_signature w2)"])
       (simp add: write_witnesses_def witness_bytes_def del: wr_seq.simps)
next
  case 3
  then have "list_ex (\<lambda>w. w_address w = tm_gas_from msg) ws" "fits_length (length ws)"
    using assms by (auto simp: witnesses_ok_def required_witnesses_simps list_ex_iff)
  with 3 writes_witness_array [of ws] show ?thesis
    by (simp add: write_witnesses_def witness_bytes_def)
next
  case 4
  then show ?thesis
    using assms by (auto simp: witnesses_ok_def required_witnesses_simps write_witnesses_def
        witness_bytes_def)
qed

lemma signed_size:
  assumes "num_bigint_api nb" and "TxMsg_ok msg"
  obtains n where "\<And>ws. witnesses_ok msg ws \<Longrightarrow>
    \<exists>bs. serialize (write_SignedTxMsg nb) \<lparr>sm_msg = msg, sm_witnesses = ws\<rparr> = Ok bs
       \<and> length bs = n + witness_bytes msg (length ws)"
proof -
  obtain mb where mb: "writes (write_TxMsg nb msg) mb"
    using TxMsg_round_trip [OF assms] by (auto simp: round_trip1_def)
  have "\<exists>bs. serialize (write_SignedTxMsg nb) \<lparr>sm_msg = msg, sm_witnesses = ws\<rparr> = Ok bs
       \<and> length bs = length mb + witness_bytes msg (length ws)" if ok: "witnesses_ok msg ws" for ws
  proof -
    obtain wb where "writes (write_witnesses msg ws) wb" "length wb = witness_bytes msg (length ws)"
      using writes_witnesses [OF ok] by blast
    moreover from this mb have "writes (write_SignedTxMsg nb \<lparr>sm_msg = msg, sm_witnesses = ws\<rparr>) (mb @ wb)"
      unfolding write_SignedTxMsg_def by (simp only: SignedTxMsg.simps) (rule writes_seq2)
    ultimately show ?thesis by (auto simp: serialize_def writes_def)
  qed
  then show thesis using that by blast
qed

lemma placeholder_address [simp]: "w_address (placeholder a) = a"
  by (simp add: placeholder_def)

lemma envelope_addresses_ok:
  assumes "witnesses_ok msg ws" and "length ws < 2 ^ 32"
  shows "\<exists>as. envelope_addresses msg (Some (word_of_nat (length ws))) = Ok as
    \<and> length as = length ws \<and> witnesses_ok msg (map placeholder as)"
proof -
  have len: "unat (word_of_nat (length ws) :: u32) = length ws" using assms(2) by (simp add: unat_of_nat)
  show ?thesis
  proof (cases "required_witnesses msg")
    case None
    then have "ws \<noteq> []" "fits_length (length ws)" using assms(1) by (auto simp: witnesses_ok_def)
    moreover from this have "(word_of_nat (length ws) :: u32) \<noteq> 0" using len by (metis length_0_conv unat_0)
    moreover from \<open>ws \<noteq> []\<close> have "tm_gas_from msg \<in> set ((replicate (length ws) EMPTY_BYTES32)[0 := tm_gas_from msg])"
      by (intro set_update_memI) simp
    ultimately show ?thesis
      using None len by (auto simp: envelope_addresses_def witnesses_ok_def image_image)
  next
    case (Some required)
    with assms(1) have "map w_address ws = required" by (simp add: witnesses_ok_def)
    then have "length required = length ws" by auto
    with Some len show ?thesis
      by (auto simp: envelope_addresses_def witnesses_ok_def comp_def)
  qed
qed

section \<open>Slots and signatures\<close>

lemma position_Some: "position p xs = Some i \<Longrightarrow> i < length xs \<and> p (xs ! i)"
  by (induction xs arbitrary: i) (auto split: if_split_asm)

lemma position_None: "position p xs = None \<longleftrightarrow> (\<forall>x\<in>set xs. \<not> p x)"
  by (induction xs) auto

lemma slots_required:
  assumes "collect_result (\<lambda>a. case position (\<lambda>c. c = a) addresses of
      None \<Rightarrow> Err e | Some i \<Rightarrow> Ok (a, i)) required = Ok slots"
  shows "map fst slots = required" "(a, i) \<in> set slots \<Longrightarrow> i < length addresses \<and> addresses ! i = a"
  using assms
  by (induction required arbitrary: slots)
     (auto simp: bind_result_eq_Ok dest: position_Some split: option.splits)

text \<open>Every slot names a signer whose address it is; fixed witness sets come in envelope order.\<close>

lemma witness_slots_required:
  assumes "witness_slots msg addresses = Ok slots" "required_witnesses msg = Some required"
  shows "map fst slots = required" "(a, i) \<in> set slots \<Longrightarrow> i < length addresses \<and> addresses ! i = a"
proof -
  have "(required = [] \<and> slots = []) \<or> collect_result (\<lambda>a. case position (\<lambda>c. c = a) addresses of
      None \<Rightarrow> Err (Builder ''no signer for witness '') | Some i \<Rightarrow> Ok (a, i)) required = Ok slots"
    using assms by (auto simp: witness_slots_def bind_result_eq_Ok split: if_split_asm)
  note cases = this
  show "map fst slots = required"
    using cases by (rule disjE) (simp, rule slots_required(1))
  show "i < length addresses \<and> addresses ! i = a" if "(a, i) \<in> set slots"
    using cases by (rule disjE) (use that in simp, rule slots_required(2) [OF _ that])
qed

lemma witness_slots_free:
  assumes "witness_slots msg addresses = Ok slots" "required_witnesses msg = None"
  shows "slots = zip addresses [0..<length addresses]" "tm_gas_from msg \<in> set addresses"
  using assms by (auto simp: witness_slots_def split: if_split_asm)

lemma witness_slots_Ok:
  assumes "witness_slots msg addresses = Ok slots"
  shows "(a, i) \<in> set slots \<Longrightarrow> i < length addresses \<and> addresses ! i = a"
    and "required_witnesses msg = Some required \<Longrightarrow> map fst slots = required"
    and "required_witnesses msg = None \<Longrightarrow> map fst slots = addresses \<and> tm_gas_from msg \<in> set addresses"
proof -
  show "i < length addresses \<and> addresses ! i = a" if "(a, i) \<in> set slots"
  proof (cases "required_witnesses msg")
    case None
    from witness_slots_free(1) [OF assms None] that show ?thesis by (auto simp: in_set_zip)
  next
    case (Some r)
    from witness_slots_required(2) [OF assms Some that] show ?thesis .
  qed
  show "required_witnesses msg = Some required \<Longrightarrow> map fst slots = required"
    by (rule witness_slots_required(1) [OF assms])
  show "map fst slots = addresses \<and> tm_gas_from msg \<in> set addresses" if "required_witnesses msg = None"
    using witness_slots_free [OF assms that] by simp
qed

lemma keys_addresses:
  "collect_result (\<lambda>k. bytes32_from_public_key (array_bytes (public_key ca k))) keys =
     Ok (map (public_key ca) keys)"
  by (rule collect_result_Ok) (simp add: bytes32_from_public_key_def try_from_slice_def)

lemma sign_with_keys_cases:
  assumes "sign_tx_msg_with_keys nb ca msg keys = Ok stx"
  obtains slots message where "assert_signable msg = Ok ()"
    "witness_slots msg (map (public_key ca) keys) = Ok slots"
    "serialize (write_TxMsg nb) msg = Ok message"
    "stx = \<lparr>sm_msg = msg, sm_witnesses = map (\<lambda>(a, i).
       \<lparr>w_address = a, w_signature = ed_sign ca (private_key (keys ! i)) message\<rparr>) slots\<rparr>"
proof -
  from assms obtain slots message where a: "assert_signable msg = Ok ()"
    "witness_slots msg (map (public_key ca) keys) = Ok slots"
    "serialize (write_TxMsg nb) msg = Ok message"
    "stx = \<lparr>sm_msg = msg, sm_witnesses = map (\<lambda>(a, i). \<lparr>w_address = a,
       w_signature = map (\<lambda>k. sig_data (keys_sign ca k message)) keys ! i\<rparr>) slots\<rparr>"
    by (auto simp: sign_tx_msg_with_keys_def keys_addresses bind_result_eq_Ok Let_def)
  moreover have "map (\<lambda>(a, i). \<lparr>w_address = a,
       w_signature = map (\<lambda>k. sig_data (keys_sign ca k message)) keys ! i\<rparr>) slots =
     map (\<lambda>(a, i). \<lparr>w_address = a, w_signature = ed_sign ca (private_key (keys ! i)) message\<rparr>) slots"
    using witness_slots_Ok(1) [OF a(2)] by (auto simp: keys_sign_def)
  ultimately show thesis using that by simp
qed

lemma slots_addresses:
  "map w_address (map (\<lambda>(a, i). \<lparr>w_address = a, w_signature = f i\<rparr>) slots) = map fst slots"
  by (induction slots) auto

text \<open>Witnesses on the slots of a message satisfy its envelope.\<close>

lemma slots_witnesses_ok:
  assumes slots: "witness_slots msg addresses = Ok slots" and addr: "map w_address ws = map fst slots"
    and "fits_length (length addresses)"
  shows "witnesses_ok msg ws" "required_witnesses msg = None \<longrightarrow> length ws = length addresses"
proof -
  have len: "length ws = length slots" using addr by (metis length_map)
  have order: "length slots = length addresses" "tm_gas_from msg \<in> w_address ` set ws" if "required_witnesses msg = None"
    using witness_slots_Ok(3) [OF slots that] addr by (metis length_map, metis list.set_map)
  show "witnesses_ok msg ws"
  proof (cases "required_witnesses msg")
    case None
    then show ?thesis using order assms(3) len by (simp add: witnesses_ok_def)
  next
    case (Some r)
    with witness_slots_Ok(2) [OF slots] addr show ?thesis by (simp add: witnesses_ok_def)
  qed
  show "required_witnesses msg = None \<longrightarrow> length ws = length addresses" using order(1) len by simp
qed

lemma sign_with_keys_witnesses_ok:
  assumes "sign_tx_msg_with_keys nb ca msg keys = Ok stx" and "fits_length (length keys)"
  shows "witnesses_ok msg (sm_witnesses stx)" "sm_msg stx = msg"
    "required_witnesses msg = None \<longrightarrow> length (sm_witnesses stx) = length keys"
proof -
  obtain slots message where s: "witness_slots msg (map (public_key ca) keys) = Ok slots"
    "stx = \<lparr>sm_msg = msg, sm_witnesses = map (\<lambda>(a, i).
       \<lparr>w_address = a, w_signature = ed_sign ca (private_key (keys ! i)) message\<rparr>) slots\<rparr>"
    using sign_with_keys_cases [OF assms(1)] by metis
  have addr: "map w_address (sm_witnesses stx) = map fst slots"
    unfolding s(2) by (simp only: SignedTxMsg.simps slots_addresses)
  show "witnesses_ok msg (sm_witnesses stx)"
    "required_witnesses msg = None \<longrightarrow> length (sm_witnesses stx) = length keys"
    using slots_witnesses_ok [OF s(1) addr] assms(2) by simp_all
  show "sm_msg stx = msg" by (simp add: s(2))
qed

lemma sign_slots_log:
  assumes "sign_slots message signers slots sigs asked = Ok (ws, log)"
    and "\<forall>(a, i)\<in>set slots. i < length sigs"
    and "\<forall>i<length sigs. sigs ! i = None \<longleftrightarrow> i \<notin> set asked" and "distinct asked"
    and "\<forall>i s. i < length sigs \<longrightarrow> sigs ! i = Some s \<longrightarrow> sign_message (signers ! i) message = Ok s"
  shows "distinct log \<and> map w_address ws = map fst slots
    \<and> list_all2 (\<lambda>w (a, i). sign_message (signers ! i) message = Ok (w_signature w)) ws slots"
  using assms
proof (induction message signers slots sigs asked arbitrary: ws log rule: sign_slots.induct)
  case (2 message signers address signer slots sigs asked)
  have lt: "signer < length sigs" using "2.prems"(2) by simp
  show ?case
  proof (cases "sigs ! signer")
    case None
    with "2.prems"(1) obtain s ws' where s: "sign_message (signers ! signer) message = Ok s"
      "sign_slots message signers slots (sigs[signer := Some s]) (asked @ [signer]) = Ok (ws', log)"
      "ws = \<lparr>w_address = address, w_signature = s\<rparr> # ws'"
      by (auto simp: bind_result_eq_Ok)
    have "distinct (asked @ [signer])" using None "2.prems"(3,4) lt by auto
    moreover have "\<forall>i<length (sigs[signer := Some s]).
        sigs[signer := Some s] ! i = None \<longleftrightarrow> i \<notin> set (asked @ [signer])"
      using "2.prems"(3) lt by (auto simp: nth_list_update)
    moreover have "\<forall>i t. i < length (sigs[signer := Some s]) \<longrightarrow> sigs[signer := Some s] ! i = Some t \<longrightarrow>
        sign_message (signers ! i) message = Ok t"
      using "2.prems"(5) s(1) lt by (auto simp: nth_list_update split: if_split_asm)
    ultimately show ?thesis
      using "2.IH" [of "(s, sigs[signer := Some s], asked @ [signer])", OF _ refl refl] s None "2.prems"(2)
      by simp
  next
    case (Some s)
    with "2.prems"(1) obtain ws' where s: "sign_slots message signers slots sigs asked = Ok (ws', log)"
      "ws = \<lparr>w_address = address, w_signature = s\<rparr> # ws'"
      by (auto simp: bind_result_eq_Ok)
    moreover have "sign_message (signers ! signer) message = Ok s" using "2.prems"(5) lt Some by simp
    ultimately show ?thesis
      using "2.IH" [of "(s, sigs, asked)", OF _ refl refl] Some "2.prems" by simp
  qed
qed simp

text \<open>What signing through remote signers does.\<close>

lemma sign_with_cases:
  assumes "sign_tx_msg_with nb msg signers = Ok (stx, log)"
  obtains slots message where "assert_signable msg = Ok ()"
    "witness_slots msg (map signer_public_key signers) = Ok slots"
    "serialize (write_TxMsg nb) msg = Ok message" "sm_msg stx = msg"
    "map w_address (sm_witnesses stx) = map fst slots" "distinct log"
    "list_all2 (\<lambda>w (a, i). sign_message (signers ! i) message = Ok (w_signature w)) (sm_witnesses stx) slots"
proof -
  have addrs: "collect_result (\<lambda>s. bytes32_from_public_key (array_bytes (signer_public_key s))) signers =
      Ok (map signer_public_key signers)"
    by (rule collect_result_Ok) (simp add: bytes32_from_public_key_def try_from_slice_def)
  from assms obtain slots message ws where s: "assert_signable msg = Ok ()"
    "witness_slots msg (map signer_public_key signers) = Ok slots"
    "serialize (write_TxMsg nb) msg = Ok message"
    "sign_slots message signers slots (replicate (length signers) None) [] = Ok (ws, log)"
    "stx = \<lparr>sm_msg = msg, sm_witnesses = ws\<rparr>"
    by (auto simp: sign_tx_msg_with_def addrs bind_result_eq_Ok)
  have "i < length signers" if "(a, i) \<in> set slots" for a i
    using witness_slots_Ok(1) [OF s(2) that] by simp
  with sign_slots_log [OF s(4)] s show thesis by (intro that) auto
qed

lemma sign_with_witnesses_ok:
  assumes "sign_tx_msg_with nb msg signers = Ok (stx, log)" and "fits_length (length signers)"
  shows "witnesses_ok msg (sm_witnesses stx)" "sm_msg stx = msg"
    "required_witnesses msg = None \<longrightarrow> length (sm_witnesses stx) = length signers"
    "tm_max_gas msg \<noteq> 0"
proof -
  obtain slots where s: "assert_signable msg = Ok ()" "witness_slots msg (map signer_public_key signers) = Ok slots"
    "sm_msg stx = msg" "map w_address (sm_witnesses stx) = map fst slots"
    by (rule sign_with_cases [OF assms(1)]) (rule that; assumption)
  then show "witnesses_ok msg (sm_witnesses stx)" "sm_msg stx = msg"
    "required_witnesses msg = None \<longrightarrow> length (sm_witnesses stx) = length signers"
    using slots_witnesses_ok [OF s(2,4)] assms(2) by simp_all
  show "tm_max_gas msg \<noteq> 0" using s(1) by (auto simp: assert_signable_def)
qed

lemma collect_result_Err:
  assumes "\<And>x. x \<in> set xs \<Longrightarrow> f x = Err e \<or> (\<exists>y. f x = Ok y)" and "\<exists>x\<in>set xs. f x = Err e"
  shows "collect_result f xs = Err e"
  using assms
proof (induction xs)
  case (Cons x xs)
  show ?case
  proof (cases "f x = Err e")
    case False
    with Cons.prems obtain y where "f x = Ok y" "\<exists>x\<in>set xs. f x = Err e" by auto
    with Cons show ?thesis by simp
  qed simp
qed simp

lemma position_map: "position p (map f xs) = position (\<lambda>x. p (f x)) xs"
  by (induction xs) auto

text \<open>For a fixed witness set the slots depend on the set of signer addresses only.\<close>

lemma witness_slots_fixed:
  assumes "required_witnesses msg = Some required"
  shows "witness_slots msg addresses =
    (if required = [] then
       (if addresses \<noteq> [] then Err (Builder '' transactions carry no witnesses'') else Ok [])
     else if \<not> set required \<subseteq> set addresses then Err (Builder ''no signer for witness '')
     else if \<not> set addresses \<subseteq> set required then Err (Builder ''signer '')
     else Ok (map (\<lambda>a. (a, the (position (\<lambda>c. c = a) addresses))) required))"
proof -
  let ?f = "\<lambda>a. case position (\<lambda>c. c = a) addresses of
      None \<Rightarrow> Err (Builder ''no signer for witness '') | Some i \<Rightarrow> Ok (a, i)"
  let ?g = "\<lambda>a. if a \<notin> set required then Err (Builder ''signer '') else Ok ()"
  have f_ok: "?f a = Ok (a, the (position (\<lambda>c. c = a) addresses))" if "a \<in> set addresses" for a
    using that position_None [of "\<lambda>c. c = a" addresses] by (cases "position (\<lambda>c. c = a) addresses") auto
  have f_err: "?f a = Err (Builder ''no signer for witness '')" if "a \<notin> set addresses" for a
    using that position_None [of "\<lambda>c. c = a" addresses] by (cases "position (\<lambda>c. c = a) addresses") auto
  have "collect_result ?f required = Err (Builder ''no signer for witness '')"
    if "\<not> set required \<subseteq> set addresses"
    using that f_ok f_err by (intro collect_result_Err) blast+
  moreover have "collect_result ?f required = Ok (map (\<lambda>a. (a, the (position (\<lambda>c. c = a) addresses))) required)"
    if "set required \<subseteq> set addresses"
    using that f_ok by (intro collect_result_Ok) auto
  moreover have "collect_result ?g addresses = Err (Builder ''signer '')" if "\<not> set addresses \<subseteq> set required"
    using that by (intro collect_result_Err) auto
  moreover have "collect_result ?g addresses = Ok (map (\<lambda>_. ()) addresses)" if "set addresses \<subseteq> set required"
    using that by (intro collect_result_Ok) auto
  ultimately show ?thesis
    by (simp add: witness_slots_def assms cong: if_cong)
qed

lemma signature_by_address:
  assumes "a \<in> public_key ca ` set keys" and "set keys' = set keys" and "inj_on (public_key ca) (set keys)"
  shows "keys ! the (position (\<lambda>c. c = a) (map (public_key ca) keys)) =
         keys' ! the (position (\<lambda>c. c = a) (map (public_key ca) keys'))"
proof -
  have at: "ks ! the (position (\<lambda>c. c = a) (map (public_key ca) ks)) \<in> set ks
      \<and> public_key ca (ks ! the (position (\<lambda>c. c = a) (map (public_key ca) ks))) = a"
    if "a \<in> public_key ca ` set ks" for ks
  proof (cases "position (\<lambda>c. c = a) (map (public_key ca) ks)")
    case None
    with that show ?thesis by (auto simp: position_None)
  next
    case (Some i)
    with position_Some [OF Some] show ?thesis by auto
  qed
  show ?thesis
    using at [of keys] at [of keys'] assms(1,2) by (intro inj_onD [OF assms(3)]) simp_all
qed

section \<open>Properties\<close>

definition sample_transfer :: TxMsg where
  "sample_transfer =
     \<lparr>tm_tx_type = TT_TransferFungible, tm_expiry = 9, tm_max_gas = 100, tm_max_data = 0,
      tm_gas_from = array_of (replicate 32 7), tm_payload = empty_small_string,
      tm_msg = TP_TransferFungible
        \<lparr>tf_to = array_of (replicate 32 3), tf_token_id = 1, tf_amount = 5\<rparr>\<rparr>"

definition sample_keys :: PhantasmaKeys where
  "sample_keys = PhantasmaKeys (array_of (replicate 32 7))"

lemma sample_transfer_ok: "TxMsg_ok sample_transfer"
  by code_simp

text \<open>C17: The size \<open>envelope_bytes\<close> predicts without keys is exactly the size of the signed
  message, for every transaction type and every witness set the envelope admits.\<close>

theorem envelope_size_exact:
  assumes "num_bigint_api nb" and "TxMsg_ok msg" and "witnesses_ok msg ws"
    and "serialize (write_SignedTxMsg nb) \<lparr>sm_msg = msg, sm_witnesses = ws\<rparr> = Ok bs"
    and "length ws < 2 ^ 32" and "length bs < 2 ^ 32"
  shows "envelope_bytes nb msg (Some (word_of_nat (length ws))) = Ok (word_of_nat (length bs))"
proof -
  obtain n where n: "\<And>ws. witnesses_ok msg ws \<Longrightarrow>
    \<exists>bs. serialize (write_SignedTxMsg nb) \<lparr>sm_msg = msg, sm_witnesses = ws\<rparr> = Ok bs
       \<and> length bs = n + witness_bytes msg (length ws)"
    using signed_size [OF assms(1,2)] by blast
  obtain as where as: "envelope_addresses msg (Some (word_of_nat (length ws))) = Ok as"
    "length as = length ws" "witnesses_ok msg (map placeholder as)"
    using envelope_addresses_ok [OF assms(3,5)] by blast
  obtain cs where cs: "serialize (write_SignedTxMsg nb) \<lparr>sm_msg = msg, sm_witnesses = map placeholder as\<rparr> = Ok cs"
    "length cs = n + witness_bytes msg (length ws)"
    using n [OF as(3)] as(2) by auto
  moreover have "length bs = n + witness_bytes msg (length ws)" using n [OF assms(3)] assms(4) by auto
  ultimately show ?thesis using as(1) assms(6) by (simp add: envelope_bytes_def)
qed

theorem envelope_size_exact_witness:
  "envelope_bytes num_bigint_std sample_transfer (Some (word_of_nat (length [placeholder (array_of (replicate 32 7))])))
     = Ok (word_of_nat 170)"
proof -
  have "case serialize (write_SignedTxMsg num_bigint_std)
      \<lparr>sm_msg = sample_transfer, sm_witnesses = [placeholder (array_of (replicate 32 7))]\<rparr> of
      Ok bs \<Rightarrow> length bs = 170 | _ \<Rightarrow> False"
    by code_simp
  then obtain bs where bs: "serialize (write_SignedTxMsg num_bigint_std)
      \<lparr>sm_msg = sample_transfer, sm_witnesses = [placeholder (array_of (replicate 32 7))]\<rparr> = Ok bs" "length bs = 170"
    by (auto split: result.splits)
  have "witnesses_ok sample_transfer [placeholder (array_of (replicate 32 7))]" by code_simp
  from envelope_size_exact [OF num_bigint_std.num_bigint_api_axioms sample_transfer_ok this bs(1)] bs(2)
  show ?thesis by simp
qed

text \<open>C2: What \<open>sign_tx_msg_with_keys\<close> returns is a message the chain can read: it serializes, it
  reads back as itself, and every witness carries a signature of the serialized message
  that verifies under its address.\<close>

theorem signing_gives_valid_envelope:
  assumes "num_bigint_api nb" and "ed25519_correct ca" and "TxMsg_ok msg" and "fits_length (length keys)"
    and "sign_tx_msg_with_keys nb ca msg keys = Ok stx"
  shows "sm_msg stx = msg
    \<and> bind_result (serialize (write_SignedTxMsg nb) stx) (deserialize (read_SignedTxMsg nb)) = Ok stx
    \<and> (\<exists>message. serialize (write_TxMsg nb) msg = Ok message
        \<and> (\<forall>w\<in>set (sm_witnesses stx). ed_verify ca (w_address w) message (w_signature w)))"
proof -
  obtain slots message where s: "witness_slots msg (map (public_key ca) keys) = Ok slots"
    "serialize (write_TxMsg nb) msg = Ok message"
    "stx = \<lparr>sm_msg = msg, sm_witnesses = map (\<lambda>(a, i).
       \<lparr>w_address = a, w_signature = ed_sign ca (private_key (keys ! i)) message\<rparr>) slots\<rparr>"
    using sign_with_keys_cases [OF assms(5)] by metis
  have "ed_verify ca a message (ed_sign ca (private_key (keys ! i)) message)" if "(a, i) \<in> set slots" for a i
    using witness_slots_Ok(1) [OF s(1) that] assms(2) by (auto simp: ed25519_correct_def public_key_def)
  moreover have "SignedTxMsg_ok stx"
    using sign_with_keys_witnesses_ok [OF assms(5,4)] assms(3) s(3) by (simp add: SignedTxMsg_ok_def)
  ultimately show ?thesis
    using SignedTxMsg_codec.deserialize_serialize [of nb stx] assms(1) s(2,3) by auto
qed

theorem signing_gives_valid_envelope_witness:
  "\<exists>stx. sign_tx_msg_with_keys num_bigint_std crypto_model sample_transfer [sample_keys] = Ok stx
     \<and> bind_result (serialize (write_SignedTxMsg num_bigint_std) stx)
         (deserialize (read_SignedTxMsg num_bigint_std)) = Ok stx"
proof -
  have "case sign_tx_msg_with_keys num_bigint_std crypto_model sample_transfer [sample_keys] of
      Ok _ \<Rightarrow> True | _ \<Rightarrow> False"
    by code_simp
  then obtain stx where
    stx: "sign_tx_msg_with_keys num_bigint_std crypto_model sample_transfer [sample_keys] = Ok stx"
    by (auto split: result.splits)
  have "fits_length (length [sample_keys])" by (simp add: fits_length_def)
  from signing_gives_valid_envelope [OF num_bigint_std.num_bigint_api_axioms crypto_model_correct(2)
      sample_transfer_ok this stx] stx show ?thesis by blast
qed

text \<open>For the types whose witnesses the message fixes, the keys can be passed in any order,
  with repetitions: the signed message is the same.\<close>

theorem key_order_irrelevant:
  assumes "required_witnesses msg = Some required" and "set keys' = set keys"
    and "inj_on (public_key ca) (set keys)"
  shows "sign_tx_msg_with_keys nb ca msg keys' = sign_tx_msg_with_keys nb ca msg keys"
proof -
  have sets: "set (map (public_key ca) keys') = set (map (public_key ca) keys)"
    "keys' = [] \<longleftrightarrow> keys = []" using assms(2) by auto
  let ?sig = "\<lambda>ks message i. map (\<lambda>k. sig_data (keys_sign ca k message)) ks ! i"
  let ?idx = "\<lambda>ks a. the (position (\<lambda>c. c = a) (map (public_key ca) ks))"
  have idx: "?idx ks a < length ks" if "a \<in> public_key ca ` set ks" for ks a
    using that position_None [of "\<lambda>c. c = a" "map (public_key ca) ks"]
      position_Some [of "\<lambda>c. c = a" "map (public_key ca) ks"] by fastforce
  have same: "?sig keys' message (?idx keys' a) = ?sig keys message (?idx keys a)"
    if "a \<in> public_key ca ` set keys" for a message
    using signature_by_address [OF that assms(2,3)] idx [of a keys] idx [of a keys'] that assms(2) by simp
  then have "map (\<lambda>a. \<lparr>w_address = a, w_signature = ?sig keys' message (?idx keys' a)\<rparr>) required =
      map (\<lambda>a. \<lparr>w_address = a, w_signature = ?sig keys message (?idx keys a)\<rparr>) required"
    if "set required \<subseteq> public_key ca ` set keys" for message
    using that by auto
  with sets assms(2) show ?thesis
    by (auto simp: sign_tx_msg_with_keys_def keys_addresses witness_slots_fixed [OF assms(1)] comp_def
        Let_def intro!: bind_result_cong)
qed

theorem key_order_irrelevant_witness:
  "sign_tx_msg_with_keys num_bigint_std crypto_model sample_transfer [sample_keys, sample_keys] =
     sign_tx_msg_with_keys num_bigint_std crypto_model sample_transfer [sample_keys]"
  by (rule key_order_irrelevant [where required = "[array_of (replicate 32 7)]"])
     (code_simp, simp, simp)

text \<open>A message without a gas offer is never signed, neither by keys nor by remote signers:
  both routines return the same builder error.\<close>

theorem unplanned_never_signed:
  assumes "tm_max_gas msg = 0"
  shows "\<exists>e. sign_tx_msg_with_keys nb ca msg keys = Err (Builder e)
           \<and> sign_tx_msg_with nb msg signers = Err (Builder e)"
  using assms by (simp add: sign_tx_msg_with_keys_def sign_tx_msg_with_def assert_signable_def)

theorem unplanned_never_signed_witness:
  "\<exists>e. sign_tx_msg_with_keys num_bigint_std crypto_model (sample_transfer\<lparr>tm_max_gas := 0\<rparr>) [sample_keys] = Err (Builder e)
     \<and> sign_tx_msg_with num_bigint_std (sample_transfer\<lparr>tm_max_gas := 0\<rparr>) [] = Err (Builder e)"
  by (rule unplanned_never_signed) simp

text \<open>C28: With remote signers, each signer is asked at most once even when one account fills two
  slots, the slots carry the addresses the message requires, and every signature is the
  answer of the signer that owns the slot's address.\<close>

theorem remote_signers_asked_once:
  assumes "sign_tx_msg_with nb msg signers = Ok (stx, log)"
  shows "distinct log
    \<and> (\<forall>required. required_witnesses msg = Some required \<longrightarrow> map w_address (sm_witnesses stx) = required)
    \<and> (\<exists>message. serialize (write_TxMsg nb) msg = Ok message
        \<and> (\<forall>w\<in>set (sm_witnesses stx). \<exists>s\<in>set signers.
             signer_public_key s = w_address w \<and> sign_message s message = Ok (w_signature w)))"
proof -
  obtain slots message where s: "witness_slots msg (map signer_public_key signers) = Ok slots"
    "serialize (write_TxMsg nb) msg = Ok message" "map w_address (sm_witnesses stx) = map fst slots" "distinct log"
    "list_all2 (\<lambda>w (a, i). sign_message (signers ! i) message = Ok (w_signature w)) (sm_witnesses stx) slots"
    by (rule sign_with_cases [OF assms]) (rule that; assumption)
  have "\<exists>s\<in>set signers. signer_public_key s = w_address w \<and> sign_message s message = Ok (w_signature w)"
    if "w \<in> set (sm_witnesses stx)" for w
  proof -
    from that obtain j where j: "j < length (sm_witnesses stx)" "sm_witnesses stx ! j = w"
      by (auto simp: in_set_conv_nth)
    with s(5) have len: "j < length slots" by (simp add: list_all2_lengthD)
    obtain a i where ai: "slots ! j = (a, i)" by (cases "slots ! j")
    have "w_address w = a" using arg_cong [OF s(3), of "\<lambda>xs. xs ! j"] j len ai by simp
    moreover have "sign_message (signers ! i) message = Ok (w_signature w)"
      using list_all2_nthD [OF s(5) j(1)] j(2) ai by simp
    moreover have "i < length signers" "signer_public_key (signers ! i) = a"
      using witness_slots_Ok(1) [OF s(1), of a i] nth_mem [OF len] ai by auto
    ultimately show ?thesis by force
  qed
  then show ?thesis using s(2-4) witness_slots_Ok(2) [OF s(1)] by auto
qed

definition sample_signer :: tx_signer where
  "sample_signer = \<lparr>signer_public_key = array_of (replicate 32 7),
     sign_message = (\<lambda>m. Ok (array_of (replicate 64 1)))\<rparr>"

theorem remote_signers_asked_once_witness:
  "\<exists>stx log. sign_tx_msg_with num_bigint_std sample_transfer [sample_signer, sample_signer] = Ok (stx, log)
     \<and> distinct log"
proof -
  have "case sign_tx_msg_with num_bigint_std sample_transfer [sample_signer, sample_signer] of
      Ok _ \<Rightarrow> True | _ \<Rightarrow> False"
    by code_simp
  then obtain stx log where
    "sign_tx_msg_with num_bigint_std sample_transfer [sample_signer, sample_signer] = Ok (stx, log)"
    by (auto split: result.splits)
  with remote_signers_asked_once [OF this] show ?thesis by blast
qed

section \<open>Builders and derived addresses\<close>

text \<open>The builders give well-formed messages, whatever the limits.\<close>

lemma native_tx_ok:
  assumes "native_tx now t gas_from limits body = Ok msg" "payload_type body = t" "TxPayload_ok body"
  shows "TxMsg_ok msg \<and> tm_gas_from msg = gas_from \<and> tm_msg msg = body \<and> tm_tx_type msg = t
    \<and> tm_max_gas msg = lim_max_gas limits \<and> tm_max_data msg = lim_max_data limits"
  using assms
  by (auto simp: native_tx_def apply_tx_limits_def bind_result_eq_Ok TxMsg_ok_def empty_small_string_def
      small_string_ok_def lit_def)

text \<open>A native transfer of NFTs is built in the form its parameters call for: one instance or
  several, paid by the sender or by a named gas payer, and then both accounts must sign,
  the payer first. The message is well-formed and carries exactly the given instances.\<close>

theorem nft_transfer_builder:
  assumes "build_transfer_non_fungible_tx now p = Ok msg" and "fits_length (length (tnp_instance_ids p))"
  shows "TxMsg_ok msg
    \<and> tm_max_gas msg = lim_max_gas (tnp_limits p)
    \<and> required_witnesses msg =
        Some (case tnp_gas_payer p of None \<Rightarrow> [tnp_from p] | Some payer \<Rightarrow> [payer, tnp_from p])
    \<and> (case tm_msg msg of
          TP_TransferNonFungibleSingle b \<Rightarrow> tnp_instance_ids p = [tns_instance_id b]
        | TP_TransferNonFungibleSingleGasPayer b \<Rightarrow> tnp_instance_ids p = [tnsg_instance_id b]
        | TP_TransferNonFungibleMulti b \<Rightarrow> tnp_instance_ids p = tnm_instance_ids b
        | TP_TransferNonFungibleMultiGasPayer b \<Rightarrow> tnp_instance_ids p = tnmg_instance_ids b
        | _ \<Rightarrow> False)"
proof -
  obtain first rest where ids: "tnp_instance_ids p = first # rest"
    using assms(1) by (cases "tnp_instance_ids p") (auto simp: build_transfer_non_fungible_tx_def)
  note simps = ids build_transfer_non_fungible_tx_def single_witness_def gas_payer_type_def
    required_witnesses_simps payload_from_address_def
  consider "tnp_gas_payer p = None" "rest = []" | "tnp_gas_payer p = None" "rest \<noteq> []"
    | g where "tnp_gas_payer p = Some g" "rest = []" | g where "tnp_gas_payer p = Some g" "rest \<noteq> []"
    by (cases "tnp_gas_payer p") auto
  then show ?thesis
    using assms
    by cases (auto simp: simps TxMsgTransferNonFungibleMulti_ok_def
        TxMsgTransferNonFungibleMultiGasPayer_ok_def dest!: native_tx_ok)
qed

definition sample_nft_params :: TransferNonFungibleParams where
  "sample_nft_params =
     \<lparr>tnp_limits = \<lparr>lim_max_gas = 3, lim_max_data = 0, lim_expiry = 1\<rparr>,
      tnp_from = array_of (replicate 32 7), tnp_gas_payer = Some (array_of (replicate 32 9)),
      tnp_to = array_of (replicate 32 3), tnp_token_id = 1, tnp_instance_ids = [4, 5]\<rparr>"

theorem nft_transfer_builder_witness:
  "\<exists>msg. build_transfer_non_fungible_tx 0 sample_nft_params = Ok msg \<and> TxMsg_ok msg"
proof -
  have "case build_transfer_non_fungible_tx 0 sample_nft_params of Ok _ \<Rightarrow> True | _ \<Rightarrow> False"
    by code_simp
  then obtain msg where msg: "build_transfer_non_fungible_tx 0 sample_nft_params = Ok msg"
    by (auto split: result.splits)
  have "fits_length (length (tnp_instance_ids sample_nft_params))"
    by (simp add: fits_length_def sample_nft_params_def)
  from nft_transfer_builder [OF msg this] msg show ?thesis by blast
qed

lemma nft_address_bytes:
  "array_bytes (get_nft_address t i) = replicate 15 0 @ [1] @ to_le_bytes t @ to_le_bytes i"
  by (simp add: get_nft_address_def)

lemma bytes32_split:
  fixes a :: bytes32
  shows "array_bytes a = take 15 (array_bytes a) @ [array_bytes a ! 15] @
    take 8 (drop 16 (array_bytes a)) @ take 8 (drop 24 (array_bytes a))"
proof -
  let ?b = "array_bytes a"
  have "?b = take 15 ?b @ ?b ! 15 # drop 16 ?b"
    using id_take_nth_drop [of 15 ?b] by simp
  moreover have "drop 16 ?b = take 8 (drop 16 ?b) @ drop 24 ?b"
    using append_take_drop_id [of 8 "drop 16 ?b"] by simp
  moreover have "take 8 (drop 24 ?b) = drop 24 ?b" by simp
  ultimately show ?thesis by (metis append_Cons append_Nil)
qed

text \<open>The NFT address of a token and an instance is recognised as such exactly when both ids are
  nonzero, every recognised address is the address of one token and instance, and unpacking
  recovers them.\<close>

theorem nft_address_correct:
  "unpack_nft_address (get_nft_address t i) = (t, i)
   \<and> (is_nft_address (get_nft_address t i) \<longleftrightarrow> t \<noteq> 0 \<and> i \<noteq> 0)
   \<and> (is_nft_address a \<longrightarrow> a = get_nft_address (fst (unpack_nft_address a)) (snd (unpack_nft_address a)))"
proof (intro conjI impI)
  show u: "unpack_nft_address (get_nft_address t i) = (t, i)"
    by (simp add: unpack_nft_address_def nft_address_bytes)
  show "is_nft_address (get_nft_address t i) \<longleftrightarrow> t \<noteq> 0 \<and> i \<noteq> 0"
    using u by (simp add: is_nft_address_def nft_address_bytes nth_append list_ex_iff)
  assume nft: "is_nft_address a"
  then have b: "array_bytes a ! 15 = 1" "\<forall>x\<in>set (take 15 (array_bytes a)). x = 0"
    by (auto simp: is_nft_address_def list_ex_iff split: if_split_asm)
  have "take 15 (array_bytes a) = replicate 15 0"
    using replicate_length_same [of "take 15 (array_bytes a)" 0] b(2) by simp
  then have "array_bytes a = replicate 15 0 @ [1] @ take 8 (drop 16 (array_bytes a)) @
      take 8 (drop 24 (array_bytes a))"
    using bytes32_split [of a] b(1) by simp
  also have "\<dots> = array_bytes (get_nft_address (fst (unpack_nft_address a)) (snd (unpack_nft_address a)))"
    by (simp add: nft_address_bytes unpack_nft_address_def to_from_le_bytes)
  finally show "a = get_nft_address (fst (unpack_nft_address a)) (snd (unpack_nft_address a))"
    by (simp add: array_bytes_inject)
qed

theorem nft_address_correct_witness:
  "unpack_nft_address (get_nft_address 5 9) = (5, 9) \<and> is_nft_address (get_nft_address 5 9)"
  using nft_address_correct [of 5 9 "get_nft_address 5 9"] by simp

end
