(* ===== verification/Decimals.thy ===== *)
theory Decimals
  imports Prelude
begin

text \<open>
  Decimal amounts (\<open>convert_decimals\<close> of \<open>src/src/rpc.rs\<close> and the text of an unsigned integer).
  Texts are their UTF-8 bytes; slicing inside a character panics.
\<close>

definition ZERO :: u8 where "ZERO = 48"
definition MINUS :: u8 where "MINUS = 45"
definition DOT :: u8 where "DOT = 46"

text \<open>\<open>trim_start_matches\<close> and \<open>trim_end_matches\<close> with an ASCII character.\<close>

definition trim_start_char :: "u8 \<Rightarrow> bytes \<Rightarrow> bytes" where
  "trim_start_char c = dropWhile (\<lambda>b. b = c)"

definition trim_end_char :: "u8 \<Rightarrow> bytes \<Rightarrow> bytes" where
  "trim_end_char c bs = rev (dropWhile (\<lambda>b. b = c) (rev bs))"

text \<open>Splitting a text at a byte position, which has to be a character boundary.\<close>

definition split_text :: "nat \<Rightarrow> bytes \<Rightarrow> (bytes \<times> bytes) result" where
  "split_text i bs =
     (if length bs < i \<or> (i < length bs \<and> utf8_cont (bs ! i)) then Panic Char_Boundary
      else Ok (take i bs, drop i bs))"

definition convert_decimals :: "bytes \<Rightarrow> u32 \<Rightarrow> bytes result" where
  "convert_decimals amount decimals =
     (if decimals = 0 then Ok amount
      else
        let negative = (case amount of [] \<Rightarrow> False | b # _ \<Rightarrow> b = MINUS);
            trimmed = trim_start_char ZERO (trim_start_char MINUS amount);
            digits = (if trimmed = [] then [ZERO] else trimmed);
            d = unat decimals;
            digits = (if length digits \<le> d then replicate (d + 1 - length digits) ZERO @ digits else digits)
        in bind_result (split_text (length digits - d) digits) (\<lambda>(whole, rest).
           let fractional = trim_end_char ZERO rest;
               val = (if fractional = [] then whole else whole @ DOT # fractional)
           in Ok (if negative \<and> val \<noteq> [ZERO] then MINUS # val else val)))"

fun dec_text :: "nat \<Rightarrow> bytes" where
  "dec_text n = (if n < 10 then [ZERO + word_of_nat n] else dec_text (n div 10) @ [ZERO + word_of_nat (n mod 10)])"

declare dec_text.simps [simp del]

text \<open>Texts inside error messages.\<close>

definition text_chars :: "bytes \<Rightarrow> string" where
  "text_chars bs = map (\<lambda>b. char_of (unat b)) bs"

definition msg_of :: "rstring \<Rightarrow> string" where
  "msg_of s = text_chars (string_bytes s)"

definition nat_chars :: "nat \<Rightarrow> string" where
  "nat_chars n = text_chars (dec_text n)"

section \<open>Values\<close>

definition is_digit :: "u8 \<Rightarrow> bool" where
  "is_digit b \<longleftrightarrow> 48 \<le> b \<and> b \<le> 57"

definition digit_value :: "u8 \<Rightarrow> nat" where
  "digit_value b = unat b - 48"

definition dec_value :: "bytes \<Rightarrow> nat" where
  "dec_value bs = foldl (\<lambda>n b. 10 * n + digit_value b) 0 bs"

lemma foldl_digits: "foldl (\<lambda>n b. 10 * n + digit_value b) a bs = a * 10 ^ length bs + dec_value bs"
proof (induction bs arbitrary: a)
  case (Cons b bs)
  show ?case
    using Cons [of "10 * a + digit_value b"] Cons [of "digit_value b"] by (simp add: dec_value_def algebra_simps)
qed (simp add: dec_value_def)

lemma dec_value_append: "dec_value (xs @ ys) = dec_value xs * 10 ^ length ys + dec_value ys"
  using foldl_digits [of "dec_value xs" ys] by (simp add: dec_value_def)

lemma dec_value_Nil [simp]: "dec_value [] = 0"
  by (simp add: dec_value_def)

lemma digit_value_ZERO [simp]: "digit_value ZERO = 0"
  by (simp add: digit_value_def ZERO_def)

lemma dec_value_single [simp]: "dec_value [b] = digit_value b"
  by (simp add: dec_value_def)

lemma dec_value_Cons: "dec_value (b # bs) = digit_value b * 10 ^ length bs + dec_value bs"
  using dec_value_append [of "[b]" bs] by simp

lemma dec_value_zeros [simp]: "dec_value (replicate n ZERO) = 0"
  by (induction n) (simp_all add: dec_value_Cons)

lemma dec_value_trim_start [simp]: "dec_value (trim_start_char ZERO bs) = dec_value bs"
  by (induction bs) (simp_all add: trim_start_char_def dec_value_Cons)

lemma trim_end_split: "bs = trim_end_char c bs @ replicate (length bs - length (trim_end_char c bs)) c"
proof -
  let ?P = "\<lambda>b. b = c"
  have "replicate (length (takeWhile ?P (rev bs))) c = takeWhile ?P (rev bs)"
    by (rule replicate_length_same) (auto dest: set_takeWhileD)
  moreover have "length (takeWhile ?P (rev bs)) = length bs - length (trim_end_char c bs)"
    using arg_cong [OF takeWhile_dropWhile_id [of ?P "rev bs"], of length]
    by (simp add: trim_end_char_def del: takeWhile_dropWhile_id)
  moreover have "bs = trim_end_char c bs @ rev (takeWhile ?P (rev bs))"
    using arg_cong [OF takeWhile_dropWhile_id [of ?P "rev bs"], of rev]
    by (simp add: trim_end_char_def del: takeWhile_dropWhile_id)
  ultimately show ?thesis
    by (metis rev_replicate)
qed

lemma trim_end_last: "trim_end_char c bs = [] \<or> last (trim_end_char c bs) \<noteq> c"
  using hd_dropWhile [of "\<lambda>b. b = c" "rev bs"] by (auto simp: trim_end_char_def last_rev)

lemma trim_start_hd: "trim_start_char c bs = [] \<or> hd (trim_start_char c bs) \<noteq> c"
  using hd_dropWhile [of "\<lambda>b. b = c" bs] by (auto simp: trim_start_char_def)

lemma set_trim: "set (trim_start_char c bs) \<subseteq> set bs" "set (trim_end_char c bs) \<subseteq> set bs"
  by (auto simp: trim_start_char_def trim_end_char_def dest: set_dropWhileD)

lemma dec_value_trim_end: "dec_value (trim_end_char ZERO bs) * 10 ^ (length bs - length (trim_end_char ZERO bs)) = dec_value bs"
proof -
  let ?z = "replicate (length bs - length (trim_end_char ZERO bs)) ZERO"
  have "dec_value (trim_end_char ZERO bs @ ?z) = dec_value (trim_end_char ZERO bs) * 10 ^ length ?z"
    by (simp only: dec_value_append dec_value_zeros add_0_right)
  then show ?thesis
    using trim_end_split [of bs ZERO] by simp
qed

lemma length_trim_end: "length (trim_end_char c bs) \<le> length bs"
  using length_dropWhile_le [of "\<lambda>b. b = c" "rev bs"] by (simp add: trim_end_char_def)

lemma digit_not_cont: "is_digit b \<Longrightarrow> \<not> utf8_cont b"
  by (simp add: is_digit_def utf8_cont_def word_le_nat_alt)

lemma split_digits: "list_all is_digit bs \<Longrightarrow> i \<le> length bs \<Longrightarrow> split_text i bs = Ok (take i bs, drop i bs)"
  by (auto simp: split_text_def list_all_length digit_not_cont)

text \<open>The digits of an amount, padded so that at least one stands before the point.\<close>

definition padded_digits :: "bytes \<Rightarrow> nat \<Rightarrow> bytes" where
  "padded_digits ds d =
     (let digits = (if trim_start_char ZERO ds = [] then [ZERO] else trim_start_char ZERO ds)
      in if length digits \<le> d then replicate (d + 1 - length digits) ZERO @ digits else digits)"

lemma padded_digits:
  assumes "list_all is_digit ds"
  shows "d < length (padded_digits ds d)" "list_all is_digit (padded_digits ds d)"
    "dec_value (padded_digits ds d) = dec_value ds"
    "length (padded_digits ds d) - d = 1 \<or> hd (padded_digits ds d) \<noteq> ZERO"
proof -
  have zero: "is_digit ZERO" by (simp add: is_digit_def ZERO_def)
  show "d < length (padded_digits ds d)" by (auto simp: padded_digits_def Let_def)
  show "list_all is_digit (padded_digits ds d)"
    using assms zero set_trim(1) [of ZERO ds] by (auto simp: padded_digits_def Let_def list_all_iff)
  show "dec_value (padded_digits ds d) = dec_value ds"
    using dec_value_trim_start [of ds]
    by (cases "trim_start_char ZERO ds = []") (simp_all add: padded_digits_def Let_def dec_value_append)
  show "length (padded_digits ds d) - d = 1 \<or> hd (padded_digits ds d) \<noteq> ZERO"
    using trim_start_hd [of ZERO ds] by (auto simp: padded_digits_def Let_def)
qed

lemma convert_digits:
  assumes "list_all is_digit ds" and "decimals \<noteq> 0"
  defines "p \<equiv> padded_digits ds (unat decimals)"
  defines "i \<equiv> length p - unat decimals"
  shows "convert_decimals ds decimals =
    Ok (if trim_end_char ZERO (drop i p) = [] then take i p else take i p @ DOT # trim_end_char ZERO (drop i p))"
proof -
  have minus: "\<not> is_digit MINUS" by (simp add: is_digit_def MINUS_def)
  then have "trim_start_char MINUS ds = ds" "(case ds of [] \<Rightarrow> False | b # _ \<Rightarrow> b = MINUS) = False"
    using assms(1) by (cases ds; auto simp: trim_start_char_def)+
  then have "convert_decimals ds decimals = bind_result (split_text i p) (\<lambda>(whole, rest).
      Ok (if trim_end_char ZERO rest = [] then whole else whole @ DOT # trim_end_char ZERO rest))"
    using assms(2) by (simp add: convert_decimals_def Let_def i_def p_def padded_digits_def split del: if_split)
  then show ?thesis
    using padded_digits(2) [OF assms(1), of "unat decimals"] by (simp add: split_digits p_def i_def)
qed

text \<open>The text of a number consists of digits and has its value.\<close>

lemma dec_text_digits: "list_all is_digit (dec_text n)" "dec_value (dec_text n) = n"
proof -
  have digit: "is_digit (ZERO + word_of_nat d)" "digit_value (ZERO + word_of_nat d) = d" if "d < 10" for d
    using that
    by (simp_all add: is_digit_def digit_value_def ZERO_def word_le_nat_alt unat_word_ariths unat_of_nat)
  show "list_all is_digit (dec_text n)"
  proof (induction n rule: dec_text.induct)
    case (1 n)
    then show ?case using digit(1) by (subst dec_text.simps) auto
  qed
  show "dec_value (dec_text n) = n"
  proof (induction n rule: dec_text.induct)
    case (1 n)
    then show ?case using digit(2) by (subst dec_text.simps) (auto simp: dec_value_append)
  qed
qed

text \<open>C32: A displayed amount is exact: the whole part and the fraction without trailing zeros denote the
  amount divided by ten to the number of decimals, in canonical form.\<close>

theorem displayed_amount_exact:
  assumes "list_all is_digit ds" and "decimals \<noteq> 0"
  shows "\<exists>whole frac. convert_decimals ds decimals = Ok (if frac = [] then whole else whole @ DOT # frac) \<and>
    list_all is_digit (whole @ frac) \<and> whole \<noteq> [] \<and> (length whole = 1 \<or> hd whole \<noteq> ZERO) \<and>
    (frac = [] \<or> last frac \<noteq> ZERO) \<and> length frac \<le> unat decimals \<and>
    dec_value whole * 10 ^ unat decimals + dec_value frac * 10 ^ (unat decimals - length frac) = dec_value ds"
proof -
  define p where "p = padded_digits ds (unat decimals)"
  define i where "i = length p - unat decimals"
  note padded = padded_digits [OF assms(1), of "unat decimals", folded p_def]
  have i: "0 < i" "length (drop i p) = unat decimals" "length (take i p) = i"
    using padded(1) by (auto simp: i_def)
  have "dec_value (take i p) * 10 ^ unat decimals + dec_value (drop i p) = dec_value ds"
    using dec_value_append [of "take i p" "drop i p"] padded(3) i(2) by simp
  then have "dec_value (take i p) * 10 ^ unat decimals
      + dec_value (trim_end_char ZERO (drop i p)) * 10 ^ (unat decimals - length (trim_end_char ZERO (drop i p))) = dec_value ds"
    using dec_value_trim_end [of "drop i p"] unfolding i(2) by simp
  moreover have "list_all is_digit (take i p @ trim_end_char ZERO (drop i p))"
    using padded(2) set_trim(2) [of ZERO "drop i p"]
    by (auto simp: list_all_iff dest: in_set_takeD in_set_dropD)
  moreover have "i = 1 \<or> hd (take i p) \<noteq> ZERO"
    using padded(4) i by (cases p) (auto simp: i_def)
  ultimately show ?thesis
    using convert_digits [OF assms, folded p_def, folded i_def] i trim_end_last [of ZERO "drop i p"]
      length_trim_end [of ZERO "drop i p"]
    by (intro exI [of _ "take i p"] exI [of _ "trim_end_char ZERO (drop i p)"]) auto
qed


theorem displayed_amount_exact_witness:
  "\<exists>whole frac. convert_decimals (dec_text 120500) 4 = Ok (if frac = [] then whole else whole @ DOT # frac) \<and>
    dec_value whole * 10 ^ 4 + dec_value frac * 10 ^ (4 - length frac) = 120500"
proof -
  have four: "(4 :: u32) \<noteq> 0" "unat (4 :: u32) = 4" by simp_all
  show ?thesis
    using displayed_amount_exact [OF dec_text_digits(1) [of 120500] four(1)]
    unfolding four(2) dec_text_digits(2) by blast
qed

end
