(* ===== verification/FeePlanning.thy ===== *)
theory FeePlanning
  imports FeeModel CarbonSign Decimals
begin

text \<open>
  Planning the fee of a message (\<open>src/src/fees.rs\<close>): the operations a message performs are read
  out of it (\<open>describe\<close>), priced together with its signed size (\<open>plan_fees\<close>), priced again with the
  cheaper readings of the unstated facts to tell a prediction from a bound (\<open>assumptions_mattered\<close>),
  and the plan is written into the message before it is signed (\<open>plan_and_sign_with_keys\<close>). The
  arguments \<open>depth\<close>, \<open>nb\<close> and \<open>ca\<close> are the stack a nested reader has, the big-integer crate and the
  cryptography crates.
\<close>

section \<open>Method numbers and metadata keys\<close>

definition MODULE_GOVERNANCE :: u32 where "MODULE_GOVERNANCE = 0"
definition MODULE_TOKEN :: u32 where "MODULE_TOKEN = 1"

definition TOKEN_TRANSFER_FUNGIBLE :: u32 where "TOKEN_TRANSFER_FUNGIBLE = 0"
definition TOKEN_TRANSFER_NON_FUNGIBLE :: u32 where "TOKEN_TRANSFER_NON_FUNGIBLE = 1"
definition TOKEN_CREATE_TOKEN :: u32 where "TOKEN_CREATE_TOKEN = 2"
definition TOKEN_MINT_FUNGIBLE :: u32 where "TOKEN_MINT_FUNGIBLE = 3"
definition TOKEN_BURN_FUNGIBLE :: u32 where "TOKEN_BURN_FUNGIBLE = 4"
definition TOKEN_CREATE_TOKEN_SERIES :: u32 where "TOKEN_CREATE_TOKEN_SERIES = 6"
definition TOKEN_BURN_NON_FUNGIBLE :: u32 where "TOKEN_BURN_NON_FUNGIBLE = 9"
definition TOKEN_MINT_PHANTASMA_NON_FUNGIBLE :: u32 where "TOKEN_MINT_PHANTASMA_NON_FUNGIBLE = 27"
definition GOVERNANCE_REGISTER_NAME :: u32 where "GOVERNANCE_REGISTER_NAME = 1"

definition META_PRE_BURN :: rstring where "META_PRE_BURN = lit ''_brn''"
definition META_INFLATION_PERIOD :: rstring where "META_INFLATION_PERIOD = lit ''_ip''"
definition META_STAKING_ORG_ID :: rstring where "META_STAKING_ORG_ID = lit ''_soi''"
definition META_STAKING_REWARD_TOKEN :: rstring where "META_STAKING_REWARD_TOKEN = lit ''_srt''"

section \<open>Options and plans\<close>

record FeePlanOptions =
  po_witness_count :: "u32 option"
  po_recipient_holds_token :: bool
  po_big_fungible :: "bool option"
  po_token_burned_before :: bool
  po_supply_row_exists :: bool
  po_duplicated_series :: "bool option"
  po_rom_has_meta_id :: "bool option"
  po_series_has_meta_id :: "bool option"
  po_infusions :: "InfusedAsset list option"
  po_script_units_allowance :: "u64 option"
  po_script_event_bytes :: "u32 option"
  po_script_storage_quanta :: "u32 option"

definition default_plan_options :: FeePlanOptions where
  "default_plan_options =
     \<lparr>po_witness_count = None, po_recipient_holds_token = False, po_big_fungible = None,
      po_token_burned_before = False, po_supply_row_exists = False, po_duplicated_series = None,
      po_rom_has_meta_id = None, po_series_has_meta_id = None, po_infusions = None,
      po_script_units_allowance = None, po_script_event_bytes = None, po_script_storage_quanta = None\<rparr>"

record BurnedInstance =
  bi_token_id :: u64
  bi_instance_id :: u64

record FeePlan =
  pl_kinds :: "NativeFeeKind list"
  pl_exact :: bool
  pl_envelope_bytes :: u32
  pl_max_gas :: u64
  pl_max_data :: u64
  pl_expected_gas_bill :: u64
  pl_new_storage_quanta :: u32
  pl_deleted_storage_quanta :: u32

definition plan_quote :: "FeePlan \<Rightarrow> FeeQuote" where
  "plan_quote plan =
     \<lparr>fq_max_gas = pl_max_gas plan, fq_max_data = pl_max_data plan,
      fq_expected_gas_bill = pl_expected_gas_bill plan\<rparr>"

definition plan_apply :: "FeePlan \<Rightarrow> TxMsg \<Rightarrow> TxMsg" where
  "plan_apply plan msg = msg\<lparr>tm_max_gas := pl_max_gas plan, tm_max_data := pl_max_data plan\<rparr>"

section \<open>Reading the operations out of a message\<close>

definition length_u32 :: "nat \<Rightarrow> u32 result" where
  "length_u32 len = (if len < 2 ^ 32 then Ok (word_of_nat len) else Err (Builder ''plan_fees: length exceeds u32''))"

definition instance_count :: "nat \<Rightarrow> u32 result" where
  "instance_count len =
     (if len = 0 then Err (Builder ''plan_fees: the message must carry at least one instance'') else length_u32 len)"

definition carries_sections :: "TxMsgCall \<Rightarrow> bool" where
  "carries_sections call = (case call_sections call of None \<Rightarrow> False | Some s \<Rightarrow> has_sections s)"

text \<open>The reader of the burn arguments cannot panic, so every other outcome is an error.\<close>

definition burned_by_call :: "TxMsgCall \<Rightarrow> BurnedInstance list" where
  "burned_by_call call =
     (if carries_sections call then []
      else if call_module_id call \<noteq> MODULE_TOKEN \<or> call_method_id call \<noteq> TOKEN_BURN_NON_FUNGIBLE then []
      else case deserialize read_BurnNonFungibleArgs (call_args call) of
          Ok args \<Rightarrow> map (\<lambda>i. \<lparr>bi_token_id = bna_token_id args, bi_instance_id = i\<rparr>) (bna_instance_ids args)
        | _ \<Rightarrow> [])"

definition burned_instances :: "TxMsg \<Rightarrow> BurnedInstance list" where
  "burned_instances msg =
     (case tm_msg msg of
        TP_BurnNonFungible inner \<Rightarrow> [\<lparr>bi_token_id = bn_token_id inner, bi_instance_id = bn_instance_id inner\<rparr>]
      | TP_BurnNonFungibleGasPayer inner \<Rightarrow> [\<lparr>bi_token_id = bng_token_id inner, bi_instance_id = bng_instance_id inner\<rparr>]
      | TP_Call call \<Rightarrow> burned_by_call call
      | TP_CallMulti batch \<Rightarrow> concat (map burned_by_call (cm_calls batch))
      | _ \<Rightarrow> [])"

definition script_part :: "FeePlanOptions \<Rightarrow> NativeFeePart" where
  "script_part options =
     \<lparr>fp_kind = FK_Script,
      fp_params = default_fee_params
        \<lparr>np_script_units_allowance := po_script_units_allowance options,
         np_script_event_bytes := po_script_event_bytes options,
         np_script_storage_quanta := po_script_storage_quanta options\<rparr>\<rparr>"

definition describe_burn :: "u64 \<Rightarrow> u32 \<Rightarrow> NativeFeeParams \<Rightarrow> InfusedAsset list option \<Rightarrow> NativeFeePart result" where
  "describe_burn token_id cnt state infusions =
     (case infusions of
        None \<Rightarrow> Err (Builder ''plan_fees: a burn returns whatever the NFT holds: set infusions (empty when it holds nothing) or plan through PhantasmaRpc::fees, which reads them from the chain'')
      | Some assets \<Rightarrow>
          Ok \<lparr>fp_kind = FK_BurnNonFungible,
              fp_params = state\<lparr>np_token_id := Some token_id, np_count := Some cnt, np_infusions := Some assets\<rparr>\<rparr>)"

text \<open>The argument readers of the calls, with the error of \<open>plan_fees\<close>.\<close>

definition read_call_args :: "string \<Rightarrow> 'a reader \<Rightarrow> TxMsgCall \<Rightarrow> 'a result" where
  "read_call_args message rd call = map_err (\<lambda>_. Builder message) (deserialize rd (call_args call))"

definition move_part :: "NativeFeeKind \<Rightarrow> NativeFeeParams \<Rightarrow> u64 \<Rightarrow> bytes32 \<Rightarrow> NativeFeePart" where
  "move_part kind state token_id dest =
     \<lparr>fp_kind = kind, fp_params = state\<lparr>np_token_id := Some token_id, np_to_is_nft_address := is_nft_address dest\<rparr>\<rparr>"

definition describe_transfer_nft :: "NativeFeeParams \<Rightarrow> u64 \<Rightarrow> nat \<Rightarrow> bytes32 \<Rightarrow> NativeFeePart result" where
  "describe_transfer_nft state token_id len dest =
     bind_result (instance_count len) (\<lambda>cnt.
       Ok \<lparr>fp_kind = FK_TransferNonFungible,
           fp_params = state\<lparr>np_token_id := Some token_id, np_count := Some cnt,
                             np_to_is_nft_address := is_nft_address dest\<rparr>\<rparr>)"

definition describe_create_token :: "nat \<Rightarrow> num_bigint \<Rightarrow> TxMsgCall \<Rightarrow> NativeFeePart result" where
  "describe_create_token depth nb call =
     bind_result (read_call_args ''plan_fees: CreateToken arguments: '' (read_TokenInfo nb) call) (\<lambda>info.
     bind_result
       (if ti_metadata info = [] then Ok empty_dynamic_struct
        else map_err (\<lambda>_. Builder ''plan_fees: CreateToken metadata: '')
          (deserialize (read_dynamic_struct depth nb) (ti_metadata info))) (\<lambda>metadata.
     bind_result (length_u32 (length (string_bytes (as_str (ti_symbol info))))) (\<lambda>symbol_length.
     bind_result (length_u32 (length (call_args call))) (\<lambda>token_info_bytes.
       Ok \<lparr>fp_kind = FK_CreateToken,
           fp_params = default_fee_params
             \<lparr>np_symbol_length := symbol_length, np_token_info_bytes := token_info_bytes,
              np_non_fungible := flags_contain (ti_flags info) NON_FUNGIBLE,
              np_has_pre_burn := struct_get metadata META_PRE_BURN \<noteq> None,
              np_has_inflation_schedule := struct_get metadata META_INFLATION_PERIOD \<noteq> None,
              np_has_staking_organisation := struct_get metadata META_STAKING_ORG_ID \<noteq> None,
              np_has_staking_reward_token := struct_get metadata META_STAKING_REWARD_TOKEN \<noteq> None\<rparr>\<rparr>))))"

definition describe_mint_phantasma ::
    "num_bigint \<Rightarrow> TxMsgCall \<Rightarrow> NativeFeeParams \<Rightarrow> FeePlanOptions \<Rightarrow> NativeFeePart result" where
  "describe_mint_phantasma nb call state options =
     bind_result (read_call_args ''plan_fees: MintPhantasmaNonFungible arguments: ''
       (read_MintPhantasmaNonFungibleArgs nb) call) (\<lambda>args.
     bind_result (instance_count (length (mpn_tokens args))) (\<lambda>cnt.
     let series = remdups (map (\<lambda>t. as_bigint (pmi_phantasma_series_id t)) (mpn_tokens args)) in
     bind_result (collect_result (\<lambda>t. length_u32 (length (pmi_rom t))) (mpn_tokens args)) (\<lambda>rom_bytes.
     bind_result (collect_result (\<lambda>t. length_u32 (length (pmi_ram t))) (mpn_tokens args)) (\<lambda>ram_bytes.
     bind_result (length_u32 (length series)) (\<lambda>distinct.
       Ok \<lparr>fp_kind = FK_MintPhantasmaNonFungible,
           fp_params = state
             \<lparr>np_token_id := Some (mpn_token_id args), np_count := Some cnt, np_rom_bytes := rom_bytes,
              np_ram_bytes := ram_bytes, np_duplicated_series := po_duplicated_series options,
              np_distinct_series_count := Some distinct,
              np_to_is_nft_address := is_nft_address (mpn_address args)\<rparr>\<rparr>)))))"

definition describe_token_call ::
    "nat \<Rightarrow> num_bigint \<Rightarrow> TxMsgCall \<Rightarrow> NativeFeeParams \<Rightarrow> FeePlanOptions \<Rightarrow> InfusedAsset list option
      \<Rightarrow> NativeFeePart result" where
  "describe_token_call depth nb call state options infusions =
     (if call_method_id call = TOKEN_TRANSFER_FUNGIBLE then
        bind_result (read_call_args ''plan_fees: TransferFungible arguments: '' (read_TransferFungibleArgs nb) call)
          (\<lambda>args. Ok (move_part FK_TransferFungible state (tfa_token_id args) (tfa_to args)))
      else if call_method_id call = TOKEN_TRANSFER_NON_FUNGIBLE then
        bind_result (read_call_args ''plan_fees: TransferNonFungible arguments: '' read_TransferNonFungibleArgs call)
          (\<lambda>args. describe_transfer_nft state (tna_token_id args) (length (tna_instance_ids args)) (tna_to args))
      else if call_method_id call = TOKEN_MINT_FUNGIBLE then
        bind_result (read_call_args ''plan_fees: MintFungible arguments: '' (read_MintFungibleArgs nb) call)
          (\<lambda>args. Ok (move_part FK_MintFungible state (mfa_token_id args) (mfa_to args)))
      else if call_method_id call = TOKEN_BURN_FUNGIBLE then
        bind_result (read_call_args ''plan_fees: BurnFungible arguments: '' (read_BurnFungibleArgs nb) call)
          (\<lambda>args. Ok \<lparr>fp_kind = FK_BurnFungible, fp_params = state\<lparr>np_token_id := Some (bfa_token_id args)\<rparr>\<rparr>)
      else if call_method_id call = TOKEN_BURN_NON_FUNGIBLE then
        bind_result (read_call_args ''plan_fees: BurnNonFungible arguments: '' read_BurnNonFungibleArgs call) (\<lambda>args.
        bind_result (instance_count (length (bna_instance_ids args))) (\<lambda>cnt.
          describe_burn (bna_token_id args) cnt state infusions))
      else if call_method_id call = TOKEN_CREATE_TOKEN then describe_create_token depth nb call
      else if call_method_id call = TOKEN_CREATE_TOKEN_SERIES then
        bind_result (length_u32 (length (call_args call) - 8)) (\<lambda>series_info_bytes.
          Ok \<lparr>fp_kind = FK_CreateTokenSeries,
              fp_params = default_fee_params
                \<lparr>np_series_info_bytes := series_info_bytes,
                 np_series_has_meta_id := po_series_has_meta_id options\<rparr>\<rparr>)
      else if call_method_id call = TOKEN_MINT_PHANTASMA_NON_FUNGIBLE then
        describe_mint_phantasma nb call state options
      else Ok (script_part options))"

definition describe_call ::
    "nat \<Rightarrow> num_bigint \<Rightarrow> TxMsgCall \<Rightarrow> NativeFeeParams \<Rightarrow> FeePlanOptions \<Rightarrow> InfusedAsset list option
      \<Rightarrow> NativeFeePart result" where
  "describe_call depth nb call state options infusions =
     (if carries_sections call then Ok (script_part options)
      else if call_module_id call = MODULE_TOKEN then describe_token_call depth nb call state options infusions
      else if call_module_id call = MODULE_GOVERNANCE \<and> call_method_id call = GOVERNANCE_REGISTER_NAME then
        bind_result (read_call_args ''plan_fees: RegisterName arguments: '' read_RegisterNameArgs call) (\<lambda>args.
        bind_result (length_u32 (length (string_bytes (as_str (rna_name args))))) (\<lambda>name_length.
          Ok \<lparr>fp_kind = FK_RegisterName, fp_params = default_fee_params\<lparr>np_name_length := name_length\<rparr>\<rparr>))
      else Ok (script_part options))"

text \<open>The loop over the calls of a batch: the first burn takes the whole list of returned assets.\<close>

primrec describe_calls ::
    "nat \<Rightarrow> num_bigint \<Rightarrow> NativeFeeParams \<Rightarrow> FeePlanOptions \<Rightarrow> TxMsgCall list \<Rightarrow> InfusedAsset list option
      \<Rightarrow> NativeFeePart list result" where
  "describe_calls depth nb state options [] returns = Ok []"
| "describe_calls depth nb state options (call # calls) returns =
     bind_result (describe_call depth nb call state options returns) (\<lambda>part.
     bind_result (describe_calls depth nb state options calls
       (if fp_kind part = FK_BurnNonFungible then Some [] else returns)) (\<lambda>parts.
       Ok (part # parts)))"

definition plan_state :: "FeePlanOptions \<Rightarrow> NativeFeeParams" where
  "plan_state options =
     default_fee_params
       \<lparr>np_recipient_holds_token := po_recipient_holds_token options,
        np_big_fungible := po_big_fungible options,
        np_token_burned_before := po_token_burned_before options,
        np_supply_row_exists := po_supply_row_exists options,
        np_rom_has_meta_id := po_rom_has_meta_id options\<rparr>"

definition one_part :: "NativeFeePart \<Rightarrow> NativeFeePart list result" where
  "one_part part = Ok [part]"

definition describe :: "nat \<Rightarrow> num_bigint \<Rightarrow> TxMsg \<Rightarrow> FeePlanOptions \<Rightarrow> NativeFeePart list result" where
  "describe depth nb msg options =
     (let state = plan_state options
      in case tm_msg msg of
           TP_TransferFungible inner \<Rightarrow> one_part (move_part FK_TransferFungible state (tf_token_id inner) (tf_to inner))
         | TP_TransferFungibleGasPayer inner \<Rightarrow>
             one_part (move_part FK_TransferFungible state (tfg_token_id inner) (tfg_to inner))
         | TP_TransferNonFungibleSingle inner \<Rightarrow>
             bind_result (describe_transfer_nft state (tns_token_id inner) 1 (tns_to inner)) one_part
         | TP_TransferNonFungibleSingleGasPayer inner \<Rightarrow>
             bind_result (describe_transfer_nft state (tnsg_token_id inner) 1 (tnsg_to inner)) one_part
         | TP_TransferNonFungibleMulti inner \<Rightarrow>
             bind_result (describe_transfer_nft state (tnm_token_id inner) (length (tnm_instance_ids inner)) (tnm_to inner))
               one_part
         | TP_TransferNonFungibleMultiGasPayer inner \<Rightarrow>
             bind_result (describe_transfer_nft state (tnmg_token_id inner) (length (tnmg_instance_ids inner)) (tnmg_to inner))
               one_part
         | TP_MintFungible inner \<Rightarrow> one_part (move_part FK_MintFungible state (mf_token_id inner) (mf_to inner))
         | TP_BurnFungible inner \<Rightarrow>
             one_part \<lparr>fp_kind = FK_BurnFungible, fp_params = state\<lparr>np_token_id := Some (bf_token_id inner)\<rparr>\<rparr>
         | TP_BurnFungibleGasPayer inner \<Rightarrow>
             one_part \<lparr>fp_kind = FK_BurnFungible, fp_params = state\<lparr>np_token_id := Some (bfg_token_id inner)\<rparr>\<rparr>
         | TP_MintNonFungible inner \<Rightarrow>
             bind_result (length_u32 (length (mn_rom inner))) (\<lambda>rom.
             bind_result (length_u32 (length (mn_ram inner))) (\<lambda>ram.
               one_part \<lparr>fp_kind = FK_MintNonFungible,
                         fp_params = state\<lparr>np_token_id := Some (mn_token_id inner), np_rom_bytes := [rom],
                                           np_ram_bytes := [ram],
                                           np_to_is_nft_address := is_nft_address (mn_to inner)\<rparr>\<rparr>))
         | TP_BurnNonFungible inner \<Rightarrow>
             bind_result (describe_burn (bn_token_id inner) 1 state (po_infusions options)) one_part
         | TP_BurnNonFungibleGasPayer inner \<Rightarrow>
             bind_result (describe_burn (bng_token_id inner) 1 state (po_infusions options)) one_part
         | TP_Call call \<Rightarrow>
             bind_result (describe_call depth nb call state options (po_infusions options)) one_part
         | TP_CallMulti batch \<Rightarrow> describe_calls depth nb state options (cm_calls batch) (po_infusions options)
         | TP_Trade _ \<Rightarrow> one_part (script_part options)
         | TP_Phantasma _ \<Rightarrow> one_part (script_part options)
         | TP_PhantasmaRaw _ \<Rightarrow> Err (Builder ''plan_fees: cannot plan fees for a ''))"

section \<open>Plans\<close>

definition cheapest_reading :: "FeePlanOptions \<Rightarrow> FeePlanOptions" where
  "cheapest_reading options =
     options\<lparr>po_recipient_holds_token := True, po_token_burned_before := True, po_supply_row_exists := True,
       po_big_fungible := Some False,
       po_rom_has_meta_id := Some (case po_rom_has_meta_id options of None \<Rightarrow> False | Some b \<Rightarrow> b),
       po_series_has_meta_id := Some (case po_series_has_meta_id options of None \<Rightarrow> False | Some b \<Rightarrow> b),
       po_duplicated_series := Some (case po_duplicated_series options of None \<Rightarrow> False | Some b \<Rightarrow> b)\<rparr>"

definition assumptions_mattered ::
    "nat \<Rightarrow> num_bigint \<Rightarrow> TxMsg \<Rightarrow> GasConfig \<Rightarrow> FeePlanOptions \<Rightarrow> NativeFeeTransactionParams
      \<Rightarrow> NativeFeeEstimate \<Rightarrow> bool result" where
  "assumptions_mattered depth nb msg config options transaction quoted =
     bind_result (describe depth nb msg (cheapest_reading options)) (\<lambda>parts.
     bind_result (estimate_native_fee_batch parts config transaction) (\<lambda>cheaper.
       Ok (fe_expected_gas_bill cheaper \<noteq> fe_expected_gas_bill quoted \<or>
           fe_max_gas cheaper \<noteq> fe_max_gas quoted \<or> fe_max_data cheaper \<noteq> fe_max_data quoted)))"

definition plan_fees ::
    "nat \<Rightarrow> num_bigint \<Rightarrow> TxMsg \<Rightarrow> GasConfig \<Rightarrow> FeePlanOptions \<Rightarrow> FeePlan result" where
  "plan_fees depth nb msg config options =
     (if required_witnesses msg = None \<and> po_witness_count options = None
      then Err (Builder ''plan_fees: '')
      else
        bind_result (describe depth nb msg options) (\<lambda>parts.
        bind_result (envelope_bytes nb msg (po_witness_count options)) (\<lambda>envelope.
        let transaction = \<lparr>nt_envelope_bytes = envelope, nt_payload_bytes = 0\<rparr>
        in bind_result (estimate_native_fee_batch parts config transaction) (\<lambda>estimate.
           let kinds = map fp_kind parts;
               budgeted = (FK_Script \<in> set kinds)
           in bind_result
                (if budgeted then Ok False
                 else bind_result (assumptions_mattered depth nb msg config options transaction estimate)
                   (\<lambda>mattered. Ok (\<not> mattered))) (\<lambda>exact.
              Ok \<lparr>pl_kinds = kinds, pl_exact = exact, pl_envelope_bytes = envelope,
                  pl_max_gas = fe_max_gas estimate, pl_max_data = fe_max_data estimate,
                  pl_expected_gas_bill = fe_expected_gas_bill estimate,
                  pl_new_storage_quanta = fe_new_storage_quanta estimate,
                  pl_deleted_storage_quanta = fe_deleted_storage_quanta estimate\<rparr>)))))"

record PlanAndSignOptions =
  ps_facts :: FeePlanOptions
  ps_limits :: TxLimits

text \<open>The witness count that the keys answer for a type that leaves it open.\<close>

definition fill_witness_count :: "TxMsg \<Rightarrow> nat \<Rightarrow> FeePlanOptions \<Rightarrow> FeePlanOptions result" where
  "fill_witness_count msg key_count options =
     (if required_witnesses msg = None \<and> po_witness_count options = None
      then bind_result (length_u32 key_count) (\<lambda>n. Ok (options\<lparr>po_witness_count := Some n\<rparr>))
      else Ok options)"

definition plan_and_sign_with_keys ::
    "nat \<Rightarrow> num_bigint \<Rightarrow> crypto_api \<Rightarrow> TxMsg \<Rightarrow> PhantasmaKeys list \<Rightarrow> GasConfig option
      \<Rightarrow> PlanAndSignOptions \<Rightarrow> bytes result" where
  "plan_and_sign_with_keys depth nb ca msg keys config options =
     (if tm_max_gas msg \<noteq> 0 then sign_and_serialize_tx_msg_with_keys nb ca msg keys
      else case config of
          None \<Rightarrow> Err (Builder ''plan_and_sign: a message without a gas offer needs the chain's gas config to plan it: pass the config, or fix max_gas in the limits'')
        | Some config \<Rightarrow>
            bind_result (fill_witness_count msg (length keys) (ps_facts options)) (\<lambda>plan_options.
            bind_result (plan_fees depth nb msg config plan_options) (\<lambda>plan.
              sign_and_serialize_tx_msg_with_keys nb ca (plan_apply plan msg) keys)))"

section \<open>Plans for display\<close>

definition KCAL_DECIMALS :: u32 where "KCAL_DECIMALS = 10"
definition SOUL_DECIMALS :: u32 where "SOUL_DECIMALS = 8"

record FeePlanSummary =
  su_gas_bill :: bytes
  su_gas_offer :: bytes
  su_storage_ceiling :: bytes

definition summarize_fee_plan_with_decimals :: "FeePlan \<Rightarrow> u32 \<Rightarrow> u32 \<Rightarrow> FeePlanSummary result" where
  "summarize_fee_plan_with_decimals plan gas_decimals data_decimals =
     bind_result (convert_decimals (dec_text (unat (pl_expected_gas_bill plan))) gas_decimals) (\<lambda>gas_bill.
     bind_result (convert_decimals (dec_text (unat (pl_max_gas plan))) gas_decimals) (\<lambda>gas_offer.
     bind_result (convert_decimals (dec_text (unat (pl_max_data plan))) data_decimals) (\<lambda>storage_ceiling.
       Ok \<lparr>su_gas_bill = gas_bill, su_gas_offer = gas_offer, su_storage_ceiling = storage_ceiling\<rparr>)))"

definition summarize_fee_plan :: "FeePlan \<Rightarrow> FeePlanSummary result" where
  "summarize_fee_plan plan = summarize_fee_plan_with_decimals plan KCAL_DECIMALS SOUL_DECIMALS"

section \<open>Sizes and limits\<close>

text \<open>The limits have fixed-width fields, so they do not move the size of a message.\<close>

definition with_limits :: "TxMsg \<Rightarrow> u64 \<Rightarrow> u64 \<Rightarrow> TxMsg" where
  "with_limits msg gas data = msg\<lparr>tm_max_gas := gas, tm_max_data := data\<rparr>"

lemma with_limits_same:
  "required_witnesses (with_limits msg gas data) = required_witnesses msg"
  "witnesses_ok (with_limits msg gas data) ws = witnesses_ok msg ws"
  "witness_bytes (with_limits msg gas data) n = witness_bytes msg n"
  "TxMsg_ok (with_limits msg gas data) = TxMsg_ok msg"
  by (simp_all add: with_limits_def required_witnesses_def witnesses_ok_def witness_bytes_def TxMsg_ok_def
      cong: if_cong)

lemma plan_apply_limits: "plan_apply plan msg = with_limits msg (pl_max_gas plan) (pl_max_data plan)"
  by (simp add: plan_apply_def with_limits_def)

lemma with_limits_self: "with_limits msg (tm_max_gas msg) (tm_max_data msg) = msg"
  by (simp add: with_limits_def)

lemma message_size:
  assumes "num_bigint_api nb" and "TxMsg_ok msg"
  obtains n where "\<And>gas data. \<exists>bs. writes (write_TxMsg nb (with_limits msg gas data)) bs \<and> length bs = n"
proof -
  obtain pb where pb: "writes (write_small_string (tm_payload msg)) pb"
    using small_string_round_trip [of "tm_payload msg"] assms(2)
    by (auto simp: TxMsg_ok_def round_trip1_def small_string_ok_def)
  obtain qb where qb: "writes (write_TxPayload nb (tm_msg msg)) qb"
    using TxPayload_round_trip [OF assms(1), of "tm_msg msg"] assms(2) by (auto simp: TxMsg_ok_def round_trip1_def)
  have "\<exists>bs. writes (write_TxMsg nb (with_limits msg gas data)) bs \<and> length bs = 57 + (length pb + length qb)" for gas data
    unfolding write_TxMsg_def with_limits_def write1_def write8_def write8u_def write32_def carbon_write_def
    by (rule exI, rule conjI, (rule writes_Cons writes_bytes writes_Nil pb qb | simp)+)
  then show thesis using that by blast
qed

lemma signed_size_any_limits:
  assumes "num_bigint_api nb" and "TxMsg_ok msg"
  obtains n where "\<And>gas data ws. witnesses_ok msg ws \<Longrightarrow>
    \<exists>bs. serialize (write_SignedTxMsg nb) \<lparr>sm_msg = with_limits msg gas data, sm_witnesses = ws\<rparr> = Ok bs
       \<and> length bs = n + witness_bytes msg (length ws)"
proof -
  obtain n where n: "\<And>gas data. \<exists>bs. writes (write_TxMsg nb (with_limits msg gas data)) bs \<and> length bs = n"
    using message_size [OF assms] by blast
  have "\<exists>bs. serialize (write_SignedTxMsg nb) \<lparr>sm_msg = with_limits msg gas data, sm_witnesses = ws\<rparr> = Ok bs
       \<and> length bs = n + witness_bytes msg (length ws)" if ok: "witnesses_ok msg ws" for gas data ws
  proof -
    obtain mb wb where "writes (write_TxMsg nb (with_limits msg gas data)) mb" "length mb = n"
      "writes (write_witnesses (with_limits msg gas data) ws) wb" "length wb = witness_bytes msg (length ws)"
      using n [of gas data] writes_witnesses [of "with_limits msg gas data" ws] ok by (auto simp: with_limits_same)
    moreover from this have "writes (write_SignedTxMsg nb \<lparr>sm_msg = with_limits msg gas data, sm_witnesses = ws\<rparr>) (mb @ wb)"
      unfolding write_SignedTxMsg_def by (simp only: SignedTxMsg.simps) (rule writes_seq2)
    ultimately show ?thesis by (auto simp: serialize_def writes_def)
  qed
  then show thesis using that by blast
qed


lemma envelope_addresses_witnesses:
  assumes "envelope_addresses msg (po_witness_count options) = Ok as"
    and "required_witnesses msg = None \<longrightarrow> po_witness_count options = Some (word_of_nat n) \<and> fits_length n"
  shows "witnesses_ok msg (map placeholder as)" "required_witnesses msg = None \<longrightarrow> length as = n"
proof -
  have len: "unat (word_of_nat n :: u32) = n" if "fits_length n"
    using that by (simp add: fits_length_def unat_of_nat)
  have gas: "a \<in> set (xs[0 := a])" if "0 < length xs" for a :: bytes32 and xs
    using that by (intro set_update_memI)
  show "witnesses_ok msg (map placeholder as)"
    using assms len gas [of "replicate n EMPTY_BYTES32" "tm_gas_from msg"]
    by (cases "required_witnesses msg"; cases "n = 0")
      (auto simp: envelope_addresses_def witnesses_ok_def comp_def image_image Let_def split: option.splits if_splits)
  show "required_witnesses msg = None \<longrightarrow> length as = n"
    using assms len by (auto simp: envelope_addresses_def Let_def split: if_splits)
qed

lemma witnesses_ok_length:
  "witnesses_ok msg ws \<Longrightarrow> witnesses_ok msg ws' \<Longrightarrow> required_witnesses msg \<noteq> None \<Longrightarrow> length ws = length ws'"
  by (auto simp: witnesses_ok_def) (metis length_map)

lemma plan_fees_cases:
  assumes "plan_fees depth nb msg config options = Ok plan"
  obtains parts as estimate where "describe depth nb msg options = Ok parts"
    "envelope_addresses msg (po_witness_count options) = Ok as"
    "envelope_bytes nb msg (po_witness_count options) = Ok (pl_envelope_bytes plan)"
    "estimate_native_fee_batch parts config \<lparr>nt_envelope_bytes = pl_envelope_bytes plan, nt_payload_bytes = 0\<rparr> = Ok estimate"
    "pl_max_gas plan = fe_max_gas estimate" "pl_max_data plan = fe_max_data estimate"
    "pl_expected_gas_bill plan = fe_expected_gas_bill estimate" "pl_kinds plan = map fp_kind parts"
    "pl_exact plan \<longrightarrow> FK_Script \<notin> set (map fp_kind parts) \<and>
       assumptions_mattered depth nb msg config options
         \<lparr>nt_envelope_bytes = pl_envelope_bytes plan, nt_payload_bytes = 0\<rparr> estimate = Ok False"
  using assms
  by (auto simp: plan_fees_def Let_def bind_result_eq_Ok envelope_bytes_def split: if_splits)

text \<open>
  A plan that was made for the witnesses a message then gets has the size of the signed message, which reads
  back and offers at least the expected bill.
\<close>

lemma signed_plan:
  assumes nb: "num_bigint_api nb" and ok: "TxMsg_ok msg"
    and plan: "plan_fees depth nb msg config options = Ok plan"
    and wc: "required_witnesses msg = None \<longrightarrow> po_witness_count options = Some (word_of_nat n) \<and> fits_length n"
    and ws: "witnesses_ok (plan_apply plan msg) (sm_witnesses stx)"
      "required_witnesses (plan_apply plan msg) = None \<longrightarrow> length (sm_witnesses stx) = n"
    and msg: "sm_msg stx = plan_apply plan msg"
    and bytes: "serialize (write_SignedTxMsg nb) stx = Ok bytes"
  shows "length bytes = unat (pl_envelope_bytes plan)" "deserialize (read_SignedTxMsg nb) bytes = Ok stx"
    "pl_expected_gas_bill plan \<le> tm_max_gas (sm_msg stx)"
proof -
  obtain as parts estimate where as: "envelope_addresses msg (po_witness_count options) = Ok as"
    "envelope_bytes nb msg (po_witness_count options) = Ok (pl_envelope_bytes plan)"
    and estimate: "estimate_native_fee_batch parts config
      \<lparr>nt_envelope_bytes = pl_envelope_bytes plan, nt_payload_bytes = 0\<rparr> = Ok estimate"
    "pl_max_gas plan = fe_max_gas estimate" "pl_expected_gas_bill plan = fe_expected_gas_bill estimate"
    using plan_fees_cases [OF plan] by metis
  then obtain encoded where encoded: "serialize (write_SignedTxMsg nb) \<lparr>sm_msg = msg, sm_witnesses = map placeholder as\<rparr> = Ok encoded"
    "unat (pl_envelope_bytes plan) = length encoded"
    by (auto simp: envelope_bytes_def bind_result_eq_Ok unat_of_nat split: if_splits
        dest!: sym [of "word_of_nat _"])
  note addresses = envelope_addresses_witnesses [OF as(1) wc]
  have ws': "witnesses_ok msg (sm_witnesses stx)" "required_witnesses msg = None \<longrightarrow> length (sm_witnesses stx) = n"
    using ws by (simp_all add: plan_apply_limits with_limits_same)
  have count: "length (sm_witnesses stx) = length as"
    using ws'(2) addresses witnesses_ok_length [OF ws'(1) addresses(1)]
    by (cases "required_witnesses msg") auto
  obtain n where n: "\<And>gas data ws. witnesses_ok msg ws \<Longrightarrow>
    \<exists>bs. serialize (write_SignedTxMsg nb) \<lparr>sm_msg = with_limits msg gas data, sm_witnesses = ws\<rparr> = Ok bs
       \<and> length bs = n + witness_bytes msg (length ws)"
    using signed_size_any_limits [OF nb ok] by blast
  have "length bytes = n + witness_bytes msg (length as)"
    using n [OF ws'(1), of "pl_max_gas plan" "pl_max_data plan"] bytes msg count
    by (cases stx) (auto simp: plan_apply_limits)
  moreover have "length encoded = n + witness_bytes msg (length as)"
    using n [OF addresses(1), of "tm_max_gas msg" "tm_max_data msg"] encoded
    by (auto simp: with_limits_self)
  ultimately show "length bytes = unat (pl_envelope_bytes plan)" using encoded(2) by simp
  have "SignedTxMsg_ok stx"
    using ws(1) msg ok by (simp add: SignedTxMsg_ok_def plan_apply_limits with_limits_same)
  then show "deserialize (read_SignedTxMsg nb) bytes = Ok stx"
    using SignedTxMsg_codec.deserialize_serialize [of nb stx] nb bytes by auto
  show "pl_expected_gas_bill plan \<le> tm_max_gas (sm_msg stx)"
    using batch_offer_covers [OF estimate(1)] estimate(2,3) by (simp add: msg plan_apply_def)
qed

text \<open>C4: Planning and signing an unplanned message gives exactly the bytes that were planned for: the
  signed message has the size the fee was computed from, reads back as the message with the planned limits,
  and offers at least the expected bill.\<close>

theorem plan_and_sign_carries_the_plan:
  assumes nb: "num_bigint_api nb" and ok: "TxMsg_ok msg" and unplanned: "tm_max_gas msg = 0"
    and keys: "fits_length (length keys)"
    and wc: "required_witnesses msg = None \<longrightarrow>
      po_witness_count (ps_facts options) \<in> {None, Some (word_of_nat (length keys))}"
    and signed: "plan_and_sign_with_keys depth nb ca msg keys (Some config) options = Ok bytes"
  shows "\<exists>facts plan stx. fill_witness_count msg (length keys) (ps_facts options) = Ok facts \<and>
    plan_fees depth nb msg config facts = Ok plan \<and>
    deserialize (read_SignedTxMsg nb) bytes = Ok stx \<and> sm_msg stx = plan_apply plan msg \<and>
    length bytes = unat (pl_envelope_bytes plan) \<and> pl_expected_gas_bill plan \<le> tm_max_gas (sm_msg stx)"
proof -
  obtain facts plan stx where facts: "fill_witness_count msg (length keys) (ps_facts options) = Ok facts"
    and plan: "plan_fees depth nb msg config facts = Ok plan"
    and stx: "sign_tx_msg_with_keys nb ca (plan_apply plan msg) keys = Ok stx"
    and bytes: "serialize (write_SignedTxMsg nb) stx = Ok bytes"
    using signed unplanned
    by (auto simp: plan_and_sign_with_keys_def sign_and_serialize_tx_msg_with_keys_def bind_result_eq_Ok)
  have "required_witnesses msg = None \<longrightarrow>
      po_witness_count facts = Some (word_of_nat (length keys)) \<and> fits_length (length keys)"
    using facts wc keys
    by (auto simp: fill_witness_count_def length_u32_def bind_result_eq_Ok fits_length_def split: if_splits)
  note carries = signed_plan [OF nb ok plan this sign_with_keys_witnesses_ok(1,3,2) [OF stx keys] bytes]
  show ?thesis
    using facts plan carries sign_with_keys_witnesses_ok(2) [OF stx keys] by blast
qed

section \<open>Burns in a message\<close>

definition burn_count :: "NativeFeePart \<Rightarrow> nat" where
  "burn_count part = (if fp_kind part = FK_BurnNonFungible
     then (case np_count (fp_params part) of None \<Rightarrow> 1 | Some n \<Rightarrow> unat n) else 0)"

definition priced_returns :: "NativeFeePart \<Rightarrow> InfusedAsset list" where
  "priced_returns part = (case np_infusions (fp_params part) of None \<Rightarrow> [] | Some as \<Rightarrow> as)"

lemmas method_numbers =
  MODULE_GOVERNANCE_def MODULE_TOKEN_def TOKEN_TRANSFER_FUNGIBLE_def TOKEN_TRANSFER_NON_FUNGIBLE_def
  TOKEN_CREATE_TOKEN_def TOKEN_MINT_FUNGIBLE_def TOKEN_BURN_FUNGIBLE_def TOKEN_CREATE_TOKEN_SERIES_def
  TOKEN_BURN_NON_FUNGIBLE_def TOKEN_MINT_PHANTASMA_NON_FUNGIBLE_def GOVERNANCE_REGISTER_NAME_def

lemma instance_count_Ok: "instance_count len = Ok n \<Longrightarrow> unat n = len \<and> 0 < len"
  by (auto simp: instance_count_def length_u32_def unat_of_nat split: if_splits dest!: sym [of "word_of_nat _"])

lemma describe_burn_Ok:
  "describe_burn token_id cnt state infusions = Ok part \<longleftrightarrow>
     (\<exists>assets. infusions = Some assets \<and>
        part = \<lparr>fp_kind = FK_BurnNonFungible,
          fp_params = state\<lparr>np_token_id := Some token_id, np_count := Some cnt, np_infusions := Some assets\<rparr>\<rparr>)"
  by (auto simp: describe_burn_def split: option.splits)

text \<open>What a call that is not a burn is priced as.\<close>

lemma describe_call_other:
  assumes "describe_call depth nb call state options infusions = Ok part" and "np_infusions state = None"
    and "carries_sections call \<or> call_module_id call \<noteq> MODULE_TOKEN \<or> call_method_id call \<noteq> TOKEN_BURN_NON_FUNGIBLE"
  shows "fp_kind part \<noteq> FK_BurnNonFungible \<and> np_infusions (fp_params part) = None"
  using assms
  by (auto simp: describe_call_def describe_token_call_def script_part_def bind_result_eq_Ok move_part_def
      describe_transfer_nft_def describe_create_token_def describe_mint_phantasma_def default_fee_params_def Let_def
      split: if_splits)

lemma describe_call_burn:
  assumes "\<not> carries_sections call" "call_module_id call = MODULE_TOKEN" "call_method_id call = TOKEN_BURN_NON_FUNGIBLE"
  shows "describe_call depth nb call state options infusions =
    bind_result (read_call_args ''plan_fees: BurnNonFungible arguments: '' read_BurnNonFungibleArgs call) (\<lambda>args.
      bind_result (instance_count (length (bna_instance_ids args))) (\<lambda>cnt.
        describe_burn (bna_token_id args) cnt state infusions))"
  using assms by (simp add: describe_call_def describe_token_call_def method_numbers)

text \<open>
  The parts of a message agree with the instances it burns: the priced burns count as many
  instances, and the assets the burns return are priced exactly once.
\<close>

definition burns_agree :: "BurnedInstance list \<Rightarrow> InfusedAsset list option \<Rightarrow> NativeFeePart list \<Rightarrow> bool" where
  "burns_agree burned infusions parts \<longleftrightarrow>
     sum_list (map burn_count parts) = length burned \<and>
     concat (map priced_returns parts) = (if burned = [] then [] else the infusions) \<and>
     (burned \<noteq> [] \<longrightarrow> infusions \<noteq> None) \<and>
     (FK_BurnNonFungible \<in> set (map fp_kind parts) \<longrightarrow> burned \<noteq> [])"

lemma describe_call_burns:
  assumes "describe_call depth nb call state options infusions = Ok part" and "np_infusions state = None"
  shows "burns_agree (burned_by_call call) infusions [part] \<and>
    (fp_kind part = FK_BurnNonFungible \<longleftrightarrow> burned_by_call call \<noteq> [])"
proof (cases "carries_sections call \<or> call_module_id call \<noteq> MODULE_TOKEN \<or> call_method_id call \<noteq> TOKEN_BURN_NON_FUNGIBLE")
  case True
  then show ?thesis
    using describe_call_other [OF assms True]
    by (auto simp: burns_agree_def burned_by_call_def burn_count_def priced_returns_def)
next
  case False
  then show ?thesis
    using assms(1)
    by (auto simp: describe_call_burn bind_result_eq_Ok read_call_args_def describe_burn_Ok burned_by_call_def
        burns_agree_def burn_count_def priced_returns_def dest!: instance_count_Ok)
qed

lemma describe_calls_burns:
  assumes "describe_calls depth nb state options calls infusions = Ok parts" and "np_infusions state = None"
  shows "burns_agree (concat (map burned_by_call calls)) infusions parts"
  using assms(1)
proof (induction calls arbitrary: infusions parts)
  case Nil
  then show ?case by (simp add: burns_agree_def)
next
  case (Cons call calls)
  then obtain part rest where part: "describe_call depth nb call state options infusions = Ok part"
    and rest: "describe_calls depth nb state options calls
      (if fp_kind part = FK_BurnNonFungible then Some [] else infusions) = Ok rest" "parts = part # rest"
    by (auto simp: bind_result_eq_Ok)
  show ?case
    using Cons.IH [OF rest(1)] describe_call_burns [OF part assms(2)] rest(2)
    by (cases "burned_by_call call = []") (auto simp: burns_agree_def split: if_splits)
qed

lemma describe_burns:
  assumes "describe depth nb msg options = Ok parts"
  shows "burns_agree (burned_instances msg) (po_infusions options) parts"
proof -
  have state: "np_infusions (plan_state options) = None"
    by (simp add: plan_state_def default_fee_params_def)
  show ?thesis
  proof (cases "tm_msg msg")
    case (TP_Call call)
    then show ?thesis
      using assms describe_call_burns [OF _ state]
      by (auto simp: describe_def one_part_def burned_instances_def bind_result_eq_Ok Let_def)
  next
    case (TP_CallMulti batch)
    then show ?thesis
      using assms describe_calls_burns [OF _ state] by (simp add: describe_def burned_instances_def Let_def)
  qed (use assms state in \<open>auto simp: describe_def one_part_def burned_instances_def bind_result_eq_Ok Let_def
      burns_agree_def burn_count_def priced_returns_def describe_burn_Ok move_part_def describe_transfer_nft_def
      script_part_def default_fee_params_def\<close>)
qed

text \<open>C16: A plan prices exactly the NFT burns a message performs: the burned instances that
  \<open>burned_instances\<close> lists are as many as the priced parts burn, the assets they return are priced once, and no
  burn is planned without a statement of what the instances hold.\<close>

theorem planned_burns_match_the_message:
  assumes "plan_fees depth nb msg config options = Ok plan"
  shows "\<exists>parts. describe depth nb msg options = Ok parts \<and> pl_kinds plan = map fp_kind parts \<and>
    sum_list (map burn_count parts) = length (burned_instances msg) \<and>
    concat (map priced_returns parts) = (if burned_instances msg = [] then [] else the (po_infusions options)) \<and>
    (burned_instances msg \<noteq> [] \<longrightarrow> po_infusions options \<noteq> None)"
proof -
  obtain parts where "describe depth nb msg options = Ok parts" "pl_kinds plan = map fp_kind parts"
    using plan_fees_cases [OF assms] by metis
  then show ?thesis
    using describe_burns [of depth nb msg options parts] by (auto simp: burns_agree_def)
qed


section \<open>Exact plans\<close>

text \<open>\<open>options_more p q\<close>: the options \<open>q\<close> state facts that \<open>p\<close> leaves at their costlier reading.\<close>

definition options_more :: "FeePlanOptions \<Rightarrow> FeePlanOptions \<Rightarrow> bool" where
  "options_more p q \<longleftrightarrow>
     po_witness_count q = po_witness_count p \<and> po_infusions q = po_infusions p \<and>
     po_script_units_allowance q = po_script_units_allowance p \<and>
     po_script_event_bytes q = po_script_event_bytes p \<and>
     po_script_storage_quanta q = po_script_storage_quanta p \<and>
     (po_recipient_holds_token p \<longrightarrow> po_recipient_holds_token q) \<and>
     (po_token_burned_before p \<longrightarrow> po_token_burned_before q) \<and>
     (po_supply_row_exists p \<longrightarrow> po_supply_row_exists q) \<and>
     (unwrap_true (po_big_fungible q) \<longrightarrow> unwrap_true (po_big_fungible p)) \<and>
     (unwrap_true (po_rom_has_meta_id q) \<longrightarrow> unwrap_true (po_rom_has_meta_id p)) \<and>
     (unwrap_true (po_series_has_meta_id q) \<longrightarrow> unwrap_true (po_series_has_meta_id p)) \<and>
     (unwrap_true (po_duplicated_series q) \<longrightarrow> unwrap_true (po_duplicated_series p))"

lemma states_more_refl: "states_more kind p p"
  by (simp add: states_more_def)

lemma states_more_update:
  assumes "states_more kind p q"
  shows "states_more kind (p\<lparr>np_token_id := t\<rparr>) (q\<lparr>np_token_id := t\<rparr>)"
    "states_more kind (p\<lparr>np_count := c\<rparr>) (q\<lparr>np_count := c\<rparr>)"
    "states_more kind (p\<lparr>np_to_is_nft_address := n\<rparr>) (q\<lparr>np_to_is_nft_address := n\<rparr>)"
    "states_more kind (p\<lparr>np_infusions := i\<rparr>) (q\<lparr>np_infusions := i\<rparr>)"
    "states_more kind (p\<lparr>np_rom_bytes := rs\<rparr>) (q\<lparr>np_rom_bytes := rs\<rparr>)"
    "states_more kind (p\<lparr>np_ram_bytes := rs\<rparr>) (q\<lparr>np_ram_bytes := rs\<rparr>)"
    "states_more kind (p\<lparr>np_distinct_series_count := c\<rparr>) (q\<lparr>np_distinct_series_count := c\<rparr>)"
    "(unwrap_true b' \<longrightarrow> unwrap_true b) \<Longrightarrow>
      states_more kind (p\<lparr>np_duplicated_series := b\<rparr>) (q\<lparr>np_duplicated_series := b'\<rparr>)"
    "(unwrap_true b' \<longrightarrow> unwrap_true b) \<Longrightarrow>
      states_more kind (p\<lparr>np_series_has_meta_id := b\<rparr>) (q\<lparr>np_series_has_meta_id := b'\<rparr>)"
  using assms by (cases p; cases q; simp add: states_more_def without_facts_def)+

lemma states_more_state:
  assumes "options_more p q" and "kind = FK_BurnNonFungible \<longrightarrow> po_rom_has_meta_id q = po_rom_has_meta_id p"
  shows "states_more kind (plan_state p) (plan_state q)"
  using assms
  by (simp add: options_more_def states_more_def without_facts_def plan_state_def default_fee_params_def)

lemma script_part_same: "options_more p q \<Longrightarrow> script_part q = script_part p"
  by (simp add: script_part_def options_more_def)

lemma undercuts_if:
  "undercuts R a a' \<Longrightarrow> undercuts R b b' \<Longrightarrow> undercuts R (if c then a else b) (if c then a' else b')"
  by simp

text \<open>The relation between the parts of two readings, when the meta-id fact of burns is the same.\<close>

definition rereads :: "FeePlanOptions \<Rightarrow> FeePlanOptions \<Rightarrow> NativeFeePart \<Rightarrow> NativeFeePart \<Rightarrow> bool" where
  "rereads p q part' part \<longleftrightarrow>
     fp_kind part' = fp_kind part \<and>
     ((fp_kind part = FK_BurnNonFungible \<longrightarrow> po_rom_has_meta_id q = po_rom_has_meta_id p) \<longrightarrow>
       states_more (fp_kind part) (fp_params part) (fp_params part'))"

lemma rereads_same: "rereads p q part part"
  by (simp add: rereads_def states_more_refl)

lemma rereads_state:
  assumes "options_more p q"
    and "\<And>kind. states_more kind (plan_state p) (plan_state q) \<Longrightarrow> states_more kind (f (plan_state p)) (f' (plan_state q))"
  shows "rereads p q \<lparr>fp_kind = kind, fp_params = f' (plan_state q)\<rparr> \<lparr>fp_kind = kind, fp_params = f (plan_state p)\<rparr>"
  using assms states_more_state [OF assms(1), of kind] by (auto simp: rereads_def)

lemma undercuts_mint_call:
  assumes "options_more p q"
  shows "undercuts (rereads p q) (describe_mint_phantasma nb call (plan_state q) q)
    (describe_mint_phantasma nb call (plan_state p) p)"
  unfolding describe_mint_phantasma_def Let_def
  using assms
  by (intro undercuts_bind_same undercuts_Ok rereads_state states_more_update) (simp_all add: options_more_def)

lemma undercuts_burn_call:
  assumes "options_more p q"
  shows "undercuts (rereads p q) (describe_burn t c (plan_state q) infusions) (describe_burn t c (plan_state p) infusions)"
  unfolding describe_burn_def
  by (cases infusions) (auto intro!: undercuts_Ok undercuts_Err rereads_state states_more_update assms)

lemma undercuts_transfer_call:
  assumes "options_more p q"
  shows "undercuts (rereads p q) (describe_transfer_nft (plan_state q) t len dest) (describe_transfer_nft (plan_state p) t len dest)"
  unfolding describe_transfer_nft_def
  by (intro undercuts_bind_same undercuts_Ok rereads_state states_more_update assms)

lemma rereads_move:
  assumes "options_more p q"
  shows "rereads p q (move_part kind (plan_state q) t dest) (move_part kind (plan_state p) t dest)"
  unfolding move_part_def by (intro rereads_state states_more_update assms)

lemma rereads_series:
  assumes "options_more p q"
  shows "rereads p q
    \<lparr>fp_kind = FK_CreateTokenSeries, fp_params = d\<lparr>np_series_has_meta_id := po_series_has_meta_id q\<rparr>\<rparr>
    \<lparr>fp_kind = FK_CreateTokenSeries, fp_params = d\<lparr>np_series_has_meta_id := po_series_has_meta_id p\<rparr>\<rparr>"
  using states_more_update(9) [OF states_more_refl, of "po_series_has_meta_id q" "po_series_has_meta_id p"] assms
  by (simp add: rereads_def options_more_def)

lemma undercuts_describe_call:
  assumes "options_more p q"
  shows "undercuts (rereads p q) (describe_call depth nb call (plan_state q) q infusions)
    (describe_call depth nb call (plan_state p) p infusions)"
  unfolding describe_call_def describe_token_call_def script_part_same [OF assms]
  by (intro undercuts_if undercuts_bind_same undercuts_Ok undercuts_mint_call undercuts_burn_call
      undercuts_transfer_call rereads_move rereads_series rereads_state states_more_update assms rereads_same
      undercuts_same)

lemma undercuts_describe_calls:
  assumes "options_more p q"
  shows "undercuts (list_all2 (rereads p q)) (describe_calls depth nb (plan_state q) q calls infusions)
    (describe_calls depth nb (plan_state p) p calls infusions)"
proof (induction calls arbitrary: infusions)
  case (Cons call calls)
  have "(if fp_kind x = FK_BurnNonFungible then Some [] else infusions) =
      (if fp_kind y = FK_BurnNonFungible then Some [] else infusions)" if "rereads p q x y" for x y
    using that by (simp add: rereads_def)
  then show ?case
    by (auto simp: Cons intro!: undercuts_bind [where R = "rereads p q"] undercuts_describe_call assms
        undercuts_bind [where R = "list_all2 (rereads p q)"] undercuts_Ok simp del: if_cancel split del: if_split)
qed (simp add: undercuts_Ok)

lemma undercuts_one_part: "rereads p q a b \<Longrightarrow> undercuts (list_all2 (rereads p q)) (one_part a) (one_part b)"
  by (simp add: one_part_def undercuts_Ok)

lemma undercuts_describe:
  assumes "options_more p q"
  shows "undercuts (list_all2 (rereads p q)) (describe depth nb msg q) (describe depth nb msg p)"
proof -
  have infusions: "po_infusions q = po_infusions p"
    using assms by (simp add: options_more_def)
  show ?thesis
    unfolding describe_def Let_def infusions script_part_same [OF assms]
    by (cases "tm_msg msg"; simp only: TxPayload.case)
      (intro undercuts_one_part undercuts_bind_same undercuts_bind [OF undercuts_describe_call undercuts_one_part]
        undercuts_bind [OF undercuts_burn_call undercuts_one_part] undercuts_bind [OF undercuts_transfer_call undercuts_one_part]
        undercuts_describe_calls rereads_move rereads_state states_more_update rereads_same undercuts_Err assms; assumption?)+
qed


lemma options_more_cheapest: "options_more options (cheapest_reading options)"
  by (auto simp: options_more_def cheapest_reading_def unwrap_true_def split: option.splits)

lemma describe_more:
  assumes "options_more p q" and "describe depth nb msg p = Ok parts"
    and "burned_instances msg \<noteq> [] \<longrightarrow> po_rom_has_meta_id q = po_rom_has_meta_id p"
  shows "\<exists>parts'. describe depth nb msg q = Ok parts' \<and> batch_states_more parts parts' \<and>
    map fp_kind parts' = map fp_kind parts"
proof -
  obtain parts' where parts': "describe depth nb msg q = Ok parts'" "list_all2 (rereads p q) parts' parts"
    using undercuts_describe [OF assms(1), of depth nb msg] assms(2) by (auto simp: undercuts_def)
  have "fp_kind part = FK_BurnNonFungible \<longrightarrow> po_rom_has_meta_id q = po_rom_has_meta_id p" if "part \<in> set parts" for part
    using describe_burns [OF assms(2)] assms(3) that unfolding burns_agree_def by force
  then have "batch_states_more parts parts'" "map fp_kind parts' = map fp_kind parts"
    using parts'(2) unfolding batch_states_more_def rereads_def
    by (force simp: list_all2_conv_all_nth intro!: nth_equalityI)+
  with parts'(1) show ?thesis by blast
qed

lemma estimate_more:
  assumes "options_more p q" and "describe depth nb msg p = Ok parts"
    and "burned_instances msg \<noteq> [] \<longrightarrow> po_rom_has_meta_id q = po_rom_has_meta_id p"
    and "estimate_native_fee_batch parts config transaction = Ok e"
  obtains parts' e' where "describe depth nb msg q = Ok parts'"
    "estimate_native_fee_batch parts' config transaction = Ok e'" "estimate_le e' e" "map fp_kind parts' = map fp_kind parts"
proof -
  obtain parts' where "describe depth nb msg q = Ok parts'" "batch_states_more parts parts'"
    "map fp_kind parts' = map fp_kind parts"
    using describe_more [OF assms(1-3)] by blast
  then show thesis
    using that undercuts_batch [of parts parts' config transaction] assms(4) by (auto simp: undercuts_def)
qed


section \<open>Samples\<close>

definition unplanned_transfer :: TxMsg where
  "unplanned_transfer = sample_transfer\<lparr>tm_max_gas := 0\<rparr>"

definition unplanned_burn :: TxMsg where
  "unplanned_burn = unplanned_transfer\<lparr>tm_tx_type := TT_BurnNonFungible,
     tm_msg := TP_BurnNonFungible \<lparr>bn_token_id = 7, bn_instance_id = 3\<rparr>\<rparr>"

definition burn_options :: FeePlanOptions where
  "burn_options = default_plan_options\<lparr>po_infusions := Some [], po_rom_has_meta_id := Some True\<rparr>"

definition transfer_model :: OperationModel where
  "transfer_model = default_operation\<lparr>om_work_units := 100\<rparr>"

lemma sample_describe:
  "describe depth nb unplanned_transfer options =
     Ok [move_part FK_TransferFungible (plan_state options) 1 (array_of (replicate 32 3))]"
  "describe depth nb unplanned_burn burn_options =
     Ok [\<lparr>fp_kind = FK_BurnNonFungible,
          fp_params = (plan_state burn_options)\<lparr>np_token_id := Some 7, np_count := Some 1, np_infusions := Some []\<rparr>\<rparr>]"
  by (simp_all add: describe_def unplanned_transfer_def unplanned_burn_def sample_transfer_def one_part_def
      describe_burn_def burn_options_def Let_def)

lemma sample_dest: "is_nft_address (array_of (replicate 32 3)) = False"
  by code_simp

lemma sample_part_models:
  "part_model sample_fee_config (move_part FK_TransferFungible (plan_state options) 1 (array_of (replicate 32 3))) =
     Ok transfer_model"
  "part_model sample_fee_config \<lparr>fp_kind = FK_BurnNonFungible,
     fp_params = (plan_state burn_options)\<lparr>np_token_id := Some 7, np_count := Some 1, np_infusions := Some []\<rparr>\<rparr> =
     Ok (sample_burn_model None)"
  by (simp add: part_model_def move_part_def plan_state_def default_fee_params_def operation_model_def sample_dest
      recipient_row_def is_free_token_def sample_fee_config_def infusion_query_def quantum_def transfer_model_def
      default_operation_def sat_add_def) code_simp

lemma sized_envelope:
  assumes "envelope_addresses msg options = Ok as"
    and "case serialize (write_SignedTxMsg nb) \<lparr>sm_msg = msg, sm_witnesses = map placeholder as\<rparr> of
      Ok bs \<Rightarrow> length bs = n | _ \<Rightarrow> False" and "n < 2 ^ 32"
  shows "envelope_bytes nb msg options = Ok (word_of_nat n)"
  using assms by (auto simp: envelope_bytes_def split: result.splits)

lemma sample_sizes: "envelope_bytes num_bigint_std unplanned_transfer None = Ok (word_of_nat 170)"
  by (rule sized_envelope [where as = "[array_of (replicate 32 7)]"], code_simp, code_simp, simp)

lemma sample_burn_size: "envelope_bytes num_bigint_std unplanned_burn None = Ok (word_of_nat 138)"
  by (rule sized_envelope [where as = "[array_of (replicate 32 7)]"], code_simp, code_simp, simp)

lemma sample_witnesses:
  "required_witnesses unplanned_transfer = Some [array_of (replicate 32 7)]"
  "required_witnesses unplanned_burn = Some [array_of (replicate 32 7)]"
  by code_simp+

lemma sample_plan_settlements:
  "settle [transfer_model] sample_fee_config \<lparr>nt_envelope_bytes = 170, nt_payload_bytes = 0\<rparr> =
     Ok (sample_estimate 43500000 0 0 0)"
  "settle [sample_burn_model None] sample_fee_config \<lparr>nt_envelope_bytes = 138, nt_payload_bytes = 0\<rparr> =
     Ok (sample_estimate 35700000 2000 2 4)"
  by code_simp+

definition sample_plan :: FeePlan where
  "sample_plan = \<lparr>pl_kinds = [FK_TransferFungible], pl_exact = True, pl_envelope_bytes = 170, pl_max_gas = 43500000,
     pl_max_data = 0, pl_expected_gas_bill = 43500000, pl_new_storage_quanta = 0, pl_deleted_storage_quanta = 0\<rparr>"

lemma sample_plan_is:
  assumes "po_witness_count options = None"
  shows "plan_fees depth num_bigint_std unplanned_transfer sample_fee_config options = Ok sample_plan"
  using assms
  by (simp add: plan_fees_def sample_describe sample_sizes estimate_native_fee_batch_def sample_part_models
      sample_plan_settlements assumptions_mattered_def sample_plan_def sample_estimate_def sample_witnesses)
    (simp add: move_part_def)


lemma burn_options_rom: "po_rom_has_meta_id (cheapest_reading burn_options) = po_rom_has_meta_id burn_options"
  by (simp add: burn_options_def cheapest_reading_def)

lemma sample_burn_plan_is:
  "\<exists>plan. plan_fees depth num_bigint_std unplanned_burn sample_fee_config burn_options = Ok plan"
proof -
  have "po_witness_count burn_options = None"
    by (simp add: burn_options_def default_plan_options_def)
  then obtain e where "estimate_native_fee_batch
     [\<lparr>fp_kind = FK_BurnNonFungible,
          fp_params = (plan_state burn_options)\<lparr>np_token_id := Some 7, np_count := Some 1, np_infusions := Some []\<rparr>\<rparr>]
       sample_fee_config \<lparr>nt_envelope_bytes = 138, nt_payload_bytes = 0\<rparr> = Ok e"
    by (simp add: estimate_native_fee_batch_def sample_part_models sample_plan_settlements)
  moreover from this obtain parts' e' where
    "describe depth num_bigint_std unplanned_burn (cheapest_reading burn_options) = Ok parts'"
    "estimate_native_fee_batch parts' sample_fee_config \<lparr>nt_envelope_bytes = 138, nt_payload_bytes = 0\<rparr> = Ok e'"
    using estimate_more [OF options_more_cheapest sample_describe(2)]
    by (metis burn_options_rom)
  ultimately show ?thesis
    using \<open>po_witness_count burn_options = None\<close>
    by (simp add: plan_fees_def sample_describe sample_burn_size sample_witnesses assumptions_mattered_def)
qed

theorem plan_and_sign_carries_the_plan_witness:
  "\<exists>bytes stx. plan_and_sign_with_keys 4 num_bigint_std crypto_model unplanned_transfer [sample_keys]
      (Some sample_fee_config) \<lparr>ps_facts = default_plan_options, ps_limits = \<lparr>lim_max_gas = 0, lim_max_data = 0, lim_expiry = 0\<rparr>\<rparr>
      = Ok bytes \<and>
    deserialize (read_SignedTxMsg num_bigint_std) bytes = Ok stx \<and> tm_max_gas (sm_msg stx) = 43500000 \<and>
    length bytes = 170"
proof -
  have none: "po_witness_count default_plan_options = None"
    by (simp add: default_plan_options_def)
  have unplanned: "tm_max_gas unplanned_transfer = 0"
    by (simp add: unplanned_transfer_def)
  have "case sign_and_serialize_tx_msg_with_keys num_bigint_std crypto_model (plan_apply sample_plan unplanned_transfer)
      [sample_keys] of Ok _ \<Rightarrow> True | _ \<Rightarrow> False"
    by code_simp
  then obtain bytes where bytes: "plan_and_sign_with_keys 4 num_bigint_std crypto_model unplanned_transfer [sample_keys]
      (Some sample_fee_config) \<lparr>ps_facts = default_plan_options, ps_limits = \<lparr>lim_max_gas = 0, lim_max_data = 0, lim_expiry = 0\<rparr>\<rparr>
      = Ok bytes"
    using sample_plan_is [OF none, of 4] unplanned
    by (auto simp: plan_and_sign_with_keys_def fill_witness_count_def sample_witnesses split: result.splits)
  have "TxMsg_ok unplanned_transfer" "tm_max_gas unplanned_transfer = 0" "fits_length (length [sample_keys])"
    using sample_transfer_ok by (simp_all add: unplanned_transfer_def TxMsg_ok_def fits_length_def)
  from plan_and_sign_carries_the_plan [OF num_bigint_std.num_bigint_api_axioms this _ bytes] bytes
  show ?thesis
    using sample_plan_is [OF none, of 4]
    by (auto simp: sample_witnesses fill_witness_count_def plan_apply_def sample_plan_def)
qed

theorem planned_burns_match_the_message_witness:
  "length (burned_instances unplanned_burn) = 1 \<and>
   (\<exists>parts. describe 4 num_bigint_std unplanned_burn burn_options = Ok parts \<and> sum_list (map burn_count parts) = 1)"
proof -
  obtain plan where "plan_fees 4 num_bigint_std unplanned_burn sample_fee_config burn_options = Ok plan"
    using sample_burn_plan_is by blast
  from planned_burns_match_the_message [OF this] show ?thesis
    by (auto simp: burned_instances_def unplanned_burn_def)
qed


end
