(* ===== verification/VmTransaction.thy ===== *)
theory VmTransaction
  imports Crypto "HOL-Library.Monad_Syntax"
begin

text \<open>
  VM script transactions (\<open>src/src/transaction.rs\<close>): byte image, parsing, signing and
  the local proof-of-work loop, which is a \<open>partial_function\<close> because it may not end.
\<close>

section \<open>Transaction\<close>

record Transaction =
  nexus_name :: rstring
  chain_name :: rstring
  script :: bytes
  expiration :: u32
  payload :: bytes
  signatures :: "Ed25519Signature list"

text \<open>The payload of a new transaction names the crate version, a build-time constant.\<close>

definition Transaction_new :: "bytes \<Rightarrow> rstring \<Rightarrow> rstring \<Rightarrow> bytes \<Rightarrow> u32 \<Rightarrow> Transaction" where
  "Transaction_new sdk_payload nexus chain scr expiry =
     \<lparr>nexus_name = nexus, chain_name = chain, script = scr, expiration = expiry,
      payload = sdk_payload, signatures = []\<rparr>"

definition with_payload :: "Transaction \<Rightarrow> bytes \<Rightarrow> Transaction" where
  "with_payload tx p = tx\<lparr>payload := p\<rparr>"

definition write_signature :: "Ed25519Signature \<Rightarrow> wr_action" where
  "write_signature s = wr_seq [write_u8 (signature_kind s), write_var_bytes (array_bytes (sig_data s))]"

definition write_transaction :: "bool \<Rightarrow> Transaction \<Rightarrow> wr_action" where
  "write_transaction with_signatures tx =
     wr_seq
       ([write_string (nexus_name tx), write_string (chain_name tx), write_var_bytes (script tx),
         write_u32_le (expiration tx), write_var_bytes (payload tx)] @
        (if with_signatures
         then [write_var_uint (word_of_nat (length (signatures tx))), wr_for (signatures tx) write_signature]
         else []))"

definition to_bytes :: "bool \<Rightarrow> Transaction \<Rightarrow> bytes" where
  "to_bytes with_signatures tx = wr_run (write_transaction with_signatures tx)"

definition transaction_hash :: "crypto_api \<Rightarrow> Transaction \<Rightarrow> Hash" where
  "transaction_hash ca tx = sha256 ca (to_bytes False tx)"

definition read_signature :: "Ed25519Signature reader" where
  "read_signature =
     rd_bind read_u8 (\<lambda>kind.
       if kind \<noteq> 1 then rd_fail (Serialization ''unsupported signature kind: '')
       else rd_bind (read_var_bytes MAX_ARRAY_SIZE) (\<lambda>raw r.
         bind_result (Ed25519Signature_try_from_slice raw) (\<lambda>s. Ok (s, r))))"

definition read_transaction :: "Transaction reader" where
  "read_transaction =
     rd_bind read_string (\<lambda>nexus.
     rd_bind read_string (\<lambda>chain.
     rd_bind (read_var_bytes MAX_ARRAY_SIZE) (\<lambda>scr.
     rd_bind read_u32_le (\<lambda>expiry.
     rd_bind (read_var_bytes MAX_ARRAY_SIZE) (\<lambda>p.
     rd_bind read_var_uint (\<lambda>count.
     rd_bind (rd_repeat (unat count) read_signature) (\<lambda>sigs.
       rd_return \<lparr>nexus_name = nexus, chain_name = chain, script = scr, expiration = expiry,
                   payload = p, signatures = sigs\<rparr>)))))))"

definition from_bytes :: "bytes \<Rightarrow> Transaction result" where
  "from_bytes data =
     bind_result (read_transaction \<lparr>rd_data = data, rd_offset = 0\<rparr>) (\<lambda>(tx, r).
     bind_result (vm_assert_eof r) (\<lambda>_. Ok tx))"

definition tx_sign :: "crypto_api \<Rightarrow> PhantasmaKeys \<Rightarrow> Transaction \<Rightarrow> Ed25519Signature \<times> Transaction" where
  "tx_sign ca k tx =
     (let s = keys_sign ca k (to_bytes False tx)
      in (s, tx\<lparr>signatures := signatures tx @ [s]\<rparr>))"

definition is_signed_by :: "crypto_api \<Rightarrow> Transaction \<Rightarrow> PhantasmaKeys \<Rightarrow> bool result" where
  "is_signed_by ca tx k =
     bind_result (keys_address ca k) (\<lambda>address.
       Ok (list_ex (\<lambda>s. verify ca s (to_bytes False tx) [address]) (signatures tx)))"

text \<open>The loop of \<open>mine\<close> with the nonce as its state; \<open>None\<close> is an endless loop.\<close>

partial_function (option) mine_loop ::
    "(Transaction \<Rightarrow> nat) \<Rightarrow> nat \<Rightarrow> u32 \<Rightarrow> Transaction \<Rightarrow> Transaction option" where
  "mine_loop diff target nonce tx =
     (if diff tx < target
      then mine_loop diff target (nonce + 1) (tx\<lparr>payload := to_le_bytes (nonce + 1)\<rparr>)
      else Some tx)"

definition mine :: "crypto_api \<Rightarrow> u32 \<Rightarrow> Transaction \<Rightarrow> Transaction option" where
  "mine ca target tx =
     (if target = 0 then Some tx
      else mine_loop (\<lambda>t. difficulty (transaction_hash ca t)) (unat target) 0 tx)"

definition tx_state_is_success :: "rstring \<Rightarrow> bool" where
  "tx_state_is_success state = eq_ignore_ascii_case state (lit ''HALT'')"

definition tx_state_is_fault :: "rstring \<Rightarrow> bool" where
  "tx_state_is_fault state =
     (eq_ignore_ascii_case state (lit ''FAULT'') \<or> eq_ignore_ascii_case state (lit ''BREAK''))"

section \<open>The byte image reads back\<close>

definition Transaction_ok :: "Transaction \<Rightarrow> bool" where
  "Transaction_ok tx =
     (length (string_bytes (nexus_name tx)) \<le> MAX_ARRAY_SIZE
      \<and> length (string_bytes (chain_name tx)) \<le> MAX_ARRAY_SIZE
      \<and> length (script tx) \<le> MAX_ARRAY_SIZE \<and> length (payload tx) \<le> MAX_ARRAY_SIZE
      \<and> length (signatures tx) < 2 ^ 64)"

lemma max_array_below: "n \<le> MAX_ARRAY_SIZE \<Longrightarrow> n < 2 ^ 64"
  by (simp add: MAX_ARRAY_SIZE_def)

lemma signature_round_trip [codec_intros]: "round_trip1 (write_signature s) read_signature s"
proof -
  have len: "length (array_bytes (sig_data s)) \<le> MAX_ARRAY_SIZE" by (simp add: MAX_ARRAY_SIZE_def)
  have "round_trip (wr_seq [write_var_bytes (array_bytes (sig_data s))])
      (rd_bind (read_var_bytes MAX_ARRAY_SIZE) (\<lambda>raw r.
         bind_result (Ed25519Signature_try_from_slice raw) (\<lambda>s. Ok (s, r)))) s"
    by (rule round_trip_cons [OF var_bytes_round_trip [OF len max_array_below [OF len]]])
       (auto simp: round_trip_def parses_def Ed25519Signature_try_from_slice_def)
  then show ?thesis
    unfolding write_signature_def read_signature_def
    by (intro round_trip1_cons [OF u8_round_trip]) (simp add: signature_kind_def)
qed

lemma signatures_round_trip:
  "round_trip (wr_for ss write_signature) (rd_repeat (length ss) read_signature) ss"
proof -
  have "\<exists>bs. writes (write_signature s) bs \<and> parses read_signature bs s" for s
    using signature_round_trip [of s] by (auto simp: round_trip1_def)
  then obtain enc where "\<And>s. writes (write_signature s) (enc s) \<and> parses read_signature (enc s) s"
    by metis
  then have "writes (wr_for ss write_signature) (concat (map enc ss))"
    "parses (rd_repeat (length ss) read_signature) (concat (map enc ss)) ss"
    by (auto intro: writes_for parses_repeat)
  then show ?thesis by (auto simp: round_trip_def)
qed

lemma transaction_round_trip:
  assumes "Transaction_ok tx"
  shows "round_trip1 (write_transaction True tx) read_transaction tx"
proof -
  note ok = assms [unfolded Transaction_ok_def]
  have tail: "round_trip (wr_seq [wr_for (signatures tx) write_signature])
      (rd_bind (rd_repeat (unat (word_of_nat (length (signatures tx)) :: u64)) read_signature) f) v"
    if "f (signatures tx) = rd_return u" "u = v" for f and u v :: Transaction
    using ok that round_trip_cons0 [OF signatures_round_trip, of "[]" f "signatures tx" v]
    by (simp add: unat_word_of_length round_trip_nil)
  show ?thesis
    using ok unfolding write_transaction_def read_transaction_def if_True append.simps
    by - (rule tail refl round_trip_struct codec_intros | (simp add: MAX_ARRAY_SIZE_def; fail))+
qed

lemma wr_run_writes: "writes a bs \<Longrightarrow> wr_run a = bs"
  by (simp add: wr_run_def writes_def)

lemma read_signature_safe [safe_intros]: "safe_reader read_signature"
proof -
  have "safe_reader (\<lambda>r. bind_result (Ed25519Signature_try_from_slice raw) (\<lambda>s. Ok (s, r)))" for raw
    by (rule safe_readerI)
       (auto simp: Ed25519Signature_try_from_slice_def settled_def advances_refl split: if_split_asm)
  then show ?thesis unfolding read_signature_def by (intro safe_intros)
qed

lemma read_transaction_safe: "safe_reader read_transaction"
  unfolding read_transaction_def by (intro safe_intros)

section \<open>Properties\<close>

text \<open>C22: A VM script transaction survives \<open>to_bytes(true)\<close> followed by \<open>from_bytes\<close>, with every
  field and signature, as long as its strings and byte arrays stay below the reader's
  bound of 16 MiB.\<close>

theorem transaction_bytes_round_trip:
  assumes "Transaction_ok tx"
  shows "from_bytes (to_bytes True tx) = Ok tx"
proof -
  obtain bs where "writes (write_transaction True tx) bs" "parses read_transaction bs tx"
    using transaction_round_trip [OF assms] by (auto simp: round_trip1_def)
  then show ?thesis
    using parses_start [of read_transaction bs tx]
    by (simp add: from_bytes_def to_bytes_def wr_run_writes reader_at_def vm_assert_eof_def
        slice_assert_eof_def remaining_def)
qed

definition sample_tx :: Transaction where
  "sample_tx = \<lparr>nexus_name = lit ''testnet'', chain_name = lit ''main'', script = [1, 2, 3],
     expiration = 7, payload = [9], signatures = [Ed25519Signature (array_of (replicate 64 5))]\<rparr>"

lemma length_lit_le: "length (string_bytes (lit s)) \<le> length s"
  by (simp add: lit_def)

lemma sample_tx_ok: "Transaction_ok sample_tx"
  using length_lit_le [of "''testnet''"] length_lit_le [of "''main''"]
  by (simp add: Transaction_ok_def sample_tx_def MAX_ARRAY_SIZE_def)

theorem transaction_bytes_round_trip_witness:
  "from_bytes (to_bytes True sample_tx) = Ok sample_tx"
  by (rule transaction_bytes_round_trip) (rule sample_tx_ok)

text \<open>Parsing a VM transaction never panics, whatever the bytes.\<close>

theorem from_bytes_never_panics: "\<not> panics (from_bytes data)"
proof -
  have "reader_wf \<lparr>rd_data = data, rd_offset = 0\<rparr>" by (simp add: reader_wf_def)
  with read_transaction_safe have "\<not> panics (read_transaction \<lparr>rd_data = data, rd_offset = 0\<rparr>)"
    by (rule safe_readerD)
  then show ?thesis
    by (auto simp: from_bytes_def panics_bind vm_assert_eof_def slice_assert_eof_def)
qed

text \<open>The bytes that are signed do not depend on the signatures.\<close>

lemma to_bytes_unsigned [simp]: "to_bytes False (tx\<lparr>signatures := ss\<rparr>) = to_bytes False tx"
  by (simp add: to_bytes_def write_transaction_def)

text \<open>After a key signs a transaction, the transaction is signed by that key, and every key
  that had signed it before still has.\<close>

theorem sign_is_signed_by:
  assumes "ed25519_correct ca"
  shows "is_signed_by ca (snd (tx_sign ca k tx)) k = Ok True \<and>
    (is_signed_by ca tx k' = Ok True \<longrightarrow> is_signed_by ca (snd (tx_sign ca k tx)) k' = Ok True)"
proof (intro conjI impI)
  obtain a where a: "keys_address ca k = Ok a" by (simp add: keys_address_Ok)
  from signature_verifies [OF assms a, of "[a]"]
  show "is_signed_by ca (snd (tx_sign ca k tx)) k = Ok True"
    by (simp add: is_signed_by_def a tx_sign_def Let_def)
  show "is_signed_by ca (snd (tx_sign ca k tx)) k' = Ok True" if "is_signed_by ca tx k' = Ok True"
    using that by (auto simp: is_signed_by_def tx_sign_def Let_def keys_address_Ok)
qed

theorem sign_is_signed_by_witness:
  "is_signed_by crypto_model (snd (tx_sign crypto_model (PhantasmaKeys (array_of (replicate 32 7))) sample_tx))
     (PhantasmaKeys (array_of (replicate 32 7))) = Ok True"
  using sign_is_signed_by [OF crypto_model_correct(2)] by blast

section \<open>Mining\<close>

lemma mine_loop_result:
  assumes "mine_loop diff target nonce tx = Some tx'"
  shows "target \<le> diff tx' \<and> (\<exists>p. tx' = tx\<lparr>payload := p\<rparr>)"
proof (rule mine_loop.raw_induct [OF _ assms, where P = "\<lambda>diff target nonce tx tx'.
    target \<le> diff tx' \<and> (\<exists>p. tx' = tx\<lparr>payload := p\<rparr>)"])
  fix rec and diff :: "Transaction \<Rightarrow> nat" and target nonce and tx tx' :: Transaction
  assume IH: "\<And>diff target nonce tx tx'. rec diff target nonce tx = Some tx' \<Longrightarrow>
      target \<le> diff tx' \<and> (\<exists>p. tx' = tx\<lparr>payload := p\<rparr>)"
    and step: "(if diff tx < target
      then rec diff target (nonce + 1) (tx\<lparr>payload := to_le_bytes (nonce + 1)\<rparr>) else Some tx) = Some tx'"
  show "target \<le> diff tx' \<and> (\<exists>p. tx' = tx\<lparr>payload := p\<rparr>)"
  proof (cases "diff tx < target")
    case True
    with IH step show ?thesis by fastforce
  next
    case False
    with step have "tx' = tx" by simp
    with False show ?thesis by (intro conjI exI [of _ "payload tx"]) simp_all
  qed
qed

text \<open>If some later nonce meets the target, the loop reaches one that does.\<close>

lemma mine_loop_returns:
  assumes "target \<le> diff (tx\<lparr>payload := to_le_bytes (nonce + word_of_nat n)\<rparr>)" "0 < n"
  shows "\<exists>tx'. mine_loop diff target nonce tx = Some tx'"
  using assms
proof (induction n arbitrary: nonce tx)
  case (Suc n)
  show ?case
  proof (cases "diff tx < target")
    case False
    then show ?thesis by (simp add: mine_loop.simps [of diff target nonce tx])
  next
    case True
    let ?tx = "tx\<lparr>payload := to_le_bytes (nonce + 1)\<rparr>"
    have "\<exists>tx'. mine_loop diff target (nonce + 1) ?tx = Some tx'"
    proof (cases "n = 0")
      case True
      with Suc.prems have "\<not> diff ?tx < target" by simp
      then show ?thesis by (simp add: mine_loop.simps [of diff target "nonce + 1"])
    next
      case False
      with Suc show ?thesis by (simp add: add.assoc)
    qed
    with True show ?thesis by (simp add: mine_loop.simps [of diff target nonce tx])
  qed
qed simp

text \<open>C30: When mining returns, the hash of the transaction has at least the requested
  difficulty and only the payload has changed; and mining does return whenever the
  transaction already has the difficulty or some nonce gives it.\<close>

theorem mine_correct:
  "(mine ca target tx = Some tx' \<longrightarrow>
      unat target \<le> difficulty (transaction_hash ca tx') \<and> (\<exists>p. tx' = tx\<lparr>payload := p\<rparr>)) \<and>
   (unat target \<le> difficulty (transaction_hash ca (tx\<lparr>payload := to_le_bytes (nonce :: u32)\<rparr>)) \<longrightarrow>
      (\<exists>tx'. mine ca target tx = Some tx'))"
proof (intro conjI [of "_ \<longrightarrow> _"] impI)
  show "unat target \<le> difficulty (transaction_hash ca tx') \<and> (\<exists>p. tx' = tx\<lparr>payload := p\<rparr>)"
    if "mine ca target tx = Some tx'"
  proof (cases "target = 0")
    case True
    with that have "tx' = tx" by (simp add: mine_def)
    with True show ?thesis by (intro conjI exI [of _ "payload tx"]) simp_all
  next
    case False
    with that mine_loop_result show ?thesis by (fastforce simp: mine_def)
  qed
  let ?diff = "\<lambda>t. difficulty (transaction_hash ca t)"
  assume meets: "unat target \<le> ?diff (tx\<lparr>payload := to_le_bytes nonce\<rparr>)"
  define n where "n = (if nonce = 0 then 2 ^ 32 else unat nonce)"
  have n: "0 < n" "(word_of_nat n :: u32) = nonce" by (simp_all add: n_def unat_gt_0)
  from n meets have "unat target \<le> ?diff (tx\<lparr>payload := to_le_bytes (0 + word_of_nat n :: u32)\<rparr>)" by simp
  from mine_loop_returns [where diff = ?diff and nonce = 0, OF this n(1)] show "\<exists>tx'. mine ca target tx = Some tx'"
    by (simp add: mine_def)
qed

theorem mine_correct_witness:
  "\<exists>tx'. mine crypto_model 1 (sample_tx\<lparr>nexus_name := lit ''''\<rparr>) = Some tx'"
  by (rule mine_correct [where nonce = 1, THEN conjunct2, THEN mp]) code_simp

end
