(* ===== verification/VmScript.thy ===== *)
theory VmScript
  imports Crypto Decimals
begin

text \<open>
  VM scripts (\<open>src/src/vm.rs\<close>): the opcodes, the arguments of a call and \<open>ScriptBuilder\<close>. A builder
  is a record that every method returns updated; an invalid operation stores its first error and
  \<open>end_script\<close> reports it. Jumps and calls reserve two bytes that \<open>to_script\<close> patches with the
  location of their label.
\<close>

section \<open>Opcodes and types\<close>

datatype (plugins only: code) Opcode =
    OP_Nop | OP_Move | OP_Copy | OP_Push | OP_Pop | OP_Swap | OP_Call | OP_ExtCall | OP_Jmp
  | OP_JmpIf | OP_JmpNot | OP_Ret | OP_Throw | OP_Load | OP_Cast | OP_Cat | OP_Range | OP_Left
  | OP_Right | OP_Size | OP_Count | OP_Not | OP_And | OP_Or | OP_Xor | OP_Equal | OP_Lt | OP_Gt
  | OP_Lte | OP_Gte | OP_Inc | OP_Dec | OP_Sign | OP_Negate | OP_Abs | OP_Add | OP_Sub | OP_Mul
  | OP_Div | OP_Mod | OP_Shl | OP_Shr | OP_Min | OP_Max | OP_Pow | OP_Ctx | OP_Switch | OP_Put
  | OP_Get | OP_Clear | OP_Unpack | OP_Pack | OP_Debug | OP_Substr | OP_Remove | OP_Evm

primrec opcode_byte :: "Opcode \<Rightarrow> u8" where
  "opcode_byte OP_Nop = 0"
| "opcode_byte OP_Move = 1"
| "opcode_byte OP_Copy = 2"
| "opcode_byte OP_Push = 3"
| "opcode_byte OP_Pop = 4"
| "opcode_byte OP_Swap = 5"
| "opcode_byte OP_Call = 6"
| "opcode_byte OP_ExtCall = 7"
| "opcode_byte OP_Jmp = 8"
| "opcode_byte OP_JmpIf = 9"
| "opcode_byte OP_JmpNot = 10"
| "opcode_byte OP_Ret = 11"
| "opcode_byte OP_Throw = 12"
| "opcode_byte OP_Load = 13"
| "opcode_byte OP_Cast = 14"
| "opcode_byte OP_Cat = 15"
| "opcode_byte OP_Range = 16"
| "opcode_byte OP_Left = 17"
| "opcode_byte OP_Right = 18"
| "opcode_byte OP_Size = 19"
| "opcode_byte OP_Count = 20"
| "opcode_byte OP_Not = 21"
| "opcode_byte OP_And = 22"
| "opcode_byte OP_Or = 23"
| "opcode_byte OP_Xor = 24"
| "opcode_byte OP_Equal = 25"
| "opcode_byte OP_Lt = 26"
| "opcode_byte OP_Gt = 27"
| "opcode_byte OP_Lte = 28"
| "opcode_byte OP_Gte = 29"
| "opcode_byte OP_Inc = 30"
| "opcode_byte OP_Dec = 31"
| "opcode_byte OP_Sign = 32"
| "opcode_byte OP_Negate = 33"
| "opcode_byte OP_Abs = 34"
| "opcode_byte OP_Add = 35"
| "opcode_byte OP_Sub = 36"
| "opcode_byte OP_Mul = 37"
| "opcode_byte OP_Div = 38"
| "opcode_byte OP_Mod = 39"
| "opcode_byte OP_Shl = 40"
| "opcode_byte OP_Shr = 41"
| "opcode_byte OP_Min = 42"
| "opcode_byte OP_Max = 43"
| "opcode_byte OP_Pow = 44"
| "opcode_byte OP_Ctx = 45"
| "opcode_byte OP_Switch = 46"
| "opcode_byte OP_Put = 47"
| "opcode_byte OP_Get = 48"
| "opcode_byte OP_Clear = 49"
| "opcode_byte OP_Unpack = 50"
| "opcode_byte OP_Pack = 51"
| "opcode_byte OP_Debug = 52"
| "opcode_byte OP_Substr = 53"
| "opcode_byte OP_Remove = 54"
| "opcode_byte OP_Evm = 255"

text \<open>The object types of the VM; \<open>VMType as u8\<close>.\<close>

datatype VMType_vm =
    VM_None | VM_Struct | VM_Bytes | VM_Number | VM_String | VM_Timestamp | VM_Bool | VM_Enum | VM_Object

primrec vm_type_byte :: "VMType_vm \<Rightarrow> u8" where
  "vm_type_byte VM_None = 0"
| "vm_type_byte VM_Struct = 1"
| "vm_type_byte VM_Bytes = 2"
| "vm_type_byte VM_Number = 3"
| "vm_type_byte VM_String = 4"
| "vm_type_byte VM_Timestamp = 5"
| "vm_type_byte VM_Bool = 6"
| "vm_type_byte VM_Enum = 7"
| "vm_type_byte VM_Object = 8"

datatype ScriptArg =
    SA_Address Address
  | SA_String rstring
  | SA_Bool bool
  | SA_Bytes bytes
  | SA_Number int
  | SA_Timestamp u64
  | SA_Array "ScriptArg list"

section \<open>The builder\<close>

record ScriptBuilder =
  sb_writer :: bytes
  sb_jump_locations :: "(nat \<times> rstring) list"
  sb_label_locations :: "(rstring \<times> nat) list"
  sb_call_offsets :: "nat set"
  sb_error :: "phantasma_error option"

definition ScriptBuilder_new :: ScriptBuilder where
  "ScriptBuilder_new =
     \<lparr>sb_writer = [], sb_jump_locations = [], sb_label_locations = [], sb_call_offsets = {}, sb_error = None\<rparr>"

definition MAX_REGISTER_COUNT :: u8 where "MAX_REGISTER_COUNT = 32"
definition MAX_JUMP_TARGET :: int where "MAX_JUMP_TARGET = 32767"
definition MAX_CALL_TARGET :: int where "MAX_CALL_TARGET = 65535"

definition current_size :: "ScriptBuilder \<Rightarrow> nat" where
  "current_size b = length (sb_writer b)"

definition sb_write :: "wr_action \<Rightarrow> ScriptBuilder \<Rightarrow> ScriptBuilder" where
  "sb_write a b = b\<lparr>sb_writer := sb_writer b @ wr_run a\<rparr>"

definition sb_byte :: "u8 \<Rightarrow> ScriptBuilder \<Rightarrow> ScriptBuilder" where
  "sb_byte v = sb_write (write_u8 v)"

definition sb_fail :: "string \<Rightarrow> ScriptBuilder \<Rightarrow> ScriptBuilder" where
  "sb_fail message b = (if sb_error b = None then b\<lparr>sb_error := Some (Builder message)\<rparr> else b)"

definition emit :: "Opcode \<Rightarrow> ScriptBuilder \<Rightarrow> ScriptBuilder" where
  "emit opcode = sb_write (write_u8 (opcode_byte opcode))"

definition emit_raw :: "bytes \<Rightarrow> ScriptBuilder \<Rightarrow> ScriptBuilder" where
  "emit_raw data = sb_write (vm_write data)"

definition emit_push :: "u8 \<Rightarrow> ScriptBuilder \<Rightarrow> ScriptBuilder" where
  "emit_push reg b = sb_byte reg (emit OP_Push b)"

definition emit_pop :: "u8 \<Rightarrow> ScriptBuilder \<Rightarrow> ScriptBuilder" where
  "emit_pop reg b = sb_byte reg (emit OP_Pop b)"

definition emit_throw :: "u8 \<Rightarrow> ScriptBuilder \<Rightarrow> ScriptBuilder" where
  "emit_throw reg b = sb_byte reg (emit OP_Throw b)"

definition emit_load :: "u8 \<Rightarrow> bytes \<Rightarrow> VMType_vm \<Rightarrow> ScriptBuilder \<Rightarrow> ScriptBuilder" where
  "emit_load reg raw vm_type b =
     (if int (length raw) > 0xFFFF then sb_fail ''tried to load too much data: '' b
      else sb_write (vm_write raw) (sb_write (write_var_uint (word_of_nat (length raw)))
             (sb_byte (vm_type_byte vm_type) (sb_byte reg (emit OP_Load b)))))"

definition emit_load_string :: "u8 \<Rightarrow> rstring \<Rightarrow> ScriptBuilder \<Rightarrow> ScriptBuilder" where
  "emit_load_string reg v = emit_load reg (string_bytes v) VM_String"

definition emit_load_bool :: "u8 \<Rightarrow> bool \<Rightarrow> ScriptBuilder \<Rightarrow> ScriptBuilder" where
  "emit_load_bool reg v = emit_load reg [of_bool v] VM_Bool"

definition emit_load_number :: "num_bigint \<Rightarrow> u8 \<Rightarrow> int \<Rightarrow> ScriptBuilder \<Rightarrow> ScriptBuilder" where
  "emit_load_number nb reg v = emit_load reg (big_int_to_csharp_bytes nb v) VM_Number"

definition emit_load_timestamp :: "u8 \<Rightarrow> u64 \<Rightarrow> ScriptBuilder \<Rightarrow> ScriptBuilder" where
  "emit_load_timestamp reg unix_seconds b =
     (if unix_seconds \<le> 0xFFFFFFFF then emit_load reg (to_le_bytes (ucast unix_seconds :: u32)) VM_Timestamp b
      else sb_fail ''timestamp out of VM uint32 range: '' b)"

definition emit_load_time :: "u8 \<Rightarrow> u64 \<Rightarrow> ScriptBuilder \<Rightarrow> ScriptBuilder" where
  "emit_load_time = emit_load_timestamp"

definition emit_ext_call :: "rstring \<Rightarrow> u8 \<Rightarrow> ScriptBuilder \<Rightarrow> ScriptBuilder" where
  "emit_ext_call method reg b = sb_byte reg (emit OP_ExtCall (emit_load_string reg method b))"

definition emit_move :: "u8 \<Rightarrow> u8 \<Rightarrow> ScriptBuilder \<Rightarrow> ScriptBuilder" where
  "emit_move src_reg dst_reg b = sb_byte dst_reg (sb_byte src_reg (emit OP_Move b))"

definition emit_copy :: "u8 \<Rightarrow> u8 \<Rightarrow> ScriptBuilder \<Rightarrow> ScriptBuilder" where
  "emit_copy src_reg dst_reg b = sb_byte dst_reg (sb_byte src_reg (emit OP_Copy b))"

definition emit_label :: "rstring \<Rightarrow> ScriptBuilder \<Rightarrow> ScriptBuilder" where
  "emit_label label b =
     (let b = emit OP_Nop b
      in b\<lparr>sb_label_locations := btree_insert (to_ascii_lowercase label) (current_size b) (sb_label_locations b)\<rparr>)"

text \<open>The two reserved bytes of a jump or call.\<close>

definition reserve_target :: "rstring \<Rightarrow> ScriptBuilder \<Rightarrow> ScriptBuilder" where
  "reserve_target label b =
     (sb_write (write_u16_le 0) b)\<lparr>sb_jump_locations := btree_insert (current_size b) label (sb_jump_locations b)\<rparr>"

definition emit_jump :: "Opcode \<Rightarrow> rstring \<Rightarrow> u8 \<Rightarrow> ScriptBuilder \<Rightarrow> ScriptBuilder" where
  "emit_jump opcode label reg b =
     (if opcode \<notin> {OP_Jmp, OP_JmpIf, OP_JmpNot} then sb_fail ''invalid jump opcode: '' b
      else let b = emit opcode b;
               b = (if opcode \<noteq> OP_Jmp then sb_byte reg b else b)
        in reserve_target label b)"

definition emit_call :: "rstring \<Rightarrow> u8 \<Rightarrow> ScriptBuilder \<Rightarrow> ScriptBuilder" where
  "emit_call label register_count b =
     (if register_count = 0 \<or> MAX_REGISTER_COUNT < register_count
      then sb_fail ''invalid number of registers: '' b
      else let b = sb_byte register_count (emit OP_Call b);
               offset = current_size b;
               b = reserve_target label b
        in b\<lparr>sb_call_offsets := insert offset (sb_call_offsets b)\<rparr>)"

definition emit_conditional_jump :: "Opcode \<Rightarrow> u8 \<Rightarrow> rstring \<Rightarrow> ScriptBuilder \<Rightarrow> ScriptBuilder" where
  "emit_conditional_jump opcode src_reg label b =
     (if opcode \<notin> {OP_JmpIf, OP_JmpNot} then sb_fail ''invalid conditional jump opcode: '' b
      else emit_jump opcode label src_reg b)"

definition emit_var_bytes :: "u64 \<Rightarrow> ScriptBuilder \<Rightarrow> ScriptBuilder" where
  "emit_var_bytes v = sb_write (write_var_uint v)"

section \<open>Finishing a script\<close>

definition jump_limit :: "ScriptBuilder \<Rightarrow> nat \<Rightarrow> int" where
  "jump_limit b offset = (if offset \<in> sb_call_offsets b then MAX_CALL_TARGET else MAX_JUMP_TARGET)"

text \<open>\<open>script[offset..offset + 2].copy_from_slice(bytes)\<close>\<close>

definition patch :: "nat \<Rightarrow> bytes \<Rightarrow> bytes \<Rightarrow> bytes" where
  "patch offset new script = take offset script @ new @ drop (offset + length new) script"

fun patch_jumps :: "ScriptBuilder \<Rightarrow> (nat \<times> rstring) list \<Rightarrow> bytes \<Rightarrow> bytes result" where
  "patch_jumps b [] script = Ok script"
| "patch_jumps b ((offset, label) # jumps) script =
     (case map_of (sb_label_locations b) (to_ascii_lowercase label) of
        None \<Rightarrow> Err (Builder ''could not find label: '')
      | Some target \<Rightarrow>
          if int target > jump_limit b offset then Err (Builder ''label offset '')
          else if offset + 1 \<ge> length script then Err (Builder ''invalid jump patch offset: '')
          else patch_jumps b jumps (patch offset (to_le_bytes (word_of_nat target :: u16)) script))"

definition to_script :: "ScriptBuilder \<Rightarrow> bytes result" where
  "to_script b = patch_jumps b (sb_jump_locations b) (sb_writer b)"

text \<open>The methods that end a script take the stored error out of the builder they leave behind.\<close>

definition end_script_with_error :: "ScriptBuilder \<Rightarrow> (bytes \<times> phantasma_error option) result \<times> ScriptBuilder" where
  "end_script_with_error b =
     (let b = emit OP_Ret b
      in case sb_error b of
           Some e \<Rightarrow> (Ok ([], Some e), b\<lparr>sb_error := None\<rparr>)
         | None \<Rightarrow>
             (case to_script b of
                Ok script \<Rightarrow> (Ok (script, None), b)
              | Err e \<Rightarrow> (Ok ([], Some e), b)
              | Panic p \<Rightarrow> (Panic p, b)))"

definition end_script :: "ScriptBuilder \<Rightarrow> bytes result \<times> ScriptBuilder" where
  "end_script b =
     (case end_script_with_error b of
        (outcome, b') \<Rightarrow>
          (bind_result outcome (\<lambda>(script, error). case error of Some e \<Rightarrow> Err e | None \<Rightarrow> Ok script), b'))"

section \<open>Arguments and calls\<close>

fun load_into_register :: "num_bigint \<Rightarrow> u8 \<Rightarrow> ScriptArg \<Rightarrow> ScriptBuilder \<Rightarrow> ScriptBuilder"
  and load_items :: "num_bigint \<Rightarrow> u8 \<Rightarrow> nat \<Rightarrow> ScriptArg list \<Rightarrow> ScriptBuilder \<Rightarrow> ScriptBuilder" where
  "load_into_register nb reg (SA_Address a) b = emit_load reg (prefixed_bytes a) VM_Bytes b"
| "load_into_register nb reg (SA_String s) b = emit_load_string reg s b"
| "load_into_register nb reg (SA_Bool v) b = emit_load_bool reg v b"
| "load_into_register nb reg (SA_Bytes v) b = emit_load reg v VM_Bytes b"
| "load_into_register nb reg (SA_Number v) b = emit_load_number nb reg v b"
| "load_into_register nb reg (SA_Timestamp v) b = emit_load_timestamp reg v b"
| "load_into_register nb reg (SA_Array vs) b =
     (if MAX_REGISTER_COUNT - 3 < reg then sb_fail ''array load needs three registers starting at '' b
      else load_items nb reg 0 vs
        (sb_byte (vm_type_byte VM_None) (sb_byte reg (sb_byte reg (emit OP_Cast b)))))"
| "load_items nb reg index [] b = b"
| "load_items nb reg index (v # vs) b =
     load_items nb reg (index + 1) vs
       (sb_byte (reg + 2) (sb_byte reg (sb_byte (reg + 1) (emit OP_Put
         (emit_load_number nb (reg + 2) (int index) (load_into_register nb (reg + 1) v b))))))"

definition insert_method_args :: "num_bigint \<Rightarrow> ScriptArg list \<Rightarrow> ScriptBuilder \<Rightarrow> ScriptBuilder" where
  "insert_method_args nb args = fold (\<lambda>arg b. emit_push 0 (load_into_register nb 0 arg b)) (rev args)"

definition call_interop :: "num_bigint \<Rightarrow> rstring \<Rightarrow> ScriptArg list \<Rightarrow> ScriptBuilder \<Rightarrow> ScriptBuilder" where
  "call_interop nb method args b =
     sb_byte 0 (emit OP_ExtCall (emit_load_string 0 method (insert_method_args nb args b)))"

definition call_contract :: "num_bigint \<Rightarrow> rstring \<Rightarrow> rstring \<Rightarrow> ScriptArg list \<Rightarrow> ScriptBuilder \<Rightarrow> ScriptBuilder" where
  "call_contract nb contract_name method args b =
     (let b = insert_method_args nb args b;
          b = emit_push 0 (emit_load_string 0 method b);
          b = emit_load_string 0 contract_name b;
          b = sb_byte 1 (sb_byte 0 (emit OP_Ctx b))
      in sb_byte 1 (emit OP_Switch b))"

definition arg_u64 :: "u64 \<Rightarrow> ScriptArg" where
  "arg_u64 v = SA_Number (uint v)"

definition allow_gas :: "num_bigint \<Rightarrow> Address \<Rightarrow> Address \<Rightarrow> u64 \<Rightarrow> u64 \<Rightarrow> ScriptBuilder \<Rightarrow> ScriptBuilder" where
  "allow_gas nb from_addr to_addr gas_price gas_limit =
     call_contract nb (lit ''gas'') (lit ''AllowGas'')
       [SA_Address from_addr, SA_Address to_addr, arg_u64 gas_price, arg_u64 gas_limit]"

definition spend_gas :: "num_bigint \<Rightarrow> Address \<Rightarrow> ScriptBuilder \<Rightarrow> ScriptBuilder" where
  "spend_gas nb address = call_contract nb (lit ''gas'') (lit ''SpendGas'') [SA_Address address]"

definition transfer_tokens :: "num_bigint \<Rightarrow> rstring \<Rightarrow> Address \<Rightarrow> Address \<Rightarrow> u64 \<Rightarrow> ScriptBuilder \<Rightarrow> ScriptBuilder" where
  "transfer_tokens nb symbol from_addr to_addr amount =
     call_interop nb (lit ''Runtime.TransferTokens'')
       [SA_Address from_addr, SA_Address to_addr, SA_String symbol, arg_u64 amount]"

definition mint_tokens :: "num_bigint \<Rightarrow> rstring \<Rightarrow> Address \<Rightarrow> Address \<Rightarrow> u64 \<Rightarrow> ScriptBuilder \<Rightarrow> ScriptBuilder" where
  "mint_tokens nb symbol from_addr to_addr amount =
     call_interop nb (lit ''Runtime.MintTokens'')
       [SA_Address from_addr, SA_Address to_addr, SA_String symbol, arg_u64 amount]"

definition transfer_balance :: "num_bigint \<Rightarrow> rstring \<Rightarrow> Address \<Rightarrow> Address \<Rightarrow> ScriptBuilder \<Rightarrow> ScriptBuilder" where
  "transfer_balance nb symbol from_addr to_addr =
     call_interop nb (lit ''Runtime.TransferBalance'') [SA_Address from_addr, SA_Address to_addr, SA_String symbol]"

definition transfer_nft :: "num_bigint \<Rightarrow> rstring \<Rightarrow> Address \<Rightarrow> Address \<Rightarrow> u64 \<Rightarrow> ScriptBuilder \<Rightarrow> ScriptBuilder" where
  "transfer_nft nb symbol from_addr to_addr token_id =
     call_interop nb (lit ''Runtime.TransferToken'')
       [SA_Address from_addr, SA_Address to_addr, SA_String symbol, arg_u64 token_id]"

definition cross_transfer_token ::
    "num_bigint \<Rightarrow> Address \<Rightarrow> rstring \<Rightarrow> Address \<Rightarrow> Address \<Rightarrow> u64 \<Rightarrow> ScriptBuilder \<Rightarrow> ScriptBuilder" where
  "cross_transfer_token nb destination_chain symbol from_addr to_addr amount =
     call_interop nb (lit ''Runtime.SendTokens'')
       [SA_Address destination_chain, SA_Address from_addr, SA_Address to_addr, SA_String symbol, arg_u64 amount]"

definition cross_transfer_nft ::
    "num_bigint \<Rightarrow> Address \<Rightarrow> rstring \<Rightarrow> Address \<Rightarrow> Address \<Rightarrow> u64 \<Rightarrow> ScriptBuilder \<Rightarrow> ScriptBuilder" where
  "cross_transfer_nft nb destination_chain symbol from_addr to_addr token_id =
     call_interop nb (lit ''Runtime.SendToken'')
       [SA_Address destination_chain, SA_Address from_addr, SA_Address to_addr, SA_String symbol, arg_u64 token_id]"

definition stake :: "num_bigint \<Rightarrow> Address \<Rightarrow> u64 \<Rightarrow> ScriptBuilder \<Rightarrow> ScriptBuilder" where
  "stake nb address amount = call_contract nb (lit ''stake'') (lit ''Stake'') [SA_Address address, arg_u64 amount]"

definition unstake :: "num_bigint \<Rightarrow> Address \<Rightarrow> u64 \<Rightarrow> ScriptBuilder \<Rightarrow> ScriptBuilder" where
  "unstake nb address amount = call_contract nb (lit ''stake'') (lit ''Unstake'') [SA_Address address, arg_u64 amount]"

definition call_nft :: "num_bigint \<Rightarrow> rstring \<Rightarrow> u64 \<Rightarrow> rstring \<Rightarrow> ScriptArg list \<Rightarrow> ScriptBuilder \<Rightarrow> ScriptBuilder" where
  "call_nft nb symbol series_id method =
     call_contract nb (string_of (string_bytes symbol @ 35 # dec_text (unat series_id))) method"

section \<open>Addresses as text\<close>

text \<open>\<open>PhantasmaError::to_string\<close>\<close>

primrec error_text :: "phantasma_error \<Rightarrow> string" where
  "error_text (Encoding m) = ''encoding error: '' @ m"
| "error_text (Serialization m) = ''serialization error: '' @ m"
| "error_text (Crypto m) = ''crypto error: '' @ m"
| "error_text (Builder m) = ''builder error: '' @ m"
| "error_text (Rpc code m) = ''rpc error: '' @ m"
| "error_text (Http m) = ''http error: '' @ m"
| "error_text (Json m) = ''json error: '' @ m"
| "error_text (Preflight m) = ''pre-flight refused the transaction: '' @ m"

text \<open>
  The matches on parsed addresses: every text is parsed before the match, and the first error is
  stored in the builder.
\<close>

definition with_address :: "crypto_api \<Rightarrow> rstring \<Rightarrow> (Address \<Rightarrow> ScriptBuilder \<Rightarrow> ScriptBuilder) \<Rightarrow> ScriptBuilder
    \<Rightarrow> ScriptBuilder result" where
  "with_address ca text f b =
     (case from_text ca text of
        Ok a \<Rightarrow> Ok (f a b) | Err e \<Rightarrow> Ok (sb_fail (error_text e) b) | Panic p \<Rightarrow> Panic p)"

definition with_addresses :: "crypto_api \<Rightarrow> rstring \<Rightarrow> rstring
    \<Rightarrow> (Address \<Rightarrow> Address \<Rightarrow> ScriptBuilder \<Rightarrow> ScriptBuilder) \<Rightarrow> ScriptBuilder \<Rightarrow> ScriptBuilder result" where
  "with_addresses ca text1 text2 f b =
     (case (from_text ca text1, from_text ca text2) of
        (Panic p, _) \<Rightarrow> Panic p
      | (_, Panic p) \<Rightarrow> Panic p
      | (Err e, _) \<Rightarrow> Ok (sb_fail (error_text e) b)
      | (_, Err e) \<Rightarrow> Ok (sb_fail (error_text e) b)
      | (Ok a1, Ok a2) \<Rightarrow> Ok (f a1 a2 b))"

definition with_addresses3 :: "crypto_api \<Rightarrow> rstring \<Rightarrow> rstring \<Rightarrow> rstring
    \<Rightarrow> (Address \<Rightarrow> Address \<Rightarrow> Address \<Rightarrow> ScriptBuilder \<Rightarrow> ScriptBuilder) \<Rightarrow> ScriptBuilder \<Rightarrow> ScriptBuilder result" where
  "with_addresses3 ca text1 text2 text3 f b =
     (case (from_text ca text1, from_text ca text2, from_text ca text3) of
        (Panic p, _, _) \<Rightarrow> Panic p
      | (_, Panic p, _) \<Rightarrow> Panic p
      | (_, _, Panic p) \<Rightarrow> Panic p
      | (Err e, _, _) \<Rightarrow> Ok (sb_fail (error_text e) b)
      | (_, Err e, _) \<Rightarrow> Ok (sb_fail (error_text e) b)
      | (_, _, Err e) \<Rightarrow> Ok (sb_fail (error_text e) b)
      | (Ok a1, Ok a2, Ok a3) \<Rightarrow> Ok (f a1 a2 a3 b))"

definition allow_gas_text where
  "allow_gas_text nb ca from_addr to_addr gas_price gas_limit =
     with_addresses ca from_addr to_addr (\<lambda>f t. allow_gas nb f t gas_price gas_limit)"

definition spend_gas_text where
  "spend_gas_text nb ca address = with_address ca address (spend_gas nb)"

definition transfer_tokens_text where
  "transfer_tokens_text nb ca symbol from_addr to_addr amount =
     with_addresses ca from_addr to_addr (\<lambda>f t. transfer_tokens nb symbol f t amount)"

definition transfer_tokens_to_text where
  "transfer_tokens_to_text nb ca symbol from_addr to_addr amount =
     with_address ca to_addr (\<lambda>t. transfer_tokens nb symbol from_addr t amount)"

definition mint_tokens_text where
  "mint_tokens_text nb ca symbol from_addr to_addr amount =
     with_addresses ca from_addr to_addr (\<lambda>f t. mint_tokens nb symbol f t amount)"

definition transfer_balance_text where
  "transfer_balance_text nb ca symbol from_addr to_addr =
     with_addresses ca from_addr to_addr (\<lambda>f t. transfer_balance nb symbol f t)"

definition transfer_nft_text where
  "transfer_nft_text nb ca symbol from_addr to_addr token_id =
     with_addresses ca from_addr to_addr (\<lambda>f t. transfer_nft nb symbol f t token_id)"

definition transfer_nft_to_text where
  "transfer_nft_to_text nb ca symbol from_addr to_addr token_id =
     with_address ca to_addr (\<lambda>t. transfer_nft nb symbol from_addr t token_id)"

definition cross_transfer_token_text where
  "cross_transfer_token_text nb ca destination_chain symbol from_addr to_addr amount =
     with_addresses3 ca destination_chain from_addr to_addr (\<lambda>d f t. cross_transfer_token nb d symbol f t amount)"

definition cross_transfer_token_to_text where
  "cross_transfer_token_to_text nb ca destination_chain symbol from_addr to_addr amount =
     with_address ca to_addr (\<lambda>t. cross_transfer_token nb destination_chain symbol from_addr t amount)"

definition cross_transfer_nft_text where
  "cross_transfer_nft_text nb ca destination_chain symbol from_addr to_addr token_id =
     with_addresses3 ca destination_chain from_addr to_addr (\<lambda>d f t. cross_transfer_nft nb d symbol f t token_id)"

definition cross_transfer_nft_to_text where
  "cross_transfer_nft_to_text nb ca destination_chain symbol from_addr to_addr token_id =
     with_address ca to_addr (\<lambda>t. cross_transfer_nft nb destination_chain symbol from_addr t token_id)"

definition stake_text where
  "stake_text nb ca address amount = with_address ca address (\<lambda>a. stake nb a amount)"

definition unstake_text where
  "unstake_text nb ca address amount = with_address ca address (\<lambda>a. unstake nb a amount)"

definition script_arg_number_to_i64 :: "ScriptArg \<Rightarrow> i64 option" where
  "script_arg_number_to_i64 v =
     (case v of SA_Number n \<Rightarrow> if - (2 ^ 63) \<le> n \<and> n < 2 ^ 63 then Some (word_of_int n) else None
      | _ \<Rightarrow> None)"

section \<open>Sequences of operations\<close>

text \<open>
  One operation of the builder. Every method is a sequence of these: bytes are written, an error is
  stored, a label is set, a jump or call reserves its target.
\<close>

inductive builder_op :: "ScriptBuilder \<Rightarrow> ScriptBuilder \<Rightarrow> bool" where
  op_write: "builder_op b (sb_write a b)"
| op_fail: "builder_op b (sb_fail m b)"
| op_label: "builder_op b (emit_label l b)"
| op_jump: "builder_op b (emit_jump opcode l reg b)"
| op_call: "builder_op b (emit_call l n b)"

abbreviation builder_ops :: "ScriptBuilder \<Rightarrow> ScriptBuilder \<Rightarrow> bool" where
  "builder_ops \<equiv> builder_op\<^sup>*\<^sup>*"

named_theorems builder_intros \<open>methods that are sequences of builder operations\<close>

lemma ops_trans: "builder_ops a b \<Longrightarrow> builder_ops b c \<Longrightarrow> builder_ops a c"
  by (rule rtranclp_trans)

lemma basic_ops:
  assumes "builder_ops a b"
  shows "builder_ops a (sb_write w b)" "builder_ops a (sb_fail m b)" "builder_ops a (sb_byte v b)"
    "builder_ops a (emit opcode b)" "builder_ops a (emit_label l b)" "builder_ops a (emit_jump opcode l reg b)"
    "builder_ops a (emit_call l n b)"
  using assms unfolding sb_byte_def emit_def
  by (auto intro: rtranclp.rtrancl_into_rtrancl builder_op.intros)

lemma load_ops:
  assumes "builder_ops a b"
  shows "builder_ops a (emit_load reg raw t b)"
  using assms by (simp add: emit_load_def basic_ops)

lemma typed_load_ops:
  assumes "builder_ops a b"
  shows "builder_ops a (emit_load_string reg s b)" "builder_ops a (emit_load_bool reg v b)"
    "builder_ops a (emit_load_number nb reg n b)" "builder_ops a (emit_load_timestamp reg u b)"
    "builder_ops a (emit_push reg b)"
  using assms
  by (simp_all add: emit_load_string_def emit_load_bool_def emit_load_number_def emit_load_timestamp_def
      emit_push_def load_ops basic_ops)

lemma load_argument_ops:
  "builder_ops a b \<Longrightarrow> builder_ops a (load_into_register nb reg v b)"
  "builder_ops a b \<Longrightarrow> builder_ops a (load_items nb reg i vs b)"
  by (induction nb reg v b and nb reg i vs b rule: load_into_register_load_items.induct)
    (simp_all add: load_ops typed_load_ops basic_ops)

lemma insert_args_ops: "builder_ops a b \<Longrightarrow> builder_ops a (insert_method_args nb args b)"
proof -
  have "builder_ops a b \<Longrightarrow> builder_ops a (fold (\<lambda>arg b. emit_push 0 (load_into_register nb 0 arg b)) xs b)" for xs
    by (induction xs arbitrary: b) (simp_all add: load_argument_ops typed_load_ops)
  then show "builder_ops a b \<Longrightarrow> builder_ops a (insert_method_args nb args b)"
    by (simp add: insert_method_args_def)
qed

lemma call_ops:
  assumes "builder_ops a b"
  shows "builder_ops a (call_interop nb m args b)" "builder_ops a (call_contract nb c m args b)"
  using assms
  by (simp_all add: call_interop_def call_contract_def Let_def insert_args_ops typed_load_ops basic_ops)

section \<open>The builder invariant\<close>

text \<open>
  Reserved targets lie inside the written bytes and do not overlap, labels point into the bytes, and
  call targets are reserved targets.
\<close>

definition builder_ok :: "ScriptBuilder \<Rightarrow> bool" where
  "builder_ok b \<longleftrightarrow>
     sorted_wrt (\<lambda>i j. i + 2 \<le> j) (map fst (sb_jump_locations b)) \<and>
     (\<forall>j\<in>set (sb_jump_locations b). fst j + 2 \<le> current_size b) \<and>
     sorted_wrt (<) (map fst (sb_label_locations b)) \<and>
     (\<forall>l\<in>set (sb_label_locations b). snd l \<le> current_size b) \<and>
     sb_call_offsets b \<subseteq> fst ` set (sb_jump_locations b)"

lemma wr_run_u16: "wr_run (write_u16_le v) = to_le_bytes v"
  by (simp add: wr_run_def write_u16_le_def wr_bytes_def)

lemma builder_ok_new: "builder_ok ScriptBuilder_new"
  by (simp add: builder_ok_def ScriptBuilder_new_def)

lemma builder_ok_write: "builder_ok b \<Longrightarrow> builder_ok (sb_write a b)"
  by (fastforce simp: builder_ok_def sb_write_def current_size_def)

lemma builder_ok_fail: "builder_ok b \<Longrightarrow> builder_ok (sb_fail m b)"
  by (simp add: builder_ok_def sb_fail_def current_size_def)

lemma builder_ok_label:
  assumes "builder_ok b"
  shows "builder_ok (emit_label l b)"
proof -
  have "builder_ok (emit OP_Nop b)"
    unfolding emit_def by (rule builder_ok_write [OF assms])
  then show ?thesis
    using set_btree_insert [of "to_ascii_lowercase l" "current_size (emit OP_Nop b)" "sb_label_locations (emit OP_Nop b)"]
    by (auto simp: builder_ok_def emit_label_def Let_def current_size_def sorted_btree_insert)
qed

lemma reserve_target_jumps:
  assumes "builder_ok b"
  shows "sb_jump_locations (reserve_target l b) = sb_jump_locations b @ [(current_size b, l)]"
  using assms unfolding builder_ok_def reserve_target_def
  by (simp add: sb_write_def) (rule btree_insert_last, fastforce)

lemma builder_ok_reserve:
  assumes "builder_ok b"
  shows "builder_ok (reserve_target l b)"
proof -
  have "current_size (reserve_target l b) = current_size b + 2"
    by (simp add: reserve_target_def current_size_def sb_write_def wr_run_u16)
  then show ?thesis
    using assms reserve_target_jumps [OF assms, of l]
    by (fastforce simp: builder_ok_def sorted_wrt_append reserve_target_def sb_write_def)
qed

lemma builder_ok_jump: "builder_ok b \<Longrightarrow> builder_ok (emit_jump opcode l reg b)"
  by (auto simp: emit_jump_def Let_def emit_def sb_byte_def builder_ok_fail builder_ok_reserve builder_ok_write)

lemma builder_ok_call:
  assumes "builder_ok b"
  shows "builder_ok (emit_call l n b)"
proof -
  let ?b = "sb_byte n (emit OP_Call b)"
  have ok: "builder_ok ?b"
    using assms by (simp add: emit_def sb_byte_def builder_ok_write)
  show ?thesis
  proof (cases "n = 0 \<or> MAX_REGISTER_COUNT < n")
    case True
    then show ?thesis using assms by (simp add: emit_call_def builder_ok_fail)
  next
    case False
    then show ?thesis
      using builder_ok_reserve [OF ok, of l] reserve_target_jumps [OF ok, of l]
      by (simp add: emit_call_def Let_def builder_ok_def current_size_def)
  qed
qed

lemma builder_ok_op: "builder_op b b' \<Longrightarrow> builder_ok b \<Longrightarrow> builder_ok b'"
  by (induction rule: builder_op.induct)
    (simp_all add: builder_ok_write builder_ok_fail builder_ok_label builder_ok_jump builder_ok_call)

lemma builder_ok_ops: "builder_ops b b' \<Longrightarrow> builder_ok b \<Longrightarrow> builder_ok b'"
  by (induction rule: rtranclp_induct) (auto dest: builder_ok_op)


section \<open>Linking\<close>

lemma length_patch: "offset + length new \<le> length s \<Longrightarrow> length (patch offset new s) = length s"
  by (simp add: patch_def)

lemma take_patch: "offset + length new \<le> length s \<Longrightarrow> take (length new) (drop offset (patch offset new s)) = new"
  by (simp add: patch_def)

lemma nth_patch:
  "offset + length new \<le> length s \<Longrightarrow> i < length s \<Longrightarrow> i < offset \<or> offset + length new \<le> i \<Longrightarrow>
   patch offset new s ! i = s ! i"
  by (auto simp: patch_def nth_append)

definition resolved :: "ScriptBuilder \<Rightarrow> bytes \<Rightarrow> nat \<times> rstring \<Rightarrow> bool" where
  "resolved b s j \<longleftrightarrow>
     (\<exists>target. int target \<le> jump_limit b (fst j) \<and>
        map_of (sb_label_locations b) (to_ascii_lowercase (snd j)) = Some target \<and>
        take 2 (drop (fst j) s) = to_le_bytes (word_of_nat target :: u16))"

text \<open>A target that cannot be linked, with the error it gives.\<close>

definition unlinkable :: "ScriptBuilder \<Rightarrow> nat \<times> rstring \<Rightarrow> phantasma_error \<Rightarrow> bool" where
  "unlinkable b j e \<longleftrightarrow>
     (case map_of (sb_label_locations b) (to_ascii_lowercase (snd j)) of
        None \<Rightarrow> e = Builder ''could not find label: ''
      | Some target \<Rightarrow> jump_limit b (fst j) < int target \<and> e = Builder ''label offset '')"

lemma take2_nth: "i + 2 \<le> length s \<Longrightarrow> i + 2 \<le> length t \<Longrightarrow> s ! i = t ! i \<Longrightarrow> s ! (i + 1) = t ! (i + 1) \<Longrightarrow>
    take 2 (drop i s) = take 2 (drop i t)"
  by (rule nth_equalityI) (auto simp: less_2_cases_iff nth_drop)

definition untouched :: "(nat \<times> rstring) list \<Rightarrow> nat \<Rightarrow> bool" where
  "untouched js i \<longleftrightarrow> (\<forall>j\<in>set js. i \<noteq> fst j \<and> i \<noteq> fst j + 1)"

lemma patch_jumps_spec:
  assumes "sorted_wrt (\<lambda>i j. i + 2 \<le> j) (map fst js)" and "\<forall>j\<in>set js. fst j + 2 \<le> length s"
  shows "case patch_jumps b js s of
      Ok s' \<Rightarrow> length s' = length s \<and> (\<forall>j\<in>set js. resolved b s' j) \<and>
        (\<forall>i<length s. untouched js i \<longrightarrow> s' ! i = s ! i)
    | Err e \<Rightarrow> \<exists>j\<in>set js. unlinkable b j e
    | Panic _ \<Rightarrow> False"
  using assms
proof (induction js arbitrary: s)
  case (Cons j js)
  obtain offset label where j: "j = (offset, label)" by (cases j)
  note target = map_of_eq_None_iff
  show ?case
  proof (cases "map_of (sb_label_locations b) (to_ascii_lowercase label)")
    case None
    then show ?thesis by (simp add: j unlinkable_def)
  next
    case (Some t)
    let ?le = "to_le_bytes (word_of_nat t :: u16)"
    let ?s = "patch offset ?le s"
    have fit: "offset + length ?le \<le> length s" "length ?le = 2"
      using Cons.prems(2) by (simp_all add: j)
    have len: "length ?s = length s"
      by (rule length_patch [OF fit(1)])
    have IH: "case patch_jumps b js ?s of
        Ok s' \<Rightarrow> length s' = length ?s \<and> (\<forall>j\<in>set js. resolved b s' j) \<and>
          (\<forall>i<length ?s. untouched js i \<longrightarrow> s' ! i = ?s ! i)
      | Err e \<Rightarrow> \<exists>j\<in>set js. unlinkable b j e
      | Panic _ \<Rightarrow> False"
      using Cons.prems len by (intro Cons.IH) auto
    show ?thesis
    proof (cases "jump_limit b offset < int t")
      case True
      with Some show ?thesis by (simp add: j unlinkable_def)
    next
      case False
      then have step: "patch_jumps b (j # js) s = patch_jumps b js ?s"
        using Some fit by (simp add: j)
      show ?thesis
      proof (cases "patch_jumps b js ?s")
        case (Ok s')
        have keep: "s' ! i = ?s ! i" if "i < length s" "untouched js i" for i
          using IH Ok that len by simp
        have "untouched js offset" "untouched js (offset + 1)"
          using Cons.prems(1) by (auto simp: untouched_def j)
        then have "take 2 (drop offset s') = take 2 (drop offset ?s)"
          using fit len IH Ok keep by (intro take2_nth) auto
        then have "resolved b s' j"
          using Some False take_patch [OF fit(1)] fit(2) by (auto simp: resolved_def j not_less)
        moreover have "s' ! i = s ! i" if "i < length s" "untouched (j # js) i" for i
        proof -
          have "i < offset \<or> offset + length ?le \<le> i"
            using that fit(2) unfolding untouched_def j by (simp; linarith)
          then show ?thesis
            using keep [of i] that nth_patch [OF fit(1), of i] by (simp add: untouched_def)
        qed
        ultimately show ?thesis
          using IH Ok len by (simp add: step)
      qed (use IH in \<open>auto simp: step\<close>)
    qed
  qed
qed (simp add: untouched_def)

text \<open>C24: Linking a script built by any sequence of builder operations patches every jump and call with the
  location of its label and leaves all other bytes as they were emitted; it fails only for a label that does not
  exist or lies beyond the range its instruction can address.\<close>

theorem script_links_labels:
  assumes "builder_ops ScriptBuilder_new b"
  shows "case to_script b of
      Ok s \<Rightarrow> length s = current_size b \<and>
        (\<forall>j\<in>set (sb_jump_locations b). \<exists>target. int target \<le> jump_limit b (fst j) \<and>
           map_of (sb_label_locations b) (to_ascii_lowercase (snd j)) = Some target \<and>
           take 2 (drop (fst j) s) = to_le_bytes (word_of_nat target :: u16)) \<and>
        (\<forall>i<current_size b. untouched (sb_jump_locations b) i \<longrightarrow> s ! i = sb_writer b ! i)
    | Err e \<Rightarrow> \<exists>j\<in>set (sb_jump_locations b). unlinkable b j e
    | Panic _ \<Rightarrow> False"
  using patch_jumps_spec [of "sb_jump_locations b" "sb_writer b" b] builder_ok_ops [OF assms builder_ok_new]
  by (auto simp: to_script_def builder_ok_def current_size_def resolved_def split: result.splits)


section \<open>Labels\<close>

text \<open>A label is found under any spelling that differs in letter case, and setting it again moves it:
  the last position wins.\<close>

theorem labels_ignore_case:
  assumes "builder_ops ScriptBuilder_new b"
  shows "map_of (sb_label_locations (emit_label label b)) (to_ascii_lowercase name) =
    (if eq_ignore_ascii_case name label then Some (current_size b + 1)
     else map_of (sb_label_locations b) (to_ascii_lowercase name))"
proof -
  have "sorted_wrt (<) (map fst (sb_label_locations b))"
    using builder_ok_ops [OF assms builder_ok_new] by (simp add: builder_ok_def)
  then show ?thesis
    by (simp add: emit_label_def Let_def emit_def sb_write_def map_of_btree_insert current_size_def wr_run_def
        write_u8_def wr_bytes_def eq_ignore_ascii_case_iff)
qed

section \<open>Stored errors\<close>

lemma error_kept_op: "builder_op b b' \<Longrightarrow> sb_error b = Some e \<Longrightarrow> sb_error b' = Some e"
  by (induction rule: builder_op.induct)
    (auto simp: sb_write_def sb_fail_def emit_label_def emit_def emit_jump_def emit_call_def reserve_target_def
      sb_byte_def Let_def)

lemma error_kept: "builder_ops b b' \<Longrightarrow> sb_error b = Some e \<Longrightarrow> sb_error b' = Some e"
  by (induction rule: rtranclp_induct) (auto dest: error_kept_op)

text \<open>The first invalid operation decides the outcome: whatever operations follow it, ending the script
  returns its error and no bytes.\<close>

theorem first_error_reported:
  assumes "sb_error b = None" and "builder_ops (sb_fail message b) b'"
  shows "fst (end_script b') = Err (Builder message)"
proof -
  have "sb_error (sb_fail message b) = Some (Builder message)"
    using assms(1) by (simp add: sb_fail_def)
  then have "sb_error b' = Some (Builder message)"
    by (rule error_kept [OF assms(2)])
  then show ?thesis
    by (simp add: end_script_def end_script_with_error_def Let_def emit_def sb_write_def)
qed

text \<open>C39: Ending a script takes the stored error out of the builder, so ending the same builder a second time
  returns the bytes without the refused operation, as if the script were valid.\<close>

theorem second_end_script_forgets_the_error:
  assumes "sb_error b = Some e" and "sb_jump_locations b = []"
  shows "fst (end_script b) = Err e \<and>
    fst (end_script (snd (end_script b))) = Ok (sb_writer b @ [opcode_byte OP_Ret, opcode_byte OP_Ret])"
  using assms
  by (simp add: end_script_def end_script_with_error_def Let_def emit_def sb_write_def to_script_def
      wr_run_def write_u8_def wr_bytes_def)

section \<open>Loaded values\<close>

text \<open>The bytes of a load instruction, as a reader of the VM format sees them.\<close>

definition read_load :: "(u8 \<times> u8 \<times> u8 \<times> bytes) reader" where
  "read_load =
     rd_bind read_u8 (\<lambda>opcode. rd_bind read_u8 (\<lambda>reg. rd_bind read_u8 (\<lambda>t.
     rd_bind (read_var_bytes 0xFFFF) (\<lambda>raw. rd_return (opcode, reg, t, raw)))))"

lemma emit_load_parses:
  assumes "length raw \<le> 0xFFFF"
  shows "\<exists>bs. emit_load reg raw t b = b\<lparr>sb_writer := sb_writer b @ bs\<rparr> \<and>
    parses read_load bs (opcode_byte OP_Load, reg, vm_type_byte t, raw)"
proof -
  have "length raw < 2 ^ 64"
    using assms by simp
  then obtain vb where vb: "writes (write_var_bytes raw) vb" "parses (read_var_bytes 0xFFFF) vb raw"
    using var_bytes_round_trip [OF assms] by (auto simp: round_trip1_def)
  have run: "wr_run (write_var_uint (word_of_nat (length raw))) @ raw = vb"
  proof -
    obtain lb where lb: "writes (write_var_uint (word_of_nat (length raw))) lb"
      using var_uint_round_trip by (auto simp: round_trip1_def)
    have "writes (write_var_bytes raw) (lb @ raw)"
      unfolding write_var_bytes_def vm_write_def
      using writes_Cons [OF lb writes_Cons [OF writes_bytes writes_Nil]] by simp
    then have "lb @ raw = vb"
      using vb(1) writes_unique by blast
    then show ?thesis
      using lb by (simp add: wr_run_def writes_def)
  qed
  let ?bs = "[opcode_byte OP_Load, reg, vm_type_byte t] @ vb"
  have "parses read_load ([opcode_byte OP_Load] @ [reg] @ [vm_type_byte t] @ vb @ []) (opcode_byte OP_Load, reg, vm_type_byte t, raw)"
    unfolding read_load_def by (rule parses_bind [OF parses_u8] parses_bind [OF vb(2)] parses_return)+
  moreover have "emit_load reg raw t b = b\<lparr>sb_writer := sb_writer b @ ?bs\<rparr>"
    using assms run
    by (simp add: emit_load_def sb_write_def sb_byte_def emit_def)
      (simp add: wr_run_def write_u8_def vm_write_def wr_bytes_def)
  ultimately show ?thesis
    by (intro exI [of _ ?bs]) simp
qed

text \<open>A number loaded into a register is a load instruction whose data the VM reader turns back into the
  number, and nothing else of the builder changes.\<close>

theorem loaded_number_reads_back:
  assumes "num_bigint_api nb" and "length (big_int_to_csharp_bytes nb v) \<le> 0xFFFF"
  shows "\<exists>bs raw. emit_load_number nb reg v b = b\<lparr>sb_writer := sb_writer b @ bs\<rparr> \<and>
    parses read_load bs (opcode_byte OP_Load, reg, vm_type_byte VM_Number, raw) \<and> vm_bytes_to_big_int nb raw = v"
proof -
  have "vm_bytes_to_big_int nb (big_int_to_csharp_bytes nb v) = v"
    using num_bigint_api.csharp_value [OF assms(1)] num_bigint_api.csharp_nonempty [OF assms(1)]
      num_bigint_api.from_signed [OF assms(1)]
    by (simp add: vm_bytes_to_big_int_def)
  then show ?thesis
    using emit_load_parses [OF assms(2), of reg VM_Number b] by (auto simp: emit_load_number_def)
qed


section \<open>Registers of an argument\<close>

text \<open>The instructions that load an argument, and the registers they name.\<close>

datatype instr =
    I_Load u8 VMType_vm bytes
  | I_Cast u8 u8
  | I_Put u8 u8 u8

primrec instr_bytes :: "instr \<Rightarrow> bytes" where
  "instr_bytes (I_Load reg t raw) =
     [opcode_byte OP_Load, reg, vm_type_byte t] @ wr_run (write_var_uint (word_of_nat (length raw))) @ raw"
| "instr_bytes (I_Cast src dst) = [opcode_byte OP_Cast, src, dst, vm_type_byte VM_None]"
| "instr_bytes (I_Put src dst key) = [opcode_byte OP_Put, src, dst, key]"

primrec instr_registers :: "instr \<Rightarrow> u8 set" where
  "instr_registers (I_Load reg t raw) = {reg}"
| "instr_registers (I_Cast src dst) = {src, dst}"
| "instr_registers (I_Put src dst key) = {src, dst, key}"

definition uses_registers :: "u8 \<Rightarrow> instr list \<Rightarrow> bool" where
  "uses_registers low is \<longleftrightarrow> (\<forall>i\<in>set is. \<forall>r\<in>instr_registers i. low \<le> r \<and> r < MAX_REGISTER_COUNT)"

definition loads :: "u8 \<Rightarrow> ScriptBuilder \<Rightarrow> ScriptBuilder \<Rightarrow> bool" where
  "loads low b b' \<longleftrightarrow> builder_ops b b' \<and>
     (sb_error b' = None \<longrightarrow>
        (\<exists>is. b' = b\<lparr>sb_writer := sb_writer b @ concat (map instr_bytes is)\<rparr> \<and> uses_registers low is))"

lemma loadsI:
  "builder_ops b b' \<Longrightarrow> b' = b\<lparr>sb_writer := sb_writer b @ concat (map instr_bytes is)\<rparr> \<Longrightarrow>
   uses_registers low is \<Longrightarrow> loads low b b'"
  unfolding loads_def by blast

lemma loads_refl: "loads low b b"
  by (rule loadsI [of _ _ "[]"]) (simp_all add: uses_registers_def)

lemma loads_trans:
  assumes "loads low b c" and "loads low c d"
  shows "loads low b d"
proof -
  have "sb_error c = None" if "sb_error d = None"
    using that assms(2) error_kept [of c d] by (cases "sb_error c") (auto simp: loads_def)
  moreover have "\<exists>is. b\<lparr>sb_writer := sb_writer b @ concat (map instr_bytes xs) @ concat (map instr_bytes ys)\<rparr> =
      b\<lparr>sb_writer := sb_writer b @ concat (map instr_bytes is)\<rparr> \<and> uses_registers low is"
    if "uses_registers low xs" "uses_registers low ys" for xs ys
    using that by (intro exI [of _ "xs @ ys"]) (auto simp: uses_registers_def)
  ultimately show ?thesis
    using assms unfolding loads_def by (auto intro: ops_trans) 
qed

lemma uses_registers_mono: "uses_registers high is \<Longrightarrow> low \<le> high \<Longrightarrow> uses_registers low is"
  unfolding uses_registers_def by (meson order_trans)

lemma loads_mono: "loads high b b' \<Longrightarrow> low \<le> high \<Longrightarrow> loads low b b'"
  unfolding loads_def using uses_registers_mono by blast

lemma loads_emit_load:
  assumes "reg < MAX_REGISTER_COUNT"
  shows "loads reg b (emit_load reg raw t b)"
proof -
  have "emit_load reg raw t b = b\<lparr>sb_writer := sb_writer b @ concat (map instr_bytes [I_Load reg t raw])\<rparr>"
    if "length raw \<le> 0xFFFF"
    using that by (simp add: emit_load_def sb_write_def sb_byte_def emit_def)
      (simp add: wr_run_def write_u8_def vm_write_def wr_bytes_def)
  moreover have "uses_registers reg [I_Load reg t raw]"
    using assms by (simp add: uses_registers_def)
  moreover have "sb_error (emit_load reg raw t b) \<noteq> None" if "\<not> length raw \<le> 0xFFFF"
    using that by (simp add: emit_load_def sb_fail_def)
  ultimately show ?thesis
    unfolding loads_def using load_ops [of b b reg raw t] by (cases "length raw \<le> 0xFFFF") blast+
qed

lemma loads_fail: "loads low b (sb_fail m b)"
  unfolding loads_def using basic_ops(2) [of b b m] by (auto simp: sb_fail_def)

lemma loads_cast:
  assumes "reg < MAX_REGISTER_COUNT"
  shows "loads reg b (sb_byte (vm_type_byte VM_None) (sb_byte reg (sb_byte reg (emit OP_Cast b))))"
proof (rule loadsI [of _ _ "[I_Cast reg reg]"])
  show "builder_ops b (sb_byte (vm_type_byte VM_None) (sb_byte reg (sb_byte reg (emit OP_Cast b))))"
    by (intro basic_ops rtranclp.rtrancl_refl)
qed (use assms in \<open>simp_all add: uses_registers_def sb_byte_def emit_def sb_write_def wr_run_def write_u8_def wr_bytes_def\<close>)

lemma loads_put:
  assumes "low \<le> dst" "low \<le> src" "low \<le> key" "src < MAX_REGISTER_COUNT" "dst < MAX_REGISTER_COUNT"
    "key < MAX_REGISTER_COUNT"
  shows "loads low b (sb_byte key (sb_byte dst (sb_byte src (emit OP_Put b))))"
proof (rule loadsI [of _ _ "[I_Put src dst key]"])
  show "builder_ops b (sb_byte key (sb_byte dst (sb_byte src (emit OP_Put b))))"
    by (intro basic_ops rtranclp.rtrancl_refl)
qed (use assms in \<open>simp_all add: uses_registers_def sb_byte_def emit_def sb_write_def wr_run_def write_u8_def wr_bytes_def\<close>)

lemma next_registers:
  assumes "\<not> MAX_REGISTER_COUNT - 3 < reg"
  shows "reg + 1 < MAX_REGISTER_COUNT" "reg + 2 < MAX_REGISTER_COUNT" "reg \<le> reg + 1" "reg \<le> reg + 2"
    "reg < MAX_REGISTER_COUNT"
  using assms
  by (simp_all add: MAX_REGISTER_COUNT_def word_less_nat_alt word_le_nat_alt unat_word_ariths)

lemma loads_argument:
  "reg < MAX_REGISTER_COUNT \<Longrightarrow> loads reg b (load_into_register nb reg v b)"
  "\<not> MAX_REGISTER_COUNT - 3 < reg \<Longrightarrow> loads reg b (load_items nb reg i vs b)"
proof (induction nb reg v b and nb reg i vs b rule: load_into_register_load_items.induct)
  case (7 nb reg vs b)
  then show ?case
    by (auto intro: loads_fail loads_trans [OF loads_cast])
next
  case (9 nb reg index v vs b)
  note regs = next_registers [OF 9(3)]
  have "loads reg b (load_into_register nb (reg + 1) v b)"
    using 9(1) regs by (blast intro: loads_mono)
  moreover have "loads reg c (emit_load_number nb (reg + 2) n c)" for n c
    unfolding emit_load_number_def using loads_emit_load regs by (blast intro: loads_mono)
  moreover have "loads reg c (sb_byte (reg + 2) (sb_byte reg (sb_byte (reg + 1) (emit OP_Put c))))" for c
    using regs by (intro loads_put) auto
  ultimately have "loads reg b (sb_byte (reg + 2) (sb_byte reg (sb_byte (reg + 1) (emit OP_Put
      (emit_load_number nb (reg + 2) (int index) (load_into_register nb (reg + 1) v b))))))"
    by (blast intro: loads_trans)
  then show ?case
    using loads_trans 9(2) [OF 9(3)] by (simp only: load_items.simps)
qed (simp_all add: emit_load_string_def emit_load_bool_def emit_load_number_def emit_load_timestamp_def loads_emit_load
    loads_fail loads_refl)


text \<open>C26: Loading an argument, nested arrays included, either stores an error or appends a sequence of load,
  cast and put instructions whose registers all lie between the target register and the last of the 32
  registers of the VM.\<close>

theorem argument_stays_in_registers:
  assumes "reg < MAX_REGISTER_COUNT"
  shows "sb_error (load_into_register nb reg v b) \<noteq> None \<or>
    (\<exists>is. load_into_register nb reg v b = b\<lparr>sb_writer := sb_writer b @ concat (map instr_bytes is)\<rparr> \<and>
       (\<forall>i\<in>set is. \<forall>r\<in>instr_registers i. reg \<le> r \<and> r < MAX_REGISTER_COUNT))"
  using loads_argument(1) [OF assms, of b nb v] by (auto simp: loads_def uses_registers_def)

theorem argument_stays_in_registers_witness:
  "\<exists>is. load_into_register num_bigint_std 29 (SA_Array [SA_Bool True, SA_Bytes [7]]) ScriptBuilder_new =
      ScriptBuilder_new\<lparr>sb_writer := concat (map instr_bytes is)\<rparr>"
proof -
  have ok: "sb_error (load_into_register num_bigint_std 29 (SA_Array [SA_Bool True, SA_Bytes [7]]) ScriptBuilder_new) = None"
    by code_simp
  show ?thesis
    using argument_stays_in_registers [of 29 num_bigint_std "SA_Array [SA_Bool True, SA_Bytes [7]]" ScriptBuilder_new] ok
    by (auto simp: MAX_REGISTER_COUNT_def ScriptBuilder_new_def)
qed

definition sample_script :: ScriptBuilder where
  "sample_script =
     emit_label (lit ''end'') (emit OP_Nop (emit_jump OP_JmpIf (lit ''END'') 3 (emit_call (lit ''end'') 4 ScriptBuilder_new)))"

lemma sample_script_ops: "builder_ops ScriptBuilder_new sample_script"
  unfolding sample_script_def by (intro basic_ops rtranclp.rtrancl_refl)

lemma sample_script_is: "to_script sample_script = Ok [6, 4, 10, 0, 9, 3, 10, 0, 0, 0]"
  by code_simp

theorem script_links_labels_witness:
  "(\<exists>target. int target \<le> jump_limit sample_script 6 \<and>
      map_of (sb_label_locations sample_script) (to_ascii_lowercase (lit ''END'')) = Some target \<and>
      take 2 (drop 6 [6, 4, 10, 0, 9, 3, 10, 0, 0, 0]) = to_le_bytes (word_of_nat target :: u16))"
proof -
  have "(6, lit ''END'') \<in> set (sb_jump_locations sample_script)"
    by code_simp
  then show ?thesis
    using script_links_labels [OF sample_script_ops] by (auto simp: sample_script_is)
qed

theorem labels_ignore_case_witness:
  "map_of (sb_label_locations (emit_label (lit ''Loop'') sample_script)) (to_ascii_lowercase (lit ''lOOP'')) = Some 11"
proof -
  have "eq_ignore_ascii_case (lit ''lOOP'') (lit ''Loop'')" "current_size sample_script = 10"
    by code_simp+
  then show ?thesis
    using labels_ignore_case [OF sample_script_ops, of "lit ''Loop''" "lit ''lOOP''"] by simp
qed

theorem first_error_reported_witness:
  "fst (end_script (emit_push 1 (emit_call (lit ''f'') 0 ScriptBuilder_new))) =
     Err (Builder ''invalid number of registers: '')"
proof (rule first_error_reported)
  show "sb_error ScriptBuilder_new = None"
    by (simp add: ScriptBuilder_new_def)
  show "builder_ops (sb_fail ''invalid number of registers: '' ScriptBuilder_new)
      (emit_push 1 (emit_call (lit ''f'') 0 ScriptBuilder_new))"
    by (simp add: emit_call_def typed_load_ops)
qed

theorem second_end_script_forgets_the_error_witness:
  "fst (end_script (emit_call (lit ''f'') 0 (emit_push 2 ScriptBuilder_new))) = Err (Builder ''invalid number of registers: '') \<and>
   fst (end_script (snd (end_script (emit_call (lit ''f'') 0 (emit_push 2 ScriptBuilder_new))))) =
     Ok (sb_writer (emit_call (lit ''f'') 0 (emit_push 2 ScriptBuilder_new)) @ [opcode_byte OP_Ret, opcode_byte OP_Ret])"
  by (rule second_end_script_forgets_the_error)
    (simp_all add: emit_call_def emit_push_def sb_fail_def emit_def sb_byte_def sb_write_def ScriptBuilder_new_def)

theorem loaded_number_reads_back_witness:
  "\<exists>bs raw. emit_load_number num_bigint_std 5 1000 ScriptBuilder_new = ScriptBuilder_new\<lparr>sb_writer := bs\<rparr> \<and>
    parses read_load bs (13, 5, 3, raw) \<and> vm_bytes_to_big_int num_bigint_std raw = 1000"
proof -
  have "length (big_int_to_csharp_bytes num_bigint_std 1000) = 2"
    by code_simp
  then show ?thesis
    using loaded_number_reads_back [OF num_bigint_std.num_bigint_api_axioms, of 1000 5 ScriptBuilder_new]
    by (simp add: ScriptBuilder_new_def)
qed

end
