(* ===== verification/VmObject.thy ===== *)
theory VmObject
  imports VmScript
begin

text \<open>
  VM objects (\<open>src/src/vm.rs\<close>): the byte form of \<open>VMObject\<close>, its conversions and casts. The reader
  recurses as deep as the input nests, so it takes the number of calls the stack holds. Parsing and
  printing a big integer and the Base64 text are code of other crates: they are the parameter
  \<open>vm_text_api\<close>.
\<close>

section \<open>Objects\<close>

datatype VMObject =
    VO_None
  | VO_Struct "(VMObject \<times> VMObject) list"
  | VO_Bytes bytes
  | VO_Number int
  | VO_String rstring
  | VO_Timestamp u32
  | VO_Bool bool
  | VO_Enum u32
  | VO_Object bytes

definition vm_type_try_from :: "u8 \<Rightarrow> VMType_vm result" where
  "vm_type_try_from v =
     (if v = 0 then Ok VM_None else if v = 1 then Ok VM_Struct else if v = 2 then Ok VM_Bytes
      else if v = 3 then Ok VM_Number else if v = 4 then Ok VM_String else if v = 5 then Ok VM_Timestamp
      else if v = 6 then Ok VM_Bool else if v = 7 then Ok VM_Enum else if v = 8 then Ok VM_Object
      else Err (Serialization ''unsupported VM object type''))"

primrec vm_type :: "VMObject \<Rightarrow> VMType_vm" where
  "vm_type VO_None = VM_None"
| "vm_type (VO_Struct items) = VM_Struct"
| "vm_type (VO_Bytes v) = VM_Bytes"
| "vm_type (VO_Number v) = VM_Number"
| "vm_type (VO_String v) = VM_String"
| "vm_type (VO_Timestamp v) = VM_Timestamp"
| "vm_type (VO_Bool v) = VM_Bool"
| "vm_type (VO_Enum v) = VM_Enum"
| "vm_type (VO_Object v) = VM_Object"

section \<open>Byte form\<close>

lemma size_item [termination_simp]:
  "(k, v) \<in> set items \<Longrightarrow> size k < Suc (size_list (size_prod size size) items)"
  "(k, v) \<in> set items \<Longrightarrow> size v < Suc (size_list (size_prod size size) items)"
  by (induction items) auto

fun write_object :: "num_bigint \<Rightarrow> VMObject \<Rightarrow> wr_action" where
  "write_object nb VO_None = wr_seq [write_u8 (vm_type_byte VM_None)]"
| "write_object nb (VO_Struct items) =
     wr_seq [write_u8 (vm_type_byte VM_Struct), write_var_uint (word_of_nat (length items)),
       wr_seq (map (\<lambda>(key, v). wr_seq [write_object nb key, write_object nb v]) items)]"
| "write_object nb (VO_Bytes v) = wr_seq [write_u8 (vm_type_byte VM_Bytes), write_var_bytes v]"
| "write_object nb (VO_Number v) = wr_seq [write_u8 (vm_type_byte VM_Number), write_big_integer nb v]"
| "write_object nb (VO_String v) = wr_seq [write_u8 (vm_type_byte VM_String), write_string v]"
| "write_object nb (VO_Timestamp v) = wr_seq [write_u8 (vm_type_byte VM_Timestamp), write_u32_le v]"
| "write_object nb (VO_Bool v) = wr_seq [write_u8 (vm_type_byte VM_Bool), write_bool v]"
| "write_object nb (VO_Enum v) =
     wr_seq [write_u8 (vm_type_byte VM_Enum),
       (if v \<le> 255 then write_u8 (ucast v) else wr_fail (Serialization ''enum value exceeds one byte''))]"
| "write_object nb (VO_Object v) =
     wr_seq [write_u8 (vm_type_byte VM_Object), write_var_bytes (wr_run (write_var_bytes v))]"

definition object_to_bytes :: "num_bigint \<Rightarrow> VMObject \<Rightarrow> bytes result" where
  "object_to_bytes nb v = bind_result (write_object nb v \<lparr>wr_buffer = []\<rparr>) (\<lambda>w. Ok (wr_buffer w))"

text \<open>A byte array that holds an address with its length prefix is read as an object.\<close>

definition object_of_bytes :: "bytes \<Rightarrow> VMObject" where
  "object_of_bytes bs = (if length bs = 35 \<and> bs ! 0 = 34 then VO_Object (drop 1 bs) else VO_Bytes bs)"

fun read_object :: "nat \<Rightarrow> num_bigint \<Rightarrow> VMObject reader" where
  "read_object 0 nb = rd_panic Stack_Overflow"
| "read_object (Suc depth) nb =
     rd_bind (rd_bind read_u8 (\<lambda>b. rd_lift (vm_type_try_from b))) (\<lambda>t.
       case t of
         VM_None \<Rightarrow> rd_return VO_None
       | VM_Bool \<Rightarrow> rd_bind read_bool (\<lambda>v. rd_return (VO_Bool v))
       | VM_Bytes \<Rightarrow> rd_bind (read_var_bytes MAX_ARRAY_SIZE) (\<lambda>v. rd_return (VO_Bytes v))
       | VM_Enum \<Rightarrow> rd_bind read_u8 (\<lambda>v. rd_return (VO_Enum (ucast v)))
       | VM_Number \<Rightarrow> rd_bind (read_big_integer nb) (\<lambda>v. rd_return (VO_Number v))
       | VM_String \<Rightarrow> rd_bind read_string (\<lambda>v. rd_return (VO_String v))
       | VM_Timestamp \<Rightarrow> rd_bind read_u32_le (\<lambda>v. rd_return (VO_Timestamp v))
       | VM_Object \<Rightarrow> rd_bind (read_var_bytes MAX_ARRAY_SIZE) (\<lambda>bs. rd_return (object_of_bytes bs))
       | VM_Struct \<Rightarrow>
           rd_bind read_var_uint (\<lambda>cnt.
           rd_bind (rd_repeat (unat cnt)
             (rd_bind (read_object depth nb) (\<lambda>key. rd_bind (read_object depth nb) (\<lambda>v. rd_return (key, v)))))
             (\<lambda>items. rd_return (VO_Struct items))))"

definition object_from_bytes :: "nat \<Rightarrow> num_bigint \<Rightarrow> bytes \<Rightarrow> VMObject result" where
  "object_from_bytes depth nb data =
     bind_result (read_object depth nb \<lparr>rd_data = data, rd_offset = 0\<rparr>) (\<lambda>(v, r).
     bind_result (vm_assert_eof r) (\<lambda>_. Ok v))"

section \<open>UTF-16\<close>

text \<open>The characters of a valid UTF-8 text, and their UTF-8 and UTF-16 forms.\<close>

definition utf8_char :: "bytes \<Rightarrow> nat" where
  "utf8_char bs =
     (case map unat bs of
        [a] \<Rightarrow> a
      | [a, b] \<Rightarrow> (a - 0xC0) * 64 + (b - 0x80)
      | [a, b, c] \<Rightarrow> ((a - 0xE0) * 64 + (b - 0x80)) * 64 + (c - 0x80)
      | [a, b, c, d] \<Rightarrow> (((a - 0xF0) * 64 + (b - 0x80)) * 64 + (c - 0x80)) * 64 + (d - 0x80)
      | _ \<Rightarrow> 0)"

function utf8_chars :: "bytes \<Rightarrow> nat list" where
  "utf8_chars bs =
     (if utf8_width bs = 0 then []
      else utf8_char (take (utf8_width bs) bs) # utf8_chars (drop (utf8_width bs) bs))"
  by pat_completeness auto
termination
  by (relation "measure length") (auto simp: utf8_width_def split: list.splits)

declare utf8_chars.simps [simp del]

definition char_utf8 :: "nat \<Rightarrow> bytes" where
  "char_utf8 c =
     map word_of_nat
       (if c < 0x80 then [c]
        else if c < 0x800 then [0xC0 + c div 64, 0x80 + c mod 64]
        else if c < 0x10000 then [0xE0 + c div 4096, 0x80 + c div 64 mod 64, 0x80 + c mod 64]
        else [0xF0 + c div 262144, 0x80 + c div 4096 mod 64, 0x80 + c div 64 mod 64, 0x80 + c mod 64])"

definition char_utf16 :: "nat \<Rightarrow> nat list" where
  "char_utf16 c =
     (if c < 0x10000 then [c]
      else [0xD800 + (c - 0x10000) div 0x400, 0xDC00 + (c - 0x10000) mod 0x400])"

definition encode_utf16 :: "rstring \<Rightarrow> nat list" where
  "encode_utf16 s = concat (map char_utf16 (utf8_chars (string_bytes s)))"

fun utf16_chars :: "nat list \<Rightarrow> nat list option" where
  "utf16_chars [] = Some []"
| "utf16_chars (u # us) =
     (if u < 0xD800 \<or> 0xDFFF < u then map_option ((#) u) (utf16_chars us)
      else if 0xDBFF < u then None
      else case us of
          [] \<Rightarrow> None
        | l # us' \<Rightarrow>
            if l < 0xDC00 \<or> 0xDFFF < l then None
            else map_option ((#) (0x10000 + (u - 0xD800) * 0x400 + (l - 0xDC00))) (utf16_chars us'))"

definition from_utf16 :: "nat list \<Rightarrow> rstring option" where
  "from_utf16 us = map_option (\<lambda>cs. string_of (concat (map char_utf8 cs))) (utf16_chars us)"

section \<open>Conversions\<close>

record vm_text_api =
  parse_bigint :: "rstring \<Rightarrow> int option"
  bigint_text :: "int \<Rightarrow> rstring"
  base64_text :: "bytes \<Rightarrow> rstring"

text \<open>The message of a failed library conversion is the library's own.\<close>

definition library_error :: phantasma_error where
  "library_error = Serialization ''library error''"

fun struct_get_vm :: "(VMObject \<times> VMObject) list \<Rightarrow> VMObject \<Rightarrow> VMObject option" where
  "struct_get_vm [] key = None"
| "struct_get_vm ((k, v) # items) key = (if k = key then Some v else struct_get_vm items key)"

primrec as_number :: "vm_text_api \<Rightarrow> num_bigint \<Rightarrow> VMObject \<Rightarrow> int result" where
  "as_number api nb (VO_Number v) = Ok v"
| "as_number api nb (VO_Bytes v) = Ok (vm_bytes_to_big_int nb v)"
| "as_number api nb (VO_Object v) =
     (if length v = 32 then Ok (int (le_to_nat v)) else Err (Serialization ''cannot convert ''))"
| "as_number api nb (VO_Bool v) = Ok (if v then 1 else 0)"
| "as_number api nb (VO_String v) =
     (case parse_bigint api v of Some n \<Rightarrow> Ok n | None \<Rightarrow> Err library_error)"
| "as_number api nb (VO_Enum v) = Ok (uint v)"
| "as_number api nb (VO_Timestamp v) = Ok (uint v)"
| "as_number api nb VO_None = Ok 0"
| "as_number api nb (VO_Struct items) = Err (Serialization ''cannot convert '')"

text \<open>The loop of \<open>array_type\<close> over the indices, with the type detected so far.\<close>

fun array_type_from :: "(VMObject \<times> VMObject) list \<Rightarrow> nat list \<Rightarrow> VMType_vm option \<Rightarrow> VMType_vm" where
  "array_type_from items [] detected = (case detected of None \<Rightarrow> VM_None | Some t \<Rightarrow> t)"
| "array_type_from items (index # indices) detected =
     (case struct_get_vm items (VO_Number (int index)) of
        None \<Rightarrow> VM_None
      | Some v \<Rightarrow>
          if detected \<noteq> None \<and> detected \<noteq> Some (vm_type v) then VM_None
          else array_type_from items indices (Some (vm_type v)))"

definition array_type :: "VMObject \<Rightarrow> VMType_vm" where
  "array_type v =
     (case v of VO_Struct items \<Rightarrow> array_type_from items [0..<length items] None | _ \<Rightarrow> VM_None)"

text \<open>The UTF-16 code units of a struct that is an array of numbers.\<close>

definition code_unit :: "vm_text_api \<Rightarrow> num_bigint \<Rightarrow> (VMObject \<times> VMObject) list \<Rightarrow> nat \<Rightarrow> nat result" where
  "code_unit api nb items index =
     (case struct_get_vm items (VO_Number (int index)) of
        None \<Rightarrow> Err (Serialization ''invalid number array struct'')
      | Some v \<Rightarrow>
          bind_result (as_number api nb v) (\<lambda>n.
            if 0 \<le> n \<and> n < 65536 then Ok (nat n) else Err (Serialization ''UTF-16 code unit out of range'')))"

definition as_bytes :: "num_bigint \<Rightarrow> VMObject \<Rightarrow> bytes result" where
  "as_bytes nb obj =
     (case obj of
        VO_None \<Rightarrow> Err (Serialization ''cannot convert None to bytes'')
      | VO_String v \<Rightarrow> Ok (string_bytes v)
      | VO_Bytes v \<Rightarrow> Ok v
      | VO_Object v \<Rightarrow> Ok v
      | VO_Bool v \<Rightarrow> Ok [of_bool v]
      | VO_Enum v \<Rightarrow> Ok (to_le_bytes v)
      | VO_Timestamp v \<Rightarrow> Ok (to_le_bytes v)
      | VO_Number v \<Rightarrow> Ok (big_int_to_vm_bytes nb v)
      | VO_Struct _ \<Rightarrow> object_to_bytes nb obj)"

definition as_string :: "vm_text_api \<Rightarrow> num_bigint \<Rightarrow> VMObject \<Rightarrow> rstring result" where
  "as_string api nb obj =
     (case obj of
        VO_String v \<Rightarrow> Ok v
      | VO_Bytes v \<Rightarrow> (case from_utf8 v of Some s \<Rightarrow> Ok s | None \<Rightarrow> Err utf8_error)
      | VO_Bool v \<Rightarrow> Ok (if v then lit ''true'' else lit ''false'')
      | VO_Number v \<Rightarrow> Ok (bigint_text api v)
      | VO_Enum v \<Rightarrow> Ok (string_of (dec_text (unat v)))
      | VO_Timestamp v \<Rightarrow> Ok (string_of (dec_text (unat v)))
      | VO_None \<Rightarrow> Ok (lit ''Null'')
      | VO_Object _ \<Rightarrow> Err (Serialization ''cannot convert Object to string'')
      | VO_Struct items \<Rightarrow>
          if array_type obj = VM_Number then
            bind_result (collect_result (code_unit api nb items) [0..<length items]) (\<lambda>units.
              case from_utf16 units of Some s \<Rightarrow> Ok s | None \<Rightarrow> Err library_error)
          else bind_result (as_bytes nb obj) (\<lambda>bs. Ok (base64_text api bs)))"

definition as_bool :: "VMObject \<Rightarrow> bool result" where
  "as_bool obj =
     (case obj of
        VO_Bool v \<Rightarrow> Ok v
      | VO_Bytes v \<Rightarrow> if length v = 1 then Ok (v ! 0 \<noteq> 0) else Err (Serialization ''cannot convert '')
      | VO_Number v \<Rightarrow> Ok (v \<noteq> 0)
      | _ \<Rightarrow> Err (Serialization ''cannot convert ''))"

definition string_to_struct :: "rstring \<Rightarrow> VMObject" where
  "string_to_struct s =
     VO_Struct (map (\<lambda>(index, u). (VO_Number (int index), VO_Number (int u))) (List.enumerate 0 (encode_utf16 s)))"

definition cast_to :: "vm_text_api \<Rightarrow> num_bigint \<Rightarrow> VMObject \<Rightarrow> VMType_vm \<Rightarrow> VMObject result" where
  "cast_to api nb obj target =
     (if vm_type obj = target then Ok obj
      else case target of
          VM_None \<Rightarrow> Ok VO_None
        | VM_String \<Rightarrow> bind_result (as_string api nb obj) (\<lambda>s. Ok (VO_String s))
        | VM_Bytes \<Rightarrow> bind_result (as_bytes nb obj) (\<lambda>b. Ok (VO_Bytes b))
        | VM_Number \<Rightarrow> bind_result (as_number api nb obj) (\<lambda>n. Ok (VO_Number n))
        | VM_Bool \<Rightarrow> bind_result (as_bool obj) (\<lambda>b. Ok (VO_Bool b))
        | VM_Struct \<Rightarrow>
            (case obj of
               VO_String v \<Rightarrow> Ok (string_to_struct v)
             | VO_Object _ \<Rightarrow> Ok obj
             | _ \<Rightarrow> Err (Serialization ''invalid cast: ''))
        | VM_Timestamp \<Rightarrow> Err (Serialization ''invalid cast: '')
        | VM_Enum \<Rightarrow> Err (Serialization ''invalid cast: '')
        | VM_Object \<Rightarrow> Err (Serialization ''invalid cast: ''))"

section \<open>Round trip of the byte form\<close>

text \<open>How deep an object nests: the calls the reader needs.\<close>

fun object_nest :: "VMObject \<Rightarrow> nat" where
  "object_nest (VO_Struct items) = Suc (foldr max (map (\<lambda>(k, v). max (object_nest k) (object_nest v)) items) 0)"
| "object_nest _ = 0"

text \<open>
  The sizes the reader accepts. An enum has one byte on the wire; the other limits are the array
  limit of the reader.
\<close>

fun object_ok :: "num_bigint \<Rightarrow> VMObject \<Rightarrow> bool" where
  "object_ok nb (VO_Struct items) \<longleftrightarrow>
     length items < 2 ^ 64 \<and> list_all (\<lambda>(k, v). object_ok nb k \<and> object_ok nb v) items"
| "object_ok nb (VO_Bytes v) \<longleftrightarrow> length v \<le> MAX_ARRAY_SIZE"
| "object_ok nb (VO_Number v) \<longleftrightarrow> length (big_int_to_vm_bytes nb v) \<le> MAX_ARRAY_SIZE"
| "object_ok nb (VO_String v) \<longleftrightarrow> length (string_bytes v) \<le> MAX_ARRAY_SIZE"
| "object_ok nb (VO_Enum v) \<longleftrightarrow> v \<le> 255"
| "object_ok nb (VO_Object v) \<longleftrightarrow> length (wr_run (write_var_bytes v)) \<le> MAX_ARRAY_SIZE"
| "object_ok nb _ \<longleftrightarrow> True"

text \<open>An object payload that is not an address comes back as the bytes that carried it.\<close>

fun read_as :: "VMObject \<Rightarrow> VMObject" where
  "read_as (VO_Struct items) = VO_Struct (map (\<lambda>(k, v). (read_as k, read_as v)) items)"
| "read_as (VO_Object v) = (if length v = 34 then VO_Object v else VO_Bytes (wr_run (write_var_bytes v)))"
| "read_as obj = obj"

lemma parses_repeat_as:
  "(\<And>v. v \<in> set vs \<Longrightarrow> parses p (enc v) (g v)) \<Longrightarrow>
     parses (rd_repeat (length vs) p) (concat (map enc vs)) (map g vs)"
proof (induction vs)
  case (Cons v vs)
  have "parses (rd_bind (rd_repeat (length vs) p) (\<lambda>xs. rd_return (g v # xs)))
      (concat (map enc vs) @ []) (g v # map g vs)"
    using Cons by (intro parses_bind) auto
  then show ?case
    using Cons.prems by (auto intro!: parses_bind [where x = "g v"])
qed auto

lemma round_trip_repeat_as:
  assumes "\<And>v. v \<in> set vs \<Longrightarrow> round_trip1 (w v) p (g v)"
  shows "round_trip (wr_seq (map w vs)) (rd_repeat (length vs) p) (map g vs)"
proof -
  have "\<forall>v. \<exists>bs. v \<in> set vs \<longrightarrow> writes (w v) bs \<and> parses p bs (g v)"
    using assms by (auto simp: round_trip1_def)
  then obtain enc where enc: "\<And>v. v \<in> set vs \<Longrightarrow> writes (w v) (enc v) \<and> parses p (enc v) (g v)"
    by metis
  then have "writes (wr_seq (map w vs)) (concat (map enc vs))"
    using writes_for [of vs w enc] by (simp add: wr_for_def)
  moreover from enc have "parses (rd_repeat (length vs) p) (concat (map enc vs)) (map g vs)"
    by (intro parses_repeat_as) simp
  ultimately show ?thesis by (auto simp: round_trip_def)
qed

lemma var_bytes_small:
  assumes "length v < 0xFD"
  shows "wr_run (write_var_bytes v) = word_of_nat (length v) # v"
proof -
  have "(ucast (word_of_nat (length v) :: u64) :: u8) = word_of_nat (length v)"
    using assms by (intro word_unat_eq_iff [THEN iffD2]) (simp add: unat_ucast_small unat_of_nat)
  with assms show ?thesis
    by (simp add: wr_run_def write_var_bytes_def write_var_uint_def write_u8_def vm_write_def wr_bytes_def
        word_less_nat_alt unat_of_nat)
qed

lemma var_bytes_length: "length v \<le> length (wr_run (write_var_bytes v))"
  by (simp add: wr_run_def write_var_bytes_def write_var_uint_def write_u8_def write_u16_le_def
      write_u32_le_def write_u64_le_def vm_write_def wr_bytes_def)

lemma object_of_var_bytes:
  "object_of_bytes (wr_run (write_var_bytes v))
     = (if length v = 34 then VO_Object v else VO_Bytes (wr_run (write_var_bytes v)))"
proof (cases "length v < 0xFD")
  case True
  then show ?thesis by (simp add: object_of_bytes_def var_bytes_small)
next
  case False
  with var_bytes_length [of v] show ?thesis by (simp add: object_of_bytes_def)
qed

lemma vm_type_byte_inverse [simp]: "vm_type_try_from (vm_type_byte t) = Ok t"
  by (cases t) (simp_all add: vm_type_try_from_def)

text \<open>The type byte, and behind it what the reader of that type accepts.\<close>

lemma object_round_trip_tag:
  assumes "round_trip (wr_seq as) (case_VMType_vm r0 r1 r2 r3 r4 r5 r6 r7 r8 t) v"
  shows "round_trip1 (wr_seq (write_u8 (vm_type_byte t) # as))
    (rd_bind (rd_bind read_u8 (\<lambda>b. rd_lift (vm_type_try_from b)))
      (case_VMType_vm r0 r1 r2 r3 r4 r5 r6 r7 r8)) v"
proof -
  have "round_trip1 (write_u8 (vm_type_byte t)) (rd_bind read_u8 (\<lambda>b. rd_lift (vm_type_try_from b))) t"
    by (rule round_trip1_map [OF u8_round_trip]) simp
  then show ?thesis using assms by (rule round_trip1_cons)
qed

lemma round_trip_field: "round_trip1 a p x \<Longrightarrow> f x = rd_return v \<Longrightarrow> round_trip (wr_seq [a]) (rd_bind p f) v"
  by (intro round_trip_single round_trip1_imp round_trip1_map)

lemma foldr_max_less: "foldr max xs (0::nat) < n \<longleftrightarrow> 0 < n \<and> (\<forall>x\<in>set xs. x < n)"
  by (induction xs) auto

lemmas object_unfold = write_object.simps read_object.simps read_as.simps not_less0

lemma object_round_trip:
  "num_bigint_api nb \<Longrightarrow> object_nest v < depth \<Longrightarrow> object_ok nb v \<Longrightarrow>
     round_trip1 (write_object nb v) (read_object depth nb) (read_as v)"
proof (induction nb v arbitrary: depth rule: write_object.induct)
  case (1 nb)
  then show ?case
    by (cases depth) (simp_all only: object_unfold, rule object_round_trip_tag, simp add: round_trip_nil)
next
  case (2 nb items)
  then obtain d where d: "depth = Suc d" by (cases depth) auto
  let ?item = "rd_bind (read_object d nb) (\<lambda>key. rd_bind (read_object d nb) (\<lambda>v. rd_return (key, v)))"
  have item: "round_trip1 (case x of (key, v) \<Rightarrow> wr_seq [write_object nb key, write_object nb v]) ?item
      (case x of (k, v) \<Rightarrow> (read_as k, read_as v))" if x: "x \<in> set items" for x
  proof -
    obtain k v where kv: "x = (k, v)" by (cases x)
    from "2.prems"(2) x have "object_nest k < d" "object_nest v < d"
      by (auto simp: d kv foldr_max_less split: prod.splits)
    moreover from "2.prems"(3) x have "object_ok nb k" "object_ok nb v"
      by (auto simp: kv list_all_iff)
    ultimately have "round_trip1 (write_object nb k) (read_object d nb) (read_as k)"
      "round_trip1 (write_object nb v) (read_object d nb) (read_as v)"
      using "2.IH" "2.prems"(1) x kv by blast+
    then show ?thesis
      unfolding kv by simp (rule round_trip1_cons, assumption, rule round_trip_cons, assumption, rule round_trip_nil, rule refl)
  qed
  have "length items < 2 ^ 64" using "2.prems"(3) by simp
  then have cnt: "unat (word_of_nat (length items) :: u64) = length items" by (simp add: unat_of_nat)
  have "round_trip (wr_seq [write_var_uint (word_of_nat (length items)),
       wr_seq (map (\<lambda>(key, v). wr_seq [write_object nb key, write_object nb v]) items)])
     (rd_bind read_var_uint (\<lambda>cnt. rd_bind (rd_repeat (unat cnt) ?item) (\<lambda>items. rd_return (VO_Struct items))))
     (read_as (VO_Struct items))"
    by (intro round_trip_cons [OF var_uint_round_trip] round_trip_cons0 [where as = "[]"] round_trip_nil,
        subst cnt, rule round_trip_repeat_as, rule item, assumption, simp)
  then show ?case
    unfolding write_object.simps d read_object.simps
    by (intro object_round_trip_tag) simp
next
  case (3 nb v)
  then have "length v < 2 ^ 64" by (simp add: MAX_ARRAY_SIZE_def)
  with 3 show ?case
    by (cases depth) (simp_all only: object_unfold, rule object_round_trip_tag, simp add: round_trip_field [OF var_bytes_round_trip])
next
  case (4 nb v)
  then show ?case
    by (cases depth)
      (simp_all only: object_unfold, rule object_round_trip_tag, simp add: round_trip_field [OF num_bigint_api.big_integer_round_trip])
next
  case (5 nb v)
  then show ?case
    by (cases depth) (simp_all only: object_unfold, rule object_round_trip_tag, simp add: round_trip_field [OF string_round_trip])
next
  case (6 nb v)
  then show ?case
    by (cases depth) (simp_all only: object_unfold, rule object_round_trip_tag, simp add: round_trip_field [OF u32_le_round_trip])
next
  case (7 nb v)
  then show ?case
    by (cases depth) (simp_all only: object_unfold, rule object_round_trip_tag, simp add: round_trip_field [OF bool_round_trip])
next
  case (8 nb v)
  then have "unat v < 2 ^ LENGTH(8)" by (simp add: word_le_nat_alt)
  then have "ucast (ucast v :: u8) = v" by (rule ucast_ucast_small)
  with 8 show ?case
    by (cases depth) (simp_all only: object_unfold, rule object_round_trip_tag, simp add: round_trip_field [OF u8_round_trip])
next
  case (9 nb v)
  then have "length (wr_run (write_var_bytes v)) < 2 ^ 64" by (simp add: MAX_ARRAY_SIZE_def)
  with 9 show ?case
    by (cases depth) (simp_all only: object_unfold, rule object_round_trip_tag,
        simp add: round_trip_field [OF var_bytes_round_trip] object_of_var_bytes)
qed

section \<open>UTF-8 and UTF-16\<close>

definition scalar :: "nat \<Rightarrow> bool" where
  "scalar c \<longleftrightarrow> c < 0x110000 \<and> \<not> (0xD800 \<le> c \<and> c \<le> 0xDFFF)"

lemma utf16_char [simp]: "scalar c \<Longrightarrow> utf16_chars (char_utf16 c @ us) = map_option ((#) c) (utf16_chars us)"
proof -
  assume c: "scalar c"
  show ?thesis
  proof (cases "c < 0x10000")
    case True
    with c show ?thesis by (auto simp: scalar_def char_utf16_def)
  next
    case False
    let ?d = "c - 0x10000"
    from c False have "?d div 0x400 < 0x400"
      by (simp add: scalar_def less_mult_imp_div_less)
    moreover have "?d mod 0x400 < 0x400" by simp
    then have "\<not> 1023 < ?d mod 0x400" by linarith
    moreover have "0x10000 + ?d div 0x400 * 0x400 + ?d mod 0x400 = c"
      using False div_mult_mod_eq [of ?d "0x400"] by linarith
    ultimately show ?thesis using False by (simp add: char_utf16_def)
  qed
qed

lemma utf16_round_trip: "list_all scalar cs \<Longrightarrow> utf16_chars (concat (map char_utf16 cs)) = Some cs"
  by (induction cs) simp_all

text \<open>The bytes of a character and its number determine each other.\<close>

lemma utf8_word_facts:
  "utf8_cont b \<longleftrightarrow> 0x80 \<le> unat b \<and> unat b \<le> 0xBF"
  "utf8_second a b \<longleftrightarrow> (unat a = 0xE0 \<longrightarrow> 0xA0 \<le> unat b) \<and> (unat a = 0xED \<longrightarrow> unat b \<le> 0x9F)
      \<and> (unat a = 0xF0 \<longrightarrow> 0x90 \<le> unat b) \<and> (unat a = 0xF4 \<longrightarrow> unat b \<le> 0x8F)"
  by (auto simp: utf8_cont_def utf8_second_def word_le_nat_alt word_unat_eq_iff)

lemma utf8_lead_cases:
  "utf8_lead a = 1 \<longleftrightarrow> unat a < 0x80"
  "utf8_lead a = 2 \<longleftrightarrow> 0xC2 \<le> unat a \<and> unat a \<le> 0xDF"
  "utf8_lead a = 3 \<longleftrightarrow> 0xE0 \<le> unat a \<and> unat a \<le> 0xEF"
  "utf8_lead a = 4 \<longleftrightarrow> 0xF0 \<le> unat a \<and> unat a \<le> 0xF4"
  by (auto simp: utf8_lead_def word_le_nat_alt word_less_nat_alt)

lemma utf8_lead_range: "utf8_lead a \<in> {0, 1, 2, 3, 4}"
  by (simp add: utf8_lead_def)

lemma utf8_width_elim:
  assumes "utf8_width bs \<noteq> 0"
  obtains
    (1) a where "take (utf8_width bs) bs = [a]" "unat a < 0x80"
  | (2) a b where "take (utf8_width bs) bs = [a, b]" "0xC2 \<le> unat a" "unat a \<le> 0xDF"
      "0x80 \<le> unat b" "unat b \<le> 0xBF"
  | (3) a b c where "take (utf8_width bs) bs = [a, b, c]" "0xE0 \<le> unat a" "unat a \<le> 0xEF"
      "0x80 \<le> unat b" "unat b \<le> 0xBF" "0x80 \<le> unat c" "unat c \<le> 0xBF"
      "unat a = 0xE0 \<longrightarrow> 0xA0 \<le> unat b" "unat a = 0xED \<longrightarrow> unat b \<le> 0x9F"
  | (4) a b c d where "take (utf8_width bs) bs = [a, b, c, d]" "0xF0 \<le> unat a" "unat a \<le> 0xF4"
      "0x80 \<le> unat b" "unat b \<le> 0xBF" "0x80 \<le> unat c" "unat c \<le> 0xBF" "0x80 \<le> unat d" "unat d \<le> 0xBF"
      "unat a = 0xF0 \<longrightarrow> 0x90 \<le> unat b" "unat a = 0xF4 \<longrightarrow> unat b \<le> 0x8F"
proof -
  obtain a r where bs: "bs = a # r" using assms by (cases bs) (auto simp: utf8_width_def)
  with assms have w: "utf8_width bs = utf8_lead a" and len: "utf8_lead a \<le> Suc (length r)"
    and cont: "list_all utf8_cont (take (utf8_lead a - 1) r)"
    and sec: "2 \<le> utf8_lead a \<longrightarrow> utf8_second a (r ! 0)"
    by (auto simp: utf8_width_def Let_def split: if_split_asm)
  have tk: "take (utf8_width bs) bs = take (utf8_lead a) (a # r)" by (simp only: w) (simp only: bs)
  from assms utf8_lead_range [of a] w consider "utf8_lead a = 1" | "utf8_lead a = 2" | "utf8_lead a = 3" | "utf8_lead a = 4"
    by auto
  then show thesis
  proof cases
    case 1
    then show thesis using utf8_lead_cases(1) [of a] by (intro that(1) [of a]) (simp_all add: tk)
  next
    case 2
    with len obtain b r' where r: "r = b # r'" by (cases r) auto
    from 2 utf8_lead_cases(2) [of a] cont show thesis
      by (intro that(2) [of a b]) (simp_all add: tk r utf8_word_facts)
  next
    case 3
    with len obtain b c r' where r: "r = b # c # r'" by (cases r; cases "tl r") auto
    from 3 utf8_lead_cases(3) [of a] cont sec show thesis
      by (intro that(3) [of a b c]) (simp_all add: tk r utf8_word_facts numeral_3_eq_3)
  next
    case 4
    with len obtain b c d r' where r: "r = b # c # d # r'" by (cases r; cases "tl r"; cases "tl (tl r)") auto
    from 4 utf8_lead_cases(4) [of a] cont sec show thesis
      by (intro that(4) [of a b c d]) (simp_all add: tk r utf8_word_facts eval_nat_numeral)
  qed
qed

lemma digits64: "y < 64 \<Longrightarrow> (x * 64 + y) div 64 = x" "y < 64 \<Longrightarrow> (x * 64 + y) mod 64 = (y :: nat)"
  by simp_all

lemma div_64_powers: "(c::nat) div 4096 = c div 64 div 64" "c div 262144 = c div 64 div 64 div 64"
  by (simp_all flip: div_mult2_eq)

lemma char_utf8_inverse:
  assumes "utf8_width bs \<noteq> 0"
  shows "char_utf8 (utf8_char (take (utf8_width bs) bs)) = take (utf8_width bs) bs
    \<and> scalar (utf8_char (take (utf8_width bs) bs))"
  using assms
proof (cases rule: utf8_width_elim)
  case (1 a)
  then show ?thesis by (simp add: utf8_char_def char_utf8_def scalar_def)
next
  case (2 a b)
  define x y where "x = unat a - 0xC0" and "y = unat b - 0x80"
  with 2 have ab: "unat a = 0xC0 + x" "unat b = 0x80 + y" and xy: "2 \<le> x" "x < 32" "y < 64" by linarith+
  then have c: "utf8_char [a, b] = x * 64 + y" by (simp add: utf8_char_def)
  have "0x80 \<le> x * 64 + y" "x * 64 + y < 0x800" using xy by linarith+
  then have "char_utf8 (x * 64 + y) = map word_of_nat [0xC0 + x, 0x80 + y]"
    by (simp only: char_utf8_def digits64 [OF xy(3)]) simp
  also have "\<dots> = [a, b]" by (simp flip: ab)
  finally show ?thesis using xy by (simp add: 2(1) c scalar_def)
next
  case (3 a b c)
  define x y z where "x = unat a - 0xE0" and "y = unat b - 0x80" and "z = unat c - 0x80"
  with 3 have ab: "unat a = 0xE0 + x" "unat b = 0x80 + y" "unat c = 0x80 + z"
    and xy: "x < 16" "y < 64" "z < 64" "x = 0 \<longrightarrow> 32 \<le> y" "x = 13 \<longrightarrow> y < 32" by linarith+
  then have u: "utf8_char [a, b, c] = (x * 64 + y) * 64 + z" by (simp add: utf8_char_def)
  have r: "0x800 \<le> (x * 64 + y) * 64 + z" "(x * 64 + y) * 64 + z < 0x10000"
    using xy by (cases "x = 0"; simp)+
  then have "char_utf8 ((x * 64 + y) * 64 + z) = map word_of_nat [0xE0 + x, 0x80 + y, 0x80 + z]"
    by (simp only: char_utf8_def div_64_powers digits64 [OF xy(2)] digits64 [OF xy(3)]) simp
  also have "\<dots> = [a, b, c]" by (simp flip: ab)
  finally have "char_utf8 ((x * 64 + y) * 64 + z) = [a, b, c]" .
  moreover have "scalar ((x * 64 + y) * 64 + z)"
  proof -
    from xy consider "x \<le> 12" | "x = 13" | "14 \<le> x" by linarith
    then show ?thesis using xy r by cases (auto simp: scalar_def)
  qed
  ultimately show ?thesis by (simp only: 3(1) u simp_thms)
next
  case (4 a b c d)
  define x y z w where "x = unat a - 0xF0" and "y = unat b - 0x80" and "z = unat c - 0x80" and "w = unat d - 0x80"
  with 4 have ab: "unat a = 0xF0 + x" "unat b = 0x80 + y" "unat c = 0x80 + z" "unat d = 0x80 + w"
    and xy: "x < 5" "y < 64" "z < 64" "w < 64" "x = 0 \<longrightarrow> 16 \<le> y" "x = 4 \<longrightarrow> y < 16" by linarith+
  then have u: "utf8_char [a, b, c, d] = ((x * 64 + y) * 64 + z) * 64 + w" by (simp add: utf8_char_def)
  have r: "0x10000 \<le> ((x * 64 + y) * 64 + z) * 64 + w" "((x * 64 + y) * 64 + z) * 64 + w < 0x110000"
    using xy by (cases "x = 0"; cases "x = 4"; simp)+
  then have "char_utf8 (((x * 64 + y) * 64 + z) * 64 + w)
      = map word_of_nat [0xF0 + x, 0x80 + y, 0x80 + z, 0x80 + w]"
    by (simp only: char_utf8_def div_64_powers digits64 [OF xy(2)] digits64 [OF xy(3)] digits64 [OF xy(4)]) simp
  also have "\<dots> = [a, b, c, d]" by (simp flip: ab)
  finally have "char_utf8 (((x * 64 + y) * 64 + z) * 64 + w) = [a, b, c, d]" .
  moreover have "scalar (((x * 64 + y) * 64 + z) * 64 + w)"
    using r by (simp add: scalar_def)
  ultimately show ?thesis by (simp only: 4(1) u simp_thms)
qed

lemma utf8_chars_inverse:
  "utf8_valid bs \<Longrightarrow> concat (map char_utf8 (utf8_chars bs)) = bs \<and> list_all scalar (utf8_chars bs)"
proof (induction bs rule: utf8_valid.induct)
  case (1 bs)
  show ?case
  proof (cases "bs = []")
    case True
    then show ?thesis by (simp add: utf8_chars.simps [of "[]"] utf8_width_def)
  next
    case False
    with "1.prems" have w: "utf8_width bs \<noteq> 0" "utf8_valid (drop (utf8_width bs) bs)"
      by (simp_all add: utf8_valid.simps [of bs] split: if_split_asm)
    with 1 False char_utf8_inverse [OF w(1)] show ?thesis
      by (simp add: utf8_chars.simps [of bs])
  qed
qed

lemma utf16_text_round_trip: "from_utf16 (encode_utf16 s) = Some s"
  using utf8_chars_inverse [of "string_bytes s"]
  by (simp add: from_utf16_def encode_utf16_def utf16_round_trip)

lemma encode_utf16_range: "u \<in> set (encode_utf16 s) \<Longrightarrow> u < 65536"
proof -
  assume "u \<in> set (encode_utf16 s)"
  then obtain c where c: "c \<in> set (utf8_chars (string_bytes s))" "u \<in> set (char_utf16 c)"
    by (auto simp: encode_utf16_def)
  with utf8_chars_inverse [of "string_bytes s"] have "c < 0x110000"
    by (auto simp: list_all_iff scalar_def)
  with c(2) show ?thesis by (auto simp: char_utf16_def split: if_split_asm)
qed

section \<open>Strings as structs of code units\<close>

lemma struct_get_number:
  "struct_get_vm (map (\<lambda>(i, u). (VO_Number (int i), f u)) (List.enumerate n us)) (VO_Number (int j))
     = (if n \<le> j \<and> j < n + length us then Some (f (us ! (j - n))) else None)"
proof (induction us arbitrary: n)
  case (Cons u us)
  then show ?case
    by (cases "j = n") (auto simp: nth_Cons' Suc_diff_Suc)
qed simp

lemma array_type_all:
  assumes "\<And>j. j \<in> set js \<Longrightarrow> \<exists>v. struct_get_vm items (VO_Number (int j)) = Some v \<and> vm_type v = t"
    and "d = None \<and> js \<noteq> [] \<or> d = Some t"
  shows "array_type_from items js d = t"
  using assms
proof (induction js arbitrary: d)
  case (Cons j js)
  from Cons.prems(1) [of j] obtain v where "struct_get_vm items (VO_Number (int j)) = Some v" "vm_type v = t"
    by auto
  with Cons show ?case by auto
qed auto

lemma string_struct_array:
  assumes "encode_utf16 s \<noteq> []"
  shows "array_type (string_to_struct s) = VM_Number"
  unfolding string_to_struct_def array_type_def using assms
  by (auto intro!: array_type_all simp: struct_get_number)

lemma string_struct_text:
  assumes "string_bytes s \<noteq> []"
  shows "as_string api nb (string_to_struct s) = Ok s"
proof -
  let ?us = "encode_utf16 s"
  let ?items = "map (\<lambda>(i, u). (VO_Number (int i), VO_Number (int u))) (List.enumerate 0 ?us)"
  have ne: "?us \<noteq> []"
  proof
    assume "?us = []"
    then have "from_utf16 ?us = Some (string_of [])" by (simp add: from_utf16_def)
    with utf16_text_round_trip [of s] have "s = string_of []" by simp
    with assms show False by simp
  qed
  have "code_unit api nb ?items j = Ok (?us ! j)" if "j < length ?us" for j
    using that encode_utf16_range [of "?us ! j" s] by (simp add: code_unit_def struct_get_number)
  then have "collect_result (code_unit api nb ?items) [0..<length ?items] = Ok (map ((!) ?us) [0..<length ?us])"
    by (subst collect_result_Ok [where g = "(!) ?us"]) simp_all
  then have "collect_result (code_unit api nb ?items) [0..<length ?items] = Ok ?us"
    by (simp add: map_nth)
  then show ?thesis
    using string_struct_array [OF ne] utf16_text_round_trip [of s]
    by (simp add: as_string_def string_to_struct_def)
qed

section \<open>How deep the reader recurses\<close>

text \<open>Reading at most \<open>n\<close> bytes without a panic.\<close>

definition total_within :: "nat \<Rightarrow> 'a reader \<Rightarrow> bool" where
  "total_within n p \<longleftrightarrow>
     (\<forall>r. reader_wf r \<longrightarrow> remaining r \<le> n \<longrightarrow>
        (case p r of Ok (x, r') \<Rightarrow> advances r r' | Err _ \<Rightarrow> True | Panic _ \<Rightarrow> False))"

lemma total_safe: "safe_reader p \<Longrightarrow> total_within n p"
  unfolding safe_reader_def total_within_def settled_def by (fastforce split: result.splits)

lemma advances_remaining: "advances r s \<Longrightarrow> remaining s \<le> remaining r"
  by (simp add: advances_def remaining_def diff_le_mono2)

lemma total_bind:
  assumes "total_within n p" and "\<And>x. total_within n (f x)"
  shows "total_within n (rd_bind p f)"
  unfolding total_within_def
proof (intro allI impI)
  fix r assume r: "reader_wf r" "remaining r \<le> n"
  with assms(1) have p: "case p r of Ok (x, r') \<Rightarrow> advances r r' | Err _ \<Rightarrow> True | Panic _ \<Rightarrow> False"
    by (simp add: total_within_def)
  have "case f x s of Ok (y, r') \<Rightarrow> advances r r' | Err _ \<Rightarrow> True | Panic _ \<Rightarrow> False" if "p r = Ok (x, s)" for x s
  proof -
    from p that have adv: "advances r s" by simp
    with r advances_remaining [OF adv] have "reader_wf s" "remaining s \<le> n" by (auto dest: advances_wf)
    with assms(2) [of x] have "case f x s of Ok (y, r') \<Rightarrow> advances s r' | Err _ \<Rightarrow> True | Panic _ \<Rightarrow> False"
      by (simp add: total_within_def)
    with adv show ?thesis by (auto split: result.splits intro: advances_trans)
  qed
  with p show "case rd_bind p f r of Ok (x, r') \<Rightarrow> advances r r' | Err _ \<Rightarrow> True | Panic _ \<Rightarrow> False"
    by (cases "p r") (auto simp: rd_bind_def)
qed

lemma total_repeat: "total_within n p \<Longrightarrow> total_within n (rd_repeat k p)"
proof (induction k)
  case (Suc k)
  then show ?case unfolding rd_repeat.simps by (intro total_bind total_safe [OF safe_return])
qed (simp add: total_safe safe_return)

lemma read_u8_consumes:
  assumes "reader_wf r" and "read_u8 r = Ok (b, s)"
  shows "remaining s < remaining r"
proof -
  obtain raw where raw: "vm_read_array 1 r = Ok (raw, s)"
    using assms(2) by (auto simp: read_u8_def rd_bind_def bind_result_eq_Ok rd_return_def)
  have "rd_offset s = rd_offset r + 1" using vm_array.read_length [OF assms(1) raw] by simp
  moreover have "advances r s" by (rule safe_readerD(3) [OF vm_reads_safe(2) assms(1) raw])
  ultimately show ?thesis by (simp add: advances_def remaining_def diff_less_mono2)
qed

lemma total_no_bytes: "total_within 0 (rd_bind read_u8 f)"
  unfolding total_within_def
proof (intro allI impI)
  fix r assume r: "reader_wf r" "remaining r \<le> 0"
  with read_u8_consumes [OF r(1)] have "read_u8 r \<noteq> Ok (b, s)" for b s by fastforce
  with safe_readerD(1) [OF fixed_reads_safe(1) r(1)]
  show "case rd_bind read_u8 f r of Ok (x, r') \<Rightarrow> advances r r' | Err _ \<Rightarrow> True | Panic _ \<Rightarrow> False"
    by (cases "read_u8 r") (auto simp: rd_bind_def)
qed

lemma total_after_byte:
  assumes "\<And>b. total_within n (f b)"
  shows "total_within (Suc n) (rd_bind read_u8 f)"
  unfolding total_within_def
proof (intro allI impI)
  fix r assume r: "reader_wf r" "remaining r \<le> Suc n"
  note safe = safe_readerD [OF fixed_reads_safe(1) r(1)]
  have "case f b s of Ok (y, r') \<Rightarrow> advances r r' | Err _ \<Rightarrow> True | Panic _ \<Rightarrow> False" if "read_u8 r = Ok (b, s)" for b s
  proof -
    have adv: "advances r s" by (rule safe(3) [OF that])
    with r read_u8_consumes [OF r(1) that] have "reader_wf s" "remaining s \<le> n" by (auto dest: advances_wf)
    with assms [of b] have "case f b s of Ok (y, r') \<Rightarrow> advances s r' | Err _ \<Rightarrow> True | Panic _ \<Rightarrow> False"
      by (simp add: total_within_def)
    with adv show ?thesis by (auto split: result.splits intro: advances_trans)
  qed
  with safe(1) show "case rd_bind read_u8 f r of Ok (x, r') \<Rightarrow> advances r r' | Err _ \<Rightarrow> True | Panic _ \<Rightarrow> False"
    by (cases "read_u8 r") (auto simp: rd_bind_def)
qed

lemma vm_type_try_from_total: "\<not> panics (vm_type_try_from b)"
  by (simp add: vm_type_try_from_def)

lemma read_object_total: "total_within n (read_object (Suc n) nb)"
proof (induction n)
  case 0
  show ?case unfolding read_object.simps rd_bind_assoc by (rule total_no_bytes)
next
  case (Suc n)
  show ?case
    unfolding read_object.simps(2) [of "Suc n"] rd_bind_assoc
    apply (rule total_after_byte)
    apply (rule total_bind)
     apply (rule total_safe, rule rd_lift_safe, rule vm_type_try_from_total)
    subgoal for b t
      by (cases t; simp only: VMType_vm.case)
        (rule total_safe; intro safe_intros; fail | intro total_bind total_repeat Suc.IH total_safe [OF safe_return]
          total_safe [OF var_reads_safe(1)])+
    done
qed

definition object_level :: bytes where
  "object_level = [1, 1]"

lemma nested_object_panics:
  "read_object d nb (reader_at pre (concat (replicate d object_level) @ post)) = Panic Stack_Overflow"
proof (induction d arbitrary: pre)
  case (Suc d)
  let ?rest = "concat (replicate d object_level) @ post"
  have "parses read_var_uint [1] 1"
    using var_uint_round_trip [of 1]
    by (auto simp: round_trip1_def write_var_uint_def write_u8_def dest: writes_unique [OF writes_bytes])
  from parses_reader_at [OF parses_u8 [of 1], of pre "[1] @ ?rest"]
    parses_reader_at [OF this, of "pre @ [1]" ?rest] Suc
  show ?case
    by (simp add: object_level_def rd_bind_def rd_lift_def vm_type_try_from_def)
qed (simp add: rd_panic_def)

section \<open>Properties\<close>

text \<open>C25: An object whose parts fit the wire is written, and what is written reads back as the same
  object wherever the stack holds its nesting; only a payload of type \<open>Object\<close> that is not an
  address comes back as the bytes that carried it.\<close>

theorem object_bytes_round_trip:
  assumes "num_bigint_api nb" and "object_ok nb v" and "object_nest v < depth"
  shows "\<exists>bs. object_to_bytes nb v = Ok bs \<and> object_from_bytes depth nb bs = Ok (read_as v)"
proof -
  obtain bs where "writes (write_object nb v) bs" "parses (read_object depth nb) bs (read_as v)"
    using object_round_trip [OF assms(1,3,2)] by (auto simp: round_trip1_def)
  then show ?thesis
    using parses_start [of "read_object depth nb" bs "read_as v"]
    by (simp add: object_to_bytes_def object_from_bytes_def writes_def reader_at_def vm_assert_eof_def
        slice_assert_eof_def remaining_def)
qed

theorem object_bytes_round_trip_witness:
  "\<exists>bs. object_to_bytes num_bigint_std (VO_Struct [(VO_Number 0, VO_Bool True), (VO_Enum 7, VO_Struct [])]) = Ok bs \<and>
     object_from_bytes 3 num_bigint_std bs = Ok (VO_Struct [(VO_Number 0, VO_Bool True), (VO_Enum 7, VO_Struct [])])"
proof -
  have "length (big_int_to_vm_bytes num_bigint_std 0) \<le> 2"
    by (simp add: big_int_to_vm_bytes_def big_int_to_csharp_bytes_def Let_def)
  then show ?thesis
    using object_bytes_round_trip [OF num_bigint_std.num_bigint_api_axioms,
        of "VO_Struct [(VO_Number 0, VO_Bool True), (VO_Enum 7, VO_Struct [])]" 3]
    by (simp add: MAX_ARRAY_SIZE_def)
qed

text \<open>A string cast to a struct is the array of its UTF-16 code units, and casting that struct back to
  a string gives the same text; the empty string alone comes back as the Base64 text of the bytes of
  the empty struct.\<close>

theorem string_struct_casts:
  "cast_to api nb (VO_String s) VM_Struct = Ok (string_to_struct s) \<and>
   cast_to api nb (string_to_struct s) VM_String =
     Ok (VO_String (if string_bytes s = [] then base64_text api [1, 0] else s))"
proof (cases "string_bytes s = []")
  case True
  then have "string_to_struct s = VO_Struct []"
    by (simp add: string_to_struct_def encode_utf16_def utf8_chars.simps [of "[]"] utf8_width_def)
  then show ?thesis
    using True
    by (simp add: cast_to_def as_string_def as_bytes_def array_type_def object_to_bytes_def
        write_var_uint_def write_u8_def wr_bytes_def)
next
  case False
  then have "as_string api nb (string_to_struct s) = Ok s" by (rule string_struct_text)
  moreover have "vm_type (string_to_struct s) = VM_Struct" by (simp add: string_to_struct_def)
  ultimately show ?thesis using False by (simp add: cast_to_def)
qed

text \<open>C36: Reading an object of \<open>n\<close> bytes never panics when the stack holds more than \<open>n\<close> nested calls, whatever
  the bytes; but nothing else bounds the recursion: for every stack there is an input of two bytes per
  call that exhausts it.\<close>

theorem object_reader_depth:
  "(length data < depth \<longrightarrow> \<not> panics (object_from_bytes depth nb data)) \<and>
   object_from_bytes depth nb (concat (replicate depth object_level)) = Panic Stack_Overflow"
proof (intro conjI impI)
  assume less: "length data < depth"
  let ?r = "\<lparr>rd_data = data, rd_offset = 0\<rparr>"
  have "total_within (depth - 1) (read_object (Suc (depth - 1)) nb)" by (rule read_object_total)
  moreover have "reader_wf ?r" "remaining ?r \<le> depth - 1"
    using less by (simp_all add: reader_wf_def remaining_def)
  ultimately have "\<not> panics (read_object depth nb ?r)"
    using less by (auto simp: total_within_def panics_def split: result.splits)
  then show "\<not> panics (object_from_bytes depth nb data)"
    by (auto simp: object_from_bytes_def panics_bind vm_assert_eof_def slice_assert_eof_def)
next
  show "object_from_bytes depth nb (concat (replicate depth object_level)) = Panic Stack_Overflow"
    using nested_object_panics [of depth nb "[]" "[]"] by (simp add: object_from_bytes_def reader_at_def)
qed

theorem object_reader_depth_witness:
  "\<not> panics (object_from_bytes 4 num_bigint_std [1, 1, 6])"
  using object_reader_depth [of "[1, 1, 6]" 4 num_bigint_std] by simp

text \<open>C35: A successful cast gives an object of the requested type, and changes nothing when the object has it
  already; the one exception is an \<open>Object\<close> cast to \<open>Struct\<close>, which is answered unchanged.\<close>

theorem cast_gives_requested_type:
  assumes "cast_to api nb v t = Ok w"
  shows "(vm_type w = t \<or> t = VM_Struct \<and> vm_type v = VM_Object \<and> w = v) \<and> (vm_type v = t \<longrightarrow> w = v)"
  using assms
  by (auto simp: cast_to_def bind_result_eq_Ok string_to_struct_def
      split: if_split_asm VMType_vm.split_asm VMObject.split_asm)

theorem cast_gives_requested_type_witness:
  "vm_type (VO_Bytes [1]) = VM_Bytes \<and>
   cast_to \<lparr>parse_bigint = (\<lambda>_. None), bigint_text = (\<lambda>_. lit ''x''), base64_text = (\<lambda>_. lit ''x'')\<rparr>
     num_bigint_std (VO_Bool True) VM_Bytes = Ok (VO_Bytes [1])"
proof -
  have ok: "cast_to \<lparr>parse_bigint = (\<lambda>_. None), bigint_text = (\<lambda>_. lit ''x''), base64_text = (\<lambda>_. lit ''x'')\<rparr>
     num_bigint_std (VO_Bool True) VM_Bytes = Ok (VO_Bytes [1])"
    by (simp add: cast_to_def as_bytes_def)
  from cast_gives_requested_type [OF this] ok show ?thesis by simp
qed

end
