(* ===== verification/Json.thy ===== *)
theory Json
  imports Decimals "HOL-Library.Monad_Syntax"
begin

text \<open>
  JSON values and their typed reading and writing, as \<open>serde_json\<close> documents them for the structs the
  SDK derives. A JSON object is a \<open>BTreeMap\<close>, the sorted list of its entries. A decoder answers \<open>None\<close> where
  deserialization fails: no caller of the SDK looks at the message. The collection \<open>json_reads\<close> holds, type
  by type, that what an encoder writes its decoder reads; a struct is verified field by field.
\<close>

named_theorems json_reads \<open>decoders applied to the value their encoder wrote\<close>

section \<open>Values\<close>

datatype json_number = N_Pos u64 | N_Neg i64 | N_Float u64

datatype json =
    J_Null
  | J_Bool bool
  | J_Number json_number
  | J_String rstring
  | J_Array "json list"
  | J_Object "(rstring \<times> json) list"

type_synonym 'a json_decoder = "json \<Rightarrow> 'a option"

definition value_u64 :: "json \<Rightarrow> u64 option" where
  "value_u64 v = (case v of J_Number (N_Pos n) \<Rightarrow> Some n | _ \<Rightarrow> None)"

definition value_str :: "json \<Rightarrow> rstring option" where
  "value_str v = (case v of J_String s \<Rightarrow> Some s | _ \<Rightarrow> None)"

section \<open>Decoders of the derived types\<close>

definition de_string :: "rstring json_decoder" where
  "de_string = value_str"

definition de_bool :: "bool json_decoder" where
  "de_bool v = (case v of J_Bool b \<Rightarrow> Some b | _ \<Rightarrow> None)"

definition de_u64 :: "u64 json_decoder" where
  "de_u64 = value_u64"

definition de_u32 :: "u32 json_decoder" where
  "de_u32 v =
     (case v of J_Number (N_Pos n) \<Rightarrow> if n \<le> 0xFFFFFFFF then Some (ucast n) else None | _ \<Rightarrow> None)"

definition de_u8 :: "u8 json_decoder" where
  "de_u8 v = (case v of J_Number (N_Pos n) \<Rightarrow> if n \<le> 0xFF then Some (ucast n) else None | _ \<Rightarrow> None)"

definition de_i64 :: "i64 json_decoder" where
  "de_i64 v =
     (case v of
        J_Number (N_Pos n) \<Rightarrow> if n \<le> 0x7FFFFFFFFFFFFFFF then Some n else None
      | J_Number (N_Neg n) \<Rightarrow> Some n
      | _ \<Rightarrow> None)"

primrec de_each :: "'a json_decoder \<Rightarrow> json list \<Rightarrow> 'a list option" where
  "de_each de [] = Some []"
| "de_each de (v # vs) = do { x \<leftarrow> de v; xs \<leftarrow> de_each de vs; Some (x # xs) }"

definition de_vec :: "'a json_decoder \<Rightarrow> 'a list json_decoder" where
  "de_vec de v = (case v of J_Array vs \<Rightarrow> de_each de vs | _ \<Rightarrow> None)"

definition de_option :: "'a json_decoder \<Rightarrow> 'a option json_decoder" where
  "de_option de v = (if v = J_Null then Some None else map_option Some (de v))"

definition de_btree :: "'a json_decoder \<Rightarrow> (rstring \<times> 'a) list json_decoder" where
  "de_btree de v =
     (case v of
        J_Object m \<Rightarrow> do { xs \<leftarrow> de_each de (map snd m); Some (zip (map fst m) xs) }
      | _ \<Rightarrow> None)"

text \<open>
  A derived struct reads an object by field name, ignoring other names, or an array by position, and
  takes the default for a field that is not there (\<open>#[serde(default)]\<close>).
\<close>

type_synonym json_members = "nat \<Rightarrow> string \<Rightarrow> json option"

definition members :: "nat \<Rightarrow> json \<Rightarrow> json_members option" where
  "members n v =
     (case v of
        J_Object m \<Rightarrow> Some (\<lambda>i name. map_of m (lit name))
      | J_Array vs \<Rightarrow>
          if length vs \<le> n then Some (\<lambda>i name. if i < length vs then Some (vs ! i) else None) else None
      | _ \<Rightarrow> None)"

definition field :: "json_members \<Rightarrow> nat \<Rightarrow> string \<Rightarrow> 'a \<Rightarrow> 'a json_decoder \<Rightarrow> 'a option" where
  "field m i name dflt de = (case m i name of None \<Rightarrow> Some dflt | Some v \<Rightarrow> de v)"

section \<open>Encoders\<close>

definition json_u64 :: "u64 \<Rightarrow> json" where
  "json_u64 n = J_Number (N_Pos n)"

definition json_u32 :: "u32 \<Rightarrow> json" where
  "json_u32 n = J_Number (N_Pos (ucast n))"

definition json_u8 :: "u8 \<Rightarrow> json" where
  "json_u8 n = J_Number (N_Pos (ucast n))"

definition json_i64 :: "i64 \<Rightarrow> json" where
  "json_i64 n = J_Number (if 0 \<le> sint n then N_Pos n else N_Neg n)"

definition json_vec :: "('a \<Rightarrow> json) \<Rightarrow> 'a list \<Rightarrow> json" where
  "json_vec enc xs = J_Array (map enc xs)"

definition json_option :: "('a \<Rightarrow> json) \<Rightarrow> 'a option \<Rightarrow> json" where
  "json_option enc x = (case x of None \<Rightarrow> J_Null | Some x \<Rightarrow> enc x)"

definition json_btree :: "('a \<Rightarrow> json) \<Rightarrow> (rstring \<times> 'a) list \<Rightarrow> json" where
  "json_btree enc m = J_Object (map (\<lambda>(k, v). (k, enc v)) m)"

text \<open>The entries of a struct reach the ordered map of the object one by one.\<close>

definition struct_map :: "(string \<times> json) list \<Rightarrow> (rstring \<times> json) list" where
  "struct_map kvs = fold (\<lambda>(k, v). btree_insert (lit k) v) kvs []"

definition json_struct :: "(string \<times> json) list \<Rightarrow> json" where
  "json_struct kvs = J_Object (struct_map kvs)"

text \<open>\<open>skip_serializing_if = "Option::is_none"\<close>\<close>

definition opt_field :: "string \<Rightarrow> ('a \<Rightarrow> json) \<Rightarrow> 'a option \<Rightarrow> (string \<times> json) list" where
  "opt_field name enc x = (case x of None \<Rightarrow> [] | Some x \<Rightarrow> [(name, enc x)])"

section \<open>Values that read back\<close>

lemma scalar_reads [json_reads]:
  "de_string (J_String s) = Some s" "de_bool (J_Bool b) = Some b" "de_u64 (json_u64 n) = Some n"
  by (simp_all add: de_string_def value_str_def de_bool_def de_u64_def json_u64_def value_u64_def)

lemma u32_reads [json_reads]: "de_u32 (json_u32 n) = Some n"
proof -
  have "unat n < 2 ^ 64 \<and> unat n \<le> 0xFFFFFFFF"
    using unsigned_less [of n, where ?'a = nat] by simp
  then show ?thesis
    by (simp add: de_u32_def json_u32_def word_le_nat_alt unat_ucast_small ucast_ucast_small)
qed

lemma u8_reads [json_reads]: "de_u8 (json_u8 n) = Some n"
proof -
  have "unat n < 2 ^ 64 \<and> unat n \<le> 0xFF"
    using unsigned_less [of n, where ?'a = nat] by (simp del: unat_byte_less)
  then show ?thesis
    by (simp add: de_u8_def json_u8_def word_le_nat_alt unat_ucast_small ucast_ucast_small)
qed

lemma i64_reads [json_reads]: "de_i64 (json_i64 n) = Some n"
proof -
  have "n \<le> 0x7FFFFFFFFFFFFFFF" if "0 \<le> sint n"
  proof -
    have "sint n < 2 ^ 63" using sint_lt [of n] by simp
    with that have "uint n < 2 ^ 63" by (simp add: uint_sint take_bit_int_eq_self)
    then show ?thesis by (simp add: word_le_def)
  qed
  then show ?thesis by (simp add: de_i64_def json_i64_def)
qed

lemma de_each_map:
  "(\<And>x. x \<in> set xs \<Longrightarrow> de (enc x) = Some x) \<Longrightarrow> de_each de (map enc xs) = Some xs"
  by (induction xs) auto

lemma vec_reads [json_reads]: "(\<And>x. de (enc x) = Some x) \<Longrightarrow> de_vec de (json_vec enc xs) = Some xs"
  by (simp add: json_vec_def de_vec_def de_each_map)

lemma zip_fst_snd: "zip (map fst m) (map snd m) = m"
  by (induction m) auto

lemma btree_reads [json_reads]:
  assumes "\<And>x. de (enc x) = Some x"
  shows "de_btree de (json_btree enc m) = Some m"
  using de_each_map [of "map snd m" de enc] assms
  by (simp add: json_btree_def de_btree_def comp_def case_prod_unfold zip_fst_snd)

text \<open>A value written as \<open>null\<close> would be read as absent.\<close>

lemma option_reads [json_reads]:
  "(\<And>x. de (enc x) = Some x) \<Longrightarrow> (\<And>x. enc x \<noteq> J_Null) \<Longrightarrow> de_option de (json_option enc x) = Some x"
  by (cases x) (auto simp: json_option_def de_option_def)

definition opt_get :: "('a \<Rightarrow> json) \<Rightarrow> 'a option \<Rightarrow> json option" where
  "opt_get enc x = map_option enc x"

lemma opt_field_reads [json_reads]:
  "(\<And>x. de (enc x) = Some x) \<Longrightarrow> (\<And>x. enc x \<noteq> J_Null) \<Longrightarrow>
     (case opt_get enc x of None \<Rightarrow> Some None | Some v \<Rightarrow> de_option de v) = Some x"
  by (cases x) (auto simp: de_option_def opt_get_def)

lemma not_null [json_reads]:
  "J_String s \<noteq> J_Null" "J_Bool b \<noteq> J_Null" "json_u8 b8 \<noteq> J_Null" "json_u64 n \<noteq> J_Null" "json_u32 m \<noteq> J_Null" "json_i64 i \<noteq> J_Null"
  "json_vec enc xs \<noteq> J_Null" "json_btree enc kvs \<noteq> J_Null" "json_struct ms \<noteq> J_Null"
  by (simp_all add: json_u8_def json_u64_def json_u32_def json_i64_def json_vec_def json_btree_def json_struct_def)

section \<open>Structs\<close>

definition ascii :: "string \<Rightarrow> bool" where
  "ascii s = list_all (\<lambda>c. (of_char c :: u8) < 0x80) s"

lemma ascii_valid: "list_all (\<lambda>b. b < 0x80) bs \<Longrightarrow> utf8_valid bs"
  by (induction bs) auto

lemma lit_bytes: "ascii s \<Longrightarrow> string_bytes (lit s) = map of_char s"
  by (simp add: lit_def ascii_def ascii_valid list_all_iff)

lemma lit_inject:
  assumes "ascii s" "ascii t"
  shows "lit s = lit t \<longleftrightarrow> s = t"
proof -
  have "inj (of_char :: char \<Rightarrow> u8)"
  proof (rule injI)
    fix c d :: char
    assume "(of_char c :: u8) = of_char d"
    then have "unat (of_nat (of_char c) :: u8) = unat (of_nat (of_char d) :: u8)" by (simp add: of_nat_of_char)
    then have "(of_char c :: nat) mod 256 = of_char d mod 256" by (simp add: unat_of_nat)
    then show "c = d" by simp
  qed
  then have "inj (map (of_char :: char \<Rightarrow> u8))" by (rule inj_mapI)
  then show ?thesis
    using assms by (simp add: lit_bytes inj_eq flip: string_bytes_inject)
qed

text \<open>A member of an encoded struct is the last entry under its name; field names are ASCII.\<close>

definition field_names :: "(string \<times> json) list \<Rightarrow> bool" where
  "field_names kvs = list_all (\<lambda>(k, _). ascii k) kvs"

lemma field_names_simps [simp]:
  "field_names [] = True"
  "field_names ((k, v) # kvs) = (ascii k \<and> field_names kvs)"
  "field_names (kvs @ kvs') = (field_names kvs \<and> field_names kvs')"
  "field_names (opt_field k enc x) = (x = None \<or> ascii k)"
  by (auto simp: field_names_def opt_field_def split: option.splits)

lemma ascii_simps [simp]: "ascii [] = True" "ascii (c # s) = ((of_char c :: u8) < 0x80 \<and> ascii s)"
  by (simp_all add: ascii_def)

lemma sorted_struct_map: "sorted_wrt (<) (map fst (struct_map kvs))"
  unfolding struct_map_def by (induction kvs rule: rev_induct) (auto simp: sorted_btree_insert)

lemma struct_map_snoc: "struct_map (kvs @ [(k, v)]) = btree_insert (lit k) v (struct_map kvs)"
  by (simp add: struct_map_def)

lemma struct_lookup:
  assumes "field_names kvs" and "ascii n"
  shows "map_of (struct_map kvs) (lit n) = map_of (rev kvs) n"
  using assms(1)
proof (induction kvs rule: rev_induct)
  case (snoc kv kvs)
  obtain k v where kv: "kv = (k, v)" by (cases kv)
  with snoc show ?case
    using assms(2) lit_inject [of n k]
    by (auto simp: struct_map_snoc map_of_btree_insert sorted_struct_map)
qed (simp add: struct_map_def)

text \<open>The first entry under a name, looked up without building a map.\<close>

primrec entry :: "(string \<times> json) list \<Rightarrow> string \<Rightarrow> json option" where
  "entry [] n = None"
| "entry (kv # kvs) n = (if fst kv = n then Some (snd kv) else entry kvs n)"

lemma entry_map_of: "entry kvs n = map_of kvs n"
  by (induction kvs) auto

definition or_else :: "'a option \<Rightarrow> 'a option \<Rightarrow> 'a option" where
  "or_else x y = (case x of None \<Rightarrow> y | Some v \<Rightarrow> Some v)"

lemma or_else_simps [simp]: "or_else None y = y" "or_else x None = x" "or_else (Some v) y = Some v"
  by (auto simp: or_else_def split: option.splits)

lemma entry_opt_field [simp]:
  "entry (opt_field k enc x @ kvs) n = (if k = n then or_else (opt_get enc x) (entry kvs n) else entry kvs n)"
  "entry (opt_field k enc x) n = (if k = n then opt_get enc x else None)"
  by (cases x; simp add: opt_field_def opt_get_def)+

lemma rev_opt_field [simp]: "rev (opt_field k enc x) = opt_field k enc x"
  by (cases x) (simp_all add: opt_field_def)

definition struct_members :: "(string \<times> json) list \<Rightarrow> json_members" where
  "struct_members kvs = (\<lambda>i name. if ascii name then entry kvs name else map_of (struct_map (rev kvs)) (lit name))"

lemma members_struct: "field_names kvs \<Longrightarrow> members n (json_struct kvs) = Some (struct_members (rev kvs))"
  by (auto simp: members_def json_struct_def struct_members_def struct_lookup entry_map_of fun_eq_iff)

lemma field_struct:
  "ascii n \<Longrightarrow> field (struct_members kvs) i n d de = (case entry kvs n of None \<Rightarrow> Some d | Some v \<Rightarrow> de v)"
  by (simp add: field_def struct_members_def)

lemmas struct_reads = members_struct field_struct

section \<open>VM values\<close>

datatype VmValue =
    VV_Text rstring
  | VV_Items "VmValue list"
  | VV_Fields "(rstring \<times> VmValue) list"

definition VmValue_default :: VmValue where
  "VmValue_default = VV_Text (lit '''')"

text \<open>\<open>Value::to_string\<close> of the scalars that are not text; \<open>ft\<close> prints a floating-point number.\<close>

definition scalar_text :: "(u64 \<Rightarrow> rstring) \<Rightarrow> json \<Rightarrow> rstring" where
  "scalar_text ft v =
     (case v of
        J_Bool b \<Rightarrow> if b then lit ''true'' else lit ''false''
      | J_Number (N_Pos n) \<Rightarrow> string_of (dec_text (unat n))
      | J_Number (N_Neg n) \<Rightarrow> string_of (MINUS # dec_text (nat (- sint n)))
      | J_Number (N_Float f) \<Rightarrow> ft f
      | _ \<Rightarrow> lit '''')"

lemma size_members [termination_simp]:
  "(name, v) \<in> set kvs \<Longrightarrow> size v < Suc (size_list (size_prod (\<lambda>_. 0) size) kvs)"
  by (induction kvs) auto

fun vm_value_from_json :: "(u64 \<Rightarrow> rstring) \<Rightarrow> json \<Rightarrow> VmValue" where
  "vm_value_from_json ft (J_Array items) = VV_Items (map (vm_value_from_json ft) items)"
| "vm_value_from_json ft (J_Object kvs) = VV_Fields (map (\<lambda>(name, v). (name, vm_value_from_json ft v)) kvs)"
| "vm_value_from_json ft (J_String text) = VV_Text text"
| "vm_value_from_json ft J_Null = VV_Text (lit '''')"
| "vm_value_from_json ft other = VV_Text (scalar_text ft other)"

fun json_VmValue :: "VmValue \<Rightarrow> json" where
  "json_VmValue (VV_Text text) = J_String text"
| "json_VmValue (VV_Items items) = J_Array (map json_VmValue items)"
| "json_VmValue (VV_Fields kvs) = J_Object (map (\<lambda>(name, v). (name, json_VmValue v)) kvs)"

definition de_VmValue :: "(u64 \<Rightarrow> rstring) \<Rightarrow> VmValue json_decoder" where
  "de_VmValue ft v = Some (vm_value_from_json ft v)"

primrec vv_as_text :: "VmValue \<Rightarrow> rstring option" where
  "vv_as_text (VV_Text text) = Some text"
| "vv_as_text (VV_Items items) = None"
| "vv_as_text (VV_Fields kvs) = None"

primrec vv_as_items :: "VmValue \<Rightarrow> VmValue list option" where
  "vv_as_items (VV_Text text) = None"
| "vv_as_items (VV_Items items) = Some items"
| "vv_as_items (VV_Fields kvs) = None"

primrec vv_as_fields :: "VmValue \<Rightarrow> (rstring \<times> VmValue) list option" where
  "vv_as_fields (VV_Text text) = None"
| "vv_as_fields (VV_Items items) = None"
| "vv_as_fields (VV_Fields kvs) = Some kvs"

definition vv_field :: "VmValue \<Rightarrow> rstring \<Rightarrow> VmValue option" where
  "vv_field v name = Option.bind (vv_as_fields v) (\<lambda>kvs. map_of kvs name)"

lemma vm_value_reads [simp]: "vm_value_from_json ft (json_VmValue v) = v"
  by (induction v) (auto simp: map_idI split: prod.splits)

lemma VmValue_reads [json_reads]: "de_VmValue ft (json_VmValue v) = Some v" "json_VmValue v \<noteq> J_Null"
  by (simp add: de_VmValue_def, cases v) simp_all

end
