(* ===== verification/EventTypes.thy ===== *)
theory EventTypes
  imports Json
begin

text \<open>
  The derived structs of \<open>src/src/extended_events.rs\<close>: the payloads of the token and market events and the
  arguments of the calls of a special resolution. For a struct \<open>X\<close>, \<open>de_X\<close> and \<open>json_X\<close> are its derived
  \<open>Deserialize\<close> and \<open>Serialize\<close>: camelCase names, defaults for missing fields, and the optional fields left out
  when absent. Every struct reads back from what it is written as.
\<close>

section \<open>Event payloads\<close>

record TokenCreateData =
  tcd_symbol :: rstring
  tcd_max_supply :: rstring
  tcd_decimals :: u32
  tcd_is_non_fungible :: bool
  tcd_carbon_token_id :: u64
  tcd_metadata :: "(rstring \<times> rstring) list"

definition de_TokenCreateData :: "TokenCreateData json_decoder" where
  "de_TokenCreateData v = do {
     m \<leftarrow> members 6 v;
     symbol \<leftarrow> field m 0 ''symbol'' (lit '''') de_string;
     max_supply \<leftarrow> field m 1 ''maxSupply'' (lit '''') de_string;
     decimals \<leftarrow> field m 2 ''decimals'' 0 de_u32;
     is_non_fungible \<leftarrow> field m 3 ''isNonFungible'' False de_bool;
     carbon_token_id \<leftarrow> field m 4 ''carbonTokenId'' 0 de_u64;
     metadata \<leftarrow> field m 5 ''metadata'' [] (de_btree de_string);
     Some \<lparr>tcd_symbol = symbol, tcd_max_supply = max_supply, tcd_decimals = decimals,
       tcd_is_non_fungible = is_non_fungible, tcd_carbon_token_id = carbon_token_id,
       tcd_metadata = metadata\<rparr> }"

definition json_TokenCreateData :: "TokenCreateData \<Rightarrow> json" where
  "json_TokenCreateData x = json_struct
     [(''symbol'', J_String (tcd_symbol x)), (''maxSupply'', J_String (tcd_max_supply x)),
       (''decimals'', json_u32 (tcd_decimals x)), (''isNonFungible'', J_Bool (tcd_is_non_fungible x)),
       (''carbonTokenId'', json_u64 (tcd_carbon_token_id x)),
       (''metadata'', json_btree J_String (tcd_metadata x))]"

lemma TokenCreateData_reads [json_reads]: "de_TokenCreateData (json_TokenCreateData x) = Some x" "json_TokenCreateData x \<noteq> J_Null"
  by (simp_all add: de_TokenCreateData_def json_TokenCreateData_def struct_reads json_reads)

record TokenSeriesCreateData =
  tscd_symbol :: rstring
  tscd_series_id :: rstring
  tscd_max_mint :: u32
  tscd_max_supply :: u32
  tscd_owner :: rstring
  tscd_carbon_token_id :: u64
  tscd_carbon_series_id :: u32
  tscd_metadata :: "(rstring \<times> rstring) list"

definition de_TokenSeriesCreateData :: "TokenSeriesCreateData json_decoder" where
  "de_TokenSeriesCreateData v = do {
     m \<leftarrow> members 8 v;
     symbol \<leftarrow> field m 0 ''symbol'' (lit '''') de_string;
     series_id \<leftarrow> field m 1 ''seriesId'' (lit '''') de_string;
     max_mint \<leftarrow> field m 2 ''maxMint'' 0 de_u32;
     max_supply \<leftarrow> field m 3 ''maxSupply'' 0 de_u32;
     owner \<leftarrow> field m 4 ''owner'' (lit '''') de_string;
     carbon_token_id \<leftarrow> field m 5 ''carbonTokenId'' 0 de_u64;
     carbon_series_id \<leftarrow> field m 6 ''carbonSeriesId'' 0 de_u32;
     metadata \<leftarrow> field m 7 ''metadata'' [] (de_btree de_string);
     Some \<lparr>tscd_symbol = symbol, tscd_series_id = series_id, tscd_max_mint = max_mint,
       tscd_max_supply = max_supply, tscd_owner = owner, tscd_carbon_token_id = carbon_token_id,
       tscd_carbon_series_id = carbon_series_id, tscd_metadata = metadata\<rparr> }"

definition json_TokenSeriesCreateData :: "TokenSeriesCreateData \<Rightarrow> json" where
  "json_TokenSeriesCreateData x = json_struct
     [(''symbol'', J_String (tscd_symbol x)), (''seriesId'', J_String (tscd_series_id x)),
       (''maxMint'', json_u32 (tscd_max_mint x)), (''maxSupply'', json_u32 (tscd_max_supply x)),
       (''owner'', J_String (tscd_owner x)), (''carbonTokenId'', json_u64 (tscd_carbon_token_id x)),
       (''carbonSeriesId'', json_u32 (tscd_carbon_series_id x)),
       (''metadata'', json_btree J_String (tscd_metadata x))]"

lemma TokenSeriesCreateData_reads [json_reads]: "de_TokenSeriesCreateData (json_TokenSeriesCreateData x) = Some x" "json_TokenSeriesCreateData x \<noteq> J_Null"
  by (simp_all add: de_TokenSeriesCreateData_def json_TokenSeriesCreateData_def struct_reads json_reads)

record MarketOrderData =
  mod_base_symbol :: rstring
  mod_quote_symbol :: rstring
  mod_token_id :: rstring
  mod_carbon_base_token_id :: u64
  mod_carbon_quote_token_id :: u64
  mod_carbon_instance_id :: u64
  mod_seller :: rstring
  mod_buyer :: rstring
  mod_price :: rstring
  mod_end_price :: rstring
  mod_start_date :: i64
  mod_end_date :: i64
  mod_type_name :: rstring

definition de_MarketOrderData :: "MarketOrderData json_decoder" where
  "de_MarketOrderData v = do {
     m \<leftarrow> members 13 v;
     base_symbol \<leftarrow> field m 0 ''baseSymbol'' (lit '''') de_string;
     quote_symbol \<leftarrow> field m 1 ''quoteSymbol'' (lit '''') de_string;
     token_id \<leftarrow> field m 2 ''tokenId'' (lit '''') de_string;
     carbon_base_token_id \<leftarrow> field m 3 ''carbonBaseTokenId'' 0 de_u64;
     carbon_quote_token_id \<leftarrow> field m 4 ''carbonQuoteTokenId'' 0 de_u64;
     carbon_instance_id \<leftarrow> field m 5 ''carbonInstanceId'' 0 de_u64;
     seller \<leftarrow> field m 6 ''seller'' (lit '''') de_string;
     buyer \<leftarrow> field m 7 ''buyer'' (lit '''') de_string;
     price \<leftarrow> field m 8 ''price'' (lit '''') de_string;
     end_price \<leftarrow> field m 9 ''endPrice'' (lit '''') de_string;
     start_date \<leftarrow> field m 10 ''startDate'' 0 de_i64;
     end_date \<leftarrow> field m 11 ''endDate'' 0 de_i64;
     type_name \<leftarrow> field m 12 ''type'' (lit '''') de_string;
     Some \<lparr>mod_base_symbol = base_symbol, mod_quote_symbol = quote_symbol, mod_token_id = token_id,
       mod_carbon_base_token_id = carbon_base_token_id, mod_carbon_quote_token_id = carbon_quote_token_id,
       mod_carbon_instance_id = carbon_instance_id, mod_seller = seller, mod_buyer = buyer,
       mod_price = price, mod_end_price = end_price, mod_start_date = start_date, mod_end_date = end_date,
       mod_type_name = type_name\<rparr> }"

definition json_MarketOrderData :: "MarketOrderData \<Rightarrow> json" where
  "json_MarketOrderData x = json_struct
     [(''baseSymbol'', J_String (mod_base_symbol x)), (''quoteSymbol'', J_String (mod_quote_symbol x)),
       (''tokenId'', J_String (mod_token_id x)),
       (''carbonBaseTokenId'', json_u64 (mod_carbon_base_token_id x)),
       (''carbonQuoteTokenId'', json_u64 (mod_carbon_quote_token_id x)),
       (''carbonInstanceId'', json_u64 (mod_carbon_instance_id x)), (''seller'', J_String (mod_seller x)),
       (''buyer'', J_String (mod_buyer x)), (''price'', J_String (mod_price x)),
       (''endPrice'', J_String (mod_end_price x)), (''startDate'', json_i64 (mod_start_date x)),
       (''endDate'', json_i64 (mod_end_date x)), (''type'', J_String (mod_type_name x))]"

lemma MarketOrderData_reads [json_reads]: "de_MarketOrderData (json_MarketOrderData x) = Some x" "json_MarketOrderData x \<noteq> J_Null"
  by (simp_all add: de_MarketOrderData_def json_MarketOrderData_def struct_reads json_reads)

section \<open>Governance call arguments\<close>

record RawArguments =
  ra_raw_args :: rstring

definition de_RawArguments :: "RawArguments json_decoder" where
  "de_RawArguments v = do {
     m \<leftarrow> members 1 v;
     raw_args \<leftarrow> field m 0 ''rawArgs'' (lit '''') de_string;
     Some \<lparr>ra_raw_args = raw_args\<rparr> }"

definition json_RawArguments :: "RawArguments \<Rightarrow> json" where
  "json_RawArguments x = json_struct
     [(''rawArgs'', J_String (ra_raw_args x))]"

lemma RawArguments_reads [json_reads]: "de_RawArguments (json_RawArguments x) = Some x" "json_RawArguments x \<noteq> J_Null"
  by (simp_all add: de_RawArguments_def json_RawArguments_def struct_reads json_reads)

record GasConfigArguments =
  gca_version :: rstring
  gca_max_name_length :: rstring
  gca_max_token_symbol_length :: rstring
  gca_fee_shift :: rstring
  gca_max_structure_size :: rstring
  gca_fee_multiplier :: rstring
  gca_gas_token_id :: rstring
  gca_data_token_id :: rstring
  gca_minimum_gas_offer :: rstring
  gca_data_escrow_per_row :: rstring
  gca_gas_fee_transfer :: rstring
  gca_gas_fee_query :: rstring
  gca_gas_fee_create_token_base :: rstring
  gca_gas_fee_create_token_symbol :: rstring
  gca_gas_fee_create_token_series :: rstring
  gca_gas_fee_per_byte :: rstring
  gca_gas_fee_register_name :: rstring
  gca_gas_burn_ratio_mul :: rstring
  gca_gas_burn_ratio_shift :: rstring
  gca_minimum_gas_bill :: "rstring option"
  gca_gas_producer_ratio_mul :: "rstring option"
  gca_gas_producer_ratio_shift :: "rstring option"
  gca_gas_dapp_ratio_mul :: "rstring option"
  gca_gas_dapp_ratio_shift :: "rstring option"
  gca_policy_fee_create_token_base :: "rstring option"
  gca_policy_fee_create_token_symbol :: "rstring option"
  gca_policy_fee_create_token_series :: "rstring option"
  gca_policy_fee_register_name :: "rstring option"
  gca_legacy_data_escrow_per_row :: "rstring option"

definition de_GasConfigArguments :: "GasConfigArguments json_decoder" where
  "de_GasConfigArguments v = do {
     m \<leftarrow> members 29 v;
     version \<leftarrow> field m 0 ''version'' (lit '''') de_string;
     max_name_length \<leftarrow> field m 1 ''maxNameLength'' (lit '''') de_string;
     max_token_symbol_length \<leftarrow> field m 2 ''maxTokenSymbolLength'' (lit '''') de_string;
     fee_shift \<leftarrow> field m 3 ''feeShift'' (lit '''') de_string;
     max_structure_size \<leftarrow> field m 4 ''maxStructureSize'' (lit '''') de_string;
     fee_multiplier \<leftarrow> field m 5 ''feeMultiplier'' (lit '''') de_string;
     gas_token_id \<leftarrow> field m 6 ''gasTokenId'' (lit '''') de_string;
     data_token_id \<leftarrow> field m 7 ''dataTokenId'' (lit '''') de_string;
     minimum_gas_offer \<leftarrow> field m 8 ''minimumGasOffer'' (lit '''') de_string;
     data_escrow_per_row \<leftarrow> field m 9 ''dataEscrowPerRow'' (lit '''') de_string;
     gas_fee_transfer \<leftarrow> field m 10 ''gasFeeTransfer'' (lit '''') de_string;
     gas_fee_query \<leftarrow> field m 11 ''gasFeeQuery'' (lit '''') de_string;
     gas_fee_create_token_base \<leftarrow> field m 12 ''gasFeeCreateTokenBase'' (lit '''') de_string;
     gas_fee_create_token_symbol \<leftarrow> field m 13 ''gasFeeCreateTokenSymbol'' (lit '''') de_string;
     gas_fee_create_token_series \<leftarrow> field m 14 ''gasFeeCreateTokenSeries'' (lit '''') de_string;
     gas_fee_per_byte \<leftarrow> field m 15 ''gasFeePerByte'' (lit '''') de_string;
     gas_fee_register_name \<leftarrow> field m 16 ''gasFeeRegisterName'' (lit '''') de_string;
     gas_burn_ratio_mul \<leftarrow> field m 17 ''gasBurnRatioMul'' (lit '''') de_string;
     gas_burn_ratio_shift \<leftarrow> field m 18 ''gasBurnRatioShift'' (lit '''') de_string;
     minimum_gas_bill \<leftarrow> field m 19 ''minimumGasBill'' None (de_option de_string);
     gas_producer_ratio_mul \<leftarrow> field m 20 ''gasProducerRatioMul'' None (de_option de_string);
     gas_producer_ratio_shift \<leftarrow> field m 21 ''gasProducerRatioShift'' None (de_option de_string);
     gas_dapp_ratio_mul \<leftarrow> field m 22 ''gasDappRatioMul'' None (de_option de_string);
     gas_dapp_ratio_shift \<leftarrow> field m 23 ''gasDappRatioShift'' None (de_option de_string);
     policy_fee_create_token_base \<leftarrow> field m 24 ''policyFeeCreateTokenBase'' None (de_option de_string);
     policy_fee_create_token_symbol \<leftarrow> field m 25 ''policyFeeCreateTokenSymbol'' None (de_option de_string);
     policy_fee_create_token_series \<leftarrow> field m 26 ''policyFeeCreateTokenSeries'' None (de_option de_string);
     policy_fee_register_name \<leftarrow> field m 27 ''policyFeeRegisterName'' None (de_option de_string);
     legacy_data_escrow_per_row \<leftarrow> field m 28 ''legacyDataEscrowPerRow'' None (de_option de_string);
     Some \<lparr>gca_version = version, gca_max_name_length = max_name_length,
       gca_max_token_symbol_length = max_token_symbol_length, gca_fee_shift = fee_shift,
       gca_max_structure_size = max_structure_size, gca_fee_multiplier = fee_multiplier,
       gca_gas_token_id = gas_token_id, gca_data_token_id = data_token_id,
       gca_minimum_gas_offer = minimum_gas_offer, gca_data_escrow_per_row = data_escrow_per_row,
       gca_gas_fee_transfer = gas_fee_transfer, gca_gas_fee_query = gas_fee_query,
       gca_gas_fee_create_token_base = gas_fee_create_token_base,
       gca_gas_fee_create_token_symbol = gas_fee_create_token_symbol,
       gca_gas_fee_create_token_series = gas_fee_create_token_series,
       gca_gas_fee_per_byte = gas_fee_per_byte, gca_gas_fee_register_name = gas_fee_register_name,
       gca_gas_burn_ratio_mul = gas_burn_ratio_mul, gca_gas_burn_ratio_shift = gas_burn_ratio_shift,
       gca_minimum_gas_bill = minimum_gas_bill, gca_gas_producer_ratio_mul = gas_producer_ratio_mul,
       gca_gas_producer_ratio_shift = gas_producer_ratio_shift,
       gca_gas_dapp_ratio_mul = gas_dapp_ratio_mul, gca_gas_dapp_ratio_shift = gas_dapp_ratio_shift,
       gca_policy_fee_create_token_base = policy_fee_create_token_base,
       gca_policy_fee_create_token_symbol = policy_fee_create_token_symbol,
       gca_policy_fee_create_token_series = policy_fee_create_token_series,
       gca_policy_fee_register_name = policy_fee_register_name,
       gca_legacy_data_escrow_per_row = legacy_data_escrow_per_row\<rparr> }"

definition json_GasConfigArguments :: "GasConfigArguments \<Rightarrow> json" where
  "json_GasConfigArguments x = json_struct
     ([(''version'', J_String (gca_version x)), (''maxNameLength'', J_String (gca_max_name_length x)),
       (''maxTokenSymbolLength'', J_String (gca_max_token_symbol_length x)),
       (''feeShift'', J_String (gca_fee_shift x)),
       (''maxStructureSize'', J_String (gca_max_structure_size x)),
       (''feeMultiplier'', J_String (gca_fee_multiplier x)),
       (''gasTokenId'', J_String (gca_gas_token_id x)), (''dataTokenId'', J_String (gca_data_token_id x)),
       (''minimumGasOffer'', J_String (gca_minimum_gas_offer x)),
       (''dataEscrowPerRow'', J_String (gca_data_escrow_per_row x)),
       (''gasFeeTransfer'', J_String (gca_gas_fee_transfer x)),
       (''gasFeeQuery'', J_String (gca_gas_fee_query x)),
       (''gasFeeCreateTokenBase'', J_String (gca_gas_fee_create_token_base x)),
       (''gasFeeCreateTokenSymbol'', J_String (gca_gas_fee_create_token_symbol x)),
       (''gasFeeCreateTokenSeries'', J_String (gca_gas_fee_create_token_series x)),
       (''gasFeePerByte'', J_String (gca_gas_fee_per_byte x)),
       (''gasFeeRegisterName'', J_String (gca_gas_fee_register_name x)),
       (''gasBurnRatioMul'', J_String (gca_gas_burn_ratio_mul x)),
       (''gasBurnRatioShift'', J_String (gca_gas_burn_ratio_shift x))] @
      opt_field ''minimumGasBill'' J_String (gca_minimum_gas_bill x) @
      opt_field ''gasProducerRatioMul'' J_String (gca_gas_producer_ratio_mul x) @
      opt_field ''gasProducerRatioShift'' J_String (gca_gas_producer_ratio_shift x) @
      opt_field ''gasDappRatioMul'' J_String (gca_gas_dapp_ratio_mul x) @
      opt_field ''gasDappRatioShift'' J_String (gca_gas_dapp_ratio_shift x) @
      opt_field ''policyFeeCreateTokenBase'' J_String (gca_policy_fee_create_token_base x) @
      opt_field ''policyFeeCreateTokenSymbol'' J_String (gca_policy_fee_create_token_symbol x) @
      opt_field ''policyFeeCreateTokenSeries'' J_String (gca_policy_fee_create_token_series x) @
      opt_field ''policyFeeRegisterName'' J_String (gca_policy_fee_register_name x) @
      opt_field ''legacyDataEscrowPerRow'' J_String (gca_legacy_data_escrow_per_row x))"

lemma GasConfigArguments_reads [json_reads]: "de_GasConfigArguments (json_GasConfigArguments x) = Some x" "json_GasConfigArguments x \<noteq> J_Null"
  by (simp_all add: de_GasConfigArguments_def json_GasConfigArguments_def struct_reads json_reads)

record ChainConfigArguments =
  cca_version :: rstring
  cca_reserved1 :: rstring
  cca_reserved2 :: rstring
  cca_reserved3 :: rstring
  cca_allowed_tx_types :: rstring
  cca_expiry_window :: rstring
  cca_block_rate_target :: rstring

definition de_ChainConfigArguments :: "ChainConfigArguments json_decoder" where
  "de_ChainConfigArguments v = do {
     m \<leftarrow> members 7 v;
     version \<leftarrow> field m 0 ''version'' (lit '''') de_string;
     reserved1 \<leftarrow> field m 1 ''reserved1'' (lit '''') de_string;
     reserved2 \<leftarrow> field m 2 ''reserved2'' (lit '''') de_string;
     reserved3 \<leftarrow> field m 3 ''reserved3'' (lit '''') de_string;
     allowed_tx_types \<leftarrow> field m 4 ''allowedTxTypes'' (lit '''') de_string;
     expiry_window \<leftarrow> field m 5 ''expiryWindow'' (lit '''') de_string;
     block_rate_target \<leftarrow> field m 6 ''blockRateTarget'' (lit '''') de_string;
     Some \<lparr>cca_version = version, cca_reserved1 = reserved1, cca_reserved2 = reserved2,
       cca_reserved3 = reserved3, cca_allowed_tx_types = allowed_tx_types,
       cca_expiry_window = expiry_window, cca_block_rate_target = block_rate_target\<rparr> }"

definition json_ChainConfigArguments :: "ChainConfigArguments \<Rightarrow> json" where
  "json_ChainConfigArguments x = json_struct
     [(''version'', J_String (cca_version x)), (''reserved1'', J_String (cca_reserved1 x)),
       (''reserved2'', J_String (cca_reserved2 x)), (''reserved3'', J_String (cca_reserved3 x)),
       (''allowedTxTypes'', J_String (cca_allowed_tx_types x)),
       (''expiryWindow'', J_String (cca_expiry_window x)),
       (''blockRateTarget'', J_String (cca_block_rate_target x))]"

lemma ChainConfigArguments_reads [json_reads]: "de_ChainConfigArguments (json_ChainConfigArguments x) = Some x" "json_ChainConfigArguments x \<noteq> J_Null"
  by (simp_all add: de_ChainConfigArguments_def json_ChainConfigArguments_def struct_reads json_reads)

record NestedResolutionArguments =
  nra_resolution_id :: rstring

definition de_NestedResolutionArguments :: "NestedResolutionArguments json_decoder" where
  "de_NestedResolutionArguments v = do {
     m \<leftarrow> members 1 v;
     resolution_id \<leftarrow> field m 0 ''resolutionId'' (lit '''') de_string;
     Some \<lparr>nra_resolution_id = resolution_id\<rparr> }"

definition json_NestedResolutionArguments :: "NestedResolutionArguments \<Rightarrow> json" where
  "json_NestedResolutionArguments x = json_struct
     [(''resolutionId'', J_String (nra_resolution_id x))]"

lemma NestedResolutionArguments_reads [json_reads]: "de_NestedResolutionArguments (json_NestedResolutionArguments x) = Some x" "json_NestedResolutionArguments x \<noteq> J_Null"
  by (simp_all add: de_NestedResolutionArguments_def json_NestedResolutionArguments_def struct_reads json_reads)

record MetadataArguments =
  ma_metadata :: "(rstring \<times> VmValue) list"

definition de_MetadataArguments :: "(u64 \<Rightarrow> rstring) \<Rightarrow> MetadataArguments json_decoder" where
  "de_MetadataArguments ft v = do {
     m \<leftarrow> members 1 v;
     metadata \<leftarrow> field m 0 ''metadata'' [] (de_btree (de_VmValue ft));
     Some \<lparr>ma_metadata = metadata\<rparr> }"

definition json_MetadataArguments :: "MetadataArguments \<Rightarrow> json" where
  "json_MetadataArguments x = json_struct
     [(''metadata'', json_btree json_VmValue (ma_metadata x))]"

lemma MetadataArguments_reads [json_reads]: "de_MetadataArguments ft (json_MetadataArguments x) = Some x" "json_MetadataArguments x \<noteq> J_Null"
  by (simp_all add: de_MetadataArguments_def json_MetadataArguments_def struct_reads json_reads)

record ConsensusNode =
  cn_id :: rstring
  cn_type_name :: rstring

definition de_ConsensusNode :: "ConsensusNode json_decoder" where
  "de_ConsensusNode v = do {
     m \<leftarrow> members 2 v;
     id \<leftarrow> field m 0 ''id'' (lit '''') de_string;
     type_name \<leftarrow> field m 1 ''type'' (lit '''') de_string;
     Some \<lparr>cn_id = id, cn_type_name = type_name\<rparr> }"

definition json_ConsensusNode :: "ConsensusNode \<Rightarrow> json" where
  "json_ConsensusNode x = json_struct
     [(''id'', J_String (cn_id x)), (''type'', J_String (cn_type_name x))]"

lemma ConsensusNode_reads [json_reads]: "de_ConsensusNode (json_ConsensusNode x) = Some x" "json_ConsensusNode x \<noteq> J_Null"
  by (simp_all add: de_ConsensusNode_def json_ConsensusNode_def struct_reads json_reads)

record NodeConfigArguments =
  nca_nodes :: "ConsensusNode list"

definition de_NodeConfigArguments :: "NodeConfigArguments json_decoder" where
  "de_NodeConfigArguments v = do {
     m \<leftarrow> members 1 v;
     nodes \<leftarrow> field m 0 ''nodes'' [] (de_vec de_ConsensusNode);
     Some \<lparr>nca_nodes = nodes\<rparr> }"

definition json_NodeConfigArguments :: "NodeConfigArguments \<Rightarrow> json" where
  "json_NodeConfigArguments x = json_struct
     [(''nodes'', json_vec json_ConsensusNode (nca_nodes x))]"

lemma NodeConfigArguments_reads [json_reads]: "de_NodeConfigArguments (json_NodeConfigArguments x) = Some x" "json_NodeConfigArguments x \<noteq> J_Null"
  by (simp_all add: de_NodeConfigArguments_def json_NodeConfigArguments_def struct_reads json_reads)

record RegisterNameArguments =
  rna_address :: rstring
  rna_name :: rstring

definition de_RegisterNameArguments :: "RegisterNameArguments json_decoder" where
  "de_RegisterNameArguments v = do {
     m \<leftarrow> members 2 v;
     address \<leftarrow> field m 0 ''address'' (lit '''') de_string;
     name \<leftarrow> field m 1 ''name'' (lit '''') de_string;
     Some \<lparr>rna_address = address, rna_name = name\<rparr> }"

definition json_RegisterNameArguments :: "RegisterNameArguments \<Rightarrow> json" where
  "json_RegisterNameArguments x = json_struct
     [(''address'', J_String (rna_address x)), (''name'', J_String (rna_name x))]"

lemma RegisterNameArguments_reads [json_reads]: "de_RegisterNameArguments (json_RegisterNameArguments x) = Some x" "json_RegisterNameArguments x \<noteq> J_Null"
  by (simp_all add: de_RegisterNameArguments_def json_RegisterNameArguments_def struct_reads json_reads)

record AddressArguments =
  aa_address :: rstring

definition de_AddressArguments :: "AddressArguments json_decoder" where
  "de_AddressArguments v = do {
     m \<leftarrow> members 1 v;
     address \<leftarrow> field m 0 ''address'' (lit '''') de_string;
     Some \<lparr>aa_address = address\<rparr> }"

definition json_AddressArguments :: "AddressArguments \<Rightarrow> json" where
  "json_AddressArguments x = json_struct
     [(''address'', J_String (aa_address x))]"

lemma AddressArguments_reads [json_reads]: "de_AddressArguments (json_AddressArguments x) = Some x" "json_AddressArguments x \<noteq> J_Null"
  by (simp_all add: de_AddressArguments_def json_AddressArguments_def struct_reads json_reads)

record NameArguments =
  na_name :: rstring

definition de_NameArguments :: "NameArguments json_decoder" where
  "de_NameArguments v = do {
     m \<leftarrow> members 1 v;
     name \<leftarrow> field m 0 ''name'' (lit '''') de_string;
     Some \<lparr>na_name = name\<rparr> }"

definition json_NameArguments :: "NameArguments \<Rightarrow> json" where
  "json_NameArguments x = json_struct
     [(''name'', J_String (na_name x))]"

lemma NameArguments_reads [json_reads]: "de_NameArguments (json_NameArguments x) = Some x" "json_NameArguments x \<noteq> J_Null"
  by (simp_all add: de_NameArguments_def json_NameArguments_def struct_reads json_reads)

section \<open>VM call arguments\<close>

record ExecuteScriptArguments =
  esa_max_gas :: rstring
  esa_gas_from :: rstring
  esa_script :: rstring

definition de_ExecuteScriptArguments :: "ExecuteScriptArguments json_decoder" where
  "de_ExecuteScriptArguments v = do {
     m \<leftarrow> members 3 v;
     max_gas \<leftarrow> field m 0 ''maxGas'' (lit '''') de_string;
     gas_from \<leftarrow> field m 1 ''gasFrom'' (lit '''') de_string;
     script \<leftarrow> field m 2 ''script'' (lit '''') de_string;
     Some \<lparr>esa_max_gas = max_gas, esa_gas_from = gas_from, esa_script = script\<rparr> }"

definition json_ExecuteScriptArguments :: "ExecuteScriptArguments \<Rightarrow> json" where
  "json_ExecuteScriptArguments x = json_struct
     [(''maxGas'', J_String (esa_max_gas x)), (''gasFrom'', J_String (esa_gas_from x)),
       (''script'', J_String (esa_script x))]"

lemma ExecuteScriptArguments_reads [json_reads]: "de_ExecuteScriptArguments (json_ExecuteScriptArguments x) = Some x" "json_ExecuteScriptArguments x \<noteq> J_Null"
  by (simp_all add: de_ExecuteScriptArguments_def json_ExecuteScriptArguments_def struct_reads json_reads)

record RegisterTokenContractArguments =
  rtca_token_id :: rstring
  rtca_symbol :: rstring
  rtca_script :: rstring
  rtca_abi :: rstring
  rtca_token :: "rstring option"

definition de_RegisterTokenContractArguments :: "RegisterTokenContractArguments json_decoder" where
  "de_RegisterTokenContractArguments v = do {
     m \<leftarrow> members 5 v;
     token_id \<leftarrow> field m 0 ''tokenId'' (lit '''') de_string;
     symbol \<leftarrow> field m 1 ''symbol'' (lit '''') de_string;
     script \<leftarrow> field m 2 ''script'' (lit '''') de_string;
     abi \<leftarrow> field m 3 ''abi'' (lit '''') de_string;
     token \<leftarrow> field m 4 ''token'' None (de_option de_string);
     Some \<lparr>rtca_token_id = token_id, rtca_symbol = symbol, rtca_script = script, rtca_abi = abi,
       rtca_token = token\<rparr> }"

definition json_RegisterTokenContractArguments :: "RegisterTokenContractArguments \<Rightarrow> json" where
  "json_RegisterTokenContractArguments x = json_struct
     ([(''tokenId'', J_String (rtca_token_id x)), (''symbol'', J_String (rtca_symbol x)),
       (''script'', J_String (rtca_script x)), (''abi'', J_String (rtca_abi x))] @
      opt_field ''token'' J_String (rtca_token x))"

lemma RegisterTokenContractArguments_reads [json_reads]: "de_RegisterTokenContractArguments (json_RegisterTokenContractArguments x) = Some x" "json_RegisterTokenContractArguments x \<noteq> J_Null"
  by (simp_all add: de_RegisterTokenContractArguments_def json_RegisterTokenContractArguments_def struct_reads json_reads)

record DeployContractArguments =
  dca_from :: rstring
  dca_contract_name :: rstring
  dca_script :: rstring
  dca_abi :: rstring

definition de_DeployContractArguments :: "DeployContractArguments json_decoder" where
  "de_DeployContractArguments v = do {
     m \<leftarrow> members 4 v;
     from \<leftarrow> field m 0 ''from'' (lit '''') de_string;
     contract_name \<leftarrow> field m 1 ''contractName'' (lit '''') de_string;
     script \<leftarrow> field m 2 ''script'' (lit '''') de_string;
     abi \<leftarrow> field m 3 ''abi'' (lit '''') de_string;
     Some \<lparr>dca_from = from, dca_contract_name = contract_name, dca_script = script, dca_abi = abi\<rparr> }"

definition json_DeployContractArguments :: "DeployContractArguments \<Rightarrow> json" where
  "json_DeployContractArguments x = json_struct
     [(''from'', J_String (dca_from x)), (''contractName'', J_String (dca_contract_name x)),
       (''script'', J_String (dca_script x)), (''abi'', J_String (dca_abi x))]"

lemma DeployContractArguments_reads [json_reads]: "de_DeployContractArguments (json_DeployContractArguments x) = Some x" "json_DeployContractArguments x \<noteq> J_Null"
  by (simp_all add: de_DeployContractArguments_def json_DeployContractArguments_def struct_reads json_reads)

record PhantasmaVmConfigArguments =
  pvca_feature_level :: rstring
  pvca_gas_constructor :: rstring
  pvca_gas_nexus :: rstring
  pvca_gas_organization :: rstring
  pvca_gas_account :: rstring
  pvca_gas_leaderboard :: rstring
  pvca_gas_standard :: rstring
  pvca_gas_oracle :: rstring
  pvca_fuel_per_contract_deploy :: rstring

definition de_PhantasmaVmConfigArguments :: "PhantasmaVmConfigArguments json_decoder" where
  "de_PhantasmaVmConfigArguments v = do {
     m \<leftarrow> members 9 v;
     feature_level \<leftarrow> field m 0 ''featureLevel'' (lit '''') de_string;
     gas_constructor \<leftarrow> field m 1 ''gasConstructor'' (lit '''') de_string;
     gas_nexus \<leftarrow> field m 2 ''gasNexus'' (lit '''') de_string;
     gas_organization \<leftarrow> field m 3 ''gasOrganization'' (lit '''') de_string;
     gas_account \<leftarrow> field m 4 ''gasAccount'' (lit '''') de_string;
     gas_leaderboard \<leftarrow> field m 5 ''gasLeaderboard'' (lit '''') de_string;
     gas_standard \<leftarrow> field m 6 ''gasStandard'' (lit '''') de_string;
     gas_oracle \<leftarrow> field m 7 ''gasOracle'' (lit '''') de_string;
     fuel_per_contract_deploy \<leftarrow> field m 8 ''fuelPerContractDeploy'' (lit '''') de_string;
     Some \<lparr>pvca_feature_level = feature_level, pvca_gas_constructor = gas_constructor,
       pvca_gas_nexus = gas_nexus, pvca_gas_organization = gas_organization,
       pvca_gas_account = gas_account, pvca_gas_leaderboard = gas_leaderboard,
       pvca_gas_standard = gas_standard, pvca_gas_oracle = gas_oracle,
       pvca_fuel_per_contract_deploy = fuel_per_contract_deploy\<rparr> }"

definition json_PhantasmaVmConfigArguments :: "PhantasmaVmConfigArguments \<Rightarrow> json" where
  "json_PhantasmaVmConfigArguments x = json_struct
     [(''featureLevel'', J_String (pvca_feature_level x)),
       (''gasConstructor'', J_String (pvca_gas_constructor x)),
       (''gasNexus'', J_String (pvca_gas_nexus x)),
       (''gasOrganization'', J_String (pvca_gas_organization x)),
       (''gasAccount'', J_String (pvca_gas_account x)),
       (''gasLeaderboard'', J_String (pvca_gas_leaderboard x)),
       (''gasStandard'', J_String (pvca_gas_standard x)), (''gasOracle'', J_String (pvca_gas_oracle x)),
       (''fuelPerContractDeploy'', J_String (pvca_fuel_per_contract_deploy x))]"

lemma PhantasmaVmConfigArguments_reads [json_reads]: "de_PhantasmaVmConfigArguments (json_PhantasmaVmConfigArguments x) = Some x" "json_PhantasmaVmConfigArguments x \<noteq> J_Null"
  by (simp_all add: de_PhantasmaVmConfigArguments_def json_PhantasmaVmConfigArguments_def struct_reads json_reads)

record ContractStorageRow =
  csr_key :: rstring
  csr_value :: rstring

definition de_ContractStorageRow :: "ContractStorageRow json_decoder" where
  "de_ContractStorageRow v = do {
     m \<leftarrow> members 2 v;
     key \<leftarrow> field m 0 ''key'' (lit '''') de_string;
     value \<leftarrow> field m 1 ''value'' (lit '''') de_string;
     Some \<lparr>csr_key = key, csr_value = value\<rparr> }"

definition json_ContractStorageRow :: "ContractStorageRow \<Rightarrow> json" where
  "json_ContractStorageRow x = json_struct
     [(''key'', J_String (csr_key x)), (''value'', J_String (csr_value x))]"

lemma ContractStorageRow_reads [json_reads]: "de_ContractStorageRow (json_ContractStorageRow x) = Some x" "json_ContractStorageRow x \<noteq> J_Null"
  by (simp_all add: de_ContractStorageRow_def json_ContractStorageRow_def struct_reads json_reads)

record ContractStorageTable =
  cst_name :: rstring
  cst_rows :: "ContractStorageRow list"

definition de_ContractStorageTable :: "ContractStorageTable json_decoder" where
  "de_ContractStorageTable v = do {
     m \<leftarrow> members 2 v;
     name \<leftarrow> field m 0 ''name'' (lit '''') de_string;
     rows \<leftarrow> field m 1 ''rows'' [] (de_vec de_ContractStorageRow);
     Some \<lparr>cst_name = name, cst_rows = rows\<rparr> }"

definition json_ContractStorageTable :: "ContractStorageTable \<Rightarrow> json" where
  "json_ContractStorageTable x = json_struct
     [(''name'', J_String (cst_name x)), (''rows'', json_vec json_ContractStorageRow (cst_rows x))]"

lemma ContractStorageTable_reads [json_reads]: "de_ContractStorageTable (json_ContractStorageTable x) = Some x" "json_ContractStorageTable x \<noteq> J_Null"
  by (simp_all add: de_ContractStorageTable_def json_ContractStorageTable_def struct_reads json_reads)

record ImportedContract =
  ic_name :: rstring
  ic_address :: rstring
  ic_owner :: rstring
  ic_script :: rstring
  ic_abi :: rstring
  ic_root_variables :: "ContractStorageRow list"
  ic_tables :: "ContractStorageTable list"

definition de_ImportedContract :: "ImportedContract json_decoder" where
  "de_ImportedContract v = do {
     m \<leftarrow> members 7 v;
     name \<leftarrow> field m 0 ''name'' (lit '''') de_string;
     address \<leftarrow> field m 1 ''address'' (lit '''') de_string;
     owner \<leftarrow> field m 2 ''owner'' (lit '''') de_string;
     script \<leftarrow> field m 3 ''script'' (lit '''') de_string;
     abi \<leftarrow> field m 4 ''abi'' (lit '''') de_string;
     root_variables \<leftarrow> field m 5 ''rootVariables'' [] (de_vec de_ContractStorageRow);
     tables \<leftarrow> field m 6 ''tables'' [] (de_vec de_ContractStorageTable);
     Some \<lparr>ic_name = name, ic_address = address, ic_owner = owner, ic_script = script, ic_abi = abi,
       ic_root_variables = root_variables, ic_tables = tables\<rparr> }"

definition json_ImportedContract :: "ImportedContract \<Rightarrow> json" where
  "json_ImportedContract x = json_struct
     [(''name'', J_String (ic_name x)), (''address'', J_String (ic_address x)),
       (''owner'', J_String (ic_owner x)), (''script'', J_String (ic_script x)),
       (''abi'', J_String (ic_abi x)),
       (''rootVariables'', json_vec json_ContractStorageRow (ic_root_variables x)),
       (''tables'', json_vec json_ContractStorageTable (ic_tables x))]"

lemma ImportedContract_reads [json_reads]: "de_ImportedContract (json_ImportedContract x) = Some x" "json_ImportedContract x \<noteq> J_Null"
  by (simp_all add: de_ImportedContract_def json_ImportedContract_def struct_reads json_reads)

record ImportContractsArguments =
  ica_contracts_count :: rstring
  ica_contracts :: "ImportedContract list"

definition de_ImportContractsArguments :: "ImportContractsArguments json_decoder" where
  "de_ImportContractsArguments v = do {
     m \<leftarrow> members 2 v;
     contracts_count \<leftarrow> field m 0 ''contractsCount'' (lit '''') de_string;
     contracts \<leftarrow> field m 1 ''contracts'' [] (de_vec de_ImportedContract);
     Some \<lparr>ica_contracts_count = contracts_count, ica_contracts = contracts\<rparr> }"

definition json_ImportContractsArguments :: "ImportContractsArguments \<Rightarrow> json" where
  "json_ImportContractsArguments x = json_struct
     [(''contractsCount'', J_String (ica_contracts_count x)),
       (''contracts'', json_vec json_ImportedContract (ica_contracts x))]"

lemma ImportContractsArguments_reads [json_reads]: "de_ImportContractsArguments (json_ImportContractsArguments x) = Some x" "json_ImportContractsArguments x \<noteq> J_Null"
  by (simp_all add: de_ImportContractsArguments_def json_ImportContractsArguments_def struct_reads json_reads)

record SeriesSupplement =
  ss_token :: rstring
  ss_token_id :: rstring
  ss_phantasma_series_id :: rstring
  ss_max_supply :: rstring
  ss_mint_count :: rstring
  ss_mode :: rstring
  ss_script :: rstring
  ss_abi :: rstring
  ss_rom :: rstring

definition de_SeriesSupplement :: "SeriesSupplement json_decoder" where
  "de_SeriesSupplement v = do {
     m \<leftarrow> members 9 v;
     token \<leftarrow> field m 0 ''token'' (lit '''') de_string;
     token_id \<leftarrow> field m 1 ''tokenId'' (lit '''') de_string;
     phantasma_series_id \<leftarrow> field m 2 ''phantasmaSeriesId'' (lit '''') de_string;
     max_supply \<leftarrow> field m 3 ''maxSupply'' (lit '''') de_string;
     mint_count \<leftarrow> field m 4 ''mintCount'' (lit '''') de_string;
     mode \<leftarrow> field m 5 ''mode'' (lit '''') de_string;
     script \<leftarrow> field m 6 ''script'' (lit '''') de_string;
     abi \<leftarrow> field m 7 ''abi'' (lit '''') de_string;
     rom \<leftarrow> field m 8 ''rom'' (lit '''') de_string;
     Some \<lparr>ss_token = token, ss_token_id = token_id, ss_phantasma_series_id = phantasma_series_id,
       ss_max_supply = max_supply, ss_mint_count = mint_count, ss_mode = mode, ss_script = script,
       ss_abi = abi, ss_rom = rom\<rparr> }"

definition json_SeriesSupplement :: "SeriesSupplement \<Rightarrow> json" where
  "json_SeriesSupplement x = json_struct
     [(''token'', J_String (ss_token x)), (''tokenId'', J_String (ss_token_id x)),
       (''phantasmaSeriesId'', J_String (ss_phantasma_series_id x)),
       (''maxSupply'', J_String (ss_max_supply x)), (''mintCount'', J_String (ss_mint_count x)),
       (''mode'', J_String (ss_mode x)), (''script'', J_String (ss_script x)),
       (''abi'', J_String (ss_abi x)), (''rom'', J_String (ss_rom x))]"

lemma SeriesSupplement_reads [json_reads]: "de_SeriesSupplement (json_SeriesSupplement x) = Some x" "json_SeriesSupplement x \<noteq> J_Null"
  by (simp_all add: de_SeriesSupplement_def json_SeriesSupplement_def struct_reads json_reads)

record SeriesMintCountRepair =
  smcr_token :: rstring
  smcr_token_id :: rstring
  smcr_phantasma_series_id :: rstring
  smcr_imported_live_count :: rstring
  smcr_script :: rstring
  smcr_abi :: rstring

definition de_SeriesMintCountRepair :: "SeriesMintCountRepair json_decoder" where
  "de_SeriesMintCountRepair v = do {
     m \<leftarrow> members 6 v;
     token \<leftarrow> field m 0 ''token'' (lit '''') de_string;
     token_id \<leftarrow> field m 1 ''tokenId'' (lit '''') de_string;
     phantasma_series_id \<leftarrow> field m 2 ''phantasmaSeriesId'' (lit '''') de_string;
     imported_live_count \<leftarrow> field m 3 ''importedLiveCount'' (lit '''') de_string;
     script \<leftarrow> field m 4 ''script'' (lit '''') de_string;
     abi \<leftarrow> field m 5 ''abi'' (lit '''') de_string;
     Some \<lparr>smcr_token = token, smcr_token_id = token_id,
       smcr_phantasma_series_id = phantasma_series_id, smcr_imported_live_count = imported_live_count,
       smcr_script = script, smcr_abi = abi\<rparr> }"

definition json_SeriesMintCountRepair :: "SeriesMintCountRepair \<Rightarrow> json" where
  "json_SeriesMintCountRepair x = json_struct
     [(''token'', J_String (smcr_token x)), (''tokenId'', J_String (smcr_token_id x)),
       (''phantasmaSeriesId'', J_String (smcr_phantasma_series_id x)),
       (''importedLiveCount'', J_String (smcr_imported_live_count x)),
       (''script'', J_String (smcr_script x)), (''abi'', J_String (smcr_abi x))]"

lemma SeriesMintCountRepair_reads [json_reads]: "de_SeriesMintCountRepair (json_SeriesMintCountRepair x) = Some x" "json_SeriesMintCountRepair x \<noteq> J_Null"
  by (simp_all add: de_SeriesMintCountRepair_def json_SeriesMintCountRepair_def struct_reads json_reads)

record RepairSeriesArguments =
  rsa_supplements_count :: rstring
  rsa_supplements :: "SeriesSupplement list"
  rsa_repairs_count :: rstring
  rsa_repairs :: "SeriesMintCountRepair list"

definition de_RepairSeriesArguments :: "RepairSeriesArguments json_decoder" where
  "de_RepairSeriesArguments v = do {
     m \<leftarrow> members 4 v;
     supplements_count \<leftarrow> field m 0 ''supplementsCount'' (lit '''') de_string;
     supplements \<leftarrow> field m 1 ''supplements'' [] (de_vec de_SeriesSupplement);
     repairs_count \<leftarrow> field m 2 ''repairsCount'' (lit '''') de_string;
     repairs \<leftarrow> field m 3 ''repairs'' [] (de_vec de_SeriesMintCountRepair);
     Some \<lparr>rsa_supplements_count = supplements_count, rsa_supplements = supplements,
       rsa_repairs_count = repairs_count, rsa_repairs = repairs\<rparr> }"

definition json_RepairSeriesArguments :: "RepairSeriesArguments \<Rightarrow> json" where
  "json_RepairSeriesArguments x = json_struct
     [(''supplementsCount'', J_String (rsa_supplements_count x)),
       (''supplements'', json_vec json_SeriesSupplement (rsa_supplements x)),
       (''repairsCount'', J_String (rsa_repairs_count x)),
       (''repairs'', json_vec json_SeriesMintCountRepair (rsa_repairs x))]"

lemma RepairSeriesArguments_reads [json_reads]: "de_RepairSeriesArguments (json_RepairSeriesArguments x) = Some x" "json_RepairSeriesArguments x \<noteq> J_Null"
  by (simp_all add: de_RepairSeriesArguments_def json_RepairSeriesArguments_def struct_reads json_reads)

record TokenRepair =
  tr_token :: rstring
  tr_token_id :: rstring
  tr_symbol :: rstring
  tr_script :: rstring
  tr_abi :: rstring
  tr_token_flags :: rstring
  tr_repair_mask :: rstring

definition de_TokenRepair :: "TokenRepair json_decoder" where
  "de_TokenRepair v = do {
     m \<leftarrow> members 7 v;
     token \<leftarrow> field m 0 ''token'' (lit '''') de_string;
     token_id \<leftarrow> field m 1 ''tokenId'' (lit '''') de_string;
     symbol \<leftarrow> field m 2 ''symbol'' (lit '''') de_string;
     script \<leftarrow> field m 3 ''script'' (lit '''') de_string;
     abi \<leftarrow> field m 4 ''abi'' (lit '''') de_string;
     token_flags \<leftarrow> field m 5 ''tokenFlags'' (lit '''') de_string;
     repair_mask \<leftarrow> field m 6 ''repairMask'' (lit '''') de_string;
     Some \<lparr>tr_token = token, tr_token_id = token_id, tr_symbol = symbol, tr_script = script,
       tr_abi = abi, tr_token_flags = token_flags, tr_repair_mask = repair_mask\<rparr> }"

definition json_TokenRepair :: "TokenRepair \<Rightarrow> json" where
  "json_TokenRepair x = json_struct
     [(''token'', J_String (tr_token x)), (''tokenId'', J_String (tr_token_id x)),
       (''symbol'', J_String (tr_symbol x)), (''script'', J_String (tr_script x)),
       (''abi'', J_String (tr_abi x)), (''tokenFlags'', J_String (tr_token_flags x)),
       (''repairMask'', J_String (tr_repair_mask x))]"

lemma TokenRepair_reads [json_reads]: "de_TokenRepair (json_TokenRepair x) = Some x" "json_TokenRepair x \<noteq> J_Null"
  by (simp_all add: de_TokenRepair_def json_TokenRepair_def struct_reads json_reads)

record RepairTokenArguments =
  rta_repairs_count :: rstring
  rta_repairs :: "TokenRepair list"

definition de_RepairTokenArguments :: "RepairTokenArguments json_decoder" where
  "de_RepairTokenArguments v = do {
     m \<leftarrow> members 2 v;
     repairs_count \<leftarrow> field m 0 ''repairsCount'' (lit '''') de_string;
     repairs \<leftarrow> field m 1 ''repairs'' [] (de_vec de_TokenRepair);
     Some \<lparr>rta_repairs_count = repairs_count, rta_repairs = repairs\<rparr> }"

definition json_RepairTokenArguments :: "RepairTokenArguments \<Rightarrow> json" where
  "json_RepairTokenArguments x = json_struct
     [(''repairsCount'', J_String (rta_repairs_count x)),
       (''repairs'', json_vec json_TokenRepair (rta_repairs x))]"

lemma RepairTokenArguments_reads [json_reads]: "de_RepairTokenArguments (json_RepairTokenArguments x) = Some x" "json_RepairTokenArguments x \<noteq> J_Null"
  by (simp_all add: de_RepairTokenArguments_def json_RepairTokenArguments_def struct_reads json_reads)

section \<open>Token call arguments\<close>

record TokenReferenceArguments =
  tra_token :: rstring
  tra_token_id :: rstring

definition de_TokenReferenceArguments :: "TokenReferenceArguments json_decoder" where
  "de_TokenReferenceArguments v = do {
     m \<leftarrow> members 2 v;
     token \<leftarrow> field m 0 ''token'' (lit '''') de_string;
     token_id \<leftarrow> field m 1 ''tokenId'' (lit '''') de_string;
     Some \<lparr>tra_token = token, tra_token_id = token_id\<rparr> }"

definition json_TokenReferenceArguments :: "TokenReferenceArguments \<Rightarrow> json" where
  "json_TokenReferenceArguments x = json_struct
     [(''token'', J_String (tra_token x)), (''tokenId'', J_String (tra_token_id x))]"

lemma TokenReferenceArguments_reads [json_reads]: "de_TokenReferenceArguments (json_TokenReferenceArguments x) = Some x" "json_TokenReferenceArguments x \<noteq> J_Null"
  by (simp_all add: de_TokenReferenceArguments_def json_TokenReferenceArguments_def struct_reads json_reads)

record TokenSeriesReferenceArguments =
  tsra_series_id :: rstring
  tsra_token :: rstring
  tsra_token_id :: rstring

definition de_TokenSeriesReferenceArguments :: "TokenSeriesReferenceArguments json_decoder" where
  "de_TokenSeriesReferenceArguments v = do {
     m \<leftarrow> members 3 v;
     series_id \<leftarrow> field m 0 ''seriesId'' (lit '''') de_string;
     token \<leftarrow> field m 1 ''token'' (lit '''') de_string;
     token_id \<leftarrow> field m 2 ''tokenId'' (lit '''') de_string;
     Some \<lparr>tsra_series_id = series_id, tsra_token = token, tsra_token_id = token_id\<rparr> }"

definition json_TokenSeriesReferenceArguments :: "TokenSeriesReferenceArguments \<Rightarrow> json" where
  "json_TokenSeriesReferenceArguments x = json_struct
     [(''seriesId'', J_String (tsra_series_id x)), (''token'', J_String (tsra_token x)),
       (''tokenId'', J_String (tsra_token_id x))]"

lemma TokenSeriesReferenceArguments_reads [json_reads]: "de_TokenSeriesReferenceArguments (json_TokenSeriesReferenceArguments x) = Some x" "json_TokenSeriesReferenceArguments x \<noteq> J_Null"
  by (simp_all add: de_TokenSeriesReferenceArguments_def json_TokenSeriesReferenceArguments_def struct_reads json_reads)

record SymbolArguments =
  sa_symbol :: rstring

definition de_SymbolArguments :: "SymbolArguments json_decoder" where
  "de_SymbolArguments v = do {
     m \<leftarrow> members 1 v;
     symbol \<leftarrow> field m 0 ''symbol'' (lit '''') de_string;
     Some \<lparr>sa_symbol = symbol\<rparr> }"

definition json_SymbolArguments :: "SymbolArguments \<Rightarrow> json" where
  "json_SymbolArguments x = json_struct
     [(''symbol'', J_String (sa_symbol x))]"

lemma SymbolArguments_reads [json_reads]: "de_SymbolArguments (json_SymbolArguments x) = Some x" "json_SymbolArguments x \<noteq> J_Null"
  by (simp_all add: de_SymbolArguments_def json_SymbolArguments_def struct_reads json_reads)

record TransferFungibleArguments =
  tfa_from :: rstring
  tfa_to :: rstring
  tfa_amount :: rstring
  tfa_token :: rstring
  tfa_token_id :: rstring

definition de_TransferFungibleArguments :: "TransferFungibleArguments json_decoder" where
  "de_TransferFungibleArguments v = do {
     m \<leftarrow> members 5 v;
     from \<leftarrow> field m 0 ''from'' (lit '''') de_string;
     to \<leftarrow> field m 1 ''to'' (lit '''') de_string;
     amount \<leftarrow> field m 2 ''amount'' (lit '''') de_string;
     token \<leftarrow> field m 3 ''token'' (lit '''') de_string;
     token_id \<leftarrow> field m 4 ''tokenId'' (lit '''') de_string;
     Some \<lparr>tfa_from = from, tfa_to = to, tfa_amount = amount, tfa_token = token,
       tfa_token_id = token_id\<rparr> }"

definition json_TransferFungibleArguments :: "TransferFungibleArguments \<Rightarrow> json" where
  "json_TransferFungibleArguments x = json_struct
     [(''from'', J_String (tfa_from x)), (''to'', J_String (tfa_to x)), (''amount'', J_String (tfa_amount x)),
       (''token'', J_String (tfa_token x)), (''tokenId'', J_String (tfa_token_id x))]"

lemma TransferFungibleArguments_reads [json_reads]: "de_TransferFungibleArguments (json_TransferFungibleArguments x) = Some x" "json_TransferFungibleArguments x \<noteq> J_Null"
  by (simp_all add: de_TransferFungibleArguments_def json_TransferFungibleArguments_def struct_reads json_reads)

record TransferNonFungibleArguments =
  tnfa_from :: rstring
  tnfa_to :: rstring
  tnfa_instance_ids :: "rstring list"
  tnfa_token :: rstring
  tnfa_token_id :: rstring

definition de_TransferNonFungibleArguments :: "TransferNonFungibleArguments json_decoder" where
  "de_TransferNonFungibleArguments v = do {
     m \<leftarrow> members 5 v;
     from \<leftarrow> field m 0 ''from'' (lit '''') de_string;
     to \<leftarrow> field m 1 ''to'' (lit '''') de_string;
     instance_ids \<leftarrow> field m 2 ''instanceIds'' [] (de_vec de_string);
     token \<leftarrow> field m 3 ''token'' (lit '''') de_string;
     token_id \<leftarrow> field m 4 ''tokenId'' (lit '''') de_string;
     Some \<lparr>tnfa_from = from, tnfa_to = to, tnfa_instance_ids = instance_ids, tnfa_token = token,
       tnfa_token_id = token_id\<rparr> }"

definition json_TransferNonFungibleArguments :: "TransferNonFungibleArguments \<Rightarrow> json" where
  "json_TransferNonFungibleArguments x = json_struct
     [(''from'', J_String (tnfa_from x)), (''to'', J_String (tnfa_to x)),
       (''instanceIds'', json_vec J_String (tnfa_instance_ids x)), (''token'', J_String (tnfa_token x)),
       (''tokenId'', J_String (tnfa_token_id x))]"

lemma TransferNonFungibleArguments_reads [json_reads]: "de_TransferNonFungibleArguments (json_TransferNonFungibleArguments x) = Some x" "json_TransferNonFungibleArguments x \<noteq> J_Null"
  by (simp_all add: de_TransferNonFungibleArguments_def json_TransferNonFungibleArguments_def struct_reads json_reads)

record MintFungibleArguments =
  mfa_to :: rstring
  mfa_amount :: rstring
  mfa_token :: rstring
  mfa_token_id :: rstring

definition de_MintFungibleArguments :: "MintFungibleArguments json_decoder" where
  "de_MintFungibleArguments v = do {
     m \<leftarrow> members 4 v;
     to \<leftarrow> field m 0 ''to'' (lit '''') de_string;
     amount \<leftarrow> field m 1 ''amount'' (lit '''') de_string;
     token \<leftarrow> field m 2 ''token'' (lit '''') de_string;
     token_id \<leftarrow> field m 3 ''tokenId'' (lit '''') de_string;
     Some \<lparr>mfa_to = to, mfa_amount = amount, mfa_token = token, mfa_token_id = token_id\<rparr> }"

definition json_MintFungibleArguments :: "MintFungibleArguments \<Rightarrow> json" where
  "json_MintFungibleArguments x = json_struct
     [(''to'', J_String (mfa_to x)), (''amount'', J_String (mfa_amount x)), (''token'', J_String (mfa_token x)),
       (''tokenId'', J_String (mfa_token_id x))]"

lemma MintFungibleArguments_reads [json_reads]: "de_MintFungibleArguments (json_MintFungibleArguments x) = Some x" "json_MintFungibleArguments x \<noteq> J_Null"
  by (simp_all add: de_MintFungibleArguments_def json_MintFungibleArguments_def struct_reads json_reads)

record BurnFungibleArguments =
  bfa_from :: rstring
  bfa_amount :: rstring
  bfa_token :: rstring
  bfa_token_id :: rstring

definition de_BurnFungibleArguments :: "BurnFungibleArguments json_decoder" where
  "de_BurnFungibleArguments v = do {
     m \<leftarrow> members 4 v;
     from \<leftarrow> field m 0 ''from'' (lit '''') de_string;
     amount \<leftarrow> field m 1 ''amount'' (lit '''') de_string;
     token \<leftarrow> field m 2 ''token'' (lit '''') de_string;
     token_id \<leftarrow> field m 3 ''tokenId'' (lit '''') de_string;
     Some \<lparr>bfa_from = from, bfa_amount = amount, bfa_token = token, bfa_token_id = token_id\<rparr> }"

definition json_BurnFungibleArguments :: "BurnFungibleArguments \<Rightarrow> json" where
  "json_BurnFungibleArguments x = json_struct
     [(''from'', J_String (bfa_from x)), (''amount'', J_String (bfa_amount x)),
       (''token'', J_String (bfa_token x)), (''tokenId'', J_String (bfa_token_id x))]"

lemma BurnFungibleArguments_reads [json_reads]: "de_BurnFungibleArguments (json_BurnFungibleArguments x) = Some x" "json_BurnFungibleArguments x \<noteq> J_Null"
  by (simp_all add: de_BurnFungibleArguments_def json_BurnFungibleArguments_def struct_reads json_reads)

record BalanceArguments =
  ba_address :: rstring
  ba_token :: rstring
  ba_token_id :: rstring

definition de_BalanceArguments :: "BalanceArguments json_decoder" where
  "de_BalanceArguments v = do {
     m \<leftarrow> members 3 v;
     address \<leftarrow> field m 0 ''address'' (lit '''') de_string;
     token \<leftarrow> field m 1 ''token'' (lit '''') de_string;
     token_id \<leftarrow> field m 2 ''tokenId'' (lit '''') de_string;
     Some \<lparr>ba_address = address, ba_token = token, ba_token_id = token_id\<rparr> }"

definition json_BalanceArguments :: "BalanceArguments \<Rightarrow> json" where
  "json_BalanceArguments x = json_struct
     [(''address'', J_String (ba_address x)), (''token'', J_String (ba_token x)),
       (''tokenId'', J_String (ba_token_id x))]"

lemma BalanceArguments_reads [json_reads]: "de_BalanceArguments (json_BalanceArguments x) = Some x" "json_BalanceArguments x \<noteq> J_Null"
  by (simp_all add: de_BalanceArguments_def json_BalanceArguments_def struct_reads json_reads)

record CreateTokenArguments =
  cta_symbol :: rstring
  cta_owner :: rstring
  cta_max_supply :: rstring
  cta_decimals :: rstring
  cta_flags :: rstring
  cta_metadata :: "(rstring \<times> VmValue) list option"
  cta_token_schemas :: "rstring option"

definition de_CreateTokenArguments :: "(u64 \<Rightarrow> rstring) \<Rightarrow> CreateTokenArguments json_decoder" where
  "de_CreateTokenArguments ft v = do {
     m \<leftarrow> members 7 v;
     symbol \<leftarrow> field m 0 ''symbol'' (lit '''') de_string;
     owner \<leftarrow> field m 1 ''owner'' (lit '''') de_string;
     max_supply \<leftarrow> field m 2 ''maxSupply'' (lit '''') de_string;
     decimals \<leftarrow> field m 3 ''decimals'' (lit '''') de_string;
     flags \<leftarrow> field m 4 ''flags'' (lit '''') de_string;
     metadata \<leftarrow> field m 5 ''metadata'' None (de_option (de_btree (de_VmValue ft)));
     token_schemas \<leftarrow> field m 6 ''tokenSchemas'' None (de_option de_string);
     Some \<lparr>cta_symbol = symbol, cta_owner = owner, cta_max_supply = max_supply,
       cta_decimals = decimals, cta_flags = flags, cta_metadata = metadata,
       cta_token_schemas = token_schemas\<rparr> }"

definition json_CreateTokenArguments :: "CreateTokenArguments \<Rightarrow> json" where
  "json_CreateTokenArguments x = json_struct
     ([(''symbol'', J_String (cta_symbol x)), (''owner'', J_String (cta_owner x)),
       (''maxSupply'', J_String (cta_max_supply x)), (''decimals'', J_String (cta_decimals x)),
       (''flags'', J_String (cta_flags x))] @
      opt_field ''metadata'' (json_btree json_VmValue) (cta_metadata x) @
      opt_field ''tokenSchemas'' J_String (cta_token_schemas x))"

lemma CreateTokenArguments_reads [json_reads]: "de_CreateTokenArguments ft (json_CreateTokenArguments x) = Some x" "json_CreateTokenArguments x \<noteq> J_Null"
  by (simp_all add: de_CreateTokenArguments_def json_CreateTokenArguments_def struct_reads json_reads)

record TokenSeriesArguments =
  tsa_owner :: rstring
  tsa_max_mint :: rstring
  tsa_max_supply :: rstring
  tsa_metadata :: "(rstring \<times> VmValue) list option"
  tsa_series_id :: "rstring option"
  tsa_metadata_raw :: "rstring option"
  tsa_token :: rstring
  tsa_token_id :: rstring

definition de_TokenSeriesArguments :: "(u64 \<Rightarrow> rstring) \<Rightarrow> TokenSeriesArguments json_decoder" where
  "de_TokenSeriesArguments ft v = do {
     m \<leftarrow> members 8 v;
     owner \<leftarrow> field m 0 ''owner'' (lit '''') de_string;
     max_mint \<leftarrow> field m 1 ''maxMint'' (lit '''') de_string;
     max_supply \<leftarrow> field m 2 ''maxSupply'' (lit '''') de_string;
     metadata \<leftarrow> field m 3 ''metadata'' None (de_option (de_btree (de_VmValue ft)));
     series_id \<leftarrow> field m 4 ''seriesId'' None (de_option de_string);
     metadata_raw \<leftarrow> field m 5 ''metadataRaw'' None (de_option de_string);
     token \<leftarrow> field m 6 ''token'' (lit '''') de_string;
     token_id \<leftarrow> field m 7 ''tokenId'' (lit '''') de_string;
     Some \<lparr>tsa_owner = owner, tsa_max_mint = max_mint, tsa_max_supply = max_supply,
       tsa_metadata = metadata, tsa_series_id = series_id, tsa_metadata_raw = metadata_raw,
       tsa_token = token, tsa_token_id = token_id\<rparr> }"

definition json_TokenSeriesArguments :: "TokenSeriesArguments \<Rightarrow> json" where
  "json_TokenSeriesArguments x = json_struct
     ([(''owner'', J_String (tsa_owner x)), (''maxMint'', J_String (tsa_max_mint x)),
       (''maxSupply'', J_String (tsa_max_supply x))] @
      opt_field ''metadata'' (json_btree json_VmValue) (tsa_metadata x) @
      opt_field ''seriesId'' J_String (tsa_series_id x) @
      opt_field ''metadataRaw'' J_String (tsa_metadata_raw x) @
      [(''token'', J_String (tsa_token x)), (''tokenId'', J_String (tsa_token_id x))])"

lemma TokenSeriesArguments_reads [json_reads]: "de_TokenSeriesArguments ft (json_TokenSeriesArguments x) = Some x" "json_TokenSeriesArguments x \<noteq> J_Null"
  by (simp_all add: de_TokenSeriesArguments_def json_TokenSeriesArguments_def struct_reads json_reads)

record CreateMintedTokenSeriesArguments =
  cmtsa_recipient :: rstring
  cmtsa_roms :: "rstring list"
  cmtsa_rams :: "rstring list"
  cmtsa_owner :: rstring
  cmtsa_max_mint :: rstring
  cmtsa_max_supply :: rstring
  cmtsa_metadata :: "(rstring \<times> VmValue) list option"
  cmtsa_series_id :: "rstring option"
  cmtsa_metadata_raw :: "rstring option"
  cmtsa_token :: rstring
  cmtsa_token_id :: rstring

definition de_CreateMintedTokenSeriesArguments :: "(u64 \<Rightarrow> rstring) \<Rightarrow> CreateMintedTokenSeriesArguments json_decoder" where
  "de_CreateMintedTokenSeriesArguments ft v = do {
     m \<leftarrow> members 11 v;
     recipient \<leftarrow> field m 0 ''recipient'' (lit '''') de_string;
     roms \<leftarrow> field m 1 ''roms'' [] (de_vec de_string);
     rams \<leftarrow> field m 2 ''rams'' [] (de_vec de_string);
     owner \<leftarrow> field m 3 ''owner'' (lit '''') de_string;
     max_mint \<leftarrow> field m 4 ''maxMint'' (lit '''') de_string;
     max_supply \<leftarrow> field m 5 ''maxSupply'' (lit '''') de_string;
     metadata \<leftarrow> field m 6 ''metadata'' None (de_option (de_btree (de_VmValue ft)));
     series_id \<leftarrow> field m 7 ''seriesId'' None (de_option de_string);
     metadata_raw \<leftarrow> field m 8 ''metadataRaw'' None (de_option de_string);
     token \<leftarrow> field m 9 ''token'' (lit '''') de_string;
     token_id \<leftarrow> field m 10 ''tokenId'' (lit '''') de_string;
     Some \<lparr>cmtsa_recipient = recipient, cmtsa_roms = roms, cmtsa_rams = rams, cmtsa_owner = owner,
       cmtsa_max_mint = max_mint, cmtsa_max_supply = max_supply, cmtsa_metadata = metadata,
       cmtsa_series_id = series_id, cmtsa_metadata_raw = metadata_raw, cmtsa_token = token,
       cmtsa_token_id = token_id\<rparr> }"

definition json_CreateMintedTokenSeriesArguments :: "CreateMintedTokenSeriesArguments \<Rightarrow> json" where
  "json_CreateMintedTokenSeriesArguments x = json_struct
     ([(''recipient'', J_String (cmtsa_recipient x)), (''roms'', json_vec J_String (cmtsa_roms x)),
       (''rams'', json_vec J_String (cmtsa_rams x)), (''owner'', J_String (cmtsa_owner x)),
       (''maxMint'', J_String (cmtsa_max_mint x)), (''maxSupply'', J_String (cmtsa_max_supply x))] @
      opt_field ''metadata'' (json_btree json_VmValue) (cmtsa_metadata x) @
      opt_field ''seriesId'' J_String (cmtsa_series_id x) @
      opt_field ''metadataRaw'' J_String (cmtsa_metadata_raw x) @
      [(''token'', J_String (cmtsa_token x)), (''tokenId'', J_String (cmtsa_token_id x))])"

lemma CreateMintedTokenSeriesArguments_reads [json_reads]: "de_CreateMintedTokenSeriesArguments ft (json_CreateMintedTokenSeriesArguments x) = Some x" "json_CreateMintedTokenSeriesArguments x \<noteq> J_Null"
  by (simp_all add: de_CreateMintedTokenSeriesArguments_def json_CreateMintedTokenSeriesArguments_def struct_reads json_reads)

record NftMint =
  nm_series_id :: rstring
  nm_rom :: rstring
  nm_ram :: rstring

definition de_NftMint :: "NftMint json_decoder" where
  "de_NftMint v = do {
     m \<leftarrow> members 3 v;
     series_id \<leftarrow> field m 0 ''seriesId'' (lit '''') de_string;
     rom \<leftarrow> field m 1 ''rom'' (lit '''') de_string;
     ram \<leftarrow> field m 2 ''ram'' (lit '''') de_string;
     Some \<lparr>nm_series_id = series_id, nm_rom = rom, nm_ram = ram\<rparr> }"

definition json_NftMint :: "NftMint \<Rightarrow> json" where
  "json_NftMint x = json_struct
     [(''seriesId'', J_String (nm_series_id x)), (''rom'', J_String (nm_rom x)), (''ram'', J_String (nm_ram x))]"

lemma NftMint_reads [json_reads]: "de_NftMint (json_NftMint x) = Some x" "json_NftMint x \<noteq> J_Null"
  by (simp_all add: de_NftMint_def json_NftMint_def struct_reads json_reads)

record PhantasmaNftMint =
  pnm_phantasma_series_id :: rstring
  pnm_rom :: rstring
  pnm_ram :: rstring

definition de_PhantasmaNftMint :: "PhantasmaNftMint json_decoder" where
  "de_PhantasmaNftMint v = do {
     m \<leftarrow> members 3 v;
     phantasma_series_id \<leftarrow> field m 0 ''phantasmaSeriesId'' (lit '''') de_string;
     rom \<leftarrow> field m 1 ''rom'' (lit '''') de_string;
     ram \<leftarrow> field m 2 ''ram'' (lit '''') de_string;
     Some \<lparr>pnm_phantasma_series_id = phantasma_series_id, pnm_rom = rom, pnm_ram = ram\<rparr> }"

definition json_PhantasmaNftMint :: "PhantasmaNftMint \<Rightarrow> json" where
  "json_PhantasmaNftMint x = json_struct
     [(''phantasmaSeriesId'', J_String (pnm_phantasma_series_id x)), (''rom'', J_String (pnm_rom x)),
       (''ram'', J_String (pnm_ram x))]"

lemma PhantasmaNftMint_reads [json_reads]: "de_PhantasmaNftMint (json_PhantasmaNftMint x) = Some x" "json_PhantasmaNftMint x \<noteq> J_Null"
  by (simp_all add: de_PhantasmaNftMint_def json_PhantasmaNftMint_def struct_reads json_reads)

record MintNonFungibleArguments =
  mnfa_owner :: rstring
  mnfa_tokens :: "NftMint list"
  mnfa_token :: rstring
  mnfa_token_id :: rstring

definition de_MintNonFungibleArguments :: "MintNonFungibleArguments json_decoder" where
  "de_MintNonFungibleArguments v = do {
     m \<leftarrow> members 4 v;
     owner \<leftarrow> field m 0 ''owner'' (lit '''') de_string;
     tokens \<leftarrow> field m 1 ''tokens'' [] (de_vec de_NftMint);
     token \<leftarrow> field m 2 ''token'' (lit '''') de_string;
     token_id \<leftarrow> field m 3 ''tokenId'' (lit '''') de_string;
     Some \<lparr>mnfa_owner = owner, mnfa_tokens = tokens, mnfa_token = token, mnfa_token_id = token_id\<rparr> }"

definition json_MintNonFungibleArguments :: "MintNonFungibleArguments \<Rightarrow> json" where
  "json_MintNonFungibleArguments x = json_struct
     [(''owner'', J_String (mnfa_owner x)), (''tokens'', json_vec json_NftMint (mnfa_tokens x)),
       (''token'', J_String (mnfa_token x)), (''tokenId'', J_String (mnfa_token_id x))]"

lemma MintNonFungibleArguments_reads [json_reads]: "de_MintNonFungibleArguments (json_MintNonFungibleArguments x) = Some x" "json_MintNonFungibleArguments x \<noteq> J_Null"
  by (simp_all add: de_MintNonFungibleArguments_def json_MintNonFungibleArguments_def struct_reads json_reads)

record MintPhantasmaNonFungibleArguments =
  mpnfa_owner :: rstring
  mpnfa_tokens :: "PhantasmaNftMint list"
  mpnfa_token :: rstring
  mpnfa_token_id :: rstring

definition de_MintPhantasmaNonFungibleArguments :: "MintPhantasmaNonFungibleArguments json_decoder" where
  "de_MintPhantasmaNonFungibleArguments v = do {
     m \<leftarrow> members 4 v;
     owner \<leftarrow> field m 0 ''owner'' (lit '''') de_string;
     tokens \<leftarrow> field m 1 ''tokens'' [] (de_vec de_PhantasmaNftMint);
     token \<leftarrow> field m 2 ''token'' (lit '''') de_string;
     token_id \<leftarrow> field m 3 ''tokenId'' (lit '''') de_string;
     Some \<lparr>mpnfa_owner = owner, mpnfa_tokens = tokens, mpnfa_token = token,
       mpnfa_token_id = token_id\<rparr> }"

definition json_MintPhantasmaNonFungibleArguments :: "MintPhantasmaNonFungibleArguments \<Rightarrow> json" where
  "json_MintPhantasmaNonFungibleArguments x = json_struct
     [(''owner'', J_String (mpnfa_owner x)), (''tokens'', json_vec json_PhantasmaNftMint (mpnfa_tokens x)),
       (''token'', J_String (mpnfa_token x)), (''tokenId'', J_String (mpnfa_token_id x))]"

lemma MintPhantasmaNonFungibleArguments_reads [json_reads]: "de_MintPhantasmaNonFungibleArguments (json_MintPhantasmaNonFungibleArguments x) = Some x" "json_MintPhantasmaNonFungibleArguments x \<noteq> J_Null"
  by (simp_all add: de_MintPhantasmaNonFungibleArguments_def json_MintPhantasmaNonFungibleArguments_def struct_reads json_reads)

record BurnNonFungibleArguments =
  bnfa_address :: rstring
  bnfa_instance_ids :: "rstring list"
  bnfa_token :: rstring
  bnfa_token_id :: rstring

definition de_BurnNonFungibleArguments :: "BurnNonFungibleArguments json_decoder" where
  "de_BurnNonFungibleArguments v = do {
     m \<leftarrow> members 4 v;
     address \<leftarrow> field m 0 ''address'' (lit '''') de_string;
     instance_ids \<leftarrow> field m 1 ''instanceIds'' [] (de_vec de_string);
     token \<leftarrow> field m 2 ''token'' (lit '''') de_string;
     token_id \<leftarrow> field m 3 ''tokenId'' (lit '''') de_string;
     Some \<lparr>bnfa_address = address, bnfa_instance_ids = instance_ids, bnfa_token = token,
       bnfa_token_id = token_id\<rparr> }"

definition json_BurnNonFungibleArguments :: "BurnNonFungibleArguments \<Rightarrow> json" where
  "json_BurnNonFungibleArguments x = json_struct
     [(''address'', J_String (bnfa_address x)), (''instanceIds'', json_vec J_String (bnfa_instance_ids x)),
       (''token'', J_String (bnfa_token x)), (''tokenId'', J_String (bnfa_token_id x))]"

lemma BurnNonFungibleArguments_reads [json_reads]: "de_BurnNonFungibleArguments (json_BurnNonFungibleArguments x) = Some x" "json_BurnNonFungibleArguments x \<noteq> J_Null"
  by (simp_all add: de_BurnNonFungibleArguments_def json_BurnNonFungibleArguments_def struct_reads json_reads)

record NonFungibleInfoArguments =
  nfia_instance_id :: rstring
  nfia_get_schemas :: rstring
  nfia_token :: rstring
  nfia_token_id :: rstring

definition de_NonFungibleInfoArguments :: "NonFungibleInfoArguments json_decoder" where
  "de_NonFungibleInfoArguments v = do {
     m \<leftarrow> members 4 v;
     instance_id \<leftarrow> field m 0 ''instanceId'' (lit '''') de_string;
     get_schemas \<leftarrow> field m 1 ''getSchemas'' (lit '''') de_string;
     token \<leftarrow> field m 2 ''token'' (lit '''') de_string;
     token_id \<leftarrow> field m 3 ''tokenId'' (lit '''') de_string;
     Some \<lparr>nfia_instance_id = instance_id, nfia_get_schemas = get_schemas, nfia_token = token,
       nfia_token_id = token_id\<rparr> }"

definition json_NonFungibleInfoArguments :: "NonFungibleInfoArguments \<Rightarrow> json" where
  "json_NonFungibleInfoArguments x = json_struct
     [(''instanceId'', J_String (nfia_instance_id x)), (''getSchemas'', J_String (nfia_get_schemas x)),
       (''token'', J_String (nfia_token x)), (''tokenId'', J_String (nfia_token_id x))]"

lemma NonFungibleInfoArguments_reads [json_reads]: "de_NonFungibleInfoArguments (json_NonFungibleInfoArguments x) = Some x" "json_NonFungibleInfoArguments x \<noteq> J_Null"
  by (simp_all add: de_NonFungibleInfoArguments_def json_NonFungibleInfoArguments_def struct_reads json_reads)

record NonFungibleInfoByRomIdArguments =
  nfibria_rom_id :: rstring
  nfibria_get_schemas :: rstring
  nfibria_token :: rstring
  nfibria_token_id :: rstring

definition de_NonFungibleInfoByRomIdArguments :: "NonFungibleInfoByRomIdArguments json_decoder" where
  "de_NonFungibleInfoByRomIdArguments v = do {
     m \<leftarrow> members 4 v;
     rom_id \<leftarrow> field m 0 ''romId'' (lit '''') de_string;
     get_schemas \<leftarrow> field m 1 ''getSchemas'' (lit '''') de_string;
     token \<leftarrow> field m 2 ''token'' (lit '''') de_string;
     token_id \<leftarrow> field m 3 ''tokenId'' (lit '''') de_string;
     Some \<lparr>nfibria_rom_id = rom_id, nfibria_get_schemas = get_schemas, nfibria_token = token,
       nfibria_token_id = token_id\<rparr> }"

definition json_NonFungibleInfoByRomIdArguments :: "NonFungibleInfoByRomIdArguments \<Rightarrow> json" where
  "json_NonFungibleInfoByRomIdArguments x = json_struct
     [(''romId'', J_String (nfibria_rom_id x)), (''getSchemas'', J_String (nfibria_get_schemas x)),
       (''token'', J_String (nfibria_token x)), (''tokenId'', J_String (nfibria_token_id x))]"

lemma NonFungibleInfoByRomIdArguments_reads [json_reads]: "de_NonFungibleInfoByRomIdArguments (json_NonFungibleInfoByRomIdArguments x) = Some x" "json_NonFungibleInfoByRomIdArguments x \<noteq> J_Null"
  by (simp_all add: de_NonFungibleInfoByRomIdArguments_def json_NonFungibleInfoByRomIdArguments_def struct_reads json_reads)

record SeriesInfoByMetaIdArguments =
  sibmia_rom_id :: rstring
  sibmia_token :: rstring
  sibmia_token_id :: rstring

definition de_SeriesInfoByMetaIdArguments :: "SeriesInfoByMetaIdArguments json_decoder" where
  "de_SeriesInfoByMetaIdArguments v = do {
     m \<leftarrow> members 3 v;
     rom_id \<leftarrow> field m 0 ''romId'' (lit '''') de_string;
     token \<leftarrow> field m 1 ''token'' (lit '''') de_string;
     token_id \<leftarrow> field m 2 ''tokenId'' (lit '''') de_string;
     Some \<lparr>sibmia_rom_id = rom_id, sibmia_token = token, sibmia_token_id = token_id\<rparr> }"

definition json_SeriesInfoByMetaIdArguments :: "SeriesInfoByMetaIdArguments \<Rightarrow> json" where
  "json_SeriesInfoByMetaIdArguments x = json_struct
     [(''romId'', J_String (sibmia_rom_id x)), (''token'', J_String (sibmia_token x)),
       (''tokenId'', J_String (sibmia_token_id x))]"

lemma SeriesInfoByMetaIdArguments_reads [json_reads]: "de_SeriesInfoByMetaIdArguments (json_SeriesInfoByMetaIdArguments x) = Some x" "json_SeriesInfoByMetaIdArguments x \<noteq> J_Null"
  by (simp_all add: de_SeriesInfoByMetaIdArguments_def json_SeriesInfoByMetaIdArguments_def struct_reads json_reads)

record TokensConfigArguments =
  tca_flags :: rstring
  tca_flags_names :: "rstring list"

definition de_TokensConfigArguments :: "TokensConfigArguments json_decoder" where
  "de_TokensConfigArguments v = do {
     m \<leftarrow> members 2 v;
     flags \<leftarrow> field m 0 ''flags'' (lit '''') de_string;
     flags_names \<leftarrow> field m 1 ''flagsNames'' [] (de_vec de_string);
     Some \<lparr>tca_flags = flags, tca_flags_names = flags_names\<rparr> }"

definition json_TokensConfigArguments :: "TokensConfigArguments \<Rightarrow> json" where
  "json_TokensConfigArguments x = json_struct
     [(''flags'', J_String (tca_flags x)), (''flagsNames'', json_vec J_String (tca_flags_names x))]"

lemma TokensConfigArguments_reads [json_reads]: "de_TokensConfigArguments (json_TokensConfigArguments x) = Some x" "json_TokensConfigArguments x \<noteq> J_Null"
  by (simp_all add: de_TokensConfigArguments_def json_TokensConfigArguments_def struct_reads json_reads)

record UpdateTokenMetadataArguments =
  utma_metadata :: "(rstring \<times> VmValue) list option"
  utma_token :: rstring
  utma_token_id :: rstring

definition de_UpdateTokenMetadataArguments :: "(u64 \<Rightarrow> rstring) \<Rightarrow> UpdateTokenMetadataArguments json_decoder" where
  "de_UpdateTokenMetadataArguments ft v = do {
     m \<leftarrow> members 3 v;
     metadata \<leftarrow> field m 0 ''metadata'' None (de_option (de_btree (de_VmValue ft)));
     token \<leftarrow> field m 1 ''token'' (lit '''') de_string;
     token_id \<leftarrow> field m 2 ''tokenId'' (lit '''') de_string;
     Some \<lparr>utma_metadata = metadata, utma_token = token, utma_token_id = token_id\<rparr> }"

definition json_UpdateTokenMetadataArguments :: "UpdateTokenMetadataArguments \<Rightarrow> json" where
  "json_UpdateTokenMetadataArguments x = json_struct
     (opt_field ''metadata'' (json_btree json_VmValue) (utma_metadata x) @
      [(''token'', J_String (utma_token x)), (''tokenId'', J_String (utma_token_id x))])"

lemma UpdateTokenMetadataArguments_reads [json_reads]: "de_UpdateTokenMetadataArguments ft (json_UpdateTokenMetadataArguments x) = Some x" "json_UpdateTokenMetadataArguments x \<noteq> J_Null"
  by (simp_all add: de_UpdateTokenMetadataArguments_def json_UpdateTokenMetadataArguments_def struct_reads json_reads)

record UpdateSeriesMetadataArguments =
  usma_series_id :: rstring
  usma_metadata :: rstring
  usma_token :: rstring
  usma_token_id :: rstring

definition de_UpdateSeriesMetadataArguments :: "UpdateSeriesMetadataArguments json_decoder" where
  "de_UpdateSeriesMetadataArguments v = do {
     m \<leftarrow> members 4 v;
     series_id \<leftarrow> field m 0 ''seriesId'' (lit '''') de_string;
     metadata \<leftarrow> field m 1 ''metadata'' (lit '''') de_string;
     token \<leftarrow> field m 2 ''token'' (lit '''') de_string;
     token_id \<leftarrow> field m 3 ''tokenId'' (lit '''') de_string;
     Some \<lparr>usma_series_id = series_id, usma_metadata = metadata, usma_token = token,
       usma_token_id = token_id\<rparr> }"

definition json_UpdateSeriesMetadataArguments :: "UpdateSeriesMetadataArguments \<Rightarrow> json" where
  "json_UpdateSeriesMetadataArguments x = json_struct
     [(''seriesId'', J_String (usma_series_id x)), (''metadata'', J_String (usma_metadata x)),
       (''token'', J_String (usma_token x)), (''tokenId'', J_String (usma_token_id x))]"

lemma UpdateSeriesMetadataArguments_reads [json_reads]: "de_UpdateSeriesMetadataArguments (json_UpdateSeriesMetadataArguments x) = Some x" "json_UpdateSeriesMetadataArguments x \<noteq> J_Null"
  by (simp_all add: de_UpdateSeriesMetadataArguments_def json_UpdateSeriesMetadataArguments_def struct_reads json_reads)

end
