(* ===== verification/ExtendedEvents.thy ===== *)
theory ExtendedEvents
  imports EventTypes
begin

text \<open>
  Decoding of extended events (\<open>src/src/extended_events.rs\<close> and \<open>EventExResult\<close> of \<open>src/src/rpc.rs\<close>): the kind
  of an event picks the shape of its data, the module and the method of a resolution call the shape
  of its arguments, and what does not match stays raw. Decoding is total. An event whose data has
  the shape of its kind reads back from what it is written as.
\<close>

section \<open>Arguments of a resolution call\<close>

datatype (plugins only: code) SpecialResolutionArguments =
    SRA_Raw RawArguments
  | SRA_GasConfig GasConfigArguments
  | SRA_ChainConfig ChainConfigArguments
  | SRA_NestedResolution NestedResolutionArguments
  | SRA_Metadata MetadataArguments
  | SRA_NodeConfig NodeConfigArguments
  | SRA_RegisterName RegisterNameArguments
  | SRA_Address AddressArguments
  | SRA_Name NameArguments
  | SRA_ExecuteScript ExecuteScriptArguments
  | SRA_RegisterTokenContract RegisterTokenContractArguments
  | SRA_DeployContract DeployContractArguments
  | SRA_PhantasmaVmConfig PhantasmaVmConfigArguments
  | SRA_ImportContracts ImportContractsArguments
  | SRA_RepairSeries RepairSeriesArguments
  | SRA_RepairToken RepairTokenArguments
  | SRA_TokenReference TokenReferenceArguments
  | SRA_TokenSeriesReference TokenSeriesReferenceArguments
  | SRA_Symbol SymbolArguments
  | SRA_TransferFungible TransferFungibleArguments
  | SRA_TransferNonFungible TransferNonFungibleArguments
  | SRA_MintFungible MintFungibleArguments
  | SRA_BurnFungible BurnFungibleArguments
  | SRA_Balance BalanceArguments
  | SRA_CreateToken CreateTokenArguments
  | SRA_TokenSeries TokenSeriesArguments
  | SRA_CreateMintedTokenSeries CreateMintedTokenSeriesArguments
  | SRA_MintNonFungible MintNonFungibleArguments
  | SRA_MintPhantasmaNonFungible MintPhantasmaNonFungibleArguments
  | SRA_BurnNonFungible BurnNonFungibleArguments
  | SRA_NonFungibleInfo NonFungibleInfoArguments
  | SRA_NonFungibleInfoByRomId NonFungibleInfoByRomIdArguments
  | SRA_SeriesInfoByMetaId SeriesInfoByMetaIdArguments
  | SRA_TokensConfig TokensConfigArguments
  | SRA_UpdateTokenMetadata UpdateTokenMetadataArguments
  | SRA_UpdateSeriesMetadata UpdateSeriesMetadataArguments
  | SRA_Unrecognized json

text \<open>The raw variant is the fallback of a payload that does not match its shape.\<close>

definition typed_arguments ::
    "'a json_decoder \<Rightarrow> ('a \<Rightarrow> SpecialResolutionArguments) \<Rightarrow> json \<Rightarrow> SpecialResolutionArguments" where
  "typed_arguments de wrap value = (case de value of Some parsed \<Rightarrow> wrap parsed | None \<Rightarrow> SRA_Unrecognized value)"

text \<open>The arms of the match on module and method, in the order of the source.\<close>

definition call_arms :: "(u64 \<Rightarrow> rstring) \<Rightarrow> ((string \<times> string) \<times> (json \<Rightarrow> SpecialResolutionArguments)) list" where
  "call_arms ft =
     [((''governance'', ''SetGasConfig''), typed_arguments de_GasConfigArguments SRA_GasConfig),
      ((''governance'', ''SetChainConfig''), typed_arguments de_ChainConfigArguments SRA_ChainConfig),
      ((''governance'', ''SpecialResolution''), typed_arguments de_NestedResolutionArguments SRA_NestedResolution),
      ((''governance'', ''SetMetadata''), typed_arguments (de_MetadataArguments ft) SRA_Metadata),
      ((''governance'', ''SetNodeConfig''), typed_arguments de_NodeConfigArguments SRA_NodeConfig),
      ((''governance'', ''RegisterName''), typed_arguments de_RegisterNameArguments SRA_RegisterName),
      ((''governance'', ''LookupName''), typed_arguments de_AddressArguments SRA_Address),
      ((''governance'', ''LookupAddress''), typed_arguments de_NameArguments SRA_Name),
      ((''phantasma_vm'', ''ExecuteScript''), typed_arguments de_ExecuteScriptArguments SRA_ExecuteScript),
      ((''phantasma_vm'', ''RegisterTokenContract''), typed_arguments de_RegisterTokenContractArguments SRA_RegisterTokenContract),
      ((''phantasma_vm'', ''DeployContract''), typed_arguments de_DeployContractArguments SRA_DeployContract),
      ((''phantasma_vm'', ''IsContractDeployed''), typed_arguments de_NameArguments SRA_Name),
      ((''phantasma_vm'', ''SetConfig''), typed_arguments de_PhantasmaVmConfigArguments SRA_PhantasmaVmConfig),
      ((''phantasma_vm'', ''ImportContracts''), typed_arguments de_ImportContractsArguments SRA_ImportContracts),
      ((''phantasma_vm'', ''RepairSeries''), typed_arguments de_RepairSeriesArguments SRA_RepairSeries),
      ((''phantasma_vm'', ''RepairToken''), typed_arguments de_RepairTokenArguments SRA_RepairToken),
      ((''token'', ''TransferFungible''), typed_arguments de_TransferFungibleArguments SRA_TransferFungible),
      ((''token'', ''TransferNonFungible''), typed_arguments de_TransferNonFungibleArguments SRA_TransferNonFungible),
      ((''token'', ''CreateToken''), typed_arguments (de_CreateTokenArguments ft) SRA_CreateToken),
      ((''token'', ''MintFungible''), typed_arguments de_MintFungibleArguments SRA_MintFungible),
      ((''token'', ''BurnFungible''), typed_arguments de_BurnFungibleArguments SRA_BurnFungible),
      ((''token'', ''GetBalance''), typed_arguments de_BalanceArguments SRA_Balance),
      ((''token'', ''CreateTokenSeries''), typed_arguments (de_TokenSeriesArguments ft) SRA_TokenSeries),
      ((''token'', ''DeleteTokenSeries''), typed_arguments de_TokenSeriesReferenceArguments SRA_TokenSeriesReference),
      ((''token'', ''MintNonFungible''), typed_arguments de_MintNonFungibleArguments SRA_MintNonFungible),
      ((''token'', ''BurnNonFungible''), typed_arguments de_BurnNonFungibleArguments SRA_BurnNonFungible),
      ((''token'', ''GetNonFungibleInfo''), typed_arguments de_NonFungibleInfoArguments SRA_NonFungibleInfo),
      ((''token'', ''GetNonFungibleInfoByRomId''), typed_arguments de_NonFungibleInfoByRomIdArguments SRA_NonFungibleInfoByRomId),
      ((''token'', ''GetSeriesInfo''), typed_arguments de_TokenSeriesReferenceArguments SRA_TokenSeriesReference),
      ((''token'', ''GetSeriesInfoByMetaId''), typed_arguments de_SeriesInfoByMetaIdArguments SRA_SeriesInfoByMetaId),
      ((''token'', ''GetTokenInfo''), typed_arguments de_TokenReferenceArguments SRA_TokenReference),
      ((''token'', ''GetTokenInfoBySymbol''), typed_arguments de_SymbolArguments SRA_Symbol),
      ((''token'', ''GetTokenSupply''), typed_arguments de_TokenReferenceArguments SRA_TokenReference),
      ((''token'', ''GetSeriesSupply''), typed_arguments de_TokenSeriesReferenceArguments SRA_TokenSeriesReference),
      ((''token'', ''GetTokenIdBySymbol''), typed_arguments de_SymbolArguments SRA_Symbol),
      ((''token'', ''GetBalances''), typed_arguments de_AddressArguments SRA_Address),
      ((''token'', ''CreateMintedTokenSeries''), typed_arguments (de_CreateMintedTokenSeriesArguments ft) SRA_CreateMintedTokenSeries),
      ((''token'', ''ApplyInflation''), typed_arguments de_TokenReferenceArguments SRA_TokenReference),
      ((''token'', ''UpdateTokenMetadata''), typed_arguments (de_UpdateTokenMetadataArguments ft) SRA_UpdateTokenMetadata),
      ((''token'', ''GetNextTokenInflation''), typed_arguments de_TokenReferenceArguments SRA_TokenReference),
      ((''token'', ''SetTokensConfig''), typed_arguments de_TokensConfigArguments SRA_TokensConfig),
      ((''token'', ''UpdateSeriesMetadata''), typed_arguments de_UpdateSeriesMetadataArguments SRA_UpdateSeriesMetadata),
      ((''token'', ''MintPhantasmaNonFungible''), typed_arguments de_MintPhantasmaNonFungibleArguments SRA_MintPhantasmaNonFungible)]"

primrec json_arguments :: "SpecialResolutionArguments \<Rightarrow> json" where
  "json_arguments (SRA_Raw arguments) = json_RawArguments arguments"
| "json_arguments (SRA_GasConfig arguments) = json_GasConfigArguments arguments"
| "json_arguments (SRA_ChainConfig arguments) = json_ChainConfigArguments arguments"
| "json_arguments (SRA_NestedResolution arguments) = json_NestedResolutionArguments arguments"
| "json_arguments (SRA_Metadata arguments) = json_MetadataArguments arguments"
| "json_arguments (SRA_NodeConfig arguments) = json_NodeConfigArguments arguments"
| "json_arguments (SRA_RegisterName arguments) = json_RegisterNameArguments arguments"
| "json_arguments (SRA_Address arguments) = json_AddressArguments arguments"
| "json_arguments (SRA_Name arguments) = json_NameArguments arguments"
| "json_arguments (SRA_ExecuteScript arguments) = json_ExecuteScriptArguments arguments"
| "json_arguments (SRA_RegisterTokenContract arguments) = json_RegisterTokenContractArguments arguments"
| "json_arguments (SRA_DeployContract arguments) = json_DeployContractArguments arguments"
| "json_arguments (SRA_PhantasmaVmConfig arguments) = json_PhantasmaVmConfigArguments arguments"
| "json_arguments (SRA_ImportContracts arguments) = json_ImportContractsArguments arguments"
| "json_arguments (SRA_RepairSeries arguments) = json_RepairSeriesArguments arguments"
| "json_arguments (SRA_RepairToken arguments) = json_RepairTokenArguments arguments"
| "json_arguments (SRA_TokenReference arguments) = json_TokenReferenceArguments arguments"
| "json_arguments (SRA_TokenSeriesReference arguments) = json_TokenSeriesReferenceArguments arguments"
| "json_arguments (SRA_Symbol arguments) = json_SymbolArguments arguments"
| "json_arguments (SRA_TransferFungible arguments) = json_TransferFungibleArguments arguments"
| "json_arguments (SRA_TransferNonFungible arguments) = json_TransferNonFungibleArguments arguments"
| "json_arguments (SRA_MintFungible arguments) = json_MintFungibleArguments arguments"
| "json_arguments (SRA_BurnFungible arguments) = json_BurnFungibleArguments arguments"
| "json_arguments (SRA_Balance arguments) = json_BalanceArguments arguments"
| "json_arguments (SRA_CreateToken arguments) = json_CreateTokenArguments arguments"
| "json_arguments (SRA_TokenSeries arguments) = json_TokenSeriesArguments arguments"
| "json_arguments (SRA_CreateMintedTokenSeries arguments) = json_CreateMintedTokenSeriesArguments arguments"
| "json_arguments (SRA_MintNonFungible arguments) = json_MintNonFungibleArguments arguments"
| "json_arguments (SRA_MintPhantasmaNonFungible arguments) = json_MintPhantasmaNonFungibleArguments arguments"
| "json_arguments (SRA_BurnNonFungible arguments) = json_BurnNonFungibleArguments arguments"
| "json_arguments (SRA_NonFungibleInfo arguments) = json_NonFungibleInfoArguments arguments"
| "json_arguments (SRA_NonFungibleInfoByRomId arguments) = json_NonFungibleInfoByRomIdArguments arguments"
| "json_arguments (SRA_SeriesInfoByMetaId arguments) = json_SeriesInfoByMetaIdArguments arguments"
| "json_arguments (SRA_TokensConfig arguments) = json_TokensConfigArguments arguments"
| "json_arguments (SRA_UpdateTokenMetadata arguments) = json_UpdateTokenMetadataArguments arguments"
| "json_arguments (SRA_UpdateSeriesMetadata arguments) = json_UpdateSeriesMetadataArguments arguments"
| "json_arguments (SRA_Unrecognized arguments) = arguments"

definition arm_of :: "(u64 \<Rightarrow> rstring) \<Rightarrow> rstring \<Rightarrow> rstring \<Rightarrow> (json \<Rightarrow> SpecialResolutionArguments) option" where
  "arm_of ft module method = map_of (map (\<lambda>((m, n), arm). ((lit m, lit n), arm)) (call_arms ft)) (module, method)"

text \<open>A raw dump is recognised by its content, in front of the dispatch on module and method.\<close>

definition from_call_json ::
    "(u64 \<Rightarrow> rstring) \<Rightarrow> rstring \<Rightarrow> rstring \<Rightarrow> json \<Rightarrow> SpecialResolutionArguments option" where
  "from_call_json ft module method value =
     (case value of
        J_Null \<Rightarrow> None
      | J_Object kvs \<Rightarrow>
          Some (if map_of kvs (lit ''rawArgs'') \<noteq> None then typed_arguments de_RawArguments SRA_Raw value
                else case arm_of ft module method of Some arm \<Rightarrow> arm value | None \<Rightarrow> SRA_Unrecognized value)
      | _ \<Rightarrow> Some (SRA_Unrecognized value))"

section \<open>Resolution calls\<close>

datatype SpecialResolutionCall =
  SpecialResolutionCall (src_module_id: u32) (src_module: rstring) (src_method_id: u32) (src_method: rstring)
    (src_arguments: "SpecialResolutionArguments option") (src_calls: "SpecialResolutionCall list option")

definition call_default :: SpecialResolutionCall where
  "call_default = SpecialResolutionCall 0 (lit '''') 0 (lit '''') None None"

definition text_member :: "(rstring \<times> json) list \<Rightarrow> string \<Rightarrow> rstring" where
  "text_member kvs name = (case Option.bind (map_of kvs (lit name)) value_str of Some s \<Rightarrow> s | None \<Rightarrow> lit '''')"

definition id_field :: "(rstring \<times> json) list \<Rightarrow> string \<Rightarrow> u32" where
  "id_field kvs name =
     (case Option.bind (map_of kvs (lit name)) value_u64 of
        Some n \<Rightarrow> if n \<le> 0xFFFFFFFF then ucast n else 0 | None \<Rightarrow> 0)"

lemma size_array_member [termination_simp]:
  assumes "map_of kvs name = Some (J_Array items)" and "item \<in> set items"
  shows "size item < Suc (size_list (\<lambda>x. Suc (size (snd x))) kvs)"
proof -
  have "(name, J_Array items) \<in> set kvs" using assms(1) by (rule map_of_SomeD)
  then have "Suc (size (J_Array items)) \<le> size_list (\<lambda>x. Suc (size (snd x))) kvs"
    by (rule size_list_estimation') simp
  moreover have "size item \<le> size_list size items" using assms(2) by (rule size_list_estimation') simp
  ultimately show ?thesis by simp
qed

fun call_from_json :: "(u64 \<Rightarrow> rstring) \<Rightarrow> json \<Rightarrow> SpecialResolutionCall" where
  "call_from_json ft (J_Object kvs) =
     (let module = text_member kvs ''module'';
          method = text_member kvs ''method'';
          calls = (case map_of kvs (lit ''calls'') of
             Some (J_Array items) \<Rightarrow> Some (map (call_from_json ft) items) | _ \<Rightarrow> None);
          arguments = Option.bind (map_of kvs (lit ''arguments'')) (from_call_json ft module method)
      in SpecialResolutionCall (id_field kvs ''moduleId'') module (id_field kvs ''methodId'') method arguments calls)"
| "call_from_json ft value = call_default"

fun json_call :: "SpecialResolutionCall \<Rightarrow> json" where
  "json_call (SpecialResolutionCall module_id module method_id method arguments calls) =
     json_struct
       ([(''moduleId'', json_u32 module_id), (''module'', J_String module), (''methodId'', json_u32 method_id),
         (''method'', J_String method)] @
        opt_field ''arguments'' json_arguments arguments @
        (case calls of None \<Rightarrow> [] | Some cs \<Rightarrow> [(''calls'', J_Array (map json_call cs))]))"

section \<open>Resolutions\<close>

record SpecialResolutionData =
  srd_resolution_id :: u64
  srd_description :: "rstring option"
  srd_calls :: "SpecialResolutionCall list"

definition de_SpecialResolutionData :: "(u64 \<Rightarrow> rstring) \<Rightarrow> SpecialResolutionData json_decoder" where
  "de_SpecialResolutionData ft value =
     Some (case value of
        J_Object kvs \<Rightarrow>
          \<lparr>srd_resolution_id = (case Option.bind (map_of kvs (lit ''resolutionId'')) value_u64 of Some n \<Rightarrow> n | None \<Rightarrow> 0),
           srd_description = Option.bind (map_of kvs (lit ''description'')) value_str,
           srd_calls = (case map_of kvs (lit ''calls'') of
              Some (J_Array items) \<Rightarrow> map (call_from_json ft) items | _ \<Rightarrow> [])\<rparr>
      | _ \<Rightarrow> \<lparr>srd_resolution_id = 0, srd_description = None, srd_calls = []\<rparr>)"

definition json_SpecialResolutionData :: "SpecialResolutionData \<Rightarrow> json" where
  "json_SpecialResolutionData d = json_struct
     ([(''resolutionId'', json_u64 (srd_resolution_id d))] @
      opt_field ''description'' J_String (srd_description d) @
      [(''calls'', json_vec json_call (srd_calls d))])"

section \<open>Event data\<close>

datatype (plugins only: code) EventData =
    ED_TokenCreate TokenCreateData
  | ED_TokenSeriesCreate TokenSeriesCreateData
  | ED_MarketOrder MarketOrderData
  | ED_SpecialResolution SpecialResolutionData
  | ED_Unknown json

definition EventData_default :: EventData where
  "EventData_default = ED_Unknown J_Null"

definition typed_event :: "'a json_decoder \<Rightarrow> ('a \<Rightarrow> EventData) \<Rightarrow> json \<Rightarrow> EventData" where
  "typed_event de wrap data = (case de data of Some parsed \<Rightarrow> wrap parsed | None \<Rightarrow> ED_Unknown data)"

definition from_kind_and_json :: "(u64 \<Rightarrow> rstring) \<Rightarrow> rstring \<Rightarrow> json \<Rightarrow> EventData" where
  "from_kind_and_json ft kind data =
     (if kind = lit ''TokenCreate'' then typed_event de_TokenCreateData ED_TokenCreate data
      else if kind = lit ''TokenSeriesCreate'' then typed_event de_TokenSeriesCreateData ED_TokenSeriesCreate data
      else if kind = lit ''OrderCreated'' \<or> kind = lit ''OrderCancelled'' \<or> kind = lit ''OrderFilled''
        then typed_event de_MarketOrderData ED_MarketOrder data
      else if kind = lit ''SpecialResolution''
        then typed_event (de_SpecialResolutionData ft) ED_SpecialResolution data
      else ED_Unknown data)"

primrec json_EventData :: "EventData \<Rightarrow> json" where
  "json_EventData (ED_TokenCreate data) = json_TokenCreateData data"
| "json_EventData (ED_TokenSeriesCreate data) = json_TokenSeriesCreateData data"
| "json_EventData (ED_MarketOrder data) = json_MarketOrderData data"
| "json_EventData (ED_SpecialResolution data) = json_SpecialResolutionData data"
| "json_EventData (ED_Unknown value) = value"

primrec as_token_create :: "EventData \<Rightarrow> TokenCreateData option" where
  "as_token_create (ED_TokenCreate data) = Some data"
| "as_token_create (ED_TokenSeriesCreate data) = None"
| "as_token_create (ED_MarketOrder data) = None"
| "as_token_create (ED_SpecialResolution data) = None"
| "as_token_create (ED_Unknown value) = None"

primrec as_token_series_create :: "EventData \<Rightarrow> TokenSeriesCreateData option" where
  "as_token_series_create (ED_TokenCreate data) = None"
| "as_token_series_create (ED_TokenSeriesCreate data) = Some data"
| "as_token_series_create (ED_MarketOrder data) = None"
| "as_token_series_create (ED_SpecialResolution data) = None"
| "as_token_series_create (ED_Unknown value) = None"

primrec as_market_order :: "EventData \<Rightarrow> MarketOrderData option" where
  "as_market_order (ED_TokenCreate data) = None"
| "as_market_order (ED_TokenSeriesCreate data) = None"
| "as_market_order (ED_MarketOrder data) = Some data"
| "as_market_order (ED_SpecialResolution data) = None"
| "as_market_order (ED_Unknown value) = None"

primrec as_special_resolution :: "EventData \<Rightarrow> SpecialResolutionData option" where
  "as_special_resolution (ED_TokenCreate data) = None"
| "as_special_resolution (ED_TokenSeriesCreate data) = None"
| "as_special_resolution (ED_MarketOrder data) = None"
| "as_special_resolution (ED_SpecialResolution data) = Some data"
| "as_special_resolution (ED_Unknown value) = None"

primrec as_unknown :: "EventData \<Rightarrow> json option" where
  "as_unknown (ED_TokenCreate data) = None"
| "as_unknown (ED_TokenSeriesCreate data) = None"
| "as_unknown (ED_MarketOrder data) = None"
| "as_unknown (ED_SpecialResolution data) = None"
| "as_unknown (ED_Unknown value) = Some value"

section \<open>Events\<close>

record EventExResult =
  eex_address :: rstring
  eex_contract :: rstring
  eex_kind :: rstring
  eex_data :: EventData

definition de_EventExResult :: "(u64 \<Rightarrow> rstring) \<Rightarrow> EventExResult json_decoder" where
  "de_EventExResult ft value =
     Some (case value of
        J_Object kvs \<Rightarrow>
          (let kind = text_member kvs ''kind''
           in \<lparr>eex_address = text_member kvs ''address'', eex_contract = text_member kvs ''contract'', eex_kind = kind,
               eex_data = (case map_of kvs (lit ''data'') of
                  Some data \<Rightarrow> from_kind_and_json ft kind data | None \<Rightarrow> EventData_default)\<rparr>)
      | _ \<Rightarrow> \<lparr>eex_address = lit '''', eex_contract = lit '''', eex_kind = lit '''', eex_data = EventData_default\<rparr>)"

definition json_EventExResult :: "EventExResult \<Rightarrow> json" where
  "json_EventExResult e = json_struct
     [(''address'', J_String (eex_address e)), (''contract'', J_String (eex_contract e)),
      (''kind'', J_String (eex_kind e)), (''data'', json_EventData (eex_data e))]"

section \<open>Members of encoded structs\<close>

lemma struct_member:
  "field_names kvs \<Longrightarrow> ascii n \<Longrightarrow>
     map_of (struct_map kvs) (lit n) = entry (rev kvs) n"
  by (simp add: struct_lookup entry_map_of)

definition has_member :: "json \<Rightarrow> string \<Rightarrow> bool" where
  "has_member v n = (case v of J_Object kvs \<Rightarrow> map_of kvs (lit n) \<noteq> None | _ \<Rightarrow> False)"

lemma has_member_struct:
  "field_names kvs \<Longrightarrow> ascii n \<Longrightarrow> has_member (json_struct kvs) n = (entry (rev kvs) n \<noteq> None)"
  by (simp add: has_member_def json_struct_def struct_member)

definition is_object :: "json \<Rightarrow> bool" where
  "is_object v = (case v of J_Object _ \<Rightarrow> True | _ \<Rightarrow> False)"

lemma is_object_struct [simp]: "is_object (json_struct kvs)"
  by (simp add: is_object_def json_struct_def)

lemma from_call_json_object:
  "is_object v \<Longrightarrow> from_call_json ft module method v =
     Some (if has_member v ''rawArgs'' then typed_arguments de_RawArguments SRA_Raw v
           else case arm_of ft module method of Some arm \<Rightarrow> arm v | None \<Rightarrow> SRA_Unrecognized v)"
  by (cases v) (auto simp: from_call_json_def has_member_def is_object_def)

section \<open>The arms read back what they write\<close>

text \<open>The variant each module and method stands for.\<close>

primrec variant :: "SpecialResolutionArguments \<Rightarrow> string" where
  "variant (SRA_Raw arguments) = ''Raw''"
| "variant (SRA_GasConfig arguments) = ''GasConfig''"
| "variant (SRA_ChainConfig arguments) = ''ChainConfig''"
| "variant (SRA_NestedResolution arguments) = ''NestedResolution''"
| "variant (SRA_Metadata arguments) = ''Metadata''"
| "variant (SRA_NodeConfig arguments) = ''NodeConfig''"
| "variant (SRA_RegisterName arguments) = ''RegisterName''"
| "variant (SRA_Address arguments) = ''Address''"
| "variant (SRA_Name arguments) = ''Name''"
| "variant (SRA_ExecuteScript arguments) = ''ExecuteScript''"
| "variant (SRA_RegisterTokenContract arguments) = ''RegisterTokenContract''"
| "variant (SRA_DeployContract arguments) = ''DeployContract''"
| "variant (SRA_PhantasmaVmConfig arguments) = ''PhantasmaVmConfig''"
| "variant (SRA_ImportContracts arguments) = ''ImportContracts''"
| "variant (SRA_RepairSeries arguments) = ''RepairSeries''"
| "variant (SRA_RepairToken arguments) = ''RepairToken''"
| "variant (SRA_TokenReference arguments) = ''TokenReference''"
| "variant (SRA_TokenSeriesReference arguments) = ''TokenSeriesReference''"
| "variant (SRA_Symbol arguments) = ''Symbol''"
| "variant (SRA_TransferFungible arguments) = ''TransferFungible''"
| "variant (SRA_TransferNonFungible arguments) = ''TransferNonFungible''"
| "variant (SRA_MintFungible arguments) = ''MintFungible''"
| "variant (SRA_BurnFungible arguments) = ''BurnFungible''"
| "variant (SRA_Balance arguments) = ''Balance''"
| "variant (SRA_CreateToken arguments) = ''CreateToken''"
| "variant (SRA_TokenSeries arguments) = ''TokenSeries''"
| "variant (SRA_CreateMintedTokenSeries arguments) = ''CreateMintedTokenSeries''"
| "variant (SRA_MintNonFungible arguments) = ''MintNonFungible''"
| "variant (SRA_MintPhantasmaNonFungible arguments) = ''MintPhantasmaNonFungible''"
| "variant (SRA_BurnNonFungible arguments) = ''BurnNonFungible''"
| "variant (SRA_NonFungibleInfo arguments) = ''NonFungibleInfo''"
| "variant (SRA_NonFungibleInfoByRomId arguments) = ''NonFungibleInfoByRomId''"
| "variant (SRA_SeriesInfoByMetaId arguments) = ''SeriesInfoByMetaId''"
| "variant (SRA_TokensConfig arguments) = ''TokensConfig''"
| "variant (SRA_UpdateTokenMetadata arguments) = ''UpdateTokenMetadata''"
| "variant (SRA_UpdateSeriesMetadata arguments) = ''UpdateSeriesMetadata''"
| "variant (SRA_Unrecognized arguments) = ''Unrecognized''"

definition call_variants :: "((string \<times> string) \<times> string) list" where
  "call_variants =
     [((''governance'', ''SetGasConfig''), ''GasConfig''),
      ((''governance'', ''SetChainConfig''), ''ChainConfig''),
      ((''governance'', ''SpecialResolution''), ''NestedResolution''),
      ((''governance'', ''SetMetadata''), ''Metadata''),
      ((''governance'', ''SetNodeConfig''), ''NodeConfig''),
      ((''governance'', ''RegisterName''), ''RegisterName''),
      ((''governance'', ''LookupName''), ''Address''),
      ((''governance'', ''LookupAddress''), ''Name''),
      ((''phantasma_vm'', ''ExecuteScript''), ''ExecuteScript''),
      ((''phantasma_vm'', ''RegisterTokenContract''), ''RegisterTokenContract''),
      ((''phantasma_vm'', ''DeployContract''), ''DeployContract''),
      ((''phantasma_vm'', ''IsContractDeployed''), ''Name''),
      ((''phantasma_vm'', ''SetConfig''), ''PhantasmaVmConfig''),
      ((''phantasma_vm'', ''ImportContracts''), ''ImportContracts''),
      ((''phantasma_vm'', ''RepairSeries''), ''RepairSeries''),
      ((''phantasma_vm'', ''RepairToken''), ''RepairToken''),
      ((''token'', ''TransferFungible''), ''TransferFungible''),
      ((''token'', ''TransferNonFungible''), ''TransferNonFungible''),
      ((''token'', ''CreateToken''), ''CreateToken''),
      ((''token'', ''MintFungible''), ''MintFungible''),
      ((''token'', ''BurnFungible''), ''BurnFungible''),
      ((''token'', ''GetBalance''), ''Balance''),
      ((''token'', ''CreateTokenSeries''), ''TokenSeries''),
      ((''token'', ''DeleteTokenSeries''), ''TokenSeriesReference''),
      ((''token'', ''MintNonFungible''), ''MintNonFungible''),
      ((''token'', ''BurnNonFungible''), ''BurnNonFungible''),
      ((''token'', ''GetNonFungibleInfo''), ''NonFungibleInfo''),
      ((''token'', ''GetNonFungibleInfoByRomId''), ''NonFungibleInfoByRomId''),
      ((''token'', ''GetSeriesInfo''), ''TokenSeriesReference''),
      ((''token'', ''GetSeriesInfoByMetaId''), ''SeriesInfoByMetaId''),
      ((''token'', ''GetTokenInfo''), ''TokenReference''),
      ((''token'', ''GetTokenInfoBySymbol''), ''Symbol''),
      ((''token'', ''GetTokenSupply''), ''TokenReference''),
      ((''token'', ''GetSeriesSupply''), ''TokenSeriesReference''),
      ((''token'', ''GetTokenIdBySymbol''), ''Symbol''),
      ((''token'', ''GetBalances''), ''Address''),
      ((''token'', ''CreateMintedTokenSeries''), ''CreateMintedTokenSeries''),
      ((''token'', ''ApplyInflation''), ''TokenReference''),
      ((''token'', ''UpdateTokenMetadata''), ''UpdateTokenMetadata''),
      ((''token'', ''GetNextTokenInflation''), ''TokenReference''),
      ((''token'', ''SetTokensConfig''), ''TokensConfig''),
      ((''token'', ''UpdateSeriesMetadata''), ''UpdateSeriesMetadata''),
      ((''token'', ''MintPhantasmaNonFungible''), ''MintPhantasmaNonFungible'')]"

text \<open>The encoders of the argument structs.\<close>

lemmas argument_encoders = json_RawArguments_def json_GasConfigArguments_def
    json_ChainConfigArguments_def json_NestedResolutionArguments_def json_MetadataArguments_def
    json_NodeConfigArguments_def json_RegisterNameArguments_def json_AddressArguments_def
    json_NameArguments_def json_ExecuteScriptArguments_def json_RegisterTokenContractArguments_def
    json_DeployContractArguments_def json_PhantasmaVmConfigArguments_def
    json_ImportContractsArguments_def json_RepairSeriesArguments_def json_RepairTokenArguments_def
    json_TokenReferenceArguments_def json_TokenSeriesReferenceArguments_def json_SymbolArguments_def
    json_TransferFungibleArguments_def json_TransferNonFungibleArguments_def
    json_MintFungibleArguments_def json_BurnFungibleArguments_def json_BalanceArguments_def
    json_CreateTokenArguments_def json_TokenSeriesArguments_def
    json_CreateMintedTokenSeriesArguments_def json_MintNonFungibleArguments_def
    json_MintPhantasmaNonFungibleArguments_def json_BurnNonFungibleArguments_def
    json_NonFungibleInfoArguments_def json_NonFungibleInfoByRomIdArguments_def
    json_SeriesInfoByMetaIdArguments_def json_TokensConfigArguments_def
    json_UpdateTokenMetadataArguments_def json_UpdateSeriesMetadataArguments_def

lemma arguments_object: "variant a \<noteq> ''Unrecognized'' \<Longrightarrow> is_object (json_arguments a)"
  by (cases a) (simp_all add: argument_encoders)

lemma arguments_raw:
  "variant a \<noteq> ''Unrecognized'' \<Longrightarrow> has_member (json_arguments a) ''rawArgs'' = (variant a = ''Raw'')"
  by (cases a) (simp_all add: argument_encoders has_member_struct)

text \<open>The values of a variant.\<close>

lemma variant_cases:
  "variant a = ''GasConfig'' \<Longrightarrow> \<exists>x. a = SRA_GasConfig x"
  "variant a = ''ChainConfig'' \<Longrightarrow> \<exists>x. a = SRA_ChainConfig x"
  "variant a = ''NestedResolution'' \<Longrightarrow> \<exists>x. a = SRA_NestedResolution x"
  "variant a = ''Metadata'' \<Longrightarrow> \<exists>x. a = SRA_Metadata x"
  "variant a = ''NodeConfig'' \<Longrightarrow> \<exists>x. a = SRA_NodeConfig x"
  "variant a = ''RegisterName'' \<Longrightarrow> \<exists>x. a = SRA_RegisterName x"
  "variant a = ''Address'' \<Longrightarrow> \<exists>x. a = SRA_Address x"
  "variant a = ''Name'' \<Longrightarrow> \<exists>x. a = SRA_Name x"
  "variant a = ''ExecuteScript'' \<Longrightarrow> \<exists>x. a = SRA_ExecuteScript x"
  "variant a = ''RegisterTokenContract'' \<Longrightarrow> \<exists>x. a = SRA_RegisterTokenContract x"
  "variant a = ''DeployContract'' \<Longrightarrow> \<exists>x. a = SRA_DeployContract x"
  "variant a = ''PhantasmaVmConfig'' \<Longrightarrow> \<exists>x. a = SRA_PhantasmaVmConfig x"
  "variant a = ''ImportContracts'' \<Longrightarrow> \<exists>x. a = SRA_ImportContracts x"
  "variant a = ''RepairSeries'' \<Longrightarrow> \<exists>x. a = SRA_RepairSeries x"
  "variant a = ''RepairToken'' \<Longrightarrow> \<exists>x. a = SRA_RepairToken x"
  "variant a = ''TokenReference'' \<Longrightarrow> \<exists>x. a = SRA_TokenReference x"
  "variant a = ''TokenSeriesReference'' \<Longrightarrow> \<exists>x. a = SRA_TokenSeriesReference x"
  "variant a = ''Symbol'' \<Longrightarrow> \<exists>x. a = SRA_Symbol x"
  "variant a = ''TransferFungible'' \<Longrightarrow> \<exists>x. a = SRA_TransferFungible x"
  "variant a = ''TransferNonFungible'' \<Longrightarrow> \<exists>x. a = SRA_TransferNonFungible x"
  "variant a = ''MintFungible'' \<Longrightarrow> \<exists>x. a = SRA_MintFungible x"
  "variant a = ''BurnFungible'' \<Longrightarrow> \<exists>x. a = SRA_BurnFungible x"
  "variant a = ''Balance'' \<Longrightarrow> \<exists>x. a = SRA_Balance x"
  "variant a = ''CreateToken'' \<Longrightarrow> \<exists>x. a = SRA_CreateToken x"
  "variant a = ''TokenSeries'' \<Longrightarrow> \<exists>x. a = SRA_TokenSeries x"
  "variant a = ''CreateMintedTokenSeries'' \<Longrightarrow> \<exists>x. a = SRA_CreateMintedTokenSeries x"
  "variant a = ''MintNonFungible'' \<Longrightarrow> \<exists>x. a = SRA_MintNonFungible x"
  "variant a = ''MintPhantasmaNonFungible'' \<Longrightarrow> \<exists>x. a = SRA_MintPhantasmaNonFungible x"
  "variant a = ''BurnNonFungible'' \<Longrightarrow> \<exists>x. a = SRA_BurnNonFungible x"
  "variant a = ''NonFungibleInfo'' \<Longrightarrow> \<exists>x. a = SRA_NonFungibleInfo x"
  "variant a = ''NonFungibleInfoByRomId'' \<Longrightarrow> \<exists>x. a = SRA_NonFungibleInfoByRomId x"
  "variant a = ''SeriesInfoByMetaId'' \<Longrightarrow> \<exists>x. a = SRA_SeriesInfoByMetaId x"
  "variant a = ''TokensConfig'' \<Longrightarrow> \<exists>x. a = SRA_TokensConfig x"
  "variant a = ''UpdateTokenMetadata'' \<Longrightarrow> \<exists>x. a = SRA_UpdateTokenMetadata x"
  "variant a = ''UpdateSeriesMetadata'' \<Longrightarrow> \<exists>x. a = SRA_UpdateSeriesMetadata x"
  by (cases a; simp)+

lemma raw_reads:
  "from_call_json ft module method (json_arguments (SRA_Raw r)) = Some (SRA_Raw r)"
  using arguments_object [of "SRA_Raw r"] arguments_raw [of "SRA_Raw r"]
  by (simp add: from_call_json_object typed_arguments_def RawArguments_reads)

definition reads_variant :: "(string \<times> string) \<times> string \<Rightarrow> (string \<times> string) \<times> (json \<Rightarrow> SpecialResolutionArguments) \<Rightarrow> bool" where
  "reads_variant c arm \<longleftrightarrow> fst c = fst arm \<and> (\<forall>a. variant a = snd c \<longrightarrow> snd arm (json_arguments a) = a)"

lemma reads_variantI:
  "(\<And>a. variant a = n \<Longrightarrow> \<exists>x. a = wrap x) \<Longrightarrow> (\<And>x. json_arguments (wrap x) = enc x) \<Longrightarrow> (\<And>x. de (enc x) = Some x) \<Longrightarrow>
     reads_variant (mn, n) (mn, typed_arguments de wrap)"
  by (fastforce simp: reads_variant_def typed_arguments_def)

lemma arm_reads:
  "reads_variant (mn, ''GasConfig'') (mn, typed_arguments de_GasConfigArguments SRA_GasConfig)"
  "reads_variant (mn, ''ChainConfig'') (mn, typed_arguments de_ChainConfigArguments SRA_ChainConfig)"
  "reads_variant (mn, ''NestedResolution'') (mn, typed_arguments de_NestedResolutionArguments SRA_NestedResolution)"
  "reads_variant (mn, ''Metadata'') (mn, typed_arguments (de_MetadataArguments ft) SRA_Metadata)"
  "reads_variant (mn, ''NodeConfig'') (mn, typed_arguments de_NodeConfigArguments SRA_NodeConfig)"
  "reads_variant (mn, ''RegisterName'') (mn, typed_arguments de_RegisterNameArguments SRA_RegisterName)"
  "reads_variant (mn, ''Address'') (mn, typed_arguments de_AddressArguments SRA_Address)"
  "reads_variant (mn, ''Name'') (mn, typed_arguments de_NameArguments SRA_Name)"
  "reads_variant (mn, ''ExecuteScript'') (mn, typed_arguments de_ExecuteScriptArguments SRA_ExecuteScript)"
  "reads_variant (mn, ''RegisterTokenContract'') (mn, typed_arguments de_RegisterTokenContractArguments SRA_RegisterTokenContract)"
  "reads_variant (mn, ''DeployContract'') (mn, typed_arguments de_DeployContractArguments SRA_DeployContract)"
  "reads_variant (mn, ''PhantasmaVmConfig'') (mn, typed_arguments de_PhantasmaVmConfigArguments SRA_PhantasmaVmConfig)"
  "reads_variant (mn, ''ImportContracts'') (mn, typed_arguments de_ImportContractsArguments SRA_ImportContracts)"
  "reads_variant (mn, ''RepairSeries'') (mn, typed_arguments de_RepairSeriesArguments SRA_RepairSeries)"
  "reads_variant (mn, ''RepairToken'') (mn, typed_arguments de_RepairTokenArguments SRA_RepairToken)"
  "reads_variant (mn, ''TokenReference'') (mn, typed_arguments de_TokenReferenceArguments SRA_TokenReference)"
  "reads_variant (mn, ''TokenSeriesReference'') (mn, typed_arguments de_TokenSeriesReferenceArguments SRA_TokenSeriesReference)"
  "reads_variant (mn, ''Symbol'') (mn, typed_arguments de_SymbolArguments SRA_Symbol)"
  "reads_variant (mn, ''TransferFungible'') (mn, typed_arguments de_TransferFungibleArguments SRA_TransferFungible)"
  "reads_variant (mn, ''TransferNonFungible'') (mn, typed_arguments de_TransferNonFungibleArguments SRA_TransferNonFungible)"
  "reads_variant (mn, ''MintFungible'') (mn, typed_arguments de_MintFungibleArguments SRA_MintFungible)"
  "reads_variant (mn, ''BurnFungible'') (mn, typed_arguments de_BurnFungibleArguments SRA_BurnFungible)"
  "reads_variant (mn, ''Balance'') (mn, typed_arguments de_BalanceArguments SRA_Balance)"
  "reads_variant (mn, ''CreateToken'') (mn, typed_arguments (de_CreateTokenArguments ft) SRA_CreateToken)"
  "reads_variant (mn, ''TokenSeries'') (mn, typed_arguments (de_TokenSeriesArguments ft) SRA_TokenSeries)"
  "reads_variant (mn, ''CreateMintedTokenSeries'') (mn, typed_arguments (de_CreateMintedTokenSeriesArguments ft) SRA_CreateMintedTokenSeries)"
  "reads_variant (mn, ''MintNonFungible'') (mn, typed_arguments de_MintNonFungibleArguments SRA_MintNonFungible)"
  "reads_variant (mn, ''MintPhantasmaNonFungible'') (mn, typed_arguments de_MintPhantasmaNonFungibleArguments SRA_MintPhantasmaNonFungible)"
  "reads_variant (mn, ''BurnNonFungible'') (mn, typed_arguments de_BurnNonFungibleArguments SRA_BurnNonFungible)"
  "reads_variant (mn, ''NonFungibleInfo'') (mn, typed_arguments de_NonFungibleInfoArguments SRA_NonFungibleInfo)"
  "reads_variant (mn, ''NonFungibleInfoByRomId'') (mn, typed_arguments de_NonFungibleInfoByRomIdArguments SRA_NonFungibleInfoByRomId)"
  "reads_variant (mn, ''SeriesInfoByMetaId'') (mn, typed_arguments de_SeriesInfoByMetaIdArguments SRA_SeriesInfoByMetaId)"
  "reads_variant (mn, ''TokensConfig'') (mn, typed_arguments de_TokensConfigArguments SRA_TokensConfig)"
  "reads_variant (mn, ''UpdateTokenMetadata'') (mn, typed_arguments (de_UpdateTokenMetadataArguments ft) SRA_UpdateTokenMetadata)"
  "reads_variant (mn, ''UpdateSeriesMetadata'') (mn, typed_arguments de_UpdateSeriesMetadataArguments SRA_UpdateSeriesMetadata)"
  by (rule reads_variantI, erule variant_cases, rule json_arguments.simps, rule json_reads)+

lemma arms_read: "list_all2 reads_variant call_variants (call_arms ft)"
  unfolding call_variants_def call_arms_def
  by ((rule list.rel_intros(2), rule arm_reads)+, rule list.rel_intros(1))

definition variant_for :: "rstring \<Rightarrow> rstring \<Rightarrow> string option" where
  "variant_for module method = map_of (map (\<lambda>((m, n), v). ((lit m, lit n), v)) call_variants) (module, method)"

lemma tables_agree:
  "list_all2 reads_variant cs arms \<Longrightarrow>
     map_of (map (\<lambda>((m, n), v). ((lit m, lit n), v)) cs) k = Some c \<Longrightarrow>
     \<exists>arm. map_of (map (\<lambda>((m, n), arm). ((lit m, lit n), arm)) arms) k = Some arm \<and>
       (\<forall>a. variant a = c \<longrightarrow> arm (json_arguments a) = a)"
proof (induction cs arms rule: list_all2_induct)
  case (Cons x xs y ys)
  obtain m n v where x: "x = ((m, n), v)" by (metis surj_pair)
  obtain arm where y: "y = ((m, n), arm)" "\<forall>a. variant a = v \<longrightarrow> arm (json_arguments a) = a"
    using Cons.hyps(1) by (cases y) (simp add: reads_variant_def x)
  show ?case
  proof (cases "k = (lit m, lit n)")
    case True
    with Cons.prems y(2) show ?thesis by (simp add: x y(1))
  next
    case False
    with Cons show ?thesis by (simp add: x y(1))
  qed
qed simp

lemma arm_for:
  assumes "variant_for module method = Some c" and "variant a = c"
  obtains arm where "arm_of ft module method = Some arm" and "arm (json_arguments a) = a"
  using tables_agree [OF arms_read [of ft], of "(module, method)" c] assms
  by (auto simp: variant_for_def arm_of_def)

text \<open>
  The arguments a call can carry: a raw dump, the variant of its module and method, or JSON that
  this dispatch leaves unrecognised.
\<close>

definition arguments_fit :: "(u64 \<Rightarrow> rstring) \<Rightarrow> rstring \<Rightarrow> rstring \<Rightarrow> SpecialResolutionArguments \<Rightarrow> bool" where
  "arguments_fit ft module method a =
     (if variant a = ''Raw'' then True
      else if variant a = ''Unrecognized'' then from_call_json ft module method (json_arguments a) = Some a
      else variant_for module method = Some (variant a))"

lemma arguments_read:
  assumes "arguments_fit ft module method a"
  shows "from_call_json ft module method (json_arguments a) = Some a"
proof -
  consider "variant a = ''Raw''" | "variant a = ''Unrecognized''"
    | "variant a \<noteq> ''Raw''" "variant a \<noteq> ''Unrecognized''" by blast
  then show ?thesis
  proof cases
    case 1
    then obtain r where "a = SRA_Raw r" by (cases a) simp_all
    then show ?thesis using raw_reads by simp
  next
    case 2
    with assms show ?thesis by (simp add: arguments_fit_def)
  next
    case 3
    with assms have "variant_for module method = Some (variant a)" by (simp add: arguments_fit_def)
    then obtain arm where "arm_of ft module method = Some arm" "arm (json_arguments a) = a"
      using arm_for by blast
    with 3 show ?thesis
      using arguments_object [of a] arguments_raw [of a] by (simp add: from_call_json_object)
  qed
qed

text \<open>An arm that does not type its payload returns it.\<close>

definition keeps :: "(json \<Rightarrow> SpecialResolutionArguments) \<Rightarrow> bool" where
  "keeps arm \<longleftrightarrow> (\<forall>value w. arm value = SRA_Unrecognized w \<longrightarrow> w = value)"

lemma keeps_typed: "(\<And>x w. wrap x \<noteq> SRA_Unrecognized w) \<Longrightarrow> keeps (typed_arguments de wrap)"
  by (auto simp: keeps_def typed_arguments_def split: option.split)

lemma arms_keep: "list_all keeps (map snd (call_arms ft))"
  unfolding call_arms_def list.map snd_conv list.pred_inject(2)
  by (intro conjI list.pred_inject(1) keeps_typed SpecialResolutionArguments.distinct)

lemma arm_unrecognized:
  assumes "arm_of ft module method = Some arm" and "arm value = SRA_Unrecognized w"
  shows "w = value"
proof -
  have "arm \<in> set (map snd (call_arms ft))"
    using assms(1) by (force simp: arm_of_def dest!: map_of_SomeD)
  with arms_keep [of ft] assms(2) show ?thesis by (auto simp: list_all_iff keeps_def)
qed

text \<open>What an arm types has the variant of its module and method.\<close>

definition types_as :: "(string \<times> string) \<times> string \<Rightarrow> (string \<times> string) \<times> (json \<Rightarrow> SpecialResolutionArguments) \<Rightarrow> bool" where
  "types_as c arm \<longleftrightarrow> fst c = fst arm \<and> (\<forall>value. variant (snd arm value) \<in> {snd c, ''Unrecognized''})"

lemma types_asI: "(\<And>x. variant (wrap x) = n) \<Longrightarrow> types_as (mn, n) (mn, typed_arguments de wrap)"
  by (simp add: types_as_def typed_arguments_def split: option.split)

lemma arms_type: "list_all2 types_as call_variants (call_arms ft)"
  unfolding call_variants_def call_arms_def
  by ((rule list.rel_intros(2), rule types_asI, rule variant.simps)+, rule list.rel_intros(1))

lemma types_lookup:
  "list_all2 types_as cs arms \<Longrightarrow>
     map_of (map (\<lambda>((m, n), arm). ((lit m, lit n), arm)) arms) k = Some arm \<Longrightarrow>
     \<exists>c. map_of (map (\<lambda>((m, n), v). ((lit m, lit n), v)) cs) k = Some c \<and>
       variant (arm value) \<in> {c, ''Unrecognized''}"
  by (induction cs arms rule: list_all2_induct) (auto simp: types_as_def split: if_split_asm)

lemma arm_types:
  assumes "arm_of ft module method = Some arm" and "variant (arm value) \<noteq> ''Unrecognized''"
  shows "variant_for module method = Some (variant (arm value))"
  using types_lookup [OF arms_type [of ft], of "(module, method)" arm "value"] assms
  by (auto simp: arm_of_def variant_for_def)

lemma variant_Unrecognized: "variant a = ''Unrecognized'' \<Longrightarrow> \<exists>w. a = SRA_Unrecognized w"
  by (cases a) simp_all

section \<open>Calls and events read back\<close>

fun call_fits :: "(u64 \<Rightarrow> rstring) \<Rightarrow> SpecialResolutionCall \<Rightarrow> bool" where
  "call_fits ft (SpecialResolutionCall module_id module method_id method arguments calls) =
     ((case arguments of None \<Rightarrow> True | Some a \<Rightarrow> arguments_fit ft module method a) \<and>
      (case calls of None \<Rightarrow> True | Some cs \<Rightarrow> list_all (call_fits ft) cs))"

lemma text_member_struct:
  assumes "field_names kvs" and "entry (rev kvs) n = Some (J_String s)" and "ascii n"
  shows "text_member (struct_map kvs) n = s"
  using assms by (simp add: text_member_def struct_member value_str_def)

lemma id_field_struct:
  assumes "field_names kvs" and "entry (rev kvs) n = Some (json_u32 i)" and "ascii n"
  shows "id_field (struct_map kvs) n = i"
  using u32_reads [of i] assms
  by (simp add: id_field_def struct_member value_u64_def json_u32_def de_u32_def split: if_split_asm)

text \<open>The entries of an encoded call.\<close>

definition call_entries :: "SpecialResolutionCall \<Rightarrow> (string \<times> json) list" where
  "call_entries c =
     [(''moduleId'', json_u32 (src_module_id c)), (''module'', J_String (src_module c)),
      (''methodId'', json_u32 (src_method_id c)), (''method'', J_String (src_method c))] @
     opt_field ''arguments'' json_arguments (src_arguments c) @
     opt_field ''calls'' (\<lambda>cs. J_Array (map json_call cs)) (src_calls c)"

lemma call_entries_names: "field_names (call_entries c)"
  by (simp add: call_entries_def)

lemma call_entries_lookup:
  "entry (rev (call_entries c)) ''moduleId'' = Some (json_u32 (src_module_id c))"
  "entry (rev (call_entries c)) ''module'' = Some (J_String (src_module c))"
  "entry (rev (call_entries c)) ''methodId'' = Some (json_u32 (src_method_id c))"
  "entry (rev (call_entries c)) ''method'' = Some (J_String (src_method c))"
  "entry (rev (call_entries c)) ''arguments'' = opt_get json_arguments (src_arguments c)"
  "entry (rev (call_entries c)) ''calls'' = opt_get (\<lambda>cs. J_Array (map json_call cs)) (src_calls c)"
  by (simp_all add: call_entries_def)

lemma json_call_entries: "json_call c = json_struct (call_entries c)"
  by (cases c) (simp add: call_entries_def opt_field_def split: option.split)

lemma call_reads: "call_fits ft c \<Longrightarrow> call_from_json ft (json_call c) = c"
proof (induction ft c rule: call_fits.induct)
  case (1 ft i m j n arguments calls)
  let ?c = "SpecialResolutionCall i m j n arguments calls"
  let ?m = "struct_map (call_entries ?c)"
  note member = struct_member [OF call_entries_names] text_member_struct [OF call_entries_names]
    id_field_struct [OF call_entries_names]
  have "call_from_json ft (json_call ?c) = call_from_json ft (J_Object ?m)"
    by (simp only: json_call_entries json_struct_def)
  moreover have "text_member ?m ''module'' = m" "text_member ?m ''method'' = n"
    "id_field ?m ''moduleId'' = i" "id_field ?m ''methodId'' = j"
    by (rule member, rule call_entries_lookup [of ?c, simplified], simp)+
  moreover have "map_of ?m (lit ''arguments'') = opt_get json_arguments arguments"
    "map_of ?m (lit ''calls'') = opt_get (\<lambda>cs. J_Array (map json_call cs)) calls"
    by (simp_all add: member call_entries_lookup)
  moreover have "Option.bind (opt_get json_arguments arguments) (from_call_json ft m n) = arguments"
    using "1.prems" by (auto simp: opt_get_def arguments_read split: option.split_asm)
  moreover have "(case opt_get (\<lambda>cs. J_Array (map json_call cs)) calls of
      Some (J_Array items) \<Rightarrow> Some (map (call_from_json ft) items) | _ \<Rightarrow> None) = calls"
    using 1 by (auto simp: opt_get_def list_all_iff intro!: map_idI split: option.split)
  ultimately show ?case by (simp add: Let_def)
qed

lemma resolution_reads:
  assumes "list_all (call_fits ft) (srd_calls d)"
  shows "de_SpecialResolutionData ft (json_SpecialResolutionData d) = Some d"
proof -
  let ?kvs = "[(''resolutionId'', json_u64 (srd_resolution_id d))] @ opt_field ''description'' J_String (srd_description d) @
      [(''calls'', json_vec json_call (srd_calls d))]"
  have names: "field_names ?kvs" by simp
  have "map_of (struct_map ?kvs) (lit ''resolutionId'') = Some (json_u64 (srd_resolution_id d))"
    "map_of (struct_map ?kvs) (lit ''description'') = opt_get J_String (srd_description d)"
    "map_of (struct_map ?kvs) (lit ''calls'') = Some (json_vec json_call (srd_calls d))"
    by (subst struct_member [OF names], simp, simp)+
  moreover have "map (call_from_json ft) (map json_call (srd_calls d)) = srd_calls d"
    using assms by (auto simp: list_all_iff call_reads intro!: map_idI)
  moreover have "Option.bind (opt_get J_String (srd_description d)) value_str = srd_description d"
    by (cases "srd_description d") (simp_all add: opt_get_def value_str_def)
  ultimately show ?thesis
    by (simp add: de_SpecialResolutionData_def json_SpecialResolutionData_def json_struct_def
        value_u64_def json_u64_def json_vec_def)
qed

text \<open>Data that has the shape of the kind of its event.\<close>

definition event_fits :: "(u64 \<Rightarrow> rstring) \<Rightarrow> rstring \<Rightarrow> EventData \<Rightarrow> bool" where
  "event_fits ft kind d =
     (case d of
        ED_TokenCreate _ \<Rightarrow> kind = lit ''TokenCreate''
      | ED_TokenSeriesCreate _ \<Rightarrow> kind = lit ''TokenSeriesCreate''
      | ED_MarketOrder _ \<Rightarrow> kind = lit ''OrderCreated'' \<or> kind = lit ''OrderCancelled'' \<or> kind = lit ''OrderFilled''
      | ED_SpecialResolution r \<Rightarrow> kind = lit ''SpecialResolution'' \<and> list_all (call_fits ft) (srd_calls r)
      | ED_Unknown value \<Rightarrow> from_kind_and_json ft kind value = ED_Unknown value)"

lemma event_data_reads:
  "event_fits ft kind d \<Longrightarrow> from_kind_and_json ft kind (json_EventData d) = d"
  by (cases d) (auto simp: event_fits_def from_kind_and_json_def lit_inject typed_event_def json_reads resolution_reads)

lemma event_reads:
  assumes "event_fits ft (eex_kind e) (eex_data e)"
  shows "de_EventExResult ft (json_EventExResult e) = Some e"
proof -
  let ?kvs = "[(''address'', J_String (eex_address e)), (''contract'', J_String (eex_contract e)),
      (''kind'', J_String (eex_kind e)), (''data'', json_EventData (eex_data e))]"
  have names: "field_names ?kvs" by simp
  show ?thesis
    using event_data_reads [OF assms]
    by (simp add: de_EventExResult_def json_EventExResult_def json_struct_def Let_def text_member_def value_str_def
        struct_member [OF names, simplified])
qed

section \<open>Properties\<close>

text \<open>Decoding is total and keeps what it does not understand: every event gives a value, data that is
  not typed is the payload itself, and it is typed only under a kind of the modelled set.\<close>

theorem event_decoding_keeps_payload:
  "\<exists>e. de_EventExResult ft value = Some e \<and>
     (case from_kind_and_json ft kind data of
        ED_Unknown w \<Rightarrow> w = data
      | _ \<Rightarrow> kind \<in> lit ` {''TokenCreate'', ''TokenSeriesCreate'', ''OrderCreated'', ''OrderCancelled'', ''OrderFilled'',
          ''SpecialResolution''})"
  by (auto simp: de_EventExResult_def from_kind_and_json_def typed_event_def de_SpecialResolutionData_def
      split: option.split)

text \<open>C40: The arguments of a resolution call are absent only when they are \<open>null\<close>, and kept as they came when they are
  not typed. An object with a \<open>rawArgs\<close> member is typed as a raw dump or not at all, and any other as the
  variant that stands for the module and method of its call or not at all: arguments of a method outside the
  table always arrive unrecognised.\<close>

theorem call_arguments_dispatched:
  "case from_call_json ft module method value of
     None \<Rightarrow> value = J_Null
   | Some a \<Rightarrow>
       value \<noteq> J_Null \<and>
       (if variant a = ''Unrecognized'' then a = SRA_Unrecognized value
        else is_object value \<and>
          (if has_member value ''rawArgs'' then variant a = ''Raw''
           else variant_for module method = Some (variant a)))"
proof (cases "is_object value")
  case False
  then show ?thesis by (cases "value") (simp_all add: from_call_json_def is_object_def)
next
  case True
  then have "value \<noteq> J_Null" by (auto simp: is_object_def)
  show ?thesis
  proof (cases "arm_of ft module method")
    case None
    with True \<open>value \<noteq> J_Null\<close> show ?thesis
      by (simp add: from_call_json_object typed_arguments_def split: option.split)
  next
    case (Some arm)
    have "arm value = SRA_Unrecognized value" if "variant (arm value) = ''Unrecognized''"
      using variant_Unrecognized [OF that] arm_unrecognized [OF Some] by auto
    with True \<open>value \<noteq> J_Null\<close> Some arm_types [OF Some, of "value"] show ?thesis
      by (simp add: from_call_json_object typed_arguments_def split: option.split)
  qed
qed

section \<open>A sample event\<close>

definition sample_event :: EventExResult where
  "sample_event =
     \<lparr>eex_address = lit ''P2K'', eex_contract = lit ''governance'', eex_kind = lit ''SpecialResolution'',
      eex_data = ED_SpecialResolution
        \<lparr>srd_resolution_id = 44, srd_description = Some (lit ''Repair''),
         srd_calls =
           [SpecialResolutionCall 0 (lit ''governance'') 7 (lit ''SpecialResolution'')
              (Some (SRA_NestedResolution \<lparr>nra_resolution_id = lit ''7''\<rparr>))
              (Some [SpecialResolutionCall 1 (lit ''token'') 0 (lit ''LookupName'')
                 (Some (SRA_Raw \<lparr>ra_raw_args = lit ''AABB''\<rparr>)) None])]\<rparr>\<rparr>"

lemma sample_event_fits: "event_fits (\<lambda>_. lit ''0'') (eex_kind sample_event) (eex_data sample_event)"
proof -
  have "variant_for (lit ''governance'') (lit ''SpecialResolution'') = Some ''NestedResolution''"
    by (simp add: variant_for_def call_variants_def lit_inject)
  then show ?thesis by (simp add: sample_event_def event_fits_def arguments_fit_def)
qed

end
