(* ===== verification/RpcTypes.thy ===== *)
theory RpcTypes
  imports ExtendedEvents
begin

text \<open>
  The answers of a node (\<open>src/src/rpc.rs\<close>): the derived structs with their decoders and encoders, as in
  \<open>EventTypes\<close>. Schemas nest; the decoder of a schema runs on the size of the JSON value, which is
  more than it can nest.
\<close>

record BuildInfoResult =
  bir_version :: rstring
  bir_commit :: rstring
  bir_build_time_utc :: rstring

definition de_BuildInfoResult :: "BuildInfoResult json_decoder" where
  "de_BuildInfoResult v = do {
     m \<leftarrow> members 3 v;
     version \<leftarrow> field m 0 ''version'' (lit '''') de_string;
     commit \<leftarrow> field m 1 ''commit'' (lit '''') de_string;
     build_time_utc \<leftarrow> field m 2 ''buildTimeUtc'' (lit '''') de_string;
     Some \<lparr>bir_version = version, bir_commit = commit, bir_build_time_utc = build_time_utc\<rparr> }"

definition json_BuildInfoResult :: "BuildInfoResult \<Rightarrow> json" where
  "json_BuildInfoResult x = json_struct
     [(''version'', J_String (bir_version x)), (''commit'', J_String (bir_commit x)),
       (''buildTimeUtc'', J_String (bir_build_time_utc x))]"

lemma BuildInfoResult_reads [json_reads]: "de_BuildInfoResult (json_BuildInfoResult x) = Some x" "json_BuildInfoResult x \<noteq> J_Null"
  by (simp_all add: de_BuildInfoResult_def json_BuildInfoResult_def struct_reads json_reads)

record BalanceResult =
  br_chain :: rstring
  br_amount :: rstring
  br_symbol :: rstring
  br_decimals :: u32
  br_ids :: "rstring list option"

definition de_BalanceResult :: "BalanceResult json_decoder" where
  "de_BalanceResult v = do {
     m \<leftarrow> members 5 v;
     chain \<leftarrow> field m 0 ''chain'' (lit '''') de_string;
     amount \<leftarrow> field m 1 ''amount'' (lit '''') de_string;
     symbol \<leftarrow> field m 2 ''symbol'' (lit '''') de_string;
     decimals \<leftarrow> field m 3 ''decimals'' 0 de_u32;
     ids \<leftarrow> field m 4 ''ids'' None (de_option (de_vec de_string));
     Some \<lparr>br_chain = chain, br_amount = amount, br_symbol = symbol, br_decimals = decimals,
       br_ids = ids\<rparr> }"

definition json_BalanceResult :: "BalanceResult \<Rightarrow> json" where
  "json_BalanceResult x = json_struct
     [(''chain'', J_String (br_chain x)), (''amount'', J_String (br_amount x)),
       (''symbol'', J_String (br_symbol x)), (''decimals'', json_u32 (br_decimals x)),
       (''ids'', json_option (json_vec J_String) (br_ids x))]"

lemma BalanceResult_reads [json_reads]: "de_BalanceResult (json_BalanceResult x) = Some x" "json_BalanceResult x \<noteq> J_Null"
  by (simp_all add: de_BalanceResult_def json_BalanceResult_def struct_reads json_reads)

record InteropResult =
  ir_local :: rstring
  ir_external :: rstring

definition de_InteropResult :: "InteropResult json_decoder" where
  "de_InteropResult v = do {
     m \<leftarrow> members 2 v;
     local \<leftarrow> field m 0 ''local'' (lit '''') de_string;
     external \<leftarrow> field m 1 ''external'' (lit '''') de_string;
     Some \<lparr>ir_local = local, ir_external = external\<rparr> }"

definition json_InteropResult :: "InteropResult \<Rightarrow> json" where
  "json_InteropResult x = json_struct
     [(''local'', J_String (ir_local x)), (''external'', J_String (ir_external x))]"

lemma InteropResult_reads [json_reads]: "de_InteropResult (json_InteropResult x) = Some x" "json_InteropResult x \<noteq> J_Null"
  by (simp_all add: de_InteropResult_def json_InteropResult_def struct_reads json_reads)

record PlatformResult =
  pr_platform :: rstring
  pr_chain :: rstring
  pr_fuel :: rstring
  pr_tokens :: "rstring list"
  pr_interop :: "InteropResult list"

definition de_PlatformResult :: "PlatformResult json_decoder" where
  "de_PlatformResult v = do {
     m \<leftarrow> members 5 v;
     platform \<leftarrow> field m 0 ''platform'' (lit '''') de_string;
     chain \<leftarrow> field m 1 ''chain'' (lit '''') de_string;
     fuel \<leftarrow> field m 2 ''fuel'' (lit '''') de_string;
     tokens \<leftarrow> field m 3 ''tokens'' [] (de_vec de_string);
     interop \<leftarrow> field m 4 ''interop'' [] (de_vec de_InteropResult);
     Some \<lparr>pr_platform = platform, pr_chain = chain, pr_fuel = fuel, pr_tokens = tokens,
       pr_interop = interop\<rparr> }"

definition json_PlatformResult :: "PlatformResult \<Rightarrow> json" where
  "json_PlatformResult x = json_struct
     [(''platform'', J_String (pr_platform x)), (''chain'', J_String (pr_chain x)),
       (''fuel'', J_String (pr_fuel x)), (''tokens'', json_vec J_String (pr_tokens x)),
       (''interop'', json_vec json_InteropResult (pr_interop x))]"

lemma PlatformResult_reads [json_reads]: "de_PlatformResult (json_PlatformResult x) = Some x" "json_PlatformResult x \<noteq> J_Null"
  by (simp_all add: de_PlatformResult_def json_PlatformResult_def struct_reads json_reads)

record StakeResult =
  sr_amount :: rstring
  sr_time :: u64
  sr_unclaimed :: rstring

definition StakeResult_default :: StakeResult where
  "StakeResult_default = \<lparr>sr_amount = lit '''', sr_time = 0, sr_unclaimed = lit ''''\<rparr>"

definition de_StakeResult :: "StakeResult json_decoder" where
  "de_StakeResult v = do {
     m \<leftarrow> members 3 v;
     amount \<leftarrow> field m 0 ''amount'' (lit '''') de_string;
     time \<leftarrow> field m 1 ''time'' 0 de_u64;
     unclaimed \<leftarrow> field m 2 ''unclaimed'' (lit '''') de_string;
     Some \<lparr>sr_amount = amount, sr_time = time, sr_unclaimed = unclaimed\<rparr> }"

definition json_StakeResult :: "StakeResult \<Rightarrow> json" where
  "json_StakeResult x = json_struct
     [(''amount'', J_String (sr_amount x)), (''time'', json_u64 (sr_time x)),
       (''unclaimed'', J_String (sr_unclaimed x))]"

lemma StakeResult_reads [json_reads]: "de_StakeResult (json_StakeResult x) = Some x" "json_StakeResult x \<noteq> J_Null"
  by (simp_all add: de_StakeResult_def json_StakeResult_def struct_reads json_reads)

record ArchiveResult =
  ar_hash :: "rstring option"
  ar_name :: "rstring option"
  ar_size :: u64
  ar_time :: u64
  ar_encryption :: "rstring option"
  ar_block_count :: u64
  ar_missing_blocks :: "u64 list option"
  ar_owners :: "rstring list option"

definition de_ArchiveResult :: "ArchiveResult json_decoder" where
  "de_ArchiveResult v = do {
     m \<leftarrow> members 8 v;
     hash \<leftarrow> field m 0 ''hash'' None (de_option de_string);
     name \<leftarrow> field m 1 ''name'' None (de_option de_string);
     size \<leftarrow> field m 2 ''size'' 0 de_u64;
     time \<leftarrow> field m 3 ''time'' 0 de_u64;
     encryption \<leftarrow> field m 4 ''encryption'' None (de_option de_string);
     block_count \<leftarrow> field m 5 ''blockCount'' 0 de_u64;
     missing_blocks \<leftarrow> field m 6 ''missingBlocks'' None (de_option (de_vec de_u64));
     owners \<leftarrow> field m 7 ''owners'' None (de_option (de_vec de_string));
     Some \<lparr>ar_hash = hash, ar_name = name, ar_size = size, ar_time = time,
       ar_encryption = encryption, ar_block_count = block_count, ar_missing_blocks = missing_blocks,
       ar_owners = owners\<rparr> }"

definition json_ArchiveResult :: "ArchiveResult \<Rightarrow> json" where
  "json_ArchiveResult x = json_struct
     [(''hash'', json_option J_String (ar_hash x)), (''name'', json_option J_String (ar_name x)),
       (''size'', json_u64 (ar_size x)), (''time'', json_u64 (ar_time x)),
       (''encryption'', json_option J_String (ar_encryption x)),
       (''blockCount'', json_u64 (ar_block_count x)),
       (''missingBlocks'', json_option (json_vec json_u64) (ar_missing_blocks x)),
       (''owners'', json_option (json_vec J_String) (ar_owners x))]"

lemma ArchiveResult_reads [json_reads]: "de_ArchiveResult (json_ArchiveResult x) = Some x" "json_ArchiveResult x \<noteq> J_Null"
  by (simp_all add: de_ArchiveResult_def json_ArchiveResult_def struct_reads json_reads)

record StorageResult =
  stre_available :: u64
  stre_used :: u64
  stre_avatar :: rstring
  stre_archives :: "ArchiveResult list"

definition StorageResult_default :: StorageResult where
  "StorageResult_default = \<lparr>stre_available = 0, stre_used = 0, stre_avatar = lit '''',
     stre_archives = []\<rparr>"

definition de_StorageResult :: "StorageResult json_decoder" where
  "de_StorageResult v = do {
     m \<leftarrow> members 4 v;
     available \<leftarrow> field m 0 ''available'' 0 de_u64;
     used \<leftarrow> field m 1 ''used'' 0 de_u64;
     avatar \<leftarrow> field m 2 ''avatar'' (lit '''') de_string;
     archives \<leftarrow> field m 3 ''archives'' [] (de_vec de_ArchiveResult);
     Some \<lparr>stre_available = available, stre_used = used, stre_avatar = avatar,
       stre_archives = archives\<rparr> }"

definition json_StorageResult :: "StorageResult \<Rightarrow> json" where
  "json_StorageResult x = json_struct
     [(''available'', json_u64 (stre_available x)), (''used'', json_u64 (stre_used x)),
       (''avatar'', J_String (stre_avatar x)),
       (''archives'', json_vec json_ArchiveResult (stre_archives x))]"

lemma StorageResult_reads [json_reads]: "de_StorageResult (json_StorageResult x) = Some x" "json_StorageResult x \<noteq> J_Null"
  by (simp_all add: de_StorageResult_def json_StorageResult_def struct_reads json_reads)

record AccountInfoResult =
  air_address :: rstring
  air_name :: rstring
  air_stake :: StakeResult

definition de_AccountInfoResult :: "AccountInfoResult json_decoder" where
  "de_AccountInfoResult v = do {
     m \<leftarrow> members 3 v;
     address \<leftarrow> field m 0 ''address'' (lit '''') de_string;
     name \<leftarrow> field m 1 ''name'' (lit '''') de_string;
     stake \<leftarrow> field m 2 ''stake'' StakeResult_default de_StakeResult;
     Some \<lparr>air_address = address, air_name = name, air_stake = stake\<rparr> }"

definition json_AccountInfoResult :: "AccountInfoResult \<Rightarrow> json" where
  "json_AccountInfoResult x = json_struct
     [(''address'', J_String (air_address x)), (''name'', J_String (air_name x)),
       (''stake'', json_StakeResult (air_stake x))]"

lemma AccountInfoResult_reads [json_reads]: "de_AccountInfoResult (json_AccountInfoResult x) = Some x" "json_AccountInfoResult x \<noteq> J_Null"
  by (simp_all add: de_AccountInfoResult_def json_AccountInfoResult_def struct_reads json_reads)

record AccountResult =
  acre_address :: rstring
  acre_name :: rstring
  acre_stakes :: StakeResult
  acre_stake :: rstring
  acre_unclaimed :: rstring
  acre_relay :: "rstring option"
  acre_validator :: rstring
  acre_storage :: StorageResult
  acre_balances :: "BalanceResult list"
  acre_txs :: "rstring list option"

definition de_AccountResult :: "AccountResult json_decoder" where
  "de_AccountResult v = do {
     m \<leftarrow> members 10 v;
     address \<leftarrow> field m 0 ''address'' (lit '''') de_string;
     name \<leftarrow> field m 1 ''name'' (lit '''') de_string;
     stakes \<leftarrow> field m 2 ''stakes'' StakeResult_default de_StakeResult;
     stake \<leftarrow> field m 3 ''stake'' (lit '''') de_string;
     unclaimed \<leftarrow> field m 4 ''unclaimed'' (lit '''') de_string;
     relay \<leftarrow> field m 5 ''relay'' None (de_option de_string);
     validator \<leftarrow> field m 6 ''validator'' (lit '''') de_string;
     storage \<leftarrow> field m 7 ''storage'' StorageResult_default de_StorageResult;
     balances \<leftarrow> field m 8 ''balances'' [] (de_vec de_BalanceResult);
     txs \<leftarrow> field m 9 ''txs'' None (de_option (de_vec de_string));
     Some \<lparr>acre_address = address, acre_name = name, acre_stakes = stakes, acre_stake = stake,
       acre_unclaimed = unclaimed, acre_relay = relay, acre_validator = validator, acre_storage = storage,
       acre_balances = balances, acre_txs = txs\<rparr> }"

definition json_AccountResult :: "AccountResult \<Rightarrow> json" where
  "json_AccountResult x = json_struct
     [(''address'', J_String (acre_address x)), (''name'', J_String (acre_name x)),
       (''stakes'', json_StakeResult (acre_stakes x)), (''stake'', J_String (acre_stake x)),
       (''unclaimed'', J_String (acre_unclaimed x)), (''relay'', json_option J_String (acre_relay x)),
       (''validator'', J_String (acre_validator x)), (''storage'', json_StorageResult (acre_storage x)),
       (''balances'', json_vec json_BalanceResult (acre_balances x)),
       (''txs'', json_option (json_vec J_String) (acre_txs x))]"

lemma AccountResult_reads [json_reads]: "de_AccountResult (json_AccountResult x) = Some x" "json_AccountResult x \<noteq> J_Null"
  by (simp_all add: de_AccountResult_def json_AccountResult_def struct_reads json_reads)

record EventResult =
  er_address :: rstring
  er_contract :: rstring
  er_kind :: rstring
  er_name :: rstring
  er_data :: rstring

definition de_EventResult :: "EventResult json_decoder" where
  "de_EventResult v = do {
     m \<leftarrow> members 5 v;
     address \<leftarrow> field m 0 ''address'' (lit '''') de_string;
     contract \<leftarrow> field m 1 ''contract'' (lit '''') de_string;
     kind \<leftarrow> field m 2 ''kind'' (lit '''') de_string;
     name \<leftarrow> field m 3 ''name'' (lit '''') de_string;
     data \<leftarrow> field m 4 ''data'' (lit '''') de_string;
     Some \<lparr>er_address = address, er_contract = contract, er_kind = kind, er_name = name,
       er_data = data\<rparr> }"

definition json_EventResult :: "EventResult \<Rightarrow> json" where
  "json_EventResult x = json_struct
     [(''address'', J_String (er_address x)), (''contract'', J_String (er_contract x)),
       (''kind'', J_String (er_kind x)), (''name'', J_String (er_name x)), (''data'', J_String (er_data x))]"

lemma EventResult_reads [json_reads]: "de_EventResult (json_EventResult x) = Some x" "json_EventResult x \<noteq> J_Null"
  by (simp_all add: de_EventResult_def json_EventResult_def struct_reads json_reads)

record SignatureResult =
  sire_kind :: rstring
  sire_data :: rstring

definition de_SignatureResult :: "SignatureResult json_decoder" where
  "de_SignatureResult v = do {
     m \<leftarrow> members 2 v;
     kind \<leftarrow> field m 0 ''kind'' (lit '''') de_string;
     data \<leftarrow> field m 1 ''data'' (lit '''') de_string;
     Some \<lparr>sire_kind = kind, sire_data = data\<rparr> }"

definition json_SignatureResult :: "SignatureResult \<Rightarrow> json" where
  "json_SignatureResult x = json_struct
     [(''kind'', J_String (sire_kind x)), (''data'', J_String (sire_data x))]"

lemma SignatureResult_reads [json_reads]: "de_SignatureResult (json_SignatureResult x) = Some x" "json_SignatureResult x \<noteq> J_Null"
  by (simp_all add: de_SignatureResult_def json_SignatureResult_def struct_reads json_reads)

record TransactionResult =
  trre_hash :: rstring
  trre_chain_address :: rstring
  trre_timestamp :: u64
  trre_block_height :: u64
  trre_block_hash :: rstring
  trre_script :: rstring
  trre_carbon_tx_type :: u32
  trre_carbon_tx_data :: rstring
  trre_payload :: rstring
  trre_events :: "EventResult list"
  trre_extended_events :: "EventExResult list"
  trre_state :: rstring
  trre_result :: rstring
  trre_debug_comment :: "rstring option"
  trre_fee :: rstring
  trre_signatures :: "SignatureResult list"
  trre_sender :: rstring
  trre_gas_payer :: rstring
  trre_gas_target :: rstring
  trre_gas_price :: rstring
  trre_gas_limit :: rstring
  trre_expiration :: u64

definition de_TransactionResult :: "(u64 \<Rightarrow> rstring) \<Rightarrow> TransactionResult json_decoder" where
  "de_TransactionResult ft v = do {
     m \<leftarrow> members 22 v;
     hash \<leftarrow> field m 0 ''hash'' (lit '''') de_string;
     chain_address \<leftarrow> field m 1 ''chainAddress'' (lit '''') de_string;
     timestamp \<leftarrow> field m 2 ''timestamp'' 0 de_u64;
     block_height \<leftarrow> field m 3 ''blockHeight'' 0 de_u64;
     block_hash \<leftarrow> field m 4 ''blockHash'' (lit '''') de_string;
     script \<leftarrow> field m 5 ''script'' (lit '''') de_string;
     carbon_tx_type \<leftarrow> field m 6 ''carbonTxType'' 0 de_u32;
     carbon_tx_data \<leftarrow> field m 7 ''carbonTxData'' (lit '''') de_string;
     payload \<leftarrow> field m 8 ''payload'' (lit '''') de_string;
     events \<leftarrow> field m 9 ''events'' [] (de_vec de_EventResult);
     extended_events \<leftarrow> field m 10 ''extendedEvents'' [] (de_vec (de_EventExResult ft));
     state \<leftarrow> field m 11 ''state'' (lit '''') de_string;
     result \<leftarrow> field m 12 ''result'' (lit '''') de_string;
     debug_comment \<leftarrow> field m 13 ''debugComment'' None (de_option de_string);
     fee \<leftarrow> field m 14 ''fee'' (lit '''') de_string;
     signatures \<leftarrow> field m 15 ''signatures'' [] (de_vec de_SignatureResult);
     sender \<leftarrow> field m 16 ''sender'' (lit '''') de_string;
     gas_payer \<leftarrow> field m 17 ''gasPayer'' (lit '''') de_string;
     gas_target \<leftarrow> field m 18 ''gasTarget'' (lit '''') de_string;
     gas_price \<leftarrow> field m 19 ''gasPrice'' (lit '''') de_string;
     gas_limit \<leftarrow> field m 20 ''gasLimit'' (lit '''') de_string;
     expiration \<leftarrow> field m 21 ''expiration'' 0 de_u64;
     Some \<lparr>trre_hash = hash, trre_chain_address = chain_address, trre_timestamp = timestamp,
       trre_block_height = block_height, trre_block_hash = block_hash, trre_script = script,
       trre_carbon_tx_type = carbon_tx_type, trre_carbon_tx_data = carbon_tx_data, trre_payload = payload,
       trre_events = events, trre_extended_events = extended_events, trre_state = state,
       trre_result = result, trre_debug_comment = debug_comment, trre_fee = fee,
       trre_signatures = signatures, trre_sender = sender, trre_gas_payer = gas_payer,
       trre_gas_target = gas_target, trre_gas_price = gas_price, trre_gas_limit = gas_limit,
       trre_expiration = expiration\<rparr> }"

definition json_TransactionResult :: "TransactionResult \<Rightarrow> json" where
  "json_TransactionResult x = json_struct
     [(''hash'', J_String (trre_hash x)), (''chainAddress'', J_String (trre_chain_address x)),
       (''timestamp'', json_u64 (trre_timestamp x)), (''blockHeight'', json_u64 (trre_block_height x)),
       (''blockHash'', J_String (trre_block_hash x)), (''script'', J_String (trre_script x)),
       (''carbonTxType'', json_u32 (trre_carbon_tx_type x)),
       (''carbonTxData'', J_String (trre_carbon_tx_data x)), (''payload'', J_String (trre_payload x)),
       (''events'', json_vec json_EventResult (trre_events x)),
       (''extendedEvents'', json_vec json_EventExResult (trre_extended_events x)),
       (''state'', J_String (trre_state x)), (''result'', J_String (trre_result x)),
       (''debugComment'', json_option J_String (trre_debug_comment x)), (''fee'', J_String (trre_fee x)),
       (''signatures'', json_vec json_SignatureResult (trre_signatures x)),
       (''sender'', J_String (trre_sender x)), (''gasPayer'', J_String (trre_gas_payer x)),
       (''gasTarget'', J_String (trre_gas_target x)), (''gasPrice'', J_String (trre_gas_price x)),
       (''gasLimit'', J_String (trre_gas_limit x)), (''expiration'', json_u64 (trre_expiration x))]"

record AddressTransactionsResult =
  atr_address :: rstring
  atr_txs :: "TransactionResult list"

definition de_AddressTransactionsResult :: "(u64 \<Rightarrow> rstring) \<Rightarrow> AddressTransactionsResult json_decoder" where
  "de_AddressTransactionsResult ft v = do {
     m \<leftarrow> members 2 v;
     address \<leftarrow> field m 0 ''address'' (lit '''') de_string;
     txs \<leftarrow> field m 1 ''txs'' [] (de_vec (de_TransactionResult ft));
     Some \<lparr>atr_address = address, atr_txs = txs\<rparr> }"

definition json_AddressTransactionsResult :: "AddressTransactionsResult \<Rightarrow> json" where
  "json_AddressTransactionsResult x = json_struct
     [(''address'', J_String (atr_address x)), (''txs'', json_vec json_TransactionResult (atr_txs x))]"

record 't PaginatedResult =
  pare_page :: u32
  pare_page_size :: u32
  pare_total :: u64
  pare_total_pages :: u32
  pare_result :: "'t option"

definition de_PaginatedResult :: "'t json_decoder \<Rightarrow> 't PaginatedResult json_decoder" where
  "de_PaginatedResult de_t v = do {
     m \<leftarrow> members 5 v;
     page \<leftarrow> field m 0 ''page'' 0 de_u32;
     page_size \<leftarrow> field m 1 ''pageSize'' 0 de_u32;
     total \<leftarrow> field m 2 ''total'' 0 de_u64;
     total_pages \<leftarrow> field m 3 ''totalPages'' 0 de_u32;
     result \<leftarrow> field m 4 ''result'' None (de_option de_t);
     Some \<lparr>pare_page = page, pare_page_size = page_size, pare_total = total,
       pare_total_pages = total_pages, pare_result = result\<rparr> }"

definition json_PaginatedResult :: "('t \<Rightarrow> json) \<Rightarrow> 't PaginatedResult \<Rightarrow> json" where
  "json_PaginatedResult enc_t x = json_struct
     [(''page'', json_u32 (pare_page x)), (''pageSize'', json_u32 (pare_page_size x)),
       (''total'', json_u64 (pare_total x)), (''totalPages'', json_u32 (pare_total_pages x)),
       (''result'', json_option enc_t (pare_result x))]"

lemma PaginatedResult_reads [json_reads]:
  "(\<And>y. de_t (enc_t y) = Some y) \<Longrightarrow> (\<And>y. enc_t y \<noteq> J_Null) \<Longrightarrow>
     de_PaginatedResult de_t (json_PaginatedResult enc_t x) = Some x" "json_PaginatedResult enc_t x \<noteq> J_Null"
  by (simp_all add: de_PaginatedResult_def json_PaginatedResult_def struct_reads json_reads)

record 't CursorPaginatedResult =
  cpr_result :: "'t option"
  cpr_cursor :: "rstring option"

definition de_CursorPaginatedResult :: "'t json_decoder \<Rightarrow> 't CursorPaginatedResult json_decoder" where
  "de_CursorPaginatedResult de_t v = do {
     m \<leftarrow> members 2 v;
     result \<leftarrow> field m 0 ''result'' None (de_option de_t);
     cursor \<leftarrow> field m 1 ''cursor'' None (de_option de_string);
     Some \<lparr>cpr_result = result, cpr_cursor = cursor\<rparr> }"

definition json_CursorPaginatedResult :: "('t \<Rightarrow> json) \<Rightarrow> 't CursorPaginatedResult \<Rightarrow> json" where
  "json_CursorPaginatedResult enc_t x = json_struct
     [(''result'', json_option enc_t (cpr_result x)), (''cursor'', json_option J_String (cpr_cursor x))]"

lemma CursorPaginatedResult_reads [json_reads]:
  "(\<And>y. de_t (enc_t y) = Some y) \<Longrightarrow> (\<And>y. enc_t y \<noteq> J_Null) \<Longrightarrow>
     de_CursorPaginatedResult de_t (json_CursorPaginatedResult enc_t x) = Some x" "json_CursorPaginatedResult enc_t x \<noteq> J_Null"
  by (simp_all add: de_CursorPaginatedResult_def json_CursorPaginatedResult_def struct_reads json_reads)

record OracleResult =
  or_url :: rstring
  or_content :: rstring

definition de_OracleResult :: "OracleResult json_decoder" where
  "de_OracleResult v = do {
     m \<leftarrow> members 2 v;
     url \<leftarrow> field m 0 ''url'' (lit '''') de_string;
     content \<leftarrow> field m 1 ''content'' (lit '''') de_string;
     Some \<lparr>or_url = url, or_content = content\<rparr> }"

definition json_OracleResult :: "OracleResult \<Rightarrow> json" where
  "json_OracleResult x = json_struct
     [(''url'', J_String (or_url x)), (''content'', J_String (or_content x))]"

lemma OracleResult_reads [json_reads]: "de_OracleResult (json_OracleResult x) = Some x" "json_OracleResult x \<noteq> J_Null"
  by (simp_all add: de_OracleResult_def json_OracleResult_def struct_reads json_reads)

record BlockResult =
  blre_hash :: rstring
  blre_previous_hash :: rstring
  blre_timestamp :: u64
  blre_height :: u64
  blre_chain_address :: rstring
  blre_protocol :: u32
  blre_txs :: "TransactionResult list"
  blre_validator_address :: rstring
  blre_producer_address :: "rstring option"
  blre_reward :: rstring
  blre_events :: "EventResult list option"
  blre_oracles :: "OracleResult list option"

definition de_BlockResult :: "(u64 \<Rightarrow> rstring) \<Rightarrow> BlockResult json_decoder" where
  "de_BlockResult ft v = do {
     m \<leftarrow> members 12 v;
     hash \<leftarrow> field m 0 ''hash'' (lit '''') de_string;
     previous_hash \<leftarrow> field m 1 ''previousHash'' (lit '''') de_string;
     timestamp \<leftarrow> field m 2 ''timestamp'' 0 de_u64;
     height \<leftarrow> field m 3 ''height'' 0 de_u64;
     chain_address \<leftarrow> field m 4 ''chainAddress'' (lit '''') de_string;
     protocol \<leftarrow> field m 5 ''protocol'' 0 de_u32;
     txs \<leftarrow> field m 6 ''txs'' [] (de_vec (de_TransactionResult ft));
     validator_address \<leftarrow> field m 7 ''validatorAddress'' (lit '''') de_string;
     producer_address \<leftarrow> field m 8 ''producerAddress'' None (de_option de_string);
     reward \<leftarrow> field m 9 ''reward'' (lit '''') de_string;
     events \<leftarrow> field m 10 ''events'' None (de_option (de_vec de_EventResult));
     oracles \<leftarrow> field m 11 ''oracles'' None (de_option (de_vec de_OracleResult));
     Some \<lparr>blre_hash = hash, blre_previous_hash = previous_hash, blre_timestamp = timestamp,
       blre_height = height, blre_chain_address = chain_address, blre_protocol = protocol, blre_txs = txs,
       blre_validator_address = validator_address, blre_producer_address = producer_address,
       blre_reward = reward, blre_events = events, blre_oracles = oracles\<rparr> }"

definition json_BlockResult :: "BlockResult \<Rightarrow> json" where
  "json_BlockResult x = json_struct
     [(''hash'', J_String (blre_hash x)), (''previousHash'', J_String (blre_previous_hash x)),
       (''timestamp'', json_u64 (blre_timestamp x)), (''height'', json_u64 (blre_height x)),
       (''chainAddress'', J_String (blre_chain_address x)), (''protocol'', json_u32 (blre_protocol x)),
       (''txs'', json_vec json_TransactionResult (blre_txs x)),
       (''validatorAddress'', J_String (blre_validator_address x)),
       (''producerAddress'', json_option J_String (blre_producer_address x)),
       (''reward'', J_String (blre_reward x)),
       (''events'', json_option (json_vec json_EventResult) (blre_events x)),
       (''oracles'', json_option (json_vec json_OracleResult) (blre_oracles x))]"

record AbiParameterResult =
  apr_name :: rstring
  apr_type_name :: rstring

definition de_AbiParameterResult :: "AbiParameterResult json_decoder" where
  "de_AbiParameterResult v = do {
     m \<leftarrow> members 2 v;
     name \<leftarrow> field m 0 ''name'' (lit '''') de_string;
     type_name \<leftarrow> field m 1 ''type'' (lit '''') de_string;
     Some \<lparr>apr_name = name, apr_type_name = type_name\<rparr> }"

definition json_AbiParameterResult :: "AbiParameterResult \<Rightarrow> json" where
  "json_AbiParameterResult x = json_struct
     [(''name'', J_String (apr_name x)), (''type'', J_String (apr_type_name x))]"

lemma AbiParameterResult_reads [json_reads]: "de_AbiParameterResult (json_AbiParameterResult x) = Some x" "json_AbiParameterResult x \<noteq> J_Null"
  by (simp_all add: de_AbiParameterResult_def json_AbiParameterResult_def struct_reads json_reads)

record AbiMethodResult =
  amr_name :: rstring
  amr_return_type :: rstring
  amr_parameters :: "AbiParameterResult list"

definition de_AbiMethodResult :: "AbiMethodResult json_decoder" where
  "de_AbiMethodResult v = do {
     m \<leftarrow> members 3 v;
     name \<leftarrow> field m 0 ''name'' (lit '''') de_string;
     return_type \<leftarrow> field m 1 ''returnType'' (lit '''') de_string;
     parameters \<leftarrow> field m 2 ''parameters'' [] (de_vec de_AbiParameterResult);
     Some \<lparr>amr_name = name, amr_return_type = return_type, amr_parameters = parameters\<rparr> }"

definition json_AbiMethodResult :: "AbiMethodResult \<Rightarrow> json" where
  "json_AbiMethodResult x = json_struct
     [(''name'', J_String (amr_name x)), (''returnType'', J_String (amr_return_type x)),
       (''parameters'', json_vec json_AbiParameterResult (amr_parameters x))]"

lemma AbiMethodResult_reads [json_reads]: "de_AbiMethodResult (json_AbiMethodResult x) = Some x" "json_AbiMethodResult x \<noteq> J_Null"
  by (simp_all add: de_AbiMethodResult_def json_AbiMethodResult_def struct_reads json_reads)

record AbiEventResult =
  aer_name :: rstring
  aer_value :: u32
  aer_return_type :: rstring
  aer_description :: rstring

definition de_AbiEventResult :: "AbiEventResult json_decoder" where
  "de_AbiEventResult v = do {
     m \<leftarrow> members 4 v;
     name \<leftarrow> field m 0 ''name'' (lit '''') de_string;
     value \<leftarrow> field m 1 ''value'' 0 de_u32;
     return_type \<leftarrow> field m 2 ''returnType'' (lit '''') de_string;
     description \<leftarrow> field m 3 ''description'' (lit '''') de_string;
     Some \<lparr>aer_name = name, aer_value = value, aer_return_type = return_type,
       aer_description = description\<rparr> }"

definition json_AbiEventResult :: "AbiEventResult \<Rightarrow> json" where
  "json_AbiEventResult x = json_struct
     [(''name'', J_String (aer_name x)), (''value'', json_u32 (aer_value x)),
       (''returnType'', J_String (aer_return_type x)), (''description'', J_String (aer_description x))]"

lemma AbiEventResult_reads [json_reads]: "de_AbiEventResult (json_AbiEventResult x) = Some x" "json_AbiEventResult x \<noteq> J_Null"
  by (simp_all add: de_AbiEventResult_def json_AbiEventResult_def struct_reads json_reads)

record ContractResult =
  cr_name :: rstring
  cr_address :: rstring
  cr_owner :: "rstring option"
  cr_script :: rstring
  cr_methods :: "AbiMethodResult list option"
  cr_events :: "AbiEventResult list option"

definition de_ContractResult :: "ContractResult json_decoder" where
  "de_ContractResult v = do {
     m \<leftarrow> members 6 v;
     name \<leftarrow> field m 0 ''name'' (lit '''') de_string;
     address \<leftarrow> field m 1 ''address'' (lit '''') de_string;
     owner \<leftarrow> field m 2 ''owner'' None (de_option de_string);
     script \<leftarrow> field m 3 ''script'' (lit '''') de_string;
     methods \<leftarrow> field m 4 ''methods'' None (de_option (de_vec de_AbiMethodResult));
     events \<leftarrow> field m 5 ''events'' None (de_option (de_vec de_AbiEventResult));
     Some \<lparr>cr_name = name, cr_address = address, cr_owner = owner, cr_script = script,
       cr_methods = methods, cr_events = events\<rparr> }"

definition json_ContractResult :: "ContractResult \<Rightarrow> json" where
  "json_ContractResult x = json_struct
     [(''name'', J_String (cr_name x)), (''address'', J_String (cr_address x)),
       (''owner'', json_option J_String (cr_owner x)), (''script'', J_String (cr_script x)),
       (''methods'', json_option (json_vec json_AbiMethodResult) (cr_methods x)),
       (''events'', json_option (json_vec json_AbiEventResult) (cr_events x))]"

lemma ContractResult_reads [json_reads]: "de_ContractResult (json_ContractResult x) = Some x" "json_ContractResult x \<noteq> J_Null"
  by (simp_all add: de_ContractResult_def json_ContractResult_def struct_reads json_reads)

record GovernanceResult =
  gr_name :: rstring
  gr_value :: rstring

definition de_GovernanceResult :: "GovernanceResult json_decoder" where
  "de_GovernanceResult v = do {
     m \<leftarrow> members 2 v;
     name \<leftarrow> field m 0 ''name'' (lit '''') de_string;
     value \<leftarrow> field m 1 ''value'' (lit '''') de_string;
     Some \<lparr>gr_name = name, gr_value = value\<rparr> }"

definition json_GovernanceResult :: "GovernanceResult \<Rightarrow> json" where
  "json_GovernanceResult x = json_struct
     [(''name'', J_String (gr_name x)), (''value'', J_String (gr_value x))]"

lemma GovernanceResult_reads [json_reads]: "de_GovernanceResult (json_GovernanceResult x) = Some x" "json_GovernanceResult x \<noteq> J_Null"
  by (simp_all add: de_GovernanceResult_def json_GovernanceResult_def struct_reads json_reads)

record TokenPropertyResult =
  tpr_key :: rstring
  tpr_value :: VmValue

definition de_TokenPropertyResult :: "(u64 \<Rightarrow> rstring) \<Rightarrow> TokenPropertyResult json_decoder" where
  "de_TokenPropertyResult ft v = do {
     m \<leftarrow> members 2 v;
     key \<leftarrow> field m 0 ''key'' (lit '''') de_string;
     value \<leftarrow> field m 1 ''value'' VmValue_default (de_VmValue ft);
     Some \<lparr>tpr_key = key, tpr_value = value\<rparr> }"

definition json_TokenPropertyResult :: "TokenPropertyResult \<Rightarrow> json" where
  "json_TokenPropertyResult x = json_struct
     [(''key'', J_String (tpr_key x)), (''value'', json_VmValue (tpr_value x))]"

lemma TokenPropertyResult_reads [json_reads]: "de_TokenPropertyResult ft (json_TokenPropertyResult x) = Some x" "json_TokenPropertyResult x \<noteq> J_Null"
  by (simp_all add: de_TokenPropertyResult_def json_TokenPropertyResult_def struct_reads json_reads)

record OrganizationResult =
  orre_name :: "rstring option"
  orre_owner :: "rstring option"
  orre_carbon_owner :: "rstring option"
  orre_metadata :: "TokenPropertyResult list"
  orre_member_count :: "rstring option"

definition de_OrganizationResult :: "(u64 \<Rightarrow> rstring) \<Rightarrow> OrganizationResult json_decoder" where
  "de_OrganizationResult ft v = do {
     m \<leftarrow> members 5 v;
     name \<leftarrow> field m 0 ''name'' None (de_option de_string);
     owner \<leftarrow> field m 1 ''owner'' None (de_option de_string);
     carbon_owner \<leftarrow> field m 2 ''carbonOwner'' None (de_option de_string);
     metadata \<leftarrow> field m 3 ''metadata'' [] (de_vec (de_TokenPropertyResult ft));
     member_count \<leftarrow> field m 4 ''memberCount'' None (de_option de_string);
     Some \<lparr>orre_name = name, orre_owner = owner, orre_carbon_owner = carbon_owner,
       orre_metadata = metadata, orre_member_count = member_count\<rparr> }"

definition json_OrganizationResult :: "OrganizationResult \<Rightarrow> json" where
  "json_OrganizationResult x = json_struct
     [(''name'', json_option J_String (orre_name x)), (''owner'', json_option J_String (orre_owner x)),
       (''carbonOwner'', json_option J_String (orre_carbon_owner x)),
       (''metadata'', json_vec json_TokenPropertyResult (orre_metadata x)),
       (''memberCount'', json_option J_String (orre_member_count x))]"

lemma OrganizationResult_reads [json_reads]: "de_OrganizationResult ft (json_OrganizationResult x) = Some x" "json_OrganizationResult x \<noteq> J_Null"
  by (simp_all add: de_OrganizationResult_def json_OrganizationResult_def struct_reads json_reads)

record OrganizationMemberResult =
  omr_address :: "rstring option"
  omr_carbon_address :: "rstring option"
  omr_is_member :: bool
  omr_member_time :: "u64 option"

definition de_OrganizationMemberResult :: "OrganizationMemberResult json_decoder" where
  "de_OrganizationMemberResult v = do {
     m \<leftarrow> members 4 v;
     address \<leftarrow> field m 0 ''address'' None (de_option de_string);
     carbon_address \<leftarrow> field m 1 ''carbonAddress'' None (de_option de_string);
     is_member \<leftarrow> field m 2 ''isMember'' False de_bool;
     member_time \<leftarrow> field m 3 ''memberTime'' None (de_option de_u64);
     Some \<lparr>omr_address = address, omr_carbon_address = carbon_address, omr_is_member = is_member,
       omr_member_time = member_time\<rparr> }"

definition json_OrganizationMemberResult :: "OrganizationMemberResult \<Rightarrow> json" where
  "json_OrganizationMemberResult x = json_struct
     [(''address'', json_option J_String (omr_address x)),
       (''carbonAddress'', json_option J_String (omr_carbon_address x)),
       (''isMember'', J_Bool (omr_is_member x)), (''memberTime'', json_option json_u64 (omr_member_time x))]"

lemma OrganizationMemberResult_reads [json_reads]: "de_OrganizationMemberResult (json_OrganizationMemberResult x) = Some x" "json_OrganizationMemberResult x \<noteq> J_Null"
  by (simp_all add: de_OrganizationMemberResult_def json_OrganizationMemberResult_def struct_reads json_reads)

record CrowdsaleResult =
  crre_hash :: rstring
  crre_name :: rstring
  crre_creator :: rstring
  crre_flags :: rstring
  crre_start_date :: u64
  crre_end_date :: u64
  crre_sell_symbol :: rstring
  crre_receive_symbol :: rstring
  crre_price :: u64
  crre_global_soft_cap :: rstring
  crre_global_hard_cap :: rstring
  crre_user_soft_cap :: rstring
  crre_user_hard_cap :: rstring

definition de_CrowdsaleResult :: "CrowdsaleResult json_decoder" where
  "de_CrowdsaleResult v = do {
     m \<leftarrow> members 13 v;
     hash \<leftarrow> field m 0 ''hash'' (lit '''') de_string;
     name \<leftarrow> field m 1 ''name'' (lit '''') de_string;
     creator \<leftarrow> field m 2 ''creator'' (lit '''') de_string;
     flags \<leftarrow> field m 3 ''flags'' (lit '''') de_string;
     start_date \<leftarrow> field m 4 ''startDate'' 0 de_u64;
     end_date \<leftarrow> field m 5 ''endDate'' 0 de_u64;
     sell_symbol \<leftarrow> field m 6 ''sellSymbol'' (lit '''') de_string;
     receive_symbol \<leftarrow> field m 7 ''receiveSymbol'' (lit '''') de_string;
     price \<leftarrow> field m 8 ''price'' 0 de_u64;
     global_soft_cap \<leftarrow> field m 9 ''globalSoftCap'' (lit '''') de_string;
     global_hard_cap \<leftarrow> field m 10 ''globalHardCap'' (lit '''') de_string;
     user_soft_cap \<leftarrow> field m 11 ''userSoftCap'' (lit '''') de_string;
     user_hard_cap \<leftarrow> field m 12 ''userHardCap'' (lit '''') de_string;
     Some \<lparr>crre_hash = hash, crre_name = name, crre_creator = creator, crre_flags = flags,
       crre_start_date = start_date, crre_end_date = end_date, crre_sell_symbol = sell_symbol,
       crre_receive_symbol = receive_symbol, crre_price = price, crre_global_soft_cap = global_soft_cap,
       crre_global_hard_cap = global_hard_cap, crre_user_soft_cap = user_soft_cap,
       crre_user_hard_cap = user_hard_cap\<rparr> }"

definition json_CrowdsaleResult :: "CrowdsaleResult \<Rightarrow> json" where
  "json_CrowdsaleResult x = json_struct
     [(''hash'', J_String (crre_hash x)), (''name'', J_String (crre_name x)),
       (''creator'', J_String (crre_creator x)), (''flags'', J_String (crre_flags x)),
       (''startDate'', json_u64 (crre_start_date x)), (''endDate'', json_u64 (crre_end_date x)),
       (''sellSymbol'', J_String (crre_sell_symbol x)),
       (''receiveSymbol'', J_String (crre_receive_symbol x)), (''price'', json_u64 (crre_price x)),
       (''globalSoftCap'', J_String (crre_global_soft_cap x)),
       (''globalHardCap'', J_String (crre_global_hard_cap x)),
       (''userSoftCap'', J_String (crre_user_soft_cap x)),
       (''userHardCap'', J_String (crre_user_hard_cap x))]"

lemma CrowdsaleResult_reads [json_reads]: "de_CrowdsaleResult (json_CrowdsaleResult x) = Some x" "json_CrowdsaleResult x \<noteq> J_Null"
  by (simp_all add: de_CrowdsaleResult_def json_CrowdsaleResult_def struct_reads json_reads)

record ChainResult =
  chre_name :: "rstring option"
  chre_address :: "rstring option"
  chre_parent :: "rstring option"
  chre_height :: u64
  chre_organization :: "rstring option"
  chre_contracts :: "rstring list option"
  chre_dapps :: "rstring list option"

definition de_ChainResult :: "ChainResult json_decoder" where
  "de_ChainResult v = do {
     m \<leftarrow> members 7 v;
     name \<leftarrow> field m 0 ''name'' None (de_option de_string);
     address \<leftarrow> field m 1 ''address'' None (de_option de_string);
     parent \<leftarrow> field m 2 ''parent'' None (de_option de_string);
     height \<leftarrow> field m 3 ''height'' 0 de_u64;
     organization \<leftarrow> field m 4 ''organization'' None (de_option de_string);
     contracts \<leftarrow> field m 5 ''contracts'' None (de_option (de_vec de_string));
     dapps \<leftarrow> field m 6 ''dapps'' None (de_option (de_vec de_string));
     Some \<lparr>chre_name = name, chre_address = address, chre_parent = parent, chre_height = height,
       chre_organization = organization, chre_contracts = contracts, chre_dapps = dapps\<rparr> }"

definition json_ChainResult :: "ChainResult \<Rightarrow> json" where
  "json_ChainResult x = json_struct
     [(''name'', json_option J_String (chre_name x)), (''address'', json_option J_String (chre_address x)),
       (''parent'', json_option J_String (chre_parent x)), (''height'', json_u64 (chre_height x)),
       (''organization'', json_option J_String (chre_organization x)),
       (''contracts'', json_option (json_vec J_String) (chre_contracts x)),
       (''dapps'', json_option (json_vec J_String) (chre_dapps x))]"

lemma ChainResult_reads [json_reads]: "de_ChainResult (json_ChainResult x) = Some x" "json_ChainResult x \<noteq> J_Null"
  by (simp_all add: de_ChainResult_def json_ChainResult_def struct_reads json_reads)

record GasConfigDataResult =
  gcdr_version :: u8
  gcdr_max_name_length :: u8
  gcdr_max_token_symbol_length :: u8
  gcdr_fee_shift :: u8
  gcdr_max_structure_size :: u32
  gcdr_fee_multiplier :: "rstring option"
  gcdr_gas_token_id :: "rstring option"
  gcdr_data_token_id :: "rstring option"
  gcdr_minimum_gas_offer :: "rstring option"
  gcdr_data_escrow_per_row :: "rstring option"
  gcdr_gas_fee_transfer :: "rstring option"
  gcdr_gas_fee_query :: "rstring option"
  gcdr_gas_fee_create_token_base :: "rstring option"
  gcdr_gas_fee_create_token_symbol :: "rstring option"
  gcdr_gas_fee_create_token_series :: "rstring option"
  gcdr_gas_fee_per_byte :: "rstring option"
  gcdr_gas_fee_register_name :: "rstring option"
  gcdr_gas_burn_ratio_mul :: "rstring option"
  gcdr_gas_burn_ratio_shift :: u8
  gcdr_minimum_gas_bill :: "rstring option"
  gcdr_gas_producer_ratio_mul :: "rstring option"
  gcdr_gas_producer_ratio_shift :: "u8 option"
  gcdr_gas_dapp_ratio_mul :: "rstring option"
  gcdr_gas_dapp_ratio_shift :: "u8 option"
  gcdr_policy_fee_create_token_base :: "rstring option"
  gcdr_policy_fee_create_token_symbol :: "rstring option"
  gcdr_policy_fee_create_token_series :: "rstring option"
  gcdr_policy_fee_register_name :: "rstring option"
  gcdr_legacy_data_escrow_per_row :: "rstring option"

definition de_GasConfigDataResult :: "GasConfigDataResult json_decoder" where
  "de_GasConfigDataResult v = do {
     m \<leftarrow> members 29 v;
     version \<leftarrow> field m 0 ''version'' 0 de_u8;
     max_name_length \<leftarrow> field m 1 ''maxNameLength'' 0 de_u8;
     max_token_symbol_length \<leftarrow> field m 2 ''maxTokenSymbolLength'' 0 de_u8;
     fee_shift \<leftarrow> field m 3 ''feeShift'' 0 de_u8;
     max_structure_size \<leftarrow> field m 4 ''maxStructureSize'' 0 de_u32;
     fee_multiplier \<leftarrow> field m 5 ''feeMultiplier'' None (de_option de_string);
     gas_token_id \<leftarrow> field m 6 ''gasTokenId'' None (de_option de_string);
     data_token_id \<leftarrow> field m 7 ''dataTokenId'' None (de_option de_string);
     minimum_gas_offer \<leftarrow> field m 8 ''minimumGasOffer'' None (de_option de_string);
     data_escrow_per_row \<leftarrow> field m 9 ''dataEscrowPerRow'' None (de_option de_string);
     gas_fee_transfer \<leftarrow> field m 10 ''gasFeeTransfer'' None (de_option de_string);
     gas_fee_query \<leftarrow> field m 11 ''gasFeeQuery'' None (de_option de_string);
     gas_fee_create_token_base \<leftarrow> field m 12 ''gasFeeCreateTokenBase'' None (de_option de_string);
     gas_fee_create_token_symbol \<leftarrow> field m 13 ''gasFeeCreateTokenSymbol'' None (de_option de_string);
     gas_fee_create_token_series \<leftarrow> field m 14 ''gasFeeCreateTokenSeries'' None (de_option de_string);
     gas_fee_per_byte \<leftarrow> field m 15 ''gasFeePerByte'' None (de_option de_string);
     gas_fee_register_name \<leftarrow> field m 16 ''gasFeeRegisterName'' None (de_option de_string);
     gas_burn_ratio_mul \<leftarrow> field m 17 ''gasBurnRatioMul'' None (de_option de_string);
     gas_burn_ratio_shift \<leftarrow> field m 18 ''gasBurnRatioShift'' 0 de_u8;
     minimum_gas_bill \<leftarrow> field m 19 ''minimumGasBill'' None (de_option de_string);
     gas_producer_ratio_mul \<leftarrow> field m 20 ''gasProducerRatioMul'' None (de_option de_string);
     gas_producer_ratio_shift \<leftarrow> field m 21 ''gasProducerRatioShift'' None (de_option de_u8);
     gas_dapp_ratio_mul \<leftarrow> field m 22 ''gasDappRatioMul'' None (de_option de_string);
     gas_dapp_ratio_shift \<leftarrow> field m 23 ''gasDappRatioShift'' None (de_option de_u8);
     policy_fee_create_token_base \<leftarrow> field m 24 ''policyFeeCreateTokenBase'' None (de_option de_string);
     policy_fee_create_token_symbol \<leftarrow> field m 25 ''policyFeeCreateTokenSymbol'' None (de_option de_string);
     policy_fee_create_token_series \<leftarrow> field m 26 ''policyFeeCreateTokenSeries'' None (de_option de_string);
     policy_fee_register_name \<leftarrow> field m 27 ''policyFeeRegisterName'' None (de_option de_string);
     legacy_data_escrow_per_row \<leftarrow> field m 28 ''legacyDataEscrowPerRow'' None (de_option de_string);
     Some \<lparr>gcdr_version = version, gcdr_max_name_length = max_name_length,
       gcdr_max_token_symbol_length = max_token_symbol_length, gcdr_fee_shift = fee_shift,
       gcdr_max_structure_size = max_structure_size, gcdr_fee_multiplier = fee_multiplier,
       gcdr_gas_token_id = gas_token_id, gcdr_data_token_id = data_token_id,
       gcdr_minimum_gas_offer = minimum_gas_offer, gcdr_data_escrow_per_row = data_escrow_per_row,
       gcdr_gas_fee_transfer = gas_fee_transfer, gcdr_gas_fee_query = gas_fee_query,
       gcdr_gas_fee_create_token_base = gas_fee_create_token_base,
       gcdr_gas_fee_create_token_symbol = gas_fee_create_token_symbol,
       gcdr_gas_fee_create_token_series = gas_fee_create_token_series,
       gcdr_gas_fee_per_byte = gas_fee_per_byte, gcdr_gas_fee_register_name = gas_fee_register_name,
       gcdr_gas_burn_ratio_mul = gas_burn_ratio_mul, gcdr_gas_burn_ratio_shift = gas_burn_ratio_shift,
       gcdr_minimum_gas_bill = minimum_gas_bill, gcdr_gas_producer_ratio_mul = gas_producer_ratio_mul,
       gcdr_gas_producer_ratio_shift = gas_producer_ratio_shift,
       gcdr_gas_dapp_ratio_mul = gas_dapp_ratio_mul, gcdr_gas_dapp_ratio_shift = gas_dapp_ratio_shift,
       gcdr_policy_fee_create_token_base = policy_fee_create_token_base,
       gcdr_policy_fee_create_token_symbol = policy_fee_create_token_symbol,
       gcdr_policy_fee_create_token_series = policy_fee_create_token_series,
       gcdr_policy_fee_register_name = policy_fee_register_name,
       gcdr_legacy_data_escrow_per_row = legacy_data_escrow_per_row\<rparr> }"

definition json_GasConfigDataResult :: "GasConfigDataResult \<Rightarrow> json" where
  "json_GasConfigDataResult x = json_struct
     [(''version'', json_u8 (gcdr_version x)), (''maxNameLength'', json_u8 (gcdr_max_name_length x)),
       (''maxTokenSymbolLength'', json_u8 (gcdr_max_token_symbol_length x)),
       (''feeShift'', json_u8 (gcdr_fee_shift x)),
       (''maxStructureSize'', json_u32 (gcdr_max_structure_size x)),
       (''feeMultiplier'', json_option J_String (gcdr_fee_multiplier x)),
       (''gasTokenId'', json_option J_String (gcdr_gas_token_id x)),
       (''dataTokenId'', json_option J_String (gcdr_data_token_id x)),
       (''minimumGasOffer'', json_option J_String (gcdr_minimum_gas_offer x)),
       (''dataEscrowPerRow'', json_option J_String (gcdr_data_escrow_per_row x)),
       (''gasFeeTransfer'', json_option J_String (gcdr_gas_fee_transfer x)),
       (''gasFeeQuery'', json_option J_String (gcdr_gas_fee_query x)),
       (''gasFeeCreateTokenBase'', json_option J_String (gcdr_gas_fee_create_token_base x)),
       (''gasFeeCreateTokenSymbol'', json_option J_String (gcdr_gas_fee_create_token_symbol x)),
       (''gasFeeCreateTokenSeries'', json_option J_String (gcdr_gas_fee_create_token_series x)),
       (''gasFeePerByte'', json_option J_String (gcdr_gas_fee_per_byte x)),
       (''gasFeeRegisterName'', json_option J_String (gcdr_gas_fee_register_name x)),
       (''gasBurnRatioMul'', json_option J_String (gcdr_gas_burn_ratio_mul x)),
       (''gasBurnRatioShift'', json_u8 (gcdr_gas_burn_ratio_shift x)),
       (''minimumGasBill'', json_option J_String (gcdr_minimum_gas_bill x)),
       (''gasProducerRatioMul'', json_option J_String (gcdr_gas_producer_ratio_mul x)),
       (''gasProducerRatioShift'', json_option json_u8 (gcdr_gas_producer_ratio_shift x)),
       (''gasDappRatioMul'', json_option J_String (gcdr_gas_dapp_ratio_mul x)),
       (''gasDappRatioShift'', json_option json_u8 (gcdr_gas_dapp_ratio_shift x)),
       (''policyFeeCreateTokenBase'', json_option J_String (gcdr_policy_fee_create_token_base x)),
       (''policyFeeCreateTokenSymbol'', json_option J_String (gcdr_policy_fee_create_token_symbol x)),
       (''policyFeeCreateTokenSeries'', json_option J_String (gcdr_policy_fee_create_token_series x)),
       (''policyFeeRegisterName'', json_option J_String (gcdr_policy_fee_register_name x)),
       (''legacyDataEscrowPerRow'', json_option J_String (gcdr_legacy_data_escrow_per_row x))]"

lemma GasConfigDataResult_reads [json_reads]: "de_GasConfigDataResult (json_GasConfigDataResult x) = Some x" "json_GasConfigDataResult x \<noteq> J_Null"
  by (simp_all add: de_GasConfigDataResult_def json_GasConfigDataResult_def struct_reads json_reads)

record GasConfigResult =
  gcr_gas_model_version :: u32
  gcr_gas_config :: "GasConfigDataResult option"
  gcr_block_rate_target :: u32
  gcr_expiry_window :: u32
  gcr_units_per_block_data_byte :: "u32 option"

definition de_GasConfigResult :: "GasConfigResult json_decoder" where
  "de_GasConfigResult v = do {
     m \<leftarrow> members 5 v;
     gas_model_version \<leftarrow> field m 0 ''gasModelVersion'' 0 de_u32;
     gas_config \<leftarrow> field m 1 ''gasConfig'' None (de_option de_GasConfigDataResult);
     block_rate_target \<leftarrow> field m 2 ''blockRateTarget'' 0 de_u32;
     expiry_window \<leftarrow> field m 3 ''expiryWindow'' 0 de_u32;
     units_per_block_data_byte \<leftarrow> field m 4 ''unitsPerBlockDataByte'' None (de_option de_u32);
     Some \<lparr>gcr_gas_model_version = gas_model_version, gcr_gas_config = gas_config,
       gcr_block_rate_target = block_rate_target, gcr_expiry_window = expiry_window,
       gcr_units_per_block_data_byte = units_per_block_data_byte\<rparr> }"

definition json_GasConfigResult :: "GasConfigResult \<Rightarrow> json" where
  "json_GasConfigResult x = json_struct
     [(''gasModelVersion'', json_u32 (gcr_gas_model_version x)),
       (''gasConfig'', json_option json_GasConfigDataResult (gcr_gas_config x)),
       (''blockRateTarget'', json_u32 (gcr_block_rate_target x)),
       (''expiryWindow'', json_u32 (gcr_expiry_window x)),
       (''unitsPerBlockDataByte'', json_option json_u32 (gcr_units_per_block_data_byte x))]"

lemma GasConfigResult_reads [json_reads]: "de_GasConfigResult (json_GasConfigResult x) = Some x" "json_GasConfigResult x \<noteq> J_Null"
  by (simp_all add: de_GasConfigResult_def json_GasConfigResult_def struct_reads json_reads)

record EstimateTransactionResult =
  etr_would_abort :: bool
  etr_abort_reason :: rstring
  etr_gas_bill_kcal_base :: "rstring option"
  etr_data_rows :: "rstring option"
  etr_data_escrow_atoms :: "rstring option"
  etr_data_refund_atoms :: "rstring option"
  etr_recommended_max_gas :: "rstring option"
  etr_recommended_max_data :: "rstring option"

definition de_EstimateTransactionResult :: "EstimateTransactionResult json_decoder" where
  "de_EstimateTransactionResult v = do {
     m \<leftarrow> members 8 v;
     would_abort \<leftarrow> field m 0 ''wouldAbort'' False de_bool;
     abort_reason \<leftarrow> field m 1 ''abortReason'' (lit '''') de_string;
     gas_bill_kcal_base \<leftarrow> field m 2 ''gasBillKcalBase'' None (de_option de_string);
     data_rows \<leftarrow> field m 3 ''dataRows'' None (de_option de_string);
     data_escrow_atoms \<leftarrow> field m 4 ''dataEscrowAtoms'' None (de_option de_string);
     data_refund_atoms \<leftarrow> field m 5 ''dataRefundAtoms'' None (de_option de_string);
     recommended_max_gas \<leftarrow> field m 6 ''recommendedMaxGas'' None (de_option de_string);
     recommended_max_data \<leftarrow> field m 7 ''recommendedMaxData'' None (de_option de_string);
     Some \<lparr>etr_would_abort = would_abort, etr_abort_reason = abort_reason,
       etr_gas_bill_kcal_base = gas_bill_kcal_base, etr_data_rows = data_rows,
       etr_data_escrow_atoms = data_escrow_atoms, etr_data_refund_atoms = data_refund_atoms,
       etr_recommended_max_gas = recommended_max_gas, etr_recommended_max_data = recommended_max_data\<rparr> }"

definition json_EstimateTransactionResult :: "EstimateTransactionResult \<Rightarrow> json" where
  "json_EstimateTransactionResult x = json_struct
     [(''wouldAbort'', J_Bool (etr_would_abort x)), (''abortReason'', J_String (etr_abort_reason x)),
       (''gasBillKcalBase'', json_option J_String (etr_gas_bill_kcal_base x)),
       (''dataRows'', json_option J_String (etr_data_rows x)),
       (''dataEscrowAtoms'', json_option J_String (etr_data_escrow_atoms x)),
       (''dataRefundAtoms'', json_option J_String (etr_data_refund_atoms x)),
       (''recommendedMaxGas'', json_option J_String (etr_recommended_max_gas x)),
       (''recommendedMaxData'', json_option J_String (etr_recommended_max_data x))]"

lemma EstimateTransactionResult_reads [json_reads]: "de_EstimateTransactionResult (json_EstimateTransactionResult x) = Some x" "json_EstimateTransactionResult x \<noteq> J_Null"
  by (simp_all add: de_EstimateTransactionResult_def json_EstimateTransactionResult_def struct_reads json_reads)

record DappResult =
  dr_name :: rstring
  dr_address :: rstring
  dr_chain :: rstring

definition de_DappResult :: "DappResult json_decoder" where
  "de_DappResult v = do {
     m \<leftarrow> members 3 v;
     name \<leftarrow> field m 0 ''name'' (lit '''') de_string;
     address \<leftarrow> field m 1 ''address'' (lit '''') de_string;
     chain \<leftarrow> field m 2 ''chain'' (lit '''') de_string;
     Some \<lparr>dr_name = name, dr_address = address, dr_chain = chain\<rparr> }"

definition json_DappResult :: "DappResult \<Rightarrow> json" where
  "json_DappResult x = json_struct
     [(''name'', J_String (dr_name x)), (''address'', J_String (dr_address x)),
       (''chain'', J_String (dr_chain x))]"

lemma DappResult_reads [json_reads]: "de_DappResult (json_DappResult x) = Some x" "json_DappResult x \<noteq> J_Null"
  by (simp_all add: de_DappResult_def json_DappResult_def struct_reads json_reads)

record TokenSeriesResult =
  tsr_series_id :: rstring
  tsr_carbon_token_id :: rstring
  tsr_carbon_series_id :: rstring
  tsr_owner_address :: rstring
  tsr_max_mint :: rstring
  tsr_mint_count :: rstring
  tsr_current_supply :: rstring
  tsr_max_supply :: rstring
  tsr_burned_supply :: "rstring option"
  tsr_mode :: "rstring option"
  tsr_script :: "rstring option"
  tsr_methods :: "AbiMethodResult list option"
  tsr_metadata :: "TokenPropertyResult list"

definition de_TokenSeriesResult :: "(u64 \<Rightarrow> rstring) \<Rightarrow> TokenSeriesResult json_decoder" where
  "de_TokenSeriesResult ft v = do {
     m \<leftarrow> members 13 v;
     series_id \<leftarrow> field m 0 ''seriesId'' (lit '''') de_string;
     carbon_token_id \<leftarrow> field m 1 ''carbonTokenId'' (lit '''') de_string;
     carbon_series_id \<leftarrow> field m 2 ''carbonSeriesId'' (lit '''') de_string;
     owner_address \<leftarrow> field m 3 ''ownerAddress'' (lit '''') de_string;
     max_mint \<leftarrow> field m 4 ''maxMint'' (lit '''') de_string;
     mint_count \<leftarrow> field m 5 ''mintCount'' (lit '''') de_string;
     current_supply \<leftarrow> field m 6 ''currentSupply'' (lit '''') de_string;
     max_supply \<leftarrow> field m 7 ''maxSupply'' (lit '''') de_string;
     burned_supply \<leftarrow> field m 8 ''burnedSupply'' None (de_option de_string);
     mode \<leftarrow> field m 9 ''mode'' None (de_option de_string);
     script \<leftarrow> field m 10 ''script'' None (de_option de_string);
     methods \<leftarrow> field m 11 ''methods'' None (de_option (de_vec de_AbiMethodResult));
     metadata \<leftarrow> field m 12 ''metadata'' [] (de_vec (de_TokenPropertyResult ft));
     Some \<lparr>tsr_series_id = series_id, tsr_carbon_token_id = carbon_token_id,
       tsr_carbon_series_id = carbon_series_id, tsr_owner_address = owner_address, tsr_max_mint = max_mint,
       tsr_mint_count = mint_count, tsr_current_supply = current_supply, tsr_max_supply = max_supply,
       tsr_burned_supply = burned_supply, tsr_mode = mode, tsr_script = script, tsr_methods = methods,
       tsr_metadata = metadata\<rparr> }"

definition json_TokenSeriesResult :: "TokenSeriesResult \<Rightarrow> json" where
  "json_TokenSeriesResult x = json_struct
     [(''seriesId'', J_String (tsr_series_id x)), (''carbonTokenId'', J_String (tsr_carbon_token_id x)),
       (''carbonSeriesId'', J_String (tsr_carbon_series_id x)),
       (''ownerAddress'', J_String (tsr_owner_address x)), (''maxMint'', J_String (tsr_max_mint x)),
       (''mintCount'', J_String (tsr_mint_count x)), (''currentSupply'', J_String (tsr_current_supply x)),
       (''maxSupply'', J_String (tsr_max_supply x)),
       (''burnedSupply'', json_option J_String (tsr_burned_supply x)),
       (''mode'', json_option J_String (tsr_mode x)), (''script'', json_option J_String (tsr_script x)),
       (''methods'', json_option (json_vec json_AbiMethodResult) (tsr_methods x)),
       (''metadata'', json_vec json_TokenPropertyResult (tsr_metadata x))]"

lemma TokenSeriesResult_reads [json_reads]: "de_TokenSeriesResult ft (json_TokenSeriesResult x) = Some x" "json_TokenSeriesResult x \<noteq> J_Null"
  by (simp_all add: de_TokenSeriesResult_def json_TokenSeriesResult_def struct_reads json_reads)

datatype VmStructSchemaResult =
    VmStructSchemaResult (vssr_fields: "VmNamedVariableSchemaResult list") (vssr_flags: u32)
and VmNamedVariableSchemaResult =
    VmNamedVariableSchemaResult (vnvsr_name: rstring) (vnvsr_schema: VmVariableSchemaResult)
and VmVariableSchemaResult =
    VmVariableSchemaResult (vvsr_type_name: rstring) (vvsr_schema: "VmStructSchemaResult option")

definition VmStructSchemaResult_default :: VmStructSchemaResult where
  "VmStructSchemaResult_default = VmStructSchemaResult [] 0"

definition VmVariableSchemaResult_default :: VmVariableSchemaResult where
  "VmVariableSchemaResult_default = VmVariableSchemaResult (lit '''') None"

definition de_variable_schema_with :: "VmStructSchemaResult json_decoder \<Rightarrow> VmVariableSchemaResult json_decoder" where
  "de_variable_schema_with de_struct v = do {
     m \<leftarrow> members 2 v;
     type_name \<leftarrow> field m 0 ''type'' (lit '''') de_string;
     schema \<leftarrow> field m 1 ''schema'' None (de_option de_struct);
     Some (VmVariableSchemaResult type_name schema) }"

definition de_named_schema_with :: "VmStructSchemaResult json_decoder \<Rightarrow> VmNamedVariableSchemaResult json_decoder" where
  "de_named_schema_with de_struct v = do {
     m \<leftarrow> members 2 v;
     name \<leftarrow> field m 0 ''name'' (lit '''') de_string;
     schema \<leftarrow> field m 1 ''schema'' VmVariableSchemaResult_default (de_variable_schema_with de_struct);
     Some (VmNamedVariableSchemaResult name schema) }"

primrec de_struct_schema_at :: "nat \<Rightarrow> VmStructSchemaResult json_decoder" where
  "de_struct_schema_at 0 v = None"
| "de_struct_schema_at (Suc n) v = do {
     m \<leftarrow> members 2 v;
     flds \<leftarrow> field m 0 ''fields'' [] (de_vec (de_named_schema_with (de_struct_schema_at n)));
     flags \<leftarrow> field m 1 ''flags'' 0 de_u32;
     Some (VmStructSchemaResult flds flags) }"

definition de_VmStructSchemaResult :: "VmStructSchemaResult json_decoder" where
  "de_VmStructSchemaResult v = de_struct_schema_at (size v) v"

fun json_VmStructSchemaResult :: "VmStructSchemaResult \<Rightarrow> json"
  and json_VmNamedVariableSchemaResult :: "VmNamedVariableSchemaResult \<Rightarrow> json"
  and json_VmVariableSchemaResult :: "VmVariableSchemaResult \<Rightarrow> json" where
  "json_VmStructSchemaResult (VmStructSchemaResult flds flags) =
     json_struct [(''fields'', J_Array (map json_VmNamedVariableSchemaResult flds)), (''flags'', json_u32 flags)]"
| "json_VmNamedVariableSchemaResult (VmNamedVariableSchemaResult name schema) =
     json_struct [(''name'', J_String name), (''schema'', json_VmVariableSchemaResult schema)]"
| "json_VmVariableSchemaResult (VmVariableSchemaResult type_name schema) =
     json_struct [(''type'', J_String type_name),
       (''schema'', (case schema of None \<Rightarrow> J_Null | Some s \<Rightarrow> json_VmStructSchemaResult s))]"

record TokenSchemasResult =
  toscre_series_metadata :: VmStructSchemaResult
  toscre_rom :: VmStructSchemaResult
  toscre_ram :: VmStructSchemaResult

definition de_TokenSchemasResult :: "TokenSchemasResult json_decoder" where
  "de_TokenSchemasResult v = do {
     m \<leftarrow> members 3 v;
     series_metadata \<leftarrow> field m 0 ''seriesMetadata'' VmStructSchemaResult_default de_VmStructSchemaResult;
     rom \<leftarrow> field m 1 ''rom'' VmStructSchemaResult_default de_VmStructSchemaResult;
     ram \<leftarrow> field m 2 ''ram'' VmStructSchemaResult_default de_VmStructSchemaResult;
     Some \<lparr>toscre_series_metadata = series_metadata, toscre_rom = rom, toscre_ram = ram\<rparr> }"

definition json_TokenSchemasResult :: "TokenSchemasResult \<Rightarrow> json" where
  "json_TokenSchemasResult x = json_struct
     [(''seriesMetadata'', json_VmStructSchemaResult (toscre_series_metadata x)),
       (''rom'', json_VmStructSchemaResult (toscre_rom x)),
       (''ram'', json_VmStructSchemaResult (toscre_ram x))]"

record TokenExternalResult =
  ter_platform :: rstring
  ter_hash :: rstring

definition de_TokenExternalResult :: "TokenExternalResult json_decoder" where
  "de_TokenExternalResult v = do {
     m \<leftarrow> members 2 v;
     platform \<leftarrow> field m 0 ''platform'' (lit '''') de_string;
     hash \<leftarrow> field m 1 ''hash'' (lit '''') de_string;
     Some \<lparr>ter_platform = platform, ter_hash = hash\<rparr> }"

definition json_TokenExternalResult :: "TokenExternalResult \<Rightarrow> json" where
  "json_TokenExternalResult x = json_struct
     [(''platform'', J_String (ter_platform x)), (''hash'', J_String (ter_hash x))]"

lemma TokenExternalResult_reads [json_reads]: "de_TokenExternalResult (json_TokenExternalResult x) = Some x" "json_TokenExternalResult x \<noteq> J_Null"
  by (simp_all add: de_TokenExternalResult_def json_TokenExternalResult_def struct_reads json_reads)

record TokenPriceResult =
  toprre_timestamp :: u64
  toprre_open :: rstring
  toprre_high :: rstring
  toprre_low :: rstring
  toprre_close :: rstring

definition de_TokenPriceResult :: "TokenPriceResult json_decoder" where
  "de_TokenPriceResult v = do {
     m \<leftarrow> members 5 v;
     timestamp \<leftarrow> field m 0 ''timestamp'' 0 de_u64;
     open \<leftarrow> field m 1 ''open'' (lit '''') de_string;
     high \<leftarrow> field m 2 ''high'' (lit '''') de_string;
     low \<leftarrow> field m 3 ''low'' (lit '''') de_string;
     close \<leftarrow> field m 4 ''close'' (lit '''') de_string;
     Some \<lparr>toprre_timestamp = timestamp, toprre_open = open, toprre_high = high, toprre_low = low,
       toprre_close = close\<rparr> }"

definition json_TokenPriceResult :: "TokenPriceResult \<Rightarrow> json" where
  "json_TokenPriceResult x = json_struct
     [(''timestamp'', json_u64 (toprre_timestamp x)), (''open'', J_String (toprre_open x)),
       (''high'', J_String (toprre_high x)), (''low'', J_String (toprre_low x)),
       (''close'', J_String (toprre_close x))]"

lemma TokenPriceResult_reads [json_reads]: "de_TokenPriceResult (json_TokenPriceResult x) = Some x" "json_TokenPriceResult x \<noteq> J_Null"
  by (simp_all add: de_TokenPriceResult_def json_TokenPriceResult_def struct_reads json_reads)

record TokenResult =
  tore_symbol :: rstring
  tore_name :: rstring
  tore_decimals :: u32
  tore_current_supply :: rstring
  tore_max_supply :: rstring
  tore_burned_supply :: rstring
  tore_address :: rstring
  tore_owner :: rstring
  tore_flags :: rstring
  tore_script :: "rstring option"
  tore_series :: "TokenSeriesResult list"
  tore_carbon_id :: rstring
  tore_metadata :: "TokenPropertyResult list option"
  tore_token_schemas :: "TokenSchemasResult option"
  tore_external :: "TokenExternalResult list option"
  tore_price :: "TokenPriceResult list option"

definition de_TokenResult :: "(u64 \<Rightarrow> rstring) \<Rightarrow> TokenResult json_decoder" where
  "de_TokenResult ft v = do {
     m \<leftarrow> members 16 v;
     symbol \<leftarrow> field m 0 ''symbol'' (lit '''') de_string;
     name \<leftarrow> field m 1 ''name'' (lit '''') de_string;
     decimals \<leftarrow> field m 2 ''decimals'' 0 de_u32;
     current_supply \<leftarrow> field m 3 ''currentSupply'' (lit '''') de_string;
     max_supply \<leftarrow> field m 4 ''maxSupply'' (lit '''') de_string;
     burned_supply \<leftarrow> field m 5 ''burnedSupply'' (lit '''') de_string;
     address \<leftarrow> field m 6 ''address'' (lit '''') de_string;
     owner \<leftarrow> field m 7 ''owner'' (lit '''') de_string;
     flags \<leftarrow> field m 8 ''flags'' (lit '''') de_string;
     script \<leftarrow> field m 9 ''script'' None (de_option de_string);
     series \<leftarrow> field m 10 ''series'' [] (de_vec (de_TokenSeriesResult ft));
     carbon_id \<leftarrow> field m 11 ''carbonId'' (lit '''') de_string;
     metadata \<leftarrow> field m 12 ''metadata'' None (de_option (de_vec (de_TokenPropertyResult ft)));
     token_schemas \<leftarrow> field m 13 ''tokenSchemas'' None (de_option de_TokenSchemasResult);
     external \<leftarrow> field m 14 ''external'' None (de_option (de_vec de_TokenExternalResult));
     price \<leftarrow> field m 15 ''price'' None (de_option (de_vec de_TokenPriceResult));
     Some \<lparr>tore_symbol = symbol, tore_name = name, tore_decimals = decimals,
       tore_current_supply = current_supply, tore_max_supply = max_supply,
       tore_burned_supply = burned_supply, tore_address = address, tore_owner = owner, tore_flags = flags,
       tore_script = script, tore_series = series, tore_carbon_id = carbon_id, tore_metadata = metadata,
       tore_token_schemas = token_schemas, tore_external = external, tore_price = price\<rparr> }"

definition json_TokenResult :: "TokenResult \<Rightarrow> json" where
  "json_TokenResult x = json_struct
     [(''symbol'', J_String (tore_symbol x)), (''name'', J_String (tore_name x)),
       (''decimals'', json_u32 (tore_decimals x)), (''currentSupply'', J_String (tore_current_supply x)),
       (''maxSupply'', J_String (tore_max_supply x)), (''burnedSupply'', J_String (tore_burned_supply x)),
       (''address'', J_String (tore_address x)), (''owner'', J_String (tore_owner x)),
       (''flags'', J_String (tore_flags x)), (''script'', json_option J_String (tore_script x)),
       (''series'', json_vec json_TokenSeriesResult (tore_series x)),
       (''carbonId'', J_String (tore_carbon_id x)),
       (''metadata'', json_option (json_vec json_TokenPropertyResult) (tore_metadata x)),
       (''tokenSchemas'', json_option json_TokenSchemasResult (tore_token_schemas x)),
       (''external'', json_option (json_vec json_TokenExternalResult) (tore_external x)),
       (''price'', json_option (json_vec json_TokenPriceResult) (tore_price x))]"

record NexusResult =
  nr_name :: "rstring option"
  nr_protocol :: u32
  nr_platforms :: "PlatformResult list option"
  nr_tokens :: "TokenResult list option"
  nr_chains :: "ChainResult list option"
  nr_governance :: "GovernanceResult list option"
  nr_organizations :: "rstring list option"

definition de_NexusResult :: "(u64 \<Rightarrow> rstring) \<Rightarrow> NexusResult json_decoder" where
  "de_NexusResult ft v = do {
     m \<leftarrow> members 7 v;
     name \<leftarrow> field m 0 ''name'' None (de_option de_string);
     protocol \<leftarrow> field m 1 ''protocol'' 0 de_u32;
     platforms \<leftarrow> field m 2 ''platforms'' None (de_option (de_vec de_PlatformResult));
     tokens \<leftarrow> field m 3 ''tokens'' None (de_option (de_vec (de_TokenResult ft)));
     chains \<leftarrow> field m 4 ''chains'' None (de_option (de_vec de_ChainResult));
     governance \<leftarrow> field m 5 ''governance'' None (de_option (de_vec de_GovernanceResult));
     organizations \<leftarrow> field m 6 ''organizations'' None (de_option (de_vec de_string));
     Some \<lparr>nr_name = name, nr_protocol = protocol, nr_platforms = platforms, nr_tokens = tokens,
       nr_chains = chains, nr_governance = governance, nr_organizations = organizations\<rparr> }"

definition json_NexusResult :: "NexusResult \<Rightarrow> json" where
  "json_NexusResult x = json_struct
     [(''name'', json_option J_String (nr_name x)), (''protocol'', json_u32 (nr_protocol x)),
       (''platforms'', json_option (json_vec json_PlatformResult) (nr_platforms x)),
       (''tokens'', json_option (json_vec json_TokenResult) (nr_tokens x)),
       (''chains'', json_option (json_vec json_ChainResult) (nr_chains x)),
       (''governance'', json_option (json_vec json_GovernanceResult) (nr_governance x)),
       (''organizations'', json_option (json_vec J_String) (nr_organizations x))]"

record LeaderboardRowResult =
  lrr_address :: rstring
  lrr_value :: rstring

definition de_LeaderboardRowResult :: "LeaderboardRowResult json_decoder" where
  "de_LeaderboardRowResult v = do {
     m \<leftarrow> members 2 v;
     address \<leftarrow> field m 0 ''address'' (lit '''') de_string;
     value \<leftarrow> field m 1 ''value'' (lit '''') de_string;
     Some \<lparr>lrr_address = address, lrr_value = value\<rparr> }"

definition json_LeaderboardRowResult :: "LeaderboardRowResult \<Rightarrow> json" where
  "json_LeaderboardRowResult x = json_struct
     [(''address'', J_String (lrr_address x)), (''value'', J_String (lrr_value x))]"

lemma LeaderboardRowResult_reads [json_reads]: "de_LeaderboardRowResult (json_LeaderboardRowResult x) = Some x" "json_LeaderboardRowResult x \<noteq> J_Null"
  by (simp_all add: de_LeaderboardRowResult_def json_LeaderboardRowResult_def struct_reads json_reads)

record LeaderboardResult =
  lr_name :: "rstring option"
  lr_rows :: "LeaderboardRowResult list option"

definition de_LeaderboardResult :: "LeaderboardResult json_decoder" where
  "de_LeaderboardResult v = do {
     m \<leftarrow> members 2 v;
     name \<leftarrow> field m 0 ''name'' None (de_option de_string);
     rows \<leftarrow> field m 1 ''rows'' None (de_option (de_vec de_LeaderboardRowResult));
     Some \<lparr>lr_name = name, lr_rows = rows\<rparr> }"

definition json_LeaderboardResult :: "LeaderboardResult \<Rightarrow> json" where
  "json_LeaderboardResult x = json_struct
     [(''name'', json_option J_String (lr_name x)),
       (''rows'', json_option (json_vec json_LeaderboardRowResult) (lr_rows x))]"

lemma LeaderboardResult_reads [json_reads]: "de_LeaderboardResult (json_LeaderboardResult x) = Some x" "json_LeaderboardResult x \<noteq> J_Null"
  by (simp_all add: de_LeaderboardResult_def json_LeaderboardResult_def struct_reads json_reads)

record TokenDataResult =
  tdr_id :: rstring
  tdr_series :: rstring
  tdr_carbon_token_id :: rstring
  tdr_carbon_series_id :: rstring
  tdr_carbon_nft_address :: rstring
  tdr_mint :: rstring
  tdr_chain_name :: rstring
  tdr_owner_address :: rstring
  tdr_creator_address :: rstring
  tdr_ram :: rstring
  tdr_rom :: rstring
  tdr_status :: rstring
  tdr_infusion :: "TokenPropertyResult list"
  tdr_properties :: "TokenPropertyResult list"

definition de_TokenDataResult :: "(u64 \<Rightarrow> rstring) \<Rightarrow> TokenDataResult json_decoder" where
  "de_TokenDataResult ft v = do {
     m \<leftarrow> members 14 v;
     id \<leftarrow> field m 0 ''id'' (lit '''') de_string;
     series \<leftarrow> field m 1 ''series'' (lit '''') de_string;
     carbon_token_id \<leftarrow> field m 2 ''carbonTokenId'' (lit '''') de_string;
     carbon_series_id \<leftarrow> field m 3 ''carbonSeriesId'' (lit '''') de_string;
     carbon_nft_address \<leftarrow> field m 4 ''carbonNftAddress'' (lit '''') de_string;
     mint \<leftarrow> field m 5 ''mint'' (lit '''') de_string;
     chain_name \<leftarrow> field m 6 ''chainName'' (lit '''') de_string;
     owner_address \<leftarrow> field m 7 ''ownerAddress'' (lit '''') de_string;
     creator_address \<leftarrow> field m 8 ''creatorAddress'' (lit '''') de_string;
     ram \<leftarrow> field m 9 ''ram'' (lit '''') de_string;
     rom \<leftarrow> field m 10 ''rom'' (lit '''') de_string;
     status \<leftarrow> field m 11 ''status'' (lit '''') de_string;
     infusion \<leftarrow> field m 12 ''infusion'' [] (de_vec (de_TokenPropertyResult ft));
     properties \<leftarrow> field m 13 ''properties'' [] (de_vec (de_TokenPropertyResult ft));
     Some \<lparr>tdr_id = id, tdr_series = series, tdr_carbon_token_id = carbon_token_id,
       tdr_carbon_series_id = carbon_series_id, tdr_carbon_nft_address = carbon_nft_address,
       tdr_mint = mint, tdr_chain_name = chain_name, tdr_owner_address = owner_address,
       tdr_creator_address = creator_address, tdr_ram = ram, tdr_rom = rom, tdr_status = status,
       tdr_infusion = infusion, tdr_properties = properties\<rparr> }"

definition json_TokenDataResult :: "TokenDataResult \<Rightarrow> json" where
  "json_TokenDataResult x = json_struct
     [(''id'', J_String (tdr_id x)), (''series'', J_String (tdr_series x)),
       (''carbonTokenId'', J_String (tdr_carbon_token_id x)),
       (''carbonSeriesId'', J_String (tdr_carbon_series_id x)),
       (''carbonNftAddress'', J_String (tdr_carbon_nft_address x)), (''mint'', J_String (tdr_mint x)),
       (''chainName'', J_String (tdr_chain_name x)), (''ownerAddress'', J_String (tdr_owner_address x)),
       (''creatorAddress'', J_String (tdr_creator_address x)), (''ram'', J_String (tdr_ram x)),
       (''rom'', J_String (tdr_rom x)), (''status'', J_String (tdr_status x)),
       (''infusion'', json_vec json_TokenPropertyResult (tdr_infusion x)),
       (''properties'', json_vec json_TokenPropertyResult (tdr_properties x))]"

lemma TokenDataResult_reads [json_reads]: "de_TokenDataResult ft (json_TokenDataResult x) = Some x" "json_TokenDataResult x \<noteq> J_Null"
  by (simp_all add: de_TokenDataResult_def json_TokenDataResult_def struct_reads json_reads)

record NftResult =
  nfre_id :: rstring
  nfre_series :: rstring
  nfre_carbon_token_id :: rstring
  nfre_carbon_series_id :: rstring
  nfre_carbon_nft_address :: rstring
  nfre_mint :: rstring
  nfre_chain_name :: rstring
  nfre_owner_address :: rstring
  nfre_creator_address :: rstring
  nfre_ram :: rstring
  nfre_rom :: rstring
  nfre_status :: rstring
  nfre_infusion :: "TokenPropertyResult list"
  nfre_properties :: "TokenPropertyResult list"

definition de_NftResult :: "(u64 \<Rightarrow> rstring) \<Rightarrow> NftResult json_decoder" where
  "de_NftResult ft v = do {
     m \<leftarrow> members 14 v;
     id \<leftarrow> field m 0 ''id'' (lit '''') de_string;
     series \<leftarrow> field m 1 ''series'' (lit '''') de_string;
     carbon_token_id \<leftarrow> field m 2 ''carbonTokenId'' (lit '''') de_string;
     carbon_series_id \<leftarrow> field m 3 ''carbonSeriesId'' (lit '''') de_string;
     carbon_nft_address \<leftarrow> field m 4 ''carbonNftAddress'' (lit '''') de_string;
     mint \<leftarrow> field m 5 ''mint'' (lit '''') de_string;
     chain_name \<leftarrow> field m 6 ''chainName'' (lit '''') de_string;
     owner_address \<leftarrow> field m 7 ''ownerAddress'' (lit '''') de_string;
     creator_address \<leftarrow> field m 8 ''creatorAddress'' (lit '''') de_string;
     ram \<leftarrow> field m 9 ''ram'' (lit '''') de_string;
     rom \<leftarrow> field m 10 ''rom'' (lit '''') de_string;
     status \<leftarrow> field m 11 ''status'' (lit '''') de_string;
     infusion \<leftarrow> field m 12 ''infusion'' [] (de_vec (de_TokenPropertyResult ft));
     properties \<leftarrow> field m 13 ''properties'' [] (de_vec (de_TokenPropertyResult ft));
     Some \<lparr>nfre_id = id, nfre_series = series, nfre_carbon_token_id = carbon_token_id,
       nfre_carbon_series_id = carbon_series_id, nfre_carbon_nft_address = carbon_nft_address,
       nfre_mint = mint, nfre_chain_name = chain_name, nfre_owner_address = owner_address,
       nfre_creator_address = creator_address, nfre_ram = ram, nfre_rom = rom, nfre_status = status,
       nfre_infusion = infusion, nfre_properties = properties\<rparr> }"

definition json_NftResult :: "NftResult \<Rightarrow> json" where
  "json_NftResult x = json_struct
     [(''id'', J_String (nfre_id x)), (''series'', J_String (nfre_series x)),
       (''carbonTokenId'', J_String (nfre_carbon_token_id x)),
       (''carbonSeriesId'', J_String (nfre_carbon_series_id x)),
       (''carbonNftAddress'', J_String (nfre_carbon_nft_address x)), (''mint'', J_String (nfre_mint x)),
       (''chainName'', J_String (nfre_chain_name x)), (''ownerAddress'', J_String (nfre_owner_address x)),
       (''creatorAddress'', J_String (nfre_creator_address x)), (''ram'', J_String (nfre_ram x)),
       (''rom'', J_String (nfre_rom x)), (''status'', J_String (nfre_status x)),
       (''infusion'', json_vec json_TokenPropertyResult (nfre_infusion x)),
       (''properties'', json_vec json_TokenPropertyResult (nfre_properties x))]"

lemma NftResult_reads [json_reads]: "de_NftResult ft (json_NftResult x) = Some x" "json_NftResult x \<noteq> J_Null"
  by (simp_all add: de_NftResult_def json_NftResult_def struct_reads json_reads)

record AuctionResult =
  aure_creator_address :: rstring
  aure_chain_address :: rstring
  aure_start_date :: u64
  aure_end_date :: u64
  aure_base_symbol :: rstring
  aure_quote_symbol :: rstring
  aure_token_id :: rstring
  aure_price :: rstring
  aure_end_price :: rstring
  aure_extension_period :: rstring
  aure_type_name :: rstring
  aure_rom :: rstring
  aure_ram :: rstring
  aure_listing_fee :: rstring
  aure_current_winner :: rstring

definition de_AuctionResult :: "AuctionResult json_decoder" where
  "de_AuctionResult v = do {
     m \<leftarrow> members 15 v;
     creator_address \<leftarrow> field m 0 ''creatorAddress'' (lit '''') de_string;
     chain_address \<leftarrow> field m 1 ''chainAddress'' (lit '''') de_string;
     start_date \<leftarrow> field m 2 ''startDate'' 0 de_u64;
     end_date \<leftarrow> field m 3 ''endDate'' 0 de_u64;
     base_symbol \<leftarrow> field m 4 ''baseSymbol'' (lit '''') de_string;
     quote_symbol \<leftarrow> field m 5 ''quoteSymbol'' (lit '''') de_string;
     token_id \<leftarrow> field m 6 ''tokenId'' (lit '''') de_string;
     price \<leftarrow> field m 7 ''price'' (lit '''') de_string;
     end_price \<leftarrow> field m 8 ''endPrice'' (lit '''') de_string;
     extension_period \<leftarrow> field m 9 ''extensionPeriod'' (lit '''') de_string;
     type_name \<leftarrow> field m 10 ''type'' (lit '''') de_string;
     rom \<leftarrow> field m 11 ''rom'' (lit '''') de_string;
     ram \<leftarrow> field m 12 ''ram'' (lit '''') de_string;
     listing_fee \<leftarrow> field m 13 ''listingFee'' (lit '''') de_string;
     current_winner \<leftarrow> field m 14 ''currentWinner'' (lit '''') de_string;
     Some \<lparr>aure_creator_address = creator_address, aure_chain_address = chain_address,
       aure_start_date = start_date, aure_end_date = end_date, aure_base_symbol = base_symbol,
       aure_quote_symbol = quote_symbol, aure_token_id = token_id, aure_price = price,
       aure_end_price = end_price, aure_extension_period = extension_period, aure_type_name = type_name,
       aure_rom = rom, aure_ram = ram, aure_listing_fee = listing_fee, aure_current_winner = current_winner\<rparr> }"

definition json_AuctionResult :: "AuctionResult \<Rightarrow> json" where
  "json_AuctionResult x = json_struct
     [(''creatorAddress'', J_String (aure_creator_address x)),
       (''chainAddress'', J_String (aure_chain_address x)), (''startDate'', json_u64 (aure_start_date x)),
       (''endDate'', json_u64 (aure_end_date x)), (''baseSymbol'', J_String (aure_base_symbol x)),
       (''quoteSymbol'', J_String (aure_quote_symbol x)), (''tokenId'', J_String (aure_token_id x)),
       (''price'', J_String (aure_price x)), (''endPrice'', J_String (aure_end_price x)),
       (''extensionPeriod'', J_String (aure_extension_period x)), (''type'', J_String (aure_type_name x)),
       (''rom'', J_String (aure_rom x)), (''ram'', J_String (aure_ram x)),
       (''listingFee'', J_String (aure_listing_fee x)),
       (''currentWinner'', J_String (aure_current_winner x))]"

lemma AuctionResult_reads [json_reads]: "de_AuctionResult (json_AuctionResult x) = Some x" "json_AuctionResult x \<noteq> J_Null"
  by (simp_all add: de_AuctionResult_def json_AuctionResult_def struct_reads json_reads)

record ChannelResult =
  chares_creator_address :: rstring
  chares_target_address :: rstring
  chares_name :: rstring
  chares_chain :: rstring
  chares_creation_time :: u64
  chares_symbol :: rstring
  chares_fee :: rstring
  chares_balance :: rstring
  chares_active :: bool
  chares_index :: u64

definition de_ChannelResult :: "ChannelResult json_decoder" where
  "de_ChannelResult v = do {
     m \<leftarrow> members 10 v;
     creator_address \<leftarrow> field m 0 ''creatorAddress'' (lit '''') de_string;
     target_address \<leftarrow> field m 1 ''targetAddress'' (lit '''') de_string;
     name \<leftarrow> field m 2 ''name'' (lit '''') de_string;
     chain \<leftarrow> field m 3 ''chain'' (lit '''') de_string;
     creation_time \<leftarrow> field m 4 ''creationTime'' 0 de_u64;
     symbol \<leftarrow> field m 5 ''symbol'' (lit '''') de_string;
     fee \<leftarrow> field m 6 ''fee'' (lit '''') de_string;
     balance \<leftarrow> field m 7 ''balance'' (lit '''') de_string;
     active \<leftarrow> field m 8 ''active'' False de_bool;
     index \<leftarrow> field m 9 ''index'' 0 de_u64;
     Some \<lparr>chares_creator_address = creator_address, chares_target_address = target_address,
       chares_name = name, chares_chain = chain, chares_creation_time = creation_time,
       chares_symbol = symbol, chares_fee = fee, chares_balance = balance, chares_active = active,
       chares_index = index\<rparr> }"

definition json_ChannelResult :: "ChannelResult \<Rightarrow> json" where
  "json_ChannelResult x = json_struct
     [(''creatorAddress'', J_String (chares_creator_address x)),
       (''targetAddress'', J_String (chares_target_address x)), (''name'', J_String (chares_name x)),
       (''chain'', J_String (chares_chain x)), (''creationTime'', json_u64 (chares_creation_time x)),
       (''symbol'', J_String (chares_symbol x)), (''fee'', J_String (chares_fee x)),
       (''balance'', J_String (chares_balance x)), (''active'', J_Bool (chares_active x)),
       (''index'', json_u64 (chares_index x))]"

lemma ChannelResult_reads [json_reads]: "de_ChannelResult (json_ChannelResult x) = Some x" "json_ChannelResult x \<noteq> J_Null"
  by (simp_all add: de_ChannelResult_def json_ChannelResult_def struct_reads json_reads)

record ReceiptResult =
  rr_nexus :: rstring
  rr_channel :: rstring
  rr_index :: rstring
  rr_timestamp :: u64
  rr_sender :: rstring
  rr_receiver :: rstring
  rr_script :: rstring

definition de_ReceiptResult :: "ReceiptResult json_decoder" where
  "de_ReceiptResult v = do {
     m \<leftarrow> members 7 v;
     nexus \<leftarrow> field m 0 ''nexus'' (lit '''') de_string;
     channel \<leftarrow> field m 1 ''channel'' (lit '''') de_string;
     index \<leftarrow> field m 2 ''index'' (lit '''') de_string;
     timestamp \<leftarrow> field m 3 ''timestamp'' 0 de_u64;
     sender \<leftarrow> field m 4 ''sender'' (lit '''') de_string;
     receiver \<leftarrow> field m 5 ''receiver'' (lit '''') de_string;
     script \<leftarrow> field m 6 ''script'' (lit '''') de_string;
     Some \<lparr>rr_nexus = nexus, rr_channel = channel, rr_index = index, rr_timestamp = timestamp,
       rr_sender = sender, rr_receiver = receiver, rr_script = script\<rparr> }"

definition json_ReceiptResult :: "ReceiptResult \<Rightarrow> json" where
  "json_ReceiptResult x = json_struct
     [(''nexus'', J_String (rr_nexus x)), (''channel'', J_String (rr_channel x)),
       (''index'', J_String (rr_index x)), (''timestamp'', json_u64 (rr_timestamp x)),
       (''sender'', J_String (rr_sender x)), (''receiver'', J_String (rr_receiver x)),
       (''script'', J_String (rr_script x))]"

lemma ReceiptResult_reads [json_reads]: "de_ReceiptResult (json_ReceiptResult x) = Some x" "json_ReceiptResult x \<noteq> J_Null"
  by (simp_all add: de_ReceiptResult_def json_ReceiptResult_def struct_reads json_reads)

record PeerResult =
  pere_url :: rstring
  pere_version :: rstring
  pere_flags :: rstring
  pere_fee :: rstring
  pere_pow :: u64

definition de_PeerResult :: "PeerResult json_decoder" where
  "de_PeerResult v = do {
     m \<leftarrow> members 5 v;
     url \<leftarrow> field m 0 ''url'' (lit '''') de_string;
     version \<leftarrow> field m 1 ''version'' (lit '''') de_string;
     flags \<leftarrow> field m 2 ''flags'' (lit '''') de_string;
     fee \<leftarrow> field m 3 ''fee'' (lit '''') de_string;
     pow \<leftarrow> field m 4 ''pow'' 0 de_u64;
     Some \<lparr>pere_url = url, pere_version = version, pere_flags = flags, pere_fee = fee,
       pere_pow = pow\<rparr> }"

definition json_PeerResult :: "PeerResult \<Rightarrow> json" where
  "json_PeerResult x = json_struct
     [(''url'', J_String (pere_url x)), (''version'', J_String (pere_version x)),
       (''flags'', J_String (pere_flags x)), (''fee'', J_String (pere_fee x)),
       (''pow'', json_u64 (pere_pow x))]"

lemma PeerResult_reads [json_reads]: "de_PeerResult (json_PeerResult x) = Some x" "json_PeerResult x \<noteq> J_Null"
  by (simp_all add: de_PeerResult_def json_PeerResult_def struct_reads json_reads)

record ValidatorResult =
  vr_address :: rstring
  vr_type_name :: rstring

definition de_ValidatorResult :: "ValidatorResult json_decoder" where
  "de_ValidatorResult v = do {
     m \<leftarrow> members 2 v;
     address \<leftarrow> field m 0 ''address'' (lit '''') de_string;
     type_name \<leftarrow> field m 1 ''type'' (lit '''') de_string;
     Some \<lparr>vr_address = address, vr_type_name = type_name\<rparr> }"

definition json_ValidatorResult :: "ValidatorResult \<Rightarrow> json" where
  "json_ValidatorResult x = json_struct
     [(''address'', J_String (vr_address x)), (''type'', J_String (vr_type_name x))]"

lemma ValidatorResult_reads [json_reads]: "de_ValidatorResult (json_ValidatorResult x) = Some x" "json_ValidatorResult x \<noteq> J_Null"
  by (simp_all add: de_ValidatorResult_def json_ValidatorResult_def struct_reads json_reads)

record SwapResult =
  swre_source_platform :: rstring
  swre_source_chain :: rstring
  swre_source_hash :: rstring
  swre_source_address :: rstring
  swre_destination_platform :: rstring
  swre_destination_chain :: rstring
  swre_destination_hash :: rstring
  swre_destination_address :: rstring
  swre_symbol :: rstring
  swre_value :: rstring

definition de_SwapResult :: "SwapResult json_decoder" where
  "de_SwapResult v = do {
     m \<leftarrow> members 10 v;
     source_platform \<leftarrow> field m 0 ''sourcePlatform'' (lit '''') de_string;
     source_chain \<leftarrow> field m 1 ''sourceChain'' (lit '''') de_string;
     source_hash \<leftarrow> field m 2 ''sourceHash'' (lit '''') de_string;
     source_address \<leftarrow> field m 3 ''sourceAddress'' (lit '''') de_string;
     destination_platform \<leftarrow> field m 4 ''destinationPlatform'' (lit '''') de_string;
     destination_chain \<leftarrow> field m 5 ''destinationChain'' (lit '''') de_string;
     destination_hash \<leftarrow> field m 6 ''destinationHash'' (lit '''') de_string;
     destination_address \<leftarrow> field m 7 ''destinationAddress'' (lit '''') de_string;
     symbol \<leftarrow> field m 8 ''symbol'' (lit '''') de_string;
     value \<leftarrow> field m 9 ''value'' (lit '''') de_string;
     Some \<lparr>swre_source_platform = source_platform, swre_source_chain = source_chain,
       swre_source_hash = source_hash, swre_source_address = source_address,
       swre_destination_platform = destination_platform, swre_destination_chain = destination_chain,
       swre_destination_hash = destination_hash, swre_destination_address = destination_address,
       swre_symbol = symbol, swre_value = value\<rparr> }"

definition json_SwapResult :: "SwapResult \<Rightarrow> json" where
  "json_SwapResult x = json_struct
     [(''sourcePlatform'', J_String (swre_source_platform x)),
       (''sourceChain'', J_String (swre_source_chain x)), (''sourceHash'', J_String (swre_source_hash x)),
       (''sourceAddress'', J_String (swre_source_address x)),
       (''destinationPlatform'', J_String (swre_destination_platform x)),
       (''destinationChain'', J_String (swre_destination_chain x)),
       (''destinationHash'', J_String (swre_destination_hash x)),
       (''destinationAddress'', J_String (swre_destination_address x)),
       (''symbol'', J_String (swre_symbol x)), (''value'', J_String (swre_value x))]"

lemma SwapResult_reads [json_reads]: "de_SwapResult (json_SwapResult x) = Some x" "json_SwapResult x \<noteq> J_Null"
  by (simp_all add: de_SwapResult_def json_SwapResult_def struct_reads json_reads)

record PhantasmaVmConfigResult =
  pvcr_is_stored :: bool
  pvcr_feature_level :: u32
  pvcr_gas_constructor :: rstring
  pvcr_gas_nexus :: rstring
  pvcr_gas_organization :: rstring
  pvcr_gas_account :: rstring
  pvcr_gas_leaderboard :: rstring
  pvcr_gas_standard :: rstring
  pvcr_gas_oracle :: rstring
  pvcr_fuel_per_contract_deploy :: rstring

definition de_PhantasmaVmConfigResult :: "PhantasmaVmConfigResult json_decoder" where
  "de_PhantasmaVmConfigResult v = do {
     m \<leftarrow> members 10 v;
     is_stored \<leftarrow> field m 0 ''isStored'' False de_bool;
     feature_level \<leftarrow> field m 1 ''featureLevel'' 0 de_u32;
     gas_constructor \<leftarrow> field m 2 ''gasConstructor'' (lit '''') de_string;
     gas_nexus \<leftarrow> field m 3 ''gasNexus'' (lit '''') de_string;
     gas_organization \<leftarrow> field m 4 ''gasOrganization'' (lit '''') de_string;
     gas_account \<leftarrow> field m 5 ''gasAccount'' (lit '''') de_string;
     gas_leaderboard \<leftarrow> field m 6 ''gasLeaderboard'' (lit '''') de_string;
     gas_standard \<leftarrow> field m 7 ''gasStandard'' (lit '''') de_string;
     gas_oracle \<leftarrow> field m 8 ''gasOracle'' (lit '''') de_string;
     fuel_per_contract_deploy \<leftarrow> field m 9 ''fuelPerContractDeploy'' (lit '''') de_string;
     Some \<lparr>pvcr_is_stored = is_stored, pvcr_feature_level = feature_level,
       pvcr_gas_constructor = gas_constructor, pvcr_gas_nexus = gas_nexus,
       pvcr_gas_organization = gas_organization, pvcr_gas_account = gas_account,
       pvcr_gas_leaderboard = gas_leaderboard, pvcr_gas_standard = gas_standard,
       pvcr_gas_oracle = gas_oracle, pvcr_fuel_per_contract_deploy = fuel_per_contract_deploy\<rparr> }"

definition json_PhantasmaVmConfigResult :: "PhantasmaVmConfigResult \<Rightarrow> json" where
  "json_PhantasmaVmConfigResult x = json_struct
     [(''isStored'', J_Bool (pvcr_is_stored x)), (''featureLevel'', json_u32 (pvcr_feature_level x)),
       (''gasConstructor'', J_String (pvcr_gas_constructor x)),
       (''gasNexus'', J_String (pvcr_gas_nexus x)),
       (''gasOrganization'', J_String (pvcr_gas_organization x)),
       (''gasAccount'', J_String (pvcr_gas_account x)),
       (''gasLeaderboard'', J_String (pvcr_gas_leaderboard x)),
       (''gasStandard'', J_String (pvcr_gas_standard x)), (''gasOracle'', J_String (pvcr_gas_oracle x)),
       (''fuelPerContractDeploy'', J_String (pvcr_fuel_per_contract_deploy x))]"

lemma PhantasmaVmConfigResult_reads [json_reads]: "de_PhantasmaVmConfigResult (json_PhantasmaVmConfigResult x) = Some x" "json_PhantasmaVmConfigResult x \<noteq> J_Null"
  by (simp_all add: de_PhantasmaVmConfigResult_def json_PhantasmaVmConfigResult_def struct_reads json_reads)

record ScriptResult =
  scre_events :: "EventResult list"
  scre_result :: rstring
  scre_results :: "rstring list"
  scre_oracles :: "OracleResult list"
  scre_error :: "rstring option"
  scre_state :: "rstring option"
  scre_gas :: "rstring option"

definition de_ScriptResult :: "ScriptResult json_decoder" where
  "de_ScriptResult v = do {
     m \<leftarrow> members 7 v;
     events \<leftarrow> field m 0 ''events'' [] (de_vec de_EventResult);
     result \<leftarrow> field m 1 ''result'' (lit '''') de_string;
     results \<leftarrow> field m 2 ''results'' [] (de_vec de_string);
     oracles \<leftarrow> field m 3 ''oracles'' [] (de_vec de_OracleResult);
     error \<leftarrow> field m 4 ''error'' None (de_option de_string);
     state \<leftarrow> field m 5 ''state'' None (de_option de_string);
     gas \<leftarrow> field m 6 ''gas'' None (de_option de_string);
     Some \<lparr>scre_events = events, scre_result = result, scre_results = results,
       scre_oracles = oracles, scre_error = error, scre_state = state, scre_gas = gas\<rparr> }"

definition json_ScriptResult :: "ScriptResult \<Rightarrow> json" where
  "json_ScriptResult x = json_struct
     [(''events'', json_vec json_EventResult (scre_events x)), (''result'', J_String (scre_result x)),
       (''results'', json_vec J_String (scre_results x)),
       (''oracles'', json_vec json_OracleResult (scre_oracles x)),
       (''error'', json_option J_String (scre_error x)), (''state'', json_option J_String (scre_state x)),
       (''gas'', json_option J_String (scre_gas x))]"

lemma ScriptResult_reads [json_reads]: "de_ScriptResult (json_ScriptResult x) = Some x" "json_ScriptResult x \<noteq> J_Null"
  by (simp_all add: de_ScriptResult_def json_ScriptResult_def struct_reads json_reads)

end
