(* ===== verification/RpcAnswers.thy ===== *)
theory RpcAnswers
  imports RpcTypes
begin

text \<open>
  Answers that nest: token schemas, whose decoder runs on the size of the value, and transactions and blocks,
  whose extended events are typed by their kind. What the SDK writes for a token, the nexus or a block is what it
  reads back.
\<close>

section \<open>Schemas\<close>

lemma size_member:
  assumes "field_names kvs" "ascii n" "entry (rev kvs) n = Some v"
  shows "size v < size (json_struct kvs)"
proof -
  from assms have "map_of (struct_map kvs) (lit n) = Some v" by (simp add: struct_member)
  then have "(lit n, v) \<in> set (struct_map kvs)" by (rule map_of_SomeD)
  then show ?thesis unfolding json_struct_def by (simp add: size_members)
qed

lemma answer_size_item:
  assumes "field_names kvs" "ascii n" "entry (rev kvs) n = Some (J_Array vs)" "v \<in> set vs"
  shows "size v < size (json_struct kvs)"
proof -
  have "size v \<le> size_list size vs" using assms(4) by (rule size_list_estimation') simp
  then have "size v < size (J_Array vs)" by simp
  also have "\<dots> < size (json_struct kvs)" using assms(1-3) by (rule size_member)
  finally show ?thesis .
qed

lemma de_each_map': "(\<forall>x\<in>set xs. de (enc x) = Some x) \<Longrightarrow> de_vec de (J_Array (map enc xs)) = Some xs"
  by (simp add: de_vec_def de_each_map)

lemma schema_not_null [json_reads]:
  "json_VmStructSchemaResult s \<noteq> J_Null" "json_VmVariableSchemaResult w \<noteq> J_Null" "json_VmNamedVariableSchemaResult nv \<noteq> J_Null"
  by (cases s; cases w; cases nv; simp add: json_struct_def)+

lemma schema_reads_at:
  "size (json_VmStructSchemaResult s) \<le> d \<Longrightarrow> de_struct_schema_at d (json_VmStructSchemaResult s) = Some s"
  "size (json_VmNamedVariableSchemaResult nv) \<le> d \<Longrightarrow>
     de_named_schema_with (de_struct_schema_at d) (json_VmNamedVariableSchemaResult nv) = Some nv"
  "size (json_VmVariableSchemaResult w) \<le> d \<Longrightarrow>
     de_variable_schema_with (de_struct_schema_at d) (json_VmVariableSchemaResult w) = Some w"
proof (induction s and nv and w arbitrary: d and d and d
    rule: json_VmStructSchemaResult_json_VmNamedVariableSchemaResult_json_VmVariableSchemaResult.induct)
  case (1 flds flags)
  let ?kvs = "[(''fields'', J_Array (map json_VmNamedVariableSchemaResult flds)), (''flags'', json_u32 flags)]"
  obtain e where d: "d = Suc e" using 1(2) by (cases d) (auto simp: json_struct_def)
  have "size (json_VmNamedVariableSchemaResult f) \<le> e" if "f \<in> set flds" for f
    using answer_size_item [of ?kvs "''fields''" _ "json_VmNamedVariableSchemaResult f"] that 1(2) d by fastforce
  then have "\<forall>f\<in>set flds. de_named_schema_with (de_struct_schema_at e) (json_VmNamedVariableSchemaResult f) = Some f"
    using 1(1) by blast
  then have "de_vec (de_named_schema_with (de_struct_schema_at e))
      (J_Array (map json_VmNamedVariableSchemaResult flds)) = Some flds"
    by (rule de_each_map')
  then show ?case by (simp add: d struct_reads json_reads)
next
  case (2 name schema)
  let ?kvs = "[(''name'', J_String name), (''schema'', json_VmVariableSchemaResult schema)]"
  have "size (json_VmVariableSchemaResult schema) \<le> d"
    using size_member [of ?kvs "''schema''" "json_VmVariableSchemaResult schema"] 2(2) by simp
  then have "de_variable_schema_with (de_struct_schema_at d) (json_VmVariableSchemaResult schema) = Some schema"
    by (rule 2(1))
  then show ?case by (simp add: de_named_schema_with_def struct_reads json_reads)
next
  case (3 type_name schema)
  let ?v = "case schema of None \<Rightarrow> J_Null | Some s \<Rightarrow> json_VmStructSchemaResult s"
  let ?kvs = "[(''type'', J_String type_name), (''schema'', ?v)]"
  have "size ?v \<le> d" using size_member [of ?kvs "''schema''" ?v] 3(2) by simp
  then have "de_option (de_struct_schema_at d) ?v = Some schema"
    using 3(1) by (auto simp: de_option_def schema_not_null split: option.split)
  then show ?case by (simp add: de_variable_schema_with_def struct_reads json_reads)
qed

lemma VmStructSchemaResult_reads [json_reads]:
  "de_VmStructSchemaResult (json_VmStructSchemaResult s) = Some s"
  by (simp add: de_VmStructSchemaResult_def schema_reads_at)

section \<open>Tokens and the nexus\<close>

lemma TokenSchemasResult_reads [json_reads]:
  "de_TokenSchemasResult (json_TokenSchemasResult x) = Some x" "json_TokenSchemasResult x \<noteq> J_Null"
  by (simp_all add: de_TokenSchemasResult_def json_TokenSchemasResult_def struct_reads json_reads)

lemma TokenResult_reads [json_reads]:
  "de_TokenResult ft (json_TokenResult x) = Some x" "json_TokenResult x \<noteq> J_Null"
  by (simp_all add: de_TokenResult_def json_TokenResult_def struct_reads json_reads)

text \<open>The answer that describes the nexus, with its tokens, their series, metadata of any shape and schemas of
  any depth, survives serialization.
\<close>

theorem nexus_round_trip: "de_NexusResult ft (json_NexusResult x) = Some x"
  by (simp add: de_NexusResult_def json_NexusResult_def struct_reads json_reads)

section \<open>Transactions and blocks\<close>

text \<open>The data of every extended event has the shape of the kind of the event.\<close>

definition transaction_fits :: "(u64 \<Rightarrow> rstring) \<Rightarrow> TransactionResult \<Rightarrow> bool" where
  "transaction_fits ft t = list_all (\<lambda>e. event_fits ft (eex_kind e) (eex_data e)) (trre_extended_events t)"

definition block_fits :: "(u64 \<Rightarrow> rstring) \<Rightarrow> BlockResult \<Rightarrow> bool" where
  "block_fits ft b = list_all (transaction_fits ft) (blre_txs b)"

lemma vec_reads_all: "list_all (\<lambda>x. de (enc x) = Some x) xs \<Longrightarrow> de_vec de (json_vec enc xs) = Some xs"
  by (simp add: json_vec_def de_each_map' list_all_iff)

lemma TransactionResult_reads:
  assumes "transaction_fits ft x"
  shows "de_TransactionResult ft (json_TransactionResult x) = Some x"
proof -
  have "de_vec (de_EventExResult ft) (json_vec json_EventExResult (trre_extended_events x)) =
      Some (trre_extended_events x)"
    using assms by (intro vec_reads_all) (auto simp: transaction_fits_def list_all_iff intro: event_reads)
  then show ?thesis by (simp add: de_TransactionResult_def json_TransactionResult_def struct_reads json_reads)
qed

text \<open>C27: A block reads back from what it is written as, with its transactions and their extended events: nested
  resolution calls to any depth, when the arguments of every call have the shape of its module and method.
\<close>

theorem block_round_trip:
  assumes "block_fits ft b"
  shows "de_BlockResult ft (json_BlockResult b) = Some b"
proof -
  have "de_vec (de_TransactionResult ft) (json_vec json_TransactionResult (blre_txs b)) = Some (blre_txs b)"
    using assms by (intro vec_reads_all) (auto simp: block_fits_def list_all_iff intro: TransactionResult_reads)
  then show ?thesis by (simp add: de_BlockResult_def json_BlockResult_def struct_reads json_reads)
qed

definition sample_transaction :: TransactionResult where
  "sample_transaction =
     \<lparr>trre_hash = lit ''AB'', trre_chain_address = lit ''S3d'', trre_timestamp = 17, trre_block_height = 3,
      trre_block_hash = lit ''CD'', trre_script = lit '''', trre_carbon_tx_type = 1, trre_carbon_tx_data = lit '''',
      trre_payload = lit '''', trre_events = [], trre_extended_events = [sample_event], trre_state = lit ''Halt'',
      trre_result = lit '''', trre_debug_comment = None, trre_fee = lit ''21'', trre_signatures = [],
      trre_sender = lit ''P2K'', trre_gas_payer = lit ''P2K'', trre_gas_target = lit ''P2K'',
      trre_gas_price = lit ''1'', trre_gas_limit = lit ''21'', trre_expiration = 99\<rparr>"

definition sample_block :: BlockResult where
  "sample_block =
     \<lparr>blre_hash = lit ''CD'', blre_previous_hash = lit ''CC'', blre_timestamp = 17, blre_height = 3,
      blre_chain_address = lit ''S3d'', blre_protocol = 19, blre_txs = [sample_transaction],
      blre_validator_address = lit ''P2K'', blre_producer_address = None, blre_reward = lit ''0'',
      blre_events = None, blre_oracles = None\<rparr>"

theorem block_round_trip_witness:
  "de_BlockResult (\<lambda>_. lit ''0'') (json_BlockResult sample_block) = Some sample_block"
  by (rule block_round_trip)
    (simp add: sample_block_def block_fits_def sample_transaction_def transaction_fits_def sample_event_fits)

end
