(* ===== verification/RpcClient.thy ===== *)
theory RpcClient
  imports FeePlanning VmTransaction VmObject RpcAnswers
begin

text \<open>
  The JSON-RPC client (\<open>src/src/rpc.rs\<close>): its state, the request it posts, what it accepts as the answer to
  that request, and the scalar coercions. The transport, the clocks and the library calls that print are the
  record \<open>rpc_api\<close>; its network is a state \<open>'w\<close> that every request moves on. The client is used by one
  task at a time: its operations are state transformers, and an \<open>Err\<close> keeps the state it happened in. The field
  \<open>rc_posted\<close> is not in the code: it records the bodies handed to the transport, so that properties can
  speak of the requests of an operation.
\<close>

named_theorems client_simps \<open>the combinators of client operations\<close>

section \<open>Client state\<close>

text \<open>A \<open>Duration\<close> and an \<open>Instant\<close> are numbers of nanoseconds.\<close>

record 'w rpc_api =
  api_post_json :: "'w \<Rightarrow> rstring \<Rightarrow> json \<Rightarrow> nat \<Rightarrow> (u16 \<times> json) result \<times> 'w"
  api_instant :: "'w \<Rightarrow> nat"
  api_unix_seconds :: "'w \<Rightarrow> u64"
  api_json_text :: "json \<Rightarrow> rstring"
  api_float_text :: "u64 \<Rightarrow> rstring"
  api_serde_error :: "rstring \<Rightarrow> json \<Rightarrow> string"
  api_hex_encode :: "bytes \<Rightarrow> rstring"
  api_base64_encode :: "bytes \<Rightarrow> rstring"

record ChainFeeParams =
  cfp_expiry_window :: nat
  cfp_block_rate_target :: nat
  cfp_gas_model_version :: u32

record CachedGasConfig =
  cg_config :: GasConfig
  cg_params :: ChainFeeParams
  cg_fetched_at :: nat

record 'w PhantasmaRpc =
  rc_endpoint :: rstring
  rc_timeout :: nat
  rc_transport :: 'w
  rc_next_request_id :: u64
  rc_fee_cache :: "CachedGasConfig option"
  rc_fee_config_ttl :: nat
  rc_posted :: "json list"

definition seconds :: "nat \<Rightarrow> nat" where "seconds n = n * 10 ^ 9"
definition millis :: "u32 \<Rightarrow> nat" where "millis n = unat n * 10 ^ 6"

definition INITIAL_JSON_RPC_REQUEST_ID :: u64 where "INITIAL_JSON_RPC_REQUEST_ID = 1"
definition DEFAULT_FEE_CONFIG_TTL :: nat where "DEFAULT_FEE_CONFIG_TTL = seconds 60"

definition with_transport :: "rstring \<Rightarrow> 'w \<Rightarrow> 'w PhantasmaRpc" where
  "with_transport endpoint transport =
     \<lparr>rc_endpoint = endpoint, rc_timeout = seconds 30, rc_transport = transport,
      rc_next_request_id = INITIAL_JSON_RPC_REQUEST_ID, rc_fee_cache = None,
      rc_fee_config_ttl = DEFAULT_FEE_CONFIG_TTL, rc_posted = []\<rparr>"

definition with_timeout :: "'w PhantasmaRpc \<Rightarrow> nat \<Rightarrow> 'w PhantasmaRpc" where
  "with_timeout c timeout = c\<lparr>rc_timeout := timeout\<rparr>"

definition with_fee_config_ttl :: "'w PhantasmaRpc \<Rightarrow> nat \<Rightarrow> 'w PhantasmaRpc" where
  "with_fee_config_ttl c ttl = c\<lparr>rc_fee_config_ttl := ttl\<rparr>"

section \<open>Client operations\<close>

type_synonym ('w, 'a) client_op = "'w PhantasmaRpc \<Rightarrow> 'a result \<times> 'w PhantasmaRpc"

definition op_lift :: "'a result \<Rightarrow> ('w, 'a) client_op" where
  "op_lift r = (\<lambda>c. (r, c))"

abbreviation op_return :: "'a \<Rightarrow> ('w, 'a) client_op" where
  "op_return x \<equiv> op_lift (Ok x)"

text \<open>A \<open>match\<close> on the outcome of an operation, and the \<open>?\<close> operator.\<close>

definition op_case :: "('w, 'a) client_op \<Rightarrow> ('a result \<Rightarrow> ('w, 'b) client_op) \<Rightarrow> ('w, 'b) client_op" where
  "op_case m k = (\<lambda>c. case m c of (r, c') \<Rightarrow> k r c')"

definition op_bind :: "('w, 'a) client_op \<Rightarrow> ('a \<Rightarrow> ('w, 'b) client_op) \<Rightarrow> ('w, 'b) client_op" where
  "op_bind m f = op_case m (\<lambda>r. case r of Ok x \<Rightarrow> f x | Err e \<Rightarrow> op_lift (Err e) | Panic p \<Rightarrow> op_lift (Panic p))"

definition op_map_err :: "(phantasma_error \<Rightarrow> phantasma_error) \<Rightarrow> ('w, 'a) client_op \<Rightarrow> ('w, 'a) client_op" where
  "op_map_err g m = op_case m (\<lambda>r. op_lift (map_err g r))"

definition op_get :: "('w PhantasmaRpc \<Rightarrow> 'a) \<Rightarrow> ('w, 'a) client_op" where
  "op_get f = (\<lambda>c. (Ok (f c), c))"

definition op_modify :: "('w PhantasmaRpc \<Rightarrow> 'w PhantasmaRpc) \<Rightarrow> ('w, unit) client_op" where
  "op_modify f = (\<lambda>c. (Ok (), f c))"

text \<open>A loop that collects what it computes for each element.\<close>

primrec op_for :: "('a \<Rightarrow> ('w, 'b) client_op) \<Rightarrow> 'a list \<Rightarrow> ('w, 'b list) client_op" where
  "op_for f [] = op_return []"
| "op_for f (x # xs) = op_bind (f x) (\<lambda>y. op_bind (op_for f xs) (\<lambda>ys. op_return (y # ys)))"

section \<open>Numbers in texts and JSON\<close>

text \<open>\<open>str::parse\<close> for an unsigned integer: an optional plus sign and at least one digit.\<close>

definition PLUS :: u8 where "PLUS = 43"

definition unsigned_digits :: "bytes \<Rightarrow> bytes" where
  "unsigned_digits bs = (case bs of [] \<Rightarrow> [] | b # rest \<Rightarrow> if b = PLUS then rest else bs)"

definition parse_unsigned :: "bytes \<Rightarrow> 'a::len word option" where
  "parse_unsigned bs =
     (let ds = unsigned_digits bs
      in if ds \<noteq> [] \<and> list_all is_digit ds \<and> dec_value ds < 2 ^ LENGTH('a)
         then Some (word_of_nat (dec_value ds)) else None)"

definition parse_u64 :: "rstring \<Rightarrow> u64 option" where
  "parse_u64 s = parse_unsigned (string_bytes s)"

definition parse_u32 :: "rstring \<Rightarrow> u32 option" where
  "parse_u32 s = parse_unsigned (string_bytes s)"

definition value_i64 :: "json \<Rightarrow> int option" where
  "value_i64 v =
     (case v of
        J_Number (N_Pos n) \<Rightarrow> if n \<le> 0x7FFFFFFFFFFFFFFF then Some (uint n) else None
      | J_Number (N_Neg n) \<Rightarrow> Some (sint n)
      | _ \<Rightarrow> None)"

definition member :: "(rstring \<times> json) list \<Rightarrow> string \<Rightarrow> json option" where
  "member m name = map_of m (lit name)"

section \<open>Answers\<close>

definition json_rpc_id_matches :: "json \<Rightarrow> u64 \<Rightarrow> bool" where
  "json_rpc_id_matches ident expected =
     (case value_u64 ident of
        Some number \<Rightarrow> number = expected
      | None \<Rightarrow> (case value_str ident of
          Some text \<Rightarrow> string_bytes text = dec_text (unat expected)
        | None \<Rightarrow> False))"

definition http_status :: "u16 \<Rightarrow> string" where
  "http_status status = ''HTTP '' @ nat_chars (unat status)"

definition rejected_without_id :: "u16 \<Rightarrow> (rstring \<times> json) list \<Rightarrow> 'a result" where
  "rejected_without_id status m =
     (if 400 \<le> status
      then case or_else (Option.bind (member m ''error'') value_str) (Option.bind (member m ''message'') value_str) of
          Some message \<Rightarrow> Err (Rpc None (http_status status @ '': '' @ msg_of message))
        | None \<Rightarrow> Err (Rpc None (http_status status))
      else Err (Rpc None ''missing id''))"

definition error_answer :: "'w rpc_api \<Rightarrow> json \<Rightarrow> 'a result" where
  "error_answer ra error =
     (case error of
        J_Object em \<Rightarrow>
          Err (Rpc (Option.bind (member em ''code'') value_i64)
            (case Option.bind (member em ''message'') value_str of
               Some message \<Rightarrow> msg_of message | None \<Rightarrow> ''JSON-RPC error''))
      | J_String message \<Rightarrow> Err (Rpc None (msg_of message))
      | _ \<Rightarrow> Err (Rpc None (msg_of (api_json_text ra error))))"

definition parse_json_rpc_response_for_request :: "'w rpc_api \<Rightarrow> u16 \<Rightarrow> json \<Rightarrow> u64 \<Rightarrow> json result" where
  "parse_json_rpc_response_for_request ra status body expected_request_id =
     (case body of
        J_Object m \<Rightarrow>
          (case member m ''id'' of
             None \<Rightarrow> rejected_without_id status m
           | Some ident \<Rightarrow>
               if \<not> json_rpc_id_matches ident expected_request_id
               then Err (Rpc None (''response id mismatch: '' @ msg_of (api_json_text ra ident)))
               else case member m ''error'' of
                   Some error \<Rightarrow> error_answer ra error
                 | None \<Rightarrow>
                     if 400 \<le> status then Err (Rpc None (http_status status))
                     else case member m ''result'' of
                         Some v \<Rightarrow> Ok v
                       | None \<Rightarrow> Err (Rpc None ''missing result''))
      | _ \<Rightarrow> Err (Rpc None ''JSON-RPC response must be an object''))"

definition parse_json_rpc_response :: "'w rpc_api \<Rightarrow> u16 \<Rightarrow> json \<Rightarrow> json result" where
  "parse_json_rpc_response ra status body =
     parse_json_rpc_response_for_request ra status body INITIAL_JSON_RPC_REQUEST_ID"

definition extract_hash :: "'w rpc_api \<Rightarrow> json \<Rightarrow> rstring result" where
  "extract_hash ra v =
     (case v of
        J_String text \<Rightarrow> Ok text
      | J_Object m \<Rightarrow>
          (case member m ''error'' of
             Some error \<Rightarrow> Err (Rpc None (msg_of (api_json_text ra error)))
           | None \<Rightarrow>
               (case Option.bind (member m ''hash'') value_str of
                  Some hash \<Rightarrow> Ok hash
                | None \<Rightarrow> Err (Rpc None ''send transaction response does not contain a hash'')))
      | _ \<Rightarrow> Err (Rpc None ''send transaction response does not contain a hash''))"

definition coerce_u64 :: "json \<Rightarrow> u64 result" where
  "coerce_u64 v =
     (case value_u64 v of
        Some n \<Rightarrow> Ok n
      | None \<Rightarrow>
          (case value_i64 v of
             Some i \<Rightarrow> if 0 \<le> i then Ok (word_of_int i) else Err (Rpc None ''expected integer-compatible RPC value, got '')
           | None \<Rightarrow>
               (case value_str v of
                  Some text \<Rightarrow>
                    (case parse_u64 text of
                       Some n \<Rightarrow> Ok n
                     | None \<Rightarrow> Err (Rpc None ''expected integer-compatible RPC value, got ''))
                | None \<Rightarrow> Err (Rpc None ''expected integer-compatible RPC value, got ''))))"

definition coerce_bool :: "json \<Rightarrow> bool result" where
  "coerce_bool v =
     (case v of
        J_Bool b \<Rightarrow> Ok b
      | _ \<Rightarrow>
          (case value_i64 v of
             Some i \<Rightarrow> Ok (i \<noteq> 0)
           | None \<Rightarrow>
               (case value_str v of
                  Some text \<Rightarrow>
                    (let lower = to_ascii_lowercase text
                     in if lower = lit ''true'' \<or> lower = lit ''1'' then Ok True
                        else if lower = lit ''false'' \<or> lower = lit ''0'' then Ok False
                        else Err (Rpc None ''expected boolean-compatible RPC value, got ''))
                | None \<Rightarrow> Err (Rpc None ''expected boolean-compatible RPC value, got ''))))"

section \<open>Requests\<close>

text \<open>\<open>fetch_add\<close> wraps around.\<close>

definition next_json_rpc_request_id :: "('w, u64) client_op" where
  "next_json_rpc_request_id c = (Ok (rc_next_request_id c), c\<lparr>rc_next_request_id := rc_next_request_id c + 1\<rparr>)"

definition request_body :: "u64 \<Rightarrow> rstring \<Rightarrow> json list \<Rightarrow> json" where
  "request_body request_id rpc_method params = json_struct
     [(''jsonrpc'', J_String (lit ''2.0'')), (''id'', json_u64 request_id), (''method'', J_String rpc_method),
      (''params'', J_Array params)]"

definition transport_post :: "'w rpc_api \<Rightarrow> json \<Rightarrow> ('w, u16 \<times> json) client_op" where
  "transport_post ra body c =
     (case api_post_json ra (rc_transport c) (rc_endpoint c) body (rc_timeout c) of
        (r, w) \<Rightarrow> (r, c\<lparr>rc_transport := w, rc_posted := rc_posted c @ [body]\<rparr>))"

definition post_json_rpc :: "'w rpc_api \<Rightarrow> rstring \<Rightarrow> json list \<Rightarrow> ('w, u16 \<times> json \<times> u64) client_op" where
  "post_json_rpc ra rpc_method params =
     op_bind next_json_rpc_request_id (\<lambda>request_id.
     op_bind (transport_post ra (request_body request_id rpc_method params)) (\<lambda>(status, body).
       op_return (status, body, request_id)))"

record 'a RpcCallResult =
  rr_value :: 'a
  rr_raw_result :: json
  rr_raw_envelope :: json
  rr_endpoint :: rstring
  rr_method :: rstring
  rr_http_status :: u16
  rr_canonical_result_bytes :: nat
  rr_canonical_envelope_bytes :: nat

definition map_value :: "'a RpcCallResult \<Rightarrow> 'b \<Rightarrow> 'b RpcCallResult" where
  "map_value r v =
     \<lparr>rr_value = v, rr_raw_result = rr_raw_result r, rr_raw_envelope = rr_raw_envelope r,
      rr_endpoint = rr_endpoint r, rr_method = rr_method r, rr_http_status = rr_http_status r,
      rr_canonical_result_bytes = rr_canonical_result_bytes r,
      rr_canonical_envelope_bytes = rr_canonical_envelope_bytes r\<rparr>"

text \<open>Printing a JSON value cannot fail.\<close>

definition json_length :: "'w rpc_api \<Rightarrow> json \<Rightarrow> nat" where
  "json_length ra v = length (string_bytes (api_json_text ra v))"

definition call_value_with_raw :: "'w rpc_api \<Rightarrow> rstring \<Rightarrow> json list \<Rightarrow> ('w, json RpcCallResult) client_op" where
  "call_value_with_raw ra rpc_method params =
     op_bind (post_json_rpc ra rpc_method params) (\<lambda>(status, body, request_id).
     op_bind (op_lift (parse_json_rpc_response_for_request ra status body request_id)) (\<lambda>raw_result.
     op_bind (op_get rc_endpoint) (\<lambda>endpoint.
       op_return
         \<lparr>rr_value = raw_result, rr_raw_result = raw_result, rr_raw_envelope = body, rr_endpoint = endpoint,
          rr_method = rpc_method, rr_http_status = status,
          rr_canonical_result_bytes = json_length ra raw_result,
          rr_canonical_envelope_bytes = json_length ra body\<rparr>)))"

definition call_value :: "'w rpc_api \<Rightarrow> rstring \<Rightarrow> json list \<Rightarrow> ('w, json) client_op" where
  "call_value ra rpc_method params =
     op_bind (post_json_rpc ra rpc_method params) (\<lambda>(status, body, request_id).
       op_lift (parse_json_rpc_response_for_request ra status body request_id))"

text \<open>\<open>serde_json::from_value\<close> with the error it becomes.\<close>

definition from_value :: "'w rpc_api \<Rightarrow> 'a json_decoder \<Rightarrow> rstring \<Rightarrow> json \<Rightarrow> 'a result" where
  "from_value ra de rpc_method v =
     (case de v of Some x \<Rightarrow> Ok x | None \<Rightarrow> Err (Rpc None (api_serde_error ra rpc_method v)))"

definition call_with_raw :: "'w rpc_api \<Rightarrow> 'a json_decoder \<Rightarrow> rstring \<Rightarrow> json list \<Rightarrow> ('w, 'a RpcCallResult) client_op" where
  "call_with_raw ra de rpc_method params =
     op_bind (call_value_with_raw ra rpc_method params) (\<lambda>response.
     op_bind (op_lift (from_value ra de rpc_method (rr_raw_result response))) (\<lambda>v.
       op_return (map_value response v)))"

definition call :: "'w rpc_api \<Rightarrow> 'a json_decoder \<Rightarrow> rstring \<Rightarrow> json list \<Rightarrow> ('w, 'a) client_op" where
  "call ra de rpc_method params =
     op_bind (call_value ra rpc_method params) (\<lambda>v. op_lift (from_value ra de rpc_method v))"

section \<open>Running an operation\<close>

lemma op_lift_apply [client_simps]: "op_lift r c = (r, c)"
  by (simp add: op_lift_def)

lemma op_get_apply [client_simps]: "op_get f c = (Ok (f c), c)"
  by (simp add: op_get_def)

lemma op_modify_apply [client_simps]: "op_modify f c = (Ok (), f c)"
  by (simp add: op_modify_def)

lemma op_bind_apply [client_simps]:
  "op_bind m f c = (case m c of
     (Ok x, c') \<Rightarrow> f x c' | (Err e, c') \<Rightarrow> (Err e, c') | (Panic p, c') \<Rightarrow> (Panic p, c'))"
  by (auto simp: op_bind_def op_case_def op_lift_def split: prod.split result.split)

lemma op_bind_Ok: "op_bind m f c = (Ok y, c'') \<longleftrightarrow> (\<exists>x c'. m c = (Ok x, c') \<and> f x c' = (Ok y, c''))"
  by (auto simp: op_bind_apply split: prod.splits result.splits)

lemma op_bind_outcome:
  "fst (op_bind m f c) = Ok y \<longleftrightarrow> (\<exists>x c'. m c = (Ok x, c') \<and> fst (f x c') = Ok y)"
  by (auto simp: op_bind_apply split: prod.splits result.splits)

lemma op_map_err_Ok: "op_map_err g m c = (Ok y, c') \<longleftrightarrow> m c = (Ok y, c')"
  by (auto simp: op_map_err_def op_case_def op_lift_def split: prod.splits)

lemma post_json_rpc_apply:
  "post_json_rpc ra rpc_method params c =
     (let body = request_body (rc_next_request_id c) rpc_method params
      in case api_post_json ra (rc_transport c) (rc_endpoint c) body (rc_timeout c) of
        (r, w) \<Rightarrow>
          (bind_result r (\<lambda>(status, answer). Ok (status, answer, rc_next_request_id c)),
           c\<lparr>rc_transport := w, rc_next_request_id := rc_next_request_id c + 1, rc_posted := rc_posted c @ [body]\<rparr>))"
  by (auto simp: post_json_rpc_def next_json_rpc_request_id_def transport_post_def client_simps Let_def
      split: prod.split result.split)

section \<open>What operations do to the client\<close>

text \<open>
  A contract of every operation: the client it leaves is related to the client it started from. A relation
  that survives one request and a change of the cache survives whole operations; \<open>may_post\<close> restricts the methods.
\<close>

definition keeps :: "('w PhantasmaRpc \<Rightarrow> 'w PhantasmaRpc \<Rightarrow> bool) \<Rightarrow> ('w, 'a) client_op \<Rightarrow> bool" where
  "keeps R m \<longleftrightarrow> (\<forall>c. R c (snd (m c)))"

definition after_request :: "'w PhantasmaRpc \<Rightarrow> rstring \<Rightarrow> json list \<Rightarrow> 'w \<Rightarrow> 'w PhantasmaRpc" where
  "after_request c rpc_method params w =
     c\<lparr>rc_transport := w, rc_next_request_id := rc_next_request_id c + 1,
       rc_posted := rc_posted c @ [request_body (rc_next_request_id c) rpc_method params]\<rparr>"

locale client_contract =
  fixes R :: "'w PhantasmaRpc \<Rightarrow> 'w PhantasmaRpc \<Rightarrow> bool"
    and may_post :: "rstring \<Rightarrow> bool"
  assumes same: "R c c"
    and compose: "R c c' \<Longrightarrow> R c' c'' \<Longrightarrow> R c c''"
    and cache_change: "R c (c\<lparr>rc_fee_cache := cached\<rparr>)"
    and request: "may_post rpc_method \<Longrightarrow> R c (after_request c rpc_method params w)"
begin

lemma lift: "keeps R (op_lift r)"
  by (simp add: keeps_def op_lift_apply same)

lemma get: "keeps R (op_get f)"
  by (simp add: keeps_def op_get_apply same)

lemma set_cache: "keeps R (op_modify (\<lambda>c. c\<lparr>rc_fee_cache := cached\<rparr>))"
  by (simp add: keeps_def op_modify_apply cache_change)

lemma branch: "keeps R m \<Longrightarrow> (\<And>r. keeps R (k r)) \<Longrightarrow> keeps R (op_case m k)"
  unfolding keeps_def op_case_def by (auto simp: case_prod_unfold intro: compose)

lemma bind: "keeps R m \<Longrightarrow> (\<And>x. keeps R (f x)) \<Longrightarrow> keeps R (op_bind m f)"
  unfolding op_bind_def by (rule branch) (auto split: result.split intro: lift)

lemma rename_error: "keeps R m \<Longrightarrow> keeps R (op_map_err g m)"
  unfolding op_map_err_def by (rule branch) (auto intro: lift)

lemma each: "(\<And>x. keeps R (f x)) \<Longrightarrow> keeps R (op_for f xs)"
  by (induction xs) (auto intro: bind lift)

lemma choose: "keeps R m \<Longrightarrow> keeps R m' \<Longrightarrow> keeps R (if b then m else m')"
  by simp

lemma post: "may_post rpc_method \<Longrightarrow> keeps R (post_json_rpc ra rpc_method params)"
  using request by (auto simp: keeps_def post_json_rpc_apply after_request_def Let_def split: prod.split)

lemma calls:
  assumes "may_post rpc_method"
  shows "keeps R (call_value ra rpc_method params)" "keeps R (call_value_with_raw ra rpc_method params)"
    "keeps R (call ra de rpc_method params)" "keeps R (call_with_raw ra de rpc_method params)"
  unfolding call_def call_with_raw_def call_value_def call_value_with_raw_def
  by (auto intro!: bind lift get post assms split: prod.split)

end

text \<open>The requests of an operation carry consecutive ids, and it changes neither endpoint nor limits.\<close>

definition numbered :: "'w PhantasmaRpc \<Rightarrow> 'w PhantasmaRpc \<Rightarrow> bool" where
  "numbered c c' \<longleftrightarrow>
     (\<exists>bodies. rc_posted c' = rc_posted c @ bodies \<and>
       rc_next_request_id c' = rc_next_request_id c + word_of_nat (length bodies) \<and>
       (\<forall>i<length bodies. \<exists>rpc_method params.
          bodies ! i = request_body (rc_next_request_id c + word_of_nat i) rpc_method params)) \<and>
     rc_endpoint c' = rc_endpoint c \<and> rc_timeout c' = rc_timeout c \<and>
     rc_fee_config_ttl c' = rc_fee_config_ttl c"

text \<open>The requests of an operation name only methods of a set.\<close>

definition posts_only :: "rstring set \<Rightarrow> 'w PhantasmaRpc \<Rightarrow> 'w PhantasmaRpc \<Rightarrow> bool" where
  "posts_only M c c' \<longleftrightarrow>
     (\<exists>bodies. rc_posted c' = rc_posted c @ bodies \<and>
       (\<forall>body\<in>set bodies. \<exists>request_id rpc_method params. rpc_method \<in> M \<and>
          body = request_body request_id rpc_method params))"

lemma numbered_trans: "numbered c c' \<Longrightarrow> numbered c' c'' \<Longrightarrow> numbered c c''"
proof -
  assume "numbered c c'" "numbered c' c''"
  then obtain bs bs' where bs:
    "rc_posted c' = rc_posted c @ bs" "rc_next_request_id c' = rc_next_request_id c + word_of_nat (length bs)"
    "\<forall>i<length bs. \<exists>m ps. bs ! i = request_body (rc_next_request_id c + word_of_nat i) m ps"
    "rc_posted c'' = rc_posted c' @ bs'"
    "rc_next_request_id c'' = rc_next_request_id c' + word_of_nat (length bs')"
    "\<forall>i<length bs'. \<exists>m ps. bs' ! i = request_body (rc_next_request_id c' + word_of_nat i) m ps"
    and same: "rc_endpoint c'' = rc_endpoint c" "rc_timeout c'' = rc_timeout c"
      "rc_fee_config_ttl c'' = rc_fee_config_ttl c"
    unfolding numbered_def by metis
  have "\<exists>m ps. (bs @ bs') ! i = request_body (rc_next_request_id c + word_of_nat i) m ps"
    if "i < length (bs @ bs')" for i
  proof (cases "i < length bs")
    case False
    then obtain j where j: "i = length bs + j" using le_Suc_ex by (metis not_less)
    with that have "j < length bs'" by simp
    with bs(6) obtain m ps where "bs' ! j = request_body (rc_next_request_id c' + word_of_nat j) m ps" by blast
    then have "(bs @ bs') ! i = request_body (rc_next_request_id c + word_of_nat i) m ps"
      by (simp add: j bs(2) nth_append algebra_simps)
    then show ?thesis by blast
  qed (use bs(3) in \<open>simp add: nth_append\<close>)
  then show "numbered c c''"
    unfolding numbered_def using bs same by (auto intro!: exI [of _ "bs @ bs'"])
qed

interpretation numbering: client_contract numbered "\<lambda>_. True"
proof unfold_locales
  show "numbered c c" for c :: "'w PhantasmaRpc" by (auto simp: numbered_def)
  show "numbered c (c\<lparr>rc_fee_cache := cached\<rparr>)" for c :: "'w PhantasmaRpc" and cached by (auto simp: numbered_def)
  show "numbered c (after_request c rpc_method params w)"
    for c :: "'w PhantasmaRpc" and rpc_method params w
    unfolding numbered_def after_request_def
    by (intro conjI exI [of _ "[request_body (rc_next_request_id c) rpc_method params]"]) auto
qed (rule numbered_trans)

interpretation naming: client_contract "posts_only M" "\<lambda>rpc_method. rpc_method \<in> M" for M
proof unfold_locales
  show "posts_only M c c''" if "posts_only M c c'" "posts_only M c' c''" for c c' c'' :: "'w PhantasmaRpc"
  proof -
    from that obtain bs bs' where "rc_posted c' = rc_posted c @ bs" "rc_posted c'' = rc_posted c' @ bs'"
      "\<forall>body\<in>set (bs @ bs'). \<exists>i m ps. m \<in> M \<and> body = request_body i m ps"
      unfolding posts_only_def by (metis Un_iff set_append)
    then show ?thesis unfolding posts_only_def by (intro exI [of _ "bs @ bs'"]) simp
  qed
  show "posts_only M c (after_request c rpc_method params w)" if "rpc_method \<in> M"
    for c :: "'w PhantasmaRpc" and rpc_method params w
    using that unfolding posts_only_def after_request_def
    by (intro exI [of _ "[request_body (rc_next_request_id c) rpc_method params]"]) auto
qed (simp_all add: posts_only_def)

section \<open>Accepted answers\<close>

lemma parse_response_Ok:
  "parse_json_rpc_response_for_request ra status body request_id = Ok v \<longleftrightarrow>
     (\<exists>m ident. body = J_Object m \<and> member m ''id'' = Some ident \<and> json_rpc_id_matches ident request_id \<and>
        member m ''error'' = None \<and> status < 400 \<and> member m ''result'' = Some v)"
  by (cases body)
    (auto simp: parse_json_rpc_response_for_request_def rejected_without_id_def error_answer_def not_le
      split: option.splits json.splits)

lemma from_value_Ok: "from_value ra de rpc_method v = Ok x \<longleftrightarrow> de v = Some x"
  by (auto simp: from_value_def split: option.split)

lemma json_rpc_id_matches_iff:
  "json_rpc_id_matches ident n \<longleftrightarrow>
     ident = json_u64 n \<or> (\<exists>digits. ident = J_String digits \<and> string_bytes digits = dec_text (unat n))"
  by (auto simp: json_rpc_id_matches_def value_u64_def value_str_def json_u64_def
      split: json.split json_number.split)

text \<open>C10: A typed call answers \<open>x\<close> exactly when the transport answered its one request with a status below 400 and
  an object that carries the id of the request, as a number or as its digits, no error, and a result that decodes
  to \<open>x\<close>; it changes nothing but the transport, the next id and the record of requests.
\<close>

theorem call_result_exact:
  "call ra de rpc_method params c = (Ok x, c') \<longleftrightarrow>
     (\<exists>status m w ident v.
        api_post_json ra (rc_transport c) (rc_endpoint c)
          (request_body (rc_next_request_id c) rpc_method params) (rc_timeout c) = (Ok (status, J_Object m), w) \<and>
        member m ''id'' = Some ident \<and>
        (ident = json_u64 (rc_next_request_id c) \<or>
         (\<exists>digits. ident = J_String digits \<and> string_bytes digits = dec_text (unat (rc_next_request_id c)))) \<and>
        member m ''error'' = None \<and> status < 400 \<and> member m ''result'' = Some v \<and> de v = Some x \<and>
        c' = after_request c rpc_method params w)"
proof -
  obtain r w where p: "api_post_json ra (rc_transport c) (rc_endpoint c)
      (request_body (rc_next_request_id c) rpc_method params) (rc_timeout c) = (r, w)" by (meson surj_pair)
  then have post: "post_json_rpc ra rpc_method params c =
      (bind_result r (\<lambda>(status, answer). Ok (status, answer, rc_next_request_id c)), after_request c rpc_method params w)"
    by (simp add: post_json_rpc_apply after_request_def Let_def)
  show ?thesis
    unfolding json_rpc_id_matches_iff [symmetric]
    by (cases r)
      (auto simp: call_def call_value_def op_bind_Ok op_lift_apply post p parse_response_Ok from_value_Ok
        split: prod.splits)
qed

section \<open>Reading requests\<close>

definition body_method :: "json \<Rightarrow> rstring option" where
  "body_method body = (case body of J_Object m \<Rightarrow> Option.bind (member m ''method'') value_str | _ \<Rightarrow> None)"

definition body_id :: "json \<Rightarrow> u64 option" where
  "body_id body = (case body of J_Object m \<Rightarrow> Option.bind (member m ''id'') value_u64 | _ \<Rightarrow> None)"

definition body_params :: "json \<Rightarrow> json option" where
  "body_params body = (case body of J_Object m \<Rightarrow> member m ''params'' | _ \<Rightarrow> None)"

lemma request_body_parts [simp]:
  "body_method (request_body request_id rpc_method params) = Some rpc_method"
  "body_id (request_body request_id rpc_method params) = Some request_id"
  "body_params (request_body request_id rpc_method params) = Some (J_Array params)"
proof -
  let ?kvs = "[(''jsonrpc'', J_String (lit ''2.0'')), (''id'', json_u64 request_id), (''method'', J_String rpc_method),
      (''params'', J_Array params)]"
  have names: "field_names ?kvs" by simp
  have body: "request_body request_id rpc_method params = J_Object (struct_map ?kvs)"
    by (simp only: request_body_def json_struct_def)
  note found = struct_member [OF names]
  have "map_of (struct_map ?kvs) (lit ''method'') = Some (J_String rpc_method)"
    "map_of (struct_map ?kvs) (lit ''id'') = Some (json_u64 request_id)"
    "map_of (struct_map ?kvs) (lit ''params'') = Some (J_Array params)"
    by (subst found; simp)+
  then show "body_method (request_body request_id rpc_method params) = Some rpc_method"
    "body_id (request_body request_id rpc_method params) = Some request_id"
    "body_params (request_body request_id rpc_method params) = Some (J_Array params)"
    unfolding body by (simp_all add: body_method_def body_id_def body_params_def member_def value_str_def value_u64_def
        json_u64_def)
qed

end
