(* ===== verification/RpcMethods.thy ===== *)
theory RpcMethods
  imports RpcClient
begin

text \<open>
  The read-only calls of the client (\<open>src/src/rpc.rs\<close>): each posts one request with its own method name and its
  arguments as positional JSON parameters and decodes the answer as its type. Then the helpers on the answers: token
  flags, balances, transaction states and script results.
\<close>

section \<open>Calls\<close>

text \<open>\<open>join(",")\<close>\<close>

definition join_comma :: "rstring list \<Rightarrow> rstring" where
  "join_comma texts =
     string_of (case map string_bytes texts of [] \<Rightarrow> [] | t # ts \<Rightarrow> t @ concat (map (\<lambda>u. 44 # u) ts))"

definition get_version :: "'w rpc_api \<Rightarrow> ('w, BuildInfoResult) client_op" where
  "get_version ra = call ra de_BuildInfoResult (lit ''getVersion'') []"

definition get_account_info ::
    "'w rpc_api \<Rightarrow> rstring \<Rightarrow> ('w, AccountInfoResult) client_op" where
  "get_account_info ra address = call ra de_AccountInfoResult (lit ''getAccountInfo'') [J_String address]"

definition get_account_info_with_address_type ::
    "'w rpc_api \<Rightarrow> rstring \<Rightarrow> bool \<Rightarrow> rstring \<Rightarrow> ('w,
       AccountInfoResult) client_op" where
  "get_account_info_with_address_type ra address check_address_reserved_byte address_type =
     call ra de_AccountInfoResult (lit ''getAccountInfo'')
       [J_String address, J_Bool check_address_reserved_byte, J_String address_type]"

definition get_account_infos ::
    "'w rpc_api \<Rightarrow> rstring list \<Rightarrow> ('w, AccountInfoResult list) client_op" where
  "get_account_infos ra addresses =
     call ra (de_vec de_AccountInfoResult) (lit ''getAccountInfos'') [json_vec J_String addresses]"

definition get_account_infos_with_address_type ::
    "'w rpc_api \<Rightarrow> rstring list \<Rightarrow> bool \<Rightarrow> rstring \<Rightarrow> ('w,
       AccountInfoResult list) client_op" where
  "get_account_infos_with_address_type ra addresses check_address_reserved_byte address_type =
     call ra (de_vec de_AccountInfoResult) (lit ''getAccountInfos'')
       [json_vec J_String addresses, J_Bool check_address_reserved_byte, J_String address_type]"

definition get_account :: "'w rpc_api \<Rightarrow> rstring \<Rightarrow> ('w, AccountResult) client_op" where
  "get_account ra address = call ra de_AccountResult (lit ''getAccount'') [J_String address, J_Bool False]"

definition get_account_with_address_type ::
    "'w rpc_api \<Rightarrow> rstring \<Rightarrow> bool \<Rightarrow> bool \<Rightarrow> rstring
       \<Rightarrow> ('w, AccountResult) client_op" where
  "get_account_with_address_type ra address extended check_address_reserved_byte address_type =
     call ra de_AccountResult (lit ''getAccount'')
       [J_String address, J_Bool extended, J_Bool check_address_reserved_byte, J_String address_type]"

definition get_accounts_text ::
    "'w rpc_api \<Rightarrow> rstring \<Rightarrow> bool \<Rightarrow> ('w, AccountResult list) client_op" where
  "get_accounts_text ra addresses extended =
     call ra (de_vec de_AccountResult) (lit ''getAccounts'') [J_String addresses, J_Bool extended]"

definition get_accounts ::
    "'w rpc_api \<Rightarrow> rstring list \<Rightarrow> bool \<Rightarrow> ('w, AccountResult list)
       client_op" where
  "get_accounts ra addresses extended = get_accounts_text ra (join_comma addresses) extended"

definition get_accounts_with_address_type ::
    "'w rpc_api \<Rightarrow> rstring \<Rightarrow> bool \<Rightarrow> bool \<Rightarrow> rstring
       \<Rightarrow> ('w, AccountResult list) client_op" where
  "get_accounts_with_address_type ra addresses extended check_address_reserved_byte address_type =
     call ra (de_vec de_AccountResult) (lit ''getAccounts'')
       [J_String addresses, J_Bool extended, J_Bool check_address_reserved_byte, J_String address_type]"

definition lookup_name :: "'w rpc_api \<Rightarrow> rstring \<Rightarrow> ('w, rstring) client_op" where
  "lookup_name ra name = call ra de_string (lit ''lookUpName'') [J_String name]"

definition look_up_name :: "'w rpc_api \<Rightarrow> rstring \<Rightarrow> ('w, rstring) client_op" where
  "look_up_name ra name = lookup_name ra name"

definition get_platforms :: "'w rpc_api \<Rightarrow> ('w, PlatformResult list) client_op" where
  "get_platforms ra = call ra (de_vec de_PlatformResult) (lit ''getPlatforms'') []"

definition get_chains :: "'w rpc_api \<Rightarrow> bool \<Rightarrow> ('w, ChainResult list) client_op" where
  "get_chains ra extended = call ra (de_vec de_ChainResult) (lit ''getChains'') [J_Bool extended]"

definition get_chain ::
    "'w rpc_api \<Rightarrow> rstring \<Rightarrow> bool \<Rightarrow> ('w, ChainResult) client_op" where
  "get_chain ra chain extended = call ra de_ChainResult (lit ''getChain'') [J_String chain, J_Bool extended]"

definition get_gas_config :: "'w rpc_api \<Rightarrow> ('w, GasConfigResult) client_op" where
  "get_gas_config ra = call ra de_GasConfigResult (lit ''getGasConfig'') []"

definition estimate_transaction ::
    "'w rpc_api \<Rightarrow> rstring \<Rightarrow> ('w, EstimateTransactionResult) client_op" where
  "estimate_transaction ra tx_data =
     call ra de_EstimateTransactionResult (lit ''estimateTransaction'') [J_String tx_data]"

definition get_nexus :: "'w rpc_api \<Rightarrow> bool \<Rightarrow> ('w, NexusResult) client_op" where
  "get_nexus ra extended = call ra (de_NexusResult (api_float_text ra)) (lit ''getNexus'') [J_Bool extended]"

definition get_address_transactions ::
    "'w rpc_api \<Rightarrow> rstring \<Rightarrow> u32 \<Rightarrow> u32 \<Rightarrow> ('w,
       AddressTransactionsResult PaginatedResult) client_op" where
  "get_address_transactions ra address page page_size =
     call ra (de_PaginatedResult (de_AddressTransactionsResult (api_float_text ra))) (lit
       ''getAddressTransactions'')
       [J_String address, json_u32 page, json_u32 page_size]"

definition get_address_transaction_count ::
    "'w rpc_api \<Rightarrow> rstring \<Rightarrow> rstring \<Rightarrow> ('w, u64) client_op" where
  "get_address_transaction_count ra address chain =
     op_bind (call_value ra (lit ''getAddressTransactionCount'')
       [J_String address, J_String chain]) (\<lambda>v. op_lift (coerce_u64 v))"

definition get_block_by_height ::
    "'w rpc_api \<Rightarrow> rstring \<Rightarrow> u64 \<Rightarrow> ('w, BlockResult) client_op" where
  "get_block_by_height ra chain height =
     call ra (de_BlockResult (api_float_text ra)) (lit ''getBlockByHeight'') [J_String chain, json_u64 height]"

definition get_block_by_height_with_raw ::
    "'w rpc_api \<Rightarrow> rstring \<Rightarrow> u64 \<Rightarrow> ('w, BlockResult RpcCallResult)
       client_op" where
  "get_block_by_height_with_raw ra chain height =
     call_with_raw ra (de_BlockResult (api_float_text ra)) (lit ''getBlockByHeight'')
       [J_String chain, json_u64 height]"

definition get_block_by_hash ::
    "'w rpc_api \<Rightarrow> rstring \<Rightarrow> ('w, BlockResult) client_op" where
  "get_block_by_hash ra hash =
     call ra (de_BlockResult (api_float_text ra)) (lit ''getBlockByHash'') [J_String hash]"

definition get_block_by_hash_with_raw ::
    "'w rpc_api \<Rightarrow> rstring \<Rightarrow> ('w, BlockResult RpcCallResult) client_op" where
  "get_block_by_hash_with_raw ra hash =
     call_with_raw ra (de_BlockResult (api_float_text ra)) (lit ''getBlockByHash'') [J_String hash]"

definition get_block_transaction_count_by_hash_on_chain ::
    "'w rpc_api \<Rightarrow> rstring \<Rightarrow> rstring \<Rightarrow> ('w, u64) client_op" where
  "get_block_transaction_count_by_hash_on_chain ra chain hash =
     op_bind (call_value ra (lit ''getBlockTransactionCountByHash'')
       [J_String chain, J_String hash]) (\<lambda>v. op_lift (coerce_u64 v))"

definition get_block_transaction_count_by_hash ::
    "'w rpc_api \<Rightarrow> rstring \<Rightarrow> rstring \<Rightarrow> ('w, u64) client_op" where
  "get_block_transaction_count_by_hash ra hash chain =
     get_block_transaction_count_by_hash_on_chain ra chain hash"

definition get_latest_block :: "'w rpc_api \<Rightarrow> rstring \<Rightarrow> ('w, BlockResult) client_op"
       where
  "get_latest_block ra chain =
     call ra (de_BlockResult (api_float_text ra)) (lit ''getLatestBlock'') [J_String chain]"

definition get_latest_block_with_raw ::
    "'w rpc_api \<Rightarrow> rstring \<Rightarrow> ('w, BlockResult RpcCallResult) client_op" where
  "get_latest_block_with_raw ra chain =
     call_with_raw ra (de_BlockResult (api_float_text ra)) (lit ''getLatestBlock'') [J_String chain]"

definition get_block_height :: "'w rpc_api \<Rightarrow> rstring \<Rightarrow> ('w, u64) client_op" where
  "get_block_height ra chain =
     op_bind (call_value ra (lit ''getBlockHeight'') [J_String chain]) (\<lambda>v. op_lift (coerce_u64 v))"

definition get_transaction_by_block_hash_and_index ::
    "'w rpc_api \<Rightarrow> rstring \<Rightarrow> u32 \<Rightarrow> rstring \<Rightarrow> ('w,
       TransactionResult) client_op" where
  "get_transaction_by_block_hash_and_index ra block_hash index chain =
     call ra (de_TransactionResult (api_float_text ra)) (lit ''getTransactionByBlockHashAndIndex'')
       [J_String chain, J_String block_hash, json_u32 index]"

definition get_transaction_by_block_hash_and_index_with_raw ::
    "'w rpc_api \<Rightarrow> rstring \<Rightarrow> u32 \<Rightarrow> rstring \<Rightarrow> ('w,
       TransactionResult RpcCallResult) client_op" where
  "get_transaction_by_block_hash_and_index_with_raw ra block_hash index chain =
     call_with_raw ra (de_TransactionResult (api_float_text ra)) (lit ''getTransactionByBlockHashAndIndex'')
       [J_String chain, J_String block_hash, json_u32 index]"

definition get_transaction_by_block_hash_and_index_on_chain ::
    "'w rpc_api \<Rightarrow> rstring \<Rightarrow> rstring \<Rightarrow> u32 \<Rightarrow> ('w,
       TransactionResult) client_op" where
  "get_transaction_by_block_hash_and_index_on_chain ra chain block_hash index =
     get_transaction_by_block_hash_and_index ra block_hash index chain"

definition get_transaction ::
    "'w rpc_api \<Rightarrow> rstring \<Rightarrow> ('w, TransactionResult) client_op" where
  "get_transaction ra hash =
     call ra (de_TransactionResult (api_float_text ra)) (lit ''getTransaction'') [J_String hash]"

definition get_transaction_with_raw ::
    "'w rpc_api \<Rightarrow> rstring \<Rightarrow> ('w, TransactionResult RpcCallResult) client_op" where
  "get_transaction_with_raw ra hash =
     call_with_raw ra (de_TransactionResult (api_float_text ra)) (lit ''getTransaction'') [J_String hash]"

definition get_contract ::
    "'w rpc_api \<Rightarrow> rstring \<Rightarrow> rstring \<Rightarrow> ('w, ContractResult) client_op" where
  "get_contract ra contract_name chain =
     call ra de_ContractResult (lit ''getContract'') [J_String chain, J_String contract_name]"

definition get_contract_by_name ::
    "'w rpc_api \<Rightarrow> rstring \<Rightarrow> rstring \<Rightarrow> ('w, ContractResult) client_op" where
  "get_contract_by_name ra chain name = get_contract ra name chain"

definition get_contract_by_address ::
    "'w rpc_api \<Rightarrow> rstring \<Rightarrow> rstring \<Rightarrow> ('w, ContractResult) client_op" where
  "get_contract_by_address ra chain address =
     call ra de_ContractResult (lit ''getContractByAddress'') [J_String chain, J_String address]"

definition get_contracts ::
    "'w rpc_api \<Rightarrow> rstring \<Rightarrow> bool \<Rightarrow> ('w, ContractResult list) client_op"
       where
  "get_contracts ra chain extended =
     call ra (de_vec de_ContractResult) (lit ''getContracts'') [J_String chain, J_Bool extended]"

definition get_organization ::
    "'w rpc_api \<Rightarrow> rstring \<Rightarrow> bool \<Rightarrow> ('w, OrganizationResult) client_op" where
  "get_organization ra name include_member_count =
     call ra (de_OrganizationResult (api_float_text ra)) (lit ''getOrganization'')
       [J_String name, J_Bool include_member_count]"

definition get_organizations ::
    "'w rpc_api \<Rightarrow> u32 \<Rightarrow> rstring \<Rightarrow> bool \<Rightarrow> ('w,
       OrganizationResult list CursorPaginatedResult) client_op" where
  "get_organizations ra page_size cursor include_member_count =
     call ra (de_CursorPaginatedResult (de_vec (de_OrganizationResult (api_float_text ra)))) (lit
       ''getOrganizations'')
       [json_u32 page_size, J_String cursor, J_Bool include_member_count]"

definition get_organization_members ::
    "'w rpc_api \<Rightarrow> rstring \<Rightarrow> u32 \<Rightarrow> rstring \<Rightarrow> bool
       \<Rightarrow> ('w, OrganizationMemberResult list CursorPaginatedResult) client_op" where
  "get_organization_members ra name page_size cursor include_member_time =
     call ra (de_CursorPaginatedResult (de_vec de_OrganizationMemberResult)) (lit ''getOrganizationMembers'')
       [J_String name, json_u32 page_size, J_String cursor, J_Bool include_member_time]"

definition get_organization_member ::
    "'w rpc_api \<Rightarrow> rstring \<Rightarrow> rstring \<Rightarrow> bool \<Rightarrow> rstring
       \<Rightarrow> ('w, OrganizationMemberResult) client_op" where
  "get_organization_member ra name address check_address_reserved_byte address_type =
     call ra de_OrganizationMemberResult (lit ''getOrganizationMember'')
       [J_String name, J_String address, J_Bool check_address_reserved_byte, J_String address_type]"

definition get_leaderboard ::
    "'w rpc_api \<Rightarrow> rstring \<Rightarrow> ('w, LeaderboardResult) client_op" where
  "get_leaderboard ra name = call ra de_LeaderboardResult (lit ''getLeaderboard'') [J_String name]"

definition get_token ::
    "'w rpc_api \<Rightarrow> rstring \<Rightarrow> bool \<Rightarrow> ('w, TokenResult) client_op" where
  "get_token ra symbol extended =
     call ra (de_TokenResult (api_float_text ra)) (lit ''getToken'') [J_String symbol, J_Bool extended]"

definition get_token_with_id ::
    "'w rpc_api \<Rightarrow> rstring \<Rightarrow> bool \<Rightarrow> u64 \<Rightarrow> ('w, TokenResult)
       client_op" where
  "get_token_with_id ra symbol extended token_id =
     call ra (de_TokenResult (api_float_text ra)) (lit ''getToken'')
       [J_String symbol, J_Bool extended, json_u64 token_id]"

definition get_tokens :: "'w rpc_api \<Rightarrow> bool \<Rightarrow> ('w, TokenResult list) client_op" where
  "get_tokens ra extended =
     call ra (de_vec (de_TokenResult (api_float_text ra))) (lit ''getTokens'') [J_Bool extended]"

definition get_tokens_by_owner ::
    "'w rpc_api \<Rightarrow> rstring \<Rightarrow> bool \<Rightarrow> ('w, TokenResult list) client_op" where
  "get_tokens_by_owner ra owner extended =
     call ra (de_vec (de_TokenResult (api_float_text ra))) (lit ''getTokens'')
       [J_Bool extended, J_String owner]"

definition get_tokens_by_owner_with_address_type ::
    "'w rpc_api \<Rightarrow> rstring \<Rightarrow> rstring \<Rightarrow> bool \<Rightarrow> ('w, TokenResult
       list) client_op" where
  "get_tokens_by_owner_with_address_type ra owner address_type extended =
     call ra (de_vec (de_TokenResult (api_float_text ra))) (lit ''getTokens'')
       [J_Bool extended, J_String owner, J_String address_type]"

definition get_token_data ::
    "'w rpc_api \<Rightarrow> rstring \<Rightarrow> rstring \<Rightarrow> ('w, TokenDataResult) client_op" where
  "get_token_data ra symbol token_id =
     call ra (de_TokenDataResult (api_float_text ra)) (lit ''getTokenData'')
       [J_String symbol, J_String token_id]"

definition get_token_balance ::
    "'w rpc_api \<Rightarrow> rstring \<Rightarrow> rstring \<Rightarrow> rstring \<Rightarrow> bool
       \<Rightarrow> ('w, BalanceResult) client_op" where
  "get_token_balance ra address symbol chain extended =
     call ra de_BalanceResult (lit ''getTokenBalance'')
       [J_String address, J_String symbol, J_String chain, J_Bool extended]"

definition get_token_balance_with_address_type ::
    "'w rpc_api \<Rightarrow> rstring \<Rightarrow> rstring \<Rightarrow> rstring \<Rightarrow> bool
       \<Rightarrow> rstring \<Rightarrow> ('w, BalanceResult) client_op" where
  "get_token_balance_with_address_type ra address symbol chain check_address_reserved_byte address_type =
     call ra de_BalanceResult (lit ''getTokenBalance'')
       [J_String address, J_String symbol, J_String chain, J_Bool check_address_reserved_byte, J_String
       address_type]"

definition get_token_balance_checked ::
    "'w rpc_api \<Rightarrow> rstring \<Rightarrow> rstring \<Rightarrow> rstring \<Rightarrow> bool
       \<Rightarrow> ('w, BalanceResult) client_op" where
  "get_token_balance_checked ra address symbol chain check_address_reserved_byte =
     call ra de_BalanceResult (lit ''getTokenBalance'')
       [J_String address, J_String symbol, J_String chain, J_Bool check_address_reserved_byte]"

definition get_token_series ::
    "'w rpc_api \<Rightarrow> rstring \<Rightarrow> u64 \<Rightarrow> u32 \<Rightarrow> rstring \<Rightarrow>
       ('w, TokenSeriesResult list CursorPaginatedResult) client_op" where
  "get_token_series ra symbol carbon_token_id page_size cursor =
     call ra (de_CursorPaginatedResult (de_vec (de_TokenSeriesResult (api_float_text ra)))) (lit
       ''getTokenSeries'')
       [J_String symbol, json_u64 carbon_token_id, json_u32 page_size, J_String cursor]"

definition get_token_series_by_ids ::
    "'w rpc_api \<Rightarrow> rstring \<Rightarrow> u64 \<Rightarrow> rstring \<Rightarrow> u64 \<Rightarrow>
       ('w, TokenSeriesResult) client_op" where
  "get_token_series_by_ids ra symbol carbon_token_id series_id carbon_series_id =
     call ra (de_TokenSeriesResult (api_float_text ra)) (lit ''getTokenSeriesById'')
       [J_String symbol, json_u64 carbon_token_id, J_String series_id, json_u64 carbon_series_id]"

definition get_token_series_by_id ::
    "'w rpc_api \<Rightarrow> rstring \<Rightarrow> rstring \<Rightarrow> ('w, TokenSeriesResult) client_op"
       where
  "get_token_series_by_id ra symbol series_id = get_token_series_by_ids ra symbol 0 series_id 0"

definition get_token_nfts ::
    "'w rpc_api \<Rightarrow> u64 \<Rightarrow> u64 \<Rightarrow> u32 \<Rightarrow> rstring \<Rightarrow>
       bool \<Rightarrow> rstring \<Rightarrow> ('w, TokenDataResult list CursorPaginatedResult) client_op"
       where
  "get_token_nfts ra carbon_token_id carbon_series_id page_size cursor extended series_id =
     call ra (de_CursorPaginatedResult (de_vec (de_TokenDataResult (api_float_text ra)))) (lit ''getTokenNFTs'')
       [json_u64 carbon_token_id, json_u64 carbon_series_id, json_u32 page_size, J_String cursor, J_Bool
       extended, J_String series_id]"

definition get_token_nfts_with_series_id ::
    "'w rpc_api \<Rightarrow> u64 \<Rightarrow> u64 \<Rightarrow> rstring \<Rightarrow> u32 \<Rightarrow>
       rstring \<Rightarrow> bool \<Rightarrow> ('w, TokenDataResult list CursorPaginatedResult) client_op"
       where
  "get_token_nfts_with_series_id ra carbon_token_id carbon_series_id series_id page_size cursor extended =
     get_token_nfts ra carbon_token_id carbon_series_id page_size cursor extended series_id"

definition get_account_fungible_tokens ::
    "'w rpc_api \<Rightarrow> rstring \<Rightarrow> rstring \<Rightarrow> u64 \<Rightarrow> u32 \<Rightarrow>
       rstring \<Rightarrow> bool \<Rightarrow> ('w, BalanceResult list CursorPaginatedResult) client_op" where
  "get_account_fungible_tokens ra address symbol carbon_token_id page_size cursor check_address_reserved_byte =
     call ra (de_CursorPaginatedResult (de_vec de_BalanceResult)) (lit ''getAccountFungibleTokens'')
       [J_String address, J_String symbol, json_u64 carbon_token_id, json_u32 page_size, J_String cursor,
       J_Bool check_address_reserved_byte]"

definition get_account_fungible_tokens_with_address_type ::
    "'w rpc_api \<Rightarrow> rstring \<Rightarrow> rstring \<Rightarrow> u64 \<Rightarrow> u32 \<Rightarrow>
       rstring \<Rightarrow> bool \<Rightarrow> rstring \<Rightarrow> ('w, BalanceResult list
       CursorPaginatedResult) client_op" where
  "get_account_fungible_tokens_with_address_type ra address symbol carbon_token_id page_size cursor
       check_address_reserved_byte address_type =
     call ra (de_CursorPaginatedResult (de_vec de_BalanceResult)) (lit ''getAccountFungibleTokens'')
       [J_String address, J_String symbol, json_u64 carbon_token_id, json_u32 page_size, J_String cursor,
       J_Bool check_address_reserved_byte, J_String address_type]"

definition get_account_nfts ::
    "'w rpc_api \<Rightarrow> rstring \<Rightarrow> rstring \<Rightarrow> u64 \<Rightarrow> u64 \<Rightarrow>
       u32 \<Rightarrow> rstring \<Rightarrow> bool \<Rightarrow> bool \<Rightarrow> ('w, TokenDataResult
       list CursorPaginatedResult) client_op" where
  "get_account_nfts ra address symbol carbon_token_id carbon_series_id page_size cursor extended
       check_address_reserved_byte =
     call ra (de_CursorPaginatedResult (de_vec (de_TokenDataResult (api_float_text ra)))) (lit
       ''getAccountNFTs'')
       [J_String address, J_String symbol, json_u64 carbon_token_id, json_u64 carbon_series_id, json_u32
       page_size, J_String cursor, J_Bool extended, J_Bool check_address_reserved_byte]"

definition get_account_nfts_with_address_type ::
    "'w rpc_api \<Rightarrow> rstring \<Rightarrow> rstring \<Rightarrow> u64 \<Rightarrow> u64 \<Rightarrow>
       u32 \<Rightarrow> rstring \<Rightarrow> bool \<Rightarrow> bool \<Rightarrow> rstring \<Rightarrow>
       ('w, TokenDataResult list CursorPaginatedResult) client_op" where
  "get_account_nfts_with_address_type ra address symbol carbon_token_id carbon_series_id page_size cursor
       extended check_address_reserved_byte address_type =
     call ra (de_CursorPaginatedResult (de_vec (de_TokenDataResult (api_float_text ra)))) (lit
       ''getAccountNFTs'')
       [J_String address, J_String symbol, json_u64 carbon_token_id, json_u64 carbon_series_id, json_u32
       page_size, J_String cursor, J_Bool extended, J_Bool check_address_reserved_byte, J_String address_type]"

definition get_account_owned_tokens ::
    "'w rpc_api \<Rightarrow> rstring \<Rightarrow> rstring \<Rightarrow> u64 \<Rightarrow> u32 \<Rightarrow>
       rstring \<Rightarrow> bool \<Rightarrow> ('w, TokenResult list CursorPaginatedResult) client_op" where
  "get_account_owned_tokens ra address symbol carbon_token_id page_size cursor check_address_reserved_byte =
     call ra (de_CursorPaginatedResult (de_vec (de_TokenResult (api_float_text ra)))) (lit
       ''getAccountOwnedTokens'')
       [J_String address, J_String symbol, json_u64 carbon_token_id, json_u32 page_size, J_String cursor,
       J_Bool check_address_reserved_byte]"

definition get_account_owned_tokens_with_address_type ::
    "'w rpc_api \<Rightarrow> rstring \<Rightarrow> rstring \<Rightarrow> u64 \<Rightarrow> u32 \<Rightarrow>
       rstring \<Rightarrow> bool \<Rightarrow> rstring \<Rightarrow> ('w, TokenResult list
       CursorPaginatedResult) client_op" where
  "get_account_owned_tokens_with_address_type ra address symbol carbon_token_id page_size cursor
       check_address_reserved_byte address_type =
     call ra (de_CursorPaginatedResult (de_vec (de_TokenResult (api_float_text ra)))) (lit
       ''getAccountOwnedTokens'')
       [J_String address, J_String symbol, json_u64 carbon_token_id, json_u32 page_size, J_String cursor,
       J_Bool check_address_reserved_byte, J_String address_type]"

definition get_account_owned_token_series ::
    "'w rpc_api \<Rightarrow> rstring \<Rightarrow> rstring \<Rightarrow> u64 \<Rightarrow> u32 \<Rightarrow>
       rstring \<Rightarrow> bool \<Rightarrow> ('w, TokenSeriesResult list CursorPaginatedResult) client_op"
       where
  "get_account_owned_token_series ra address symbol carbon_token_id page_size cursor
       check_address_reserved_byte =
     call ra (de_CursorPaginatedResult (de_vec (de_TokenSeriesResult (api_float_text ra)))) (lit
       ''getAccountOwnedTokenSeries'')
       [J_String address, J_String symbol, json_u64 carbon_token_id, json_u32 page_size, J_String cursor,
       J_Bool check_address_reserved_byte]"

definition get_account_owned_token_series_with_address_type ::
    "'w rpc_api \<Rightarrow> rstring \<Rightarrow> rstring \<Rightarrow> u64 \<Rightarrow> u32 \<Rightarrow>
       rstring \<Rightarrow> bool \<Rightarrow> rstring \<Rightarrow> ('w, TokenSeriesResult list
       CursorPaginatedResult) client_op" where
  "get_account_owned_token_series_with_address_type ra address symbol carbon_token_id page_size cursor
       check_address_reserved_byte address_type =
     call ra (de_CursorPaginatedResult (de_vec (de_TokenSeriesResult (api_float_text ra)))) (lit
       ''getAccountOwnedTokenSeries'')
       [J_String address, J_String symbol, json_u64 carbon_token_id, json_u32 page_size, J_String cursor,
       J_Bool check_address_reserved_byte, J_String address_type]"

definition get_auctions_count ::
    "'w rpc_api \<Rightarrow> rstring \<Rightarrow> rstring \<Rightarrow> ('w, u64) client_op" where
  "get_auctions_count ra chain symbol =
     op_bind (call_value ra (lit ''getAuctionsCount'')
       [J_String chain, J_String symbol]) (\<lambda>v. op_lift (coerce_u64 v))"

definition get_auctions ::
    "'w rpc_api \<Rightarrow> rstring \<Rightarrow> rstring \<Rightarrow> u32 \<Rightarrow> u32 \<Rightarrow>
       ('w, AuctionResult list PaginatedResult) client_op" where
  "get_auctions ra chain symbol page page_size =
     call ra (de_PaginatedResult (de_vec de_AuctionResult)) (lit ''getAuctions'')
       [J_String chain, J_String symbol, json_u32 page, json_u32 page_size]"

definition get_auction ::
    "'w rpc_api \<Rightarrow> rstring \<Rightarrow> rstring \<Rightarrow> rstring \<Rightarrow> ('w,
       AuctionResult) client_op" where
  "get_auction ra chain symbol token_id =
     call ra de_AuctionResult (lit ''getAuction'') [J_String chain, J_String symbol, J_String token_id]"

definition get_nft ::
    "'w rpc_api \<Rightarrow> rstring \<Rightarrow> rstring \<Rightarrow> bool \<Rightarrow> ('w,
       TokenDataResult) client_op" where
  "get_nft ra symbol token_id extended =
     call ra (de_TokenDataResult (api_float_text ra)) (lit ''getNFT'')
       [J_String symbol, J_String token_id, J_Bool extended]"

definition get_nfts_text ::
    "'w rpc_api \<Rightarrow> rstring \<Rightarrow> rstring \<Rightarrow> bool \<Rightarrow> ('w,
       TokenDataResult list) client_op" where
  "get_nfts_text ra symbol token_ids extended =
     call ra (de_vec (de_TokenDataResult (api_float_text ra))) (lit ''getNFTs'')
       [J_String symbol, J_String token_ids, J_Bool extended]"

definition get_nfts ::
    "'w rpc_api \<Rightarrow> rstring \<Rightarrow> rstring list \<Rightarrow> bool \<Rightarrow> ('w,
       TokenDataResult list) client_op" where
  "get_nfts ra symbol token_ids extended = get_nfts_text ra symbol (join_comma token_ids) extended"

definition get_archive :: "'w rpc_api \<Rightarrow> rstring \<Rightarrow> ('w, ArchiveResult) client_op" where
  "get_archive ra hash = call ra de_ArchiveResult (lit ''getArchive'') [J_String hash]"

definition write_archive_base64 ::
    "'w rpc_api \<Rightarrow> rstring \<Rightarrow> u32 \<Rightarrow> rstring \<Rightarrow> ('w, bool)
       client_op" where
  "write_archive_base64 ra hash block_index content =
     op_bind (call_value ra (lit ''writeArchive'')
       [J_String hash, json_u32 block_index, J_String content]) (\<lambda>v. op_lift (coerce_bool v))"

definition read_archive ::
    "'w rpc_api \<Rightarrow> rstring \<Rightarrow> u32 \<Rightarrow> ('w, rstring) client_op" where
  "read_archive ra hash block_index =
     call ra de_string (lit ''readArchive'') [J_String hash, json_u32 block_index]"

definition invoke_raw_script ::
    "'w rpc_api \<Rightarrow> rstring \<Rightarrow> rstring \<Rightarrow> ('w, ScriptResult) client_op" where
  "invoke_raw_script ra chain script_hex =
     call ra de_ScriptResult (lit ''invokeRawScript'') [J_String chain, J_String script_hex]"

definition get_phantasma_vm_config ::
    "'w rpc_api \<Rightarrow> rstring \<Rightarrow> ('w, PhantasmaVmConfigResult) client_op" where
  "get_phantasma_vm_config ra chain =
     call ra de_PhantasmaVmConfigResult (lit ''getPhantasmaVmConfig'') [J_String chain]"

definition get_block_height_with_raw :: "'w rpc_api \<Rightarrow> rstring \<Rightarrow> ('w, u64 RpcCallResult) client_op" where
  "get_block_height_with_raw ra chain =
     op_bind (call_value_with_raw ra (lit ''getBlockHeight'') [J_String chain]) (\<lambda>response.
     op_bind (op_lift (coerce_u64 (rr_raw_result response))) (\<lambda>v.
       op_return (map_value response v)))"

text \<open>A later token of the same symbol replaces an earlier one.\<close>

definition get_tokens_as_map :: "'w rpc_api \<Rightarrow> bool \<Rightarrow> ('w, rstring \<Rightarrow> TokenResult option) client_op" where
  "get_tokens_as_map ra extended =
     op_bind (get_tokens ra extended) (\<lambda>tokens.
       op_return (fold (\<lambda>token m. m(tore_symbol token \<mapsto> token)) tokens Map.empty))"

definition write_archive :: "'w rpc_api \<Rightarrow> rstring \<Rightarrow> u32 \<Rightarrow> bytes \<Rightarrow> ('w, bool) client_op" where
  "write_archive ra hash block_index content =
     write_archive_base64 ra hash block_index (api_base64_encode ra content)"

section \<open>Helpers on the answers\<close>

text \<open>\<open>split(',')\<close>: always at least one piece.\<close>

fun split_comma :: "bytes \<Rightarrow> bytes list" where
  "split_comma [] = [[]]"
| "split_comma (b # bs) =
     (if b = 44 then [] # split_comma bs
      else case split_comma bs of [] \<Rightarrow> [[b]] | piece # pieces \<Rightarrow> (b # piece) # pieces)"

definition has_flag :: "TokenResult \<Rightarrow> rstring \<Rightarrow> bool" where
  "has_flag token flag =
     list_ex (\<lambda>item. trim_end (trim_start item) = string_bytes flag) (split_comma (string_bytes (tore_flags token)))"

definition is_fungible :: "TokenResult \<Rightarrow> bool" where "is_fungible token = has_flag token (lit ''Fungible'')"
definition is_non_fungible :: "TokenResult \<Rightarrow> bool" where "is_non_fungible token = has_flag token (lit ''NonFungible'')"
definition is_burnable :: "TokenResult \<Rightarrow> bool" where "is_burnable token = has_flag token (lit ''Burnable'')"
definition is_divisible :: "TokenResult \<Rightarrow> bool" where "is_divisible token = has_flag token (lit ''Divisible'')"
definition is_fiat :: "TokenResult \<Rightarrow> bool" where "is_fiat token = has_flag token (lit ''Fiat'')"
definition is_finite :: "TokenResult \<Rightarrow> bool" where "is_finite token = has_flag token (lit ''Finite'')"
definition is_fuel :: "TokenResult \<Rightarrow> bool" where "is_fuel token = has_flag token (lit ''Fuel'')"
definition is_mintable :: "TokenResult \<Rightarrow> bool" where "is_mintable token = has_flag token (lit ''Mintable'')"
definition is_stakable :: "TokenResult \<Rightarrow> bool" where "is_stakable token = has_flag token (lit ''Stakable'')"
definition is_transferable :: "TokenResult \<Rightarrow> bool" where "is_transferable token = has_flag token (lit ''Transferable'')"

definition balance_decimal_amount :: "BalanceResult \<Rightarrow> bytes result" where
  "balance_decimal_amount b = convert_decimals (string_bytes (br_amount b)) (br_decimals b)"

definition stake_decimal_amount :: "StakeResult \<Rightarrow> bytes result" where
  "stake_decimal_amount s = convert_decimals (string_bytes (sr_amount s)) 8"

definition token_balance :: "AccountResult \<Rightarrow> rstring \<Rightarrow> BalanceResult option" where
  "token_balance account symbol = List.find (\<lambda>balance. br_symbol balance = symbol) (acre_balances account)"

text \<open>\<open>AccountResult::get_token_balance\<close>: the balance, and the account with a zero balance added when it had none.\<close>

definition account_token_balance :: "AccountResult \<Rightarrow> rstring \<Rightarrow> u32 \<Rightarrow> BalanceResult \<times> AccountResult" where
  "account_token_balance account symbol decimals =
     (case position (\<lambda>balance. br_symbol balance = symbol) (acre_balances account) of
        Some index \<Rightarrow> (acre_balances account ! index, account)
      | None \<Rightarrow>
          let zero = \<lparr>br_chain = lit ''main'', br_amount = lit ''0'', br_symbol = symbol, br_decimals = decimals,
            br_ids = None\<rparr>
          in (zero, account\<lparr>acre_balances := acre_balances account @ [zero]\<rparr>))"

definition state_is_success :: "TransactionResult \<Rightarrow> bool" where
  "state_is_success t = tx_state_is_success (trre_state t)"

definition state_is_fault :: "TransactionResult \<Rightarrow> bool" where
  "state_is_fault t = tx_state_is_fault (trre_state t)"

definition decode_result :: "nat \<Rightarrow> num_bigint \<Rightarrow> crypto_api \<Rightarrow> ScriptResult \<Rightarrow> VMObject result" where
  "decode_result depth nb ca s = bind_result (decode_hex ca (scre_result s)) (object_from_bytes depth nb)"

definition decode_results :: "nat \<Rightarrow> num_bigint \<Rightarrow> crypto_api \<Rightarrow> ScriptResult \<Rightarrow> nat \<Rightarrow> VMObject result" where
  "decode_results depth nb ca s index =
     (if index < length (scre_results s)
      then bind_result (decode_hex ca (scre_results s ! index)) (object_from_bytes depth nb)
      else Err (Rpc None ''script result index out of range: ''))"

definition parse_token_create_result_from_tx :: "crypto_api \<Rightarrow> TransactionResult \<Rightarrow> u64 option result" where
  "parse_token_create_result_from_tx ca tx =
     (if trre_result tx = lit '''' then Ok None
      else bind_result (parse_create_token_result ca (trre_result tx)) (\<lambda>token_id. Ok (Some token_id)))"

definition parse_token_series_result_from_tx :: "crypto_api \<Rightarrow> TransactionResult \<Rightarrow> u32 option result" where
  "parse_token_series_result_from_tx ca tx =
     (if trre_result tx = lit '''' then Ok None
      else bind_result (parse_create_token_series_result ca (trre_result tx)) (\<lambda>token_id. Ok (Some token_id)))"

end
