(* ===== verification/RpcFees.thy ===== *)
theory RpcFees
  imports RpcMethods
begin

text \<open>
  Fees through a node (\<open>src/src/rpc.rs\<close>): the gas config it answers with and its conversion, the quote of a dry
  run, the walk over paged answers, what a burned NFT holds, and the planner with its cache. A configuration is
  reused until the time to live of the client has passed since it was fetched.
\<close>

section \<open>Gas config and dry runs\<close>

definition missing_gas_config_field :: "string \<Rightarrow> phantasma_error" where
  "missing_gas_config_field fname = Rpc None (''getGasConfig field '' @ fname @ '' is missing or empty'')"

definition parse_u64_field :: "rstring option \<Rightarrow> string \<Rightarrow> u64 result" where
  "parse_u64_field v fname =
     (case v of
        None \<Rightarrow> Err (missing_gas_config_field fname)
      | Some text \<Rightarrow>
          if text = lit '''' then Err (missing_gas_config_field fname)
          else case parse_u64 text of
              Some n \<Rightarrow> Ok n
            | None \<Rightarrow> Err (Rpc None (''getGasConfig field '' @ fname @ '': '')))"

text \<open>\<open>ok_or_else\<close> of a field that is a number on the wire.\<close>

definition required_field :: "'a option \<Rightarrow> string \<Rightarrow> 'a result" where
  "required_field v fname =
     (case v of None \<Rightarrow> Err (missing_gas_config_field fname) | Some x \<Rightarrow> Ok x)"

text \<open>The fields every version has, then those of gas model v2.\<close>

definition base_gas_config :: "GasConfigDataResult \<Rightarrow> GasConfig result" where
  "base_gas_config d =
     bind_result (parse_u64_field (gcdr_fee_multiplier d) ''feeMultiplier'') (\<lambda>fee_multiplier.
     bind_result (parse_u64_field (gcdr_gas_token_id d) ''gasTokenId'') (\<lambda>gas_token_id.
     bind_result (parse_u64_field (gcdr_data_token_id d) ''dataTokenId'') (\<lambda>data_token_id.
     bind_result (parse_u64_field (gcdr_minimum_gas_offer d) ''minimumGasOffer'') (\<lambda>minimum_gas_offer.
     bind_result (parse_u64_field (gcdr_data_escrow_per_row d) ''dataEscrowPerRow'') (\<lambda>data_escrow_per_row.
     bind_result (parse_u64_field (gcdr_gas_fee_transfer d) ''gasFeeTransfer'') (\<lambda>gas_fee_transfer.
     bind_result (parse_u64_field (gcdr_gas_fee_query d) ''gasFeeQuery'') (\<lambda>gas_fee_query.
     bind_result (parse_u64_field (gcdr_gas_fee_create_token_base d) ''gasFeeCreateTokenBase'') (\<lambda>gas_fee_create_token_base.
     bind_result (parse_u64_field (gcdr_gas_fee_create_token_symbol d) ''gasFeeCreateTokenSymbol'') (\<lambda>gas_fee_create_token_symbol.
     bind_result (parse_u64_field (gcdr_gas_fee_create_token_series d) ''gasFeeCreateTokenSeries'') (\<lambda>gas_fee_create_token_series.
     bind_result (parse_u64_field (gcdr_gas_fee_per_byte d) ''gasFeePerByte'') (\<lambda>gas_fee_per_byte.
     bind_result (parse_u64_field (gcdr_gas_fee_register_name d) ''gasFeeRegisterName'') (\<lambda>gas_fee_register_name.
     bind_result (parse_u64_field (gcdr_gas_burn_ratio_mul d) ''gasBurnRatioMul'') (\<lambda>gas_burn_ratio_mul.
       Ok \<lparr>gc_version = gcdr_version d, gc_max_name_length = gcdr_max_name_length d,
           gc_max_token_symbol_length = gcdr_max_token_symbol_length d, gc_fee_shift = gcdr_fee_shift d,
           gc_max_structure_size = gcdr_max_structure_size d, gc_fee_multiplier = fee_multiplier,
           gc_gas_token_id = gas_token_id, gc_data_token_id = data_token_id,
           gc_minimum_gas_offer = minimum_gas_offer, gc_data_escrow_per_row = data_escrow_per_row,
           gc_gas_fee_transfer = gas_fee_transfer, gc_gas_fee_query = gas_fee_query,
           gc_gas_fee_create_token_base = gas_fee_create_token_base,
           gc_gas_fee_create_token_symbol = gas_fee_create_token_symbol,
           gc_gas_fee_create_token_series = gas_fee_create_token_series,
           gc_gas_fee_per_byte = gas_fee_per_byte, gc_gas_fee_register_name = gas_fee_register_name,
           gc_gas_burn_ratio_mul = gas_burn_ratio_mul,
           gc_gas_burn_ratio_shift = gcdr_gas_burn_ratio_shift d, gc_minimum_gas_bill = 0,
           gc_gas_producer_ratio_mul = 0, gc_gas_producer_ratio_shift = 0, gc_gas_dapp_ratio_mul = 0,
           gc_gas_dapp_ratio_shift = 0, gc_policy_fee_create_token_base = 0,
           gc_policy_fee_create_token_symbol = 0, gc_policy_fee_create_token_series = 0,
           gc_policy_fee_register_name = 0, gc_legacy_data_escrow_per_row = 0\<rparr>)))))))))))))"

definition v2_gas_config :: "GasConfigDataResult \<Rightarrow> GasConfig \<Rightarrow> GasConfig result" where
  "v2_gas_config d config =
     bind_result (parse_u64_field (gcdr_minimum_gas_bill d) ''minimumGasBill'') (\<lambda>minimum_gas_bill.
     bind_result (parse_u64_field (gcdr_gas_producer_ratio_mul d) ''gasProducerRatioMul'') (\<lambda>gas_producer_ratio_mul.
     bind_result (required_field (gcdr_gas_producer_ratio_shift d) ''gasProducerRatioShift'') (\<lambda>gas_producer_ratio_shift.
     bind_result (parse_u64_field (gcdr_gas_dapp_ratio_mul d) ''gasDappRatioMul'') (\<lambda>gas_dapp_ratio_mul.
     bind_result (required_field (gcdr_gas_dapp_ratio_shift d) ''gasDappRatioShift'') (\<lambda>gas_dapp_ratio_shift.
     bind_result (parse_u64_field (gcdr_policy_fee_create_token_base d) ''policyFeeCreateTokenBase'') (\<lambda>policy_fee_create_token_base.
     bind_result (parse_u64_field (gcdr_policy_fee_create_token_symbol d) ''policyFeeCreateTokenSymbol'') (\<lambda>policy_fee_create_token_symbol.
     bind_result (parse_u64_field (gcdr_policy_fee_create_token_series d) ''policyFeeCreateTokenSeries'') (\<lambda>policy_fee_create_token_series.
     bind_result (parse_u64_field (gcdr_policy_fee_register_name d) ''policyFeeRegisterName'') (\<lambda>policy_fee_register_name.
     bind_result (parse_u64_field (gcdr_legacy_data_escrow_per_row d) ''legacyDataEscrowPerRow'') (\<lambda>legacy_data_escrow_per_row.
       Ok (config\<lparr>gc_minimum_gas_bill := minimum_gas_bill, gc_gas_producer_ratio_mul := gas_producer_ratio_mul,
         gc_gas_producer_ratio_shift := gas_producer_ratio_shift,
         gc_gas_dapp_ratio_mul := gas_dapp_ratio_mul, gc_gas_dapp_ratio_shift := gas_dapp_ratio_shift,
         gc_policy_fee_create_token_base := policy_fee_create_token_base,
         gc_policy_fee_create_token_symbol := policy_fee_create_token_symbol,
         gc_policy_fee_create_token_series := policy_fee_create_token_series,
         gc_policy_fee_register_name := policy_fee_register_name,
         gc_legacy_data_escrow_per_row := legacy_data_escrow_per_row\<rparr>)))))))))))"

definition to_gas_config :: "GasConfigResult \<Rightarrow> GasConfig result" where
  "to_gas_config r =
     (case gcr_gas_config r of
        None \<Rightarrow> Err (Rpc None ''getGasConfig response has no gasConfig section'')
      | Some d \<Rightarrow>
          bind_result (base_gas_config d) (\<lambda>base.
          bind_result (if 1 \<le> gc_version base then v2_gas_config d base else Ok base) (\<lambda>config.
            case gcr_units_per_block_data_byte r of
              Some units \<Rightarrow>
                if ucast units \<noteq> GAS_MODEL_V2_UNITS_PER_BLOCK_DATA_BYTE
                then Err (Rpc None ''this node prices block data at '') else Ok config
            | None \<Rightarrow> Ok config)))"

definition parse_estimate_u64 :: "rstring option \<Rightarrow> string \<Rightarrow> u64 result" where
  "parse_estimate_u64 v fname =
     (let missing = Rpc None (''estimateTransaction field '' @ fname @ '' is missing or empty'')
      in case v of
          None \<Rightarrow> Err missing
        | Some text \<Rightarrow>
            if text = lit '''' then Err missing
            else case parse_u64 text of
                Some n \<Rightarrow> Ok n
              | None \<Rightarrow> Err (Rpc None (''estimateTransaction field '' @ fname @ '': '')))"

definition to_fee_quote :: "EstimateTransactionResult \<Rightarrow> FeeQuote result" where
  "to_fee_quote r =
     (if etr_would_abort r
      then Err (Rpc None (''estimateTransaction reported the transaction would abort: '' @ msg_of (etr_abort_reason r)))
      else
        bind_result (parse_estimate_u64 (etr_recommended_max_gas r) ''recommendedMaxGas'') (\<lambda>max_gas.
        bind_result (parse_estimate_u64 (etr_recommended_max_data r) ''recommendedMaxData'') (\<lambda>max_data.
        bind_result (parse_estimate_u64 (etr_gas_bill_kcal_base r) ''gasBillKcalBase'') (\<lambda>bill.
          Ok \<lparr>fq_max_gas = max_gas, fq_max_data = max_data, fq_expected_gas_bill = bill\<rparr>))))"

section \<open>Paged answers\<close>

definition MAX_PAGES :: nat where "MAX_PAGES = 1000"

text \<open>The loop of \<open>read_all_pages\<close>, by the pages it may still ask for.\<close>

primrec read_pages ::
    "(rstring \<Rightarrow> ('w, 'i list CursorPaginatedResult) client_op) \<Rightarrow> nat \<Rightarrow> rstring list \<Rightarrow> rstring \<Rightarrow> 'i list
      \<Rightarrow> ('w, 'i list) client_op" where
  "read_pages page 0 seen cursor items = op_lift (Err (Rpc None ''the node kept returning pages past ''))"
| "read_pages page (Suc n) seen cursor items =
     op_bind (page cursor) (\<lambda>result.
       let items = items @ (case cpr_result result of None \<Rightarrow> [] | Some xs \<Rightarrow> xs)
       in case cpr_cursor result of
           Some next_cursor \<Rightarrow>
             if next_cursor = lit '''' \<or> next_cursor \<in> set seen then op_return items
             else read_pages page n (next_cursor # seen) next_cursor items
         | None \<Rightarrow> op_return items)"

definition read_all_pages ::
    "(rstring \<Rightarrow> ('w, 'i list CursorPaginatedResult) client_op) \<Rightarrow> ('w, 'i list) client_op" where
  "read_all_pages page = read_pages page MAX_PAGES [] (lit '''') []"

section \<open>What an NFT holds\<close>

definition ADDRESS_TYPE_CARBON :: rstring where "ADDRESS_TYPE_CARBON = lit ''Carbon''"

definition parse_carbon_id :: "rstring \<Rightarrow> rstring \<Rightarrow> u64 result" where
  "parse_carbon_id v symbol =
     (case parse_u64 v of
        Some n \<Rightarrow> Ok n
      | None \<Rightarrow> Err (Rpc None (''token '' @ msg_of symbol @ '' has no Carbon id: '')))"

text \<open>The balances of the NFT's address, each resolved to its token.\<close>

definition infused_balance :: "'w rpc_api \<Rightarrow> BalanceResult \<Rightarrow> ('w, InfusedAsset) client_op" where
  "infused_balance ra balance =
     op_bind (op_map_err (\<lambda>e. Rpc None (''resolving infused token '' @ msg_of (br_symbol balance) @ '': '' @ error_text e))
       (get_token ra (br_symbol balance) False)) (\<lambda>token.
     op_bind (op_lift (parse_carbon_id (tore_carbon_id token) (br_symbol balance))) (\<lambda>carbon_id.
       op_return \<lparr>ia_token_id = Some carbon_id, ia_non_fungible = False, ia_instance_count = None,
         ia_burner_holds_token = False\<rparr>))"

text \<open>The non-fungible tokens it owns, with their number.\<close>

definition infused_token :: "'w rpc_api \<Rightarrow> rstring \<Rightarrow> TokenResult \<Rightarrow> ('w, InfusedAsset) client_op" where
  "infused_token ra address token =
     op_bind (op_map_err (\<lambda>e. Rpc None (''reading infused '' @ msg_of (tore_symbol token) @ '' instances: '' @ error_text e))
       (get_token_balance_with_address_type ra address (tore_symbol token) (lit ''main'') False ADDRESS_TYPE_CARBON))
       (\<lambda>balance.
     op_bind (op_lift (case parse_u32 (br_amount balance) of
         Some n \<Rightarrow> Ok n | None \<Rightarrow> Err (Rpc None (''infused '' @ msg_of (tore_symbol token) @ '' instance count ''))))
       (\<lambda>instances.
     op_bind (op_lift (parse_carbon_id (tore_carbon_id token) (tore_symbol token))) (\<lambda>carbon_id.
       op_return \<lparr>ia_token_id = Some carbon_id, ia_non_fungible = True, ia_instance_count = Some instances,
         ia_burner_holds_token = False\<rparr>)))"

definition nft_address_text :: "'w rpc_api \<Rightarrow> u64 \<Rightarrow> u64 \<Rightarrow> rstring" where
  "nft_address_text ra token_id instance_id = api_hex_encode ra (array_bytes (get_nft_address token_id instance_id))"

definition infused_assets :: "'w rpc_api \<Rightarrow> u64 \<Rightarrow> u64 \<Rightarrow> ('w, InfusedAsset list) client_op" where
  "infused_assets ra token_id instance_id =
     (let address = nft_address_text ra token_id instance_id
      in op_bind (read_all_pages (\<lambda>cursor.
           get_account_fungible_tokens_with_address_type ra address (lit '''') 0 100 cursor False ADDRESS_TYPE_CARBON))
           (\<lambda>balances.
         op_bind (op_for (infused_balance ra) balances) (\<lambda>fungible.
         op_bind (read_all_pages (\<lambda>cursor.
           get_account_owned_tokens_with_address_type ra address (lit '''') 0 100 cursor False ADDRESS_TYPE_CARBON))
           (\<lambda>owned.
         op_bind (op_for (infused_token ra address) owned) (\<lambda>non_fungible.
           op_return (fungible @ non_fungible))))))"

section \<open>The fee planner\<close>

record PlanRequestOptions =
  pr_facts :: FeePlanOptions
  pr_refresh_config :: bool

text \<open>The cached config that may still be used; \<open>elapsed\<close> saturates.\<close>

definition fresh_config :: "'w rpc_api \<Rightarrow> 'w PhantasmaRpc \<Rightarrow> CachedGasConfig option" where
  "fresh_config ra c =
     (case rc_fee_cache c of
        Some cached \<Rightarrow>
          if api_instant ra (rc_transport c) - cg_fetched_at cached < rc_fee_config_ttl c then Some cached else None
      | None \<Rightarrow> None)"

definition planner_read :: "'w rpc_api \<Rightarrow> bool \<Rightarrow> ('w, CachedGasConfig) client_op" where
  "planner_read ra refresh =
     op_bind (op_get (\<lambda>c. if refresh then None else fresh_config ra c)) (\<lambda>hit.
       case hit of
         Some cached \<Rightarrow> op_return cached
       | None \<Rightarrow>
           op_bind (get_gas_config ra) (\<lambda>result.
           op_bind (op_lift (to_gas_config result)) (\<lambda>config.
           op_bind (op_get (\<lambda>c.
             \<lparr>cg_config = config,
              cg_params = \<lparr>cfp_expiry_window = millis (gcr_expiry_window result),
                cfp_block_rate_target = millis (gcr_block_rate_target result),
                cfp_gas_model_version = gcr_gas_model_version result\<rparr>,
              cg_fetched_at = api_instant ra (rc_transport c)\<rparr>)) (\<lambda>entry.
           op_bind (op_modify (\<lambda>c. c\<lparr>rc_fee_cache := Some entry\<rparr>)) (\<lambda>_.
             op_return entry)))))"

definition planner_config :: "'w rpc_api \<Rightarrow> bool \<Rightarrow> ('w, GasConfig) client_op" where
  "planner_config ra refresh = op_bind (planner_read ra refresh) (\<lambda>entry. op_return (cg_config entry))"

definition planner_chain_params :: "'w rpc_api \<Rightarrow> bool \<Rightarrow> ('w, ChainFeeParams) client_op" where
  "planner_chain_params ra refresh = op_bind (planner_read ra refresh) (\<lambda>entry. op_return (cg_params entry))"

definition planner_invalidate :: "('w, unit) client_op" where
  "planner_invalidate = op_modify (\<lambda>c. c\<lparr>rc_fee_cache := None\<rparr>)"

definition with_infusions :: "'w rpc_api \<Rightarrow> TxMsg \<Rightarrow> FeePlanOptions \<Rightarrow> ('w, FeePlanOptions) client_op" where
  "with_infusions ra msg facts =
     (if po_infusions facts \<noteq> None then op_return facts
      else let burned = burned_instances msg
        in if burned = [] then op_return facts
           else op_bind (op_for (\<lambda>inst.
               op_map_err (\<lambda>e. Rpc None (''reading what the burned NFT holds: '' @ error_text e))
                 (infused_assets ra (bi_token_id inst) (bi_instance_id inst))) burned) (\<lambda>held.
             op_return (facts\<lparr>po_infusions := Some (concat held)\<rparr>)))"

definition planner_plan ::
    "nat \<Rightarrow> num_bigint \<Rightarrow> 'w rpc_api \<Rightarrow> TxMsg \<Rightarrow> PlanRequestOptions \<Rightarrow> ('w, FeePlan) client_op" where
  "planner_plan depth nb ra msg options =
     op_bind (planner_config ra (pr_refresh_config options)) (\<lambda>config.
     op_bind (with_infusions ra msg (pr_facts options)) (\<lambda>facts.
       op_lift (plan_fees depth nb msg config facts)))"

definition plan_with :: "nat \<Rightarrow> num_bigint \<Rightarrow> GasConfig \<Rightarrow> TxMsg \<Rightarrow> FeePlanOptions \<Rightarrow> FeePlan result" where
  "plan_with depth nb config msg options = plan_fees depth nb msg config options"

section \<open>What the planner does to the client\<close>

definition QUERY_METHODS :: "rstring set" where
  "QUERY_METHODS = lit ` {''getGasConfig'', ''getToken'', ''getAccountFungibleTokens'', ''getAccountOwnedTokens'',
     ''getTokenBalance''}"

context client_contract
begin

lemma pages:
  assumes "\<And>cursor. keeps R (page cursor)"
  shows "keeps R (read_pages page n seen cursor items)"
  by (induction n arbitrary: seen cursor items)
    (auto simp: Let_def intro!: bind lift assms split: option.split)

lemma all_pages: "(\<And>cursor. keeps R (page cursor)) \<Longrightarrow> keeps R (read_all_pages page)"
  unfolding read_all_pages_def by (rule pages)

lemma reads_config:
  assumes "may_post (lit ''getGasConfig'')"
  shows "keeps R (planner_read ra refresh)" "keeps R (planner_config ra refresh)"
    "keeps R (planner_chain_params ra refresh)"
  unfolding planner_config_def planner_chain_params_def planner_read_def get_gas_config_def
  by (auto intro!: bind lift get set_cache calls assms split: option.split)

lemma reads_infusions:
  assumes "\<And>rpc_method. rpc_method \<in> QUERY_METHODS \<Longrightarrow> may_post rpc_method"
  shows "keeps R (infused_assets ra token_id instance_id)" "keeps R (with_infusions ra msg facts)"
proof -
  have post: "may_post (lit m)" if "m \<in> {''getGasConfig'', ''getToken'', ''getAccountFungibleTokens'',
      ''getAccountOwnedTokens'', ''getTokenBalance''}" for m
    using that by (intro assms) (auto simp: QUERY_METHODS_def)
  show held: "keeps R (infused_assets ra token_id instance_id)" for token_id instance_id
    unfolding infused_assets_def Let_def infused_balance_def infused_token_def get_token_def
      get_account_fungible_tokens_with_address_type_def get_account_owned_tokens_with_address_type_def
      get_token_balance_with_address_type_def
    by (intro bind lift each all_pages rename_error calls post; simp)
  show "keeps R (with_infusions ra msg facts)"
    unfolding with_infusions_def Let_def by (intro choose bind lift each rename_error held)
qed

lemma plans:
  assumes "\<And>rpc_method. rpc_method \<in> QUERY_METHODS \<Longrightarrow> may_post rpc_method"
  shows "keeps R (planner_plan depth nb ra msg options)"
  unfolding planner_plan_def
  by (intro bind lift reads_config reads_infusions assms) (auto simp: QUERY_METHODS_def)

end

section \<open>Numbers on the wire\<close>

lemma parse_unsigned_text: "parse_unsigned (dec_text (unat n)) = Some (n :: 'a::len word)"
proof -
  have filled: "dec_text (unat n) \<noteq> []" by (subst dec_text.simps) simp
  then obtain b bs where t: "dec_text (unat n) = b # bs" "is_digit b"
    using dec_text_digits(1) [of "unat n"] by (cases "dec_text (unat n)") auto
  then have "b \<noteq> PLUS" by (auto simp: is_digit_def PLUS_def)
  then have "unsigned_digits (dec_text (unat n)) = dec_text (unat n)" by (simp add: unsigned_digits_def t(1))
  then show ?thesis
    using filled dec_text_digits [of "unat n"] unsigned_less [of n, where ?'a = nat] by (simp add: parse_unsigned_def Let_def)
qed

text \<open>The decimal string that carries a 64-bit value.\<close>

definition u64_text :: "u64 \<Rightarrow> rstring" where
  "u64_text n = string_of (dec_text (unat n))"

lemma utf8_digits: "list_all is_digit bs \<Longrightarrow> utf8_valid bs"
  by (rule ascii_valid) (auto simp: list_all_iff is_digit_def word_le_nat_alt word_less_nat_alt)

lemma string_bytes_u64_text: "string_bytes (u64_text n) = dec_text (unat n)"
  by (simp add: u64_text_def utf8_digits dec_text_digits)

lemma parse_u64_text [simp]: "parse_u64 (u64_text n) = Some n"
  by (simp add: parse_u64_def string_bytes_u64_text parse_unsigned_text)

lemma u64_text_nonempty [simp]: "u64_text n \<noteq> lit []"
proof -
  have "dec_text (unat n) \<noteq> []" by (subst dec_text.simps) simp
  moreover have "string_bytes (lit []) = []" by (simp add: lit_def)
  ultimately show ?thesis using string_bytes_u64_text [of n] by metis
qed

lemma parse_u64_field_text [simp]: "parse_u64_field (Some (u64_text n)) fname = Ok n"
  by (simp add: parse_u64_field_def)

lemma required_field_Some [simp]: "required_field (Some x) fname = Ok x"
  by (simp add: required_field_def)

text \<open>What a node answers for a configuration: 64-bit values as decimal strings, the v2 fields only under v2.\<close>

definition wire_gas_config :: "GasConfig \<Rightarrow> GasConfigDataResult" where
  "wire_gas_config c =
     \<lparr>gcdr_version = gc_version c, gcdr_max_name_length = gc_max_name_length c,
      gcdr_max_token_symbol_length = gc_max_token_symbol_length c, gcdr_fee_shift = gc_fee_shift c,
      gcdr_max_structure_size = gc_max_structure_size c,
      gcdr_fee_multiplier = Some (u64_text (gc_fee_multiplier c)),
      gcdr_gas_token_id = Some (u64_text (gc_gas_token_id c)),
      gcdr_data_token_id = Some (u64_text (gc_data_token_id c)),
      gcdr_minimum_gas_offer = Some (u64_text (gc_minimum_gas_offer c)),
      gcdr_data_escrow_per_row = Some (u64_text (gc_data_escrow_per_row c)),
      gcdr_gas_fee_transfer = Some (u64_text (gc_gas_fee_transfer c)),
      gcdr_gas_fee_query = Some (u64_text (gc_gas_fee_query c)),
      gcdr_gas_fee_create_token_base = Some (u64_text (gc_gas_fee_create_token_base c)),
      gcdr_gas_fee_create_token_symbol = Some (u64_text (gc_gas_fee_create_token_symbol c)),
      gcdr_gas_fee_create_token_series = Some (u64_text (gc_gas_fee_create_token_series c)),
      gcdr_gas_fee_per_byte = Some (u64_text (gc_gas_fee_per_byte c)),
      gcdr_gas_fee_register_name = Some (u64_text (gc_gas_fee_register_name c)),
      gcdr_gas_burn_ratio_mul = Some (u64_text (gc_gas_burn_ratio_mul c)),
      gcdr_gas_burn_ratio_shift = gc_gas_burn_ratio_shift c,
      gcdr_minimum_gas_bill = (if has_gas_model_v2 c then Some (u64_text (gc_minimum_gas_bill c)) else None),
      gcdr_gas_producer_ratio_mul = (if has_gas_model_v2 c then Some (u64_text (gc_gas_producer_ratio_mul c)) else None),
      gcdr_gas_producer_ratio_shift = (if has_gas_model_v2 c then Some (gc_gas_producer_ratio_shift c) else None),
      gcdr_gas_dapp_ratio_mul = (if has_gas_model_v2 c then Some (u64_text (gc_gas_dapp_ratio_mul c)) else None),
      gcdr_gas_dapp_ratio_shift = (if has_gas_model_v2 c then Some (gc_gas_dapp_ratio_shift c) else None),
      gcdr_policy_fee_create_token_base = (if has_gas_model_v2 c then Some (u64_text (gc_policy_fee_create_token_base c)) else None),
      gcdr_policy_fee_create_token_symbol = (if has_gas_model_v2 c then Some (u64_text (gc_policy_fee_create_token_symbol c)) else None),
      gcdr_policy_fee_create_token_series = (if has_gas_model_v2 c then Some (u64_text (gc_policy_fee_create_token_series c)) else None),
      gcdr_policy_fee_register_name = (if has_gas_model_v2 c then Some (u64_text (gc_policy_fee_register_name c)) else None),
      gcdr_legacy_data_escrow_per_row = (if has_gas_model_v2 c then Some (u64_text (gc_legacy_data_escrow_per_row c)) else None)\<rparr>"

definition gas_config_answer :: "GasConfig \<Rightarrow> u32 \<Rightarrow> u32 \<Rightarrow> u32 \<Rightarrow> u32 option \<Rightarrow> GasConfigResult" where
  "gas_config_answer c version rate window units =
     \<lparr>gcr_gas_model_version = version, gcr_gas_config = Some (wire_gas_config c), gcr_block_rate_target = rate,
      gcr_expiry_window = window, gcr_units_per_block_data_byte = units\<rparr>"

definition without_v2 :: "GasConfig \<Rightarrow> GasConfig" where
  "without_v2 c =
     c\<lparr>gc_minimum_gas_bill := 0, gc_gas_producer_ratio_mul := 0, gc_gas_producer_ratio_shift := 0,
       gc_gas_dapp_ratio_mul := 0, gc_gas_dapp_ratio_shift := 0, gc_policy_fee_create_token_base := 0,
       gc_policy_fee_create_token_symbol := 0, gc_policy_fee_create_token_series := 0,
       gc_policy_fee_register_name := 0, gc_legacy_data_escrow_per_row := 0\<rparr>"

lemma base_gas_config_wire: "base_gas_config (wire_gas_config c) = Ok (without_v2 c)"
  by (cases c) (simp add: base_gas_config_def wire_gas_config_def without_v2_def)

lemma v2_gas_config_wire:
  "has_gas_model_v2 c \<Longrightarrow> v2_gas_config (wire_gas_config c) (without_v2 c) = Ok c"
  by (cases c) (simp add: v2_gas_config_def wire_gas_config_def without_v2_def)

lemma gas_config_image_cases: "gas_config_image c = (if 1 \<le> gc_version c then c else without_v2 c)"
proof -
  have "(1 \<le> gc_version c) = (gc_version c \<noteq> 0)" by (simp add: word_le_nat_alt Suc_le_eq unat_gt_0)
  then show ?thesis by (simp add: gas_config_image_def without_v2_def)
qed

lemma block_data_rate: "(ucast (u :: u32) = (25 :: u64)) = (u = 25)"
proof
  assume "ucast u = (25 :: u64)"
  then have "unat (ucast u :: u64) = 25" by simp
  then have "unat u = 25" using unat_ucast_small [of u, where 'b = 64] unsigned_less [of u, where ?'a = nat] by simp
  then show "u = 25" by (simp add: word_unat_eq_iff)
qed simp

lemma to_gas_config_answer:
  "to_gas_config (gas_config_answer c version rate window units) =
     (if units = None \<or> units = Some 25 then Ok (gas_config_image c)
      else Err (Rpc None ''this node prices block data at ''))"
proof -
  have "gc_version (without_v2 c) = gc_version c" by (simp add: without_v2_def)
  then show ?thesis
    using v2_gas_config_wire [of c]
    by (cases units)
      (simp_all add: to_gas_config_def gas_config_answer_def base_gas_config_wire gas_config_image_cases
        has_gas_model_v2_def GAS_MODEL_V2_UNITS_PER_BLOCK_DATA_BYTE_def block_data_rate)
qed

text \<open>C23: The gas config a node answers with arrives as the configuration of the chain, through the JSON text and
  the decimal strings, with the v2 fields zero before gas model v2; a node that prices block data at another rate than
  25 units per byte is refused.
\<close>

theorem gas_config_arrives:
  "map_option to_gas_config (de_GasConfigResult (json_GasConfigResult (gas_config_answer c version rate window units))) =
     Some (if units = None \<or> units = Some 25 then Ok (gas_config_image c)
           else Err (Rpc None ''this node prices block data at ''))"
  by (simp add: json_reads to_gas_config_answer)

section \<open>Walking pages\<close>

definition page_items :: "'i list CursorPaginatedResult \<Rightarrow> 'i list" where
  "page_items r = (case cpr_result r of None \<Rightarrow> [] | Some xs \<Rightarrow> xs)"

text \<open>The pages answered for a list of cursors; each cursor after the first is the one the page before named.\<close>

fun pages_asked ::
    "(rstring \<Rightarrow> ('w, 'i list CursorPaginatedResult) client_op) \<Rightarrow> 'w PhantasmaRpc \<Rightarrow> rstring list
      \<Rightarrow> 'i list CursorPaginatedResult list \<Rightarrow> 'w PhantasmaRpc \<Rightarrow> bool" where
  "pages_asked page c [] [] c' \<longleftrightarrow> c' = c"
| "pages_asked page c (cursor # cursors) (r # rs) c' \<longleftrightarrow>
     (\<exists>c1. page cursor c = (Ok r, c1) \<and> (cursors \<noteq> [] \<longrightarrow> cpr_cursor r = Some (hd cursors)) \<and>
       pages_asked page c1 cursors rs c')"
| "pages_asked page c _ _ c' \<longleftrightarrow> False"

text \<open>A page that names no cursor, the empty one, or one already seen.\<close>

definition ends_walk :: "rstring set \<Rightarrow> 'i list CursorPaginatedResult \<Rightarrow> bool" where
  "ends_walk seen r \<longleftrightarrow> (\<forall>next_cursor. cpr_cursor r = Some next_cursor \<longrightarrow> next_cursor \<in> insert (lit '''') seen)"

definition page_walk ::
    "(rstring \<Rightarrow> ('w, 'i list CursorPaginatedResult) client_op) \<Rightarrow> rstring \<Rightarrow> rstring set \<Rightarrow> nat \<Rightarrow> 'w PhantasmaRpc
      \<Rightarrow> rstring list \<Rightarrow> 'i list CursorPaginatedResult list \<Rightarrow> 'w PhantasmaRpc \<Rightarrow> bool" where
  "page_walk page cursor seen n c cursors rs c' \<longleftrightarrow>
     pages_asked page c (cursor # cursors) rs c' \<and> length rs \<le> n \<and> distinct cursors \<and>
     set cursors \<inter> insert (lit '''') seen = {} \<and> ends_walk (seen \<union> set cursors) (last rs)"

lemma pages_asked_Cons:
  "pages_asked page c (cursor # cursors) rs c' \<longleftrightarrow>
     (\<exists>r rs' c1. rs = r # rs' \<and> page cursor c = (Ok r, c1) \<and> (cursors \<noteq> [] \<longrightarrow> cpr_cursor r = Some (hd cursors)) \<and>
       pages_asked page c1 cursors rs' c')"
  by (cases rs) auto

lemma pages_asked_Nil: "pages_asked page c [] rs c' \<longleftrightarrow> rs = [] \<and> c' = c"
  by (cases rs) auto

lemma page_walk_end:
  "ends_walk seen r \<Longrightarrow> page cursor c = (Ok r, c1) \<Longrightarrow>
     page_walk page cursor seen (Suc n) c cursors rs c' \<longleftrightarrow> cursors = [] \<and> rs = [r] \<and> c' = c1"
  by (cases cursors) (auto simp: page_walk_def pages_asked_Cons pages_asked_Nil ends_walk_def)

lemma page_walk_next:
  assumes "page cursor c = (Ok r, c1)" "cpr_cursor r = Some next_cursor" "next_cursor \<notin> insert (lit '''') seen"
  shows "page_walk page cursor seen (Suc n) c cursors rs c' \<longleftrightarrow>
    (\<exists>cursors' rs'. cursors = next_cursor # cursors' \<and> rs = r # rs' \<and>
       page_walk page next_cursor (insert next_cursor seen) n c1 cursors' rs' c')"
proof (cases cursors)
  case Nil
  then show ?thesis using assms by (auto simp: page_walk_def pages_asked_Cons pages_asked_Nil ends_walk_def)
next
  case (Cons x xs)
  show ?thesis
    unfolding Cons page_walk_def using assms
    by (auto simp: pages_asked_Cons Un_insert_left Un_insert_right)
qed

lemma read_pages_exact:
  "read_pages page n seen cursor items c = (Ok all, c') \<longleftrightarrow>
     (\<exists>cursors rs. page_walk page cursor (set seen) n c cursors rs c' \<and> all = items @ concat (map page_items rs))"
proof (induction n arbitrary: seen cursor items c)
  case 0
  then show ?case by (auto simp: client_simps page_walk_def pages_asked_Cons)
next
  case (Suc n)
  show ?case
  proof (cases "\<exists>r c1. page cursor c = (Ok r, c1)")
    case False
    then show ?thesis
      by (auto simp: op_bind_Ok page_walk_def pages_asked_Cons)
  next
    case True
    then obtain r c1 where r: "page cursor c = (Ok r, c1)" by blast
    have step: "read_pages page (Suc n) seen cursor items c =
        (case cpr_cursor r of
           Some next_cursor \<Rightarrow>
             if next_cursor = lit '''' \<or> next_cursor \<in> set seen then (Ok (items @ page_items r), c1)
             else read_pages page n (next_cursor # seen) next_cursor (items @ page_items r) c1
         | None \<Rightarrow> (Ok (items @ page_items r), c1))"
      by (simp add: client_simps r Let_def page_items_def split: option.split)
    show ?thesis
    proof (cases "ends_walk (set seen) r")
      case True
      then show ?thesis
        unfolding step by (auto simp: page_walk_end [where page = page and cursor = cursor, OF True r] ends_walk_def split: option.split)
    next
      case False
      then obtain next_cursor where k: "cpr_cursor r = Some next_cursor" "next_cursor \<notin> insert (lit '''') (set seen)"
        by (auto simp: ends_walk_def)
      have "read_pages page (Suc n) seen cursor items c =
          read_pages page n (next_cursor # seen) next_cursor (items @ page_items r) c1"
        unfolding step using k by simp
      moreover have "(\<exists>cursors rs. page_walk page cursor (set seen) (Suc n) c cursors rs c' \<and>
          all = items @ concat (map page_items rs)) \<longleftrightarrow>
        (\<exists>cursors rs. page_walk page next_cursor (set (next_cursor # seen)) n c1 cursors rs c' \<and>
          all = (items @ page_items r) @ concat (map page_items rs))"
        (is "?L \<longleftrightarrow> ?R")
      proof
        assume ?L
        then obtain cs' rs' where "page_walk page next_cursor (insert next_cursor (set seen)) n c1 cs' rs' c'"
          "all = items @ concat (map page_items (r # rs'))"
          unfolding page_walk_next [where page = page and cursor = cursor, OF r k] by blast
        then show ?R by (intro exI [of _ cs'] exI [of _ rs']) simp
      next
        assume ?R
        then obtain cs' rs' where "page_walk page next_cursor (insert next_cursor (set seen)) n c1 cs' rs' c'"
          "all = items @ page_items r @ concat (map page_items rs')"
          by auto
        then show ?L
          unfolding page_walk_next [where page = page and cursor = cursor, OF r k]
          by (intro exI [of _ "next_cursor # cs'"] exI [of _ "r # rs'"]) simp
      qed
      ultimately show ?thesis by (simp only: Suc)
    qed
  qed
qed

text \<open>C18: The walk answers exactly the items of the pages the node chains by its cursors, in their order, each page once:
  it starts at the empty cursor, stops at a page that names no new cursor, and answers with an error when a
  request fails or 1000 pages do not end.
\<close>

theorem page_walk_exact:
  "read_all_pages page c = (Ok items, c') \<longleftrightarrow>
     (\<exists>cursors rs. pages_asked page c (lit '''' # cursors) rs c' \<and> length rs \<le> 1000 \<and>
        distinct (lit '''' # cursors) \<and> ends_walk (set cursors) (last rs) \<and> items = concat (map page_items rs))"
  by (auto simp: read_all_pages_def read_pages_exact page_walk_def MAX_PAGES_def)

section \<open>Prices and their age\<close>

definition age :: "'w rpc_api \<Rightarrow> 'w PhantasmaRpc \<Rightarrow> CachedGasConfig \<Rightarrow> nat" where
  "age ra c cached = api_instant ra (rc_transport c) - cg_fetched_at cached"

definition fetched :: "'w rpc_api \<Rightarrow> 'w PhantasmaRpc \<Rightarrow> CachedGasConfig \<Rightarrow> 'w PhantasmaRpc \<Rightarrow> bool" where
  "fetched ra c cached c' \<longleftrightarrow>
     (\<exists>result c1. get_gas_config ra c = (Ok result, c1) \<and> to_gas_config result = Ok (cg_config cached) \<and>
        c' = c1\<lparr>rc_fee_cache := Some cached\<rparr> \<and> age ra c' cached = 0)"

lemma planner_read_Ok:
  assumes "planner_read ra refresh c = (Ok cached, c')"
  shows "rc_fee_cache c' = Some cached \<and>
    (\<not> refresh \<and> c' = c \<and> age ra c cached < rc_fee_config_ttl c \<or> fetched ra c cached c')"
proof -
  consider "\<not> refresh" "fresh_config ra c = Some cached" "c' = c"
    | result c1 config where "get_gas_config ra c = (Ok result, c1)" "to_gas_config result = Ok config"
      "cg_config cached = config" "c' = c1\<lparr>rc_fee_cache := Some cached\<rparr>"
      "cg_fetched_at cached = api_instant ra (rc_transport c1)"
    using assms unfolding planner_read_def
    by (fastforce simp: op_bind_Ok op_get_apply op_lift_apply op_modify_apply split: option.splits if_split_asm)
  then show ?thesis
  proof cases
    case 1
    then show ?thesis by (auto simp: fresh_config_def age_def split: option.split_asm if_split_asm)
  next
    case 2
    then show ?thesis by (auto simp: fetched_def age_def)
  qed
qed

text \<open>C9: A plan is the pure plan of the message under a configuration of the chain: one fetched for this plan, or the
  cached one, younger than the time to live, when no refresh was asked for. The infusions of burned NFTs are
  always stated, and only queries were posted.
\<close>

theorem plans_use_fresh_prices:
  assumes "planner_plan depth nb ra msg options c = (Ok plan, c')"
  shows "\<exists>cached facts c1.
    plan_fees depth nb msg (cg_config cached) facts = Ok plan \<and>
    (\<not> pr_refresh_config options \<and> c1 = c \<and> rc_fee_cache c = Some cached \<and> age ra c cached < rc_fee_config_ttl c \<or>
     fetched ra c cached c1) \<and>
    with_infusions ra msg (pr_facts options) c1 = (Ok facts, c') \<and>
    (burned_instances msg \<noteq> [] \<longrightarrow> po_infusions facts \<noteq> None) \<and>
    posts_only QUERY_METHODS c c'"
proof -
  obtain cached facts c1 where *: "planner_read ra (pr_refresh_config options) c = (Ok cached, c1)"
    "with_infusions ra msg (pr_facts options) c1 = (Ok facts, c')"
    "plan_fees depth nb msg (cg_config cached) facts = Ok plan"
    using assms unfolding planner_plan_def planner_config_def by (auto simp: op_bind_Ok op_lift_apply)
  have "burned_instances msg \<noteq> [] \<longrightarrow> po_infusions facts \<noteq> None"
    using *(2) by (auto simp: with_infusions_def op_bind_Ok op_lift_apply Let_def split: if_split_asm)
  moreover have "posts_only QUERY_METHODS c c'"
    using naming.plans [of QUERY_METHODS depth nb ra msg options] assms by (simp add: keeps_def) (metis snd_conv)
  ultimately show ?thesis
    using planner_read_Ok [OF *(1)] * by blast
qed

section \<open>A node\<close>

text \<open>
  A node for the witnesses: it serves the gas config of the fee witnesses, resolves the token with id 1 but no
  symbol, and answers every other request with a hash.
\<close>

definition node_reply :: "rstring \<Rightarrow> json list \<Rightarrow> json option" where
  "node_reply rpc_method params =
     (if rpc_method = lit ''getGasConfig''
      then Some (json_GasConfigResult (gas_config_answer sample_fee_config 2 2000 60000 None))
      else if rpc_method = lit ''getToken''
      then if params = [J_String (lit ''''), J_Bool False, json_u64 1] then Some (json_struct []) else None
      else Some (J_String (lit ''AB'')))"

definition node_answer :: "json \<Rightarrow> json" where
  "node_answer body =
     json_struct
       [(''id'', json_u64 (case body_id body of Some n \<Rightarrow> n | None \<Rightarrow> 0)),
        (case node_reply (case body_method body of Some m \<Rightarrow> m | None \<Rightarrow> lit '''')
           (case body_params body of Some (J_Array ps) \<Rightarrow> ps | _ \<Rightarrow> []) of
           Some v \<Rightarrow> (''result'', v) | None \<Rightarrow> (''error'', J_String (lit ''Token not found'')))]"

definition sample_node :: "unit rpc_api" where
  "sample_node =
     \<lparr>api_post_json = (\<lambda>w url body timeout. (Ok (200, node_answer body), w)), api_instant = (\<lambda>w. 0),
      api_unix_seconds = (\<lambda>w. 1700000000), api_json_text = (\<lambda>v. lit ''''), api_float_text = (\<lambda>f. lit ''0''),
      api_serde_error = (\<lambda>m v. ''invalid type''), api_hex_encode = (\<lambda>bs. string_of (nibble_encode bs)),
      api_base64_encode = (\<lambda>bs. string_of (nibble_encode bs))\<rparr>"

lemma node_call_value:
  "call_value sample_node rpc_method params c =
     (case node_reply rpc_method params of
        Some v \<Rightarrow> Ok v | None \<Rightarrow> Err (Rpc None (msg_of (lit ''Token not found''))),
      after_request c rpc_method params ())"
proof -
  let ?part = "case node_reply rpc_method params of
      Some v \<Rightarrow> (''result'', v) | None \<Rightarrow> (''error'', J_String (lit ''Token not found''))"
  let ?kvs = "[(''id'', json_u64 (rc_next_request_id c)), ?part]"
  define m where "m = struct_map ?kvs"
  have names: "field_names ?kvs" by (simp split: option.split)
  have found: "member m name = entry (rev ?kvs) name" if "ascii name" for name
    unfolding member_def m_def by (rule struct_member [OF names that])
  have parts: "member m ''id'' = Some (json_u64 (rc_next_request_id c))"
    "member m ''error'' = (if node_reply rpc_method params = None then Some (J_String (lit ''Token not found'')) else None)"
    "member m ''result'' = node_reply rpc_method params"
    by (subst found; auto split: option.split)+
  have answer: "node_answer (request_body (rc_next_request_id c) rpc_method params) = J_Object m"
    by (simp only: m_def node_answer_def json_struct_def request_body_parts option.case json.case)
  have "json_rpc_id_matches (json_u64 n) n" for n
    by (simp add: json_rpc_id_matches_def json_u64_def value_u64_def)
  then show ?thesis
    by (cases "node_reply rpc_method params")
      (simp_all add: call_value_def op_bind_apply post_json_rpc_apply sample_node_def answer op_lift_apply Let_def
        parse_json_rpc_response_for_request_def parts error_answer_def after_request_def)
qed

lemma node_call:
  "call sample_node de rpc_method params c =
     (bind_result (case node_reply rpc_method params of
        Some v \<Rightarrow> Ok v | None \<Rightarrow> Err (Rpc None (msg_of (lit ''Token not found''))))
        (from_value sample_node de rpc_method),
      after_request c rpc_method params ())"
  by (simp add: call_def op_bind_apply node_call_value op_lift_apply split: option.split)

lemma sample_config_arrives: "to_gas_config (gas_config_answer sample_fee_config 2 2000 60000 None) = Ok sample_fee_config"
  by (simp add: to_gas_config_answer gas_config_image_cases) (simp add: sample_fee_config_def)

lemma node_gas_config:
  "get_gas_config sample_node c =
     (Ok (gas_config_answer sample_fee_config 2 2000 60000 None), after_request c (lit ''getGasConfig'') [] ())"
  by (simp add: get_gas_config_def node_call node_reply_def from_value_def json_reads)

lemma node_planner_read:
  "rc_fee_cache c = None \<Longrightarrow> \<exists>cached c'. planner_read sample_node refresh c = (Ok cached, c') \<and> cg_config cached = sample_fee_config"
  by (simp add: planner_read_def op_bind_apply op_get_apply op_lift_apply op_modify_apply fresh_config_def
      node_gas_config sample_config_arrives)

definition sample_requests :: PlanRequestOptions where
  "sample_requests = \<lparr>pr_facts = default_plan_options, pr_refresh_config = False\<rparr>"

lemma node_plan:
  assumes "rc_fee_cache c = None" "po_witness_count (pr_facts options) = None" "po_infusions (pr_facts options) = None"
  shows "\<exists>c'. planner_plan 4 num_bigint_std sample_node unplanned_transfer options c = (Ok sample_plan, c')"
proof -
  obtain cached c' where read: "planner_read sample_node (pr_refresh_config options) c = (Ok cached, c')"
    "cg_config cached = sample_fee_config"
    using node_planner_read [OF assms(1)] by blast
  have "burned_instances unplanned_transfer = []"
    by (simp add: burned_instances_def unplanned_transfer_def sample_transfer_def)
  then have "with_infusions sample_node unplanned_transfer (pr_facts options) c' = (Ok (pr_facts options), c')"
    by (simp add: with_infusions_def assms op_lift_apply)
  then show ?thesis
    using sample_plan_is [OF assms(2), of 4] read
    by (simp add: planner_plan_def planner_config_def op_bind_apply op_lift_apply)
qed

theorem plans_use_fresh_prices_witness:
  "\<exists>cached c1. plan_fees 4 num_bigint_std unplanned_transfer (cg_config cached) default_plan_options = Ok sample_plan \<and>
     fetched sample_node (with_transport (lit ''node'') ()) cached c1"
proof -
  let ?c = "with_transport (lit ''node'') ()"
  have cache: "rc_fee_cache ?c = None" by (simp add: with_transport_def)
  have none: "po_witness_count default_plan_options = None" "po_infusions default_plan_options = None"
    by (simp_all add: default_plan_options_def)
  then obtain c' where "planner_plan 4 num_bigint_std sample_node unplanned_transfer sample_requests ?c = (Ok sample_plan, c')"
    using node_plan [OF cache, of sample_requests] by (auto simp: sample_requests_def)
  from plans_use_fresh_prices [OF this] obtain cached facts c1 where
    *: "plan_fees 4 num_bigint_std unplanned_transfer (cg_config cached) facts = Ok sample_plan"
    "fetched sample_node ?c cached c1" "with_infusions sample_node unplanned_transfer (pr_facts sample_requests) c1 = (Ok facts, c')"
    using cache by auto
  moreover have "facts = default_plan_options"
    using *(3) none
    by (auto simp: with_infusions_def sample_requests_def op_lift_apply burned_instances_def unplanned_transfer_def
        sample_transfer_def)
  ultimately show ?thesis by blast
qed

end
