(* ===== verification/RpcSend.thy ===== *)
theory RpcSend
  imports RpcFees
begin

text \<open>
  Sending (\<open>src/src/rpc.rs\<close>): the pre-flight of a token creation, and the one-step sends that plan, sign and
  broadcast a message or sign and broadcast a VM transaction. The signers of \<open>send_tx_msg\<close> are functions of the
  message, as in \<open>CarbonSign\<close>.
\<close>

section \<open>Broadcasting\<close>

definition send_raw_transaction :: "'w rpc_api \<Rightarrow> rstring \<Rightarrow> ('w, rstring) client_op" where
  "send_raw_transaction ra tx_hex =
     op_bind (call_value ra (lit ''sendRawTransaction'') [J_String tx_hex]) (\<lambda>v. op_lift (extract_hash ra v))"

definition send_transaction :: "'w rpc_api \<Rightarrow> Transaction \<Rightarrow> ('w, rstring) client_op" where
  "send_transaction ra tx = send_raw_transaction ra (api_hex_encode ra (to_bytes True tx))"

definition saturating_add_u64 :: "u64 \<Rightarrow> u64 \<Rightarrow> u64" where
  "saturating_add_u64 a b = (if a + b < a then - 1 else a + b)"

text \<open>\<open>DEFAULT_TX_EXPIRY\<close> is 45 s; \<open>as u32\<close> keeps the low bits.\<close>

definition default_expiration_seconds :: "u64 \<Rightarrow> u32" where
  "default_expiration_seconds now = ucast (saturating_add_u64 now 45)"

definition sign_and_send_transaction ::
    "crypto_api \<Rightarrow> bytes \<Rightarrow> 'w rpc_api \<Rightarrow> PhantasmaKeys \<Rightarrow> rstring \<Rightarrow> bytes \<Rightarrow> rstring \<Rightarrow> bytes \<Rightarrow> u32 option
      \<Rightarrow> ('w, rstring) client_op" where
  "sign_and_send_transaction ca sdk_payload ra keys nexus scr chain data expiry =
     op_bind (op_get (\<lambda>c. case expiry of
         Some e \<Rightarrow> e | None \<Rightarrow> default_expiration_seconds (api_unix_seconds ra (rc_transport c)))) (\<lambda>expires.
       send_transaction ra
         (snd (tx_sign ca keys (with_payload (Transaction_new sdk_payload nexus chain scr expires) data))))"

text \<open>The caller's transaction keeps the signature.\<close>

definition sign_and_send_built_transaction ::
    "crypto_api \<Rightarrow> 'w rpc_api \<Rightarrow> Transaction \<Rightarrow> PhantasmaKeys \<Rightarrow> ('w, rstring) client_op \<times> Transaction" where
  "sign_and_send_built_transaction ca ra tx keys =
     (let signed = snd (tx_sign ca keys tx) in (send_transaction ra signed, signed))"

definition send_carbon_transaction :: "'w rpc_api \<Rightarrow> bytes \<Rightarrow> ('w, rstring) client_op" where
  "send_carbon_transaction ra tx =
     op_bind (call_value ra (lit ''sendCarbonTransaction'') [J_String (api_hex_encode ra tx)])
       (\<lambda>v. op_lift (extract_hash ra v))"

definition send_signed_tx_msg :: "num_bigint \<Rightarrow> 'w rpc_api \<Rightarrow> SignedTxMsg \<Rightarrow> ('w, rstring) client_op" where
  "send_signed_tx_msg nb ra tx =
     op_bind (op_lift (serialize (write_SignedTxMsg nb) tx)) (\<lambda>bs. send_carbon_transaction ra bs)"

section \<open>Pre-flight\<close>

datatype PreflightVerdict = NotApplicable | Taken | Free | Unknown

record PreflightResult =
  pf_verdict :: PreflightVerdict
  pf_subject :: string
  pf_reason :: string

definition lookup_reason :: "phantasma_error \<Rightarrow> string" where
  "lookup_reason e =
     (case e of
        Rpc code message \<Rightarrow> if message \<noteq> '''' then message else error_text e
      | _ \<Rightarrow> error_text e)"

definition control_token_id :: "'w rpc_api \<Rightarrow> ('w, u64) client_op" where
  "control_token_id ra = op_bind (planner_config ra False) (\<lambda>config. op_return (gc_gas_token_id config))"

definition not_applicable :: PreflightResult where
  "not_applicable = \<lparr>pf_verdict = NotApplicable, pf_subject = '''', pf_reason = ''''\<rparr>"

definition creates_token :: "TxMsg \<Rightarrow> TxMsgCall option" where
  "creates_token msg =
     (case tm_msg msg of
        TP_Call inner \<Rightarrow>
          if tm_tx_type msg \<noteq> TT_Call \<or> call_module_id inner \<noteq> MODULE_TOKEN
            \<or> call_method_id inner \<noteq> TOKEN_CREATE_TOKEN
          then None else Some inner
      | _ \<Rightarrow> None)"

text \<open>The two lookups: the symbol itself, then the control token by its id.\<close>

definition preflight_symbol :: "'w rpc_api \<Rightarrow> rstring \<Rightarrow> ('w, PreflightResult) client_op" where
  "preflight_symbol ra symbol =
     (let verdict = (\<lambda>v reason.
        \<lparr>pf_verdict = v, pf_subject = ''token symbol '' @ msg_of symbol, pf_reason = reason\<rparr>)
      in op_case (get_token_with_id ra symbol False 0) (\<lambda>lookup.
        case lookup of
          Ok token \<Rightarrow> op_return (verdict Taken '''')
        | Panic p \<Rightarrow> op_lift (Panic p)
        | Err e \<Rightarrow>
            op_case (control_token_id ra) (\<lambda>control.
              case control of
                Panic p \<Rightarrow> op_lift (Panic p)
              | Err e' \<Rightarrow> op_return (verdict Unknown (lookup_reason e))
              | Ok control_id \<Rightarrow>
                  if control_id = 0 then op_return (verdict Unknown (lookup_reason e))
                  else op_case (get_token_with_id ra (lit '''') False control_id) (\<lambda>probe.
                    case probe of
                      Ok token \<Rightarrow> op_return (verdict Free '''')
                    | Panic p \<Rightarrow> op_lift (Panic p)
                    | Err e'' \<Rightarrow> op_return (verdict Unknown (lookup_reason e''))))))"

definition preflight_transaction :: "num_bigint \<Rightarrow> 'w rpc_api \<Rightarrow> TxMsg \<Rightarrow> ('w, PreflightResult) client_op" where
  "preflight_transaction nb ra msg =
     (case creates_token msg of
        None \<Rightarrow> op_return not_applicable
      | Some inner \<Rightarrow>
          op_bind (op_lift (map_err (\<lambda>e. Builder ''preflight: CreateToken arguments: '')
            (deserialize (read_TokenInfo nb) (call_args inner)))) (\<lambda>info.
            let symbol = SmallString.as_str (ti_symbol info)
            in if symbol = lit '''' then op_return not_applicable else preflight_symbol ra symbol))"

section \<open>Plan, sign and send\<close>

record SendTransactionOptions =
  so_plan :: PlanRequestOptions
  so_skip_preflight :: bool

definition check_preflight ::
    "num_bigint \<Rightarrow> 'w rpc_api \<Rightarrow> TxMsg \<Rightarrow> SendTransactionOptions \<Rightarrow> ('w, unit) client_op" where
  "check_preflight nb ra msg options =
     (if so_skip_preflight options then op_return ()
      else op_bind (preflight_transaction nb ra msg) (\<lambda>check.
        case pf_verdict check of
          Taken \<Rightarrow> op_lift (Err (Preflight (pf_subject check @ '' is already taken'')))
        | Unknown \<Rightarrow> op_lift (Err (Preflight
            (''could not establish whether '' @ pf_subject check @ '' is taken: '' @ pf_reason check)))
        | NotApplicable \<Rightarrow> op_return ()
        | Free \<Rightarrow> op_return ()))"

definition plan_for_signers ::
    "nat \<Rightarrow> num_bigint \<Rightarrow> 'w rpc_api \<Rightarrow> TxMsg \<Rightarrow> nat \<Rightarrow> PlanRequestOptions \<Rightarrow> ('w, TxMsg) client_op" where
  "plan_for_signers depth nb ra msg signer_count options =
     (if tm_max_gas msg \<noteq> 0 then op_return msg
      else op_bind (op_lift
          (if required_witnesses msg = None \<and> po_witness_count (pr_facts options) = None
           then if signer_count < 2 ^ 32
             then Ok (options\<lparr>pr_facts := (pr_facts options)\<lparr>po_witness_count := Some (word_of_nat signer_count)\<rparr>\<rparr>)
             else Err (Builder ''send_tx_msg: too many signers'')
           else Ok options)) (\<lambda>plan_options.
        op_bind (planner_plan depth nb ra msg plan_options) (\<lambda>plan. op_return (plan_apply plan msg))))"

definition send_tx_msg ::
    "nat \<Rightarrow> num_bigint \<Rightarrow> 'w rpc_api \<Rightarrow> TxMsg \<Rightarrow> tx_signer list \<Rightarrow> SendTransactionOptions
      \<Rightarrow> ('w, rstring) client_op" where
  "send_tx_msg depth nb ra msg signers options =
     op_bind (check_preflight nb ra msg options) (\<lambda>_.
     op_bind (plan_for_signers depth nb ra msg (length signers) (so_plan options)) (\<lambda>planned.
     op_bind (op_lift (sign_and_serialize_tx_msg_with nb planned signers)) (\<lambda>envelope.
       send_carbon_transaction ra envelope)))"

section \<open>What sending does to the client\<close>

context client_contract
begin

lemma looks_up:
  assumes "\<And>rpc_method. rpc_method \<in> QUERY_METHODS \<Longrightarrow> may_post rpc_method"
  shows "keeps R (preflight_transaction nb ra msg)" "keeps R (check_preflight nb ra msg options)"
proof -
  have post: "may_post (lit ''getGasConfig'')" "may_post (lit ''getToken'')"
    by (intro assms; simp add: QUERY_METHODS_def)+
  have lookup: "keeps R (get_token_with_id ra symbol extended token_id)" for symbol extended token_id
    unfolding get_token_with_id_def by (rule calls [OF post(2)])
  have control: "keeps R (control_token_id ra)"
    unfolding control_token_id_def by (intro bind lift reads_config post)
  show flight: "keeps R (preflight_transaction nb ra msg)"
    unfolding preflight_transaction_def preflight_symbol_def Let_def
    by (auto intro!: bind branch lift lookup control split: option.split result.split)
  show "keeps R (check_preflight nb ra msg options)"
    unfolding check_preflight_def
    by (auto intro!: bind lift flight split: PreflightVerdict.split)
qed

lemma plans_for_signers:
  assumes "\<And>rpc_method. rpc_method \<in> QUERY_METHODS \<Longrightarrow> may_post rpc_method"
  shows "keeps R (plan_for_signers depth nb ra msg n options)"
  unfolding plan_for_signers_def by (intro choose bind lift plans assms)

lemma sends:
  assumes "may_post (lit ''sendCarbonTransaction'')"
  shows "keeps R (send_carbon_transaction ra tx)"
  unfolding send_carbon_transaction_def by (intro bind lift calls assms)

lemma sends_message:
  assumes "\<And>rpc_method. rpc_method \<in> QUERY_METHODS \<Longrightarrow> may_post rpc_method"
    and "may_post (lit ''sendCarbonTransaction'')"
  shows "keeps R (send_tx_msg depth nb ra msg signers options)"
  unfolding send_tx_msg_def by (intro bind lift looks_up plans_for_signers sends assms)

end

section \<open>Sessions\<close>

text \<open>The clients a program can hold: it makes one, sets its limits and runs operations; time passes between.\<close>

inductive reachable :: "'w rpc_api \<Rightarrow> 'w PhantasmaRpc \<Rightarrow> bool" for ra where
  start: "reachable ra (with_transport endpoint w)"
| timeout: "reachable ra c \<Longrightarrow> reachable ra (with_timeout c t)"
| ttl: "reachable ra c \<Longrightarrow> reachable ra (with_fee_config_ttl c t)"
| elapse: "reachable ra c \<Longrightarrow> reachable ra (c\<lparr>rc_transport := w\<rparr>)"
| call: "reachable ra c \<Longrightarrow> reachable ra (snd (call_value ra rpc_method params c))"
| call_with_raw: "reachable ra c \<Longrightarrow> reachable ra (snd (call_value_with_raw ra rpc_method params c))"
| config: "reachable ra c \<Longrightarrow> reachable ra (snd (planner_read ra refresh c))"
| invalidate: "reachable ra c \<Longrightarrow> reachable ra (snd (planner_invalidate c))"
| plan: "reachable ra c \<Longrightarrow> reachable ra (snd (planner_plan depth nb ra msg plan_options c))"
| preflight: "reachable ra c \<Longrightarrow> reachable ra (snd (preflight_transaction nb ra msg c))"
| send: "reachable ra c \<Longrightarrow> reachable ra (snd (send_tx_msg depth nb ra msg signers send_options c))"

definition requests_numbered :: "'w PhantasmaRpc \<Rightarrow> bool" where
  "requests_numbered c \<longleftrightarrow>
     rc_next_request_id c = 1 + word_of_nat (length (rc_posted c)) \<and>
     (\<forall>i<length (rc_posted c). body_id (rc_posted c ! i) = Some (1 + word_of_nat i))"

lemma requests_numbered_step:
  assumes "requests_numbered c" and "numbered c c'"
  shows "requests_numbered c'"
proof -
  from assms(2) obtain bs where bs: "rc_posted c' = rc_posted c @ bs"
    "rc_next_request_id c' = rc_next_request_id c + word_of_nat (length bs)"
    "\<forall>i<length bs. \<exists>m ps. bs ! i = request_body (rc_next_request_id c + word_of_nat i) m ps"
    unfolding numbered_def by blast
  have "body_id (rc_posted c' ! i) = Some (1 + word_of_nat i)" if "i < length (rc_posted c')" for i
  proof (cases "i < length (rc_posted c)")
    case True
    then show ?thesis using assms(1) by (simp add: requests_numbered_def bs(1) nth_append)
  next
    case False
    then obtain j where j: "i = length (rc_posted c) + j" using le_Suc_ex by (metis not_less)
    with that bs(1) have "j < length bs" by simp
    with bs(3) obtain m ps where "bs ! j = request_body (rc_next_request_id c + word_of_nat j) m ps" by blast
    moreover have "rc_posted c' ! i = bs ! j" by (simp add: bs(1) j nth_append)
    ultimately show ?thesis using assms(1) by (simp add: requests_numbered_def j algebra_simps)
  qed
  then show ?thesis using assms(1) bs by (simp add: requests_numbered_def algebra_simps)
qed

text \<open>C11: In every session the requests are numbered from 1 in the order they are posted, also when operations fail
  halfway, so that no two of the first 2^64 share an id, and the next request gets the next number.
\<close>

theorem session_requests_numbered:
  assumes "reachable ra c"
  shows "rc_next_request_id c = 1 + word_of_nat (length (rc_posted c)) \<and>
    map body_id (rc_posted c) = map (\<lambda>i. Some (1 + word_of_nat i)) [0..<length (rc_posted c)] \<and>
    (length (rc_posted c) \<le> 2 ^ 64 \<longrightarrow> distinct (map body_id (rc_posted c)))"
proof -
  have step: "requests_numbered (snd (m c))" if "requests_numbered c" "keeps numbered m" for m and c :: "'w PhantasmaRpc"
    using that requests_numbered_step by (auto simp: keeps_def)
  from assms have inv: "requests_numbered c"
  proof (induction rule: reachable.induct)
    case (start endpoint w)
    show ?case by (simp add: requests_numbered_def with_transport_def INITIAL_JSON_RPC_REQUEST_ID_def)
  next
    case (timeout c t)
    then show ?case by (simp add: requests_numbered_def with_timeout_def)
  next
    case (ttl c t)
    then show ?case by (simp add: requests_numbered_def with_fee_config_ttl_def)
  next
    case (elapse c w)
    then show ?case by (simp add: requests_numbered_def)
  next
    case (call c rpc_method params)
    then show ?case by (intro step numbering.calls) simp_all
  next
    case (call_with_raw c rpc_method params)
    then show ?case by (intro step numbering.calls) simp_all
  next
    case (config c refresh)
    then show ?case by (intro step numbering.reads_config) simp_all
  next
    case (invalidate c)
    then show ?case by (simp add: requests_numbered_def planner_invalidate_def op_modify_apply)
  next
    case (plan c depth nb msg plan_options)
    then show ?case by (intro step numbering.plans) simp_all
  next
    case (preflight c nb msg)
    then show ?case by (intro step numbering.looks_up) simp_all
  next
    case (send c depth nb msg signers send_options)
    then show ?case by (intro step numbering.sends_message) simp_all
  qed
  have ids: "map body_id (rc_posted c) = map (\<lambda>i. Some (1 + word_of_nat i)) [0..<length (rc_posted c)]"
    using inv by (intro nth_equalityI) (simp_all add: requests_numbered_def)
  have "inj_on (\<lambda>i. Some (1 + word_of_nat i :: u64)) {0..<length (rc_posted c)}" if "length (rc_posted c) \<le> 2 ^ 64"
  proof (rule inj_onI)
    have small: "unat (word_of_nat k :: u64) = k" if "k \<in> {0..<length (rc_posted c)}" for k
      using that \<open>length (rc_posted c) \<le> 2 ^ 64\<close> by (simp add: unat_of_nat)
    fix i j
    assume *: "i \<in> {0..<length (rc_posted c)}" "j \<in> {0..<length (rc_posted c)}"
      "Some (1 + word_of_nat i :: u64) = Some (1 + word_of_nat j)"
    then have "(word_of_nat i :: u64) = word_of_nat j" by (simp only: option.inject add_left_cancel)
    then show "i = j" using small [OF *(1)] small [OF *(2)] by metis
  qed
  then show ?thesis
    using inv ids by (auto simp: requests_numbered_def distinct_map)
qed

section \<open>The requests of an operation\<close>

definition broadcasts :: "'w PhantasmaRpc \<Rightarrow> 'w PhantasmaRpc \<Rightarrow> json list" where
  "broadcasts c c' =
     filter (\<lambda>body. body_method body = Some (lit ''sendCarbonTransaction'')) (drop (length (rc_posted c)) (rc_posted c'))"

lemma queries_do_not_broadcast:
  assumes "posts_only QUERY_METHODS c c'"
  shows "broadcasts c c' = []"
proof -
  from assms obtain bs where bs: "rc_posted c' = rc_posted c @ bs"
    "\<forall>b\<in>set bs. \<exists>i m ps. m \<in> QUERY_METHODS \<and> b = request_body i m ps"
    unfolding posts_only_def by blast
  have "lit ''sendCarbonTransaction'' \<notin> QUERY_METHODS" by (auto simp: QUERY_METHODS_def lit_inject)
  then have "body_method b \<noteq> Some (lit ''sendCarbonTransaction'')" if "b \<in> set bs" for b
    using bs(2) that by (metis option.inject request_body_parts(1))
  then show ?thesis by (simp add: broadcasts_def bs(1) filter_empty_conv)
qed

lemma broadcasts_compose: 
  assumes "rc_posted c1 = rc_posted c @ bs" "rc_posted c2 = rc_posted c1 @ bs'"
  shows "broadcasts c c2 = broadcasts c c1 @ broadcasts c1 c2"
  using assms by (simp add: broadcasts_def)

lemma posts_only_extends: "posts_only M c c' \<Longrightarrow> \<exists>bs. rc_posted c' = rc_posted c @ bs"
  by (auto simp: posts_only_def)

lemma call_value_posts:
  "rc_posted (snd (call_value ra rpc_method params c)) =
     rc_posted c @ [request_body (rc_next_request_id c) rpc_method params]"
  by (auto simp: call_value_def op_bind_apply post_json_rpc_apply Let_def op_lift_apply split: prod.split result.split)

lemma send_carbon_posts:
  assumes "send_carbon_transaction ra tx c = (r, c')"
  shows "rc_posted c' = rc_posted c @
    [request_body (rc_next_request_id c) (lit ''sendCarbonTransaction'') [J_String (api_hex_encode ra tx)]]"
proof -
  have "snd (send_carbon_transaction ra tx c) =
      snd (call_value ra (lit ''sendCarbonTransaction'') [J_String (api_hex_encode ra tx)] c)"
    by (simp add: send_carbon_transaction_def op_bind_apply op_lift_apply split: prod.split result.split)
  then show ?thesis using call_value_posts assms by (metis snd_conv)
qed

lemma check_posts_queries: "posts_only QUERY_METHODS c (snd (check_preflight nb ra msg options c))"
  using naming.looks_up(2) [of QUERY_METHODS nb ra msg options] by (simp add: keeps_def)

lemma planning_posts_queries: "posts_only QUERY_METHODS c (snd (plan_for_signers depth nb ra msg n options c))"
  using naming.plans_for_signers [of QUERY_METHODS depth nb ra msg n options] by (simp add: keeps_def)

section \<open>Token creations\<close>

lemma preflight_symbol_outcome:
  assumes "preflight_symbol ra symbol c = (Ok check, c')"
  shows "pf_verdict check \<noteq> NotApplicable \<and>
    (pf_verdict check = Free \<longrightarrow>
      (\<exists>e c1 control c2 token. get_token_with_id ra symbol False 0 c = (Err e, c1) \<and>
         control_token_id ra c1 = (Ok control, c2) \<and> control \<noteq> 0 \<and>
         get_token_with_id ra (lit '''') False control c2 = (Ok token, c')))"
proof -
  obtain r c1 where lookup: "get_token_with_id ra symbol False 0 c = (r, c1)" by (meson surj_pair)
  obtain k c2 where control: "control_token_id ra c1 = (k, c2)" by (meson surj_pair)
  note run = preflight_symbol_def Let_def op_case_def op_lift_apply lookup control
  show ?thesis
  proof (cases r)
    case (Err e)
    note lookup' = Err
    show ?thesis
    proof (cases k)
      case (Ok n)
      obtain p c3 where "get_token_with_id ra (lit '''') False n c2 = (p, c3)" by (meson surj_pair)
      then show ?thesis
        using assms lookup' Ok by (cases p) (auto simp: run split: if_split_asm)
    qed (use assms lookup' in \<open>auto simp: run\<close>)
  qed (use assms in \<open>auto simp: run\<close>)
qed

lemma check_preflight_Ok:
  assumes "check_preflight nb ra msg options c = (Ok (), c')" and "\<not> so_skip_preflight options"
  shows "\<exists>check. preflight_transaction nb ra msg c = (Ok check, c') \<and> pf_verdict check \<in> {NotApplicable, Free}"
proof -
  from assms obtain check c1 where "preflight_transaction nb ra msg c = (Ok check, c1)"
    "(case pf_verdict check of
        Taken \<Rightarrow> op_lift (Err (Preflight (pf_subject check @ '' is already taken'')))
      | Unknown \<Rightarrow> op_lift (Err (Preflight
          (''could not establish whether '' @ pf_subject check @ '' is taken: '' @ pf_reason check)))
      | NotApplicable \<Rightarrow> op_return ()
      | Free \<Rightarrow> op_return ()) c1 = (Ok (), c')"
    unfolding check_preflight_def by (auto simp only: op_bind_Ok if_False)
  then show ?thesis by (cases "pf_verdict check") (simp_all add: op_lift_apply)
qed

text \<open>C5: A message that creates a token with a symbol is broadcast, unless the caller skips the pre-flight, only after the
  node refused to resolve that symbol and then resolved the gas token by its id: a node that says the symbol is
  taken, cannot tell its gas token, or does not answer the control costs nobody the creation fee.
\<close>

theorem token_creation_sent_only_when_free:
  assumes creates: "creates_token msg = Some inner" and args: "deserialize (read_TokenInfo nb) (call_args inner) = Ok info"
    and symbol: "SmallString.as_str (ti_symbol info) \<noteq> lit ''''" and checked: "\<not> so_skip_preflight options"
    and sent: "broadcasts c (snd (send_tx_msg depth nb ra msg signers options c)) \<noteq> []"
  shows "\<exists>e c1 control c2 token c3.
    get_token_with_id ra (SmallString.as_str (ti_symbol info)) False 0 c = (Err e, c1) \<and>
    control_token_id ra c1 = (Ok control, c2) \<and> control \<noteq> 0 \<and>
    get_token_with_id ra (lit '''') False control c2 = (Ok token, c3)"
proof -
  let ?symbol = "SmallString.as_str (ti_symbol info)"
  obtain r c1 where check: "check_preflight nb ra msg options c = (r, c1)" by (meson surj_pair)
  have "r = Ok ()"
  proof (rule ccontr)
    assume "r \<noteq> Ok ()"
    then have "snd (send_tx_msg depth nb ra msg signers options c) = c1"
      by (cases r) (simp_all add: send_tx_msg_def op_bind_apply check)
    then show False
      using sent check_posts_queries [of c nb ra msg options] queries_do_not_broadcast check by fastforce
  qed
  then obtain result where flight: "preflight_transaction nb ra msg c = (Ok result, c1)"
    "pf_verdict result = NotApplicable \<or> pf_verdict result = Free"
    using check_preflight_Ok check checked by blast
  have "preflight_transaction nb ra msg c = preflight_symbol ra ?symbol c"
    using symbol by (simp add: preflight_transaction_def creates args op_bind_apply op_lift_apply Let_def)
  with flight preflight_symbol_outcome [of ra ?symbol c result c1] show ?thesis by auto
qed

section \<open>Broadcast messages\<close>

lemma plan_for_signers_Ok:
  assumes "plan_for_signers depth nb ra msg n options c = (Ok planned, c')"
  shows "tm_max_gas msg \<noteq> 0 \<and> planned = msg \<and> c' = c \<or>
    tm_max_gas msg = 0 \<and>
    (\<exists>config facts plan.
       plan_fees depth nb msg config facts = Ok plan \<and> planned = plan_apply plan msg \<and>
       po_witness_count facts =
         (if required_witnesses msg = None \<and> po_witness_count (pr_facts options) = None
          then Some (word_of_nat n) else po_witness_count (pr_facts options)))"
proof -
  have same: "po_witness_count facts' = po_witness_count facts" if "with_infusions ra msg facts c = (Ok facts', c')"
    for facts facts' and c c' :: "'a PhantasmaRpc"
    using that by (auto simp: with_infusions_def Let_def op_bind_Ok op_lift_apply split: if_split_asm)
  show ?thesis
    using assms
    by (auto simp: plan_for_signers_def planner_plan_def op_bind_Ok op_lift_apply dest!: same split: if_split_asm) blast+
qed

text \<open>The requests between two states of a client that only looked things up, in the order they were posted.\<close>

definition looked_up :: "'w PhantasmaRpc \<Rightarrow> 'w PhantasmaRpc \<Rightarrow> json list \<Rightarrow> bool" where
  "looked_up c c' queries \<longleftrightarrow>
     rc_posted c' = rc_posted c @ queries \<and>
     rc_next_request_id c' = rc_next_request_id c + word_of_nat (length queries) \<and>
     (\<forall>query\<in>set queries. \<exists>request_id rpc_method params.
        rpc_method \<in> QUERY_METHODS \<and> query = request_body request_id rpc_method params)"

lemma looked_upI: "posts_only QUERY_METHODS c c' \<Longrightarrow> numbered c c' \<Longrightarrow> \<exists>queries. looked_up c c' queries"
  by (auto simp: posts_only_def numbered_def looked_up_def)

lemma looked_up_same [simp]: "looked_up c c queries \<longleftrightarrow> queries = []"
  by (auto simp: looked_up_def)

lemma looked_up_no_broadcasts: "looked_up c c' queries \<Longrightarrow> broadcasts c c' = []"
  by (rule queries_do_not_broadcast) (auto simp: looked_up_def posts_only_def)

lemma preparation_looks_up:
  assumes "check_preflight nb ra msg options c = (Ok (), c1)"
    and "plan_for_signers depth nb ra msg n (so_plan options) c1 = (Ok planned, c2)"
  obtains queries where "looked_up c c2 queries"
    and "so_skip_preflight options \<and> tm_max_gas msg \<noteq> 0 \<longrightarrow> queries = []"
proof -
  have "posts_only QUERY_METHODS c c2"
    using check_posts_queries [of c nb ra msg options] planning_posts_queries [of c1 depth nb ra msg n "so_plan options"]
      assms by (auto intro: naming.compose)
  moreover have "numbered c c1" "numbered c1 c2"
    using numbering.looks_up(2) [of nb ra msg options]
      numbering.plans_for_signers [of depth nb ra msg n "so_plan options"] assms
    by (simp_all add: keeps_def) (metis snd_conv)+
  then have "numbered c c2" by (rule numbered_trans)
  ultimately obtain queries where queries: "looked_up c c2 queries" using looked_upI by blast
  have "c1 = c" if "so_skip_preflight options"
    using assms(1) that by (simp add: check_preflight_def op_lift_apply)
  moreover have "c2 = c1" if "tm_max_gas msg \<noteq> 0"
    using plan_for_signers_Ok [OF assms(2)] that by auto
  ultimately have "so_skip_preflight options \<and> tm_max_gas msg \<noteq> 0 \<longrightarrow> queries = []" using queries by auto
  with queries show ?thesis by (rule that)
qed

text \<open>C3: A send that answers with a hash posted its queries first, and then, as its last request and under the next
  number, the one broadcast of an envelope: the bytes read back as the signed message. A message that states
  its gas offer is signed as it is, without any request when the pre-flight is skipped; one that leaves the offer open carries the
  planned limits, its envelope has the size the fee was computed from and it offers at least the expected bill.
\<close>

theorem send_tx_msg_broadcasts_the_plan:
  assumes nb: "num_bigint_api nb" and ok: "TxMsg_ok msg" and signers: "fits_length (length signers)"
    and wc: "required_witnesses msg = None \<longrightarrow>
      po_witness_count (pr_facts (so_plan options)) \<in> {None, Some (word_of_nat (length signers))}"
    and sent: "send_tx_msg depth nb ra msg signers options c = (Ok hash, c')"
  shows "\<exists>planned stx asked bytes queries broadcast.
    sign_tx_msg_with nb planned signers = Ok (stx, asked) \<and> sm_msg stx = planned \<and>
    deserialize (read_SignedTxMsg nb) bytes = Ok stx \<and>
    (tm_max_gas msg \<noteq> 0 \<and> planned = msg \<or>
     tm_max_gas msg = 0 \<and>
     (\<exists>config facts plan. plan_fees depth nb msg config facts = Ok plan \<and> planned = plan_apply plan msg \<and>
        length bytes = unat (pl_envelope_bytes plan) \<and> pl_expected_gas_bill plan \<le> tm_max_gas planned)) \<and>
    broadcast = request_body (rc_next_request_id c + word_of_nat (length queries))
      (lit ''sendCarbonTransaction'') [J_String (api_hex_encode ra bytes)] \<and>
    rc_posted c' = rc_posted c @ queries @ [broadcast] \<and> broadcasts c c' = [broadcast] \<and>
    (\<forall>query\<in>set queries. \<exists>request_id rpc_method params.
       rpc_method \<in> QUERY_METHODS \<and> query = request_body request_id rpc_method params) \<and>
    (so_skip_preflight options \<and> tm_max_gas msg \<noteq> 0 \<longrightarrow> queries = [])"
proof -
  obtain c1 planned c2 bytes where step: "check_preflight nb ra msg options c = (Ok (), c1)"
    "plan_for_signers depth nb ra msg (length signers) (so_plan options) c1 = (Ok planned, c2)"
    "sign_and_serialize_tx_msg_with nb planned signers = Ok bytes"
    "send_carbon_transaction ra bytes c2 = (Ok hash, c')"
    using sent by (auto simp: send_tx_msg_def op_bind_Ok op_lift_apply)
  obtain stx asked where stx: "sign_tx_msg_with nb planned signers = Ok (stx, asked)"
    "serialize (write_SignedTxMsg nb) stx = Ok bytes"
    using step(3) by (auto simp: sign_and_serialize_tx_msg_with_def bind_result_eq_Ok)
  note witnesses = sign_with_witnesses_ok [OF stx(1) signers]
  obtain queries where queries: "looked_up c c2 queries"
    "so_skip_preflight options \<and> tm_max_gas msg \<noteq> 0 \<longrightarrow> queries = []"
    using preparation_looks_up [OF step(1,2)] .
  let ?broadcast = "request_body (rc_next_request_id c2) (lit ''sendCarbonTransaction'') [J_String (api_hex_encode ra bytes)]"
  have posted: "rc_posted c' = rc_posted c2 @ [?broadcast]" by (rule send_carbon_posts [OF step(4)])
  have "broadcasts c c' = [?broadcast]"
    using looked_up_no_broadcasts [OF queries(1)] posted queries(1)
    by (simp add: broadcasts_def looked_up_def)
  moreover consider "tm_max_gas msg \<noteq> 0" "planned = msg"
    | config facts plan where "tm_max_gas msg = 0" "plan_fees depth nb msg config facts = Ok plan"
      "planned = plan_apply plan msg"
      "required_witnesses msg = None \<longrightarrow> po_witness_count facts = Some (word_of_nat (length signers))"
    using plan_for_signers_Ok [OF step(2)] wc by auto
  then have "deserialize (read_SignedTxMsg nb) bytes = Ok stx \<and>
    (tm_max_gas msg \<noteq> 0 \<and> planned = msg \<or>
     tm_max_gas msg = 0 \<and>
     (\<exists>config facts plan. plan_fees depth nb msg config facts = Ok plan \<and> planned = plan_apply plan msg \<and>
        length bytes = unat (pl_envelope_bytes plan) \<and> pl_expected_gas_bill plan \<le> tm_max_gas planned))"
  proof cases
    case 1
    then have "SignedTxMsg_ok stx" using witnesses ok by (simp add: SignedTxMsg_ok_def)
    then show ?thesis using 1 SignedTxMsg_codec.deserialize_serialize [of nb stx] nb stx(2) by auto
  next
    case 2
    have "required_witnesses msg = None \<longrightarrow>
        po_witness_count facts = Some (word_of_nat (length signers)) \<and> fits_length (length signers)"
      using 2(4) signers by simp
    note carries = signed_plan [OF nb ok 2(2) this, of stx bytes]
    show ?thesis using carries witnesses stx(2) 2 by auto
  qed
  ultimately show ?thesis
    using stx(1) witnesses(2) posted queries unfolding looked_up_def
    by (intro exI [of _ planned] exI [of _ stx] exI [of _ asked] exI [of _ bytes] exI [of _ queries] exI [of _ ?broadcast])
      simp
qed

section \<open>Witnesses\<close>

definition sample_send :: SendTransactionOptions where
  "sample_send = \<lparr>so_plan = sample_requests, so_skip_preflight = False\<rparr>"

abbreviation sample_client :: "unit PhantasmaRpc" where
  "sample_client \<equiv> with_transport (lit ''node'') ()"

theorem session_requests_numbered_witness:
  "rc_next_request_id (snd (call_value sample_node (lit ''getChains'') [] sample_client)) = 2 \<and>
   map body_id (rc_posted (snd (call_value sample_node (lit ''getChains'') [] sample_client))) = [Some 1]"
proof -
  let ?c = "snd (call_value sample_node (lit ''getChains'') [] sample_client)"
  have "reachable sample_node ?c" by (intro reachable.call reachable.start)
  moreover have "length (rc_posted ?c) = 1" by (simp add: node_call_value after_request_def with_transport_def)
  ultimately show ?thesis using session_requests_numbered [of sample_node ?c] by simp
qed

lemma signed_sample:
  "\<exists>bytes. sign_and_serialize_tx_msg_with num_bigint_std (plan_apply sample_plan unplanned_transfer) [sample_signer] = Ok bytes"
proof -
  have "case sign_and_serialize_tx_msg_with num_bigint_std (plan_apply sample_plan unplanned_transfer) [sample_signer] of
      Ok _ \<Rightarrow> True | _ \<Rightarrow> False"
    by code_simp
  then show ?thesis by (auto split: result.splits)
qed

lemma node_send_carbon:
  "send_carbon_transaction sample_node bytes c =
     (Ok (lit ''AB''),
      after_request c (lit ''sendCarbonTransaction'') [J_String (string_of (nibble_encode bytes))] ())"
  by (simp add: send_carbon_transaction_def op_bind_apply node_call_value node_reply_def lit_inject op_lift_apply
      extract_hash_def) (simp add: sample_node_def)

lemma node_send:
  "\<exists>c'. send_tx_msg 4 num_bigint_std sample_node unplanned_transfer [sample_signer] sample_send sample_client =
     (Ok (lit ''AB''), c')"
proof -
  have facts: "rc_fee_cache sample_client = None" "po_witness_count (pr_facts sample_requests) = None"
    "po_infusions (pr_facts sample_requests) = None" "tm_max_gas unplanned_transfer = 0"
    by (simp_all add: with_transport_def sample_requests_def default_plan_options_def unplanned_transfer_def)
  obtain c1 where plan: "planner_plan 4 num_bigint_std sample_node unplanned_transfer sample_requests sample_client =
      (Ok sample_plan, c1)"
    using node_plan [OF facts(1-3)] by blast
  have "creates_token unplanned_transfer = None"
    by (simp add: creates_token_def unplanned_transfer_def sample_transfer_def)
  then have "check_preflight num_bigint_std sample_node unplanned_transfer sample_send sample_client = (Ok (), sample_client)"
    by (simp add: check_preflight_def sample_send_def preflight_transaction_def op_bind_apply op_lift_apply not_applicable_def)
  moreover have "plan_for_signers 4 num_bigint_std sample_node unplanned_transfer 1 sample_requests sample_client =
      (Ok (plan_apply sample_plan unplanned_transfer), c1)"
    using plan facts(4) by (simp add: plan_for_signers_def sample_witnesses op_bind_apply op_lift_apply)
  moreover obtain bytes where
    "sign_and_serialize_tx_msg_with num_bigint_std (plan_apply sample_plan unplanned_transfer) [sample_signer] = Ok bytes"
    using signed_sample by blast
  ultimately show ?thesis
    by (simp add: send_tx_msg_def op_bind_apply op_lift_apply sample_send_def node_send_carbon)
qed

theorem send_tx_msg_broadcasts_the_plan_witness:
  "\<exists>c' stx bytes. send_tx_msg 4 num_bigint_std sample_node unplanned_transfer [sample_signer] sample_send sample_client =
       (Ok (lit ''AB''), c') \<and>
     length (broadcasts sample_client c') = 1 \<and>
     body_method (last (rc_posted c')) = Some (lit ''sendCarbonTransaction'') \<and>
     deserialize (read_SignedTxMsg num_bigint_std) bytes = Ok stx \<and> tm_max_gas (sm_msg stx) \<noteq> 0"
proof -
  obtain c' where sent: "send_tx_msg 4 num_bigint_std sample_node unplanned_transfer [sample_signer] sample_send sample_client =
      (Ok (lit ''AB''), c')"
    using node_send by blast
  have "TxMsg_ok unplanned_transfer" "fits_length (length [sample_signer])"
    "required_witnesses unplanned_transfer = None \<longrightarrow>
      po_witness_count (pr_facts (so_plan sample_send)) \<in> {None, Some (word_of_nat (length [sample_signer]))}"
    using sample_transfer_ok by (simp_all add: unplanned_transfer_def TxMsg_ok_def fits_length_def sample_send_def
        sample_requests_def default_plan_options_def)
  note sends = send_tx_msg_broadcasts_the_plan [OF num_bigint_std.num_bigint_api_axioms this sent]
  then obtain planned stx asked bytes where stx: "sign_tx_msg_with num_bigint_std planned [sample_signer] = Ok (stx, asked)"
    "sm_msg stx = planned" "deserialize (read_SignedTxMsg num_bigint_std) bytes = Ok stx"
    "length (broadcasts sample_client c') = 1" "body_method (last (rc_posted c')) = Some (lit ''sendCarbonTransaction'')"
    by force
  have "tm_max_gas (sm_msg stx) \<noteq> 0"
    using sign_with_witnesses_ok(4) [OF stx(1)] stx(2) by (simp add: fits_length_def)
  with sent stx show ?thesis by blast
qed

text \<open>The creation of a token whose symbol the node does not resolve.\<close>

definition creation_info :: TokenInfo where
  "creation_info =
     \<lparr>ti_max_supply = IntX 100, ti_flags = 0, ti_decimals = 8, ti_owner = array_of (replicate 32 7),
      ti_symbol = SmallString (lit ''GPX''), ti_metadata = [], ti_token_schemas = []\<rparr>"

definition creation_args :: bytes where
  "creation_args = (case serialize (write_TokenInfo num_bigint_std) creation_info of Ok bs \<Rightarrow> bs | _ \<Rightarrow> [])"

definition creation_call :: TxMsgCall where
  "creation_call = \<lparr>call_module_id = MODULE_TOKEN, call_method_id = TOKEN_CREATE_TOKEN, call_args = creation_args,
     call_sections = None\<rparr>"

definition sample_creation :: TxMsg where
  "sample_creation = sample_transfer\<lparr>tm_tx_type := TT_Call, tm_msg := TP_Call creation_call\<rparr>"

lemma creation_args_read:
  "deserialize (read_TokenInfo num_bigint_std) (call_args creation_call) = Ok creation_info"
proof -
  have "TokenInfo_ok creation_info" by code_simp
  then have "bind_result (serialize (write_TokenInfo num_bigint_std) creation_info)
      (deserialize (read_TokenInfo num_bigint_std)) = Ok creation_info"
    using TokenInfo_codec.deserialize_serialize [of num_bigint_std creation_info] num_bigint_std.num_bigint_api_axioms
    by simp
  then show ?thesis by (auto simp: creation_call_def creation_args_def bind_result_eq_Ok)
qed

lemma signed_creation:
  "\<exists>bytes. sign_and_serialize_tx_msg_with num_bigint_std sample_creation [sample_signer] = Ok bytes"
proof -
  have "case sign_and_serialize_tx_msg_with num_bigint_std sample_creation [sample_signer] of Ok _ \<Rightarrow> True | _ \<Rightarrow> False"
    by code_simp
  then show ?thesis by (auto split: result.splits)
qed

lemma creation_symbol: "SmallString.as_str (ti_symbol creation_info) = lit ''GPX''"
  by (simp add: creation_info_def)

lemma node_get_token:
  "fst (get_token_with_id sample_node (lit ''GPX'') False 0 c) = Err (Rpc None (msg_of (lit ''Token not found'')))"
  "\<exists>token. fst (get_token_with_id sample_node (lit '''') False 1 c) = Ok token"
proof -
  obtain token where "de_TokenResult (api_float_text sample_node) (json_struct []) = Some token"
    by (auto simp: de_TokenResult_def struct_reads)
  then show "\<exists>token. fst (get_token_with_id sample_node (lit '''') False 1 c) = Ok token"
    by (auto simp: get_token_with_id_def node_call node_reply_def lit_inject from_value_def)
qed (simp add: get_token_with_id_def node_call node_reply_def lit_inject)

theorem token_creation_sent_only_when_free_witness:
  "\<exists>e c1 token c2 c3. get_token_with_id sample_node (lit ''GPX'') False 0 sample_client = (Err e, c1) \<and>
     get_token_with_id sample_node (lit '''') False 1 c2 = (Ok token, c3)"
proof -
  let ?c = sample_client
  obtain e c1 where lookup: "get_token_with_id sample_node (lit ''GPX'') False 0 ?c = (Err e, c1)"
    using node_get_token(1) [of ?c] by (metis prod.collapse)
  have "rc_fee_cache c1 = None"
    using lookup by (auto simp: get_token_with_id_def node_call after_request_def with_transport_def)
  then obtain cached c2 where "planner_read sample_node False c1 = (Ok cached, c2)" "cg_config cached = sample_fee_config"
    using node_planner_read by blast
  then have control: "control_token_id sample_node c1 = (Ok 1, c2)"
    by (simp add: control_token_id_def planner_config_def op_bind_apply op_lift_apply sample_fee_config_def)
  obtain token c3 where probe: "get_token_with_id sample_node (lit '''') False 1 c2 = (Ok token, c3)"
    using node_get_token(2) [of c2] by (metis prod.collapse)
  have creates: "creates_token sample_creation = Some creation_call"
    by (simp add: creates_token_def sample_creation_def creation_call_def)
  have symbol: "SmallString.as_str (ti_symbol creation_info) \<noteq> lit ''''"
    unfolding creation_symbol by (simp add: lit_inject)
  have "check_preflight num_bigint_std sample_node sample_creation sample_send ?c = (Ok (), c3)"
    using symbol
    by (simp add: check_preflight_def sample_send_def preflight_transaction_def creates creation_args_read creation_symbol
        op_bind_apply op_lift_apply preflight_symbol_def op_case_def lookup control probe Let_def)
  moreover have "tm_max_gas sample_creation \<noteq> 0" by (simp add: sample_creation_def sample_transfer_def)
  moreover obtain bytes where
    "sign_and_serialize_tx_msg_with num_bigint_std sample_creation [sample_signer] = Ok bytes"
    using signed_creation by blast
  ultimately obtain c4 where send: "snd (send_tx_msg 4 num_bigint_std sample_node sample_creation [sample_signer] sample_send ?c) = c4"
    "send_carbon_transaction sample_node bytes c3 = (Ok (lit ''AB''), c4)"
    by (simp add: send_tx_msg_def plan_for_signers_def op_bind_apply op_lift_apply node_send_carbon)
  have "posts_only QUERY_METHODS ?c c3"
    using check_posts_queries [of ?c num_bigint_std sample_node sample_creation sample_send]
      \<open>check_preflight _ _ _ _ _ = _\<close> by simp
  then have "broadcasts ?c (snd (send_tx_msg 4 num_bigint_std sample_node sample_creation [sample_signer] sample_send ?c)) \<noteq> []"
    using posts_only_extends [of QUERY_METHODS ?c c3] send_carbon_posts [OF send(2)]
    by (auto simp: broadcasts_def send(1))
  from token_creation_sent_only_when_free [OF creates creation_args_read symbol _ this]
  show ?thesis
    using lookup probe by (auto simp: sample_send_def creation_symbol)
qed

end
