(* ===== verification/CarbonMetadata.thy ===== *)
theory CarbonMetadata
  imports CarbonSign Json
begin

text \<open>
  Token schemas and metadata (\<open>src/src/carbon.rs\<close>): the standard fields and the check that a token's
  schemas carry them, schemas from JSON, the coercion of the caller's values to the declared types, and
  the builders of token metadata, series metadata and NFT ROMs. The JSON parser, the hex decoder and the
  Base64 decoder belong to other crates: they are the arguments \<open>parse\<close>, \<open>ca\<close> and \<open>b64\<close>. A value nests as
  deep as its schema says, and the writers take the depth of the stack as elsewhere.
\<close>

section \<open>Standard fields\<close>

text \<open>\<open>From<&str> for SmallString\<close> expects the text to fit.\<close>

definition small_string_from :: "rstring \<Rightarrow> SmallString result" where
  "small_string_from v =
     (case SmallString_new v of Ok s \<Rightarrow> Ok s | Err e \<Rightarrow> Panic Expect_Failed | Panic p \<Rightarrow> Panic p)"

definition variable_schema_new :: "VMType \<Rightarrow> VMVariableSchema" where
  "variable_schema_new t = VMVariableSchema t None"

definition variable_schema_with_struct :: "VMType \<Rightarrow> VMStructSchema \<Rightarrow> VMVariableSchema" where
  "variable_schema_with_struct t s = VMVariableSchema t (Some s)"

definition named_schema_new :: "rstring \<Rightarrow> VMType \<Rightarrow> VMNamedVariableSchema result" where
  "named_schema_new n t =
     bind_result (small_string_from n) (\<lambda>n. Ok (VMNamedVariableSchema n (variable_schema_new t)))"

definition named_schema_with_struct :: "rstring \<Rightarrow> VMType \<Rightarrow> VMStructSchema \<Rightarrow> VMNamedVariableSchema result" where
  "named_schema_with_struct n t s =
     bind_result (small_string_from n) (\<lambda>n. Ok (VMNamedVariableSchema n (variable_schema_with_struct t s)))"

definition struct_schema_new :: "VMNamedVariableSchema list \<Rightarrow> VMStructSchema" where
  "struct_schema_new fs = VMStructSchema fs 0"

definition struct_schema_with_flags :: "VMNamedVariableSchema list \<Rightarrow> u8 \<Rightarrow> VMStructSchema" where
  "struct_schema_with_flags fs fl = VMStructSchema fs fl"

definition named_variable_new :: "rstring \<Rightarrow> VMDynamicVariable \<Rightarrow> VMNamedDynamicVariable result" where
  "named_variable_new n v = bind_result (small_string_from n) (\<lambda>n. Ok (VMNamedDynamicVariable n v))"

text \<open>The names that the source spells out fit.\<close>

definition standard_field :: "string \<Rightarrow> VMType \<Rightarrow> VMNamedVariableSchema" where
  "standard_field n t = VMNamedVariableSchema (SmallString (lit n)) (variable_schema_new t)"

definition standard_variable :: "string \<Rightarrow> VMDynamicVariable \<Rightarrow> VMNamedDynamicVariable" where
  "standard_variable n v = VMNamedDynamicVariable (SmallString (lit n)) v"

definition STANDARD_META_ID :: string where
  "STANDARD_META_ID = ''_i''"

definition standard_series_fields :: "VMNamedVariableSchema list" where
  "standard_series_fields =
     [standard_field STANDARD_META_ID VT_Int256, standard_field ''mode'' VT_Int8,
      standard_field ''rom'' VT_Bytes]"

definition standard_nft_fields :: "VMNamedVariableSchema list" where
  "standard_nft_fields =
     [standard_field STANDARD_META_ID VT_Int256, standard_field ''rom'' VT_Bytes]"

definition standard_metadata_fields :: "VMNamedVariableSchema list" where
  "standard_metadata_fields =
     [standard_field ''name'' VT_String, standard_field ''description'' VT_String,
      standard_field ''imageURL'' VT_String, standard_field ''infoURL'' VT_String,
      standard_field ''royalties'' VT_Int32]"

definition prepare_standard_token_schemas :: "bool \<Rightarrow> TokenSchemas" where
  "prepare_standard_token_schemas shared_metadata =
     (let metadata = standard_metadata_fields;
          series = (if shared_metadata then standard_series_fields @ metadata else standard_series_fields);
          rom = (if shared_metadata then standard_nft_fields else standard_nft_fields @ metadata)
      in \<lparr>tss_series_metadata = struct_schema_new series, tss_rom = struct_schema_new rom,
          tss_ram = struct_schema_with_flags [] DYNAMIC_EXTRAS\<rparr>)"

section \<open>The check of a token's schemas\<close>

text \<open>One pass over the fields of a schema: whether the field is there, and whether a name that
  differs in case only has been seen.\<close>

primrec scan_fields :: "VMNamedVariableSchema \<Rightarrow> VMNamedVariableSchema list \<Rightarrow> bool \<Rightarrow> (bool \<times> bool) result" where
  "scan_fields expected [] mismatch = Ok (False, mismatch)"
| "scan_fields expected (actual # rest) mismatch =
     (if nv_name actual = nv_name expected
      then if vs_type (nv_schema actual) \<noteq> vs_type (nv_schema expected)
           then Err (Builder (''type mismatch for '' @ msg_of (as_str (nv_name expected)) @ '' field''))
           else Ok (True, False)
      else scan_fields expected rest
             (mismatch \<or> eq_ignore_ascii_case (as_str (nv_name actual)) (as_str (nv_name expected))))"

primrec scan_schemas :: "VMNamedVariableSchema \<Rightarrow> VMStructSchema list \<Rightarrow> bool \<Rightarrow> (bool \<times> bool) result" where
  "scan_schemas expected [] mismatch = Ok (False, mismatch)"
| "scan_schemas expected (schema # rest) mismatch =
     bind_result (scan_fields expected (ss_fields schema) mismatch) (\<lambda>(found, mismatch).
       if found then Ok (True, mismatch) else scan_schemas expected rest mismatch)"

definition assert_metadata_field :: "VMStructSchema list \<Rightarrow> VMNamedVariableSchema \<Rightarrow> unit result" where
  "assert_metadata_field schemas expected =
     bind_result (scan_schemas expected schemas False) (\<lambda>(found, mismatch).
       if found then Ok ()
       else if mismatch
       then Err (Builder (''case mismatch for '' @ msg_of (as_str (nv_name expected)) @ '' field''))
       else Err (Builder (''mandatory metadata field not found: '' @ msg_of (as_str (nv_name expected)))))"

definition assert_metadata_fields :: "VMStructSchema list \<Rightarrow> VMNamedVariableSchema list \<Rightarrow> unit result" where
  "assert_metadata_fields schemas expected =
     bind_result (collect_result (assert_metadata_field schemas) expected) (\<lambda>_. Ok ())"

definition verify_token_schemas :: "TokenSchemas \<Rightarrow> unit result" where
  "verify_token_schemas schemas =
     bind_result (assert_metadata_fields [tss_series_metadata schemas, tss_rom schemas]
       standard_metadata_fields) (\<lambda>_.
     bind_result (assert_metadata_fields [tss_series_metadata schemas] standard_series_fields) (\<lambda>_.
     bind_result (assert_metadata_fields [tss_rom schemas] standard_nft_fields) (\<lambda>_. Ok ())))"

section \<open>Schemas from fields and from JSON\<close>

record TokenSchemaField =
  tsf_name :: rstring
  tsf_vm_type :: VMType

record TokenSchemasJson =
  tsj_series_metadata :: "TokenSchemaField list"
  tsj_rom :: "TokenSchemaField list"
  tsj_ram :: "TokenSchemaField list"

definition declared_fields :: "TokenSchemaField list \<Rightarrow> VMNamedVariableSchema list result" where
  "declared_fields = collect_result (\<lambda>f. named_schema_new (tsf_name f) (tsf_vm_type f))"

definition build_token_schemas_from_fields ::
    "TokenSchemaField list \<Rightarrow> TokenSchemaField list \<Rightarrow> TokenSchemaField list \<Rightarrow> TokenSchemas result" where
  "build_token_schemas_from_fields series_metadata rom ram =
     bind_result (declared_fields series_metadata) (\<lambda>series.
     bind_result (declared_fields rom) (\<lambda>rom_fields.
     bind_result (declared_fields ram) (\<lambda>ram_fields.
       let schemas =
         \<lparr>tss_series_metadata = struct_schema_new (standard_series_fields @ series),
          tss_rom = struct_schema_new (standard_nft_fields @ rom_fields),
          tss_ram = struct_schema_with_flags ram_fields (if ram = [] then DYNAMIC_EXTRAS else 0)\<rparr>
       in bind_result (verify_token_schemas schemas) (\<lambda>_. Ok schemas))))"

definition trim_text :: "rstring \<Rightarrow> bytes" where
  "trim_text v = trim_end (trim_start (string_bytes v))"

primrec vm_type_name :: "VMType \<Rightarrow> string" where
  "vm_type_name VT_Dynamic = ''Dynamic''"
| "vm_type_name VT_Array = ''Array''"
| "vm_type_name VT_Bytes = ''Bytes''"
| "vm_type_name VT_Struct = ''Struct''"
| "vm_type_name VT_Int8 = ''Int8''"
| "vm_type_name VT_Int16 = ''Int16''"
| "vm_type_name VT_Int32 = ''Int32''"
| "vm_type_name VT_Int64 = ''Int64''"
| "vm_type_name VT_Int256 = ''Int256''"
| "vm_type_name VT_Bytes16 = ''Bytes16''"
| "vm_type_name VT_Bytes32 = ''Bytes32''"
| "vm_type_name VT_Bytes64 = ''Bytes64''"
| "vm_type_name VT_String = ''String''"
| "vm_type_name VT_ArrayDynamic = ''Array_Dynamic''"
| "vm_type_name VT_ArrayBytes = ''Array_Bytes''"
| "vm_type_name VT_ArrayStruct = ''Array_Struct''"
| "vm_type_name VT_ArrayInt8 = ''Array_Int8''"
| "vm_type_name VT_ArrayInt16 = ''Array_Int16''"
| "vm_type_name VT_ArrayInt32 = ''Array_Int32''"
| "vm_type_name VT_ArrayInt64 = ''Array_Int64''"
| "vm_type_name VT_ArrayInt256 = ''Array_Int256''"
| "vm_type_name VT_ArrayBytes16 = ''Array_Bytes16''"
| "vm_type_name VT_ArrayBytes32 = ''Array_Bytes32''"
| "vm_type_name VT_ArrayBytes64 = ''Array_Bytes64''"
| "vm_type_name VT_ArrayString = ''Array_String''"

text \<open>The arms of \<open>vm_type_from_string\<close>; an array type has two spellings.\<close>

definition vm_type_arms :: "(string \<times> VMType) list" where
  "vm_type_arms =
     [(''Dynamic'', VT_Dynamic), (''Array'', VT_Array), (''Bytes'', VT_Bytes), (''Struct'', VT_Struct),
      (''Int8'', VT_Int8), (''Int16'', VT_Int16), (''Int32'', VT_Int32), (''Int64'', VT_Int64),
      (''Int256'', VT_Int256), (''Bytes16'', VT_Bytes16), (''Bytes32'', VT_Bytes32),
      (''Bytes64'', VT_Bytes64), (''String'', VT_String),
      (''Array_Dynamic'', VT_ArrayDynamic), (''ArrayDynamic'', VT_ArrayDynamic),
      (''Array_Bytes'', VT_ArrayBytes), (''ArrayBytes'', VT_ArrayBytes),
      (''Array_Struct'', VT_ArrayStruct), (''ArrayStruct'', VT_ArrayStruct),
      (''Array_Int8'', VT_ArrayInt8), (''ArrayInt8'', VT_ArrayInt8),
      (''Array_Int16'', VT_ArrayInt16), (''ArrayInt16'', VT_ArrayInt16),
      (''Array_Int32'', VT_ArrayInt32), (''ArrayInt32'', VT_ArrayInt32),
      (''Array_Int64'', VT_ArrayInt64), (''ArrayInt64'', VT_ArrayInt64),
      (''Array_Int256'', VT_ArrayInt256), (''ArrayInt256'', VT_ArrayInt256),
      (''Array_Bytes16'', VT_ArrayBytes16), (''ArrayBytes16'', VT_ArrayBytes16),
      (''Array_Bytes32'', VT_ArrayBytes32), (''ArrayBytes32'', VT_ArrayBytes32),
      (''Array_Bytes64'', VT_ArrayBytes64), (''ArrayBytes64'', VT_ArrayBytes64),
      (''Array_String'', VT_ArrayString), (''ArrayString'', VT_ArrayString)]"

definition vm_type_from_string :: "rstring \<Rightarrow> VMType result" where
  "vm_type_from_string v =
     (let text = trim_text v
      in case find (\<lambda>(name, t). text = map of_char name) vm_type_arms of
           Some (name, t) \<Rightarrow> Ok t
         | None \<Rightarrow> Err (Builder (''unknown VM type: '' @ text_chars text)))"

definition as_array :: "json \<Rightarrow> json list option" where
  "as_array v = (case v of J_Array xs \<Rightarrow> Some xs | _ \<Rightarrow> None)"

definition as_object :: "json \<Rightarrow> (rstring \<times> json) list option" where
  "as_object v = (case v of J_Object kvs \<Rightarrow> Some kvs | _ \<Rightarrow> None)"

definition object_get :: "(rstring \<times> json) list \<Rightarrow> string \<Rightarrow> json option" where
  "object_get kvs k = map_of kvs (lit k)"

definition parse_token_schema_field :: "string \<Rightarrow> nat \<Rightarrow> json \<Rightarrow> TokenSchemaField result" where
  "parse_token_schema_field key index item =
     (case as_object item of
        None \<Rightarrow> Err (Builder (key @ '' field '' @ nat_chars index @ '' invalid''))
      | Some obj \<Rightarrow>
          (case Option.bind (object_get obj ''name'') value_str of
             None \<Rightarrow> Err (Builder (key @ '' field name must be string''))
           | Some name \<Rightarrow>
               (case Option.bind (object_get obj ''type'') value_str of
                  None \<Rightarrow> Err (Builder (key @ '' field type must be string''))
                | Some raw_type \<Rightarrow>
                    bind_result (vm_type_from_string raw_type) (\<lambda>t.
                      Ok \<lparr>tsf_name = name, tsf_vm_type = t\<rparr>))))"

definition parse_token_schema_field_array ::
    "(rstring \<times> json) list \<Rightarrow> string \<Rightarrow> TokenSchemaField list result" where
  "parse_token_schema_field_array raw key =
     (case Option.bind (object_get raw key) as_array of
        None \<Rightarrow> Err (Builder (key @ '' must be an array''))
      | Some items \<Rightarrow>
          collect_result (\<lambda>(index, item). parse_token_schema_field key index item) (enumerate 0 items))"

definition parse_token_schemas_json :: "(rstring \<Rightarrow> json option) \<Rightarrow> rstring \<Rightarrow> TokenSchemasJson result" where
  "parse_token_schemas_json parse data =
     (case parse data of
        None \<Rightarrow> Err (Builder ''invalid token schema JSON: '')
      | Some raw \<Rightarrow>
          (case as_object raw of
             None \<Rightarrow> Err (Builder ''token schema JSON must be an object'')
           | Some obj \<Rightarrow>
               bind_result (parse_token_schema_field_array obj ''seriesMetadata'') (\<lambda>series.
               bind_result (parse_token_schema_field_array obj ''rom'') (\<lambda>rom.
               bind_result (parse_token_schema_field_array obj ''ram'') (\<lambda>ram.
                 Ok \<lparr>tsj_series_metadata = series, tsj_rom = rom, tsj_ram = ram\<rparr>)))))"

definition token_schemas_from_json :: "(rstring \<Rightarrow> json option) \<Rightarrow> rstring \<Rightarrow> TokenSchemas result" where
  "token_schemas_from_json parse data =
     bind_result (parse_token_schemas_json parse data) (\<lambda>parsed.
       build_token_schemas_from_fields (tsj_series_metadata parsed) (tsj_rom parsed) (tsj_ram parsed))"

definition serialize_token_schemas :: "TokenSchemas \<Rightarrow> bytes result" where
  "serialize_token_schemas schemas = serialize write_TokenSchemas schemas"

definition serialize_token_schemas_hex :: "(bytes \<Rightarrow> rstring) \<Rightarrow> TokenSchemas \<Rightarrow> rstring result" where
  "serialize_token_schemas_hex hex_upper schemas =
     bind_result (serialize_token_schemas schemas) (\<lambda>bs. Ok (hex_upper bs))"

definition build_and_serialize_token_schemas :: "TokenSchemas option \<Rightarrow> bytes result" where
  "build_and_serialize_token_schemas schemas =
     serialize_token_schemas (case schemas of Some s \<Rightarrow> s | None \<Rightarrow> prepare_standard_token_schemas False)"

section \<open>Fixed bytes from hex\<close>

text \<open>\<open>from_hex\<close> and \<open>from_str\<close> of \<open>Bytes16\<close>, \<open>Bytes32\<close> and \<open>Bytes64\<close>.\<close>

definition fixed_from_hex :: "crypto_api \<Rightarrow> rstring \<Rightarrow> 'n::len byte_array result" where
  "fixed_from_hex ca v = bind_result (decode_hex ca v) try_from_slice"

section \<open>Finding a value\<close>

definition quoted :: "rstring \<Rightarrow> string" where
  "quoted name = [CHR 0x22] @ msg_of name @ [CHR 0x22]"

definition metadata_failure :: "rstring \<Rightarrow> string \<Rightarrow> phantasma_error" where
  "metadata_failure name rest = Builder (''metadata field '' @ quoted name @ '' '' @ rest)"

definition metadata_error :: "rstring \<Rightarrow> string \<Rightarrow> 'a result" where
  "metadata_error name rest = Err (metadata_failure name rest)"

definition find_metadata_value :: "(rstring \<times> VMValue) list \<Rightarrow> rstring \<Rightarrow> VMValue option result" where
  "find_metadata_value metadata name =
     (case find (\<lambda>(key, v). key = name) metadata of
        Some (key, v) \<Rightarrow> Ok (Some v)
      | None \<Rightarrow>
          (case find (\<lambda>(key, v). eq_ignore_ascii_case key name) metadata of
             Some (key, v) \<Rightarrow> metadata_error name (''provided in incorrect case as '' @ quoted key)
           | None \<Rightarrow> Ok None))"

definition find_struct_field :: "VMDynamicStruct \<Rightarrow> rstring \<Rightarrow> VMDynamicVariable option result" where
  "find_struct_field structure name =
     (case find (\<lambda>f. field_name f = name) (ds_fields structure) of
        Some f \<Rightarrow> Ok (Some (dn_value f))
      | None \<Rightarrow>
          (case find (\<lambda>f. eq_ignore_ascii_case (field_name f) name) (ds_fields structure) of
             Some f \<Rightarrow> metadata_error name (''provided in incorrect case as '' @ quoted (field_name f))
           | None \<Rightarrow> Ok None))"

section \<open>Coercion of single values\<close>

definition decode_metadata_hex :: "crypto_api \<Rightarrow> rstring \<Rightarrow> rstring \<Rightarrow> bytes result" where
  "decode_metadata_hex ca name v =
     (let text = trim_text v
      in if text = [] then metadata_error name ''must be a byte array or hex string''
         else let text = strip_0x text;
                  text = (if length text mod 2 = 0 then text else of_char (CHR ''0'') # text)
           in case hex_decode ca text of
                Some d \<Rightarrow> Ok d
              | None \<Rightarrow> metadata_error name ''must be a byte array or hex string'')"

definition coerce_metadata_bytes :: "crypto_api \<Rightarrow> rstring \<Rightarrow> VMValue \<Rightarrow> bytes result" where
  "coerce_metadata_bytes ca name v =
     (case v of
        VV_Bytes x \<Rightarrow> Ok x
      | VV_String x \<Rightarrow> decode_metadata_hex ca name x
      | _ \<Rightarrow> metadata_error name ''must be a byte array or hex string'')"

definition coerce_metadata_string :: "rstring \<Rightarrow> VMValue \<Rightarrow> rstring result" where
  "coerce_metadata_string name v =
     (case v of
        VV_String x \<Rightarrow> if trim_text x = [] then metadata_error name ''is mandatory'' else Ok x
      | _ \<Rightarrow> metadata_error name ''must be a string'')"

definition coerce_metadata_fixed_bytes16 :: "crypto_api \<Rightarrow> rstring \<Rightarrow> VMValue \<Rightarrow> bytes16 result" where
  "coerce_metadata_fixed_bytes16 ca name v =
     (case v of
        VV_Bytes16 x \<Rightarrow> Ok x
      | _ \<Rightarrow> bind_result (coerce_metadata_bytes ca name v) (\<lambda>bs.
          map_err (\<lambda>_. metadata_failure name ''must be exactly 16 bytes'') (try_from_slice bs)))"

definition coerce_metadata_fixed_bytes32 :: "crypto_api \<Rightarrow> rstring \<Rightarrow> VMValue \<Rightarrow> bytes32 result" where
  "coerce_metadata_fixed_bytes32 ca name v =
     (case v of
        VV_Bytes32 x \<Rightarrow> Ok x
      | _ \<Rightarrow> bind_result (coerce_metadata_bytes ca name v) (\<lambda>bs.
          map_err (\<lambda>_. metadata_failure name ''must be exactly 32 bytes'') (try_from_slice bs)))"

definition coerce_metadata_fixed_bytes64 :: "crypto_api \<Rightarrow> rstring \<Rightarrow> VMValue \<Rightarrow> bytes64 result" where
  "coerce_metadata_fixed_bytes64 ca name v =
     (case v of
        VV_Bytes64 x \<Rightarrow> Ok x
      | _ \<Rightarrow> bind_result (coerce_metadata_bytes ca name v) (\<lambda>bs.
          map_err (\<lambda>_. metadata_failure name ''must be exactly 64 bytes'') (try_from_slice bs)))"

text \<open>\<open>BigInt::to_i128\<close> is \<open>None\<close> outside the range of an \<open>i128\<close>; the integers here stay inside it.\<close>

definition metadata_integer :: "rstring \<Rightarrow> VMValue \<Rightarrow> int result" where
  "metadata_integer name v =
     (case v of
        VV_Int x \<Rightarrow> Ok (sint x)
      | VV_Int256 x \<Rightarrow>
          if - (2 ^ 127) \<le> x \<and> x < 2 ^ 127 then Ok x else metadata_error name ''must be an integer''
      | _ \<Rightarrow> metadata_error name ''must be an integer'')"

definition metadata_bigint :: "rstring \<Rightarrow> VMValue \<Rightarrow> int result" where
  "metadata_bigint name v =
     (case v of
        VV_Int x \<Rightarrow> Ok (sint x)
      | VV_Int256 x \<Rightarrow> Ok x
      | _ \<Rightarrow> metadata_error name ''must be an integer'')"

definition int_text :: "int \<Rightarrow> string" where
  "int_text v = (if v < 0 then ''-'' @ nat_chars (nat (- v)) else nat_chars (nat v))"

definition range_text :: "int \<Rightarrow> int \<Rightarrow> int \<Rightarrow> string" where
  "range_text signed_min signed_max unsigned_max =
     ''must be between '' @ int_text signed_min @ '' and '' @ int_text signed_max
     @ '' or between 0 and '' @ int_text unsigned_max"

definition i64_from :: "rstring \<Rightarrow> int \<Rightarrow> i64 result" where
  "i64_from name v =
     (if - (2 ^ 63) \<le> v \<and> v < 2 ^ 63 then Ok (word_of_int v)
      else metadata_error name ''must be an integer'')"

definition integer_width :: "VMType \<Rightarrow> nat result" where
  "integer_width t =
     (case t of VT_Int8 \<Rightarrow> Ok 8 | VT_Int16 \<Rightarrow> Ok 16 | VT_Int32 \<Rightarrow> Ok 32 | VT_Int64 \<Rightarrow> Ok 64
      | _ \<Rightarrow> Panic Expect_Failed)"

definition coerce_metadata_integer_for_type :: "rstring \<Rightarrow> VMType \<Rightarrow> int \<Rightarrow> i64 result" where
  "coerce_metadata_integer_for_type name t v =
     bind_result (integer_width t) (\<lambda>bit_width.
       let signed_min = - (2 ^ (bit_width - 1));
           signed_max = 2 ^ (bit_width - 1) - 1;
           unsigned_max = 2 ^ bit_width - 1
       in if \<not> (signed_min \<le> v \<and> v \<le> signed_max) \<and> \<not> (0 \<le> v \<and> v \<le> unsigned_max)
          then metadata_error name (range_text signed_min signed_max unsigned_max)
          else if bit_width = 8 \<or> v \<le> signed_max then i64_from name v
          else i64_from name (v - 2 ^ bit_width))"

definition validate_int256 :: "rstring \<Rightarrow> int \<Rightarrow> unit result" where
  "validate_int256 name v =
     (let signed_min = - (2 ^ 255); signed_max = 2 ^ 255 - 1; unsigned_max = 2 ^ 256 - 1
      in if \<not> (v \<ge> signed_min \<and> v \<le> signed_max \<or> v \<ge> 0 \<and> v \<le> unsigned_max)
         then metadata_error name (range_text signed_min signed_max unsigned_max)
         else Ok ())"

definition indexed :: "rstring \<Rightarrow> nat \<Rightarrow> rstring" where
  "indexed name i =
     string_of (string_bytes name @ map of_char ''['' @ dec_text i @ map of_char '']'')"

text \<open>Every type but the two that hold structs.\<close>

definition coerce_plain_value :: "crypto_api \<Rightarrow> rstring \<Rightarrow> VMType \<Rightarrow> VMValue \<Rightarrow> VMValue result" where
  "coerce_plain_value ca name t v =
     (case t of
        VT_Bytes \<Rightarrow> bind_result (coerce_metadata_bytes ca name v) (\<lambda>x. Ok (VV_Bytes x))
      | VT_String \<Rightarrow> bind_result (coerce_metadata_string name v) (\<lambda>x. Ok (VV_String x))
      | VT_Int256 \<Rightarrow>
          bind_result (metadata_bigint name v) (\<lambda>x.
          bind_result (validate_int256 name x) (\<lambda>_. Ok (VV_Int256 x)))
      | VT_Bytes16 \<Rightarrow> bind_result (coerce_metadata_fixed_bytes16 ca name v) (\<lambda>x. Ok (VV_Bytes16 x))
      | VT_Bytes32 \<Rightarrow> bind_result (coerce_metadata_fixed_bytes32 ca name v) (\<lambda>x. Ok (VV_Bytes32 x))
      | VT_Bytes64 \<Rightarrow> bind_result (coerce_metadata_fixed_bytes64 ca name v) (\<lambda>x. Ok (VV_Bytes64 x))
      | VT_ArrayDynamic \<Rightarrow>
          (case v of VV_ArrayDynamic x \<Rightarrow> Ok (VV_ArrayDynamic x)
           | _ \<Rightarrow> metadata_error name ''must contain dynamic VM variables'')
      | VT_ArrayBytes \<Rightarrow>
          (case v of VV_ArrayBytes x \<Rightarrow> Ok (VV_ArrayBytes x)
           | _ \<Rightarrow> metadata_error name ''must be a byte array array'')
      | VT_ArrayInt8 \<Rightarrow>
          (case v of VV_ArrayInt8 x \<Rightarrow> Ok (VV_ArrayInt8 x) | _ \<Rightarrow> metadata_error name ''must be an int8 array'')
      | VT_ArrayInt16 \<Rightarrow>
          (case v of VV_ArrayInt16 x \<Rightarrow> Ok (VV_ArrayInt16 x) | _ \<Rightarrow> metadata_error name ''must be an int16 array'')
      | VT_ArrayInt32 \<Rightarrow>
          (case v of VV_ArrayInt32 x \<Rightarrow> Ok (VV_ArrayInt32 x) | _ \<Rightarrow> metadata_error name ''must be an int32 array'')
      | VT_ArrayInt64 \<Rightarrow>
          (case v of VV_ArrayInt64 x \<Rightarrow> Ok (VV_ArrayInt64 x) | _ \<Rightarrow> metadata_error name ''must be an int64 array'')
      | VT_ArrayInt256 \<Rightarrow>
          (case v of
             VV_ArrayInt256 x \<Rightarrow>
               bind_result (collect_result (validate_int256 name) x) (\<lambda>_. Ok (VV_ArrayInt256 x))
           | _ \<Rightarrow> metadata_error name ''must be an int256 array'')
      | VT_ArrayBytes16 \<Rightarrow>
          (case v of VV_ArrayBytes16 x \<Rightarrow> Ok (VV_ArrayBytes16 x) | _ \<Rightarrow> metadata_error name ''must be a bytes16 array'')
      | VT_ArrayBytes32 \<Rightarrow>
          (case v of VV_ArrayBytes32 x \<Rightarrow> Ok (VV_ArrayBytes32 x) | _ \<Rightarrow> metadata_error name ''must be a bytes32 array'')
      | VT_ArrayBytes64 \<Rightarrow>
          (case v of VV_ArrayBytes64 x \<Rightarrow> Ok (VV_ArrayBytes64 x) | _ \<Rightarrow> metadata_error name ''must be a bytes64 array'')
      | VT_ArrayString \<Rightarrow>
          (case v of
             VV_ArrayString x \<Rightarrow>
               bind_result (collect_result (\<lambda>(i, item).
                 if trim_text item = [] then metadata_error (indexed name i) ''is mandatory'' else Ok ())
                 (enumerate 0 x)) (\<lambda>_. Ok (VV_ArrayString x))
           | _ \<Rightarrow> metadata_error name ''must be a string array'')
      | VT_Dynamic \<Rightarrow>
          (case v of VV_Dynamic x \<Rightarrow> Ok (VV_Dynamic x)
           | _ \<Rightarrow> metadata_error name ''must be a dynamic VM variable'')
      | VT_Array \<Rightarrow> Err (Serialization ''unsupported VM dynamic type: Array'')
      | _ \<Rightarrow>
          bind_result (metadata_integer name v) (\<lambda>x.
          bind_result (coerce_metadata_integer_for_type name t x) (\<lambda>x. Ok (VV_Int x))))"

section \<open>Coercion against a schema\<close>

lemma collect_result_cong [fundef_cong]:
  "xs = ys \<Longrightarrow> (\<And>x. x \<in> set ys \<Longrightarrow> f x = g x) \<Longrightarrow> collect_result f xs = collect_result g ys"
proof (induction ys arbitrary: xs)
  case (Cons y ys)
  then have "collect_result f ys = collect_result g ys" by simp
  with Cons.prems show ?case by simp
qed simp

text \<open>The value of a nested field is checked by coercing it; what the coercion gives is dropped, and
  the struct is kept as the caller passed it.\<close>

definition undeclared_field :: "VMNamedVariableSchema list \<Rightarrow> VMDynamicStruct \<Rightarrow> VMNamedDynamicVariable option" where
  "undeclared_field fs x = find (\<lambda>f. \<not> list_ex (\<lambda>sf. nv_name sf = dn_name f) fs) (ds_fields x)"

fun coerce_metadata_value :: "crypto_api \<Rightarrow> rstring \<Rightarrow> VMVariableSchema \<Rightarrow> VMValue \<Rightarrow> VMValue result"
  and validate_metadata_struct :: "crypto_api \<Rightarrow> rstring \<Rightarrow> VMStructSchema \<Rightarrow> VMDynamicStruct \<Rightarrow> unit result"
  and validate_metadata_field :: "crypto_api \<Rightarrow> VMDynamicStruct \<Rightarrow> VMNamedVariableSchema \<Rightarrow> unit result" where
  "coerce_metadata_value ca name (VMVariableSchema t d) v =
     (if t = VT_Struct then
        (case d of
           None \<Rightarrow> metadata_error name ''is missing struct schema''
         | Some s \<Rightarrow>
             (case v of
                VV_Struct x \<Rightarrow> bind_result (validate_metadata_struct ca name s x) (\<lambda>_. Ok (VV_Struct x))
              | _ \<Rightarrow> metadata_error name ''must be a struct''))
      else if t = VT_ArrayStruct then
        (case d of
           None \<Rightarrow> metadata_error name ''is missing a struct schema''
         | Some s \<Rightarrow>
             (case v of
                VV_ArrayStruct x \<Rightarrow>
                  bind_result (collect_result (\<lambda>(i, item). validate_metadata_struct ca (indexed name i) s item)
                    (enumerate 0 (sa_structs x))) (\<lambda>_. Ok (VV_ArrayStruct x))
              | _ \<Rightarrow> metadata_error name ''must be provided as a struct array''))
      else coerce_plain_value ca name t v)"
| "validate_metadata_struct ca parent (VMStructSchema fs fl) x =
     bind_result (collect_result (validate_metadata_field ca x) fs) (\<lambda>_.
       case undeclared_field fs x of
         None \<Rightarrow> Ok ()
       | Some f \<Rightarrow> metadata_error parent (''received unknown property '' @ quoted (field_name f)))"
| "validate_metadata_field ca x (VMNamedVariableSchema n s) =
     bind_result (find_struct_field x (as_str n)) (\<lambda>found.
       case found of
         None \<Rightarrow> metadata_error (as_str n) ''is mandatory''
       | Some v \<Rightarrow> bind_result (coerce_metadata_value ca (as_str n) s (dv_data v)) (\<lambda>_. Ok ()))"

definition metadata_bytes :: "crypto_api \<Rightarrow> (rstring \<times> VMValue) list \<Rightarrow> rstring \<Rightarrow> bytes result" where
  "metadata_bytes ca metadata name =
     bind_result (find_metadata_value metadata name) (\<lambda>found.
       case found of Some v \<Rightarrow> coerce_metadata_bytes ca name v | None \<Rightarrow> Ok [])"

definition metadata_dynamic_field ::
    "crypto_api \<Rightarrow> (rstring \<times> VMValue) list \<Rightarrow> VMNamedVariableSchema \<Rightarrow> VMNamedDynamicVariable result" where
  "metadata_dynamic_field ca metadata f =
     (let name = as_str (nv_name f)
      in bind_result (find_metadata_value metadata name) (\<lambda>found.
           case found of
             None \<Rightarrow> metadata_error name ''is mandatory''
           | Some v \<Rightarrow>
               bind_result (coerce_metadata_value ca name (nv_schema f) v) (\<lambda>x.
                 Ok (VMNamedDynamicVariable (nv_name f) (VMDynamicVariable (vs_type (nv_schema f)) x)))))"

definition metadata_dynamic_fields_for_schema ::
    "crypto_api \<Rightarrow> VMStructSchema \<Rightarrow> VMNamedVariableSchema list \<Rightarrow> (rstring \<times> VMValue) list
      \<Rightarrow> VMNamedDynamicVariable list result" where
  "metadata_dynamic_fields_for_schema ca schema defaults metadata =
     collect_result (metadata_dynamic_field ca metadata)
       (filter (\<lambda>f. \<not> list_ex (\<lambda>d. nv_name d = nv_name f) defaults) (ss_fields schema))"

section \<open>Builders of metadata\<close>

definition write_dynamic_struct_with_schema ::
    "nat \<Rightarrow> num_bigint \<Rightarrow> VMDynamicStruct \<Rightarrow> VMStructSchema \<Rightarrow> bytes result" where
  "write_dynamic_struct_with_schema depth nb structure schema =
     bind_result (write_with_schema depth nb schema structure \<lparr>wr_buffer = []\<rparr>) (\<lambda>(ok, w).
       if \<not> ok then Err (Builder ''metadata does not match schema'') else Ok (wr_buffer w))"

definition build_token_series_metadata ::
    "nat \<Rightarrow> num_bigint \<Rightarrow> crypto_api \<Rightarrow> VMStructSchema \<Rightarrow> int \<Rightarrow> (rstring \<times> VMValue) list \<Rightarrow> bytes result" where
  "build_token_series_metadata depth nb ca schema phantasma_series_id metadata =
     bind_result (metadata_bytes ca metadata (lit ''rom'')) (\<lambda>rom.
       let standard =
         [standard_variable STANDARD_META_ID (VMDynamicVariable VT_Int256 (VV_Int256 phantasma_series_id)),
          standard_variable ''mode'' (VMDynamicVariable VT_Int8 (VV_Int (if rom = [] then 0 else 1))),
          standard_variable ''rom'' (variable_bytes rom)]
       in bind_result (metadata_dynamic_fields_for_schema ca schema standard_series_fields metadata) (\<lambda>rest.
            write_dynamic_struct_with_schema depth nb (struct_new (standard @ rest)) schema))"

definition build_nft_rom ::
    "nat \<Rightarrow> num_bigint \<Rightarrow> crypto_api \<Rightarrow> VMStructSchema \<Rightarrow> int \<Rightarrow> (rstring \<times> VMValue) list \<Rightarrow> bytes result" where
  "build_nft_rom depth nb ca schema phantasma_nft_id metadata =
     bind_result (metadata_bytes ca metadata (lit ''rom'')) (\<lambda>rom.
       let standard =
         [standard_variable STANDARD_META_ID (VMDynamicVariable VT_Int256 (VV_Int256 phantasma_nft_id)),
          standard_variable ''rom'' (variable_bytes rom)]
       in bind_result (metadata_dynamic_fields_for_schema ca schema standard_nft_fields metadata) (\<lambda>rest.
            write_dynamic_struct_with_schema depth nb (struct_new (standard @ rest)) schema))"

definition is_phantasma_nft_reserved_field :: "rstring \<Rightarrow> bool" where
  "is_phantasma_nft_reserved_field name \<longleftrightarrow>
     eq_ignore_ascii_case name (lit STANDARD_META_ID) \<or> eq_ignore_ascii_case name (lit ''rom'')"

definition build_phantasma_nft_public_mint_schema :: "VMStructSchema \<Rightarrow> VMStructSchema" where
  "build_phantasma_nft_public_mint_schema schema =
     VMStructSchema
       (filter (\<lambda>f. \<not> is_phantasma_nft_reserved_field (as_str (nv_name f))) (ss_fields schema))
       (ss_flags schema)"

definition build_phantasma_nft_rom ::
    "nat \<Rightarrow> num_bigint \<Rightarrow> crypto_api \<Rightarrow> VMStructSchema \<Rightarrow> (rstring \<times> VMValue) list \<Rightarrow> bytes result" where
  "build_phantasma_nft_rom depth nb ca nft_rom_schema metadata =
     (if metadata = [] then Err (Builder ''metadata is required'')
      else case find (\<lambda>(name, v). is_phantasma_nft_reserved_field name) metadata of
        Some (name, v) \<Rightarrow>
          metadata_error name ''is reserved for chain-owned deterministic mint fields''
      | None \<Rightarrow>
          let public_schema = build_phantasma_nft_public_mint_schema nft_rom_schema
          in bind_result (metadata_dynamic_fields_for_schema ca public_schema [] metadata) (\<lambda>fields.
               write_dynamic_struct_with_schema depth nb (struct_new fields) public_schema))"

text \<open>\<open>str::starts_with\<close> and \<open>split_once\<close>, on the bytes.\<close>

definition starts_with :: "string \<Rightarrow> bytes \<Rightarrow> bool" where
  "starts_with p bs \<longleftrightarrow> take (length p) bs = map of_char p"

definition after_comma :: "bytes \<Rightarrow> bytes option" where
  "after_comma bs =
     (case dropWhile (\<lambda>b. b \<noteq> of_char (CHR '','')) bs of [] \<Rightarrow> None | _ # rest \<Rightarrow> Some rest)"

definition validate_icon_data_uri :: "(bytes \<Rightarrow> bytes option) \<Rightarrow> rstring \<Rightarrow> unit result" where
  "validate_icon_data_uri b64 v =
     (let lower = string_bytes (to_ascii_lowercase v)
      in if \<not> (starts_with ''data:image/png;base64,'' lower
               \<or> starts_with ''data:image/jpeg;base64,'' lower
               \<or> starts_with ''data:image/webp;base64,'' lower)
         then Err (Builder ''token icon must be a png/jpeg/webp data URI'')
         else case after_comma (string_bytes v) of
             None \<Rightarrow> Err (Builder ''token icon data URI must include a non-empty base64 payload'')
           | Some payload \<Rightarrow>
               if payload = []
               then Err (Builder ''token icon data URI must include a non-empty base64 payload'')
               else case b64 payload of
                   None \<Rightarrow> Err (Builder ''token icon data URI contains invalid base64: '')
                 | Some _ \<Rightarrow> Ok ())"

definition find_text :: "string \<Rightarrow> (rstring \<times> rstring) list \<Rightarrow> rstring option" where
  "find_text name fs = map_option snd (find (\<lambda>(n, v). n = lit name) fs)"

definition require_text :: "(rstring \<times> rstring) list \<Rightarrow> string \<Rightarrow> unit result" where
  "require_text fs required =
     (case find_text required fs of
        None \<Rightarrow> Err (Builder (''token metadata is missing required field: '' @ required))
      | Some v \<Rightarrow>
          if trim_text v = []
          then Err (Builder (''token metadata is missing required field: '' @ required))
          else Ok ())"

definition build_token_metadata ::
    "nat \<Rightarrow> num_bigint \<Rightarrow> (bytes \<Rightarrow> bytes option) \<Rightarrow> (rstring \<times> rstring) list \<Rightarrow> bytes result" where
  "build_token_metadata depth nb b64 fs =
     bind_result (collect_result (require_text fs) [''name'', ''icon'', ''url'', ''description'']) (\<lambda>_.
     bind_result (validate_icon_data_uri b64
       (case find_text ''icon'' fs of Some icon \<Rightarrow> icon | None \<Rightarrow> lit '''')) (\<lambda>_.
     bind_result (collect_result (\<lambda>(name, v). named_variable_new name (variable_string v)) fs) (\<lambda>variables.
       serialize (write_dynamic_struct depth nb) (struct_new variables))))"

section \<open>What the check of the schemas accepts\<close>

lemma find_append_case:
  "find P (xs @ ys) = (case find P xs of Some x \<Rightarrow> Some x | None \<Rightarrow> find P ys)"
  by (induction xs) auto

lemma scan_fields_find:
  "scan_fields e fs m =
     (case find (\<lambda>a. nv_name a = nv_name e) fs of
        Some a \<Rightarrow> if vs_type (nv_schema a) \<noteq> vs_type (nv_schema e)
                  then Err (Builder (''type mismatch for '' @ msg_of (as_str (nv_name e)) @ '' field''))
                  else Ok (True, False)
      | None \<Rightarrow> Ok (False, m \<or> list_ex (\<lambda>a. eq_ignore_ascii_case (as_str (nv_name a)) (as_str (nv_name e))) fs))"
  by (induction fs arbitrary: m) (auto split: option.split)

definition first_declared :: "VMStructSchema list \<Rightarrow> SmallString \<Rightarrow> VMType option" where
  "first_declared schemas n =
     map_option (\<lambda>a. vs_type (nv_schema a)) (find (\<lambda>a. nv_name a = n) (concat (map ss_fields schemas)))"

lemma scan_schemas_found:
  "bind_result (scan_schemas e schemas m) (\<lambda>(found, m'). if found then Ok () else r m') = Ok () \<longleftrightarrow>
     first_declared schemas (nv_name e) = Some (vs_type (nv_schema e))"
  if "\<And>m'. r m' \<noteq> Ok ()"
proof (induction schemas arbitrary: m)
  case Nil
  with that show ?case by (simp add: first_declared_def)
next
  case (Cons s ss)
  then show ?case
    by (auto simp: first_declared_def scan_fields_find find_append_case bind_result_assoc split: option.splits)
qed

lemma assert_metadata_field_iff:
  "assert_metadata_field schemas e = Ok () \<longleftrightarrow>
     first_declared schemas (nv_name e) = Some (vs_type (nv_schema e))"
  unfolding assert_metadata_field_def by (rule scan_schemas_found) simp

lemma collect_unit_iff:
  "bind_result (collect_result f xs) (\<lambda>_. Ok ()) = Ok () \<longleftrightarrow> list_all (\<lambda>x. f x = Ok ()) (xs :: 'a list)"
  for f :: "'a \<Rightarrow> unit result"
  by (induction xs) (auto simp: bind_result_eq_Ok)

lemma assert_metadata_fields_iff:
  "assert_metadata_fields schemas es = Ok () \<longleftrightarrow>
     list_all (\<lambda>e. first_declared schemas (nv_name e) = Some (vs_type (nv_schema e))) es"
  unfolding assert_metadata_fields_def collect_unit_iff assert_metadata_field_iff ..

lemma no_panics_collect: "(\<And>x. \<not> panics (f x)) \<Longrightarrow> \<not> panics (collect_result f xs)"
  by (induction xs) (auto simp: panics_bind)

lemma assert_metadata_fields_no_panic: "\<not> panics (assert_metadata_fields schemas es)"
proof -
  have scan: "\<not> panics (scan_schemas e ss m)" for e ss m
    by (induction ss arbitrary: m) (auto simp: panics_bind scan_fields_find split: option.splits)
  have "\<not> panics (assert_metadata_field schemas e)" for e
    using scan by (auto simp: assert_metadata_field_def panics_bind)
  from no_panics_collect [OF this] show ?thesis by (simp add: assert_metadata_fields_def panics_bind)
qed

lemma verify_token_schemas_no_panic: "\<not> panics (verify_token_schemas s)"
  by (auto simp: verify_token_schemas_def panics_bind assert_metadata_fields_no_panic)

section \<open>Schemas from fields\<close>

definition field_fits :: "TokenSchemaField \<Rightarrow> bool" where
  "field_fits f \<longleftrightarrow> length (string_bytes (tsf_name f)) \<le> 255"

definition declared_field :: "TokenSchemaField \<Rightarrow> VMNamedVariableSchema" where
  "declared_field f = VMNamedVariableSchema (SmallString (tsf_name f)) (variable_schema_new (tsf_vm_type f))"

lemma named_schema_new_eq:
  "named_schema_new (tsf_name f) (tsf_vm_type f) =
     (if field_fits f then Ok (declared_field f) else Panic Expect_Failed)"
  by (simp add: named_schema_new_def small_string_from_def SmallString_new_def field_fits_def declared_field_def)

lemma declared_fields_eq:
  "declared_fields fs = (if list_all field_fits fs then Ok (map declared_field fs) else Panic Expect_Failed)"
  by (induction fs) (auto simp: declared_fields_def named_schema_new_eq)

definition schemas_of ::
    "TokenSchemaField list \<Rightarrow> TokenSchemaField list \<Rightarrow> TokenSchemaField list \<Rightarrow> TokenSchemas" where
  "schemas_of series rom ram =
     \<lparr>tss_series_metadata = VMStructSchema (standard_series_fields @ map declared_field series) 0,
      tss_rom = VMStructSchema (standard_nft_fields @ map declared_field rom) 0,
      tss_ram = VMStructSchema (map declared_field ram) (if ram = [] then DYNAMIC_EXTRAS else 0)\<rparr>"

lemma build_from_fields_eq:
  "build_token_schemas_from_fields series rom ram =
     (if list_all field_fits (series @ rom @ ram)
      then bind_result (verify_token_schemas (schemas_of series rom ram)) (\<lambda>_. Ok (schemas_of series rom ram))
      else Panic Expect_Failed)"
  by (auto simp: build_token_schemas_from_fields_def declared_fields_eq schemas_of_def struct_schema_new_def
      struct_schema_with_flags_def Let_def)

lemma find_declared:
  "map_option (\<lambda>a. vs_type (nv_schema a)) (find (\<lambda>a. nv_name a = SmallString n) (map declared_field fs)) =
     map_of (map (\<lambda>f. (tsf_name f, tsf_vm_type f)) fs) n"
  by (induction fs) (auto simp: declared_field_def variable_schema_new_def)

lemma lit_names:
  "distinct (map lit [''_i'', ''mode'', ''rom'', ''name'', ''description'', ''imageURL'', ''infoURL'', ''royalties''])"
  by (simp add: lit_inject)

definition metadata_types :: "(string \<times> VMType) list" where
  "metadata_types =
     [(''name'', VT_String), (''description'', VT_String), (''imageURL'', VT_String), (''infoURL'', VT_String),
      (''royalties'', VT_Int32)]"

lemma verify_schemas_of:
  "verify_token_schemas (schemas_of series rom ram) = Ok () \<longleftrightarrow>
     list_all (\<lambda>(n, t). map_of (map (\<lambda>f. (tsf_name f, tsf_vm_type f)) (series @ rom)) (lit n) = Some t) metadata_types"
proof -
  let ?own = "map_of (map (\<lambda>f. (tsf_name f, tsf_vm_type f)) (series @ rom))"
  have own: "?own n = (case map_option (\<lambda>a. vs_type (nv_schema a)) (find (\<lambda>a. nv_name a = SmallString n) (map declared_field series)) of
      Some t \<Rightarrow> Some t | None \<Rightarrow> map_option (\<lambda>a. vs_type (nv_schema a)) (find (\<lambda>a. nv_name a = SmallString n) (map declared_field rom)))" for n
    by (simp add: find_declared map_add_def map_add_Some_iff split: option.split) 
  have skip: "first_declared [tss_series_metadata (schemas_of series rom ram), tss_rom (schemas_of series rom ram)]
      (SmallString (lit n)) = ?own (lit n)"
    if "n \<in> fst ` set metadata_types" for n
    using that lit_names
    unfolding first_declared_def own
    by (auto simp: schemas_of_def metadata_types_def standard_series_fields_def standard_nft_fields_def
        standard_field_def STANDARD_META_ID_def find_append_case split: option.splits)
  have "list_all (\<lambda>e. first_declared [tss_series_metadata (schemas_of series rom ram)] (nv_name e) =
      Some (vs_type (nv_schema e))) standard_series_fields"
    "list_all (\<lambda>e. first_declared [tss_rom (schemas_of series rom ram)] (nv_name e) =
      Some (vs_type (nv_schema e))) standard_nft_fields"
    using lit_names by (simp_all add: first_declared_def schemas_of_def standard_series_fields_def
        standard_nft_fields_def standard_field_def STANDARD_META_ID_def)
  moreover have "list_all (\<lambda>e. first_declared [tss_series_metadata (schemas_of series rom ram),
      tss_rom (schemas_of series rom ram)] (nv_name e) = Some (vs_type (nv_schema e))) standard_metadata_fields
    \<longleftrightarrow> list_all (\<lambda>(n, t). ?own (lit n) = Some t) metadata_types"
    by (simp add: skip standard_metadata_fields_def metadata_types_def standard_field_def variable_schema_new_def)
  ultimately show ?thesis
    by (auto simp: verify_token_schemas_def bind_result_eq_Ok assert_metadata_fields_iff)
qed

section \<open>Writing a struct against its schema\<close>

lemma struct_get_new:
  assumes "distinct (map dn_name fs)" and "VMNamedDynamicVariable n v \<in> set fs"
  shows "struct_get (struct_new fs) (as_str n) = Some v"
proof -
  have set: "set (ds_fields (struct_new fs)) = set fs" by (simp add: struct_new_def struct_sort_def)
  then obtain g where g: "find (\<lambda>f. field_name f = as_str n) (ds_fields (struct_new fs)) = Some g"
    using assms(2) by (cases "find (\<lambda>f. field_name f = as_str n) (ds_fields (struct_new fs))")
      (auto simp: find_None_iff field_name_def)
  then have "g \<in> set fs" "dn_name g = n"
    using set by (auto simp: find_Some_iff field_name_eq)
  moreover have "inj_on dn_name (set fs)" using assms(1) by (simp add: distinct_map)
  ultimately have "g = VMNamedDynamicVariable n v"
    using inj_onD [of dn_name "set fs" g "VMNamedDynamicVariable n v"] assms(2) by simp
  with g show ?thesis by (simp add: struct_get_def)
qed

lemma new_struct_ok:
  assumes names: "distinct (map nv_name (ss_fields schema))" "distinct (map dn_name fs)"
    "dn_name ` set fs \<subseteq> nv_name ` set (ss_fields schema)"
    and vals: "\<And>f. f \<in> set (ss_fields schema) \<Longrightarrow> \<exists>v. VMNamedDynamicVariable (nv_name f) v \<in> set fs
      \<and> dv_type v = vs_type (nv_schema f) \<and> so (vs_type (nv_schema f)) (vs_struct (nv_schema f)) (dv_data v)"
  shows "schema_struct_ok_with so schema (struct_new fs)"
proof -
  have set: "set (ds_fields (struct_new fs)) = set fs" by (simp add: struct_new_def struct_sort_def)
  have "mset (map dn_name (ds_fields (struct_new fs))) = mset (map dn_name fs)"
    by (simp add: struct_new_def struct_sort_def)
  then have "distinct (map dn_name (ds_fields (struct_new fs)))" using names(2) mset_eq_imp_distinct_iff by blast
  moreover have "sorted (map field_name (ds_fields (struct_new fs)))"
    by (simp add: struct_new_def struct_sort_def)
  moreover have "struct_extras schema (struct_new fs) = []"
    using names(3) set by (subst set_empty [symmetric], subst set_struct_extras) blast
  moreover have "list_all (\<lambda>f. case struct_get (struct_new fs) (as_str (nv_name f)) of
            None \<Rightarrow> False
          | Some v \<Rightarrow> dv_type v = vs_type (nv_schema f)
              \<and> so (vs_type (nv_schema f)) (vs_struct (nv_schema f)) (dv_data v)) (ss_fields schema)"
    using vals struct_get_new [OF names(2)] by (fastforce simp: list_all_iff)
  ultimately show ?thesis using names(1) by (simp add: schema_struct_ok_with_def named_list_ok_def fits_length_def)
qed

lemma write_with_schema_reads:
  assumes "num_bigint_api nb" and ok: "schema_struct_ok_with (static_ok depth) schema s"
  shows "\<exists>bytes. write_dynamic_struct_with_schema depth nb s schema = Ok bytes
    \<and> deserialize (read_with_schema depth nb schema) bytes = Ok s"
proof -
  have "round_trip (wr_drop (write_with_schema depth nb schema s)) (read_with_schema depth nb schema) s"
    unfolding write_with_schema_def read_with_schema_def
    by (rule round_trip_ifD [OF static_codec.with_schema_round_trip [OF static_codec_static [OF assms(1)] ok]])
  then obtain bs where w: "writes (wr_drop (write_with_schema depth nb schema s)) bs"
    and r: "parses (read_with_schema depth nb schema) bs s" by (auto simp: round_trip_def)
  have flag: "flag_true (write_with_schema depth nb schema s)"
    unfolding write_with_schema_def by (rule with_schema_flag) (simp add: static_flag)
  from w have "wr_drop (write_with_schema depth nb schema s) \<lparr>wr_buffer = []\<rparr> = Ok \<lparr>wr_buffer = bs\<rparr>"
    by (simp add: writes_def)
  then obtain b where b: "write_with_schema depth nb schema s \<lparr>wr_buffer = []\<rparr> = Ok (b, \<lparr>wr_buffer = bs\<rparr>)"
    unfolding wr_drop_def bind_result_eq_Ok by fastforce
  moreover from this flag have b unfolding flag_true_def by blast
  ultimately have "write_dynamic_struct_with_schema depth nb s schema = Ok bs"
    by (simp add: write_dynamic_struct_with_schema_def)
  with parses_deserialize [OF r] show ?thesis by blast
qed

section \<open>The fields of the caller\<close>

lemma metadata_dynamic_field_Ok:
  assumes "metadata_dynamic_field ca metadata f = Ok x"
  shows "dn_name x = nv_name f" "dv_type (dn_value x) = vs_type (nv_schema f)"
  using assms by (auto simp: metadata_dynamic_field_def Let_def bind_result_eq_Ok metadata_error_def
      split: option.splits)

lemma collect_result_map:
  assumes "collect_result f xs = Ok ys" and "\<And>x y. f x = Ok y \<Longrightarrow> g y = h x"
  shows "map g ys = map h xs"
  using assms by (induction xs arbitrary: ys) (auto simp: bind_result_eq_Ok)

lemma collect_result_member:
  "collect_result f xs = Ok ys \<Longrightarrow> x \<in> set xs \<Longrightarrow> \<exists>y\<in>set ys. f x = Ok y"
  by (induction xs arbitrary: ys) (auto simp: bind_result_eq_Ok)

lemma collected_field:
  assumes rest: "collect_result (metadata_dynamic_field ca metadata) fs = Ok rest" and f: "f \<in> set fs"
  shows "\<exists>v. VMNamedDynamicVariable (nv_name f) v \<in> set rest \<and> dv_type v = vs_type (nv_schema f)
    \<and> metadata_dynamic_field ca metadata f = Ok (VMNamedDynamicVariable (nv_name f) v)"
proof -
  obtain y where "y \<in> set rest" "metadata_dynamic_field ca metadata f = Ok y"
    using collect_result_member [OF rest f] by blast
  with metadata_dynamic_field_Ok [OF this(2)] show ?thesis by (cases y) auto
qed

definition fits_schema ::
    "nat \<Rightarrow> crypto_api \<Rightarrow> (rstring \<times> VMValue) list \<Rightarrow> VMNamedVariableSchema \<Rightarrow> bool" where
  "fits_schema depth ca metadata f =
     (case metadata_dynamic_field ca metadata f of
        Ok x \<Rightarrow> static_ok depth (vs_type (nv_schema f)) (vs_struct (nv_schema f)) (dv_data (dn_value x))
      | _ \<Rightarrow> False)"

lemma built_struct_ok:
  assumes names: "distinct (map nv_name (ss_fields schema))"
    and standard: "map dn_name standard = map nv_name defaults" "set defaults \<subseteq> set (ss_fields schema)"
      "\<And>d. d \<in> set defaults \<Longrightarrow> \<exists>v. VMNamedDynamicVariable (nv_name d) v \<in> set standard
        \<and> dv_type v = vs_type (nv_schema d) \<and> static_ok depth (vs_type (nv_schema d)) (vs_struct (nv_schema d)) (dv_data v)"
      "distinct (map nv_name defaults)"
    and rest: "metadata_dynamic_fields_for_schema ca schema defaults metadata = Ok rest"
    and fit: "list_all (fits_schema depth ca metadata)
      (filter (\<lambda>f. \<not> list_ex (\<lambda>d. nv_name d = nv_name f) defaults) (ss_fields schema))"
  shows "schema_struct_ok_with (static_ok depth) schema (struct_new (standard @ rest))"
    "distinct (map dn_name (standard @ rest))"
    "dn_name ` set (standard @ rest) = nv_name ` set (ss_fields schema)"
proof -
  let ?custom = "filter (\<lambda>f. \<not> list_ex (\<lambda>d. nv_name d = nv_name f) defaults) (ss_fields schema)"
  note rest = rest [unfolded metadata_dynamic_fields_for_schema_def]
  have names_rest: "map dn_name rest = map nv_name ?custom"
    by (rule collect_result_map [OF rest]) (rule metadata_dynamic_field_Ok)
  have "distinct (map nv_name ?custom)" using names by (rule distinct_map_filter)
  moreover have "set (map nv_name defaults) \<inter> set (map nv_name ?custom) = {}"
    by (auto simp: list_ex_iff)
  ultimately show dist: "distinct (map dn_name (standard @ rest))"
    using standard(1,4) names_rest by (metis distinct_append map_append)
  have "dn_name ` set (standard @ rest) = nv_name ` set defaults \<union> nv_name ` set ?custom"
    using standard(1) names_rest by (metis image_Un set_append set_map)
  also have "\<dots> \<subseteq> nv_name ` set (ss_fields schema)" using standard(2) by auto
  finally have sub: "dn_name ` set (standard @ rest) \<subseteq> nv_name ` set (ss_fields schema)" .
  have all: "\<exists>v. VMNamedDynamicVariable (nv_name f) v \<in> set (standard @ rest)
      \<and> dv_type v = vs_type (nv_schema f) \<and> static_ok depth (vs_type (nv_schema f)) (vs_struct (nv_schema f)) (dv_data v)"
    if f: "f \<in> set (ss_fields schema)" for f
  proof (cases "\<exists>d\<in>set defaults. nv_name d = nv_name f")
    case True
    then obtain d where d: "d \<in> set defaults" "nv_name d = nv_name f" by blast
    moreover have "inj_on nv_name (set (ss_fields schema))" using names by (simp add: distinct_map)
    ultimately have "d = f" using standard(2) f by (auto dest: inj_onD)
    with standard(3) [OF d(1)] show ?thesis by auto
  next
    case False
    then have custom: "f \<in> set ?custom" using f by (auto simp: list_ex_iff)
    from collected_field [OF rest this] obtain v where v: "VMNamedDynamicVariable (nv_name f) v \<in> set rest"
      "dv_type v = vs_type (nv_schema f)"
      "metadata_dynamic_field ca metadata f = Ok (VMNamedDynamicVariable (nv_name f) v)" by blast
    moreover have "fits_schema depth ca metadata f" using fit custom by (simp add: list_all_iff)
    ultimately show ?thesis by (auto simp: fits_schema_def)
  qed
  show "schema_struct_ok_with (static_ok depth) schema (struct_new (standard @ rest))"
    by (rule new_struct_ok [OF names dist sub all])
  show "dn_name ` set (standard @ rest) = nv_name ` set (ss_fields schema)"
  proof (intro equalityI sub subsetI)
    fix n assume "n \<in> nv_name ` set (ss_fields schema)"
    then obtain f where f: "f \<in> set (ss_fields schema)" "n = nv_name f" by blast
    obtain v where "VMNamedDynamicVariable (nv_name f) v \<in> set (standard @ rest)" using all [OF f(1)] by blast
    then have "dn_name (VMNamedDynamicVariable (nv_name f) v) \<in> dn_name ` set (standard @ rest)" by (rule imageI)
    with f(2) show "n \<in> dn_name ` set (standard @ rest)" by simp
  qed
qed

lemma set_struct_new [simp]: "set (ds_fields (struct_new fs)) = set fs"
  by (simp add: struct_new_def struct_sort_def)

lemma standard_names: "distinct (map nv_name standard_nft_fields)" "distinct (map nv_name standard_series_fields)"
  by code_simp+

lemma static_ok_leaves:
  "0 < depth \<Longrightarrow> static_ok depth VT_Int256 None (VV_Int256 i) \<longleftrightarrow> - (2 ^ 255) \<le> i \<and> i < 2 ^ 255"
  "0 < depth \<Longrightarrow> static_ok depth VT_Bytes None (VV_Bytes b) \<longleftrightarrow> fits_length (length b)"
  by (cases depth; simp)+

lemma dn_name_standard [simp]:
  "dn_name (standard_variable n v) = SmallString (lit n)" "nv_name (standard_field n t) = SmallString (lit n)"
  "nv_schema (standard_field n t) = VMVariableSchema t None"
  by (simp_all add: standard_variable_def standard_field_def variable_schema_new_def)

text \<open>C12: An NFT ROM built from values that fit their schema is written and reads back under that schema: with the id and
  the ROM bytes in the standard fields, every declared field of the caller as its coercion left it, and no other
  field.\<close>

theorem nft_rom_reads_back:
  assumes nb: "num_bigint_api nb" and depth: "0 < depth"
    and schema: "distinct (map nv_name (ss_fields schema))" "set standard_nft_fields \<subseteq> set (ss_fields schema)"
    and id: "- (2 ^ 255) \<le> nft_id" "nft_id < 2 ^ 255"
    and rom: "metadata_bytes ca metadata (lit ''rom'') = Ok rom" "fits_length (length rom)"
    and rest: "metadata_dynamic_fields_for_schema ca schema standard_nft_fields metadata = Ok rest"
    and fit: "list_all (fits_schema depth ca metadata)
      (filter (\<lambda>f. \<not> list_ex (\<lambda>d. nv_name d = nv_name f) standard_nft_fields) (ss_fields schema))"
  shows "\<exists>bytes s. build_nft_rom depth nb ca schema nft_id metadata = Ok bytes
    \<and> deserialize (read_with_schema depth nb schema) bytes = Ok s
    \<and> struct_get s (lit STANDARD_META_ID) = Some (VMDynamicVariable VT_Int256 (VV_Int256 nft_id))
    \<and> struct_get s (lit ''rom'') = Some (variable_bytes rom)
    \<and> list_all (\<lambda>f. struct_get s (field_name f) = Some (dn_value f)) rest
    \<and> field_name ` set (ds_fields s) = (\<lambda>f. as_str (nv_name f)) ` set (ss_fields schema)"
proof -
  let ?standard = "[standard_variable STANDARD_META_ID (VMDynamicVariable VT_Int256 (VV_Int256 nft_id)),
    standard_variable ''rom'' (variable_bytes rom)]"
  let ?s = "struct_new (?standard @ rest)"
  have standard: "map dn_name ?standard = map nv_name standard_nft_fields"
    "\<And>d. d \<in> set standard_nft_fields \<Longrightarrow> \<exists>v. VMNamedDynamicVariable (nv_name d) v \<in> set ?standard
      \<and> dv_type v = vs_type (nv_schema d) \<and> static_ok depth (vs_type (nv_schema d)) (vs_struct (nv_schema d)) (dv_data v)"
    using id rom(2) depth by (auto simp: standard_nft_fields_def variable_bytes_def static_ok_leaves standard_variable_def)
  note ok = built_struct_ok [OF schema(1) standard(1) schema(2) standard(2) standard_names(1) rest fit]
  from write_with_schema_reads [OF nb ok(1)] obtain bytes
    where bytes: "write_dynamic_struct_with_schema depth nb ?s schema = Ok bytes"
      "deserialize (read_with_schema depth nb schema) bytes = Ok ?s" by blast
  have "build_nft_rom depth nb ca schema nft_id metadata = Ok bytes"
    using rom(1) rest bytes(1) by (simp add: build_nft_rom_def)
  moreover from struct_get_new [OF ok(2)]
  have get: "struct_get ?s (as_str (dn_name f)) = Some (dn_value f)" if "f \<in> set (?standard @ rest)" for f
    using that by (cases f) simp
  have "struct_get ?s (lit STANDARD_META_ID) = Some (VMDynamicVariable VT_Int256 (VV_Int256 nft_id))"
    "struct_get ?s (lit ''rom'') = Some (variable_bytes rom)"
    using get [of "?standard ! 0"] get [of "?standard ! 1"] by (simp_all add: standard_variable_def)
  moreover have "list_all (\<lambda>f. struct_get ?s (field_name f) = Some (dn_value f)) rest"
    using get by (simp add: list_all_iff field_name_def)
  moreover have "field_name ` set (ds_fields ?s) = (\<lambda>f. as_str (nv_name f)) ` set (ss_fields schema)"
    using arg_cong [OF ok(3), of "image as_str"] by (simp add: image_image field_name_def)
  ultimately show ?thesis using bytes(2) by blast
qed

lemma public_rom_outcome:
  assumes nb: "num_bigint_api nb" and given: "metadata \<noteq> []"
    and schema: "distinct (map nv_name (ss_fields schema))"
    and rest: "metadata_dynamic_fields_for_schema ca (build_phantasma_nft_public_mint_schema schema) [] metadata = Ok rest"
    and fit: "list_all (fits_schema depth ca metadata) (ss_fields (build_phantasma_nft_public_mint_schema schema))"
  shows "if list_ex (\<lambda>(k, v). is_phantasma_nft_reserved_field k) metadata
    then \<exists>e. build_phantasma_nft_rom depth nb ca schema metadata = Err (Builder e)
    else \<exists>bytes s. build_phantasma_nft_rom depth nb ca schema metadata = Ok bytes
      \<and> deserialize (read_with_schema depth nb (build_phantasma_nft_public_mint_schema schema)) bytes = Ok s
      \<and> list_all (\<lambda>f. struct_get s (field_name f) = Some (dn_value f)) rest
      \<and> field_name ` set (ds_fields s) = {n \<in> (\<lambda>f. as_str (nv_name f)) ` set (ss_fields schema).
          \<not> is_phantasma_nft_reserved_field n}"
proof (cases "list_ex (\<lambda>(k, v). is_phantasma_nft_reserved_field k) metadata")
  case True
  then obtain k v where "find (\<lambda>(k, v). is_phantasma_nft_reserved_field k) metadata = Some (k, v)"
    by (cases "find (\<lambda>(k, v). is_phantasma_nft_reserved_field k) metadata") (auto simp: find_None_iff list_ex_iff)
  with True given show ?thesis by (simp add: build_phantasma_nft_rom_def metadata_error_def metadata_failure_def)
next
  case False
  let ?public = "build_phantasma_nft_public_mint_schema schema"
  have no: "find (\<lambda>(k, v). is_phantasma_nft_reserved_field k) metadata = None"
    using False by (auto simp: find_None_iff list_ex_iff)
  have "distinct (map nv_name (ss_fields ?public))"
    using schema by (simp add: build_phantasma_nft_public_mint_schema_def distinct_map_filter)
  note ok = built_struct_ok [where standard = "[]" and defaults = "[]", OF this _ _ _ _ rest, simplified, OF fit]
  from write_with_schema_reads [OF nb ok(1)] obtain bytes
    where bytes: "write_dynamic_struct_with_schema depth nb (struct_new rest) ?public = Ok bytes"
      "deserialize (read_with_schema depth nb ?public) bytes = Ok (struct_new rest)" by blast
  have "build_phantasma_nft_rom depth nb ca schema metadata = Ok bytes"
    using given no rest bytes(1) by (simp add: build_phantasma_nft_rom_def Let_def)
  moreover have "list_all (\<lambda>f. struct_get (struct_new rest) (field_name f) = Some (dn_value f)) rest"
  proof -
    have "struct_get (struct_new rest) (as_str (dn_name f)) = Some (dn_value f)" if "f \<in> set rest" for f
      using struct_get_new [OF ok(2)] that by (cases f) simp
    then show ?thesis by (simp add: list_all_iff field_name_def)
  qed
  moreover have "field_name ` set (ds_fields (struct_new rest)) =
      {n \<in> (\<lambda>f. as_str (nv_name f)) ` set (ss_fields schema). \<not> is_phantasma_nft_reserved_field n}"
    using arg_cong [OF ok(3), of "image as_str"]
    by (auto simp: image_image field_name_def build_phantasma_nft_public_mint_schema_def)
  ultimately show ?thesis using False bytes(2) by auto
qed

text \<open>C19: A ROM for the public mint call is refused when the caller names a chain-owned field, in any case of its
  letters; otherwise it reads back under the public schema with the caller's fields as coerced, and its fields are
  exactly those of the schema that the chain does not own.\<close>

theorem public_rom_reads_back:
  assumes nb: "num_bigint_api nb" and given: "metadata \<noteq> []"
    and schema: "distinct (map nv_name (ss_fields schema))"
    and rest: "metadata_dynamic_fields_for_schema ca (build_phantasma_nft_public_mint_schema schema) [] metadata = Ok rest"
    and fit: "list_all (fits_schema depth ca metadata) (ss_fields (build_phantasma_nft_public_mint_schema schema))"
  shows "if list_ex (\<lambda>(k, v). eq_ignore_ascii_case k (lit ''_i'') \<or> eq_ignore_ascii_case k (lit ''rom'')) metadata
    then \<exists>e. build_phantasma_nft_rom depth nb ca schema metadata = Err (Builder e)
    else \<exists>bytes s. build_phantasma_nft_rom depth nb ca schema metadata = Ok bytes
      \<and> deserialize (read_with_schema depth nb (build_phantasma_nft_public_mint_schema schema)) bytes = Ok s
      \<and> list_all (\<lambda>f. struct_get s (field_name f) = Some (dn_value f)) rest
      \<and> field_name ` set (ds_fields s) = {n \<in> (\<lambda>f. as_str (nv_name f)) ` set (ss_fields schema).
          \<not> (eq_ignore_ascii_case n (lit ''_i'') \<or> eq_ignore_ascii_case n (lit ''rom''))}"
  using public_rom_outcome [OF assms]
  unfolding is_phantasma_nft_reserved_field_def STANDARD_META_ID_def .

lemma integer_widths: "integer_width t = Ok w \<longleftrightarrow>
    (t, w) \<in> {(VT_Int8, 8), (VT_Int16, 16), (VT_Int32, 32), (VT_Int64, 64)}"
  by (cases t) (auto simp: integer_width_def)

lemma unat_of_int: "unat (word_of_int x :: 'a::len word) = nat (x mod 2 ^ LENGTH('a))"
  by (simp add: unat_eq_nat_uint uint_word_of_int)

lemma ucast_of_int:
  "LENGTH('a) \<le> 64 \<Longrightarrow> (ucast (word_of_int x :: i64) :: 'a::len word) = word_of_int x"
  by (rule bit_word_eqI) (simp add: bit_simps)

lemma byte_of_int_mod: "(word_of_int (y mod 256) :: 8 word) = word_of_int y"
  by (simp add: word_of_int_eq_iff take_bit_eq_mod)

lemma coerce_integer_eq:
  assumes "integer_width t = Ok w"
  shows "coerce_metadata_integer_for_type name t x =
    (if - (2 ^ (w - 1)) \<le> x \<and> x < 2 ^ w
     then Ok (word_of_int (if w = 8 \<or> x < 2 ^ (w - 1) then x else x - 2 ^ w))
     else metadata_error name (range_text (- (2 ^ (w - 1))) (2 ^ (w - 1) - 1) (2 ^ w - 1)))"
  using assms unfolding integer_widths
  by (elim insertE emptyE)
     (auto simp: coerce_metadata_integer_for_type_def integer_width_def i64_from_def Let_def)

lemma stored_integer:
  "integer_width t = Ok w \<Longrightarrow>
   serialize (\<lambda>var. wr_drop (write_static (Suc depth) nb t d var)) (VMDynamicVariable t (VV_Int (word_of_int y))) =
     Ok (nat_to_le (w div 8) (nat (y mod 2 ^ w)))"
  unfolding integer_widths
  by (elim insertE emptyE)
     (simp_all add: serialize_def as_i64_def write1_def write2_def write4_def write8_def carbon_write_def
       wr_bytes_def to_le_bytes_def ucast_of_int unat_of_int byte_of_int_mod)

text \<open>C21: An integer of metadata is stored as the low bytes of its two's complement in the width of its type, whether
  the caller gave it signed or unsigned, and is refused exactly when it is in neither range of that width.\<close>

theorem integer_metadata_bytes:
  assumes width: "integer_width t = Ok w" and int: "metadata_integer name v = Ok x"
  shows "bind_result (coerce_metadata_value ca name (VMVariableSchema t d) v) (\<lambda>y.
      serialize (\<lambda>var. wr_drop (write_static (Suc depth) nb t d var)) (VMDynamicVariable t y)) =
    (if - (2 ^ (w - 1)) \<le> x \<and> x < 2 ^ w then Ok (nat_to_le (w div 8) (nat (x mod 2 ^ w)))
     else metadata_error name (range_text (- (2 ^ (w - 1))) (2 ^ (w - 1) - 1) (2 ^ w - 1)))"
proof -
  have "coerce_metadata_value ca name (VMVariableSchema t d) v =
      bind_result (coerce_metadata_integer_for_type name t x) (\<lambda>y. Ok (VV_Int y))"
    using width int unfolding integer_widths by (elim insertE emptyE) (simp_all add: coerce_plain_value_def)
  moreover have "(x - 2 ^ w) mod 2 ^ w = x mod 2 ^ w" by simp
  ultimately show ?thesis
    using coerce_integer_eq [OF width, of name x] stored_integer [OF width, of depth nb d] 
    by (auto simp: metadata_error_def)
qed

text \<open>C37: A bytes field of a nested struct that is given as a hex text passes the check, unchanged, and is written as
  an empty byte array: the decoded bytes of the check are dropped.\<close>

theorem nested_hex_is_lost:
  assumes hex: "decode_metadata_hex ca n h = Ok data"
    and nested: "nested = (\<lambda>x. VMDynamicStruct
      [VMNamedDynamicVariable (SmallString n) (VMDynamicVariable (fst x) (snd x))])"
    and schema: "schema = VMVariableSchema VT_Struct (Some (VMStructSchema
      [VMNamedVariableSchema (SmallString n) (VMVariableSchema VT_Bytes None)] 0))"
  shows "coerce_metadata_value ca name schema (VV_Struct (nested (VT_String, VV_String h))) =
      Ok (VV_Struct (nested (VT_String, VV_String h)))
    \<and> write_static depth nb VT_Struct (vs_struct schema) (VMDynamicVariable VT_Struct (VV_Struct (nested (VT_String, VV_String h)))) =
      write_static depth nb VT_Struct (vs_struct schema) (VMDynamicVariable VT_Struct (VV_Struct (nested (VT_Bytes, VV_Bytes []))))"
proof
  show "coerce_metadata_value ca name schema (VV_Struct (nested (VT_String, VV_String h))) =
      Ok (VV_Struct (nested (VT_String, VV_String h)))"
    using hex by (simp add: schema nested find_struct_field_def field_name_def coerce_plain_value_def
        coerce_metadata_bytes_def undeclared_field_def)
  have "write_static d nb VT_Bytes None (VMDynamicVariable VT_String (VV_String h)) =
      write_static d nb VT_Bytes None (VMDynamicVariable VT_Bytes (VV_Bytes []))" for d
    by (cases d) (simp_all add: fun_eq_iff)
  then show "write_static depth nb VT_Struct (vs_struct schema) (VMDynamicVariable VT_Struct (VV_Struct (nested (VT_String, VV_String h)))) =
      write_static depth nb VT_Struct (vs_struct schema) (VMDynamicVariable VT_Struct (VV_Struct (nested (VT_Bytes, VV_Bytes []))))"
    by (cases depth) (simp_all add: schema nested fun_eq_iff write_with_schema_with_def struct_get_def
        field_name_def Let_def allows_extras_def DYNAMIC_EXTRAS_def)
qed

text \<open>C38: Building schemas from well-formed JSON panics exactly when a field name is longer than 255 bytes.\<close>

theorem token_schemas_from_json_panics:
  assumes "parse_token_schemas_json parse data = Ok parsed"
  shows "panics (token_schemas_from_json parse data) \<longleftrightarrow>
    list_ex (\<lambda>f. length (string_bytes (tsf_name f)) > 255)
      (tsj_series_metadata parsed @ tsj_rom parsed @ tsj_ram parsed)"
proof -
  have "list_ex (\<lambda>f. length (string_bytes (tsf_name f)) > 255) fs \<longleftrightarrow> \<not> list_all field_fits fs" for fs
    by (induction fs) (auto simp: field_fits_def)
  moreover have "\<not> panics (verify_token_schemas s)" for s by (rule verify_token_schemas_no_panic)
  ultimately show ?thesis
    using assms by (simp add: token_schemas_from_json_def build_from_fields_eq panics_bind)
qed

text \<open>C20: Schemas are built from fields exactly when every name fits into 255 bytes and the five standard metadata
  fields are declared with their types, where the first declaration of a name decides, series fields before ROM
  fields; they are then the standard fields followed by the declared ones.\<close>

theorem token_schemas_from_fields_exact:
  "build_token_schemas_from_fields series rom ram = Ok schemas \<longleftrightarrow>
     list_all (\<lambda>f. length (string_bytes (tsf_name f)) \<le> 255) (series @ rom @ ram)
     \<and> list_all (\<lambda>(n, t). map_of (map (\<lambda>f. (tsf_name f, tsf_vm_type f)) (series @ rom)) (lit n) = Some t)
         [(''name'', VT_String), (''description'', VT_String), (''imageURL'', VT_String),
          (''infoURL'', VT_String), (''royalties'', VT_Int32)]
     \<and> schemas = \<lparr>tss_series_metadata = VMStructSchema (standard_series_fields @ map declared_field series) 0,
         tss_rom = VMStructSchema (standard_nft_fields @ map declared_field rom) 0,
         tss_ram = VMStructSchema (map declared_field ram) (if ram = [] then DYNAMIC_EXTRAS else 0)\<rparr>"
proof -
  have "build_token_schemas_from_fields series rom ram = Ok schemas \<longleftrightarrow>
      list_all field_fits (series @ rom @ ram) \<and> verify_token_schemas (schemas_of series rom ram) = Ok ()
      \<and> schemas = schemas_of series rom ram"
    by (auto simp add: build_from_fields_eq bind_result_eq_Ok simp del: list_all_append)
  from this [unfolded verify_schemas_of] show ?thesis
    unfolding field_fits_def [abs_def] metadata_types_def schemas_of_def .
qed

section \<open>Witnesses\<close>

definition sample_rom_schema :: VMStructSchema where
  "sample_rom_schema =
     struct_schema_new (standard_nft_fields @
       [standard_field ''name'' VT_String, standard_field ''level'' VT_Int16])"

definition sample_metadata :: "(rstring \<times> VMValue) list" where
  "sample_metadata = [(lit ''level'', VV_Int 65535), (lit ''name'', VV_String (lit ''Sword''))]"

definition sample_rom_fields :: "VMNamedDynamicVariable list" where
  "sample_rom_fields =
     [standard_variable ''name'' (variable_string (lit ''Sword'')),
      standard_variable ''level'' (VMDynamicVariable VT_Int16 (VV_Int (- 1)))]"

text \<open>The fields of the caller, which are also those of the public schema.\<close>

definition sample_custom :: "VMNamedVariableSchema list" where
  "sample_custom = [standard_field ''name'' VT_String, standard_field ''level'' VT_Int16]"

lemma sample_custom_fields:
  "filter (\<lambda>f. \<not> list_ex (\<lambda>d. nv_name d = nv_name f) standard_nft_fields) (ss_fields sample_rom_schema) = sample_custom"
  "ss_fields (build_phantasma_nft_public_mint_schema sample_rom_schema) = sample_custom"
  "distinct (map nv_name (ss_fields sample_rom_schema))"
  "set standard_nft_fields \<subseteq> set (ss_fields sample_rom_schema)"
  by (simp_all add: sample_rom_schema_def sample_custom_def struct_schema_new_def standard_nft_fields_def
      STANDARD_META_ID_def lit_inject build_phantasma_nft_public_mint_schema_def eq_ignore_ascii_case_def
      is_phantasma_nft_reserved_field_def lit_bytes)

lemma sample_fields_coerced:
  "metadata_dynamic_field crypto_model sample_metadata (standard_field ''name'' VT_String) = Ok (sample_rom_fields ! 0)"
  "metadata_dynamic_field crypto_model sample_metadata (standard_field ''level'' VT_Int16) = Ok (sample_rom_fields ! 1)"
proof -
  have "trim_text (lit ''Sword'') \<noteq> []" by code_simp
  moreover have "coerce_metadata_integer_for_type (lit ''level'') VT_Int16 65535 = Ok (- 1)" by code_simp
  ultimately show
  "metadata_dynamic_field crypto_model sample_metadata (standard_field ''name'' VT_String) = Ok (sample_rom_fields ! 0)"
  "metadata_dynamic_field crypto_model sample_metadata (standard_field ''level'' VT_Int16) = Ok (sample_rom_fields ! 1)"
    by (simp_all add: metadata_dynamic_field_def sample_metadata_def sample_rom_fields_def find_metadata_value_def
      lit_inject coerce_plain_value_def coerce_metadata_string_def metadata_integer_def Let_def
      standard_variable_def variable_string_def)
qed

lemma sample_metadata_coerced:
  "collect_result (metadata_dynamic_field crypto_model sample_metadata) sample_custom = Ok sample_rom_fields"
  "list_all (fits_schema 3 crypto_model sample_metadata) sample_custom"
  "metadata_bytes crypto_model sample_metadata (lit ''rom'') = Ok []"
  "\<not> list_ex (\<lambda>(k, v). eq_ignore_ascii_case k (lit ''_i'') \<or> eq_ignore_ascii_case k (lit ''rom'')) sample_metadata"
proof -
  have "0 \<notin> set (string_bytes (lit ''Sword''))" by (simp add: lit_bytes)
  moreover have "(scast (ucast (- 1 :: i64) :: 16 word) :: i64) = - 1" by code_simp
  ultimately show
  "collect_result (metadata_dynamic_field crypto_model sample_metadata) sample_custom = Ok sample_rom_fields"
  "list_all (fits_schema 3 crypto_model sample_metadata) sample_custom"
    by (simp_all add: sample_custom_def fits_schema_def sample_fields_coerced numeral_3_eq_3)
       (simp_all add: sample_rom_fields_def standard_variable_def variable_string_def)
  show "metadata_bytes crypto_model sample_metadata (lit ''rom'') = Ok []"
  "\<not> list_ex (\<lambda>(k, v). eq_ignore_ascii_case k (lit ''_i'') \<or> eq_ignore_ascii_case k (lit ''rom'')) sample_metadata"
    by (simp_all add: metadata_bytes_def find_metadata_value_def sample_metadata_def lit_inject
        eq_ignore_ascii_case_def lit_bytes)
qed

theorem nft_rom_reads_back_witness:
  "\<exists>bytes s. build_nft_rom 3 num_bigint_std crypto_model sample_rom_schema 77 sample_metadata = Ok bytes
     \<and> deserialize (read_with_schema 3 num_bigint_std sample_rom_schema) bytes = Ok s
     \<and> struct_get s (lit ''_i'') = Some (variable_int256 77)
     \<and> struct_get s (lit ''level'') = Some (VMDynamicVariable VT_Int16 (VV_Int (- 1)))"
proof -
  have rest: "metadata_dynamic_fields_for_schema crypto_model sample_rom_schema standard_nft_fields sample_metadata =
      Ok sample_rom_fields"
    by (simp only: metadata_dynamic_fields_for_schema_def sample_custom_fields sample_metadata_coerced)
  from nft_rom_reads_back [OF num_bigint_std.num_bigint_api_axioms _ sample_custom_fields(3,4) _ _
      sample_metadata_coerced(3) _ rest, of 3 77]
  show ?thesis
    by (auto simp: sample_custom_fields sample_metadata_coerced fits_length_def STANDARD_META_ID_def
        variable_int256_def sample_rom_fields_def standard_variable_def field_name_def)
qed

theorem public_rom_reads_back_witness:
  "\<exists>bytes s. build_phantasma_nft_rom 3 num_bigint_std crypto_model sample_rom_schema sample_metadata = Ok bytes
     \<and> deserialize (read_with_schema 3 num_bigint_std (build_phantasma_nft_public_mint_schema sample_rom_schema))
         bytes = Ok s
     \<and> struct_get s (lit ''name'') = Some (variable_string (lit ''Sword''))"
proof -
  have "metadata_dynamic_fields_for_schema crypto_model (build_phantasma_nft_public_mint_schema sample_rom_schema) []
      sample_metadata = Ok sample_rom_fields"
    by (simp add: metadata_dynamic_fields_for_schema_def sample_custom_fields sample_metadata_coerced)
  moreover have "sample_metadata \<noteq> []" by (simp add: sample_metadata_def)
  ultimately show ?thesis
    using public_rom_reads_back [OF num_bigint_std.num_bigint_api_axioms _ sample_custom_fields(3), of sample_metadata
      crypto_model sample_rom_fields 3]
    by (auto simp: sample_custom_fields sample_metadata_coerced sample_rom_fields_def standard_variable_def
        field_name_def)
qed

theorem integer_metadata_bytes_witness:
  "bind_result (coerce_metadata_value crypto_model (lit ''level'') (VMVariableSchema VT_Int16 None) (VV_Int 65535))
     (\<lambda>y. serialize (\<lambda>var. wr_drop (write_static (Suc 1) num_bigint_std VT_Int16 None var)) (VMDynamicVariable VT_Int16 y))
   = Ok [0xFF, 0xFF]"
proof -
  have "integer_width VT_Int16 = Ok 16" "metadata_integer (lit ''level'') (VV_Int 65535) = Ok 65535" by code_simp+
  note bytes = integer_metadata_bytes [OF this, of crypto_model None 1 num_bigint_std]
  have "nat_to_le (16 div 8) (nat (65535 mod 2 ^ 16)) = uint_to_le 2 65535" by (simp add: nat_to_le_uint)
  also have "\<dots> = [0xFF, 0xFF]" by code_simp
  finally show ?thesis unfolding bytes by simp
qed

theorem nested_hex_is_lost_witness:
  "coerce_metadata_value crypto_model (lit ''info'')
     (VMVariableSchema VT_Struct (Some (VMStructSchema [standard_field ''seed'' VT_Bytes] 0)))
     (VV_Struct (VMDynamicStruct [standard_variable ''seed'' (variable_string (lit ''0x21''))])) =
   Ok (VV_Struct (VMDynamicStruct [standard_variable ''seed'' (variable_string (lit ''0x21''))]))"
proof -
  have "decode_metadata_hex crypto_model (lit ''seed'') (lit ''0x21'') = Ok [16]" by code_simp
  from nested_hex_is_lost [OF this refl refl, of "lit ''info''"] show ?thesis
    by (simp add: standard_field_def standard_variable_def variable_schema_new_def variable_string_def)
qed

definition long_name_json :: json where
  "long_name_json =
     J_Object
       [(lit ''ram'', J_Array []), (lit ''rom'', J_Array []),
        (lit ''seriesMetadata'', J_Array [J_Object
          [(lit ''name'', J_String (string_of (replicate 256 65))), (lit ''type'', J_String (lit ''Int8''))]])]"

theorem token_schemas_from_json_panics_witness:
  "panics (token_schemas_from_json (\<lambda>_. Some long_name_json) (lit ''{}''))"
proof -
  have "vm_type_from_string (lit ''Int8'') = Ok VT_Int8" by code_simp
  then have "parse_token_schemas_json (\<lambda>_. Some long_name_json) (lit ''{}'') =
      Ok \<lparr>tsj_series_metadata = [\<lparr>tsf_name = string_of (replicate 256 65), tsf_vm_type = VT_Int8\<rparr>],
          tsj_rom = [], tsj_ram = []\<rparr>"
    by (simp add: parse_token_schemas_json_def parse_token_schema_field_array_def parse_token_schema_field_def
        long_name_json_def as_object_def as_array_def object_get_def value_str_def lit_inject)
  moreover have "utf8_valid (replicate n 65)" for n by (induction n) simp_all
  ultimately show ?thesis using token_schemas_from_json_panics by simp
qed

end
