(* ===== verification/CarbonBuild.thy ===== *)
theory CarbonBuild
  imports CarbonMetadata FeePlanning
begin

text \<open>
  Builders of token calls (\<open>src/src/carbon.rs\<close>): the token and series records, the \<open>CreateToken\<close>,
  \<open>CreateTokenSeries\<close> and \<open>MintPhantasmaNonFungible\<close> messages, and their forms that plan, sign and encode.
  \<open>now\<close> is the clock, \<open>hex\<close> the lower-case encoder of the hex crate.
\<close>

section \<open>Tokens and series\<close>

definition is_ascii_uppercase :: "u8 \<Rightarrow> bool" where
  "is_ascii_uppercase b \<longleftrightarrow> 0x41 \<le> b \<and> b \<le> 0x5A"

definition check_token_symbol :: "rstring \<Rightarrow> unit result" where
  "check_token_symbol symbol =
     (if string_bytes symbol = [] then Err (Builder ''token symbol must not be empty'')
      else if length (string_bytes symbol) > 255 then Err (Builder ''token symbol exceeds 255 UTF-8 bytes'')
      else if \<not> list_all is_ascii_uppercase (string_bytes symbol)
      then Err (Builder ''token symbol must contain only uppercase ASCII letters A-Z'')
      else Ok ())"

definition build_token_info ::
    "rstring \<Rightarrow> IntX \<Rightarrow> bool \<Rightarrow> u8 \<Rightarrow> bytes32 \<Rightarrow> bytes \<Rightarrow> bytes \<Rightarrow> TokenInfo result" where
  "build_token_info symbol max_supply is_nft decimals owner metadata token_schemas =
     bind_result (check_token_symbol symbol) (\<lambda>_.
     if metadata = [] then Err (Builder ''metadata is required for all tokens'')
     else bind_result
       (if is_nft then
          if \<not> is_8_byte_safe max_supply then Err (Builder ''NFT maximum supply must fit into Int64'')
          else if token_schemas = [] then Err (Builder ''token schemas are required for NFTs'')
          else Ok NON_FUNGIBLE
        else if IntX.as_bigint max_supply = 0 \<or> \<not> is_8_byte_safe max_supply then Ok BIG_FUNGIBLE
        else Ok 0) (\<lambda>flags.
     bind_result (SmallString_new symbol) (\<lambda>symbol.
       Ok \<lparr>ti_max_supply = max_supply, ti_flags = flags, ti_decimals = decimals, ti_owner = owner,
           ti_symbol = symbol, ti_metadata = metadata, ti_token_schemas = token_schemas\<rparr>)))"

definition build_series_info ::
    "nat \<Rightarrow> num_bigint \<Rightarrow> crypto_api \<Rightarrow> int \<Rightarrow> u32 \<Rightarrow> u32 \<Rightarrow> bytes32 \<Rightarrow> SeriesInfo result" where
  "build_series_info depth nb ca phantasma_series_id max_mint max_supply owner =
     (let schemas = prepare_standard_token_schemas False
      in bind_result (build_token_series_metadata depth nb ca (tss_series_metadata schemas)
           phantasma_series_id []) (\<lambda>metadata.
           Ok \<lparr>si_max_mint = max_mint, si_max_supply = max_supply, si_owner = owner,
               si_metadata = metadata, si_rom = empty_struct_schema, si_ram = empty_struct_schema\<rparr>))"

section \<open>Token calls\<close>

definition call_tx :: "i64 \<Rightarrow> bytes32 \<Rightarrow> TxLimits \<Rightarrow> TxMsgCall \<Rightarrow> TxMsg result" where
  "call_tx now gas_from limits inner =
     apply_tx_limits now
       \<lparr>tm_tx_type = TT_Call, tm_expiry = 0, tm_max_gas = 0, tm_max_data = 0, tm_gas_from = gas_from,
        tm_payload = empty_small_string, tm_msg = TP_Call inner\<rparr> limits"

definition token_call :: "u32 \<Rightarrow> bytes \<Rightarrow> TxMsgCall" where
  "token_call method_id args =
     \<lparr>call_module_id = MODULE_TOKEN, call_method_id = method_id, call_args = args, call_sections = None\<rparr>"

definition build_create_token_tx ::
    "num_bigint \<Rightarrow> i64 \<Rightarrow> TokenInfo \<Rightarrow> bytes32 \<Rightarrow> TxLimits \<Rightarrow> TxMsg result" where
  "build_create_token_tx nb now token_info creator limits =
     bind_result (serialize (write_TokenInfo nb) token_info) (\<lambda>args.
       call_tx now creator limits (token_call TOKEN_CREATE_TOKEN args))"

definition build_create_token_series_tx ::
    "i64 \<Rightarrow> u64 \<Rightarrow> SeriesInfo \<Rightarrow> bytes32 \<Rightarrow> TxLimits \<Rightarrow> TxMsg result" where
  "build_create_token_series_tx now token_id series_info creator limits =
     bind_result (serialize write_CreateTokenSeriesArgs \<lparr>cts_token_id = token_id, cts_info = series_info\<rparr>)
       (\<lambda>args. call_tx now creator limits (token_call TOKEN_CREATE_TOKEN_SERIES args))"

definition build_mint_phantasma_non_fungible_tx ::
    "num_bigint \<Rightarrow> i64 \<Rightarrow> u64 \<Rightarrow> bytes32 \<Rightarrow> bytes32 \<Rightarrow> PhantasmaNFTMintInfo list \<Rightarrow> TxLimits \<Rightarrow> TxMsg result" where
  "build_mint_phantasma_non_fungible_tx nb now token_id sender receiver tokens limits =
     (if tokens = [] then Err (Builder ''MintPhantasmaNonFungible needs at least one instance'')
      else bind_result (serialize (write_MintPhantasmaNonFungibleArgs nb)
             \<lparr>mpn_token_id = token_id, mpn_address = receiver, mpn_tokens = tokens\<rparr>)
        (\<lambda>args. call_tx now sender limits (token_call TOKEN_MINT_PHANTASMA_NON_FUNGIBLE args)))"

definition build_mint_phantasma_non_fungible_single_tx ::
    "num_bigint \<Rightarrow> i64 \<Rightarrow> u64 \<Rightarrow> int \<Rightarrow> bytes32 \<Rightarrow> bytes32 \<Rightarrow> bytes \<Rightarrow> bytes \<Rightarrow> TxLimits \<Rightarrow> TxMsg result" where
  "build_mint_phantasma_non_fungible_single_tx nb now token_id phantasma_series_id sender receiver
       public_rom ram limits =
     build_mint_phantasma_non_fungible_tx nb now token_id sender receiver
       [\<lparr>pmi_phantasma_series_id = IntX phantasma_series_id, pmi_rom = public_rom, pmi_ram = ram\<rparr>] limits"

section \<open>Build, plan and sign\<close>

text \<open>The steps that every \<open>_and_sign\<close> form takes around its builder.\<close>

definition built_and_signed ::
    "nat \<Rightarrow> num_bigint \<Rightarrow> crypto_api \<Rightarrow> PhantasmaKeys \<Rightarrow> GasConfig option \<Rightarrow> PlanAndSignOptions
      \<Rightarrow> (bytes32 \<Rightarrow> TxMsg result) \<Rightarrow> bytes result" where
  "built_and_signed depth nb ca signer config options build =
     bind_result (bytes32_from_public_key (array_bytes (public_key ca signer))) (\<lambda>owner.
     bind_result (build owner) (\<lambda>msg.
       plan_and_sign_with_keys depth nb ca msg [signer] config options))"

definition hex_of :: "(bytes \<Rightarrow> rstring) \<Rightarrow> bytes result \<Rightarrow> rstring result" where
  "hex_of hex r = bind_result r (\<lambda>bs. Ok (hex bs))"

definition build_create_token_tx_and_sign ::
    "nat \<Rightarrow> num_bigint \<Rightarrow> crypto_api \<Rightarrow> i64 \<Rightarrow> TokenInfo \<Rightarrow> PhantasmaKeys \<Rightarrow> GasConfig option
      \<Rightarrow> PlanAndSignOptions \<Rightarrow> bytes result" where
  "build_create_token_tx_and_sign depth nb ca now token_info signer config options =
     built_and_signed depth nb ca signer config options
       (\<lambda>creator. build_create_token_tx nb now token_info creator (ps_limits options))"

definition build_create_token_tx_and_sign_hex ::
    "(bytes \<Rightarrow> rstring) \<Rightarrow> nat \<Rightarrow> num_bigint \<Rightarrow> crypto_api \<Rightarrow> i64 \<Rightarrow> TokenInfo \<Rightarrow> PhantasmaKeys
      \<Rightarrow> GasConfig option \<Rightarrow> PlanAndSignOptions \<Rightarrow> rstring result" where
  "build_create_token_tx_and_sign_hex hex depth nb ca now token_info signer config options =
     hex_of hex (build_create_token_tx_and_sign depth nb ca now token_info signer config options)"

definition build_create_token_series_tx_and_sign ::
    "nat \<Rightarrow> num_bigint \<Rightarrow> crypto_api \<Rightarrow> i64 \<Rightarrow> u64 \<Rightarrow> SeriesInfo \<Rightarrow> PhantasmaKeys \<Rightarrow> GasConfig option
      \<Rightarrow> PlanAndSignOptions \<Rightarrow> bytes result" where
  "build_create_token_series_tx_and_sign depth nb ca now token_id series_info signer config options =
     built_and_signed depth nb ca signer config options
       (\<lambda>creator. build_create_token_series_tx now token_id series_info creator (ps_limits options))"

definition build_create_token_series_tx_and_sign_hex ::
    "(bytes \<Rightarrow> rstring) \<Rightarrow> nat \<Rightarrow> num_bigint \<Rightarrow> crypto_api \<Rightarrow> i64 \<Rightarrow> u64 \<Rightarrow> SeriesInfo \<Rightarrow> PhantasmaKeys
      \<Rightarrow> GasConfig option \<Rightarrow> PlanAndSignOptions \<Rightarrow> rstring result" where
  "build_create_token_series_tx_and_sign_hex hex depth nb ca now token_id series_info signer config options =
     hex_of hex (build_create_token_series_tx_and_sign depth nb ca now token_id series_info signer config options)"

definition build_mint_phantasma_non_fungible_tx_and_sign ::
    "nat \<Rightarrow> num_bigint \<Rightarrow> crypto_api \<Rightarrow> i64 \<Rightarrow> u64 \<Rightarrow> PhantasmaKeys \<Rightarrow> bytes32 \<Rightarrow> PhantasmaNFTMintInfo list
      \<Rightarrow> GasConfig option \<Rightarrow> PlanAndSignOptions \<Rightarrow> bytes result" where
  "build_mint_phantasma_non_fungible_tx_and_sign depth nb ca now token_id signer receiver tokens config options =
     built_and_signed depth nb ca signer config options
       (\<lambda>sender. build_mint_phantasma_non_fungible_tx nb now token_id sender receiver tokens (ps_limits options))"

definition build_mint_phantasma_non_fungible_tx_and_sign_hex ::
    "(bytes \<Rightarrow> rstring) \<Rightarrow> nat \<Rightarrow> num_bigint \<Rightarrow> crypto_api \<Rightarrow> i64 \<Rightarrow> u64 \<Rightarrow> PhantasmaKeys \<Rightarrow> bytes32
      \<Rightarrow> PhantasmaNFTMintInfo list \<Rightarrow> GasConfig option \<Rightarrow> PlanAndSignOptions \<Rightarrow> rstring result" where
  "build_mint_phantasma_non_fungible_tx_and_sign_hex hex depth nb ca now token_id signer receiver tokens
       config options =
     hex_of hex (build_mint_phantasma_non_fungible_tx_and_sign depth nb ca now token_id signer receiver
       tokens config options)"

definition build_mint_phantasma_non_fungible_single_tx_and_sign ::
    "nat \<Rightarrow> num_bigint \<Rightarrow> crypto_api \<Rightarrow> i64 \<Rightarrow> u64 \<Rightarrow> int \<Rightarrow> PhantasmaKeys \<Rightarrow> bytes32 \<Rightarrow> bytes \<Rightarrow> bytes
      \<Rightarrow> GasConfig option \<Rightarrow> PlanAndSignOptions \<Rightarrow> bytes result" where
  "build_mint_phantasma_non_fungible_single_tx_and_sign depth nb ca now token_id phantasma_series_id signer
       receiver public_rom ram config options =
     built_and_signed depth nb ca signer config options
       (\<lambda>sender. build_mint_phantasma_non_fungible_single_tx nb now token_id phantasma_series_id sender
          receiver public_rom ram (ps_limits options))"

definition build_mint_phantasma_non_fungible_single_tx_and_sign_hex ::
    "(bytes \<Rightarrow> rstring) \<Rightarrow> nat \<Rightarrow> num_bigint \<Rightarrow> crypto_api \<Rightarrow> i64 \<Rightarrow> u64 \<Rightarrow> int \<Rightarrow> PhantasmaKeys \<Rightarrow> bytes32
      \<Rightarrow> bytes \<Rightarrow> bytes \<Rightarrow> GasConfig option \<Rightarrow> PlanAndSignOptions \<Rightarrow> rstring result" where
  "build_mint_phantasma_non_fungible_single_tx_and_sign_hex hex depth nb ca now token_id phantasma_series_id
       signer receiver public_rom ram config options =
     hex_of hex (build_mint_phantasma_non_fungible_single_tx_and_sign depth nb ca now token_id
       phantasma_series_id signer receiver public_rom ram config options)"

definition sign_and_serialize_tx_msg_hex ::
    "(bytes \<Rightarrow> rstring) \<Rightarrow> num_bigint \<Rightarrow> crypto_api \<Rightarrow> TxMsg \<Rightarrow> PhantasmaKeys \<Rightarrow> rstring result" where
  "sign_and_serialize_tx_msg_hex hex nb ca msg keys = hex_of hex (sign_and_serialize_tx_msg nb ca msg keys)"

end
