(* ===== verification/TokenCreation.thy ===== *)
theory TokenCreation
  imports RpcSend CarbonBuild
begin

text \<open>
  From the description of a token to the message on the wire: what \<open>build_token_info\<close> puts into the record
  (\<open>src/src/carbon.rs\<close>) is what the signed \<open>CreateToken\<close> message carries and what the pre-flight check of the
  client (\<open>src/src/rpc.rs\<close>) asks the node about.
\<close>

section \<open>The record of a token\<close>

lemma build_token_info_Ok:
  assumes "build_token_info symbol max_supply is_nft decimals owner metadata token_schemas = Ok info"
  shows "ti_symbol info = SmallString symbol" "string_bytes symbol \<noteq> []" "length (string_bytes symbol) \<le> 255"
    "flags_contain (ti_flags info) NON_FUNGIBLE \<longleftrightarrow> is_nft" "ti_max_supply info = max_supply"
    "ti_metadata info = metadata" "ti_token_schemas info = token_schemas"
  using assms
  by (auto simp: build_token_info_def check_token_symbol_def SmallString_new_def bind_result_eq_Ok
      flags_contain_def NON_FUNGIBLE_def BIG_FUNGIBLE_def split: if_split_asm)

lemma token_info_reads:
  assumes nb: "num_bigint_api nb" and small: "small_string_ok (ti_symbol info)"
    and fit: "intx_ok (ti_max_supply info)" "fits_length (length (ti_metadata info))"
      "fits_length (length (ti_token_schemas info))"
    and args: "serialize (write_TokenInfo nb) info = Ok args"
  shows "deserialize (read_TokenInfo nb) args =
    Ok (if flags_contain (ti_flags info) NON_FUNGIBLE then info else info\<lparr>ti_token_schemas := []\<rparr>)"
proof -
  let ?v = "if flags_contain (ti_flags info) NON_FUNGIBLE then info else info\<lparr>ti_token_schemas := []\<rparr>"
  have "TokenInfo_ok ?v" using small fit by (simp add: TokenInfo_ok_def fits_length_def)
  then have "bind_result (serialize (write_TokenInfo nb) ?v) (deserialize (read_TokenInfo nb)) = Ok ?v"
    using TokenInfo_codec.deserialize_serialize [of nb ?v] nb by blast
  moreover have "serialize (write_TokenInfo nb) ?v = Ok args"
  proof -
    have "write_TokenInfo nb ?v = write_TokenInfo nb info" by (simp add: write_TokenInfo_def del: wr_seq.simps)
    then have "serialize (write_TokenInfo nb) ?v = serialize (write_TokenInfo nb) info" by (simp only: serialize_def)
    then show ?thesis by (simp only: args)
  qed
  ultimately show ?thesis by (simp only: bind_result.simps)
qed

section \<open>The message of a call\<close>

lemma call_tx_Ok:
  assumes "call_tx now gas_from limits inner = Ok msg"
  shows "tm_tx_type msg = TT_Call" "tm_msg msg = TP_Call inner" "tm_gas_from msg = gas_from"
    "tm_payload msg = empty_small_string" "tm_max_gas msg = lim_max_gas limits"
  using assms by (auto simp: call_tx_def apply_tx_limits_def bind_result_eq_Ok)

lemma signed_call_reads:
  assumes nb: "num_bigint_api nb" and inner: "call_sections inner = None" "fits_length (length (call_args inner))"
    and msg: "call_tx now gas_from limits inner = Ok msg"
    and signed: "plan_and_sign_with_keys depth nb ca msg [signer] config options = Ok bytes"
  shows "\<exists>stx. deserialize (read_SignedTxMsg nb) bytes = Ok stx \<and> tm_tx_type (sm_msg stx) = TT_Call
    \<and> tm_msg (sm_msg stx) = TP_Call inner \<and> tm_gas_from (sm_msg stx) = gas_from \<and> tm_max_gas (sm_msg stx) \<noteq> 0"
proof -
  note msg = call_tx_Ok [OF msg]
  have keys: "fits_length (length [signer])" by (simp add: fits_length_def)
  obtain m stx where m: "m = msg \<or> (\<exists>plan. m = plan_apply plan msg)"
    and stx: "sign_tx_msg_with_keys nb ca m [signer] = Ok stx" "serialize (write_SignedTxMsg nb) stx = Ok bytes"
    using signed
    by (auto simp: plan_and_sign_with_keys_def sign_and_serialize_tx_msg_with_keys_def bind_result_eq_Ok
        split: if_split_asm option.splits)
  from m msg have fields: "tm_tx_type m = TT_Call" "tm_msg m = TP_Call inner" "tm_gas_from m = gas_from"
    "tm_payload m = empty_small_string"
    by (auto simp: plan_apply_def)
  moreover have "small_string_ok empty_small_string" by code_simp
  ultimately have "TxMsg_ok m" using inner by (simp add: TxMsg_ok_def TxMsgCall_ok_def)
  then have "SignedTxMsg_ok stx"
    using sign_with_keys_witnesses_ok [OF stx(1) keys] by (simp add: SignedTxMsg_ok_def)
  then have "deserialize (read_SignedTxMsg nb) bytes = Ok stx"
    using SignedTxMsg_codec.deserialize_serialize [of nb stx] nb stx(2) by auto
  moreover have "tm_max_gas m \<noteq> 0"
    using stx(1) by (auto simp: sign_tx_msg_with_keys_def assert_signable_def bind_result_eq_Ok split: if_split_asm)
  ultimately show ?thesis using sign_with_keys_witnesses_ok(2) [OF stx(1) keys] fields by auto
qed

section \<open>Properties\<close>

text \<open>C6: A token built, planned if its limits leave the gas open, and signed is on the wire the token that
  was described: the envelope reads back as a \<open>CreateToken\<close> call of the creator with a gas offer, its
  arguments read back as the record, without the schemas a fungible token does not carry, and the pre-flight
  check of the message asks about exactly the symbol that was given.\<close>

theorem created_token_is_the_one_described:
  assumes nb: "num_bigint_api nb"
    and info: "build_token_info symbol max_supply is_nft decimals owner metadata token_schemas = Ok info"
    and fit: "intx_ok max_supply" "fits_length (length metadata)" "fits_length (length token_schemas)"
    and args: "serialize (write_TokenInfo nb) info = Ok args" "fits_length (length args)"
    and built: "build_create_token_tx_and_sign depth nb ca now info signer config options = Ok bytes"
  shows "\<exists>stx inner. deserialize (read_SignedTxMsg nb) bytes = Ok stx
    \<and> tm_gas_from (sm_msg stx) = public_key ca signer \<and> tm_max_gas (sm_msg stx) \<noteq> 0
    \<and> creates_token (sm_msg stx) = Some inner
    \<and> deserialize (read_TokenInfo nb) (call_args inner) =
        Ok (if is_nft then info else info\<lparr>ti_token_schemas := []\<rparr>)
    \<and> preflight_transaction nb ra (sm_msg stx) = preflight_symbol ra symbol"
proof -
  note info = build_token_info_Ok [OF info]
  have small: "small_string_ok (ti_symbol info)" using info(1,3) by (simp add: small_string_ok_def)
  have reads: "deserialize (read_TokenInfo nb) args = Ok (if is_nft then info else info\<lparr>ti_token_schemas := []\<rparr>)"
    using token_info_reads [OF nb small _ _ _ args(1)] fit info by simp
  obtain msg where msg: "call_tx now (public_key ca signer) (ps_limits options) (token_call TOKEN_CREATE_TOKEN args) = Ok msg"
    "plan_and_sign_with_keys depth nb ca msg [signer] config options = Ok bytes"
    using built args(1)
    by (auto simp: build_create_token_tx_and_sign_def built_and_signed_def build_create_token_tx_def
        bytes32_from_public_key_def try_from_slice_def bind_result_eq_Ok split: if_split_asm)
  obtain stx where stx: "deserialize (read_SignedTxMsg nb) bytes = Ok stx" "tm_tx_type (sm_msg stx) = TT_Call"
    "tm_msg (sm_msg stx) = TP_Call (token_call TOKEN_CREATE_TOKEN args)"
    "tm_gas_from (sm_msg stx) = public_key ca signer" "tm_max_gas (sm_msg stx) \<noteq> 0"
    using signed_call_reads [OF nb _ _ msg] args(2) by (auto simp: token_call_def)
  have creates: "creates_token (sm_msg stx) = Some (token_call TOKEN_CREATE_TOKEN args)"
    using stx(2,3) by (simp add: creates_token_def token_call_def)
  have "symbol \<noteq> lit ''''" using info(2) by (auto simp: lit_def)
  then have "preflight_transaction nb ra (sm_msg stx) = preflight_symbol ra symbol"
    using creates reads info(1)
    by (auto simp: preflight_transaction_def token_call_def fun_eq_iff op_bind_def op_case_def op_lift_def Let_def)
  with stx creates reads show ?thesis by (auto simp: token_call_def)
qed

definition sample_limits :: TxLimits where
  "sample_limits = \<lparr>lim_max_gas = 1000000, lim_max_data = 5, lim_expiry = 1700000000000\<rparr>"

definition sample_sign_options :: PlanAndSignOptions where
  "sample_sign_options = \<lparr>ps_facts = default_plan_options, ps_limits = sample_limits\<rparr>"

definition described_token :: "TokenInfo result" where
  "described_token =
     build_token_info (lit ''GPX'') (IntX 0) False 8 (array_of (replicate 32 7)) [1, 2, 3] []"

theorem created_token_is_the_one_described_witness:
  "\<exists>info bytes stx. described_token = Ok info \<and> ti_flags info = BIG_FUNGIBLE \<and>
     build_create_token_tx_and_sign 4 num_bigint_std crypto_model 0 info sample_keys None sample_sign_options = Ok bytes \<and>
     deserialize (read_SignedTxMsg num_bigint_std) bytes = Ok stx \<and>
     preflight_transaction num_bigint_std sample_node (sm_msg stx) = preflight_symbol sample_node (lit ''GPX'')"
proof -
  have "case described_token of
      Ok info \<Rightarrow> ti_flags info = BIG_FUNGIBLE \<and>
        (case serialize (write_TokenInfo num_bigint_std) info of Ok args \<Rightarrow> fits_length (length args) | _ \<Rightarrow> False) \<and>
        (case build_create_token_tx_and_sign 4 num_bigint_std crypto_model 0 info sample_keys None sample_sign_options of
           Ok _ \<Rightarrow> True | _ \<Rightarrow> False)
    | _ \<Rightarrow> False"
    by code_simp
  then obtain info args bytes where ev: "described_token = Ok info" "ti_flags info = BIG_FUNGIBLE"
    "serialize (write_TokenInfo num_bigint_std) info = Ok args" "fits_length (length args)"
    "build_create_token_tx_and_sign 4 num_bigint_std crypto_model 0 info sample_keys None sample_sign_options = Ok bytes"
    by (auto split: result.splits)
  have fit: "intx_ok (IntX 0)" "fits_length (length [1 :: u8, 2, 3])" "fits_length (length ([] :: bytes))"
    by (simp_all add: intx_ok_def fits_length_def)
  from created_token_is_the_one_described [OF num_bigint_std.num_bigint_api_axioms
      ev(1) [unfolded described_token_def] fit ev(3-5), of sample_node] ev
  show ?thesis by blast
qed

end
