(* ===== verification/HttpTransport.thy ===== *)
theory HttpTransport
  imports RpcClient
begin

text \<open>
  The default transport of the client (\<open>ReqwestTransport\<close> in \<open>src/src/rpc.rs\<close>): one POST request with an
  optional API key, and the reading of the answer's body chunk by chunk under a size limit. The \<open>reqwest\<close>
  client and the JSON parser are the parameters \<open>http_api\<close>; an answer is its status, its announced length
  and what each call of \<open>chunk\<close> gives. A server may send chunks for ever, so the loop over them is a partial
  function whose value \<open>None\<close> is that it does not return.
\<close>

section \<open>Requests and answers\<close>

record http_response =
  hr_status :: u16
  hr_content_length :: "u64 option"
  hr_chunk :: "nat \<Rightarrow> bytes option result"

record 'c http_api =
  http_send :: "'c \<Rightarrow> rstring \<Rightarrow> json \<Rightarrow> nat \<Rightarrow> (rstring \<times> rstring) list \<Rightarrow> http_response result \<times> 'c"
  http_json_parse :: "rstring \<Rightarrow> json option"

definition DEFAULT_MAX_RPC_RESPONSE_BYTES :: u64 where
  "DEFAULT_MAX_RPC_RESPONSE_BYTES = 16 * 1024 * 1024"

definition API_KEY_HEADER :: rstring where
  "API_KEY_HEADER = lit ''X-Api-Key''"

record 'c ReqwestTransport =
  rt_client :: 'c
  rt_max_response_bytes :: u64
  rt_api_key :: "rstring option"

definition ReqwestTransport_default :: "'c \<Rightarrow> 'c ReqwestTransport" where
  "ReqwestTransport_default client =
     \<lparr>rt_client = client, rt_max_response_bytes = DEFAULT_MAX_RPC_RESPONSE_BYTES, rt_api_key = None\<rparr>"

definition transport_with_api_key :: "'c ReqwestTransport \<Rightarrow> rstring \<Rightarrow> 'c ReqwestTransport" where
  "transport_with_api_key t api_key = t\<lparr>rt_api_key := Some api_key\<rparr>"

section \<open>Reading an answer\<close>

definition too_long :: "u64 \<Rightarrow> 'a result" where
  "too_long max_bytes = Err (Rpc None (''response body exceeds '' @ nat_chars (unat max_bytes) @ '' bytes''))"

text \<open>The loop: \<open>i\<close> counts the calls of \<open>chunk\<close>, \<open>body\<close> is what has been read; the sum of the lengths
  saturates at the largest \<open>usize\<close>.\<close>

partial_function (option) read_chunks ::
    "(nat \<Rightarrow> bytes option result) \<Rightarrow> u64 \<Rightarrow> nat \<Rightarrow> bytes \<Rightarrow> bytes result option" where
  "read_chunks chunk max_bytes i body =
     (case chunk i of
        Err e \<Rightarrow> Some (Err e)
      | Panic p \<Rightarrow> Some (Panic p)
      | Ok None \<Rightarrow> Some (Ok body)
      | Ok (Some c) \<Rightarrow>
          if min (length body + length c) (2 ^ 64 - 1) > unat max_bytes then Some (too_long max_bytes)
          else read_chunks chunk max_bytes (Suc i) (body @ c))"

definition read_limited_response_text :: "http_response \<Rightarrow> u64 \<Rightarrow> (u16 \<times> rstring) result option" where
  "read_limited_response_text response max_bytes =
     (if max_bytes = 0 then Some (Err (Rpc None ''max response size must be positive''))
      else if (case hr_content_length response of Some n \<Rightarrow> n > max_bytes | None \<Rightarrow> False)
      then Some (too_long max_bytes)
      else map_option
        (\<lambda>r. bind_result r (\<lambda>body.
           case from_utf8 body of
             None \<Rightarrow> Err (Rpc None ''response body is not valid UTF-8: '')
           | Some text \<Rightarrow> Ok (hr_status response, text)))
        (read_chunks (hr_chunk response) max_bytes 0 []))"

definition parse_body :: "(rstring \<Rightarrow> json option) \<Rightarrow> u16 \<Rightarrow> rstring \<Rightarrow> (u16 \<times> json) result" where
  "parse_body parse status text =
     (case parse text of
        Some v \<Rightarrow> Ok (status, v)
      | None \<Rightarrow>
          if status \<ge> 400
          then Err (Rpc None (http_status status @ '': response body is not valid JSON: ''))
          else Err (Rpc None ''response body is not valid JSON: ''))"

definition request_headers :: "'c ReqwestTransport \<Rightarrow> (rstring \<times> rstring) list" where
  "request_headers t = (case rt_api_key t of Some api_key \<Rightarrow> [(API_KEY_HEADER, api_key)] | None \<Rightarrow> [])"

definition post_json ::
    "'c http_api \<Rightarrow> 'c ReqwestTransport \<Rightarrow> rstring \<Rightarrow> json \<Rightarrow> nat
      \<Rightarrow> ((u16 \<times> json) result \<times> 'c ReqwestTransport) option" where
  "post_json ha t url body timeout =
     (case http_send ha (rt_client t) url body timeout (request_headers t) of
        (sent, client) \<Rightarrow>
          let t' = t\<lparr>rt_client := client\<rparr>
          in case sent of
               Err e \<Rightarrow> Some (Err e, t')
             | Panic p \<Rightarrow> Some (Panic p, t')
             | Ok response \<Rightarrow>
                 map_option
                   (\<lambda>r. (bind_result r (\<lambda>(status, text). parse_body (http_json_parse ha) status text), t'))
                   (read_limited_response_text response (rt_max_response_bytes t)))"

section \<open>Clients on the default transport\<close>

definition client_new :: "'c \<Rightarrow> rstring \<Rightarrow> 'c ReqwestTransport PhantasmaRpc" where
  "client_new client endpoint = with_transport endpoint (ReqwestTransport_default client)"

definition client_mainnet :: "'c \<Rightarrow> 'c ReqwestTransport PhantasmaRpc" where
  "client_mainnet client = client_new client (lit ''https://pharpc1.phantasma.info/rpc'')"

definition client_testnet :: "'c \<Rightarrow> 'c ReqwestTransport PhantasmaRpc" where
  "client_testnet client = client_new client (lit ''https://testnet.phantasma.info/rpc'')"

definition with_max_response_bytes ::
    "'c ReqwestTransport PhantasmaRpc \<Rightarrow> u64 \<Rightarrow> 'c ReqwestTransport PhantasmaRpc" where
  "with_max_response_bytes c max_bytes =
     c\<lparr>rc_transport := (rc_transport c)\<lparr>rt_max_response_bytes := max_bytes\<rparr>\<rparr>"

definition with_api_key :: "'c ReqwestTransport PhantasmaRpc \<Rightarrow> rstring \<Rightarrow> 'c ReqwestTransport PhantasmaRpc" where
  "with_api_key c api_key = c\<lparr>rc_transport := (rc_transport c)\<lparr>rt_api_key := Some api_key\<rparr>\<rparr>"

section \<open>What is read\<close>

text \<open>The bytes of the chunks before the \<open>n\<close>-th call.\<close>

definition chunk_bytes :: "(nat \<Rightarrow> bytes option result) \<Rightarrow> nat \<Rightarrow> bytes" where
  "chunk_bytes chunk i = (case chunk i of Ok (Some c) \<Rightarrow> c | _ \<Rightarrow> [])"

definition received :: "(nat \<Rightarrow> bytes option result) \<Rightarrow> nat \<Rightarrow> bytes" where
  "received chunk n = concat (map (chunk_bytes chunk) [0..<n])"

lemma received_Suc: "received chunk (Suc n) = received chunk n @ chunk_bytes chunk n"
  by (simp add: received_def)

lemma received_mono: "m \<le> n \<Longrightarrow> length (received chunk m) \<le> length (received chunk n)"
  by (induction n) (auto simp: received_Suc le_Suc_eq)

text \<open>The first \<open>n\<close> calls give chunks, and their bytes do not pass the limit; the sum saturates, so that
  nothing passes the largest \<open>usize\<close>.\<close>

definition arrived :: "(nat \<Rightarrow> bytes option result) \<Rightarrow> nat \<Rightarrow> bool" where
  "arrived chunk n \<longleftrightarrow> (\<forall>i<n. \<exists>c. chunk i = Ok (Some c))"

definition within_limit :: "(nat \<Rightarrow> bytes option result) \<Rightarrow> u64 \<Rightarrow> nat \<Rightarrow> bool" where
  "within_limit chunk max_bytes n \<longleftrightarrow> min (length (received chunk n)) (2 ^ 64 - 1) \<le> unat max_bytes"

lemma arrived_simps [simp]:
  "arrived chunk 0" "arrived chunk (Suc n) \<longleftrightarrow> arrived chunk n \<and> (\<exists>c. chunk n = Ok (Some c))"
  by (auto simp: arrived_def less_Suc_eq)

lemma within_limit_0 [simp]: "within_limit chunk max_bytes 0"
  by (simp add: within_limit_def received_def)

lemma within_limit_mono: "within_limit chunk max_bytes n \<Longrightarrow> m \<le> n \<Longrightarrow> within_limit chunk max_bytes m"
  using received_mono [of m n chunk] by (auto simp: within_limit_def min_le_iff_disj)

text \<open>The call that ends the loop, and what the loop then gives.\<close>

definition ends_at :: "(nat \<Rightarrow> bytes option result) \<Rightarrow> u64 \<Rightarrow> nat \<Rightarrow> bytes result \<Rightarrow> bool" where
  "ends_at chunk max_bytes n r \<longleftrightarrow>
     arrived chunk n \<and> within_limit chunk max_bytes n \<and>
     (case chunk n of
        Err e \<Rightarrow> r = Err e
      | Panic p \<Rightarrow> r = Panic p
      | Ok None \<Rightarrow> r = Ok (received chunk n)
      | Ok (Some c) \<Rightarrow> \<not> within_limit chunk max_bytes (Suc n) \<and> r = too_long max_bytes)"

lemma ends_at_Ok:
  "ends_at chunk max_bytes n (Ok body) \<longleftrightarrow>
     arrived chunk n \<and> within_limit chunk max_bytes n \<and> chunk n = Ok None \<and> body = received chunk n"
  by (cases "chunk n") (auto simp: ends_at_def too_long_def split: option.splits)

lemma read_chunks_step:
  "read_chunks chunk max_bytes i (received chunk i) =
     (case chunk i of
        Err e \<Rightarrow> Some (Err e)
      | Panic p \<Rightarrow> Some (Panic p)
      | Ok None \<Rightarrow> Some (Ok (received chunk i))
      | Ok (Some c) \<Rightarrow>
          if within_limit chunk max_bytes (Suc i) then read_chunks chunk max_bytes (Suc i) (received chunk (Suc i))
          else Some (too_long max_bytes))"
  by (subst read_chunks.simps)
    (auto simp: within_limit_def received_Suc chunk_bytes_def not_less split: result.split option.split)

lemma read_chunks_ends:
  assumes "read_chunks chunk max_bytes i body = Some r" and "body = received chunk i"
    and "arrived chunk i" and "within_limit chunk max_bytes i"
  shows "\<exists>n. ends_at chunk max_bytes n r"
  using assms
proof (induction rule: read_chunks.raw_induct [rotated 1, consumes 1])
  case (1 loop chunk max_bytes i body r)
  show ?case
  proof (cases "\<exists>c. chunk i = Ok (Some c) \<and> within_limit chunk max_bytes (Suc i)")
    case True
    then obtain c where c: "chunk i = Ok (Some c)" "within_limit chunk max_bytes (Suc i)" by blast
    then have "\<not> min (length body + length c) (2 ^ 64 - 1) > unat max_bytes"
      using "1.prems"(1) by (simp add: within_limit_def received_Suc chunk_bytes_def not_less min_le_iff_disj)
    with c "1.hyps" have "loop chunk max_bytes (Suc i) (body @ c) = Some r" by (simp split: if_split_asm)
    moreover have "body @ c = received chunk (Suc i)" using "1.prems"(1) c by (simp add: received_Suc chunk_bytes_def)
    ultimately show ?thesis using "1.IH" "1.prems" c by simp
  next
    case False
    then have "ends_at chunk max_bytes i r"
      using "1.hyps" "1.prems"
      by (auto simp: ends_at_def within_limit_def received_Suc chunk_bytes_def min_le_iff_disj
          split: result.splits option.splits if_split_asm)
    then show ?thesis ..
  qed
qed

lemma ends_at_read_chunks:
  assumes "ends_at chunk max_bytes n r" and "i \<le> n"
  shows "read_chunks chunk max_bytes i (received chunk i) = Some r"
  using assms(2)
proof (induction i rule: inc_induct)
  case base
  show ?case
    using assms(1) by (simp add: read_chunks_step [of _ _ n] ends_at_def split: result.splits option.splits)
next
  case (step i)
  have "\<exists>c. chunk i = Ok (Some c)" "within_limit chunk max_bytes (Suc i)"
    using assms(1) step.hyps within_limit_mono [of chunk max_bytes n "Suc i"] by (auto simp: ends_at_def arrived_def)
  with step.IH show ?case by (auto simp: read_chunks_step [of _ _ i])
qed

lemma read_chunks_Some:
  "read_chunks chunk max_bytes 0 [] = Some r \<longleftrightarrow> (\<exists>n. ends_at chunk max_bytes n r)"
proof -
  have start: "[] = received chunk 0" by (simp add: received_def)
  show ?thesis
    using read_chunks_ends [of chunk max_bytes 0 "[]" r, OF _ start] ends_at_read_chunks [of chunk max_bytes _ r 0]
    by (auto simp: received_def)
qed

lemma read_chunks_None:
  "read_chunks chunk max_bytes 0 [] = None \<longleftrightarrow> (\<forall>n. arrived chunk n \<and> within_limit chunk max_bytes n)"
proof
  assume "read_chunks chunk max_bytes 0 [] = None"
  then have none: "\<not> ends_at chunk max_bytes n r" for n r using read_chunks_Some [of chunk max_bytes r] by auto
  show "\<forall>n. arrived chunk n \<and> within_limit chunk max_bytes n"
  proof
    fix n
    show "arrived chunk n \<and> within_limit chunk max_bytes n"
    proof (induction n)
      case (Suc n)
      have "\<exists>r. ends_at chunk max_bytes n r" if "\<nexists>c. chunk n = Ok (Some c) \<and> within_limit chunk max_bytes (Suc n)"
        using Suc that by (cases "chunk n") (auto simp: ends_at_def split: option.splits)
      with none Suc show ?case by auto
    qed simp
  qed
next
  assume all: "\<forall>n. arrived chunk n \<and> within_limit chunk max_bytes n"
  have "\<not> ends_at chunk max_bytes n r" for n r
  proof -
    have "\<exists>c. chunk n = Ok (Some c)" "within_limit chunk max_bytes (Suc n)"
      using all arrived_simps(2) [of chunk n] by blast+
    then show ?thesis by (auto simp: ends_at_def)
  qed
  then show "read_chunks chunk max_bytes 0 [] = None" using read_chunks_Some by (metis not_None_eq)
qed

lemma exceeding_ends:
  assumes "arrived chunk n" and "\<not> within_limit chunk max_bytes n"
  shows "\<exists>m. ends_at chunk max_bytes m (too_long max_bytes)"
proof -
  obtain m where m: "m < n" "within_limit chunk max_bytes m" "\<not> within_limit chunk max_bytes (Suc m)"
    using ex_least_nat_less [of "\<lambda>k. \<not> within_limit chunk max_bytes k" n] assms(2) by auto
  moreover have "arrived chunk m" "\<exists>c. chunk m = Ok (Some c)" using assms(1) m(1) by (auto simp: arrived_def)
  ultimately show ?thesis by (auto simp: ends_at_def)
qed

section \<open>Properties\<close>

text \<open>C13: Reading an answer fails to return exactly when its announced length is admitted and the server sends
  chunks for ever whose bytes together never pass the limit. It gives a text exactly when the chunks come to an
  end within the limit, and then the text is the status and the bytes of all of them; a server whose chunks pass the limit
  gets the error, however long it would go on.\<close>

theorem limited_read_returns:
  "(read_limited_response_text response max_bytes = None \<longleftrightarrow>
      max_bytes \<noteq> 0 \<and> (\<forall>n. hr_content_length response = Some n \<longrightarrow> n \<le> max_bytes) \<and>
      (\<forall>n. arrived (hr_chunk response) n \<and> within_limit (hr_chunk response) max_bytes n)) \<and>
   (read_limited_response_text response max_bytes = Some (Ok (status, text)) \<longleftrightarrow>
      max_bytes \<noteq> 0 \<and> (\<forall>n. hr_content_length response = Some n \<longrightarrow> n \<le> max_bytes) \<and>
      status = hr_status response \<and>
      (\<exists>n. arrived (hr_chunk response) n \<and> within_limit (hr_chunk response) max_bytes n \<and>
         hr_chunk response n = Ok None \<and> string_bytes text = received (hr_chunk response) n)) \<and>
   (max_bytes \<noteq> 0 \<and> (\<exists>n. arrived (hr_chunk response) n \<and> \<not> within_limit (hr_chunk response) max_bytes n) \<longrightarrow>
      read_limited_response_text response max_bytes = Some (too_long max_bytes))"
proof (intro conjI)
  let ?chunk = "hr_chunk response"
  let ?admitted = "max_bytes \<noteq> 0 \<and> (\<forall>n. hr_content_length response = Some n \<longrightarrow> n \<le> max_bytes)"
  show "read_limited_response_text response max_bytes = None \<longleftrightarrow>
      max_bytes \<noteq> 0 \<and> (\<forall>n. hr_content_length response = Some n \<longrightarrow> n \<le> max_bytes) \<and>
      (\<forall>n. arrived ?chunk n \<and> within_limit ?chunk max_bytes n)"
    unfolding read_chunks_None [symmetric] by (auto simp: read_limited_response_text_def not_less split: option.split)
  have read_text: "read_limited_response_text response max_bytes = Some (Ok (status, text)) \<longleftrightarrow>
      ?admitted \<and> status = hr_status response \<and>
      read_chunks ?chunk max_bytes 0 [] = Some (Ok (string_bytes text))"
    by (cases "read_chunks ?chunk max_bytes 0 []"; cases "hr_content_length response")
      (auto simp: read_limited_response_text_def too_long_def bind_result_eq_Ok from_utf8_eq_Some not_less
        split: option.splits intro!: exI [of _ "string_bytes text"] dest: string_bytes_inject [THEN iffD1])
  show "read_limited_response_text response max_bytes = Some (Ok (status, text)) \<longleftrightarrow>
      max_bytes \<noteq> 0 \<and> (\<forall>n. hr_content_length response = Some n \<longrightarrow> n \<le> max_bytes) \<and>
      status = hr_status response \<and>
      (\<exists>n. arrived ?chunk n \<and> within_limit ?chunk max_bytes n \<and>
         ?chunk n = Ok None \<and> string_bytes text = received ?chunk n)"
    unfolding read_text read_chunks_Some ends_at_Ok by blast
  show "max_bytes \<noteq> 0 \<and> (\<exists>n. arrived ?chunk n \<and> \<not> within_limit ?chunk max_bytes n) \<longrightarrow>
      read_limited_response_text response max_bytes = Some (too_long max_bytes)"
    using exceeding_ends [of ?chunk] read_chunks_Some [of ?chunk max_bytes "too_long max_bytes"]
    by (fastforce simp: read_limited_response_text_def too_long_def split: option.split)
qed

definition endless_response :: "bytes \<Rightarrow> http_response" where
  "endless_response c = \<lparr>hr_status = 200, hr_content_length = None, hr_chunk = (\<lambda>i. Ok (Some c))\<rparr>"

lemma endless_chunks:
  "arrived (hr_chunk (endless_response c)) n"
  "length (received (hr_chunk (endless_response c)) n) = n * length c"
  by (induction n) (simp_all add: endless_response_def received_Suc chunk_bytes_def received_def [of _ 0])

theorem limited_read_returns_witness:
  "read_limited_response_text (endless_response [65]) 1000 = Some (too_long 1000) \<and>
   read_limited_response_text (endless_response []) 1000 = None"
proof (rule conjI)
  have "\<not> within_limit (hr_chunk (endless_response [65])) 1000 1001"
    by (simp add: within_limit_def endless_chunks)
  then show "read_limited_response_text (endless_response [65]) 1000 = Some (too_long 1000)"
    using limited_read_returns [of "endless_response [65]" 1000] endless_chunks(1) by force
  have "within_limit (hr_chunk (endless_response [])) 1000 n" for n
    by (simp add: within_limit_def endless_chunks)
  then show "read_limited_response_text (endless_response []) 1000 = None"
    using limited_read_returns [of "endless_response []" 1000] endless_chunks(1) [of "[]"]
    by (auto simp: endless_response_def)
qed

end
